(* ===== verification/Prelude.thy ===== *)
theory Prelude imports Main "HOL-Library.Multiset" begin

text \<open>
  Shared vocabulary of the development.  Two collections of rules drive the component
  proofs: \<open>run_simps\<close> holds the equations that execute a program against its world, and
  \<open>frame_simps\<close> holds the facts that say which parts of a world an action leaves alone.
  The rest are generic facts on lists, options and sums that several components use.
\<close>

named_theorems run_simps "equations that execute a program"
named_theorems frame_simps "what an action leaves unchanged"

type_synonym ('e, 'a) res = "'e + 'a"

abbreviation is_ok :: "('e, 'a) res \<Rightarrow> bool" where
  "is_ok r \<equiv> \<not> isl r"

section \<open>Lists searched by a key\<close>

text \<open>
  Tables are lists of rows in insertion order; a row is found and replaced by its key.
\<close>

definition find_by :: "('r \<Rightarrow> 'k) \<Rightarrow> 'k \<Rightarrow> 'r list \<Rightarrow> 'r option" where
  "find_by key k rs = find (\<lambda>r. key r = k) rs"

definition update_by :: "('r \<Rightarrow> 'k) \<Rightarrow> 'k \<Rightarrow> ('r \<Rightarrow> 'r) \<Rightarrow> 'r list \<Rightarrow> 'r list" where
  "update_by key k f rs = map (\<lambda>r. if key r = k then f r else r) rs"

lemma find_by_Nil [simp]: "find_by key k [] = None"
  by (simp add: find_by_def)

lemma find_by_Cons [simp]:
  "find_by key k (r # rs) = (if key r = k then Some r else find_by key k rs)"
  by (simp add: find_by_def)

lemma update_by_Nil [simp]: "update_by key k f [] = []"
  by (simp add: update_by_def)

lemma update_by_Cons [simp]:
  "update_by key k f (r # rs) = (if key r = k then f r else r) # update_by key k f rs"
  by (simp add: update_by_def)

lemma find_by_append:
  "find_by key k (xs @ ys) = (case find_by key k xs of None \<Rightarrow> find_by key k ys | Some r \<Rightarrow> Some r)"
  by (induction xs) auto

lemma find_by_SomeD: "find_by key k rs = Some r \<Longrightarrow> r \<in> set rs \<and> key r = k"
  by (induction rs) (auto split: if_splits)

lemma find_by_None_iff: "find_by key k rs = None \<longleftrightarrow> k \<notin> key ` set rs"
  by (induction rs) auto

lemma find_by_distinct: "distinct (map key rs) \<Longrightarrow> r \<in> set rs \<Longrightarrow> find_by key (key r) rs = Some r"
  by (induction rs) (auto simp: image_iff)

lemma find_by_update_same:
  assumes "\<And>r. key (f r) = key r"
  shows "find_by key k (update_by key k f rs) = map_option f (find_by key k rs)"
  using assms by (induction rs) auto

lemma find_by_update_other:
  assumes "\<And>r. key (f r) = key r" and "k' \<noteq> k"
  shows "find_by key k' (update_by key k f rs) = find_by key k' rs"
  using assms by (induction rs) auto

lemma map_key_update_by:
  assumes "\<And>r. key' (f r) = key' r"
  shows "map key' (update_by key k f rs) = map key' rs"
  using assms by (induction rs) auto

lemma set_update_by_D:
  "r \<in> set (update_by key k f rs) \<Longrightarrow>
     (r \<in> set rs \<and> key r \<noteq> k) \<or> (\<exists>r0 \<in> set rs. key r0 = k \<and> r = f r0)"
  by (induction rs) (auto split: if_splits)

lemma length_update_by [simp]: "length (update_by key k f rs) = length rs"
  by (simp add: update_by_def)

section \<open>Counting\<close>

definition count_if :: "('a \<Rightarrow> bool) \<Rightarrow> 'a list \<Rightarrow> nat" where
  "count_if P xs = length (filter P xs)"

lemma count_if_Nil [simp]: "count_if P [] = 0"
  by (simp add: count_if_def)

lemma count_if_append [simp]: "count_if P (xs @ ys) = count_if P xs + count_if P ys"
  by (simp add: count_if_def)

lemma count_if_Cons [simp]: "count_if P (x # xs) = (if P x then Suc (count_if P xs) else count_if P xs)"
  by (simp add: count_if_def)

end
