(* ===== verification/Async.thy ===== *)
theory Async imports Prelude begin

text \<open>
  Asynchronous programs.  An \<open>async\<close> function of the source is a tree: \<open>Call c k\<close> performs
  one atomic action \<open>c\<close> (a repository query, a chain request, a synchronous access to an
  in-memory table) and continues with \<open>k\<close> on its answer; \<open>Done\<close> returns.  Every
  \<open>await\<close> of the source is a \<open>Call\<close>, so the tree shows exactly the points where the event
  loop may switch to another request.  The same tree is executed in two ways:
  \<open>run\<close> runs one request to its end with nothing in between, \<open>istep\<close> interleaves the
  calls of any number of requests in any order.

  Exceptions are the left of a sum: \<open>bindE\<close> stops at the first one, as \<open>await\<close> of a
  rejected promise does, and \<open>catchE\<close> is \<open>try/catch\<close>.
\<close>

datatype ('c, 'r, 'a) prog = Done 'a | Call 'c "'r \<Rightarrow> ('c, 'r, 'a) prog"

primrec bindP :: "('c, 'r, 'a) prog \<Rightarrow> ('a \<Rightarrow> ('c, 'r, 'b) prog) \<Rightarrow> ('c, 'r, 'b) prog" where
  "bindP (Done a) f = f a"
| "bindP (Call c k) f = Call c (\<lambda>r. bindP (k r) f)"

type_synonym ('c, 'r, 'e, 'a) async = "('c, ('e, 'r) res, ('e, 'a) res) prog"

definition returnE :: "'a \<Rightarrow> ('c, 'r, 'e, 'a) async" where
  "returnE a = Done (Inr a)"

definition throwE :: "'e \<Rightarrow> ('c, 'r, 'e, 'a) async" where
  "throwE e = Done (Inl e)"

definition bindE :: "('c, 'r, 'e, 'a) async \<Rightarrow> ('a \<Rightarrow> ('c, 'r, 'e, 'b) async)
    \<Rightarrow> ('c, 'r, 'e, 'b) async" where
  "bindE p f = bindP p (\<lambda>r. case r of Inl e \<Rightarrow> throwE e | Inr a \<Rightarrow> f a)"

definition catchE :: "('c, 'r, 'e, 'a) async \<Rightarrow> ('e \<Rightarrow> ('c, 'r, 'e, 'a) async)
    \<Rightarrow> ('c, 'r, 'e, 'a) async" where
  "catchE p h = bindP p (\<lambda>r. case r of Inl e \<Rightarrow> h e | Inr a \<Rightarrow> returnE a)"

text \<open>
  \<open>try { x = await action } catch (e) { return recordFailure(...) }\<close>, with the rest of the
  function as the continuation of the success branch only.
\<close>

definition attemptE :: "('c, 'r, 'e, 'a) async \<Rightarrow> ('e \<Rightarrow> ('c, 'r, 'e, 'b) async)
    \<Rightarrow> ('a \<Rightarrow> ('c, 'r, 'e, 'b) async) \<Rightarrow> ('c, 'r, 'e, 'b) async" where
  "attemptE p onError rest = bindP p (\<lambda>r. case r of Inl e \<Rightarrow> onError e | Inr a \<Rightarrow> rest a)"

text \<open>\<open>if (!cond) throw\<close>, and a \<open>for\<close> loop over a list with an accumulator.\<close>

definition guardE :: "bool \<Rightarrow> 'e \<Rightarrow> ('c, 'r, 'e, unit) async" where
  "guardE b e = (if b then returnE () else throwE e)"

fun foldE :: "('x \<Rightarrow> 's \<Rightarrow> ('c, 'r, 'e, 's) async) \<Rightarrow> 'x list \<Rightarrow> 's \<Rightarrow> ('c, 'r, 'e, 's) async" where
  "foldE f [] s = returnE s"
| "foldE f (x # xs) s = bindE (f x s) (foldE f xs)"

section \<open>One request alone\<close>

text \<open>A handler executes one call against the world.\<close>

primrec run :: "('c \<Rightarrow> 'w \<Rightarrow> 'r \<times> 'w) \<Rightarrow> ('c, 'r, 'a) prog \<Rightarrow> 'w \<Rightarrow> 'a \<times> 'w" where
  "run h (Done a) w = (a, w)"
| "run h (Call c k) w = run h (k (fst (h c w))) (snd (h c w))"

lemma run_bindP: "run h (bindP p f) w = run h (f (fst (run h p w))) (snd (run h p w))"
  by (induction p arbitrary: w) auto

lemma run_returnE [simp, run_simps]: "run h (returnE a) w = (Inr a, w)"
  by (simp add: returnE_def)

lemma run_throwE [simp, run_simps]: "run h (throwE e) w = (Inl e, w)"
  by (simp add: throwE_def)

lemma run_bindE [run_simps]:
  "run h (bindE p f) w =
     (case run h p w of (Inl e, w') \<Rightarrow> (Inl e, w') | (Inr a, w') \<Rightarrow> run h (f a) w')"
  by (simp add: bindE_def run_bindP split: prod.splits sum.splits)

lemma run_catchE [run_simps]:
  "run h (catchE p f) w =
     (case run h p w of (Inl e, w') \<Rightarrow> run h (f e) w' | (Inr a, w') \<Rightarrow> (Inr a, w'))"
  by (simp add: catchE_def run_bindP split: prod.splits sum.splits)

lemma run_guardE [run_simps]: "run h (guardE b e) w = (if b then (Inr (), w) else (Inl e, w))"
  by (simp add: guardE_def)

lemma run_attemptE [run_simps]:
  "run h (attemptE p f g) w =
     (case run h p w of (Inl e, w') \<Rightarrow> run h (f e) w' | (Inr a, w') \<Rightarrow> run h (g a) w')"
  by (simp add: attemptE_def run_bindP split: prod.splits sum.splits)

lemma bindE_returnE [simp]: "bindE (returnE a) f = f a"
  by (simp add: bindE_def returnE_def)

lemma bindE_throwE [simp]: "bindE (throwE e) f = throwE e"
  by (simp add: bindE_def throwE_def)

text \<open>
  The weakest precondition of a run: \<open>Q\<close> holds of its result and final world.  The equations
  push it through the program; a component adds one rule per call.
\<close>

definition wp :: "('c \<Rightarrow> 'w \<Rightarrow> 'r \<times> 'w) \<Rightarrow> ('c, 'r, 'a) prog \<Rightarrow> ('a \<Rightarrow> 'w \<Rightarrow> bool) \<Rightarrow> 'w \<Rightarrow> bool" where
  "wp h p Q w = Q (fst (run h p w)) (snd (run h p w))"

named_theorems wp_rules "rules that move a postcondition over one step"

lemma wp_returnE [wp_rules]: "Q (Inr a) w \<Longrightarrow> wp h (returnE a) Q w"
  by (simp add: wp_def)

lemma wp_throwE [wp_rules]: "Q (Inl e) w \<Longrightarrow> wp h (throwE e) Q w"
  by (simp add: wp_def)

lemma wp_bindE [wp_rules]:
  "wp h p (\<lambda>r w'. case r of Inl e \<Rightarrow> Q (Inl e) w' | Inr a \<Rightarrow> wp h (f a) Q w') w \<Longrightarrow> wp h (bindE p f) Q w"
  by (cases "run h p w") (auto simp: wp_def run_bindE split: sum.splits)

lemma wp_catchE [wp_rules]:
  "wp h p (\<lambda>r w'. case r of Inl e \<Rightarrow> wp h (f e) Q w' | Inr a \<Rightarrow> Q (Inr a) w') w \<Longrightarrow> wp h (catchE p f) Q w"
  by (cases "run h p w") (auto simp: wp_def run_catchE split: sum.splits)

lemma wp_attemptE [wp_rules]:
  "wp h p (\<lambda>r w'. case r of Inl e \<Rightarrow> wp h (f e) Q w' | Inr a \<Rightarrow> wp h (g a) Q w') w \<Longrightarrow> wp h (attemptE p f g) Q w"
  by (cases "run h p w") (auto simp: wp_def run_attemptE split: sum.splits)

lemma wp_guardE [wp_rules]:
  "(b \<Longrightarrow> Q (Inr ()) w) \<Longrightarrow> (\<not> b \<Longrightarrow> Q (Inl e) w) \<Longrightarrow> wp h (guardE b e) Q w"
  by (simp add: wp_def guardE_def)

text \<open>Steps whose answer does not matter, or only as the run it came from.\<close>

lemma wp_past: "(\<And>x w'. wp h (f x) Q w') \<Longrightarrow> (\<And>e w'. Q (Inl e) w') \<Longrightarrow> wp h (bindE p f) Q w"
  by (rule wp_bindE) (auto simp: wp_def split: sum.splits)

lemma wp_after:
  "(\<And>x w'. run h p w = (Inr x, w') \<Longrightarrow> wp h (f x) Q w') \<Longrightarrow> (\<And>e w'. Q (Inl e) w') \<Longrightarrow> wp h (bindE p f) Q w"
  by (rule wp_bindE) (cases "run h p w", auto simp: wp_def split: sum.splits)

lemma wp_mono: "wp h p Q w \<Longrightarrow> (\<And>r w'. Q r w' \<Longrightarrow> Q' r w') \<Longrightarrow> wp h p Q' w"
  by (simp add: wp_def)

lemma wp_foldE:
  assumes "P s w"
    and "\<And>x s w. x \<in> set xs \<Longrightarrow> P s w \<Longrightarrow>
           wp h (f x s) (\<lambda>r w'. case r of Inl e \<Rightarrow> False | Inr s' \<Rightarrow> P s' w') w"
    and "\<And>s w. P s w \<Longrightarrow> Q (Inr s) w"
  shows "wp h (foldE f xs s) Q w"
  using assms
proof (induction xs arbitrary: s w)
  case (Cons x xs)
  have "wp h (f x s) (\<lambda>r w'. case r of Inl e \<Rightarrow> Q (Inl e) w' | Inr a \<Rightarrow> wp h (foldE f xs a) Q w') w"
    by (rule wp_mono [OF Cons.prems(2) [OF _ Cons.prems(1)]])
      (auto split: sum.splits intro!: Cons.IH Cons.prems(2,3))
  then show ?case by (simp add: wp_bindE)
qed (simp add: wp_returnE)

text \<open>The same with an invariant that may speak about the elements still to come.\<close>

lemma wp_foldE_rest:
  assumes "P xs s w"
    and "\<And>x rest s w. P (x # rest) s w \<Longrightarrow>
           wp h (f x s) (\<lambda>r w'. case r of Inl e \<Rightarrow> False | Inr s' \<Rightarrow> P rest s' w') w"
    and "\<And>s w. P [] s w \<Longrightarrow> Q (Inr s) w"
  shows "wp h (foldE f xs s) Q w"
  using assms(1)
proof (induction xs arbitrary: s w)
  case Nil
  then show ?case by (simp add: wp_returnE assms(3))
next
  case (Cons x xs)
  have "wp h (f x s) (\<lambda>r w'. case r of Inl e \<Rightarrow> Q (Inl e) w' | Inr a \<Rightarrow> wp h (foldE f xs a) Q w') w"
    by (rule wp_mono [OF assms(2) [OF Cons.prems]]) (auto split: sum.splits intro!: Cons.IH)
  then show ?case by (simp add: wp_bindE)
qed

lemma wp_if: "(b \<Longrightarrow> wp h p Q w) \<Longrightarrow> (\<not> b \<Longrightarrow> wp h q Q w) \<Longrightarrow> wp h (if b then p else q) Q w"
  by simp

section \<open>Protocols\<close>

text \<open>
  A protocol is an automaton over calls and answers.  \<open>conforms step fin ph p\<close> says that from
  phase \<open>ph\<close> the program \<open>p\<close> makes only calls the automaton allows, whatever the answers
  are, and returns only in phases and with values that \<open>fin\<close> accepts.
\<close>

primrec conforms :: "('ph \<Rightarrow> 'c \<Rightarrow> 'r \<Rightarrow> 'ph option) \<Rightarrow> ('ph \<Rightarrow> 'a \<Rightarrow> bool) \<Rightarrow> 'ph
    \<Rightarrow> ('c, 'r, 'a) prog \<Rightarrow> bool" where
  "conforms step fin ph (Done a) = fin ph a"
| "conforms step fin ph (Call c k) =
     (\<forall>r. case step ph c r of None \<Rightarrow> False | Some ph' \<Rightarrow> conforms step fin ph' (k r))"

lemma conforms_bindP:
  "conforms step (\<lambda>ph a. conforms step fin ph (f a)) ph p \<Longrightarrow> conforms step fin ph (bindP p f)"
  by (induction p arbitrary: ph) (auto split: option.splits)

lemma conforms_mono:
  "conforms step fin ph p \<Longrightarrow> (\<And>ph' a. fin ph' a \<Longrightarrow> fin' ph' a) \<Longrightarrow> conforms step fin' ph p"
  by (induction p arbitrary: ph) (auto split: option.splits)

lemma conforms_bindE:
  assumes "conforms step (\<lambda>ph r. case r of Inl e \<Rightarrow> fin ph (Inl e) | Inr a \<Rightarrow> conforms step fin ph (f a)) ph p"
  shows "conforms step fin ph (bindE p f)"
  unfolding bindE_def
  by (rule conforms_bindP, rule conforms_mono [OF assms]) (auto simp: throwE_def split: sum.splits)

lemma conforms_catchE:
  assumes "conforms step (\<lambda>ph r. case r of Inl e \<Rightarrow> conforms step fin ph (f e) | Inr a \<Rightarrow> fin ph (Inr a)) ph p"
  shows "conforms step fin ph (catchE p f)"
  unfolding catchE_def
  by (rule conforms_bindP, rule conforms_mono [OF assms]) (auto simp: returnE_def split: sum.splits)

lemma conforms_returnE [simp]: "conforms step fin ph (returnE a) = fin ph (Inr a)"
  by (simp add: returnE_def)

lemma conforms_throwE [simp]: "conforms step fin ph (throwE e) = fin ph (Inl e)"
  by (simp add: throwE_def)

lemma conforms_attemptE:
  assumes "conforms step (\<lambda>ph r. case r of Inl e \<Rightarrow> conforms step fin ph (f e) | Inr a \<Rightarrow> conforms step fin ph (g a)) ph p"
  shows "conforms step fin ph (attemptE p f g)"
  unfolding attemptE_def
  by (rule conforms_bindP, rule conforms_mono [OF assms]) (auto split: sum.splits)

lemma conforms_guardE [simp]:
  "conforms step fin ph (guardE b e) = (if b then fin ph (Inr ()) else fin ph (Inl e))"
  by (simp add: guardE_def)

text \<open>The one-phase protocol: every call satisfies \<open>ok\<close>.\<close>

definition only :: "('c \<Rightarrow> bool) \<Rightarrow> unit \<Rightarrow> 'c \<Rightarrow> 'r \<Rightarrow> unit option" where
  "only ok u c r = (if ok c then Some () else None)"

definition makes_only :: "('c \<Rightarrow> bool) \<Rightarrow> ('c, 'r, 'a) prog \<Rightarrow> bool" where
  "makes_only ok p = conforms (only ok) (\<lambda>_ _. True) () p"

lemma makes_only_Done [simp]: "makes_only ok (Done a)"
  by (simp add: makes_only_def)

lemma makes_only_Call [simp]: "makes_only ok (Call c k) \<longleftrightarrow> ok c \<and> (\<forall>r. makes_only ok (k r))"
  by (auto simp: makes_only_def only_def)

lemma makes_only_bindP [intro]:
  "makes_only ok p \<Longrightarrow> (\<And>a. makes_only ok (f a)) \<Longrightarrow> makes_only ok (bindP p f)"
  by (induction p) auto

lemma makes_only_returnE [simp]: "makes_only ok (returnE a)"
  by (simp add: returnE_def)

lemma makes_only_throwE [simp]: "makes_only ok (throwE e)"
  by (simp add: throwE_def)

lemma makes_only_guardE [simp]: "makes_only ok (guardE b e)"
  by (simp add: guardE_def)

lemma makes_only_bindE [intro]:
  "makes_only ok p \<Longrightarrow> (\<And>a. makes_only ok (f a)) \<Longrightarrow> makes_only ok (bindE p f)"
  unfolding bindE_def by (rule makes_only_bindP) (auto split: sum.splits)

lemma makes_only_catchE [intro]:
  "makes_only ok p \<Longrightarrow> (\<And>e. makes_only ok (f e)) \<Longrightarrow> makes_only ok (catchE p f)"
  unfolding catchE_def by (rule makes_only_bindP) (auto split: sum.splits)

lemma makes_only_attemptE [intro]:
  "makes_only ok p \<Longrightarrow> (\<And>e. makes_only ok (f e)) \<Longrightarrow> (\<And>a. makes_only ok (g a))
    \<Longrightarrow> makes_only ok (attemptE p f g)"
  unfolding attemptE_def by (rule makes_only_bindP) (auto split: sum.splits)

lemma makes_only_foldE [intro]:
  "(\<And>x s. makes_only ok (f x s)) \<Longrightarrow> makes_only ok (foldE f xs s)"
  by (induction xs arbitrary: s) auto

section \<open>Many requests at once\<close>

text \<open>
  The server: the world and the requests in flight.  A step either admits a new request (any
  program \<open>entry\<close> allows) or executes the next call of one request, whichever the event loop
  picks.
\<close>

inductive istep :: "('c \<Rightarrow> 'w \<Rightarrow> 'r \<times> 'w) \<Rightarrow> (('c, 'r, 'a) prog \<Rightarrow> bool)
    \<Rightarrow> 'w \<times> ('c, 'r, 'a) prog list \<Rightarrow> 'w \<times> ('c, 'r, 'a) prog list \<Rightarrow> bool"
  for h :: "'c \<Rightarrow> 'w \<Rightarrow> 'r \<times> 'w" and entry :: "('c, 'r, 'a) prog \<Rightarrow> bool" where
  admit: "entry p \<Longrightarrow> istep h entry (w, ts) (w, ts @ [p])"
| resume: "i < length ts \<Longrightarrow> ts ! i = Call c k \<Longrightarrow> h c w = (r, w')
     \<Longrightarrow> istep h entry (w, ts) (w', ts[i := k r])"

inductive ireach :: "('c \<Rightarrow> 'w \<Rightarrow> 'r \<times> 'w) \<Rightarrow> (('c, 'r, 'a) prog \<Rightarrow> bool)
    \<Rightarrow> 'w \<Rightarrow> 'w \<times> ('c, 'r, 'a) prog list \<Rightarrow> bool"
  for h :: "'c \<Rightarrow> 'w \<Rightarrow> 'r \<times> 'w" and entry :: "('c, 'r, 'a) prog \<Rightarrow> bool" and w0 :: 'w where
  start: "ireach h entry w0 (w0, [])"
| step: "ireach h entry w0 s \<Longrightarrow> istep h entry s s' \<Longrightarrow> ireach h entry w0 s'"

inductive_cases istepE: "istep h entry s s'"

text \<open>A schedule: which request moves next; used to exhibit concrete interleavings.\<close>

fun run_schedule :: "('c \<Rightarrow> 'w \<Rightarrow> 'r \<times> 'w) \<Rightarrow> nat list \<Rightarrow> 'w \<times> ('c, 'r, 'a) prog list
    \<Rightarrow> 'w \<times> ('c, 'r, 'a) prog list" where
  "run_schedule h [] s = s"
| "run_schedule h (i # is) (w, ts) =
     (case ts ! i of
        Done a \<Rightarrow> run_schedule h is (w, ts)
      | Call c k \<Rightarrow> run_schedule h is (snd (h c w), ts[i := k (fst (h c w))]))"

lemma ireach_admit_all:
  "ireach h entry w0 (w, ts) \<Longrightarrow> (\<forall>p \<in> set ps. entry p) \<Longrightarrow> ireach h entry w0 (w, ts @ ps)"
proof (induction ps arbitrary: ts)
  case (Cons p ps)
  then have "ireach h entry w0 (w, ts @ [p])"
    by (auto intro: ireach.step istep.admit)
  with Cons.IH [of "ts @ [p]"] Cons.prems show ?case by simp
qed simp

lemma ireach_run_schedule:
  "ireach h entry w0 s \<Longrightarrow> (\<forall>i \<in> set is. i < length (snd s)) \<Longrightarrow>
     ireach h entry w0 (run_schedule h is s)"
proof (induction h "is" s rule: run_schedule.induct)
  case (2 h i "is" w ts)
  show ?case
  proof (cases "ts ! i")
    case (Done a)
    with 2 show ?thesis by simp
  next
    case (Call c k)
    have "istep h entry (w, ts) (snd (h c w), ts[i := k (fst (h c w))])"
      using 2(4) Call by (intro istep.resume) auto
    with 2(3) have "ireach h entry w0 (snd (h c w), ts[i := k (fst (h c w))])"
      by (rule ireach.step)
    with Call 2 show ?thesis by simp
  qed
qed simp

section \<open>Contracts between a world and the programs that use it\<close>

text \<open>
  The interface a store offers to its clients: an invariant of the world that every permitted
  call keeps.  Any program that makes only permitted calls then keeps the invariant, alone or
  interleaved with any others.
\<close>

locale guarded_world =
  fixes h :: "'c \<Rightarrow> 'w \<Rightarrow> 'r \<times> 'w"
    and I :: "'w \<Rightarrow> bool"
    and ok :: "'c \<Rightarrow> bool"
  assumes keeps: "I w \<Longrightarrow> ok c \<Longrightarrow> I (snd (h c w))"
begin

lemma run_keeps: "makes_only ok p \<Longrightarrow> I w \<Longrightarrow> I (snd (run h p w))"
  by (induction p arbitrary: w) (auto intro: keeps)

lemma ireach_keeps:
  assumes "ireach h entry w0 s" and "I w0" and "\<And>p. entry p \<Longrightarrow> makes_only ok p"
  shows "I (fst s) \<and> (\<forall>p \<in> set (snd s). makes_only ok p)"
  using assms(1)
proof (induction rule: ireach.induct)
  case start
  with assms(2) show ?case by simp
next
  case (step s s')
  from step.hyps(2) step.IH show ?case
  proof (cases rule: istep.cases)
    case (admit p w ts)
    with step.IH assms(3) show ?thesis by auto
  next
    case (resume i ts c k w r w')
    with step.IH have "makes_only ok (Call c k)" by (metis nth_mem snd_conv)
    with resume step.IH keeps [of w c] show ?thesis
      by (auto dest!: set_update_subset_insert [THEN subsetD])
  qed
qed

end

text \<open>
  The richer interface: every request in flight has a phase of a protocol, and \<open>J\<close> links the
  phases of all of them to the world.  \<open>admit\<close> says that a request may arrive at any time,
  \<open>move\<close> that the world keeps the link whenever a request makes a call its protocol allows.
  Then the link holds under every interleaving of conforming requests, and each of them still
  conforms from the phase it has reached.
\<close>

locale protocol_pool =
  fixes h :: "'c \<Rightarrow> 'w \<Rightarrow> 'r \<times> 'w"
    and delta :: "'ph \<Rightarrow> 'c \<Rightarrow> 'r \<Rightarrow> 'ph option"
    and J :: "'ph list \<Rightarrow> 'w \<Rightarrow> bool"
    and ph0 :: 'ph
  assumes admit: "J phs w \<Longrightarrow> J (phs @ [ph0]) w"
    and move: "J phs w \<Longrightarrow> i < length phs \<Longrightarrow> h c w = (r, w') \<Longrightarrow> delta (phs ! i) c r = Some ph'
      \<Longrightarrow> J (phs[i := ph']) w'"
begin

definition pool_ok :: "('ph \<Rightarrow> 'a \<Rightarrow> bool) \<Rightarrow> 'ph list \<Rightarrow> 'w \<times> ('c, 'r, 'a) prog list \<Rightarrow> bool" where
  "pool_ok fin phs s \<longleftrightarrow> length phs = length (snd s) \<and> J phs (fst s) \<and>
     (\<forall>i < length phs. conforms delta fin (phs ! i) (snd s ! i))"

lemma pool_step:
  assumes "istep h entry s s'" and "pool_ok fin phs s" and "\<And>p. entry p \<Longrightarrow> conforms delta fin ph0 p"
  shows "\<exists>phs'. pool_ok fin phs' s'"
  using assms(1)
proof (cases rule: istep.cases)
  case (admit p w ts)
  then have "pool_ok fin (phs @ [ph0]) s'"
    using assms(2,3) protocol_pool.admit [OF protocol_pool_axioms]
    by (auto simp: pool_ok_def nth_append less_Suc_eq)
  then show ?thesis ..
next
  case (resume i ts c k w r w')
  then have "conforms delta fin (phs ! i) (Call c k)" "i < length phs"
    using assms(2) by (auto simp: pool_ok_def dest!: spec [of _ i])
  then obtain ph' where ph': "delta (phs ! i) c r = Some ph'" "conforms delta fin ph' (k r)"
    by (auto split: option.splits dest!: spec [of _ r])
  have "J (phs[i := ph']) w'"
    using resume assms(2) ph'(1) move by (auto simp: pool_ok_def)
  then have "pool_ok fin (phs[i := ph']) s'"
    using resume assms(2) ph'(2) by (auto simp: pool_ok_def nth_list_update)
  then show ?thesis ..
qed

lemma ireach_pool:
  assumes "ireach h entry w0 s" and "J [] w0" and "\<And>p. entry p \<Longrightarrow> conforms delta fin ph0 p"
  shows "\<exists>phs. pool_ok fin phs s"
  using assms(1)
proof (induction rule: ireach.induct)
  case start
  then show ?case using assms(2) by (auto simp: pool_ok_def intro!: exI [of _ "[]"])
next
  case (step s s')
  then show ?case using pool_step assms(3) by blast
qed

text \<open>A request that has returned is in a phase that accepts its result.\<close>

lemma ireach_returned:
  assumes "ireach h entry w0 (w, ts)" and "J [] w0" and "\<And>p. entry p \<Longrightarrow> conforms delta fin ph0 p"
  shows "\<exists>phs. length phs = length ts \<and> J phs w \<and> (\<forall>i < length ts. \<forall>a. ts ! i = Done a \<longrightarrow> fin (phs ! i) a)"
proof -
  obtain phs where phs: "pool_ok fin phs (w, ts)" using ireach_pool [OF assms] by blast
  then have "fin (phs ! i) a" if "i < length ts" "ts ! i = Done a" for i a
    using that by (auto simp: pool_ok_def dest!: spec [of _ i])
  with phs show ?thesis by (auto simp: pool_ok_def intro!: exI [of _ phs])
qed

end

end
