(* ===== verification/JsNumbers.thy ===== *)
theory JsNumbers imports Prelude Complex_Main begin

text \<open>
  The part of the JavaScript standard library that the program computes with: \<open>BigInt(text)\<close>
  and \<open>toString\<close>, \<open>Number(text)\<close>, double precision arithmetic and \<open>toFixed(2)\<close>.  A string is
  a list of code units below 256.  A double is the exact rational it denotes, and every
  arithmetic result is rounded by \<open>fl64\<close> to nearest, ties to even; the sign of zero, which the
  program never observes, is not kept.
\<close>

section \<open>Characters and digits\<close>

definition digit_value :: "char \<Rightarrow> int option" where
  "digit_value c =
     (let n = (of_char c :: int) in
      if 48 \<le> n \<and> n \<le> 57 then Some (n - 48)
      else if 97 \<le> n \<and> n \<le> 102 then Some (n - 87)
      else if 65 \<le> n \<and> n \<le> 70 then Some (n - 55)
      else None)"

definition digit_char :: "int \<Rightarrow> char" where
  "digit_char d = char_of (if d < 10 then d + 48 else d + 87)"

definition is_space :: "char \<Rightarrow> bool" where
  "is_space c = ((of_char c :: int) \<in> {9, 10, 11, 12, 13, 32, 160})"

definition js_trim :: "string \<Rightarrow> string" where
  "js_trim s = rev (dropWhile is_space (rev (dropWhile is_space s)))"

fun digits_acc :: "int \<Rightarrow> int \<Rightarrow> string \<Rightarrow> int option" where
  "digits_acc b acc [] = Some acc"
| "digits_acc b acc (c # cs) =
     (case digit_value c of
        None \<Rightarrow> None
      | Some d \<Rightarrow> if d < b then digits_acc b (acc * b + d) cs else None)"

definition parse_digits :: "int \<Rightarrow> string \<Rightarrow> int option" where
  "parse_digits b s = (if s = [] then None else digits_acc b 0 s)"

text \<open>The digits of a non-negative number, most significant first.\<close>

function digits :: "int \<Rightarrow> int \<Rightarrow> string" where
  "digits b n =
     (if b < 2 \<or> n < b then [digit_char n] else digits b (n div b) @ [digit_char (n mod b)])"
  by pat_completeness auto
termination
proof (relation "measure (\<lambda>(b, n). nat n)")
  fix b n :: int
  assume "\<not> (b < 2 \<or> n < b)"
  then have "n div b < n" and "0 \<le> n div b"
    by (auto intro: int_div_less_self pos_imp_zdiv_nonneg_iff [THEN iffD2])
  then show "((b, n div b), b, n) \<in> measure (\<lambda>(b, n). nat n)" by simp
qed simp

declare digits.simps [simp del]

definition padStart :: "nat \<Rightarrow> string \<Rightarrow> string" where
  "padStart n s = replicate (n - length s) (CHR ''0'') @ s"

section \<open>BigInt\<close>

definition parse_nondecimal :: "string \<Rightarrow> int option option" where
  "parse_nondecimal s =
     (case s of
        z # x # rest \<Rightarrow>
          if z \<noteq> CHR ''0'' then None
          else if x = CHR ''x'' \<or> x = CHR ''X'' then Some (parse_digits 16 rest)
          else if x = CHR ''o'' \<or> x = CHR ''O'' then Some (parse_digits 8 rest)
          else if x = CHR ''b'' \<or> x = CHR ''B'' then Some (parse_digits 2 rest)
          else None
      | _ \<Rightarrow> None)"

text \<open>\<open>BigInt(text)\<close>: \<open>None\<close> is the \<open>SyntaxError\<close>.\<close>

definition bigint_of_string :: "string \<Rightarrow> int option" where
  "bigint_of_string s =
     (let t = js_trim s in
      case parse_nondecimal t of
        Some r \<Rightarrow> r
      | None \<Rightarrow>
         (case t of
            [] \<Rightarrow> Some 0
          | c # rest \<Rightarrow>
              if c = CHR ''-'' then map_option uminus (parse_digits 10 rest)
              else if c = CHR ''+'' then parse_digits 10 rest
              else parse_digits 10 t))"

definition string_of_bigint :: "int \<Rightarrow> string" where
  "string_of_bigint n = (if n < 0 then CHR ''-'' # digits 10 (- n) else digits 10 n)"

lemma of_char_digit_char [simp]:
  "0 \<le> d \<Longrightarrow> d < 16 \<Longrightarrow> (of_char (digit_char d) :: int) = (if d < 10 then d + 48 else d + 87)"
  by (simp add: digit_char_def)

lemma digit_value_digit_char [simp]: "0 \<le> d \<Longrightarrow> d < 16 \<Longrightarrow> digit_value (digit_char d) = Some d"
  by (simp add: digit_value_def)

lemma digits_acc_append:
  "digits_acc b acc (xs @ ys) =
     (case digits_acc b acc xs of None \<Rightarrow> None | Some a \<Rightarrow> digits_acc b a ys)"
  by (induction b acc xs rule: digits_acc.induct) (auto split: option.splits)

lemma digits_nonempty [simp]: "digits b n \<noteq> []"
  by (subst digits.simps) simp

lemma digits_acc_digits:
  assumes "2 \<le> b" and "b \<le> 16" and "0 \<le> n"
  shows "digits_acc b 0 (digits b n) = Some n"
  using assms
proof (induction b n rule: digits.induct)
  case (1 b n)
  show ?case
  proof (cases "n < b")
    case True
    with 1 show ?thesis by (subst digits.simps) simp
  next
    case False
    with 1 have "digits_acc b 0 (digits b (n div b)) = Some (n div b)"
      by (simp add: pos_imp_zdiv_nonneg_iff)
    moreover have "0 \<le> n mod b" "n mod b < b" "n mod b < 16"
      using 1(2,3) pos_mod_bound [of b n] by (simp_all del: pos_mod_bound)
    ultimately show ?thesis
      using False 1(2,3) by (subst digits.simps) (simp add: digits_acc_append)
  qed
qed

lemma parse_digits_digits [simp]:
  "2 \<le> b \<Longrightarrow> b \<le> 16 \<Longrightarrow> 0 \<le> n \<Longrightarrow> parse_digits b (digits b n) = Some n"
  by (simp add: parse_digits_def digits_acc_digits)

lemma digits_chars:
  "2 \<le> b \<Longrightarrow> b \<le> 16 \<Longrightarrow> 0 \<le> n \<Longrightarrow> c \<in> set (digits b n) \<Longrightarrow> \<exists>d. 0 \<le> d \<and> d < b \<and> c = digit_char d"
proof (induction b n rule: digits.induct)
  case (1 b n)
  show ?case
  proof (cases "n < b")
    case True
    with 1 show ?thesis by (subst (asm) digits.simps) auto
  next
    case False
    have c: "c \<in> set (digits b (n div b)) \<or> c = digit_char (n mod b)"
      using 1(5) False 1(2) by (subst (asm) digits.simps) auto
    have m: "0 \<le> n mod b" "n mod b < b" and n: "0 \<le> n div b"
      using 1(2,4) by (auto simp: pos_imp_zdiv_nonneg_iff)
    have "\<not> (b < 2 \<or> n < b)" using False 1(2) by simp
    note IH = 1(1) [OF this 1(2,3) n]
    from c show ?thesis
    proof
      assume "c \<in> set (digits b (n div b))"
      then show ?thesis by (rule IH)
    next
      assume "c = digit_char (n mod b)"
      with m show ?thesis by (intro exI [of _ "n mod b"]) simp
    qed
  qed
qed

lemma not_space_digit_char [simp]: "0 \<le> d \<Longrightarrow> d < 16 \<Longrightarrow> \<not> is_space (digit_char d)"
  by (simp add: is_space_def split: if_splits)

lemma dropWhile_none: "(\<And>c. c \<in> set s \<Longrightarrow> \<not> P c) \<Longrightarrow> dropWhile P s = s"
  by (cases s) auto

lemma js_trim_id: "(\<And>c. c \<in> set s \<Longrightarrow> \<not> is_space c) \<Longrightarrow> js_trim s = s"
  using dropWhile_none [of s is_space] dropWhile_none [of "rev s" is_space]
  by (simp add: js_trim_def)

lemma digit_char_neq:
  assumes "0 \<le> d" and "d < 10"
  shows "digit_char d \<noteq> CHR ''-''" and "digit_char d \<noteq> CHR ''+''"
    and "digit_char d \<noteq> CHR ''x''" and "digit_char d \<noteq> CHR ''X''"
    and "digit_char d \<noteq> CHR ''o''" and "digit_char d \<noteq> CHR ''O''"
    and "digit_char d \<noteq> CHR ''b''" and "digit_char d \<noteq> CHR ''B''"
  using assms by (auto dest!: arg_cong [where f = "of_char :: char \<Rightarrow> int"])

text \<open>A canonical literal reads back: \<open>BigInt(n.toString())\<close> is \<open>n\<close>.\<close>

lemma digits_shape:
  assumes "0 \<le> n"
  obtains d cs where "digits 10 n = digit_char d # cs" "0 \<le> d" "d < 10"
    "\<And>c. c \<in> set cs \<Longrightarrow> \<exists>e. 0 \<le> e \<and> e < 10 \<and> c = digit_char e"
proof -
  obtain c cs where eq: "digits 10 n = c # cs"
    by (cases "digits 10 n") auto
  have "\<exists>e. 0 \<le> e \<and> e < 10 \<and> x = digit_char e" if "x \<in> set (c # cs)" for x
    using digits_chars [of 10 n x] assms that eq by simp
  with eq that show ?thesis by fastforce
qed

lemma js_trim_digits [simp]: "0 \<le> n \<Longrightarrow> js_trim (digits 10 n) = digits 10 n"
  using digits_chars [of 10 n] by (intro js_trim_id) fastforce

lemma parse_nondecimal_digits [simp]:
  assumes "0 \<le> n"
  shows "parse_nondecimal (digits 10 n) = None"
proof -
  obtain d cs where d: "digits 10 n = digit_char d # cs"
    and cs: "\<And>c. c \<in> set cs \<Longrightarrow> \<exists>e. 0 \<le> e \<and> e < 10 \<and> c = digit_char e"
    using assms by (rule digits_shape) blast
  show ?thesis
  proof (cases cs)
    case (Cons x ys)
    with cs [of x] obtain e where "0 \<le> e" "e < 10" "x = digit_char e" by auto
    with d Cons show ?thesis by (simp add: parse_nondecimal_def digit_char_neq)
  qed (simp add: parse_nondecimal_def d)
qed

lemma bigint_of_digits [simp]:
  assumes "0 \<le> n"
  shows "bigint_of_string (digits 10 n) = Some n"
proof -
  have p: "parse_digits 10 (digits 10 n) = Some n" using assms by simp
  from assms obtain d cs where d: "digits 10 n = digit_char d # cs" "0 \<le> d" "d < 10"
    by (rule digits_shape)
  have "bigint_of_string (digits 10 n) = parse_digits 10 (digits 10 n)"
    unfolding bigint_of_string_def js_trim_digits [OF assms] parse_nondecimal_digits [OF assms] Let_def
    using d by (simp add: digit_char_neq)
  with p show ?thesis by simp
qed

lemma bigint_of_string_of_bigint [simp]: "bigint_of_string (string_of_bigint n) = Some n"
proof (cases "n < 0")
  case True
  then have "js_trim (CHR ''-'' # digits 10 (- n)) = CHR ''-'' # digits 10 (- n)"
    using digits_chars [of 10 "- n"] by (intro js_trim_id) (fastforce simp: is_space_def)
  moreover have "parse_nondecimal (CHR ''-'' # digits 10 (- n)) = None"
    by (simp add: parse_nondecimal_def split: list.split)
  ultimately show ?thesis
    using True by (simp add: string_of_bigint_def bigint_of_string_def)
next
  case False
  then show ?thesis by (simp add: string_of_bigint_def)
qed

lemma string_of_bigint_inject [simp]: "string_of_bigint m = string_of_bigint n \<longleftrightarrow> m = n"
  by (metis bigint_of_string_of_bigint option.inject)

section \<open>Doubles\<close>

datatype js_num = NaN | PosInf | NegInf | Fin rat

definition pow2 :: "int \<Rightarrow> rat" where
  "pow2 z = (if 0 \<le> z then 2 ^ nat z else 1 / 2 ^ nat (- z))"

definition round_half_even :: "rat \<Rightarrow> int" where
  "round_half_even x =
     (let f = floor x; d = x - of_int f in
      if d < 1 / 2 \<or> (d = 1 / 2 \<and> even f) then f else f + 1)"

text \<open>The \<open>e\<close> with \<open>2 ^ e \<le> x < 2 ^ (e + 1)\<close>, from the bit lengths of the fraction.\<close>

definition binary_exponent :: "rat \<Rightarrow> int" where
  "binary_exponent x =
     (let (p, q) = quotient_of x;
          k = int (length (digits 2 p)) - int (length (digits 2 q))
      in if x < pow2 k then k - 1 else k)"

text \<open>
  With \<open>e\<close> the exponent of the last of the 53 bits, the magnitude reaches \<open>2 ^ 1024\<close> exactly
  when \<open>e\<close> passes 971 or the significand rounds up to \<open>2 ^ 53\<close> at 971.
\<close>

definition fl64 :: "rat \<Rightarrow> js_num" where
  "fl64 x =
     (if x = 0 then Fin 0 else
      let a = \<bar>x\<bar>;
          e = max (binary_exponent a - 52) (- 1074);
          m = round_half_even (a / pow2 e)
      in if 971 < e \<or> (e = 971 \<and> m = 2 ^ 53) then (if 0 < x then PosInf else NegInf)
         else Fin ((if 0 < x then 1 else - 1) * (of_int m * pow2 e)))"

definition js_isFinite :: "js_num \<Rightarrow> bool" where
  "js_isFinite x = (case x of Fin _ \<Rightarrow> True | _ \<Rightarrow> False)"

fun js_add :: "js_num \<Rightarrow> js_num \<Rightarrow> js_num" where
  "js_add (Fin a) (Fin b) = fl64 (a + b)"
| "js_add NaN _ = NaN"
| "js_add _ NaN = NaN"
| "js_add PosInf NegInf = NaN"
| "js_add NegInf PosInf = NaN"
| "js_add PosInf _ = PosInf"
| "js_add NegInf _ = NegInf"
| "js_add _ PosInf = PosInf"
| "js_add _ NegInf = NegInf"

text \<open>\<open>a > b\<close>: false as soon as one side is not a number.\<close>

fun js_gt :: "js_num \<Rightarrow> js_num \<Rightarrow> bool" where
  "js_gt (Fin a) (Fin b) = (b < a)"
| "js_gt PosInf (Fin _) = True"
| "js_gt (Fin _) NegInf = True"
| "js_gt PosInf NegInf = True"
| "js_gt _ _ = False"

section \<open>Number(text)\<close>

definition is_decimal :: "char \<Rightarrow> bool" where
  "is_decimal c = (case digit_value c of None \<Rightarrow> False | Some d \<Rightarrow> d < 10)"

definition digits_or_zero :: "string \<Rightarrow> int" where
  "digits_or_zero s = (case digits_acc 10 0 s of None \<Rightarrow> 0 | Some n \<Rightarrow> n)"

definition pow10 :: "int \<Rightarrow> rat" where
  "pow10 z = (if 0 \<le> z then 10 ^ nat z else 1 / 10 ^ nat (- z))"

definition signed_digits :: "string \<Rightarrow> int option" where
  "signed_digits s =
     (case s of
        [] \<Rightarrow> None
      | c # r \<Rightarrow>
          if c = CHR ''-'' then map_option uminus (parse_digits 10 r)
          else if c = CHR ''+'' then parse_digits 10 r
          else parse_digits 10 s)"

text \<open>An unsigned decimal literal: digits, an optional fraction, an optional exponent.\<close>

definition decimal_value :: "string \<Rightarrow> rat option" where
  "decimal_value s =
     (let ip = takeWhile is_decimal s; r1 = dropWhile is_decimal s;
          (fp, r2) = (case r1 of
              c # r \<Rightarrow> if c = CHR ''.'' then (takeWhile is_decimal r, dropWhile is_decimal r) else ([], r1)
            | [] \<Rightarrow> ([], []));
          mant = of_int (digits_or_zero (ip @ fp)) * pow10 (- int (length fp))
      in if ip = [] \<and> fp = [] then None
         else (case r2 of
              [] \<Rightarrow> Some mant
            | c # r \<Rightarrow>
                if c = CHR ''e'' \<or> c = CHR ''E''
                then map_option (\<lambda>k. mant * pow10 k) (signed_digits r)
                else None))"

definition number_of_string :: "string \<Rightarrow> js_num" where
  "number_of_string s =
     (let t = js_trim s;
          unsigned = (\<lambda>u. if u = ''Infinity'' then Some PosInf else map_option fl64 (decimal_value u));
          negated = (\<lambda>x. case x of PosInf \<Rightarrow> NegInf | NegInf \<Rightarrow> PosInf | NaN \<Rightarrow> NaN | Fin q \<Rightarrow> Fin (- q))
      in case parse_nondecimal t of
           Some r \<Rightarrow> (case r of None \<Rightarrow> NaN | Some n \<Rightarrow> fl64 (of_int n))
         | None \<Rightarrow>
            (case t of
               [] \<Rightarrow> Fin 0
             | c # r \<Rightarrow>
                 (case (if c = CHR ''-'' then map_option negated (unsigned r)
                        else if c = CHR ''+'' then unsigned r else unsigned t) of
                    None \<Rightarrow> NaN | Some x \<Rightarrow> x)))"

section \<open>toFixed(2)\<close>

text \<open>
  Below \<open>10 ^ 21\<close> the two-digit rounding, the larger on a tie; from there on the shortest
  digits that read back as the same double, in exponent form.
\<close>

definition shortest_digits :: "rat \<Rightarrow> int \<Rightarrow> int \<Rightarrow> int option" where
  "shortest_digits x n k =
     (let u = pow10 (n - k); s = floor (x / u);
          good = (\<lambda>t. fl64 (of_int t * u) = Fin x)
      in if good s \<and> good (s + 1)
         then Some (if of_int (s + 1) * u - x < x - of_int s * u then s + 1 else s)
         else if good s then Some s else if good (s + 1) then Some (s + 1) else None)"

definition big_number_text :: "rat \<Rightarrow> string" where
  "big_number_text x =
     (let n = int (length (digits 10 (floor x)));
          s = (case List.find (\<lambda>k. shortest_digits x n k \<noteq> None) (map int [1 ..< 18]) of
                 None \<Rightarrow> floor (x / pow10 (n - 17))
               | Some k \<Rightarrow> the (shortest_digits x n k));
          ds = digits 10 s
      in (case ds of
            [d] \<Rightarrow> [d]
          | d # rest \<Rightarrow> d # CHR ''.'' # rest
          | [] \<Rightarrow> []) @ ''e+'' @ digits 10 (n - 1))"

definition toFixed2_nonneg :: "rat \<Rightarrow> string" where
  "toFixed2_nonneg x =
     (if 10 ^ 21 \<le> x then big_number_text x
      else let ds = padStart 3 (digits 10 (floor (x * 100 + 1 / 2)))
           in take (length ds - 2) ds @ ''.'' @ drop (length ds - 2) ds)"

definition toFixed2 :: "rat \<Rightarrow> string" where
  "toFixed2 x = (if x < 0 then CHR ''-'' # toFixed2_nonneg (- x) else toFixed2_nonneg x)"

section \<open>Upper case\<close>

definition char_upper :: "char \<Rightarrow> char" where
  "char_upper c =
     (let n = (of_char c :: nat) in if 97 \<le> n \<and> n \<le> 122 then char_of (n - 32) else c)"

definition js_upper :: "string \<Rightarrow> string" where
  "js_upper s = map char_upper s"

end
