(* ===== verification/Domain.thy ===== *)
theory Domain imports Prelude begin

text \<open>
  \<open>octora-api/src/domain\<close>: the position vocabulary (position-intent.ts, activity.ts), the
  transition table (execution-state-machine.ts), the mode policy (mode-policy.ts) and the
  recovery catalog (recovery.ts).
\<close>

section \<open>position-intent.ts\<close>

datatype ExecutionMode = Standard | FastPrivate

datatype PositionAction = AddLiquidityAction | ClaimAction | WithdrawCloseAction

datatype ExecutionState =
    Draft | AwaitingSignature | FundingInProgress | ExecutingOnMeteora | Indexing | Active
  | Claiming | Withdrawing | Closing | Completed | Failed

datatype FailureStage =
    Signature | PreFunding | FundingPartial | VenueSubmission | VenueConfirmation
  | IndexingLag | RecoveryRequired

text \<open>The tags as the database and the messages spell them.\<close>

fun state_text :: "ExecutionState \<Rightarrow> string" where
  "state_text Draft = ''draft''"
| "state_text AwaitingSignature = ''awaiting_signature''"
| "state_text FundingInProgress = ''funding_in_progress''"
| "state_text ExecutingOnMeteora = ''executing_on_meteora''"
| "state_text Indexing = ''indexing''"
| "state_text Active = ''active''"
| "state_text Claiming = ''claiming''"
| "state_text Withdrawing = ''withdrawing''"
| "state_text Closing = ''closing''"
| "state_text Completed = ''completed''"
| "state_text Failed = ''failed''"

fun action_text :: "PositionAction \<Rightarrow> string" where
  "action_text AddLiquidityAction = ''add-liquidity''"
| "action_text ClaimAction = ''claim''"
| "action_text WithdrawCloseAction = ''withdraw-close''"

fun stage_text :: "FailureStage \<Rightarrow> string" where
  "stage_text Signature = ''signature''"
| "stage_text PreFunding = ''pre-funding''"
| "stage_text FundingPartial = ''funding-partial''"
| "stage_text VenueSubmission = ''venue-submission''"
| "stage_text VenueConfirmation = ''venue-confirmation''"
| "stage_text IndexingLag = ''indexing-lag''"
| "stage_text RecoveryRequired = ''recovery-required''"

record PositionIntent =
  intent_id :: string
  intent_positionId :: string
  intent_action :: PositionAction
  intent_mode :: ExecutionMode
  intent_state :: ExecutionState
  intent_failureStage :: "FailureStage option"
  intent_createdAt :: nat

section \<open>execution-state-machine.ts\<close>

fun transitions :: "ExecutionState \<Rightarrow> ExecutionState list" where
  "transitions Draft = [AwaitingSignature]"
| "transitions AwaitingSignature = [FundingInProgress, Failed]"
| "transitions FundingInProgress = [ExecutingOnMeteora, Failed]"
| "transitions ExecutingOnMeteora = [Indexing, Failed]"
| "transitions Indexing = [Active, Completed, Failed]"
| "transitions Active = [Claiming, Withdrawing, Closing]"
| "transitions Claiming = [Indexing, Completed, Failed]"
| "transitions Withdrawing = [Closing, Failed]"
| "transitions Closing = [Indexing, Completed, Failed]"
| "transitions Completed = []"
| "transitions Failed = []"

definition canTransition :: "ExecutionState \<Rightarrow> ExecutionState \<Rightarrow> bool" where
  "canTransition s t = (t \<in> set (transitions s))"

section \<open>recovery.ts\<close>

datatype RecoverySafeNextStep = Wait | Retry | Refresh | ContactSupport

record RecoveryGuidance =
  g_headline :: string
  g_message :: string
  g_safeNextStep :: RecoverySafeNextStep
  g_terminal :: bool
  g_fallbackMode :: "ExecutionMode option"
  g_downgradeRequiresDisclosure :: bool

fun recoveryCatalog :: "FailureStage \<Rightarrow> RecoveryGuidance" where
  "recoveryCatalog Signature =
     \<lparr>g_headline = ''Signature is still needed'',
      g_message = ''Octora is waiting for a valid signature. Sign again to continue.'',
      g_safeNextStep = Retry, g_terminal = False, g_fallbackMode = None,
      g_downgradeRequiresDisclosure = False\<rparr>"
| "recoveryCatalog PreFunding =
     \<lparr>g_headline = ''Funding could not start'',
      g_message = ''Octora stopped before any funds moved. Check the balance, then retry from the beginning.'',
      g_safeNextStep = Retry, g_terminal = True, g_fallbackMode = Some Standard,
      g_downgradeRequiresDisclosure = True\<rparr>"
| "recoveryCatalog FundingPartial =
     \<lparr>g_headline = ''Funding started, but did not finish cleanly'',
      g_message = ''Octora moved into funding, but the flow did not complete. Check the wallet activity, then retry once the balance is ready.'',
      g_safeNextStep = ContactSupport, g_terminal = True, g_fallbackMode = Some Standard,
      g_downgradeRequiresDisclosure = True\<rparr>"
| "recoveryCatalog VenueSubmission =
     \<lparr>g_headline = ''Meteora rejected the submission'',
      g_message = ''The pool did not accept the request. Review the setup, then retry.'',
      g_safeNextStep = Retry, g_terminal = True, g_fallbackMode = None,
      g_downgradeRequiresDisclosure = False\<rparr>"
| "recoveryCatalog VenueConfirmation =
     \<lparr>g_headline = ''Confirmation is still pending'',
      g_message = ''The onchain submission has not finished confirming yet. Octora is waiting safely.'',
      g_safeNextStep = Wait, g_terminal = False, g_fallbackMode = None,
      g_downgradeRequiresDisclosure = False\<rparr>"
| "recoveryCatalog IndexingLag =
     \<lparr>g_headline = ''Still waiting on the final snapshot'',
      g_message = ''The venue finished, but the final snapshot has not landed yet. Refresh this view in a moment.'',
      g_safeNextStep = Refresh, g_terminal = False, g_fallbackMode = None,
      g_downgradeRequiresDisclosure = False\<rparr>"
| "recoveryCatalog RecoveryRequired =
     \<lparr>g_headline = ''Needs attention'',
      g_message = ''Octora stopped the flow safely. Review the position and try again.'',
      g_safeNextStep = ContactSupport, g_terminal = True, g_fallbackMode = None,
      g_downgradeRequiresDisclosure = False\<rparr>"

definition getRecoveryGuidance :: "FailureStage option \<Rightarrow> RecoveryGuidance option" where
  "getRecoveryGuidance stage = map_option recoveryCatalog stage"

section \<open>mode-policy.ts\<close>

record ModePolicy =
  mp_label :: string
  mp_fundingTtlMinutes :: nat
  mp_allowFallbackToStandard :: bool
  mp_podReuseWithinPosition :: bool

fun modePolicy :: "ExecutionMode \<Rightarrow> ModePolicy" where
  "modePolicy Standard =
     \<lparr>mp_label = ''Standard'', mp_fundingTtlMinutes = 10, mp_allowFallbackToStandard = False,
      mp_podReuseWithinPosition = True\<rparr>"
| "modePolicy FastPrivate =
     \<lparr>mp_label = ''Fast Private'', mp_fundingTtlMinutes = 15, mp_allowFallbackToStandard = True,
      mp_podReuseWithinPosition = True\<rparr>"

section \<open>activity.ts\<close>

record ActivityRecord =
  ar_id :: string
  ar_positionId :: string
  ar_action :: PositionAction
  ar_state :: ExecutionState
  ar_headline :: string
  ar_detail :: string
  ar_safeNextStep :: RecoverySafeNextStep
  ar_recovery :: "RecoveryGuidance option"
  ar_createdAt :: nat

section \<open>The transition graph\<close>

text \<open>
  A walk repeats a state or follows an edge of the table; the activity log of a position is
  shown to be one.
\<close>

definition walk :: "ExecutionState list \<Rightarrow> bool" where
  "walk ss = successively (\<lambda>s t. s = t \<or> canTransition s t) ss"

lemma walk_Nil [simp]: "walk []"
  by (simp add: walk_def)

lemma walk_append1:
  "walk (ss @ [t]) \<longleftrightarrow> walk ss \<and> (ss = [] \<or> last ss = t \<or> canTransition (last ss) t)"
  by (auto simp: walk_def successively_append_iff)

lemma canTransition_simps [simp]:
  "canTransition Draft t \<longleftrightarrow> t = AwaitingSignature"
  "canTransition AwaitingSignature t \<longleftrightarrow> t = FundingInProgress \<or> t = Failed"
  "canTransition FundingInProgress t \<longleftrightarrow> t = ExecutingOnMeteora \<or> t = Failed"
  "canTransition ExecutingOnMeteora t \<longleftrightarrow> t = Indexing \<or> t = Failed"
  "canTransition Indexing t \<longleftrightarrow> t = Active \<or> t = Completed \<or> t = Failed"
  "canTransition Active t \<longleftrightarrow> t = Claiming \<or> t = Withdrawing \<or> t = Closing"
  "canTransition Claiming t \<longleftrightarrow> t = Indexing \<or> t = Completed \<or> t = Failed"
  "canTransition Withdrawing t \<longleftrightarrow> t = Closing \<or> t = Failed"
  "canTransition Closing t \<longleftrightarrow> t = Indexing \<or> t = Completed \<or> t = Failed"
  "\<not> canTransition Completed t"
  "\<not> canTransition Failed t"
  by (auto simp: canTransition_def)

lemma canTransition_into_funding: "canTransition s FundingInProgress \<longleftrightarrow> s = AwaitingSignature"
  by (cases s) auto

lemma canTransition_into_claiming:
  "canTransition s Claiming \<longleftrightarrow> s = Active" "canTransition s Withdrawing \<longleftrightarrow> s = Active"
  by (cases s; auto)+

end
