(* ===== verification/PositionStore.thy ===== *)
theory PositionStore imports Async JsNumbers Domain begin

text \<open>
  The tables behind the position service and the actions the service performs on them:
  position.repository.ts, activity.repository.ts and indexer.repository.ts, with the chain,
  the privacy adapter and the alerting hook as actions whose answers the environment chooses.

  A table is a list of rows in insertion order, which is also the order in which a query
  without an \<open>orderBy\<close> lists them and the tie-break of the sorted queries.  Timestamps are
  milliseconds.  The columns \<open>action\<close>, \<open>mode\<close>, \<open>state\<close> and \<open>failureStage\<close> are typed by
  the unions the code casts them to: every write passes a value of the union.
\<close>

section \<open>Rows\<close>

record PositionRow =
  pos_id :: string
  pos_intentId :: string
  pos_wallet :: string
  pos_action :: PositionAction
  pos_mode :: ExecutionMode
  pos_state :: ExecutionState
  pos_poolSlug :: string
  pos_amount :: string
  pos_createdAt :: nat
  pos_updatedAt :: nat

record ExecutionSessionRow =
  ses_id :: string
  ses_positionId :: string
  ses_state :: ExecutionState
  ses_failureStage :: "FailureStage option"
  ses_createdAt :: nat
  ses_updatedAt :: nat

record ActivityRow =
  act_id :: string
  act_positionId :: string
  act_action :: PositionAction
  act_state :: ExecutionState
  act_headline :: string
  act_detail :: string
  act_safeNextStep :: RecoverySafeNextStep
  act_createdAt :: nat

text \<open>\<open>CreatePositionInput\<close>: the columns the caller supplies.\<close>

record CreatePositionInput =
  cp_id :: string
  cp_intentId :: string
  cp_wallet :: string
  cp_action :: PositionAction
  cp_mode :: ExecutionMode
  cp_state :: ExecutionState
  cp_poolSlug :: string
  cp_amount :: string

definition TERMINAL_POSITION_STATES :: "ExecutionState list" where
  "TERMINAL_POSITION_STATES = [Completed, Failed]"

definition terminal :: "PositionRow \<Rightarrow> bool" where
  "terminal r = (pos_state r \<in> set TERMINAL_POSITION_STATES)"

section \<open>Errors\<close>

datatype CapReason =
    AmountNotPositive string
  | PerPositionCap js_num js_num
  | PerWalletCap nat js_num
  | GlobalTvlCap js_num js_num js_num

datatype perr =
    PositionNotFoundError string
  | UnsupportedPositionActionError PositionAction
  | InvalidTransition ExecutionState ExecutionState
  | NotActive string
  | SessionNotActive string
  | SessionMissing string
  | WalletAddressRequired
  | SignedMessageRequired
  | BetaCapExceededError CapReason
  | SilentDowngradeError
  | RecordError string
  | ExternalError string

section \<open>Calls and answers\<close>

datatype SignatureStatus = StatusErr | Processed | Confirmed | Finalized | StatusUnknown

datatype pcall =
    RandomUUID
  | CreatePosition CreatePositionInput
  | UpdatePositionState string ExecutionState
  | GetPositionById string
  | CreateExecutionSession string string ExecutionState "FailureStage option"
  | UpdateExecutionSession string ExecutionState "FailureStage option"
  | GetLatestExecutionSession string
  | CountActiveByWallet string
  | SumActiveAmountSol
  | FindStuckPositions ExecutionState int nat
  | FindRecentlyFailed int nat
  | CreateActivity string string PositionAction ExecutionState string string RecoverySafeNextStep
  | ListActivities string
  | LoadReconciliation string
  | SaveReconciliation string "string option"
  | StartSaveReconciliation string "string option"
  | ClearReconciliation string
  | PrepareFunding string string string string ExecutionMode
  | PrepareExit string string ExecutionMode
  | AddLiquidity string string
  | ClaimFees string string
  | WithdrawClose string string
  | GetSignatureStatus string
  | CaptureException string

datatype presp =
    RUnit
  | RText string
  | RPosition PositionRow
  | RPositionOpt "PositionRow option"
  | RPositions "PositionRow list"
  | RSession ExecutionSessionRow
  | RSessionOpt "ExecutionSessionRow option"
  | RCount nat
  | RNum js_num
  | RActivity ActivityRow
  | RActivities "ActivityRow list"
  | RReconciliation "string option option"
  | RPod "string option"
  | RStatus "SignatureStatus option"

section \<open>The world\<close>

text \<open>
  \<open>w_unsaved\<close> holds the reconciliation writes the code starts without awaiting them; the
  environment decides when each of them reaches the table.  \<open>w_trail\<close> records every call, newest
  first.
\<close>

record pworld =
  w_positions :: "PositionRow list"
  w_sessions :: "ExecutionSessionRow list"
  w_activities :: "ActivityRow list"
  w_recs :: "string \<rightharpoonup> string option"
  w_unsaved :: "(string \<times> string option) list"
  w_clock :: nat
  w_trail :: "pcall list"

definition empty_world :: pworld where
  "empty_world = \<lparr>w_positions = [], w_sessions = [], w_activities = [], w_recs = Map.empty,
     w_unsaved = [], w_clock = 0, w_trail = []\<rparr>"

text \<open>
  What happens around the \<open>n\<close>-th call: how much time passes before it, which of the unawaited
  writes land before it (by position in the queue), whether it is lost before or after taking
  effect, and what the outside answers.
\<close>

datatype fault = LostBefore string | LostAfter string

record penv =
  env_elapsed :: "nat \<Rightarrow> nat"
  env_flush :: "nat \<Rightarrow> nat list"
  env_fault :: "nat \<Rightarrow> fault option"
  env_uuid :: "nat \<Rightarrow> string"
  env_pod :: "nat \<Rightarrow> string + string option"
  env_venue :: "nat \<Rightarrow> string + string"
  env_status :: "nat \<Rightarrow> string \<Rightarrow> string + SignatureStatus option"

section \<open>Queries\<close>

definition getPositionById :: "string \<Rightarrow> PositionRow list \<Rightarrow> PositionRow option" where
  "getPositionById pid ps = find_by pos_id pid ps"

text \<open>\<open>findFirst ... orderBy createdAt desc\<close>.\<close>

definition getLatestExecutionSession ::
    "string \<Rightarrow> ExecutionSessionRow list \<Rightarrow> ExecutionSessionRow option" where
  "getLatestExecutionSession pid ss =
     (case sort_key ses_createdAt (filter (\<lambda>s. ses_positionId s = pid) ss) of
        [] \<Rightarrow> None
      | s # rest \<Rightarrow> Some (last (s # rest)))"

definition countActiveByWallet :: "string \<Rightarrow> PositionRow list \<Rightarrow> nat" where
  "countActiveByWallet wallet ps = length (filter (\<lambda>r. pos_wallet r = wallet \<and> \<not> terminal r) ps)"

definition add_amount :: "PositionRow \<Rightarrow> js_num \<Rightarrow> js_num" where
  "add_amount r acc =
     (let v = number_of_string (pos_amount r) in if js_isFinite v then js_add acc v else acc)"

definition sumActiveAmountSol :: "PositionRow list \<Rightarrow> js_num" where
  "sumActiveAmountSol ps = fold add_amount (filter (\<lambda>r. \<not> terminal r) ps) (Fin 0)"

definition findStuckPositions ::
    "ExecutionState \<Rightarrow> int \<Rightarrow> nat \<Rightarrow> PositionRow list \<Rightarrow> PositionRow list" where
  "findStuckPositions st cutoff limit ps =
     take limit (sort_key pos_updatedAt
       (filter (\<lambda>r. pos_state r = st \<and> int (pos_updatedAt r) < cutoff) ps))"

definition findRecentlyFailed :: "int \<Rightarrow> nat \<Rightarrow> PositionRow list \<Rightarrow> PositionRow list" where
  "findRecentlyFailed since limit ps =
     take limit (sort_key (\<lambda>r. - int (pos_updatedAt r))
       (filter (\<lambda>r. pos_state r = Failed \<and> since \<le> int (pos_updatedAt r)) ps))"

definition listActivities :: "string \<Rightarrow> ActivityRow list \<Rightarrow> ActivityRow list" where
  "listActivities pid as = sort_key act_createdAt (filter (\<lambda>a. act_positionId a = pid) as)"

section \<open>Updates\<close>

definition new_position :: "nat \<Rightarrow> CreatePositionInput \<Rightarrow> PositionRow" where
  "new_position now inp =
     \<lparr>pos_id = cp_id inp, pos_intentId = cp_intentId inp, pos_wallet = cp_wallet inp,
      pos_action = cp_action inp, pos_mode = cp_mode inp, pos_state = cp_state inp,
      pos_poolSlug = cp_poolSlug inp, pos_amount = cp_amount inp,
      pos_createdAt = now, pos_updatedAt = now\<rparr>"

definition set_position_state :: "nat \<Rightarrow> ExecutionState \<Rightarrow> PositionRow \<Rightarrow> PositionRow" where
  "set_position_state now st r = r\<lparr>pos_state := st, pos_updatedAt := now\<rparr>"

definition set_session_state ::
    "nat \<Rightarrow> ExecutionState \<Rightarrow> FailureStage option \<Rightarrow> ExecutionSessionRow \<Rightarrow> ExecutionSessionRow" where
  "set_session_state now st stage s =
     s\<lparr>ses_state := st, ses_failureStage := stage, ses_updatedAt := now\<rparr>"

text \<open>
  \<open>create\<close> fails on a duplicate key (\<open>id\<close>, and \<open>intentId\<close> of a position, are unique);
  \<open>update\<close> fails when there is no row.
\<close>

definition createPosition :: "CreatePositionInput \<Rightarrow> pworld \<Rightarrow> (perr + presp) \<times> pworld" where
  "createPosition inp w =
     (if cp_id inp \<in> pos_id ` set (w_positions w) \<or> cp_intentId inp \<in> pos_intentId ` set (w_positions w)
      then (Inl (RecordError ''Unique constraint failed''), w)
      else let r = new_position (w_clock w) inp
           in (Inr (RPosition r), w\<lparr>w_positions := w_positions w @ [r]\<rparr>))"

definition updatePositionState :: "string \<Rightarrow> ExecutionState \<Rightarrow> pworld \<Rightarrow> (perr + presp) \<times> pworld" where
  "updatePositionState pid st w =
     (case getPositionById pid (w_positions w) of
        None \<Rightarrow> (Inl (RecordError ''Record to update not found''), w)
      | Some r \<Rightarrow>
          (Inr (RPosition (set_position_state (w_clock w) st r)),
           w\<lparr>w_positions := update_by pos_id pid (set_position_state (w_clock w) st) (w_positions w)\<rparr>))"

definition createExecutionSession ::
    "string \<Rightarrow> string \<Rightarrow> ExecutionState \<Rightarrow> FailureStage option \<Rightarrow> pworld \<Rightarrow> (perr + presp) \<times> pworld" where
  "createExecutionSession sid pid st stage w =
     (if sid \<in> ses_id ` set (w_sessions w) \<or> getPositionById pid (w_positions w) = None
      then (Inl (RecordError ''Unique constraint failed''), w)
      else let s = \<lparr>ses_id = sid, ses_positionId = pid, ses_state = st, ses_failureStage = stage,
                    ses_createdAt = w_clock w, ses_updatedAt = w_clock w\<rparr>
           in (Inr (RSession s), w\<lparr>w_sessions := w_sessions w @ [s]\<rparr>))"

definition updateExecutionSession ::
    "string \<Rightarrow> ExecutionState \<Rightarrow> FailureStage option \<Rightarrow> pworld \<Rightarrow> (perr + presp) \<times> pworld" where
  "updateExecutionSession pid st stage w =
     (case getLatestExecutionSession pid (w_sessions w) of
        None \<Rightarrow> (Inl (SessionMissing pid), w)
      | Some s \<Rightarrow>
          (Inr (RSession (set_session_state (w_clock w) st stage s)),
           w\<lparr>w_sessions := update_by ses_id (ses_id s) (set_session_state (w_clock w) st stage) (w_sessions w)\<rparr>))"

definition createActivity ::
    "string \<Rightarrow> string \<Rightarrow> PositionAction \<Rightarrow> ExecutionState \<Rightarrow> string \<Rightarrow> string
      \<Rightarrow> RecoverySafeNextStep \<Rightarrow> pworld \<Rightarrow> (perr + presp) \<times> pworld" where
  "createActivity aid pid action st headline detail nextStep w =
     (if aid \<in> act_id ` set (w_activities w) \<or> getPositionById pid (w_positions w) = None
      then (Inl (RecordError ''Unique constraint failed''), w)
      else let a = \<lparr>act_id = aid, act_positionId = pid, act_action = action, act_state = st,
                    act_headline = headline, act_detail = detail, act_safeNextStep = nextStep,
                    act_createdAt = w_clock w\<rparr>
           in (Inr (RActivity a), w\<lparr>w_activities := w_activities w @ [a]\<rparr>))"

section \<open>Executing one call\<close>

definition saveReconciliation :: "string \<Rightarrow> string option \<Rightarrow> pworld \<Rightarrow> pworld" where
  "saveReconciliation pid sig w = w\<lparr>w_recs := (w_recs w)(pid \<mapsto> sig)\<rparr>"

definition clearReconciliation :: "string \<Rightarrow> pworld \<Rightarrow> pworld" where
  "clearReconciliation pid w = w\<lparr>w_recs := (w_recs w)(pid := None)\<rparr>"

fun exec_call :: "penv \<Rightarrow> nat \<Rightarrow> pcall \<Rightarrow> pworld \<Rightarrow> (perr + presp) \<times> pworld" where
  "exec_call env n RandomUUID w = (Inr (RText (env_uuid env n)), w)"
| "exec_call env n (CreatePosition inp) w = createPosition inp w"
| "exec_call env n (UpdatePositionState pid st) w = updatePositionState pid st w"
| "exec_call env n (GetPositionById pid) w = (Inr (RPositionOpt (getPositionById pid (w_positions w))), w)"
| "exec_call env n (CreateExecutionSession sid pid st stage) w = createExecutionSession sid pid st stage w"
| "exec_call env n (UpdateExecutionSession pid st stage) w = updateExecutionSession pid st stage w"
| "exec_call env n (GetLatestExecutionSession pid) w =
     (Inr (RSessionOpt (getLatestExecutionSession pid (w_sessions w))), w)"
| "exec_call env n (CountActiveByWallet wallet) w = (Inr (RCount (countActiveByWallet wallet (w_positions w))), w)"
| "exec_call env n SumActiveAmountSol w = (Inr (RNum (sumActiveAmountSol (w_positions w))), w)"
| "exec_call env n (FindStuckPositions st cutoff limit) w =
     (Inr (RPositions (findStuckPositions st cutoff limit (w_positions w))), w)"
| "exec_call env n (FindRecentlyFailed since limit) w =
     (Inr (RPositions (findRecentlyFailed since limit (w_positions w))), w)"
| "exec_call env n (CreateActivity aid pid action st headline detail nextStep) w =
     createActivity aid pid action st headline detail nextStep w"
| "exec_call env n (ListActivities pid) w = (Inr (RActivities (listActivities pid (w_activities w))), w)"
| "exec_call env n (LoadReconciliation pid) w = (Inr (RReconciliation (w_recs w pid)), w)"
| "exec_call env n (SaveReconciliation pid sig) w = (Inr RUnit, saveReconciliation pid sig w)"
| "exec_call env n (StartSaveReconciliation pid sig) w =
     (Inr RUnit, w\<lparr>w_unsaved := w_unsaved w @ [(pid, sig)]\<rparr>)"
| "exec_call env n (ClearReconciliation pid) w = (Inr RUnit, clearReconciliation pid w)"
| "exec_call env n (PrepareFunding pid intent pool amount mode) w = (map_sum ExternalError RPod (env_pod env n), w)"
| "exec_call env n (PrepareExit pid intent mode) w = (map_sum ExternalError RPod (env_pod env n), w)"
| "exec_call env n (AddLiquidity pod amount) w = (map_sum ExternalError RText (env_venue env n), w)"
| "exec_call env n (ClaimFees pod pid) w = (map_sum ExternalError RText (env_venue env n), w)"
| "exec_call env n (WithdrawClose pod pid) w = (map_sum ExternalError RText (env_venue env n), w)"
| "exec_call env n (GetSignatureStatus sig) w = (map_sum ExternalError RStatus (env_status env n sig), w)"
| "exec_call env n (CaptureException pid) w = (Inr RUnit, w)"

text \<open>Before a call: time passes and some unawaited writes land, in the environment's order.\<close>

fun flush :: "nat list \<Rightarrow> pworld \<Rightarrow> pworld" where
  "flush [] w = w"
| "flush (i # is) w =
     (if i < length (w_unsaved w)
      then flush is (saveReconciliation (fst (w_unsaved w ! i)) (snd (w_unsaved w ! i))
             (w\<lparr>w_unsaved := take i (w_unsaved w) @ drop (Suc i) (w_unsaved w)\<rparr>))
      else flush is w)"

definition before_call :: "penv \<Rightarrow> pcall \<Rightarrow> pworld \<Rightarrow> pworld" where
  "before_call env c w =
     flush (env_flush env (length (w_trail w)))
       (w\<lparr>w_clock := w_clock w + env_elapsed env (length (w_trail w))\<rparr>)"

text \<open>Only calls that leave the process can be lost.\<close>

fun remote :: "pcall \<Rightarrow> bool" where
  "remote RandomUUID = False"
| "remote (CaptureException pid) = False"
| "remote c = True"

definition handle :: "penv \<Rightarrow> pcall \<Rightarrow> pworld \<Rightarrow> (perr + presp) \<times> pworld" where
  "handle env c w =
     (let n = length (w_trail w); w0 = before_call env c w in
      case (if remote c then env_fault env n else None) of
        Some (LostBefore e) \<Rightarrow> (Inl (ExternalError e), w0\<lparr>w_trail := c # w_trail w0\<rparr>)
      | Some (LostAfter e) \<Rightarrow>
          (Inl (ExternalError e), (snd (exec_call env n c w0))\<lparr>w_trail := c # w_trail w0\<rparr>)
      | None \<Rightarrow>
          (fst (exec_call env n c w0), (snd (exec_call env n c w0))\<lparr>w_trail := c # w_trail w0\<rparr>))"

end
