(* ===== verification/PositionService.thy ===== *)
theory PositionService imports PositionStore begin

text \<open>
  position.service.ts with activity.service.ts, recovery.service.ts and indexer.service.ts: each
  exported operation is one program over the calls of \<open>PositionStore\<close>, in the order the code
  awaits them.  Response timestamps stay milliseconds (the code renders them with
  \<open>toISOString\<close>).
\<close>

type_synonym 'a pasync = "(pcall, presp, perr, 'a) async"

section \<open>Typed calls\<close>

definition callE :: "pcall \<Rightarrow> (presp \<Rightarrow> 'a option) \<Rightarrow> 'a pasync" where
  "callE c get =
     Call c (\<lambda>r. case r of
        Inl e \<Rightarrow> throwE e
      | Inr a \<Rightarrow> (case get a of Some x \<Rightarrow> returnE x | None \<Rightarrow> throwE (ExternalError ''unexpected answer'')))"

fun as_unit :: "presp \<Rightarrow> unit option" where
  "as_unit RUnit = Some ()" | "as_unit _ = None"
fun as_text :: "presp \<Rightarrow> string option" where
  "as_text (RText t) = Some t" | "as_text _ = None"
fun as_position :: "presp \<Rightarrow> PositionRow option" where
  "as_position (RPosition r) = Some r" | "as_position _ = None"
fun as_position_opt :: "presp \<Rightarrow> PositionRow option option" where
  "as_position_opt (RPositionOpt r) = Some r" | "as_position_opt _ = None"
fun as_positions :: "presp \<Rightarrow> PositionRow list option" where
  "as_positions (RPositions rs) = Some rs" | "as_positions _ = None"
fun as_session :: "presp \<Rightarrow> ExecutionSessionRow option" where
  "as_session (RSession s) = Some s" | "as_session _ = None"
fun as_session_opt :: "presp \<Rightarrow> ExecutionSessionRow option option" where
  "as_session_opt (RSessionOpt s) = Some s" | "as_session_opt _ = None"
fun as_count :: "presp \<Rightarrow> nat option" where
  "as_count (RCount n) = Some n" | "as_count _ = None"
fun as_num :: "presp \<Rightarrow> js_num option" where
  "as_num (RNum x) = Some x" | "as_num _ = None"
fun as_activity :: "presp \<Rightarrow> ActivityRow option" where
  "as_activity (RActivity a) = Some a" | "as_activity _ = None"
fun as_activities :: "presp \<Rightarrow> ActivityRow list option" where
  "as_activities (RActivities l) = Some l" | "as_activities _ = None"
fun as_rec :: "presp \<Rightarrow> string option option option" where
  "as_rec (RReconciliation r) = Some r" | "as_rec _ = None"
fun as_pod :: "presp \<Rightarrow> string option option" where
  "as_pod (RPod p) = Some p" | "as_pod _ = None"
fun as_status :: "presp \<Rightarrow> SignatureStatus option option" where
  "as_status (RStatus s) = Some s" | "as_status _ = None"

text \<open>An action started but not awaited: its failure never reaches the caller.\<close>

definition startE :: "pcall \<Rightarrow> unit pasync" where
  "startE c = Call c (\<lambda>r. returnE ())"

section \<open>recovery.service.ts\<close>

record ResolveModeInput =
  rm_selectedMode :: ExecutionMode
  rm_fallbackMode :: "ExecutionMode option"
  rm_surfacedFallback :: bool

record ResolvedMode =
  rs_mode :: ExecutionMode
  rs_downgradedFrom :: "ExecutionMode option"
  rs_surfacedFallback :: bool

definition resolveExecutionMode :: "ResolveModeInput \<Rightarrow> perr + ResolvedMode" where
  "resolveExecutionMode inp =
     (let fallback = (case rm_fallbackMode inp of None \<Rightarrow> rm_selectedMode inp | Some m \<Rightarrow> m) in
      if rm_selectedMode inp = FastPrivate \<and> fallback \<noteq> rm_selectedMode inp \<and> \<not> rm_surfacedFallback inp
      then Inl SilentDowngradeError
      else Inr \<lparr>rs_mode = fallback,
                rs_downgradedFrom = (if fallback = rm_selectedMode inp then None else Some (rm_selectedMode inp)),
                rs_surfacedFallback = rm_surfacedFallback inp\<rparr>)"

definition getIndexingRecovery :: RecoveryGuidance where
  "getIndexingRecovery = recoveryCatalog IndexingLag"

definition serviceRecoveryGuidance :: "FailureStage option \<Rightarrow> ExecutionMode \<Rightarrow> RecoveryGuidance option" where
  "serviceRecoveryGuidance stage mode = getRecoveryGuidance stage"

section \<open>activity.service.ts\<close>

definition recordActivity ::
    "PositionRow \<Rightarrow> ExecutionState \<Rightarrow> string \<Rightarrow> string \<Rightarrow> RecoverySafeNextStep \<Rightarrow> ActivityRow pasync" where
  "recordActivity position st headline detail nextStep =
     bindE (callE RandomUUID as_text) (\<lambda>aid.
     callE (CreateActivity aid (pos_id position) (pos_action position) st headline detail nextStep)
       as_activity)"

definition listActivitiesE :: "string \<Rightarrow> ActivityRow list pasync" where
  "listActivitiesE pid = callE (ListActivities pid) as_activities"

section \<open>indexer.service.ts\<close>

datatype ReconcileState = StillIndexing | NowActive

record PositionIndexerReconcileResult =
  rr_state :: ReconcileState
  rr_statusLabel :: string
  rr_nextStep :: RecoverySafeNextStep

text \<open>The position service starts these two writes without awaiting them.\<close>

definition beginReconciliation :: "string \<Rightarrow> unit pasync" where
  "beginReconciliation pid = startE (StartSaveReconciliation pid None)"

definition registerSnapshot :: "string \<Rightarrow> string \<Rightarrow> unit pasync" where
  "registerSnapshot pid signature = startE (StartSaveReconciliation pid (Some signature))"

definition reconcile :: "string \<Rightarrow> PositionIndexerReconcileResult pasync" where
  "reconcile pid =
     bindE (callE (LoadReconciliation pid) as_rec) (\<lambda>entry.
     if (case entry of Some (Some sig) \<Rightarrow> sig = [] | _ \<Rightarrow> True)
     then returnE \<lparr>rr_state = StillIndexing, rr_statusLabel = ''Execution delayed'', rr_nextStep = Refresh\<rparr>
     else bindE (callE (ClearReconciliation pid) as_unit) (\<lambda>_.
       returnE \<lparr>rr_state = NowActive, rr_statusLabel = ''Position active'', rr_nextStep = Wait\<rparr>))"

section \<open>Labels\<close>

definition formatPoolLabel :: "string \<Rightarrow> string" where
  "formatPoolLabel slug = (if slug = ''sol-usdc'' then ''SOL / USDC'' else js_upper slug)"

definition formatAmount :: "string \<Rightarrow> string" where
  "formatAmount amount =
     (case number_of_string amount of Fin x \<Rightarrow> toFixed2 x @ '' SOL'' | _ \<Rightarrow> amount)"

fun formatStatusLabel :: "ExecutionState \<Rightarrow> string option \<Rightarrow> string" where
  "formatStatusLabel Draft h = ''Awaiting signature''"
| "formatStatusLabel AwaitingSignature h = ''Waiting for signature''"
| "formatStatusLabel FundingInProgress h = ''Funding in progress''"
| "formatStatusLabel ExecutingOnMeteora h = ''Executing on Meteora''"
| "formatStatusLabel Indexing h =
     (if h = Some ''Execution delayed'' then ''Execution delayed'' else ''Verifying final position state'')"
| "formatStatusLabel Active h = ''Position active''"
| "formatStatusLabel Claiming h = ''Claiming''"
| "formatStatusLabel Withdrawing h = ''Withdrawing''"
| "formatStatusLabel Closing h = ''Closing''"
| "formatStatusLabel Completed h = ''Completed''"
| "formatStatusLabel Failed h = (case h of None \<Rightarrow> ''Needs attention'' | Some t \<Rightarrow> t)"

section \<open>Recovery guidance of a response\<close>

definition resolveActivityRecovery ::
    "ActivityRow option \<Rightarrow> FailureStage option \<Rightarrow> ExecutionMode \<Rightarrow> bool \<Rightarrow> RecoveryGuidance option" where
  "resolveActivityRecovery activity stage mode isLatest =
     (if stage \<noteq> None \<and> isLatest then serviceRecoveryGuidance stage mode
      else case activity of
             None \<Rightarrow> None
           | Some a \<Rightarrow>
               if act_state a = Indexing \<and> act_headline a = ''Execution delayed'' then Some getIndexingRecovery
               else if act_state a = Failed then serviceRecoveryGuidance (Some RecoveryRequired) FastPrivate
               else None)"

definition resolveRecovery ::
    "ExecutionMode \<Rightarrow> FailureStage option \<Rightarrow> ActivityRow option \<Rightarrow> RecoveryGuidance option" where
  "resolveRecovery mode stage latest =
     (if stage \<noteq> None then serviceRecoveryGuidance stage mode
      else resolveActivityRecovery latest None mode True)"

section \<open>Responses\<close>

record PositionSessionState =
  ss_id :: string
  ss_positionId :: string
  ss_state :: ExecutionState
  ss_failureStage :: "FailureStage option"
  ss_createdAt :: nat
  ss_updatedAt :: nat

record PositionSnapshot =
  ps_id :: string
  ps_intentId :: string
  ps_action :: PositionAction
  ps_mode :: ExecutionMode
  ps_modeLabel :: string
  ps_state :: ExecutionState
  ps_statusLabel :: string
  ps_poolSlug :: string
  ps_poolLabel :: string
  ps_amount :: string
  ps_amountLabel :: string
  ps_createdAt :: nat
  ps_updatedAt :: nat

record PositionResponse =
  resp_intent :: PositionIntent
  resp_position :: PositionSnapshot
  resp_session :: PositionSessionState
  resp_activity :: "ActivityRecord list"
  resp_recovery :: "RecoveryGuidance option"

definition last_opt :: "'a list \<Rightarrow> 'a option" where
  "last_opt xs = (if xs = [] then None else Some (last xs))"

definition buildResponse ::
    "PositionRow \<Rightarrow> ExecutionSessionRow \<Rightarrow> ActivityRow list \<Rightarrow> PositionResponse" where
  "buildResponse position session activities =
     (let mode = pos_mode position; latest = last_opt activities in
      \<lparr>resp_intent =
         \<lparr>intent_id = pos_intentId position, intent_positionId = pos_id position,
          intent_action = pos_action position, intent_mode = mode,
          intent_state = pos_state position, intent_failureStage = None, intent_createdAt = pos_createdAt position\<rparr>,
       resp_position =
         \<lparr>ps_id = pos_id position, ps_intentId = pos_intentId position,
          ps_action = pos_action position, ps_mode = mode, ps_modeLabel = mp_label (modePolicy mode),
          ps_state = pos_state position,
          ps_statusLabel = formatStatusLabel (pos_state position) (map_option act_headline latest),
          ps_poolSlug = pos_poolSlug position, ps_poolLabel = formatPoolLabel (pos_poolSlug position),
          ps_amount = pos_amount position, ps_amountLabel = formatAmount (pos_amount position),
          ps_createdAt = pos_createdAt position, ps_updatedAt = pos_updatedAt position\<rparr>,
       resp_session =
         \<lparr>ss_id = ses_id session, ss_positionId = ses_positionId session, ss_state = ses_state session,
          ss_failureStage = ses_failureStage session, ss_createdAt = ses_createdAt session,
          ss_updatedAt = ses_updatedAt session\<rparr>,
       resp_activity =
         map (\<lambda>item. \<lparr>ar_id = act_id item, ar_positionId = act_positionId item,
            ar_action = act_action item, ar_state = act_state item, ar_headline = act_headline item,
            ar_detail = act_detail item, ar_safeNextStep = act_safeNextStep item,
            ar_recovery = resolveActivityRecovery (Some item) (ses_failureStage session) mode
              (map_option act_id latest = Some (act_id item)),
            ar_createdAt = act_createdAt item\<rparr>) activities,
       resp_recovery = resolveRecovery mode (ses_failureStage session) latest\<rparr>)"

section \<open>Beta caps\<close>

record BetaCapsConfig =
  maxPositionSol :: js_num
  maxGlobalTvlSol :: js_num
  maxPositionsPerWallet :: js_num

definition DEFAULT_BETA_CAPS :: BetaCapsConfig where
  "DEFAULT_BETA_CAPS = \<lparr>maxPositionSol = Fin (5 / 2), maxGlobalTvlSol = Fin 125, maxPositionsPerWallet = Fin 5\<rparr>"

record CreateDraftPositionIntentInput =
  dr_action :: PositionAction
  dr_amount :: string
  dr_pool :: string
  dr_mode :: ExecutionMode
  dr_wallet :: string

text \<open>\<open>a >= b\<close> on doubles, false when either side is not a number.\<close>

definition js_ge :: "js_num \<Rightarrow> js_num \<Rightarrow> bool" where
  "js_ge a b = (js_gt a b \<or> (a = b \<and> a \<noteq> NaN))"

definition assertBetaCaps :: "BetaCapsConfig \<Rightarrow> CreateDraftPositionIntentInput \<Rightarrow> unit pasync" where
  "assertBetaCaps caps inp =
     (let amountSol = number_of_string (dr_amount inp) in
      bindE (guardE (js_isFinite amountSol \<and> js_gt amountSol (Fin 0))
               (BetaCapExceededError (AmountNotPositive (dr_amount inp)))) (\<lambda>_.
      bindE (guardE (\<not> js_gt amountSol (maxPositionSol caps))
               (BetaCapExceededError (PerPositionCap amountSol (maxPositionSol caps)))) (\<lambda>_.
      bindE (callE (CountActiveByWallet (dr_wallet inp)) as_count) (\<lambda>walletCount.
      bindE (callE SumActiveAmountSol as_num) (\<lambda>globalTvl.
      bindE (guardE (\<not> js_ge (Fin (of_nat walletCount)) (maxPositionsPerWallet caps))
               (BetaCapExceededError (PerWalletCap walletCount (maxPositionsPerWallet caps)))) (\<lambda>_.
      guardE (\<not> js_gt (js_add globalTvl amountSol) (maxGlobalTvlSol caps))
        (BetaCapExceededError (GlobalTvlCap globalTvl amountSol (maxGlobalTvlSol caps)))))))))"

section \<open>Guards\<close>

definition assertTransition :: "ExecutionState \<Rightarrow> ExecutionState \<Rightarrow> unit pasync" where
  "assertTransition s t = guardE (canTransition s t) (InvalidTransition s t)"

definition getActivePosition :: "string \<Rightarrow> PositionRow pasync" where
  "getActivePosition pid =
     bindE (callE (GetPositionById pid) as_position_opt) (\<lambda>found.
     case found of
       None \<Rightarrow> throwE (PositionNotFoundError pid)
     | Some position \<Rightarrow>
         if pos_state position \<noteq> Active then throwE (NotActive pid) else returnE position)"

definition getLatestActiveSession :: "string \<Rightarrow> ExecutionSessionRow pasync" where
  "getLatestActiveSession pid =
     bindE (callE (GetLatestExecutionSession pid) as_session_opt) (\<lambda>found.
     case found of
       None \<Rightarrow> throwE (PositionNotFoundError pid)
     | Some session \<Rightarrow>
         if ses_state session \<noteq> Active then throwE (SessionNotActive pid) else returnE session)"

end
