(* ===== verification/PositionOperations.thy ===== *)
theory PositionOperations imports PositionService begin

text \<open>
  The five operations of position.service.ts: create a draft, execute a signed intent, claim,
  withdraw and close, and read.
\<close>

definition createDraftPositionIntent ::
    "BetaCapsConfig \<Rightarrow> CreateDraftPositionIntentInput \<Rightarrow> PositionResponse pasync" where
  "createDraftPositionIntent betaCaps inp =
     bindE (guardE (dr_wallet inp \<noteq> []) WalletAddressRequired) (\<lambda>_.
     bindE (assertBetaCaps betaCaps inp) (\<lambda>_.
     bindE (callE RandomUUID as_text) (\<lambda>positionId.
     bindE (callE RandomUUID as_text) (\<lambda>intentId.
     bindE (callE RandomUUID as_text) (\<lambda>sessionId.
     bindE (callE (CreatePosition
              \<lparr>cp_id = positionId, cp_intentId = intentId, cp_wallet = dr_wallet inp,
               cp_action = dr_action inp, cp_mode = dr_mode inp, cp_state = Draft,
               cp_poolSlug = dr_pool inp, cp_amount = dr_amount inp\<rparr>) as_position) (\<lambda>position.
     bindE (callE (CreateExecutionSession sessionId positionId AwaitingSignature None) as_session) (\<lambda>session.
     bindE (recordActivity position AwaitingSignature ''Intent received''
              (''Queued a draft '' @ formatPoolLabel (dr_pool inp) @ '' position for signature review.'')
              Wait) (\<lambda>activity.
     returnE (buildResponse position session [activity])))))))))"

definition formatFailureMessage :: "perr \<Rightarrow> string" where
  "formatFailureMessage e =
     (case e of
        ExternalError m \<Rightarrow> if m \<noteq> [] then m else ''Octora stopped safely and needs another pass.''
      | _ \<Rightarrow> ''Octora stopped safely and needs another pass.'')"

definition recordFailure :: "PositionRow \<Rightarrow> FailureStage \<Rightarrow> perr \<Rightarrow> PositionResponse pasync" where
  "recordFailure position failureStage err =
     (let guidance = (case serviceRecoveryGuidance (Some failureStage) (pos_mode position) of
                        None \<Rightarrow> serviceRecoveryGuidance (Some RecoveryRequired) (pos_mode position)
                      | Some g \<Rightarrow> Some g) in
      bindE (callE (UpdatePositionState (pos_id position) Failed) as_position) (\<lambda>failedPosition.
      bindE (callE (UpdateExecutionSession (pos_id position) Failed (Some failureStage)) as_session) (\<lambda>failedSession.
      bindE (recordActivity failedPosition Failed
               (case guidance of None \<Rightarrow> ''Needs attention'' | Some g \<Rightarrow> g_headline g)
               (case guidance of None \<Rightarrow> formatFailureMessage err | Some g \<Rightarrow> g_message g)
               (case guidance of None \<Rightarrow> ContactSupport | Some g \<Rightarrow> g_safeNextStep g)) (\<lambda>_.
      bindE (listActivitiesE (pos_id position)) (\<lambda>activities.
      returnE (buildResponse failedPosition failedSession activities))))))"

definition executionModeE :: "ExecutionMode \<Rightarrow> ExecutionMode pasync" where
  "executionModeE mode =
     (case resolveExecutionMode \<lparr>rm_selectedMode = mode, rm_fallbackMode = None, rm_surfacedFallback = False\<rparr> of
        Inl e \<Rightarrow> throwE e
      | Inr r \<Rightarrow> returnE (rs_mode r))"

definition executeSignedIntent :: "string \<Rightarrow> string \<Rightarrow> PositionResponse pasync" where
  "executeSignedIntent positionId signedMessage =
     bindE (guardE (signedMessage \<noteq> []) SignedMessageRequired) (\<lambda>_.
     bindE (callE (GetPositionById positionId) as_position_opt) (\<lambda>foundPosition.
     case foundPosition of None \<Rightarrow> throwE (PositionNotFoundError positionId) | Some position \<Rightarrow>
     bindE (callE (GetLatestExecutionSession positionId) as_session_opt) (\<lambda>foundSession.
     case foundSession of None \<Rightarrow> throwE (PositionNotFoundError positionId) | Some session \<Rightarrow>
     bindE (guardE (pos_action position = AddLiquidityAction)
              (UnsupportedPositionActionError (pos_action position))) (\<lambda>_.
     bindE (executionModeE (pos_mode position)) (\<lambda>executionMode.
     bindE (assertTransition (ses_state session) FundingInProgress) (\<lambda>_.
     bindE (callE (UpdateExecutionSession positionId FundingInProgress None) as_session) (\<lambda>fundingSession.
     bindE (recordActivity position FundingInProgress ''Funding started''
              (''Routing '' @ formatAmount (pos_amount position) @ '' into the execution boundary.'') Wait) (\<lambda>_.
     attemptE (callE (PrepareFunding (pos_id position) (pos_intentId position) (pos_poolSlug position)
                 (pos_amount position) executionMode) as_pod)
       (recordFailure position PreFunding) (\<lambda>podId.
     bindE (assertTransition (ses_state fundingSession) ExecutingOnMeteora) (\<lambda>_.
     bindE (callE (UpdateExecutionSession positionId ExecutingOnMeteora None) as_session) (\<lambda>executingSession.
     bindE (recordActivity position ExecutingOnMeteora ''Submitting to Meteora''
              (''Prepared the execution pod '' @ (case podId of None \<Rightarrow> ''unknown'' | Some p \<Rightarrow> p)
                @ '' for onchain submission.'') Wait) (\<lambda>_.
     attemptE (callE (AddLiquidity (case podId of None \<Rightarrow> pos_id position | Some p \<Rightarrow> p)
                 (pos_amount position)) as_text)
       (recordFailure position FundingPartial) (\<lambda>signature.
     bindE (assertTransition (ses_state executingSession) Indexing) (\<lambda>_.
     bindE (beginReconciliation (pos_id position)) (\<lambda>_.
     bindE (callE (UpdatePositionState positionId Indexing) as_position) (\<lambda>indexingPosition.
     bindE (callE (UpdateExecutionSession positionId Indexing None) as_session) (\<lambda>indexingSession.
     bindE (recordActivity indexingPosition Indexing ''Verifying final position state''
              (''Meteora returned '' @ signature
                @ ''; Octora is checking the final position state before activating it.'') Wait) (\<lambda>_.
     bindE (registerSnapshot (pos_id position) signature) (\<lambda>_.
     bindE (listActivitiesE positionId) (\<lambda>activities.
     returnE (buildResponse indexingPosition indexingSession activities)))))))))))))))))))))"

definition claimPosition :: "string \<Rightarrow> PositionResponse pasync" where
  "claimPosition positionId =
     bindE (getActivePosition positionId) (\<lambda>position.
     bindE (getLatestActiveSession positionId) (\<lambda>session.
     bindE (executionModeE (pos_mode position)) (\<lambda>executionMode.
     bindE (assertTransition (ses_state session) Claiming) (\<lambda>_.
     bindE (callE (UpdatePositionState (pos_id position) Claiming) as_position) (\<lambda>claimingPosition.
     bindE (callE (UpdateExecutionSession positionId Claiming None) as_session) (\<lambda>claimingSession.
     bindE (recordActivity claimingPosition Claiming ''Claiming fees''
              ''Octora is claiming the available fees and keeping the position flow private.'' Wait) (\<lambda>_.
     attemptE (callE (PrepareExit (pos_id position) (pos_intentId position) executionMode) as_pod)
       (recordFailure position VenueSubmission) (\<lambda>podId.
     attemptE (callE (ClaimFees (case podId of None \<Rightarrow> pos_id position | Some p \<Rightarrow> p) (pos_id position)) as_text)
       (recordFailure position VenueConfirmation) (\<lambda>signature.
     bindE (assertTransition (ses_state claimingSession) Indexing) (\<lambda>_.
     bindE (callE (UpdatePositionState (pos_id position) Indexing) as_position) (\<lambda>indexingPosition.
     bindE (callE (UpdateExecutionSession positionId Indexing None) as_session) (\<lambda>indexingSession.
     bindE (recordActivity indexingPosition Indexing ''Reconciling claim''
              (''Meteora returned '' @ signature
                @ ''; Octora is reconciling the claim before finishing the flow.'') Wait) (\<lambda>_.
     bindE (assertTransition (ses_state indexingSession) Completed) (\<lambda>_.
     bindE (callE (UpdatePositionState (pos_id position) Completed) as_position) (\<lambda>completedPosition.
     bindE (callE (UpdateExecutionSession positionId Completed None) as_session) (\<lambda>completedSession.
     bindE (recordActivity completedPosition Completed ''Claim completed''
              ''Fees have been claimed and the position is settled.'' Wait) (\<lambda>_.
     bindE (listActivitiesE positionId) (\<lambda>activities.
     returnE (buildResponse completedPosition completedSession activities)))))))))))))))))))"

definition withdrawClosePosition :: "string \<Rightarrow> PositionResponse pasync" where
  "withdrawClosePosition positionId =
     bindE (getActivePosition positionId) (\<lambda>position.
     bindE (getLatestActiveSession positionId) (\<lambda>session.
     bindE (executionModeE (pos_mode position)) (\<lambda>executionMode.
     bindE (assertTransition (ses_state session) Withdrawing) (\<lambda>_.
     bindE (callE (UpdatePositionState (pos_id position) Withdrawing) as_position) (\<lambda>withdrawingPosition.
     bindE (callE (UpdateExecutionSession positionId Withdrawing None) as_session) (\<lambda>withdrawingSession.
     bindE (recordActivity withdrawingPosition Withdrawing ''Withdrawing liquidity''
              ''Octora is removing the position through the private execution boundary.'' Wait) (\<lambda>_.
     attemptE (callE (PrepareExit (pos_id position) (pos_intentId position) executionMode) as_pod)
       (recordFailure position VenueSubmission) (\<lambda>podId.
     attemptE (callE (WithdrawClose (case podId of None \<Rightarrow> pos_id position | Some p \<Rightarrow> p) (pos_id position)) as_text)
       (recordFailure position VenueConfirmation) (\<lambda>signature.
     bindE (assertTransition (ses_state withdrawingSession) Closing) (\<lambda>_.
     bindE (callE (UpdatePositionState (pos_id position) Closing) as_position) (\<lambda>closingPosition.
     bindE (callE (UpdateExecutionSession positionId Closing None) as_session) (\<lambda>closingSession.
     bindE (recordActivity closingPosition Closing ''Closing position''
              (''Meteora returned '' @ signature
                @ ''; Octora is finalizing the close and reconciling balances.'') Wait) (\<lambda>_.
     bindE (assertTransition (ses_state closingSession) Indexing) (\<lambda>_.
     bindE (callE (UpdatePositionState (pos_id position) Indexing) as_position) (\<lambda>indexingPosition.
     bindE (callE (UpdateExecutionSession positionId Indexing None) as_session) (\<lambda>indexingSession.
     bindE (recordActivity indexingPosition Indexing ''Reconciling exit''
              ''Octora is checking the final position state before marking the exit complete.'' Wait) (\<lambda>_.
     bindE (assertTransition (ses_state indexingSession) Completed) (\<lambda>_.
     bindE (callE (UpdatePositionState (pos_id position) Completed) as_position) (\<lambda>completedPosition.
     bindE (callE (UpdateExecutionSession positionId Completed None) as_session) (\<lambda>completedSession.
     bindE (recordActivity completedPosition Completed ''Withdraw-close completed''
              ''Your position has been withdrawn and closed.'' Wait) (\<lambda>_.
     bindE (listActivitiesE positionId) (\<lambda>activities.
     returnE (buildResponse completedPosition completedSession activities)))))))))))))))))))))))"

definition getPosition :: "string \<Rightarrow> PositionResponse pasync" where
  "getPosition positionId =
     bindE (callE (GetPositionById positionId) as_position_opt) (\<lambda>foundPosition.
     case foundPosition of None \<Rightarrow> throwE (PositionNotFoundError positionId) | Some position \<Rightarrow>
     bindE (callE (GetLatestExecutionSession positionId) as_session_opt) (\<lambda>foundSession.
     case foundSession of None \<Rightarrow> throwE (PositionNotFoundError positionId) | Some session \<Rightarrow>
     bindE (listActivitiesE positionId) (\<lambda>activities.
     if ses_state session \<noteq> Indexing then returnE (buildResponse position session activities)
     else
       bindE (reconcile positionId) (\<lambda>reconciliation.
       if rr_state reconciliation = NowActive \<and> pos_state position \<noteq> Active then
         bindE (callE (UpdatePositionState positionId Active) as_position) (\<lambda>activePosition.
         bindE (callE (UpdateExecutionSession positionId Active None) as_session) (\<lambda>activeSession.
         bindE (recordActivity activePosition Active ''Position active''
                  ''The final snapshot is available and the position is now live.'' Wait) (\<lambda>_.
         bindE (listActivitiesE positionId) (\<lambda>activities'.
         returnE (buildResponse activePosition activeSession activities')))))
       else if map_option act_headline (last_opt activities) \<noteq> Some ''Execution delayed'' then
         bindE (recordActivity position Indexing ''Execution delayed''
                  (g_message getIndexingRecovery) (g_safeNextStep getIndexingRecovery)) (\<lambda>_.
         bindE (listActivitiesE positionId) (\<lambda>activities'.
         returnE (buildResponse position session activities')))
       else returnE (buildResponse position session activities)))))"

section \<open>Requests\<close>

text \<open>What a client can ask of the service.\<close>

datatype request =
    CreateDraft CreateDraftPositionIntentInput
  | Execute string string
  | Claim string
  | WithdrawAndClose string
  | Read string

fun serve :: "BetaCapsConfig \<Rightarrow> request \<Rightarrow> PositionResponse pasync" where
  "serve caps (CreateDraft inp) = createDraftPositionIntent caps inp"
| "serve caps (Execute pid msg) = executeSignedIntent pid msg"
| "serve caps (Claim pid) = claimPosition pid"
| "serve caps (WithdrawAndClose pid) = withdrawClosePosition pid"
| "serve caps (Read pid) = getPosition pid"

end
