(* ===== verification/RecoveryWorker.thy ===== *)
theory RecoveryWorker imports PositionOperations begin

text \<open>
  recovery-worker.ts: one tick of the background reconciler as a program over the calls of
  \<open>PositionStore\<close>, and the timer that repeats it.  \<open>now\<close> is the tick's own clock reading;
  the lower bound of the next failure scan is passed in and returned.
\<close>

definition DEFAULT_INTERVAL_MS :: int where "DEFAULT_INTERVAL_MS = 30000"
definition EXECUTING_STUCK_AFTER_MS :: int where "EXECUTING_STUCK_AFTER_MS = 5 * 60 * 1000"
definition INDEXING_STUCK_AFTER_MS :: int where "INDEXING_STUCK_AFTER_MS = 2 * 60 * 1000"
definition SCAN_BATCH_LIMIT :: nat where "SCAN_BATCH_LIMIT = 50"

record RecoveryTickResult =
  executingChecked :: nat
  executingAdvanced :: nat
  executingFailed :: nat
  indexingChecked :: nat
  indexingAdvanced :: nat
  failuresAlerted :: nat

definition empty_tick :: RecoveryTickResult where
  "empty_tick = \<lparr>executingChecked = 0, executingAdvanced = 0, executingFailed = 0,
     indexingChecked = 0, indexingAdvanced = 0, failuresAlerted = 0\<rparr>"

datatype VenueDecision = VenueConfirmed | VenueFailed | VenuePending

definition checkVenueSignature :: "PositionRow \<Rightarrow> int \<Rightarrow> VenueDecision pasync" where
  "checkVenueSignature position now =
     (let ageMs = now - int (pos_updatedAt position) in
      bindE (callE (LoadReconciliation (pos_id position)) as_rec) (\<lambda>reconciliation.
      case (case reconciliation of Some (Some sig) \<Rightarrow> if sig = [] then None else Some sig | _ \<Rightarrow> None) of
        None \<Rightarrow> returnE (if EXECUTING_STUCK_AFTER_MS < ageMs then VenueFailed else VenuePending)
      | Some sig \<Rightarrow>
          bindE (callE (GetSignatureStatus sig) as_status) (\<lambda>status.
          returnE (case status of
              None \<Rightarrow> if EXECUTING_STUCK_AFTER_MS * 2 < ageMs then VenueFailed else VenuePending
            | Some StatusErr \<Rightarrow> VenueFailed
            | Some Confirmed \<Rightarrow> VenueConfirmed
            | Some Finalized \<Rightarrow> VenueConfirmed
            | Some Processed \<Rightarrow> VenuePending
            | Some StatusUnknown \<Rightarrow> VenuePending))))"

definition advanceTo :: "PositionRow \<Rightarrow> ExecutionState \<Rightarrow> unit pasync" where
  "advanceTo position to =
     bindE (callE (UpdatePositionState (pos_id position) to) as_position) (\<lambda>updated.
     bindE (callE (UpdateExecutionSession (pos_id position) to None) as_session) (\<lambda>_.
     bindE (recordActivity updated to (''Recovered position into '' @ state_text to)
              (''Recovery worker advanced '' @ pos_id position @ '' from '' @
                 state_text (pos_state position) @ '' to '' @ state_text to @ ''.'') Wait) (\<lambda>_.
     returnE ())))"

definition failPosition :: "PositionRow \<Rightarrow> FailureStage \<Rightarrow> unit pasync" where
  "failPosition position stage =
     bindE (callE (UpdatePositionState (pos_id position) Failed) as_position) (\<lambda>updated.
     bindE (callE (UpdateExecutionSession (pos_id position) Failed (Some stage)) as_session) (\<lambda>_.
     bindE (recordActivity updated Failed ''Recovery flagged position as failed''
              (''Recovery worker exhausted retries on '' @ action_text (pos_action position) @
                 '' (stage: '' @ stage_text stage @ '').'') ContactSupport) (\<lambda>_.
     returnE ())))"

text \<open>The three loops.  An error on one position is caught and the loop goes on.\<close>

definition checkExecuting ::
    "int \<Rightarrow> PositionRow \<Rightarrow> RecoveryTickResult \<Rightarrow> RecoveryTickResult pasync" where
  "checkExecuting now position result =
     catchE
       (bindE (checkVenueSignature position now) (\<lambda>decision.
        case decision of
          VenueConfirmed \<Rightarrow>
            bindE (advanceTo position Indexing) (\<lambda>_.
              returnE (result\<lparr>executingAdvanced := executingAdvanced result + 1\<rparr>))
        | VenueFailed \<Rightarrow>
            bindE (failPosition position VenueConfirmation) (\<lambda>_.
              returnE (result\<lparr>executingFailed := executingFailed result + 1\<rparr>))
        | VenuePending \<Rightarrow> returnE result))
       (\<lambda>e. returnE result)"

definition checkIndexing :: "PositionRow \<Rightarrow> RecoveryTickResult \<Rightarrow> RecoveryTickResult pasync" where
  "checkIndexing position result =
     catchE
       (bindE (reconcile (pos_id position)) (\<lambda>reconciled.
        if rr_state reconciled = NowActive
        then bindE (advanceTo position Active) (\<lambda>_.
               returnE (result\<lparr>indexingAdvanced := indexingAdvanced result + 1\<rparr>))
        else returnE result))
       (\<lambda>e. returnE result)"

definition alertFailure :: "PositionRow \<Rightarrow> RecoveryTickResult \<Rightarrow> RecoveryTickResult pasync" where
  "alertFailure failure result =
     bindE (callE (CaptureException (pos_id failure)) as_unit) (\<lambda>_.
     returnE (result\<lparr>failuresAlerted := failuresAlerted result + 1\<rparr>))"

text \<open>
  The outer \<open>catch\<close> keeps the counters reached so far and the old scan boundary.
\<close>

definition abortTick :: "RecoveryTickResult \<Rightarrow> int \<Rightarrow> perr \<Rightarrow> (RecoveryTickResult \<times> int) pasync" where
  "abortTick result lastFailureScan e =
     bindE (callE (CaptureException ''recovery-worker-tick'') as_unit) (\<lambda>_.
     returnE (result, lastFailureScan))"

definition tick :: "int \<Rightarrow> int \<Rightarrow> (RecoveryTickResult \<times> int) pasync" where
  "tick now lastFailureScan =
     attemptE (callE (FindStuckPositions ExecutingOnMeteora (now - EXECUTING_STUCK_AFTER_MS)
                 SCAN_BATCH_LIMIT) as_positions)
       (abortTick empty_tick lastFailureScan) (\<lambda>stuckExecuting.
     bindE (foldE (checkExecuting now) stuckExecuting
              (empty_tick\<lparr>executingChecked := length stuckExecuting\<rparr>)) (\<lambda>result1.
     attemptE (callE (FindStuckPositions Indexing (now - INDEXING_STUCK_AFTER_MS)
                 SCAN_BATCH_LIMIT) as_positions)
       (abortTick result1 lastFailureScan) (\<lambda>stuckIndexing.
     bindE (foldE checkIndexing stuckIndexing
              (result1\<lparr>indexingChecked := length stuckIndexing\<rparr>)) (\<lambda>result2.
     attemptE (callE (FindRecentlyFailed lastFailureScan SCAN_BATCH_LIMIT) as_positions)
       (abortTick result2 lastFailureScan) (\<lambda>newFailures.
     bindE (foldE alertFailure newFailures result2) (\<lambda>result3.
     returnE (result3, now)))))))"

section \<open>The timer\<close>

text \<open>
  \<open>pending\<close> counts the armed timeouts, \<open>ticking\<close> the loop bodies that are inside a tick.
  \<open>timerSet\<close> is the variable \<open>timer\<close>, which keeps pointing at a timeout that has fired.
  \<open>current\<close> says that the armed timeout the variable points at is still pending.
\<close>

record worker_timer =
  wt_running :: bool
  wt_timerSet :: bool
  wt_current :: bool
  wt_stray :: nat
  wt_ticking :: nat

definition worker_init :: worker_timer where
  "worker_init = \<lparr>wt_running = False, wt_timerSet = False, wt_current = False, wt_stray = 0, wt_ticking = 0\<rparr>"

definition worker_start :: "worker_timer \<Rightarrow> worker_timer" where
  "worker_start w =
     (if wt_timerSet w \<or> wt_running w then w
      else w\<lparr>wt_running := True, wt_timerSet := True, wt_current := True\<rparr>)"

definition worker_stop :: "worker_timer \<Rightarrow> worker_timer" where
  "worker_stop w = w\<lparr>wt_running := False, wt_timerSet := False, wt_current := False\<rparr>"

text \<open>\<open>setTimeout\<close> in the loop: the variable moves to the new timeout, an older one goes astray.\<close>

definition arm :: "worker_timer \<Rightarrow> worker_timer" where
  "arm w = w\<lparr>wt_stray := (if wt_current w then Suc (wt_stray w) else wt_stray w),
             wt_timerSet := True, wt_current := True\<rparr>"

inductive worker_step :: "worker_timer \<Rightarrow> worker_timer \<Rightarrow> bool" where
  do_start: "worker_step w (worker_start w)"
| do_stop: "worker_step w (worker_stop w)"
| fire_current: "wt_current w \<Longrightarrow>
     worker_step w (if wt_running w then w\<lparr>wt_current := False, wt_ticking := Suc (wt_ticking w)\<rparr>
                    else w\<lparr>wt_current := False\<rparr>)"
| fire_stray: "0 < wt_stray w \<Longrightarrow>
     worker_step w (if wt_running w then w\<lparr>wt_stray := wt_stray w - 1, wt_ticking := Suc (wt_ticking w)\<rparr>
                    else w\<lparr>wt_stray := wt_stray w - 1\<rparr>)"
| tick_done: "0 < wt_ticking w \<Longrightarrow>
     worker_step w (let w' = w\<lparr>wt_ticking := wt_ticking w - 1\<rparr> in if wt_running w then arm w' else w')"

definition loops_alive :: "worker_timer \<Rightarrow> nat" where
  "loops_alive w = (if wt_current w then 1 else 0) + wt_stray w + wt_ticking w"

end
