(* ===== verification/PositionFrame.thy ===== *)
theory PositionFrame imports RecoveryWorker begin

section \<open>Calls against the world\<close>

lemma flush_frame [simp]:
  "w_positions (flush is w) = w_positions w"
  "w_sessions (flush is w) = w_sessions w"
  "w_activities (flush is w) = w_activities w"
  "w_trail (flush is w) = w_trail w"
  "w_clock (flush is w) = w_clock w"
  by (induction "is" w rule: flush.induct) (auto simp: saveReconciliation_def Let_def)

lemma before_call_frame [simp]:
  "w_positions (before_call env c w) = w_positions w"
  "w_sessions (before_call env c w) = w_sessions w"
  "w_activities (before_call env c w) = w_activities w"
  "w_trail (before_call env c w) = w_trail w"
  by (simp_all add: before_call_def)

text \<open>
  The effect of a call: nothing but the passing of time, or the call's own; a successful answer
  means its own.
\<close>

lemma handle_cases:
  assumes "handle env c w = (r, w')"
  obtains (lost) e where "r = Inl e" and "w' = (before_call env c w)\<lparr>w_trail := c # w_trail w\<rparr>"
  | (after) e where "r = Inl e"
      and "w' = (snd (exec_call env (length (w_trail w)) c (before_call env c w)))\<lparr>w_trail := c # w_trail w\<rparr>"
  | (own) "r = fst (exec_call env (length (w_trail w)) c (before_call env c w))"
      and "w' = (snd (exec_call env (length (w_trail w)) c (before_call env c w)))\<lparr>w_trail := c # w_trail w\<rparr>"
  using assms unfolding handle_def Let_def before_call_frame
  by (cases "if remote c then env_fault env (length (w_trail w)) else None")
    (auto split: fault.splits)

lemma wp_callE:
  assumes "\<And>e w'. handle env c w = (Inl e, w') \<Longrightarrow> Q (Inl e) w'"
    and "\<And>a x w'. handle env c w = (Inr a, w') \<Longrightarrow> get a = Some x \<Longrightarrow> Q (Inr x) w'"
    and "\<And>a w'. handle env c w = (Inr a, w') \<Longrightarrow> get a = None
           \<Longrightarrow> Q (Inl (ExternalError ''unexpected answer'')) w'"
  shows "wp (handle env) (callE c get) Q w"
  using assms by (cases "handle env c w") (auto simp: wp_def callE_def returnE_def throwE_def split: sum.splits option.splits)

lemma wp_startE: "(\<And>r w'. handle env c w = (r, w') \<Longrightarrow> Q (Inr ()) w') \<Longrightarrow> wp (handle env) (startE c) Q w"
  by (cases "handle env c w") (auto simp: wp_def startE_def)

lemma makes_only_callE [simp]: "makes_only ok (callE c get) \<longleftrightarrow> ok c"
  by (auto simp: callE_def split: sum.splits option.splits)

lemma makes_only_startE [simp]: "makes_only ok (startE c) \<longleftrightarrow> ok c"
  by (auto simp: startE_def)

lemma makes_only_recordActivity [intro]:
  "ok RandomUUID \<Longrightarrow> (\<And>aid. ok (CreateActivity aid (pos_id p) (pos_action p) st h d n))
    \<Longrightarrow> makes_only ok (recordActivity p st h d n)"
  unfolding recordActivity_def by (intro makes_only_bindE) auto

lemma makes_only_executionModeE [simp]: "makes_only ok (executionModeE m)"
  by (simp add: executionModeE_def split: sum.splits)

lemma makes_only_assertTransition [simp]: "makes_only ok (assertTransition s t)"
  by (simp add: assertTransition_def)

lemma makes_only_listActivitiesE [simp]: "makes_only ok (listActivitiesE pid) \<longleftrightarrow> ok (ListActivities pid)"
  by (simp add: listActivitiesE_def)

lemma executionModeE_id [simp]: "executionModeE m = returnE m"
  by (simp add: executionModeE_def resolveExecutionMode_def)

section \<open>The latest session\<close>

lemma sort_key_map_stable:
  "(\<And>x. k (g x) = k x) \<Longrightarrow> sort_key k (map g xs) = map g (sort_key k xs)"
proof (induction xs)
  case (Cons x xs)
  have "insort_key k (g x) (map g ys) = map g (insort_key k x ys)" for ys
    by (induction ys) (simp_all add: Cons.prems)
  with Cons show ?case by simp
qed simp

lemma latest_update_by:
  assumes "\<And>s. ses_positionId (f s) = ses_positionId s" and "\<And>s. ses_createdAt (f s) = ses_createdAt s"
  shows "getLatestExecutionSession pid (update_by ses_id sid f ss) =
     map_option (\<lambda>s. if ses_id s = sid then f s else s) (getLatestExecutionSession pid ss)"
proof -
  let ?g = "\<lambda>s. if ses_id s = sid then f s else s"
  have "filter (\<lambda>s. ses_positionId s = pid) (update_by ses_id sid f ss)
      = map ?g (filter (\<lambda>s. ses_positionId s = pid) ss)"
    using assms(1) by (induction ss) auto
  then have "sort_key ses_createdAt (filter (\<lambda>s. ses_positionId s = pid) (update_by ses_id sid f ss))
      = map ?g (sort_key ses_createdAt (filter (\<lambda>s. ses_positionId s = pid) ss))"
    using assms(2) by (simp add: sort_key_map_stable)
  then show ?thesis
    by (auto simp: getLatestExecutionSession_def last_map split: list.splits)
qed

lemma latest_SomeD:
  assumes "getLatestExecutionSession pid ss = Some s"
  shows "s \<in> set ss" and "ses_positionId s = pid"
proof -
  obtain x xs where eq: "sort_key ses_createdAt (filter (\<lambda>s. ses_positionId s = pid) ss) = x # xs"
    and "s = last (x # xs)"
    using assms by (auto simp: getLatestExecutionSession_def split: list.splits)
  then have "s \<in> set (sort_key ses_createdAt (filter (\<lambda>s. ses_positionId s = pid) ss))"
    by (metis last_in_set list.distinct(1))
  then show "s \<in> set ss" "ses_positionId s = pid" by auto
qed

lemma latest_None_iff:
  "getLatestExecutionSession pid ss = None \<longleftrightarrow> pid \<notin> ses_positionId ` set ss"
proof -
  have "getLatestExecutionSession pid ss = None \<longleftrightarrow>
      sort_key ses_createdAt (filter (\<lambda>s. ses_positionId s = pid) ss) = []"
    by (auto simp: getLatestExecutionSession_def split: list.splits)
  also have "\<dots> \<longleftrightarrow> filter (\<lambda>s. ses_positionId s = pid) ss = []"
    by (metis length_0_conv length_sort)
  finally show ?thesis by (auto simp: filter_empty_conv)
qed

lemma latest_append_other:
  "ses_positionId s \<noteq> pid \<Longrightarrow> getLatestExecutionSession pid (ss @ [s]) = getLatestExecutionSession pid ss"
  by (simp add: getLatestExecutionSession_def)

lemma latest_append_new:
  "pid \<notin> ses_positionId ` set ss \<Longrightarrow> ses_positionId s = pid \<Longrightarrow>
     getLatestExecutionSession pid (ss @ [s]) = Some s"
proof -
  assume "pid \<notin> ses_positionId ` set ss" and s: "ses_positionId s = pid"
  then have "filter (\<lambda>s. ses_positionId s = pid) ss = []"
    by (auto simp: filter_empty_conv image_iff)
  with s show ?thesis by (simp add: getLatestExecutionSession_def)
qed

section \<open>What each call leaves alone\<close>

fun writes_position :: "pcall \<Rightarrow> bool" where
  "writes_position (CreatePosition inp) = True"
| "writes_position (UpdatePositionState pid st) = True"
| "writes_position c = False"

fun writes_session :: "pcall \<Rightarrow> bool" where
  "writes_session (CreateExecutionSession sid pid st stage) = True"
| "writes_session (UpdateExecutionSession pid st stage) = True"
| "writes_session c = False"

fun writes_activity :: "pcall \<Rightarrow> bool" where
  "writes_activity (CreateActivity aid pid x st h d n) = True"
| "writes_activity c = False"

lemmas store_update_defs = createPosition_def updatePositionState_def createExecutionSession_def
  updateExecutionSession_def createActivity_def saveReconciliation_def clearReconciliation_def Let_def

lemma exec_positions [simp]:
  "\<not> writes_position c \<Longrightarrow> w_positions (snd (exec_call env n c w)) = w_positions w"
  by (cases c) (auto simp: store_update_defs split: option.splits)

lemma exec_sessions [simp]:
  "\<not> writes_session c \<Longrightarrow> w_sessions (snd (exec_call env n c w)) = w_sessions w"
  by (cases c) (auto simp: store_update_defs split: option.splits)

lemma exec_activities [simp]:
  "\<not> writes_activity c \<Longrightarrow> w_activities (snd (exec_call env n c w)) = w_activities w"
  by (cases c) (auto simp: store_update_defs split: option.splits)

lemma exec_trail [simp]: "w_trail (snd (exec_call env n c w)) = w_trail w"
  by (cases c) (auto simp: store_update_defs split: option.splits)

lemma handle_trail [simp]: "w_trail (snd (handle env c w)) = c # w_trail w"
  by (simp add: handle_def Let_def split: option.splits fault.splits)

lemma handle_positions [simp]:
  "\<not> writes_position c \<Longrightarrow> w_positions (snd (handle env c w)) = w_positions w"
  by (simp add: handle_def Let_def split: option.splits fault.splits)

lemma handle_sessions [simp]:
  "\<not> writes_session c \<Longrightarrow> w_sessions (snd (handle env c w)) = w_sessions w"
  by (simp add: handle_def Let_def split: option.splits fault.splits)

lemma handle_activities [simp]:
  "\<not> writes_activity c \<Longrightarrow> w_activities (snd (handle env c w)) = w_activities w"
  by (simp add: handle_def Let_def split: option.splits fault.splits)

end
