(* ===== verification/Lifecycle.thy ===== *)
theory Lifecycle imports PositionFrame begin

text \<open>
  The abstract specification of the position service: a position is its state, the state of
  its latest session and the states of its activity log, and a request moves it along a fixed
  route.  \<open>represents\<close> relates a world to that view; each rule below says what one call, or one
  helper of the service, does to the view in an environment that loses no call.
\<close>

section \<open>The view of a world\<close>

record life =
  life_position :: "ExecutionState option"
  life_session :: "ExecutionState option"
  life_log :: "ExecutionState list"

type_synonym lives = "string \<Rightarrow> life"

definition view :: "pworld \<Rightarrow> lives" where
  "view w pid =
     \<lparr>life_position = map_option pos_state (getPositionById pid (w_positions w)),
      life_session = map_option ses_state (getLatestExecutionSession pid (w_sessions w)),
      life_log = map act_state (filter (\<lambda>a. act_positionId a = pid) (w_activities w))\<rparr>"

definition ids :: "pworld \<Rightarrow> string set" where
  "ids w = pos_id ` set (w_positions w) \<union> pos_intentId ` set (w_positions w)
     \<union> ses_id ` set (w_sessions w) \<union> act_id ` set (w_activities w)"

text \<open>The identifiers handed out by the first \<open>n\<close> calls.\<close>

definition issued :: "penv \<Rightarrow> nat \<Rightarrow> string set" where
  "issued env n = env_uuid env ` {..<n}"

lemma issued_mono: "n \<le> m \<Longrightarrow> issued env n \<subseteq> issued env m"
  by (auto simp: issued_def)

lemma issued_step: "X \<subseteq> issued env n \<Longrightarrow> X \<subseteq> issued env (Suc n)"
  using issued_mono [of n "Suc n" env] by simp

lemma issued_Suc [simp]: "k < n \<Longrightarrow> env_uuid env k \<in> issued env n"
  by (simp add: issued_def)

lemma not_issued [simp]: "inj (env_uuid env) \<Longrightarrow> env_uuid env n \<notin> issued env n"
  by (auto simp: issued_def inj_def)

definition wf_world :: "penv \<Rightarrow> pworld \<Rightarrow> bool" where
  "wf_world env w \<longleftrightarrow>
     ids w \<subseteq> issued env (length (w_trail w)) \<and>
     distinct (map pos_id (w_positions w)) \<and> distinct (map ses_id (w_sessions w)) \<and>
     ses_positionId ` set (w_sessions w) \<subseteq> pos_id ` set (w_positions w) \<and>
     act_positionId ` set (w_activities w) \<subseteq> pos_id ` set (w_positions w)"

definition represents :: "penv \<Rightarrow> lives \<Rightarrow> pworld \<Rightarrow> bool" where
  "represents env V w \<longleftrightarrow> wf_world env w \<and> view w = V"

text \<open>No call is lost and no identifier is handed out twice.\<close>

definition reliable :: "penv \<Rightarrow> bool" where
  "reliable env \<longleftrightarrow> (\<forall>n. env_fault env n = None) \<and> inj (env_uuid env)"

lemma handle_reliable:
  "reliable env \<Longrightarrow> handle env c w =
     (fst (exec_call env (length (w_trail w)) c (before_call env c w)),
      (snd (exec_call env (length (w_trail w)) c (before_call env c w)))\<lparr>w_trail := c # w_trail w\<rparr>)"
  by (simp add: handle_def reliable_def Let_def)

lemma view_cong:
  "w_positions w' = w_positions w \<Longrightarrow> w_sessions w' = w_sessions w \<Longrightarrow> w_activities w' = w_activities w
     \<Longrightarrow> view w' = view w"
  by (simp add: view_def fun_eq_iff)

lemma ids_cong:
  "w_positions w' = w_positions w \<Longrightarrow> w_sessions w' = w_sessions w \<Longrightarrow> w_activities w' = w_activities w
     \<Longrightarrow> ids w' = ids w"
  by (simp add: ids_def)

lemma wf_cong:
  assumes "w_positions w' = w_positions w" "w_sessions w' = w_sessions w" "w_activities w' = w_activities w"
    and "length (w_trail w) \<le> length (w_trail w')" "wf_world env w"
  shows "wf_world env w'"
  using assms(5) issued_mono [OF assms(4), of env] ids_cong [OF assms(1-3)]
  unfolding wf_world_def assms(1-3) by blast

fun writes :: "pcall \<Rightarrow> bool" where
  "writes c = (writes_position c \<or> writes_session c \<or> writes_activity c)"

lemma represents_quiet:
  assumes "represents env V w" and "\<not> writes c"
  shows "represents env V (snd (handle env c w))"
  using assms wf_cong [of "snd (handle env c w)" w env] view_cong [of "snd (handle env c w)" w]
  by (simp add: represents_def)

section \<open>Rules for one call\<close>

abbreviation "wpos env \<equiv> wp (handle env)"

text \<open>A call that writes none of the three tables keeps the view, whatever it answers.\<close>

lemma life_quiet:
  assumes "represents env V w" and "\<not> writes c"
    and "\<And>r w'. represents env V w' \<Longrightarrow> Q r w'"
  shows "wpos env (callE c get) Q w"
  using assms(3) [OF represents_quiet [OF assms(1,2)]]
  by (intro wp_callE) (metis snd_conv)+

lemma life_start:
  assumes "represents env V w" and "\<not> writes c"
    and "\<And>w'. represents env V w' \<Longrightarrow> Q (Inr ()) w'"
  shows "wpos env (startE c) Q w"
  using assms(3) [OF represents_quiet [OF assms(1,2)]]
  by (intro wp_startE) (metis snd_conv)

lemma life_get_position:
  assumes "reliable env" and "represents env V w"
    and "\<And>found w'. represents env V w' \<Longrightarrow> map_option pos_state found = life_position (V pid)
           \<Longrightarrow> (\<And>p. found = Some p \<Longrightarrow> pos_id p = pid) \<Longrightarrow> Q (Inr found) w'"
  shows "wpos env (callE (GetPositionById pid) as_position_opt) Q w"
proof (rule wp_callE)
  fix a x w' assume h: "handle env (GetPositionById pid) w = (Inr a, w')" and x: "as_position_opt a = Some x"
  from h x assms(1) have xe: "x = getPositionById pid (w_positions w)"
    by (auto simp: handle_reliable)
  show "Q (Inr x) w'"
  proof (rule assms(3))
    show "represents env V w'" using represents_quiet [OF assms(2), of "GetPositionById pid"] h by simp
    show "map_option pos_state x = life_position (V pid)"
      using assms(2) xe by (auto simp: represents_def view_def)
    show "\<And>p. x = Some p \<Longrightarrow> pos_id p = pid" using xe by (auto simp: getPositionById_def dest: find_by_SomeD)
  qed
qed (use assms(1) in \<open>auto simp: handle_reliable\<close>)

lemma life_get_session:
  assumes "reliable env" and "represents env V w"
    and "\<And>found w'. represents env V w' \<Longrightarrow> map_option ses_state found = life_session (V pid) \<Longrightarrow> Q (Inr found) w'"
  shows "wpos env (callE (GetLatestExecutionSession pid) as_session_opt) Q w"
proof (rule wp_callE)
  fix a x w' assume h: "handle env (GetLatestExecutionSession pid) w = (Inr a, w')" and x: "as_session_opt a = Some x"
  from h x assms(1) have xe: "x = getLatestExecutionSession pid (w_sessions w)"
    by (auto simp: handle_reliable)
  show "Q (Inr x) w'"
  proof (rule assms(3))
    show "represents env V w'" using represents_quiet [OF assms(2), of "GetLatestExecutionSession pid"] h by simp
    show "map_option ses_state x = life_session (V pid)"
      using assms(2) xe by (auto simp: represents_def view_def)
  qed
qed (use assms(1) in \<open>auto simp: handle_reliable\<close>)

lemma life_update_position:
  assumes "reliable env" and "represents env V w" and "life_position (V pid) = Some a"
    and "\<And>p w'. represents env (V(pid := (V pid)\<lparr>life_position := Some st\<rparr>)) w' \<Longrightarrow> pos_id p = pid
           \<Longrightarrow> pos_state p = st \<Longrightarrow> Q (Inr p) w'"
  shows "wpos env (callE (UpdatePositionState pid st) as_position) Q w"
proof -
  let ?w0 = "before_call env (UpdatePositionState pid st) w"
  let ?f = "set_position_state (w_clock ?w0) st"
  obtain p where p: "getPositionById pid (w_positions w) = Some p"
    using assms(2,3) by (auto simp: represents_def view_def)
  let ?w' = "?w0\<lparr>w_positions := update_by pos_id pid ?f (w_positions w),
                 w_trail := UpdatePositionState pid st # w_trail w\<rparr>"
  have h: "handle env (UpdatePositionState pid st) w = (Inr (RPosition (?f p)), ?w')"
    using assms(1) p by (simp add: handle_reliable updatePositionState_def)
  have keep: "pos_id (?f r) = pos_id r" "pos_intentId (?f r) = pos_intentId r" for r
    by (simp_all add: set_position_state_def)
  have pid_set: "pos_id ` set (update_by pos_id pid ?f (w_positions w)) = pos_id ` set (w_positions w)"
    using map_key_update_by [of pos_id ?f pos_id pid] keep by (metis list.set_map)
  moreover have "pos_intentId ` set (update_by pos_id pid ?f (w_positions w)) = pos_intentId ` set (w_positions w)"
    using map_key_update_by [of pos_intentId ?f pos_id pid] keep by (metis list.set_map)
  moreover have "map pos_id (update_by pos_id pid ?f (w_positions w)) = map pos_id (w_positions w)"
    using map_key_update_by [of pos_id ?f pos_id pid] keep by auto
  ultimately have wf: "wf_world env ?w'"
    using assms(2) by (simp add: represents_def wf_world_def ids_def issued_step)
  have "view ?w' = V(pid := (V pid)\<lparr>life_position := Some st\<rparr>)"
  proof
    fix q show "view ?w' q = (V(pid := (V pid)\<lparr>life_position := Some st\<rparr>)) q"
      using assms(2) p keep
      by (cases "q = pid")
        (auto simp: represents_def view_def getPositionById_def find_by_update_same find_by_update_other
          set_position_state_def)
  qed
  with wf have "represents env (V(pid := (V pid)\<lparr>life_position := Some st\<rparr>)) ?w'"
    by (simp add: represents_def)
  moreover have "pos_id (?f p) = pid" using p by (auto simp: getPositionById_def set_position_state_def dest: find_by_SomeD)
  ultimately show ?thesis
    using assms(4) [of ?w' "?f p"] h by (intro wp_callE) (auto simp: set_position_state_def)
qed


lemma latest_positionId: "getLatestExecutionSession pid ss = Some s \<Longrightarrow> ses_positionId s = pid"
  by (rule latest_SomeD(2))

lemma life_update_session:
  assumes "reliable env" and "represents env V w" and "life_session (V pid) = Some b"
    and "\<And>s w'. represents env (V(pid := (V pid)\<lparr>life_session := Some st\<rparr>)) w'
           \<Longrightarrow> ses_state s = st \<Longrightarrow> Q (Inr s) w'"
  shows "wpos env (callE (UpdateExecutionSession pid st stage) as_session) Q w"
proof -
  let ?w0 = "before_call env (UpdateExecutionSession pid st stage) w"
  let ?f = "set_session_state (w_clock ?w0) st stage"
  obtain s where s: "getLatestExecutionSession pid (w_sessions w) = Some s"
    using assms(2,3) by (auto simp: represents_def view_def)
  let ?w' = "?w0\<lparr>w_sessions := update_by ses_id (ses_id s) ?f (w_sessions w),
                 w_trail := UpdateExecutionSession pid st stage # w_trail w\<rparr>"
  have h: "handle env (UpdateExecutionSession pid st stage) w = (Inr (RSession (?f s)), ?w')"
    using assms(1) s by (simp add: handle_reliable updateExecutionSession_def)
  have keep: "ses_id (?f r) = ses_id r" "ses_positionId (?f r) = ses_positionId r"
    "ses_createdAt (?f r) = ses_createdAt r" for r
    by (simp_all add: set_session_state_def)
  have ids_eq: "map ses_id (update_by ses_id (ses_id s) ?f (w_sessions w)) = map ses_id (w_sessions w)"
    "map ses_positionId (update_by ses_id (ses_id s) ?f (w_sessions w)) = map ses_positionId (w_sessions w)"
    using map_key_update_by [of ses_id ?f ses_id] map_key_update_by [of ses_positionId ?f ses_id] keep by auto
  have images: "ses_id ` set (update_by ses_id (ses_id s) ?f (w_sessions w)) = ses_id ` set (w_sessions w)"
    "ses_positionId ` set (update_by ses_id (ses_id s) ?f (w_sessions w)) = ses_positionId ` set (w_sessions w)"
    using ids_eq by (metis list.set_map)+
  have wf: "wf_world env ?w'"
    using assms(2) by (simp add: represents_def wf_world_def ids_def issued_step ids_eq images)
  have dist: "distinct (map ses_id (w_sessions w))"
    using assms(2) by (simp add: represents_def wf_world_def)
  have "view ?w' = V(pid := (V pid)\<lparr>life_session := Some st\<rparr>)"
  proof
    fix q
    have "t = s" if "t \<in> set (w_sessions w)" "ses_id t = ses_id s" for t
      using that s dist by (auto simp: distinct_map dest: inj_onD latest_SomeD(1))
    then have "map_option ses_state (getLatestExecutionSession q (w_sessions ?w')) =
        (if q = pid then Some st else map_option ses_state (getLatestExecutionSession q (w_sessions w)))"
      using s latest_update_by [of ?f q "ses_id s" "w_sessions w"] keep
      by (cases "getLatestExecutionSession q (w_sessions w)")
        (auto simp: set_session_state_def dest: latest_SomeD)
    then show "view ?w' q = (V(pid := (V pid)\<lparr>life_session := Some st\<rparr>)) q"
      using assms(2) by (auto simp: represents_def view_def)
  qed
  with wf have "represents env (V(pid := (V pid)\<lparr>life_session := Some st\<rparr>)) ?w'"
    by (simp add: represents_def)
  then show ?thesis
    using assms(4) [of ?w' "?f s"] h by (intro wp_callE) (auto simp: set_session_state_def)
qed

lemma life_record_activity:
  assumes "reliable env" and "represents env V w" and "pos_id p = pid" and "life_position (V pid) = Some a"
    and "\<And>x w'. represents env (V(pid := (V pid)\<lparr>life_log := life_log (V pid) @ [st]\<rparr>)) w' \<Longrightarrow> Q (Inr x) w'"
  shows "wpos env (recordActivity p st h d n) Q w"
proof -
  let ?n = "length (w_trail w)"
  let ?c = "CreateActivity (env_uuid env ?n) pid (pos_action p) st h d n"
  define w1 where "w1 = snd (handle env RandomUUID w)"
  have h1: "handle env RandomUUID w = (Inr (RText (env_uuid env ?n)), w1)"
    using assms(1) by (simp add: handle_reliable w1_def)
  have r1: "represents env V w1" using represents_quiet [OF assms(2), of RandomUUID] by (simp add: w1_def)
  have fresh: "env_uuid env ?n \<notin> ids w1"
  proof -
    have "ids w1 = ids w" by (rule ids_cong) (simp_all add: w1_def)
    moreover have "ids w \<subseteq> issued env ?n" using assms(2) by (simp add: represents_def wf_world_def)
    ultimately show ?thesis using assms(1) not_issued [of env ?n] by (auto simp: reliable_def)
  qed
  have len: "length (w_trail w1) = Suc ?n" by (simp add: w1_def)
  obtain r where r: "getPositionById pid (w_positions w1) = Some r"
    using r1 assms(4) by (auto simp: represents_def view_def)
  let ?a = "\<lparr>act_id = env_uuid env ?n, act_positionId = pid, act_action = pos_action p, act_state = st,
              act_headline = h, act_detail = d, act_safeNextStep = n,
              act_createdAt = w_clock (before_call env ?c w1)\<rparr>"
  let ?w2 = "(before_call env ?c w1)\<lparr>w_activities := w_activities w1 @ [?a], w_trail := ?c # w_trail w1\<rparr>"
  have h2: "handle env ?c w1 = (Inr (RActivity ?a), ?w2)"
    using assms(1) r fresh by (simp add: handle_reliable createActivity_def Let_def ids_def)
  have "pid \<in> pos_id ` set (w_positions w1)"
    using r by (auto simp: getPositionById_def dest!: find_by_SomeD)
  then have wf: "wf_world env ?w2"
    using r1 len by (simp add: represents_def wf_world_def ids_def issued_step)
  have "view ?w2 = V(pid := (V pid)\<lparr>life_log := life_log (V pid) @ [st]\<rparr>)"
  proof -
    have V: "V = view w1" using r1 by (simp add: represents_def)
    show ?thesis by (simp add: V view_def fun_eq_iff)
  qed
  with wf have "represents env (V(pid := (V pid)\<lparr>life_log := life_log (V pid) @ [st]\<rparr>)) ?w2"
    by (simp add: represents_def)
  with assms(3,5) h1 h2 show ?thesis
    by (simp add: recordActivity_def wp_def run_bindE callE_def)
qed


text \<open>The calls that leave the process write nothing and answer with the right kind of value, or fail.\<close>

lemma life_pod:
  assumes "reliable env" and "represents env V w"
    and "c \<in> {PrepareFunding a1 a2 a3 a4 a5, PrepareExit b1 b2 b3}"
    and "\<And>e w'. represents env V w' \<Longrightarrow> Q (Inl e) w'" and "\<And>p w'. represents env V w' \<Longrightarrow> Q (Inr p) w'"
  shows "wpos env (callE c as_pod) Q w"
  using assms(3) represents_quiet [OF assms(2), of c] assms(4,5)
  by (intro wp_callE) (auto simp: handle_reliable [OF assms(1)] map_sum_def split: sum.splits)

lemma life_venue:
  assumes "reliable env" and "represents env V w"
    and "c \<in> {AddLiquidity a1 a2, ClaimFees a3 a4, WithdrawClose a5 a6}"
    and "\<And>e w'. represents env V w' \<Longrightarrow> Q (Inl e) w'" and "\<And>p w'. represents env V w' \<Longrightarrow> Q (Inr p) w'"
  shows "wpos env (callE c as_text) Q w"
  using assms(3) represents_quiet [OF assms(2), of c] assms(4,5)
  by (intro wp_callE) (auto simp: handle_reliable [OF assms(1)] map_sum_def split: sum.splits)

lemma life_list:
  assumes "reliable env" and "represents env V w"
    and "\<And>l w'. represents env V w' \<Longrightarrow> Q (Inr l) w'"
  shows "wpos env (listActivitiesE pid) Q w"
  using represents_quiet [OF assms(2), of "ListActivities pid"] assms(3)
  unfolding listActivitiesE_def by (intro wp_callE) (auto simp: handle_reliable [OF assms(1)])

end
