(* ===== verification/PositionRefinement.thy ===== *)
theory PositionRefinement imports Lifecycle begin

text \<open>
  The five operations of the position service refine the abstract lifecycle: in an environment
  that loses no call, a request moves the view of its position along one of its routes, leaves
  every other position alone, and answers with the state it left behind.
\<close>

section \<open>The abstract service\<close>

datatype verdict = Refused | Answered ExecutionState

definition verdict_of :: "perr + PositionResponse \<Rightarrow> verdict" where
  "verdict_of r = (case r of Inl e \<Rightarrow> Refused | Inr resp \<Rightarrow> Answered (ps_state (resp_position resp)))"

fun target :: "request \<Rightarrow> string option" where
  "target (CreateDraft inp) = None"
| "target (Execute pid msg) = Some pid"
| "target (Claim pid) = Some pid"
| "target (WithdrawAndClose pid) = Some pid"
| "target (Read pid) = Some pid"

text \<open>The routes of a request: the session state it starts from and the states it logs.\<close>

fun routes :: "request \<Rightarrow> ExecutionState \<times> ExecutionState list list" where
  "routes (CreateDraft inp) = (Draft, [])"
| "routes (Execute pid msg) =
     (AwaitingSignature,
      [[FundingInProgress, ExecutingOnMeteora, Indexing],
       [FundingInProgress, ExecutingOnMeteora, Failed],
       [FundingInProgress, Failed]])"
| "routes (Claim pid) = (Active, [[Claiming, Indexing, Completed], [Claiming, Failed]])"
| "routes (WithdrawAndClose pid) =
     (Active, [[Withdrawing, Closing, Indexing, Completed], [Withdrawing, Failed]])"
| "routes (Read pid) = (Indexing, [[Active]])"

definition absent :: life where
  "absent = \<lparr>life_position = None, life_session = None, life_log = []\<rparr>"

definition drafted :: life where
  "drafted = \<lparr>life_position = Some Draft, life_session = Some AwaitingSignature, life_log = [AwaitingSignature]\<rparr>"

definition moved :: "ExecutionState list \<Rightarrow> life \<Rightarrow> life" where
  "moved route l = \<lparr>life_position = Some (last route), life_session = Some (last route),
     life_log = life_log l @ route\<rparr>"

definition exits :: "request \<Rightarrow> bool" where
  "exits req = (case req of Claim pid \<Rightarrow> True | WithdrawAndClose pid \<Rightarrow> True | _ \<Rightarrow> False)"

inductive life_step :: "request \<Rightarrow> lives \<Rightarrow> verdict \<Rightarrow> lives \<Rightarrow> bool" where
  refuse: "life_step req V Refused V"
| draft: "V pid = absent \<Longrightarrow> life_step (CreateDraft inp) V (Answered Draft) (V(pid := drafted))"
| move: "target req = Some pid \<Longrightarrow> life_position (V pid) = Some a \<Longrightarrow> exits req \<longrightarrow> a = Active
     \<Longrightarrow> life_session (V pid) = Some (fst (routes req)) \<Longrightarrow> route \<in> set (snd (routes req))
     \<Longrightarrow> life_step req V (Answered (last route)) (V(pid := moved route (V pid)))"
| look: "life_position (V pid) = Some a \<Longrightarrow> life_session (V pid) = Some b
     \<Longrightarrow> life_step (Read pid) V (Answered a) V"
| delay: "life_position (V pid) = Some a \<Longrightarrow> life_session (V pid) = Some Indexing
     \<Longrightarrow> life_step (Read pid) V (Answered a) (V(pid := (V pid)\<lparr>life_log := life_log (V pid) @ [Indexing]\<rparr>))"

text \<open>What a request must establish, as a postcondition of its run.\<close>

definition refines :: "penv \<Rightarrow> request \<Rightarrow> lives \<Rightarrow> perr + PositionResponse \<Rightarrow> pworld \<Rightarrow> bool" where
  "refines env req V r w' \<longleftrightarrow> (\<exists>V'. life_step req V (verdict_of r) V' \<and> represents env V' w')"

lemma refines_refuse: "represents env V w' \<Longrightarrow> refines env req V (Inl e) w'"
  by (auto simp: refines_def verdict_of_def intro: life_step.refuse)

section \<open>Rules for the next statement of a program\<close>

lemma seq_refuse: "represents env V w \<Longrightarrow> wpos env (throwE e) (refines env req V) w"
  by (simp add: wp_throwE refines_refuse)

lemma seq_guard:
  assumes "b \<Longrightarrow> wpos env (f ()) Q w" and "\<not> b \<Longrightarrow> Q (Inl e) w"
  shows "wpos env (bindE (guardE b e) f) Q w"
  using assms by (cases b) (auto simp: guardE_def wp_throwE)

lemma seq_transition:
  assumes "canTransition s t \<Longrightarrow> wpos env (f ()) Q w" and "\<not> canTransition s t \<Longrightarrow> Q (Inl (InvalidTransition s t)) w"
  shows "wpos env (bindE (assertTransition s t) f) Q w"
  unfolding assertTransition_def using assms by (rule seq_guard)

lemma seq_get_position:
  assumes "reliable env" and "represents env V w"
    and "\<And>w'. represents env V w' \<Longrightarrow> life_position (V pid) = None \<Longrightarrow> wpos env (f None) Q w'"
    and "\<And>p w'. represents env V w' \<Longrightarrow> life_position (V pid) = Some (pos_state p) \<Longrightarrow> pos_id p = pid
           \<Longrightarrow> wpos env (f (Some p)) Q w'"
  shows "wpos env (bindE (callE (GetPositionById pid) as_position_opt) f) Q w"
proof (intro wp_bindE life_get_position [OF assms(1,2)])
  fix found :: "PositionRow option" and w' assume "represents env V w'" "map_option pos_state found = life_position (V pid)"
    "\<And>p. found = Some p \<Longrightarrow> pos_id p = pid"
  then show "case Inr found of Inl e \<Rightarrow> Q (Inl e) w' | Inr a \<Rightarrow> wpos env (f a) Q w'"
    using assms(3,4) by (cases found) auto
qed

lemma seq_get_session:
  assumes "reliable env" and "represents env V w"
    and "\<And>w'. represents env V w' \<Longrightarrow> life_session (V pid) = None \<Longrightarrow> wpos env (f None) Q w'"
    and "\<And>s w'. represents env V w' \<Longrightarrow> life_session (V pid) = Some (ses_state s) \<Longrightarrow> wpos env (f (Some s)) Q w'"
  shows "wpos env (bindE (callE (GetLatestExecutionSession pid) as_session_opt) f) Q w"
proof (intro wp_bindE life_get_session [OF assms(1,2)])
  fix found :: "ExecutionSessionRow option" and w' assume "represents env V w'" "map_option ses_state found = life_session (V pid)"
  then show "case Inr found of Inl e \<Rightarrow> Q (Inl e) w' | Inr a \<Rightarrow> wpos env (f a) Q w'"
    using assms(3,4) by (cases found) auto
qed

lemma seq_update_position:
  assumes "reliable env" and "represents env V w" and "life_position (V pid) = Some a"
    and "\<And>p w'. represents env (V(pid := (V pid)\<lparr>life_position := Some st\<rparr>)) w' \<Longrightarrow> pos_id p = pid
           \<Longrightarrow> pos_state p = st \<Longrightarrow> wpos env (f p) Q w'"
  shows "wpos env (bindE (callE (UpdatePositionState pid st) as_position) f) Q w"
  by (intro wp_bindE life_update_position [OF assms(1-3)]) (simp add: assms(4))

lemma seq_update_session:
  assumes "reliable env" and "represents env V w" and "life_session (V pid) = Some b"
    and "\<And>s w'. represents env (V(pid := (V pid)\<lparr>life_session := Some st\<rparr>)) w' \<Longrightarrow> ses_state s = st
           \<Longrightarrow> wpos env (f s) Q w'"
  shows "wpos env (bindE (callE (UpdateExecutionSession pid st stage) as_session) f) Q w"
  by (intro wp_bindE life_update_session [OF assms(1-3)]) (simp add: assms(4))

lemma seq_record:
  assumes "reliable env" and "represents env V w" and "life_position (V (pos_id p)) = Some a"
    and "\<And>x w'. represents env (V(pos_id p := (V (pos_id p))\<lparr>life_log := life_log (V (pos_id p)) @ [st]\<rparr>)) w'
           \<Longrightarrow> wpos env (f x) Q w'"
  shows "wpos env (bindE (recordActivity p st h d n) f) Q w"
  by (intro wp_bindE life_record_activity [OF assms(1,2) refl assms(3)]) (simp add: assms(4))

lemma seq_list:
  assumes "reliable env" and "represents env V w" and "\<And>l w'. represents env V w' \<Longrightarrow> wpos env (f l) Q w'"
  shows "wpos env (bindE (listActivitiesE pid) f) Q w"
  by (intro wp_bindE life_list [OF assms(1,2)]) (simp add: assms(3))

lemma seq_start:
  assumes "represents env V w" and "\<And>w'. represents env V w' \<Longrightarrow> wpos env (f ()) Q w'"
  shows "wpos env (bindE (beginReconciliation pid) f) Q w" "wpos env (bindE (registerSnapshot pid sig) f) Q w"
  unfolding beginReconciliation_def registerSnapshot_def
  by (intro wp_bindE life_start [OF assms(1)]; simp add: assms(2))+

lemma seq_funding:
  assumes "reliable env" and "represents env V w"
    and "\<And>e w'. represents env V w' \<Longrightarrow> wpos env (g e) Q w'" and "\<And>p w'. represents env V w' \<Longrightarrow> wpos env (f p) Q w'"
  shows "wpos env (attemptE (callE (PrepareFunding a1 a2 a3 a4 a5) as_pod) g f) Q w"
    and "wpos env (attemptE (callE (PrepareExit b1 b2 b3) as_pod) g f) Q w"
  by (intro wp_attemptE life_pod [OF assms(1,2)]; simp add: assms(3,4))+

lemma seq_venue:
  assumes "reliable env" and "represents env V w"
    and "\<And>e w'. represents env V w' \<Longrightarrow> wpos env (g e) Q w'" and "\<And>p w'. represents env V w' \<Longrightarrow> wpos env (f p) Q w'"
  shows "wpos env (attemptE (callE (AddLiquidity a1 a2) as_text) g f) Q w"
    and "wpos env (attemptE (callE (ClaimFees a3 a4) as_text) g f) Q w"
    and "wpos env (attemptE (callE (WithdrawClose a5 a6) as_text) g f) Q w"
  by (intro wp_attemptE life_venue [OF assms(1,2)]; simp add: assms(3,4))+

lemma ps_state_buildResponse [simp]: "ps_state (resp_position (buildResponse p s acts)) = pos_state p"
  by (simp add: buildResponse_def Let_def)

lemma seq_answer: "Q (Inr (buildResponse p s acts)) w \<Longrightarrow> wpos env (returnE (buildResponse p s acts)) Q w"
  by (rule wp_returnE)

lemma seq_failure:
  assumes "reliable env" and "represents env V w" and "life_position (V (pos_id p)) = Some a"
    and "life_session (V (pos_id p)) = Some b"
    and "\<And>p' s acts w'. pos_state p' = Failed \<Longrightarrow> represents env (V(pos_id p := moved [Failed] (V (pos_id p)))) w'
           \<Longrightarrow> Q (Inr (buildResponse p' s acts)) w'"
  shows "wpos env (recordFailure p stage e) Q w"
proof -
  have upd: "(V(pos_id p := (V (pos_id p))\<lparr>life_position := Some Failed, life_session := Some Failed,
      life_log := life_log (V (pos_id p)) @ [Failed]\<rparr>)) = V(pos_id p := moved [Failed] (V (pos_id p)))"
    by (cases "V (pos_id p)") (simp add: moved_def)
  show ?thesis
    unfolding recordFailure_def Let_def
    apply (rule seq_update_position [OF assms(1,2,3)])
    apply (rule seq_update_session [OF assms(1)], assumption, simp add: assms(4))
    apply (rule seq_record [OF assms(1)], assumption, simp)
    apply (rule seq_list [OF assms(1)], assumption)
    apply (rule seq_answer, rule assms(5), assumption)
    apply (simp add: upd)
    done
qed

lemma refines_move:
  assumes "target req = Some pid" and "life_position (V pid) = Some a" and "exits req \<longrightarrow> a = Active"
    and "life_session (V pid) = Some (fst (routes req))" and "route \<in> set (snd (routes req))"
    and "V' = V(pid := moved route (V pid))" and "represents env V' w'" and "pos_state p = last route"
  shows "refines env req V (Inr (buildResponse p s acts)) w'"
  using assms(6-8) life_step.move [of req pid V a route, OF assms(1-5)]
  by (auto simp: refines_def verdict_of_def)


lemma seq_active_position:
  assumes "reliable env" and "represents env V w" and "\<And>e w'. represents env V w' \<Longrightarrow> Q (Inl e) w'"
    and "\<And>p w'. represents env V w' \<Longrightarrow> life_position (V pid) = Some Active \<Longrightarrow> pos_state p = Active
           \<Longrightarrow> pos_id p = pid \<Longrightarrow> wpos env (f p) Q w'"
  shows "wpos env (bindE (getActivePosition pid) f) Q w"
  unfolding getActivePosition_def
  by (rule wp_bindE, rule seq_get_position [OF assms(1,2)])
    (auto intro!: wp_throwE wp_returnE assms(3,4))

lemma seq_active_session:
  assumes "reliable env" and "represents env V w" and "\<And>e w'. represents env V w' \<Longrightarrow> Q (Inl e) w'"
    and "\<And>s w'. represents env V w' \<Longrightarrow> life_session (V pid) = Some Active \<Longrightarrow> ses_state s = Active
           \<Longrightarrow> wpos env (f s) Q w'"
  shows "wpos env (bindE (getLatestActiveSession pid) f) Q w"
  unfolding getLatestActiveSession_def
  by (rule wp_bindE, rule seq_get_session [OF assms(1,2)])
    (auto intro!: wp_throwE wp_returnE assms(3,4))

lemmas seq_rules = seq_get_position seq_get_session seq_update_position seq_update_session
  seq_record seq_list seq_start seq_funding seq_venue seq_failure seq_transition seq_guard

lemma refines_moved:
  assumes "represents env (V(pid := \<lparr>life_position = Some t, life_session = Some t, life_log = l @ route\<rparr>)) w'"
    and "V pid = \<lparr>life_position = Some a, life_session = Some b, life_log = l\<rparr>"
    and "pos_state p = t" and "target req = Some pid" and "exits req \<longrightarrow> a = Active"
    and "b = fst (routes req)" and "route \<in> set (snd (routes req))" and "t = last route"
  shows "refines env req V (Inr (buildResponse p s acts)) w'"
  using assms by (intro refines_move [where pid = pid and a = a and route = route]) (auto simp: moved_def)

text \<open>
  Each proof runs the operation symbolically: the rules consume one statement, \<open>clarsimp\<close>
  evaluates the view, and \<open>refines_moved\<close> reads the route off the end of a branch.
\<close>

lemma claimPosition_refines:
  assumes "reliable env" and "represents env V w"
  shows "wpos env (claimPosition pid) (refines env (Claim pid) V) w"
  unfolding claimPosition_def executionModeE_id bindE_returnE
  apply (rule seq_active_position [OF assms], erule refines_refuse)
  apply (rule seq_active_session [OF assms(1)], assumption, erule refines_refuse)
  apply (cases "V pid")
  apply (clarsimp simp: moved_def | rule seq_rules seq_answer assms(1) refl | assumption
    | (erule refines_moved, assumption, assumption; simp add: exits_def))+
  done

lemma withdrawClosePosition_refines:
  assumes "reliable env" and "represents env V w"
  shows "wpos env (withdrawClosePosition pid) (refines env (WithdrawAndClose pid) V) w"
  unfolding withdrawClosePosition_def executionModeE_id bindE_returnE
  apply (rule seq_active_position [OF assms], erule refines_refuse)
  apply (rule seq_active_session [OF assms(1)], assumption, erule refines_refuse)
  apply (cases "V pid")
  apply (clarsimp simp: moved_def | rule seq_rules seq_answer assms(1) refl | assumption
    | (erule refines_moved, assumption, assumption; simp add: exits_def))+
  done

lemma executeSignedIntent_refines:
  assumes "reliable env" and "represents env V w"
  shows "wpos env (executeSignedIntent pid msg) (refines env (Execute pid msg) V) w"
  unfolding executeSignedIntent_def executionModeE_id bindE_returnE
  apply (rule seq_guard)
   apply (rule seq_get_position [OF assms])
    apply (simp add: seq_refuse)
   apply clarsimp
   apply (rule seq_get_session [OF assms(1)], assumption)
    apply (simp add: seq_refuse)
   apply clarsimp
   apply (rule seq_guard)
    apply (rule seq_transition)
     apply (cases "V pid")
     apply (clarsimp simp: moved_def canTransition_into_funding | rule seq_rules seq_answer assms(1) refl | assumption
      | (erule refines_moved, assumption, assumption; simp add: exits_def))+
    apply (erule refines_refuse)+
  apply (rule refines_refuse, rule assms(2))
  done


lemma seq_reconcile:
  assumes "reliable env" and "represents env V w" and "\<And>r w'. represents env V w' \<Longrightarrow> wpos env (f r) Q w'"
  shows "wpos env (bindE (reconcile pid) f) Q w"
proof -
  have "wpos env (reconcile pid) (\<lambda>r w'. represents env V w' \<and> \<not> isl r) w"
    unfolding reconcile_def
  proof (intro wp_bindE wp_callE)
    fix a x w' assume h: "handle env (LoadReconciliation pid) w = (Inr a, w')" and x: "as_rec a = Some x"
    then have w': "represents env V w'" using represents_quiet [OF assms(2), of "LoadReconciliation pid"] by simp
    show "case Inr x of Inl e \<Rightarrow> represents env V w' \<and> \<not> isl (Inl e)
       | Inr a \<Rightarrow> wpos env
          (if case a of Some (Some sig) \<Rightarrow> sig = [] | _ \<Rightarrow> True
           then returnE \<lparr>rr_state = StillIndexing, rr_statusLabel = ''Execution delayed'', rr_nextStep = Refresh\<rparr>
           else bindE (callE (ClearReconciliation pid) as_unit)
                (\<lambda>_. returnE \<lparr>rr_state = NowActive, rr_statusLabel = ''Position active'', rr_nextStep = Wait\<rparr>))
          (\<lambda>r w'. represents env V w' \<and> \<not> isl r) w'"
      using w' represents_quiet [OF w', of "ClearReconciliation pid"]
      by (auto intro!: wp_bindE wp_callE wp_returnE simp: handle_reliable [OF assms(1)])
  qed (auto simp: handle_reliable [OF assms(1)])
  then show ?thesis
    by (intro wp_bindE, elim wp_mono) (auto split: sum.splits intro: assms(3))
qed

lemma refines_look:
  "represents env V w' \<Longrightarrow> life_position (V pid) = Some (pos_state p) \<Longrightarrow> life_session (V pid) = Some b
     \<Longrightarrow> refines env (Read pid) V (Inr (buildResponse p s acts)) w'"
  unfolding refines_def verdict_of_def using life_step.look [of V pid "pos_state p" b] by auto

lemma refines_delay:
  assumes "represents env (V(pid := (V pid)\<lparr>life_log := life_log (V pid) @ [Indexing]\<rparr>)) w'"
    and "life_position (V pid) = Some (pos_state p)" and "life_session (V pid) = Some Indexing"
  shows "refines env (Read pid) V (Inr (buildResponse p s acts)) w'"
  unfolding refines_def verdict_of_def using life_step.delay [of V pid "pos_state p", OF assms(2,3)] assms(1) by auto

lemma getPosition_refines:
  assumes "reliable env" and "represents env V w"
  shows "wpos env (getPosition pid) (refines env (Read pid) V) w"
  unfolding getPosition_def
  apply (rule seq_get_position [OF assms])
   apply (simp add: seq_refuse)
  apply clarsimp
  apply (rule seq_get_session [OF assms(1)], assumption)
   apply (simp add: seq_refuse)
  apply clarsimp
  apply (rule seq_list [OF assms(1)], assumption)
  apply (rule wp_if, rule seq_answer, rule refines_look, assumption, assumption, assumption)
  apply (rule seq_reconcile [OF assms(1)], assumption)
  apply (rule wp_if)
  subgoal
    by (cases "V pid")
      (clarsimp simp: moved_def | rule seq_rules seq_answer assms(1) refl | assumption
        | (erule refines_moved, assumption, assumption; simp add: exits_def))+
  apply (rule wp_if)
   apply (rule seq_record [OF assms(1)], assumption, simp)
   apply (rule seq_list [OF assms(1)], assumption)
   apply (rule seq_answer, rule refines_delay, simp, simp, simp)
  apply (rule seq_answer, rule refines_look, assumption, assumption, assumption)
  done


section \<open>Creating a draft\<close>

text \<open>An identifier that has been handed out and that no row uses yet.\<close>

definition fresh_in :: "penv \<Rightarrow> string \<Rightarrow> pworld \<Rightarrow> bool" where
  "fresh_in env t w \<longleftrightarrow> t \<in> issued env (length (w_trail w)) \<and> t \<notin> ids w"

lemma fresh_in_quiet: "\<not> writes c \<Longrightarrow> fresh_in env t w \<Longrightarrow> fresh_in env t (snd (handle env c w))"
  using ids_cong [of "snd (handle env c w)" w] issued_mono [of "length (w_trail w)" "Suc (length (w_trail w))" env]
  by (auto simp: fresh_in_def)

lemma seq_uuid:
  assumes "reliable env" and "represents env V w"
    and "\<And>t w'. represents env V w' \<Longrightarrow> fresh_in env t w' \<Longrightarrow> (\<And>t0. fresh_in env t0 w \<Longrightarrow> fresh_in env t0 w' \<and> t0 \<noteq> t)
           \<Longrightarrow> wpos env (f t) Q w'"
  shows "wpos env (bindE (callE RandomUUID as_text) f) Q w"
proof -
  let ?n = "length (w_trail w)"
  define w1 where "w1 = snd (handle env RandomUUID w)"
  have h1: "handle env RandomUUID w = (Inr (RText (env_uuid env ?n)), w1)"
    using assms(1) by (simp add: handle_reliable w1_def)
  have r1: "represents env V w1" using represents_quiet [OF assms(2), of RandomUUID] by (simp add: w1_def)
  have new: "env_uuid env ?n \<notin> issued env ?n" using assms(1) by (simp add: reliable_def)
  have "ids w1 = ids w" by (rule ids_cong) (simp_all add: w1_def)
  then have "fresh_in env (env_uuid env ?n) w1"
    using assms(2) new by (auto simp: fresh_in_def represents_def wf_world_def w1_def)
  moreover have "fresh_in env t0 w1 \<and> t0 \<noteq> env_uuid env ?n" if "fresh_in env t0 w" for t0
    using that new fresh_in_quiet [of RandomUUID env t0 w] by (auto simp: w1_def fresh_in_def)
  ultimately show ?thesis
    using h1 assms(3) [OF r1] by (intro wp_bindE wp_callE) auto
qed

lemma represents_absent:
  assumes "represents env V w" and "pid \<notin> pos_id ` set (w_positions w)"
  shows "V pid = absent"
proof -
  have "ses_positionId ` set (w_sessions w) \<subseteq> pos_id ` set (w_positions w)"
    "act_positionId ` set (w_activities w) \<subseteq> pos_id ` set (w_positions w)" and V: "V = view w"
    using assms(1) by (auto simp: represents_def wf_world_def)
  with assms(2) have "pid \<notin> ses_positionId ` set (w_sessions w)" "\<forall>a \<in> set (w_activities w). act_positionId a \<noteq> pid"
    by (auto simp: image_iff)
  with assms(2) show ?thesis
    by (simp add: V view_def absent_def getPositionById_def find_by_None_iff latest_None_iff filter_empty_conv)
qed

lemma seq_create_position:
  assumes "reliable env" and "represents env V w" and "fresh_in env (cp_id inp) w" and "fresh_in env (cp_intentId inp) w"
    and "\<And>p w'. V (cp_id inp) = absent
           \<Longrightarrow> represents env (V(cp_id inp := absent\<lparr>life_position := Some (cp_state inp)\<rparr>)) w'
           \<Longrightarrow> pos_id p = cp_id inp \<Longrightarrow> pos_state p = cp_state inp
           \<Longrightarrow> (\<And>t. fresh_in env t w \<Longrightarrow> t \<noteq> cp_id inp \<Longrightarrow> t \<noteq> cp_intentId inp \<Longrightarrow> fresh_in env t w')
           \<Longrightarrow> wpos env (f p) Q w'"
  shows "wpos env (bindE (callE (CreatePosition inp) as_position) f) Q w"
proof -
  let ?c = "CreatePosition inp"
  let ?p = "new_position (w_clock (before_call env ?c w)) inp"
  let ?w' = "(before_call env ?c w)\<lparr>w_positions := w_positions w @ [?p], w_trail := ?c # w_trail w\<rparr>"
  have notin: "cp_id inp \<notin> pos_id ` set (w_positions w)" "cp_intentId inp \<notin> pos_intentId ` set (w_positions w)"
    using assms(3,4) by (auto simp: fresh_in_def ids_def)
  then have none: "find_by pos_id (cp_id inp) (w_positions w) = None"
    by (simp add: find_by_None_iff)
  have p: "pos_id ?p = cp_id inp" "pos_state ?p = cp_state inp" "pos_intentId ?p = cp_intentId inp"
    by (simp_all add: new_position_def)
  have h: "handle env ?c w = (Inr (RPosition ?p), ?w')"
    using assms(1) notin by (simp add: handle_reliable createPosition_def Let_def)
  have absent: "V (cp_id inp) = absent" by (rule represents_absent [OF assms(2) notin(1)])
  have wf: "wf_world env ?w'"
    using assms(2-4) p by (auto simp: represents_def wf_world_def ids_def fresh_in_def issued_step
        dest: issued_step [THEN subsetD, rotated])
  have "view ?w' = V(cp_id inp := absent\<lparr>life_position := Some (cp_state inp)\<rparr>)"
  proof
    fix q
    have V: "V = view w" using assms(2) by (simp add: represents_def)
    then have "view w (cp_id inp) = absent" using absent by simp
    then show "view ?w' q = (V(cp_id inp := absent\<lparr>life_position := Some (cp_state inp)\<rparr>)) q"
      using p none
      by (auto simp: V view_def absent_def getPositionById_def find_by_append split: option.splits)
  qed
  with wf have r: "represents env (V(cp_id inp := absent\<lparr>life_position := Some (cp_state inp)\<rparr>)) ?w'"
    by (simp add: represents_def)
  have "fresh_in env t ?w'" if "fresh_in env t w" "t \<noteq> cp_id inp" "t \<noteq> cp_intentId inp" for t
    using that p issued_mono [of "length (w_trail w)" "Suc (length (w_trail w))" env]
    by (auto simp: fresh_in_def ids_def)
  then show ?thesis
    using h assms(5) [OF absent r p(1,2)] by (intro wp_bindE wp_callE) auto
qed

lemma seq_create_session:
  assumes "reliable env" and "represents env V w" and "fresh_in env sid w"
    and "V pid = \<lparr>life_position = Some a, life_session = None, life_log = l\<rparr>"
    and "\<And>s w'. represents env (V(pid := \<lparr>life_position = Some a, life_session = Some st, life_log = l\<rparr>)) w'
           \<Longrightarrow> wpos env (f s) Q w'"
  shows "wpos env (bindE (callE (CreateExecutionSession sid pid st stage) as_session) f) Q w"
proof -
  let ?c = "CreateExecutionSession sid pid st stage"
  let ?now = "w_clock (before_call env ?c w)"
  let ?s = "\<lparr>ses_id = sid, ses_positionId = pid, ses_state = st, ses_failureStage = stage,
              ses_createdAt = ?now, ses_updatedAt = ?now\<rparr>"
  let ?w' = "(before_call env ?c w)\<lparr>w_sessions := w_sessions w @ [?s], w_trail := ?c # w_trail w\<rparr>"
  have V: "V = view w" using assms(2) by (simp add: represents_def)
  obtain p where p: "getPositionById pid (w_positions w) = Some p"
    using assms(4) by (auto simp: V view_def)
  have none: "pid \<notin> ses_positionId ` set (w_sessions w)"
    using assms(4) by (auto simp: V view_def latest_None_iff)
  have sid: "sid \<notin> ses_id ` set (w_sessions w)" using assms(3) by (auto simp: fresh_in_def ids_def)
  have h: "handle env ?c w = (Inr (RSession ?s), ?w')"
    using assms(1) sid p by (simp add: handle_reliable createExecutionSession_def Let_def)
  have "pid \<in> pos_id ` set (w_positions w)"
    using p by (auto simp: getPositionById_def dest!: find_by_SomeD)
  then have wf: "wf_world env ?w'"
    using assms(2,3) sid by (auto simp: represents_def wf_world_def ids_def fresh_in_def issued_step
        dest: issued_step [THEN subsetD, rotated])
  have "view ?w' = V(pid := \<lparr>life_position = Some a, life_session = Some st, life_log = l\<rparr>)"
    using assms(4) none by (auto simp: V view_def fun_eq_iff latest_append_new latest_append_other)
  with wf have "represents env (V(pid := \<lparr>life_position = Some a, life_session = Some st, life_log = l\<rparr>)) ?w'"
    by (simp add: represents_def)
  then show ?thesis
    using h assms(5) by (intro wp_bindE wp_callE) auto
qed


lemma assertBetaCaps_quiet:
  assumes "reliable env" and "represents env V w" and "\<And>e w'. represents env V w' \<Longrightarrow> Q (Inl e) w'"
    and "\<And>w'. represents env V w' \<Longrightarrow> wpos env (f ()) Q w'"
  shows "wpos env (bindE (assertBetaCaps caps inp) f) Q w"
  unfolding assertBetaCaps_def Let_def
  by (rule wp_bindE)
    (auto intro!: wp_bindE wp_guardE life_quiet [where env = env and V = V] assms split: sum.splits)

lemma createDraft_refines:
  assumes "reliable env" and "represents env V w"
  shows "wpos env (createDraftPositionIntent caps inp) (refines env (CreateDraft inp) V) w"
  unfolding createDraftPositionIntent_def
  apply (rule seq_guard)
   apply (rule assertBetaCaps_quiet [OF assms], erule refines_refuse)
   apply (rule seq_uuid [OF assms(1)], assumption)+
   apply (rule seq_create_position [OF assms(1)], assumption, simp, simp)
   apply (rule seq_create_session [OF assms(1)], assumption, clarsimp, metis, simp add: absent_def)
   apply (rule seq_record [OF assms(1)], assumption, simp)
   apply (rule seq_answer)
   apply (clarsimp simp: refines_def verdict_of_def drafted_def)
   apply (rule exI, rule conjI, rule life_step.draft, assumption)
   apply (simp add: absent_def drafted_def)
  apply (rule refines_refuse, rule assms(2))
  done

text \<open>Every request refines the abstract service.\<close>

lemma serve_refines:
  assumes "reliable env" and "represents env V w"
  shows "wpos env (serve caps req) (refines env req V) w"
  using createDraft_refines executeSignedIntent_refines claimPosition_refines
    withdrawClosePosition_refines getPosition_refines assms
  by (cases req) auto

end
