(* ===== verification/PositionHistory.thy ===== *)
theory PositionHistory imports PositionRefinement begin

text \<open>
  Whole histories: any sequence of requests and worker ticks, each run to its end before the
  next, from an empty database.
\<close>

section \<open>A tick of the worker\<close>

definition settled_life :: "life \<Rightarrow> bool" where
  "settled_life l \<longleftrightarrow> l = absent \<or>
     ((life_position l, life_session l) \<in>
        {(Some Draft, Some AwaitingSignature), (Some Indexing, Some Indexing), (Some Active, Some Active),
         (Some Completed, Some Completed), (Some Failed, Some Failed)} \<and>
      life_log l \<noteq> [] \<and> walk (life_log l) \<and> life_session l = Some (last (life_log l)))"

definition settled :: "lives \<Rightarrow> bool" where
  "settled V \<longleftrightarrow> (\<forall>pid. settled_life (V pid))"

definition activated :: "lives \<Rightarrow> lives \<Rightarrow> string \<Rightarrow> bool" where
  "activated V V' pid \<longleftrightarrow> life_position (V pid) = Some Indexing \<and> V' pid = moved [Active] (V pid)"

definition tick_step :: "lives \<Rightarrow> lives \<Rightarrow> bool" where
  "tick_step V V' \<longleftrightarrow> (\<forall>pid. V' pid = V pid \<or> activated V V' pid)"

lemma row_view:
  assumes "represents env V w" and "r \<in> set (w_positions w)"
  shows "life_position (V (pos_id r)) = Some (pos_state r)"
proof -
  have "distinct (map pos_id (w_positions w))" and V: "V = view w"
    using assms(1) by (auto simp: represents_def wf_world_def)
  then have "getPositionById (pos_id r) (w_positions w) = Some r"
    using assms(2) by (simp add: getPositionById_def find_by_distinct)
  then show ?thesis by (simp add: V view_def)
qed

lemma seq_find_stuck:
  assumes "reliable env" and "represents env V w"
    and "\<And>rows w'. represents env V w' \<Longrightarrow> distinct (map pos_id rows)
           \<Longrightarrow> (\<And>r. r \<in> set rows \<Longrightarrow> life_position (V (pos_id r)) = Some st) \<Longrightarrow> wpos env (f rows) Q w'"
  shows "wpos env (attemptE (callE (FindStuckPositions st cutoff limit) as_positions) g f) Q w"
proof -
  let ?rows = "findStuckPositions st cutoff limit (w_positions w)"
  have "set ?rows \<subseteq> {r \<in> set (w_positions w). pos_state r = st}"
    unfolding findStuckPositions_def by (rule subset_trans [OF set_take_subset]) auto
  then have st: "life_position (V (pos_id r)) = Some st" if "r \<in> set ?rows" for r
    using that row_view [OF assms(2), of r] by auto
  have "distinct (map pos_id (w_positions w))"
    using assms(2) by (simp add: represents_def wf_world_def)
  then have "distinct (map pos_id (filter (\<lambda>r. pos_state r = st \<and> int (pos_updatedAt r) < cutoff) (w_positions w)))"
    by (rule distinct_map_filter)
  then have "distinct (map pos_id ?rows)"
    by (simp add: findStuckPositions_def distinct_map distinct_take inj_on_def) (auto dest!: in_set_takeD)
  moreover have "represents env V (snd (handle env (FindStuckPositions st cutoff limit) w))"
    by (rule represents_quiet [OF assms(2)]) simp
  ultimately show ?thesis
    using assms(3) st by (intro wp_attemptE wp_callE) (auto simp: handle_reliable [OF assms(1)])
qed

lemma seq_find_failed:
  assumes "reliable env" and "represents env V w"
    and "\<And>rows w'. represents env V w' \<Longrightarrow> wpos env (f rows) Q w'"
  shows "wpos env (attemptE (callE (FindRecentlyFailed since limit) as_positions) g f) Q w"
proof -
  have "represents env V (snd (handle env (FindRecentlyFailed since limit) w))"
    by (rule represents_quiet [OF assms(2)]) simp
  then show ?thesis
    using assms(3) by (intro wp_attemptE wp_callE) (auto simp: handle_reliable [OF assms(1)])
qed

text \<open>One row of the indexing scan: activated or left alone.\<close>

lemma life_advance:
  assumes "reliable env" and "represents env V w" and "pos_id p = pid"
    and "life_position (V pid) = Some Indexing" and "life_session (V pid) = Some b"
    and "\<And>w'. represents env (V(pid := moved [st] (V pid))) w' \<Longrightarrow> wpos env (f ()) Q w'"
  shows "wpos env (bindE (advanceTo p st) f) Q w"
proof -
  have "wpos env (advanceTo p st) (\<lambda>r w'. r = Inr () \<and> represents env (V(pid := moved [st] (V pid))) w') w"
    unfolding advanceTo_def assms(3)
    apply (rule seq_update_position [OF assms(1,2,4)])
    apply (rule seq_update_session [OF assms(1)], assumption, simp add: assms(5))
    apply (rule seq_record [OF assms(1)], assumption, simp)
    apply (rule wp_returnE)
    apply (cases "V pid")
    apply (simp add: moved_def)
    done
  then show ?thesis
    by (intro wp_bindE, elim wp_mono) (auto intro: assms(6))
qed

lemma seq_checkIndexing:
  assumes "reliable env" and "represents env V w" and "life_position (V (pos_id p)) = Some Indexing"
    and "life_session (V (pos_id p)) = Some b"
    and "\<And>r' w'. represents env V w' \<Longrightarrow> Q (Inr r') w'"
    and "\<And>r' w'. represents env (V(pos_id p := moved [Active] (V (pos_id p)))) w' \<Longrightarrow> Q (Inr r') w'"
  shows "wpos env (checkIndexing p r) Q w"
  unfolding checkIndexing_def
  apply (rule wp_catchE, rule seq_reconcile [OF assms(1,2)], rule wp_if)
   apply (rule life_advance [where V = V and pid = "pos_id p", OF assms(1) _ refl assms(3,4)], assumption)
   apply (rule wp_returnE, simp add: assms(6))
  apply (rule wp_returnE, simp add: assms(5))
  done

lemma tick_refines:
  assumes "reliable env" and "represents env V w" and "settled V"
  shows "wpos env (tick now since) (\<lambda>r w'. \<exists>V'. represents env V' w' \<and> tick_step V V' \<and> \<not> isl r) w"
proof -
  let ?P = "\<lambda>rest (s :: RecoveryTickResult) w. \<exists>V'. represents env V' w \<and> tick_step V V' \<and> distinct (map pos_id rest) \<and>
      (\<forall>r \<in> set rest. V' (pos_id r) = V (pos_id r) \<and> life_position (V (pos_id r)) = Some Indexing)"
  have session: "life_session (V pid) = Some Indexing" if "life_position (V pid) = Some Indexing" for pid
    using assms(3) that by (auto simp: settled_def settled_life_def absent_def dest!: spec [of _ pid])
  have none: "life_position (V pid) \<noteq> Some ExecutingOnMeteora" for pid
    using assms(3) by (auto simp: settled_def settled_life_def absent_def dest!: spec [of _ pid])
  have row: "wpos env (checkIndexing x s) (\<lambda>r w'. case r of Inl e \<Rightarrow> False | Inr s' \<Rightarrow> ?P rest s' w') w1"
    if P: "?P (x # rest) s w1" for x rest s w1
  proof -
    obtain V' where V': "represents env V' w1" "tick_step V V'" "distinct (map pos_id (x # rest))"
      "\<forall>r \<in> set (x # rest). V' (pos_id r) = V (pos_id r) \<and> life_position (V (pos_id r)) = Some Indexing"
      using P by blast
    have x: "V' (pos_id x) = V (pos_id x)" "life_position (V (pos_id x)) = Some Indexing" using V'(4) by auto
    have "tick_step V (V'(pos_id x := moved [Active] (V' (pos_id x))))"
      using V'(2) x by (simp add: tick_step_def activated_def)
    moreover have "\<forall>r \<in> set rest. (V'(pos_id x := moved [Active] (V' (pos_id x)))) (pos_id r) = V (pos_id r)"
      using V'(3,4) by (auto simp: image_iff)
    moreover have "distinct (map pos_id rest)" "\<forall>r \<in> set rest. life_position (V (pos_id r)) = Some Indexing"
      "\<forall>r \<in> set rest. V' (pos_id r) = V (pos_id r)"
      using V'(3,4) by auto
    moreover have "life_position (V' (pos_id x)) = Some Indexing" "life_session (V' (pos_id x)) = Some Indexing"
      using x session by auto
    ultimately show ?thesis
      using V'(2) by (intro seq_checkIndexing [OF assms(1) V'(1)]) (simp only: sum.case, blast)+
  qed
  have alert: "wpos env (alertFailure x s) (\<lambda>r w'. case r of Inl e \<Rightarrow> False | Inr s' \<Rightarrow> \<exists>V'. represents env V' w' \<and> tick_step V V') w1"
    if P: "\<exists>V'. represents env V' w1 \<and> tick_step V V'" for x s w1
  proof -
    obtain V' where V': "represents env V' w1" "tick_step V V'" using P by blast
    with represents_quiet [OF V'(1), of "CaptureException (pos_id x)"] show ?thesis
      unfolding alertFailure_def
      by (intro wp_bindE wp_callE) (auto simp: handle_reliable [OF assms(1)] intro!: wp_returnE)
  qed
  show ?thesis
    unfolding tick_def
    apply (rule seq_find_stuck [OF assms(1,2)])
    subgoal for rows w1
    proof -
      assume "represents env V w1" and "\<And>r. r \<in> set rows \<Longrightarrow> life_position (V (pos_id r)) = Some ExecutingOnMeteora"
      with none have rows: "rows = []" by (cases rows) auto
      show ?thesis
        unfolding rows foldE.simps bindE_returnE
        apply (rule seq_find_stuck [OF assms(1) \<open>represents env V w1\<close>])
        apply (rule wp_bindE, rule wp_foldE_rest [where P = ?P])
          apply (rule exI [of _ V], simp add: tick_step_def)
         apply (erule row)
        apply (erule exE, (erule conjE)+, simp)
        apply (rule seq_find_failed [OF assms(1)], assumption)
        apply (rule wp_bindE, rule wp_foldE_rest [where P = "\<lambda>rest s w. \<exists>V'. represents env V' w \<and> tick_step V V'"])
          apply blast
         apply (erule alert)
        apply (simp, rule wp_returnE, simp)
        done
    qed
    done
qed


section \<open>Histories\<close>

datatype event = Request request | WorkerTick int int

fun happen :: "BetaCapsConfig \<Rightarrow> penv \<Rightarrow> event \<Rightarrow> pworld \<Rightarrow> pworld" where
  "happen caps env (Request req) w = snd (run (handle env) (serve caps req) w)"
| "happen caps env (WorkerTick now since) w = snd (run (handle env) (tick now since) w)"

definition play :: "BetaCapsConfig \<Rightarrow> penv \<Rightarrow> event list \<Rightarrow> pworld \<Rightarrow> pworld" where
  "play caps env evs w = fold (happen caps env) evs w"

lemma play_simps [simp]:
  "play caps env [] w = w"
  "play caps env (ev # evs) w = play caps env evs (happen caps env ev w)"
  "play caps env (evs1 @ evs2) w = play caps env evs2 (play caps env evs1 w)"
  by (simp_all add: play_def)

lemma represents_empty: "represents env (\<lambda>_. absent) empty_world"
  by (simp add: represents_def wf_world_def ids_def view_def absent_def empty_world_def fun_eq_iff
      getPositionById_def getLatestExecutionSession_def)

lemma settled_empty: "settled (\<lambda>_. absent)"
  by (simp add: settled_def settled_life_def)

lemma settled_update: "settled V \<Longrightarrow> settled_life l \<Longrightarrow> settled (V(pid := l))"
  by (simp add: settled_def)

lemma settled_moved:
  assumes "settled_life l" and "life_session l = Some (fst (routes req))" and "route \<in> set (snd (routes req))"
  shows "settled_life (moved route l)"
  using assms by (cases req) (auto simp: settled_life_def absent_def moved_def walk_def successively_append_iff)

lemma life_step_settled: "life_step req V v V' \<Longrightarrow> settled V \<Longrightarrow> settled V'"
proof (induction rule: life_step.induct)
  case (move req pid V a route)
  then show ?case using settled_moved [of "V pid" req route] by (auto intro!: settled_update simp: settled_def)
next
  case (delay V pid a)
  then have "settled_life (V pid)" by (simp add: settled_def)
  with delay have "settled_life ((V pid)\<lparr>life_log := life_log (V pid) @ [Indexing]\<rparr>)"
    by (cases "V pid") (auto simp: settled_life_def absent_def walk_append1)
  with delay.prems show ?case by (rule settled_update)
next
  case (draft V pid inp)
  have "settled_life drafted" by (simp add: settled_life_def drafted_def walk_def)
  with draft.prems show ?case by (rule settled_update)
qed auto

lemma tick_step_settled: "tick_step V V' \<Longrightarrow> settled V \<Longrightarrow> settled V'"
  unfolding settled_def
proof
  fix pid assume "tick_step V V'" and "\<forall>pid. settled_life (V pid)"
  then have l: "settled_life (V pid)" and "V' pid = V pid \<or> activated V V' pid" by (auto simp: tick_step_def)
  then show "settled_life (V' pid)"
    using settled_moved [of "V pid" "Read pid" "[Active]"]
    by (auto simp: activated_def settled_life_def absent_def moved_def walk_append1)
qed

text \<open>The abstract history step, and its simulation by a concrete one.\<close>

definition history_step :: "lives \<Rightarrow> lives \<Rightarrow> bool" where
  "history_step V V' \<longleftrightarrow> (\<exists>req v. life_step req V v V') \<or> tick_step V V'"

lemma happen_step:
  assumes "reliable env" and "represents env V w" and "settled V"
  shows "\<exists>V'. represents env V' (happen caps env ev w) \<and> settled V' \<and> history_step V V'"
proof (cases ev)
  case (Request req)
  then show ?thesis
    using serve_refines [OF assms(1,2), of caps req] life_step_settled [OF _ assms(3)]
    by (auto simp: wp_def refines_def history_step_def)
next
  case (WorkerTick now since)
  then show ?thesis
    using tick_refines [OF assms, of now since] tick_step_settled [OF _ assms(3)]
    by (auto simp: wp_def history_step_def)
qed

lemma play_settled:
  assumes "reliable env" and "represents env V w" and "settled V"
  shows "\<exists>V'. represents env V' (play caps env evs w) \<and> settled V'"
  using assms(2,3)
proof (induction evs arbitrary: V w)
  case (Cons ev evs)
  obtain V' where "represents env V' (happen caps env ev w)" "settled V'"
    using happen_step [OF assms(1) Cons.prems] by blast
  then show ?case using Cons.IH by simp
qed auto

definition final_life :: "life \<Rightarrow> bool" where
  "final_life l \<longleftrightarrow> life_position l \<in> {Some Completed, Some Failed}"

lemma history_step_final:
  assumes "history_step V V'" and "settled V" and "final_life (V pid)"
  shows "V' pid = V pid"
proof -
  have s: "life_session (V pid) = life_position (V pid)"
    using assms(2,3) by (auto simp: settled_def settled_life_def final_life_def absent_def dest!: spec [of _ pid])
  have "V' pid = V pid" if "life_step req V v V'" for req v
    using that s assms(3)
  proof (cases rule: life_step.cases)
    case (move q a route)
    with s assms(3) show ?thesis by (cases req) (auto simp: final_life_def)
  qed (auto simp: final_life_def absent_def)
  with assms(1,3) show ?thesis by (auto simp: history_step_def tick_step_def activated_def final_life_def)
qed

lemma play_final:
  assumes "reliable env" and "represents env V w" and "settled V" and "final_life (V pid)"
  shows "\<exists>V'. represents env V' (play caps env evs w) \<and> V' pid = V pid"
  using assms(2-4)
proof (induction evs arbitrary: V w)
  case (Cons ev evs)
  obtain V' where V': "represents env V' (happen caps env ev w)" "settled V'" "history_step V V'"
    using happen_step [OF assms(1) Cons.prems(1,2)] by blast
  have "V' pid = V pid" by (rule history_step_final [OF V'(3) Cons.prems(2,3)])
  then show ?case using Cons.IH [OF V'(1,2)] Cons.prems(3) by simp
qed auto


section \<open>Properties\<close>

text \<open>A concrete environment: no faults, and the identifiers are strings of the letter a.\<close>

definition calm :: penv where
  "calm = \<lparr>env_elapsed = (\<lambda>n. 1), env_flush = (\<lambda>n. [0]), env_fault = (\<lambda>n. None),
     env_uuid = (\<lambda>n. replicate n CHR ''a''), env_pod = (\<lambda>n. Inr (Some ''pod'')),
     env_venue = (\<lambda>n. Inr ''sig''), env_status = (\<lambda>n sig. Inr None)\<rparr>"

lemma calm_reliable: "reliable calm"
proof -
  have "inj (\<lambda>n. replicate n CHR ''a'')" by (metis injI length_replicate)
  then show ?thesis by (simp add: reliable_def calm_def)
qed

lemma calm_empty: "represents calm (\<lambda>_. absent) empty_world"
  by (rule represents_empty)

text \<open>
  C1.  Refinement: when no call is lost and identifiers are unique, every request of the
  position service, run against a world that represents the abstract view \<open>V\<close>, makes one step of
  the abstract lifecycle: it refuses and changes nothing, or moves its own position along one of
  its routes (state, latest session and activity log together), and its answer carries the state
  it left.  No other position is touched, whatever the privacy adapter and the venue answer.
\<close>

theorem service_refines_lifecycle:
  assumes "reliable env" and "represents env V w"
  shows "case run (handle env) (serve caps req) w of
           (r, w') \<Rightarrow> \<exists>V'. life_step req V (verdict_of r) V' \<and> represents env V' w'"
  using serve_refines [OF assms, of caps req] by (simp add: wp_def refines_def case_prod_beta)

theorem service_refines_lifecycle_witness:
  "case run (handle calm) (serve DEFAULT_BETA_CAPS (Read ''p'')) empty_world of
     (r, w') \<Rightarrow> \<exists>V'. life_step (Read ''p'') (\<lambda>_. absent) (verdict_of r) V' \<and> represents calm V' w'"
  by (rule service_refines_lifecycle [OF calm_reliable calm_empty])

text \<open>
  C12.  Invariant over whole histories in which no call is lost: after any sequence of requests and
  worker ticks, one after the other, from an empty database and in an environment that answers
  every call and never repeats an identifier, the state of every position agrees with the state of its latest session
  (a draft waits for its signature), only resting states occur, and its activity log is a
  non-empty walk of the transition table that ends in that state.
\<close>

theorem histories_settle:
  assumes "reliable env"
  shows "settled (view (play caps env evs empty_world))"
  using play_settled [OF assms represents_empty settled_empty, of caps evs] by (auto simp: represents_def)

theorem histories_settle_witness:
  "settled (view (play DEFAULT_BETA_CAPS calm [Request (Read ''p''), WorkerTick 0 0] empty_world))"
  by (rule histories_settle [OF calm_reliable])

text \<open>
  Safety: a position that is Completed or Failed stays as it is.  No later request and no
  worker tick changes its state, its session or its activity log.
\<close>

theorem terminal_positions_final:
  assumes "reliable env" and "final_life (view (play caps env evs empty_world) pid)"
  shows "view (play caps env (evs @ later) empty_world) pid = view (play caps env evs empty_world) pid"
proof -
  obtain V where V: "represents env V (play caps env evs empty_world)" "settled V"
    using play_settled [OF assms(1) represents_empty settled_empty, of caps evs] by blast
  then have "final_life (V pid)" using assms(2) by (simp add: represents_def)
  then show ?thesis
    using play_final [OF assms(1) V, of pid caps later] V(1) by (auto simp: represents_def)
qed


definition sample_draft :: CreateDraftPositionIntentInput where
  "sample_draft = \<lparr>dr_action = AddLiquidityAction, dr_amount = ''1'', dr_pool = ''sol-usdc'',
     dr_mode = Standard, dr_wallet = ''w''\<rparr>"

definition broken_pod :: penv where
  "broken_pod = calm\<lparr>env_pod := (\<lambda>n. Inl ''down'')\<rparr>"

lemma broken_pod_reliable: "reliable broken_pod"
  using calm_reliable by (simp add: reliable_def broken_pod_def)

definition failed_history :: "event list" where
  "failed_history = [Request (CreateDraft sample_draft), Request (Execute ''aa'' ''m'')]"

lemma failed_history_final: "final_life (view (play DEFAULT_BETA_CAPS broken_pod failed_history empty_world) ''aa'')"
  by code_simp

theorem terminal_positions_final_witness:
  "view (play DEFAULT_BETA_CAPS broken_pod (failed_history @ [Request (Execute ''aa'' ''m'')]) empty_world) ''aa''
     = view (play DEFAULT_BETA_CAPS broken_pod failed_history empty_world) ''aa''"
  by (rule terminal_positions_final [OF broken_pod_reliable failed_history_final])

end
