(* ===== verification/PositionSafety.thy ===== *)
theory PositionSafety imports PositionHistory begin

text \<open>
  Properties of the position service that hold, or fail, when requests and worker ticks run at
  the same time and calls may be lost.
\<close>

section \<open>Interleaved jobs\<close>

text \<open>A request or a tick with its result forgotten, so that jobs of both kinds share one queue.\<close>

definition job :: "BetaCapsConfig \<Rightarrow> event \<Rightarrow> (pcall, perr + presp, unit) prog" where
  "job caps ev = (case ev of
       Request req \<Rightarrow> bindP (serve caps req) (\<lambda>_. Done ())
     | WorkerTick now since \<Rightarrow> bindP (tick now since) (\<lambda>_. Done ()))"

definition is_job :: "BetaCapsConfig \<Rightarrow> (pcall, perr + presp, unit) prog \<Rightarrow> bool" where
  "is_job caps p \<longleftrightarrow> (\<exists>ev. p = job caps ev)"

section \<open>The states of a position row\<close>

definition venue_states :: "ExecutionState set" where
  "venue_states = {AwaitingSignature, FundingInProgress, ExecutingOnMeteora}"

fun skips_venue :: "pcall \<Rightarrow> bool" where
  "skips_venue (CreatePosition inp) = (cp_state inp \<notin> venue_states)"
| "skips_venue (UpdatePositionState pid st) = (st \<notin> venue_states)"
| "skips_venue c = True"

definition rows_skip_venue :: "pworld \<Rightarrow> bool" where
  "rows_skip_venue w \<longleftrightarrow> (\<forall>r \<in> set (w_positions w). pos_state r \<notin> venue_states)"

lemma exec_skips_venue:
  "rows_skip_venue w \<Longrightarrow> skips_venue c \<Longrightarrow> rows_skip_venue (snd (exec_call env n c w))"
  by (cases c) (auto simp: rows_skip_venue_def store_update_defs new_position_def set_position_state_def
      split: option.splits dest!: set_update_by_D)

lemma rows_skip_venue_cong: "w_positions w' = w_positions w \<Longrightarrow> rows_skip_venue w' = rows_skip_venue w"
  by (simp add: rows_skip_venue_def)

lemma handle_skips_venue:
  "rows_skip_venue w \<Longrightarrow> skips_venue c \<Longrightarrow> rows_skip_venue (snd (handle env c w))"
  using exec_skips_venue [of "before_call env c w" c env "length (w_trail w)"]
    rows_skip_venue_cong [of "before_call env c w" w]
  by (auto simp: handle_def Let_def rows_skip_venue_def split: option.splits fault.splits)

interpretation venue_free: guarded_world "handle env" rows_skip_venue skips_venue for env
  by unfold_locales (rule handle_skips_venue)


lemma venue_states_simps [simp]:
  "Draft \<notin> venue_states" "Indexing \<notin> venue_states" "Active \<notin> venue_states" "Claiming \<notin> venue_states"
  "Withdrawing \<notin> venue_states" "Closing \<notin> venue_states" "Completed \<notin> venue_states" "Failed \<notin> venue_states"
  by (simp_all add: venue_states_def)

lemmas op_defs = createDraftPositionIntent_def executeSignedIntent_def claimPosition_def withdrawClosePosition_def
  getPosition_def getActivePosition_def getLatestActiveSession_def assertTransition_def assertBetaCaps_def
  recordFailure_def listActivitiesE_def beginReconciliation_def registerSnapshot_def reconcile_def Let_def

lemmas tick_defs = tick_def checkExecuting_def checkIndexing_def alertFailure_def abortTick_def
  checkVenueSignature_def advanceTo_def failPosition_def reconcile_def Let_def

lemmas makes_only_rules = makes_only_bindE makes_only_attemptE makes_only_catchE makes_only_foldE makes_only_recordActivity

lemma serve_skips_venue: "makes_only skips_venue (serve caps req)"
  by (cases req) (auto simp: op_defs split: option.splits sum.splits intro!: makes_only_rules)

lemma tick_skips_venue: "makes_only skips_venue (tick now since)"
  unfolding tick_defs
  by (intro makes_only_rules)
    (auto split: option.splits sum.splits VenueDecision.splits SignatureStatus.splits intro!: makes_only_rules)

lemma job_skips_venue: "is_job caps p \<Longrightarrow> makes_only skips_venue p"
  by (auto simp: is_job_def job_def serve_skips_venue tick_skips_venue intro!: makes_only_bindP split: event.split)

text \<open>
  C35.  Safety, for every interleaving of requests and ticks and every pattern of lost calls: no
  row of the position table is ever in awaiting_signature, funding_in_progress or
  executing_on_meteora, because the service moves only the session through those states.  The
  first scan of the recovery worker, which looks for positions stuck in executing_on_meteora,
  therefore returns no row, whatever the cutoff: a position whose execution stopped half-way is
  never checked against the chain, advanced or failed by the worker.
\<close>

theorem recovery_scan_blind:
  assumes "ireach (handle env) (is_job caps) empty_world (w, ts)"
  shows "findStuckPositions ExecutingOnMeteora cutoff limit (w_positions w) = []"
proof -
  have "rows_skip_venue w"
    using venue_free.ireach_keeps [OF assms] job_skips_venue by (auto simp: rows_skip_venue_def empty_world_def)
  then have "filter (\<lambda>r. pos_state r = ExecutingOnMeteora \<and> int (pos_updatedAt r) < cutoff) (w_positions w) = []"
    by (auto simp: rows_skip_venue_def venue_states_def filter_empty_conv)
  then show ?thesis by (simp add: findStuckPositions_def)
qed

theorem recovery_scan_blind_witness:
  "findStuckPositions ExecutingOnMeteora 0 50 (w_positions empty_world) = []"
  by (rule recovery_scan_blind [OF ireach.start [of "handle calm" "is_job DEFAULT_BETA_CAPS" empty_world]])

end
