(* ===== verification/PositionFunding.thy ===== *)
theory PositionFunding imports PositionSafety begin

text \<open>
  Funding a position: at most once when requests follow each other, whatever calls are lost;
  twice when two executions of one draft overlap.
\<close>

section \<open>The funding invariant\<close>

fun funds :: "string \<Rightarrow> pcall \<Rightarrow> bool" where
  "funds pid (PrepareFunding p intent pool amount mode) = (p = pid)"
| "funds pid c = False"

definition left_signature :: "string \<Rightarrow> pworld \<Rightarrow> bool" where
  "left_signature pid w \<longleftrightarrow> pid \<in> pos_id ` set (w_positions w) \<and>
     (\<exists>s. getLatestExecutionSession pid (w_sessions w) = Some s \<and> ses_state s \<noteq> AwaitingSignature)"

text \<open>\<open>funded pid b k\<close>: \<open>k\<close> fundings so far, and the signature has been used when \<open>b\<close>.\<close>

definition funded :: "string \<Rightarrow> bool \<Rightarrow> nat \<Rightarrow> pworld \<Rightarrow> bool" where
  "funded pid b k w \<longleftrightarrow> distinct (map ses_id (w_sessions w)) \<and>
     count_if (funds pid) (w_trail w) = k \<and> (b \<longrightarrow> left_signature pid w)"

fun harmless :: "string \<Rightarrow> bool \<Rightarrow> pcall \<Rightarrow> bool" where
  "harmless pid b (PrepareFunding p intent pool amount mode) = (p \<noteq> pid)"
| "harmless pid b (CreateExecutionSession sid p st stage) = (b \<longrightarrow> p \<noteq> pid)"
| "harmless pid b (UpdateExecutionSession p st stage) = (st \<noteq> AwaitingSignature)"
| "harmless pid b c = True"

lemma exec_distinct_sessions:
  "distinct (map ses_id (w_sessions w)) \<Longrightarrow> distinct (map ses_id (w_sessions (snd (exec_call env n c w))))"
  by (cases c) (auto simp: store_update_defs set_session_state_def map_key_update_by split: option.splits)

lemma update_session_left:
  assumes "distinct (map ses_id ss)" and "getLatestExecutionSession q ss = Some t"
    and "getLatestExecutionSession pid ss = Some s"
  shows "getLatestExecutionSession pid (update_by ses_id (ses_id t) (set_session_state now st stage) ss)
     = Some (if pid = q then set_session_state now st stage s else s)"
proof -
  have "ses_id s = ses_id t \<longleftrightarrow> pid = q"
    using assms by (metis distinct_map inj_onD latest_SomeD option.inject)
  then show ?thesis
    using latest_update_by [of "set_session_state now st stage" pid "ses_id t" ss] assms(3)
    by (simp add: set_session_state_def)
qed

lemma image_update_by: "(\<And>r. key' (f r) = key' r) \<Longrightarrow> key' ` set (update_by key k f rs) = key' ` set rs"
  by (metis list.set_map map_key_update_by)

lemma exec_left_signature:
  assumes "left_signature pid w" and "harmless pid True c" and "distinct (map ses_id (w_sessions w))"
  shows "left_signature pid (snd (exec_call env n c w))"
proof -
  obtain s where s: "getLatestExecutionSession pid (w_sessions w) = Some s" "ses_state s \<noteq> AwaitingSignature"
    and pid: "pid \<in> pos_id ` set (w_positions w)"
    using assms(1) by (auto simp: left_signature_def)
  have "pid \<in> pos_id ` set (w_positions (snd (exec_call env n c w)))"
    using pid by (cases c) (auto simp: store_update_defs set_position_state_def image_update_by split: option.splits)
  moreover have "\<exists>s. getLatestExecutionSession pid (w_sessions (snd (exec_call env n c w))) = Some s
      \<and> ses_state s \<noteq> AwaitingSignature"
  proof (cases "writes_session c")
    case True
    then show ?thesis
      using s assms(2,3)
      by (cases c) (auto simp: store_update_defs update_session_left latest_append_other
          set_session_state_def split: option.splits)
  qed (use s in simp)
  ultimately show ?thesis by (simp add: left_signature_def)
qed

lemma funded_before [simp]: "left_signature pid (before_call env c w) = left_signature pid w"
  by (simp add: left_signature_def)

lemma left_signature_trail [simp]: "left_signature pid (w\<lparr>w_trail := t\<rparr>) = left_signature pid w"
  by (simp add: left_signature_def)

lemma harmless_not_funds: "harmless pid b c \<Longrightarrow> \<not> funds pid c"
  by (cases c) auto

lemma handle_funded:
  assumes "funded pid b k w" and "harmless pid b c"
  shows "funded pid b k (snd (handle env c w))"
proof -
  let ?w0 = "before_call env c w"
  let ?w1 = "snd (exec_call env (length (w_trail w)) c ?w0)"
  have d: "distinct (map ses_id (w_sessions ?w0))" and l: "b \<longrightarrow> left_signature pid ?w0"
    using assms(1) by (simp_all add: funded_def)
  have "distinct (map ses_id (w_sessions ?w1))" by (rule exec_distinct_sessions [OF d])
  moreover have "b \<longrightarrow> left_signature pid ?w1" using exec_left_signature [OF _ _ d] l assms(2) by auto
  ultimately show ?thesis
    using assms d l harmless_not_funds [OF assms(2)]
    by (auto simp: handle_def Let_def funded_def split: option.splits fault.splits)
qed

interpretation funding: guarded_world "handle env" "funded pid b k" "harmless pid b" for env pid b k
  by unfold_locales (rule handle_funded)


section \<open>One request\<close>

definition fund_ok :: "string \<Rightarrow> pworld \<Rightarrow> bool" where
  "fund_ok pid w \<longleftrightarrow> funded pid False 0 w \<or> funded pid True 1 w"

lemma fund_okI [intro]: "funded pid False 0 w \<Longrightarrow> fund_ok pid w" "funded pid True k w \<Longrightarrow> k \<le> 1 \<Longrightarrow> fund_ok pid w"
  by (auto simp: fund_ok_def funded_def le_Suc_eq)

lemma wp_funded:
  "makes_only (harmless pid b) p \<Longrightarrow> funded pid b k w \<Longrightarrow> (\<And>r w'. funded pid b k w' \<Longrightarrow> Q r w')
     \<Longrightarrow> wp (handle env) p Q w"
  using funding.run_keeps [of pid b p k w env] by (simp add: wp_def)

lemma funded_call:
  assumes "funded pid b k w" and "harmless pid b c" and "handle env c w = (r, w')"
  shows "funded pid b k w'"
  using handle_funded [OF assms(1,2), of env] assms(3) by simp

lemma get_position_result:
  "handle env (GetPositionById q) w = (Inr a, w') \<Longrightarrow> as_position_opt a = Some (Some p) \<Longrightarrow>
     pos_id p = q \<and> q \<in> pos_id ` set (w_positions w')"
  by (auto simp: handle_def Let_def getPositionById_def split: option.splits fault.splits dest!: find_by_SomeD)

lemma get_session_result:
  "handle env (GetLatestExecutionSession q) w = (Inr a, w') \<Longrightarrow> as_session_opt a = Some (Some s) \<Longrightarrow>
     getLatestExecutionSession q (w_sessions w') = Some s"
  by (auto simp: handle_def Let_def split: option.splits fault.splits)

lemma get_session_frame:
  "handle env (GetLatestExecutionSession q) w = (Inr a, w') \<Longrightarrow> w_positions w' = w_positions w"
  using handle_positions [of "GetLatestExecutionSession q" env w] by simp

lemma update_session_result:
  "handle env (UpdateExecutionSession q st stage) w = (Inr a, w') \<Longrightarrow>
     \<exists>s. getLatestExecutionSession q (w_sessions w') = Some s \<and> ses_state s = st"
  using latest_update_by [of "set_session_state now st stage" q] 
  by (auto simp: handle_def Let_def updateExecutionSession_def set_session_state_def latest_update_by
      split: option.splits fault.splits)

lemma tail_harmless:
  "makes_only (harmless pid True) (recordFailure p stage e)"
  by (auto simp: op_defs split: option.splits intro!: makes_only_rules)


lemma others_harmless:
  "makes_only (harmless pid b) (claimPosition q)" "makes_only (harmless pid b) (withdrawClosePosition q)"
  "makes_only (harmless pid b) (getPosition q)"
  by (auto simp: op_defs split: option.splits sum.splits intro!: makes_only_rules)

lemma tick_harmless: "makes_only (harmless pid b) (tick now since)"
  unfolding tick_defs
  by (intro makes_only_rules)
    (auto split: option.splits sum.splits VenueDecision.splits SignatureStatus.splits intro!: makes_only_rules)

lemma draft_harmless: "makes_only (harmless pid False) (createDraftPositionIntent caps inp)"
  by (auto simp: op_defs intro!: makes_only_rules)

text \<open>Once the signature of \<open>pid\<close> is used, a draft cannot take its identifier.\<close>

lemma create_position_result:
  "handle env (CreatePosition inp) w = (Inr a, w') \<Longrightarrow> cp_id inp \<notin> pos_id ` set (w_positions w)"
  by (auto simp: handle_def Let_def createPosition_def split: option.splits fault.splits if_splits)

lemma create_other:
  assumes "handle env (CreatePosition inp) w = (r, w')" and "funded pid True k w"
  shows "funded pid True k w' \<and> (\<not> isl r \<longrightarrow> cp_id inp \<noteq> pid)"
  using assms(1) funded_call [OF assms(2) _ assms(1)] create_position_result [of env inp w _ w'] assms(2)
  by (cases r) (auto simp: funded_def left_signature_def)

lemma draft_funded:
  assumes "funded pid True k w"
  shows "wp (handle env) (createDraftPositionIntent caps inp) (\<lambda>_. funded pid True k) w"
proof -
  let ?ok = "harmless pid True"
  have prefix: "makes_only ?ok (assertBetaCaps caps inp)"
    by (auto simp: op_defs intro!: makes_only_rules)
  have uuid: "makes_only ?ok (callE RandomUUID as_text)" by simp
  show ?thesis
    unfolding createDraftPositionIntent_def
    apply (rule wp_bindE, rule wp_funded [OF _ assms], simp)
    apply (clarsimp split: sum.splits)
    apply (rule wp_bindE, rule wp_funded [OF prefix], assumption)
    apply (clarsimp split: sum.splits)
    apply (rule wp_bindE, rule wp_funded [OF uuid], assumption, clarsimp split: sum.splits)+
    apply (rule wp_bindE, rule wp_callE)
      apply (drule create_other, assumption, simp)
     apply (drule create_other, assumption, clarsimp)
     apply (erule wp_funded [rotated], assumption)
     apply (auto intro!: makes_only_rules)[1]
    apply (drule create_other, assumption, simp)
    done
qed

lemma seq_call_funded:
  assumes "funded pid b k w" and "harmless pid b c"
    and "\<And>a x w'. funded pid b k w' \<Longrightarrow> handle env c w = (Inr a, w') \<Longrightarrow> get a = Some x \<Longrightarrow> wp (handle env) (f x) Q w'"
    and "\<And>e w'. funded pid b k w' \<Longrightarrow> Q (Inl e) w'"
  shows "wp (handle env) (bindE (callE c get) f) Q w"
  using assms(3,4) funded_call [OF assms(1,2)]
  by (intro wp_bindE wp_callE) auto

lemma execute_other:
  assumes "funded pid b k w" and "q \<noteq> pid"
  shows "wp (handle env) (executeSignedIntent q msg) (\<lambda>_. funded pid b k) w"
  unfolding executeSignedIntent_def executionModeE_id bindE_returnE
  apply (rule wp_bindE, rule wp_funded [OF _ assms(1)], simp)
  apply (clarsimp split: sum.splits)
  apply (rule seq_call_funded, assumption, simp)
   apply (clarsimp split: option.splits)
   apply (rule conjI, simp add: wp_throwE)
   apply clarsimp
   apply (drule (1) get_position_result, clarsimp)
   apply (erule wp_funded [rotated], assumption)
  using assms(2)
   apply (auto simp: op_defs split: option.splits sum.splits intro!: makes_only_rules)
  done

text \<open>An execution of \<open>pid\<close> itself: the session leaves awaiting_signature before the funding.\<close>

lemma funded_left:
  "funded pid b k w \<Longrightarrow> left_signature pid w \<Longrightarrow> funded pid True k w"
  by (simp add: funded_def)

lemma handle_funding:
  assumes "funded pid True 0 w" and "handle env (PrepareFunding pid a1 a2 a3 a4) w = (r, w')"
  shows "funded pid True 1 w'"
proof -
  let ?c = "PrepareFunding pid a1 a2 a3 a4"
  have w': "w_sessions w' = w_sessions w" "w_positions w' = w_positions w" "w_trail w' = ?c # w_trail w"
    using handle_sessions [of ?c env w] handle_positions [of ?c env w] handle_trail [of env ?c w] assms(2) by auto
  show ?thesis using assms(1) by (simp add: funded_def left_signature_def w')
qed

lemma funding_attempt:
  assumes "funded pid True 0 w" and "\<And>e. makes_only (harmless pid True) (g e)"
    and "\<And>p. makes_only (harmless pid True) (f p)"
  shows "wp (handle env) (attemptE (callE (PrepareFunding pid a1 a2 a3 a4) as_pod) g f) (\<lambda>_. fund_ok pid) w"
  using handle_funding [OF assms(1)] assms(2,3)
  by (intro wp_attemptE wp_callE) (auto intro!: wp_funded [of pid True _ 1])

text \<open>The part of the execution that starts when the transition to funding has been accepted.\<close>

lemma funding_start:
  assumes "funded pid False 0 w" and "pid \<in> pos_id ` set (w_positions w)" and "pos_id p = pid"
    and "\<And>s e. makes_only (harmless pid True) (g s e)" and "\<And>s x. makes_only (harmless pid True) (f s x)"
  shows "wp (handle env)
     (bindE (callE (UpdateExecutionSession pid FundingInProgress None) as_session) (\<lambda>s.
      bindE (recordActivity p FundingInProgress h d n) (\<lambda>_.
      attemptE (callE (PrepareFunding pid a1 a2 a3 a4) as_pod) (g s) (f s)))) (\<lambda>_. fund_ok pid) w"
proof (rule seq_call_funded [OF assms(1)])
  fix a x w' assume f: "funded pid False 0 w'"
    and h: "handle env (UpdateExecutionSession pid FundingInProgress None) w = (Inr a, w')"
  have "w_positions w' = w_positions w"
    using handle_positions [of "UpdateExecutionSession pid FundingInProgress None" env w] h by simp
  then have "left_signature pid w'"
    using update_session_result [OF h] assms(2) by (auto simp: left_signature_def)
  with f have left: "funded pid True 0 w'" by (rule funded_left)
  have rec: "makes_only (harmless pid True) (recordActivity p FundingInProgress h d n)"
    by (auto intro!: makes_only_recordActivity)
  show "wp (handle env) (bindE (recordActivity p FundingInProgress h d n) (\<lambda>_.
      attemptE (callE (PrepareFunding pid a1 a2 a3 a4) as_pod) (g x) (f x))) (\<lambda>_. fund_ok pid) w'"
    by (rule wp_bindE, rule wp_funded [OF rec left])
      (auto split: sum.splits intro: funding_attempt assms(4,5))
qed auto

definition has_row :: "string \<Rightarrow> pworld \<Rightarrow> bool" where
  "has_row pid w \<longleftrightarrow> pid \<in> pos_id ` set (w_positions w)"

lemma seq_position_funded:
  assumes "funded pid b k w"
    and "\<And>w'. funded pid b k w' \<Longrightarrow> wp (handle env) (f None) Q w'"
    and "\<And>p w'. funded pid b k w' \<Longrightarrow> has_row q w' \<Longrightarrow> pos_id p = q \<Longrightarrow> wp (handle env) (f (Some p)) Q w'"
    and "\<And>e w'. funded pid b k w' \<Longrightarrow> Q (Inl e) w'"
  shows "wp (handle env) (bindE (callE (GetPositionById q) as_position_opt) f) Q w"
proof (rule seq_call_funded [OF assms(1)])
  fix a x w' assume "funded pid b k w'" and "handle env (GetPositionById q) w = (Inr a, w')" and "as_position_opt a = Some x"
  then show "wp (handle env) (f x) Q w'"
    using assms(2,3) get_position_result [of env q w a w'] by (cases x) (auto simp: has_row_def)
qed (auto intro: assms(4))

lemma seq_session_funded:
  assumes "funded pid b k w" and "has_row r w"
    and "\<And>w'. funded pid b k w' \<Longrightarrow> wp (handle env) (f None) Q w'"
    and "\<And>s w'. funded pid b k w' \<Longrightarrow> has_row r w' \<Longrightarrow> getLatestExecutionSession q (w_sessions w') = Some s
           \<Longrightarrow> wp (handle env) (f (Some s)) Q w'"
    and "\<And>e w'. funded pid b k w' \<Longrightarrow> Q (Inl e) w'"
  shows "wp (handle env) (bindE (callE (GetLatestExecutionSession q) as_session_opt) f) Q w"
proof (rule seq_call_funded [OF assms(1)])
  fix a x w' assume "funded pid b k w'" and h: "handle env (GetLatestExecutionSession q) w = (Inr a, w')"
    and "as_session_opt a = Some x"
  moreover have "has_row r w'" using assms(2) get_session_frame [OF h] by (simp add: has_row_def)
  ultimately show "wp (handle env) (f x) Q w'"
    using assms(3,4) get_session_result [OF h] by (cases x) auto
qed (auto intro: assms(5))

lemma execute_same:
  assumes "fund_ok pid w"
  shows "wp (handle env) (executeSignedIntent pid msg) (\<lambda>_. fund_ok pid) w"
proof -
  obtain b k where f: "funded pid b k w" and bk: "(b, k) = (False, 0) \<or> (b, k) = (True, 1)"
    using assms by (auto simp: fund_ok_def)
  then have ok: "funded pid b k w' \<Longrightarrow> fund_ok pid w'" for w' by auto
  have free: "funded pid False 0 w'" if "funded pid b k w'" "getLatestExecutionSession pid (w_sessions w') = Some s"
    "canTransition (ses_state s) FundingInProgress" for w' s
    using that bk by (auto simp: canTransition_into_funding funded_def left_signature_def)
  show ?thesis
    unfolding executeSignedIntent_def executionModeE_id bindE_returnE
    apply (rule wp_bindE, rule wp_funded [OF _ f], simp)
    apply (clarsimp split: sum.splits simp: ok)
    apply (rule seq_position_funded, assumption)
      apply (simp only: option.case, rule wp_throwE, erule ok)
     apply (simp only: option.case)
     apply (rule seq_session_funded, assumption, assumption)
       apply (simp only: option.case, rule wp_throwE, erule ok)
      apply (simp only: option.case)
      apply (rule seq_guard)
       apply (rule seq_transition)
        apply (drule (2) free)
        apply (rule funding_start)
            apply assumption
           apply (simp add: has_row_def)
          apply assumption
         apply (rule tail_harmless)
        apply (auto simp: op_defs split: option.splits intro!: makes_only_rules)[1]
       apply (erule ok)+
    done
qed

lemma happen_fund_ok:
  assumes "fund_ok pid w"
  shows "fund_ok pid (happen caps env ev w)"
proof -
  obtain b k where f: "funded pid b k w" and bk: "(b, k) = (False, 0) \<or> (b, k) = (True, 1)"
    using assms by (auto simp: fund_ok_def)
  then have ok: "funded pid b k w' \<Longrightarrow> fund_ok pid w'" for w' by auto
  have "fund_ok pid (snd (run (handle env) (serve caps req) w))" for req
  proof (cases req)
    case (CreateDraft inp)
    have "wp (handle env) (createDraftPositionIntent caps inp) (\<lambda>_. funded pid b k) w"
      using draft_funded [of pid k w env caps inp] wp_funded [OF draft_harmless] f bk by auto
    with CreateDraft ok show ?thesis by (simp add: wp_def)
  next
    case (Execute q msg)
    have "wp (handle env) (executeSignedIntent q msg) (\<lambda>_. fund_ok pid) w"
    proof (cases "q = pid")
      case False
      show ?thesis by (rule wp_mono [OF execute_other [OF f False]]) (rule ok)
    qed (use execute_same [OF assms] in simp)
    with Execute show ?thesis by (simp add: wp_def)
  qed (use funding.run_keeps [OF others_harmless(1) f] funding.run_keeps [OF others_harmless(2) f]
       funding.run_keeps [OF others_harmless(3) f] ok in simp_all)
  moreover have "fund_ok pid (snd (run (handle env) (tick now since) w))" for now since
    using funding.run_keeps [OF tick_harmless f] ok by blast
  ultimately show ?thesis by (cases ev) simp_all
qed

lemma play_fund_ok: "fund_ok pid w \<Longrightarrow> fund_ok pid (play caps env evs w)"
  by (induction evs arbitrary: w) (auto intro: happen_fund_ok)

text \<open>
  C8.  Safety: requests and ticks that follow each other fund a position at most once, however
  often its execution is requested again and whatever calls are lost, before or after they take
  effect: the session leaves awaiting_signature before the funding is asked for.
\<close>

theorem funded_at_most_once:
  "count_if (funds pid) (w_trail (play caps env evs empty_world)) \<le> 1"
proof -
  have "fund_ok pid empty_world" by (simp add: fund_ok_def funded_def empty_world_def)
  then have "fund_ok pid (play caps env evs empty_world)" by (rule play_fund_ok)
  then show ?thesis by (auto simp: fund_ok_def funded_def)
qed


section \<open>Two executions at once\<close>

text \<open>A request that runs to its end while the others wait, and one that makes its next call.\<close>

lemma ireach_run:
  "ireach h entry w0 (w, ts) \<Longrightarrow> i < length ts \<Longrightarrow> ts ! i = p \<Longrightarrow>
     ireach h entry w0 (snd (run h p w), ts[i := Done (fst (run h p w))])"
proof (induction p arbitrary: w ts)
  case (Done a)
  then show ?case by (metis fst_conv list_update_id run.simps(1) snd_conv)
next
  case (Call c k)
  have "istep h entry (w, ts) (snd (h c w), ts[i := k (fst (h c w))])"
    using Call.prems by (intro istep.resume) auto
  then have "ireach h entry w0 (snd (h c w), ts[i := k (fst (h c w))])" using Call.prems(1) by (rule ireach.step [rotated])
  from Call.IH [OF _ this] Call.prems show ?case by simp
qed

lemma ireach_call:
  assumes "ireach (handle env) entry w0 (w, ts)" and "i < length ts" and "ts ! i = bindP (bindE (callE c get) f) g"
    and "handle env c w = (Inr a, w')" and "get a = Some x"
  shows "ireach (handle env) entry w0 (w', ts[i := bindP (f x) g])"
proof -
  obtain k where k: "ts ! i = Call c k" "k (Inr a) = bindP (f x) g"
    using assms(3,5) by (auto simp: bindE_def callE_def returnE_def)
  have "istep (handle env) entry (w, ts) (w', ts[i := k (Inr a)])" by (rule istep.resume) (use assms(2,4) k(1) in auto)
  then show ?thesis using ireach.step [OF assms(1)] k(2) by simp
qed

text \<open>The part of an execution that starts when the transition has been accepted does fund, if no call is lost.\<close>

lemma funding_happens:
  assumes "reliable env" and "represents env V w" and "life_session (V pid) = Some b" and "life_position (V pid) = Some a"
    and "pos_id p = pid" and "funded pid False k w"
    and "\<And>s e. makes_only (harmless pid True) (g s e)" and "\<And>s x. makes_only (harmless pid True) (f s x)"
  shows "wpos env
     (bindE (callE (UpdateExecutionSession pid FundingInProgress None) as_session) (\<lambda>s.
      bindE (recordActivity p FundingInProgress h d n) (\<lambda>_.
      attemptE (callE (PrepareFunding pid a1 a2 a3 a4) as_pod) (g s) (f s)))) (\<lambda>_. funded pid True (Suc k)) w"
proof -
  have row: "pid \<in> pos_id ` set (w_positions w)"
    using assms(2,4) by (auto simp: represents_def view_def getPositionById_def dest!: find_by_SomeD)
  have ends: "wpos env (attemptE (callE (PrepareFunding pid a1 a2 a3 a4) as_pod) (g s) (f s)) (\<lambda>_. funded pid True (Suc k)) w'"
    if "funded pid True k w'" for s w'
  proof -
    have "funded pid True (Suc k) w''" if "handle env (PrepareFunding pid a1 a2 a3 a4) w' = (r, w'')" for r w''
      using \<open>funded pid True k w'\<close> that handle_sessions [of "PrepareFunding pid a1 a2 a3 a4" env w']
        handle_positions [of "PrepareFunding pid a1 a2 a3 a4" env w'] handle_trail [of env "PrepareFunding pid a1 a2 a3 a4" w']
      by (simp add: funded_def left_signature_def)
    then show ?thesis using assms(7,8) by (intro wp_attemptE wp_callE) (auto intro!: wp_funded)
  qed
  have rec: "makes_only (harmless pid True) (recordActivity p FundingInProgress h d n)"
    by (auto intro!: makes_only_recordActivity)
  let ?V = "V(pid := (V pid)\<lparr>life_session := Some FundingInProgress\<rparr>)"
  have "wpos env (callE (UpdateExecutionSession pid FundingInProgress None) as_session) (\<lambda>r w'. \<not> isl r \<and> represents env ?V w') w"
    by (rule life_update_session [OF assms(1-3)]) simp
  moreover have "wpos env (callE (UpdateExecutionSession pid FundingInProgress None) as_session) (\<lambda>r w'. \<not> isl r \<longrightarrow> funded pid True k w') w"
  proof (rule wp_callE)
    fix x s w' assume h: "handle env (UpdateExecutionSession pid FundingInProgress None) w = (Inr x, w')"
    have "w_positions w' = w_positions w" using handle_positions [of "UpdateExecutionSession pid FundingInProgress None" env w] h by simp
    then have "left_signature pid w'" using update_session_result [OF h] row by (auto simp: left_signature_def)
    with funded_call [OF assms(6) _ h] show "\<not> isl (Inr s) \<longrightarrow> funded pid True k w'" by (auto intro: funded_left)
  qed simp_all
  ultimately have update: "wpos env (callE (UpdateExecutionSession pid FundingInProgress None) as_session)
      (\<lambda>r w'. \<not> isl r \<and> represents env ?V w' \<and> funded pid True k w') w"
    by (simp add: wp_def)
  have noted: "wpos env (recordActivity p FundingInProgress h d n) (\<lambda>r w'. \<not> isl r \<and> funded pid True k w') w'"
    if "represents env ?V w'" "funded pid True k w'" for w'
  proof -
    have "wpos env (recordActivity p FundingInProgress h d n) (\<lambda>r w'. \<not> isl r) w'"
      by (rule life_record_activity [OF assms(1) that(1) refl]) (use assms(4,5) in auto)
    with wp_funded [OF rec that(2), of "\<lambda>r w'. funded pid True k w'"] show ?thesis by (auto simp: wp_def)
  qed
  show ?thesis
    by (rule wp_bindE, rule wp_mono [OF update])
      (auto split: sum.splits intro!: wp_bindE wp_mono [OF noted] ends)
qed

text \<open>An execution is two reads and a part that depends on what they answered only.\<close>

lemma execute_reads:
  "\<exists>rest. (\<forall>msg. msg \<noteq> [] \<longrightarrow> executeSignedIntent pid msg =
      bindE (callE (GetPositionById pid) as_position_opt) (\<lambda>found. case found of None \<Rightarrow> throwE (PositionNotFoundError pid) | Some p \<Rightarrow>
      bindE (callE (GetLatestExecutionSession pid) as_session_opt) (\<lambda>found. case found of None \<Rightarrow> throwE (PositionNotFoundError pid) | Some s \<Rightarrow>
      rest p s))) \<and>
    (\<forall>env V w p s k. reliable env \<longrightarrow> represents env V w \<longrightarrow> pos_id p = pid \<longrightarrow> pos_action p = AddLiquidityAction \<longrightarrow>
      ses_state s = AwaitingSignature \<longrightarrow> life_position (V pid) \<noteq> None \<longrightarrow> life_session (V pid) \<noteq> None \<longrightarrow> funded pid False k w \<longrightarrow>
      wpos env (rest p s) (\<lambda>_. funded pid True (Suc k)) w)"
  apply (rule exI, rule conjI)
   apply (intro allI impI, unfold executeSignedIntent_def executionModeE_id bindE_returnE, simp only: guardE_def if_True bindE_returnE not_False_eq_True)
  apply (intro allI impI)
  apply (simp only: if_True simp_thms bindE_returnE, rule seq_transition)
   apply (hypsubst, elim not_None_eq [THEN iffD1, THEN exE])
   apply (rule funding_happens, assumption, assumption, assumption, assumption, rule refl, assumption, rule tail_harmless)
   apply (auto simp: op_defs split: option.splits intro!: makes_only_rules)[1]
  apply (simp add: canTransition_into_funding)
  done

text \<open>The two reads, when no call is lost.\<close>

lemma reads_answer:
  assumes "reliable env" and "represents env V w"
  shows "\<exists>w'. handle env (GetPositionById pid) w = (Inr (RPositionOpt (getPositionById pid (w_positions w))), w') \<and>
      represents env V w' \<and> w_positions w' = w_positions w \<and> w_sessions w' = w_sessions w \<and> w_trail w' = GetPositionById pid # w_trail w"
    and "\<exists>w'. handle env (GetLatestExecutionSession pid) w = (Inr (RSessionOpt (getLatestExecutionSession pid (w_sessions w))), w') \<and>
      represents env V w' \<and> w_positions w' = w_positions w \<and> w_sessions w' = w_sessions w \<and> w_trail w' = GetLatestExecutionSession pid # w_trail w"
  using represents_quiet [OF assms(2), of "GetPositionById pid"] represents_quiet [OF assms(2), of "GetLatestExecutionSession pid"] assms(1)
  by (auto simp: handle_reliable)

lemma one_more:
  "represents env V w \<Longrightarrow> funded pid False (count_if (funds pid) (w_trail w)) w"
  by (simp add: funded_def represents_def wf_world_def)

definition is_execution :: "BetaCapsConfig \<Rightarrow> string \<Rightarrow> (pcall, perr + presp, unit) prog \<Rightarrow> bool" where
  "is_execution caps pid j \<longleftrightarrow> (\<exists>msg. msg \<noteq> [] \<and> j = job caps (Request (Execute pid msg)))"

text \<open>
  C36.  The bound of C8 needs requests that follow each other.  The transition to funding is
  checked on a session read earlier and written without a condition.  So in every world, and in every
  environment that loses no call, two executions of a draft that adds liquidity and awaits its signature have an
  interleaving in which both pass the check and the position is funded twice: both read the session before
  either writes it.
\<close>

theorem overlapping_executions_fund_twice:
  assumes "reliable env" and "represents env V w" and "life_session (V pid) = Some AwaitingSignature"
    and "getPositionById pid (w_positions w) = Some p" and "pos_action p = AddLiquidityAction"
  shows "\<exists>w'. ireach (handle env) (is_execution caps pid) w (w', [Done (), Done ()]) \<and>
     count_if (funds pid) (w_trail w') = count_if (funds pid) (w_trail w) + 2"
proof -
  let ?k = "count_if (funds pid) (w_trail w)"
  obtain rest where shape: "\<And>msg. msg \<noteq> [] \<Longrightarrow> executeSignedIntent pid msg =
      bindE (callE (GetPositionById pid) as_position_opt) (\<lambda>found. case found of None \<Rightarrow> throwE (PositionNotFoundError pid) | Some p \<Rightarrow>
      bindE (callE (GetLatestExecutionSession pid) as_session_opt) (\<lambda>found. case found of None \<Rightarrow> throwE (PositionNotFoundError pid) | Some s \<Rightarrow>
      rest p s))"
    and rest: "\<And>env V w p s k. reliable env \<Longrightarrow> represents env V w \<Longrightarrow> pos_id p = pid \<Longrightarrow> pos_action p = AddLiquidityAction \<Longrightarrow>
      ses_state s = AwaitingSignature \<Longrightarrow> life_position (V pid) \<noteq> None \<Longrightarrow> life_session (V pid) \<noteq> None \<Longrightarrow> funded pid False k w \<Longrightarrow>
      wpos env (rest p s) (\<lambda>_. funded pid True (Suc k)) w"
    using execute_reads [of pid] by blast
  let ?done = "\<lambda>_. Done ()"
  let ?job = "\<lambda>msg. bindP (executeSignedIntent pid msg) ?done"
  have jobs: "is_execution caps pid (?job m)" if "m \<noteq> []" for m using that by (auto simp: is_execution_def job_def)
  obtain s where s: "getLatestExecutionSession pid (w_sessions w) = Some s" "ses_state s = AwaitingSignature"
    using assms(2,3) by (auto simp: represents_def view_def)
  have p: "pos_id p = pid" "life_position (V pid) = Some (pos_state p)"
    using assms(2,4) by (auto simp: represents_def view_def getPositionById_def dest: find_by_SomeD)
  obtain w1 where w1: "handle env (GetPositionById pid) w = (Inr (RPositionOpt (Some p)), w1)" "represents env V w1"
    "w_sessions w1 = w_sessions w" "w_positions w1 = w_positions w" "w_trail w1 = GetPositionById pid # w_trail w"
    using reads_answer(1) [OF assms(1,2), of pid] assms(4) by auto
  obtain w2 where w2: "handle env (GetLatestExecutionSession pid) w1 = (Inr (RSessionOpt (Some s)), w2)" "represents env V w2"
    "w_sessions w2 = w_sessions w" "w_positions w2 = w_positions w" "w_trail w2 = GetLatestExecutionSession pid # w_trail w1"
    using reads_answer(2) [OF assms(1) w1(2), of pid] s(1) w1(3,4) by auto
  have k: "count_if (funds pid) (w_trail w2) = ?k" by (simp add: w1(5) w2(5))
  have "ireach (handle env) (is_execution caps pid) w (w, [] @ [?job ''m'', ?job ''m''])"
    by (rule ireach_admit_all [OF ireach.start]) (use jobs in auto)
  then have "ireach (handle env) (is_execution caps pid) w (w1, [?job ''m'', ?job ''m''][0 := bindP (bindE (callE (GetLatestExecutionSession pid) as_session_opt)
      (\<lambda>found. case found of None \<Rightarrow> throwE (PositionNotFoundError pid) | Some s \<Rightarrow> rest p s)) ?done])"
    by (intro ireach_call [where get = as_position_opt and x = "Some p" and f = "\<lambda>found. case found of None \<Rightarrow> throwE (PositionNotFoundError pid) | Some p \<Rightarrow>
        bindE (callE (GetLatestExecutionSession pid) as_session_opt) (\<lambda>found. case found of None \<Rightarrow> throwE (PositionNotFoundError pid) | Some s \<Rightarrow> rest p s)",
        OF _ _ _ w1(1), simplified option.case]) (simp_all add: shape)
  then have both: "ireach (handle env) (is_execution caps pid) w (w2, [bindP (rest p s) ?done, ?job ''m''])"
    using ireach_call [where i = 0 and get = as_session_opt and x = "Some s" and g = ?done and ts = "[_, ?job ''m'']" and
        f = "\<lambda>found. case found of None \<Rightarrow> throwE (PositionNotFoundError pid) | Some s \<Rightarrow> rest p s", OF _ _ _ w2(1)] by simp
  define w3 where "w3 = snd (run (handle env) (executeSignedIntent pid ''m'') w2)"
  have second: "ireach (handle env) (is_execution caps pid) w (w3, [bindP (rest p s) ?done, Done ()])"
    using ireach_run [OF both, of 1] by (simp add: w3_def run_bindP)
  have "wpos env (executeSignedIntent pid ''m'') (\<lambda>_. funded pid True (Suc ?k)) w2"
  proof -
    obtain w4 where w4: "handle env (GetPositionById pid) w2 = (Inr (RPositionOpt (Some p)), w4)" "represents env V w4"
      "w_sessions w4 = w_sessions w" "w_positions w4 = w_positions w" "w_trail w4 = GetPositionById pid # w_trail w2"
      using reads_answer(1) [OF assms(1) w2(2), of pid] w2(3,4) assms(4) by auto
    obtain w5 where w5: "handle env (GetLatestExecutionSession pid) w4 = (Inr (RSessionOpt (Some s)), w5)" "represents env V w5"
      "w_trail w5 = GetLatestExecutionSession pid # w_trail w4"
      using reads_answer(2) [OF assms(1) w4(2), of pid] s(1) w4(3) by auto
    have "wpos env (rest p s) (\<lambda>_. funded pid True (Suc ?k)) w5"
      using rest [OF assms(1) w5(2) p(1) assms(5) s(2) _ _ one_more [OF w5(2)]] p(2) assms(3) k by (simp add: w4(5) w5(3))
    then show ?thesis
      by (subst shape, simp, intro wp_bindE wp_callE) (auto simp: w4(1) w5(1) intro!: wp_bindE wp_callE)
  qed
  then have count: "count_if (funds pid) (w_trail w3) = Suc ?k" by (simp add: wp_def w3_def funded_def)
  obtain V' where V': "represents env V' w3" "life_position (V' pid) \<noteq> None" "life_session (V' pid) \<noteq> None"
  proof -
    have "wpos env (executeSignedIntent pid ''m'') (refines env (Execute pid ''m'') V) w2"
      by (rule executeSignedIntent_refines [OF assms(1) w2(2)])
    then obtain v V' where "life_step (Execute pid ''m'') V v V'" "represents env V' w3" by (auto simp: wp_def refines_def w3_def)
    then show ?thesis using that [of V'] p(2) assms(3) by (auto simp: moved_def elim: life_step.cases)
  qed
  have "wpos env (rest p s) (\<lambda>_. funded pid True (Suc (Suc ?k))) w3"
    using rest [OF assms(1) V'(1) p(1) assms(5) s(2) V'(2,3) one_more [OF V'(1)]] count by simp
  then have "count_if (funds pid) (w_trail (snd (run (handle env) (rest p s) w3))) = ?k + 2" by (simp add: wp_def funded_def)
  moreover have "ireach (handle env) (is_execution caps pid) w (snd (run (handle env) (rest p s) w3), [Done (), Done ()])"
    using ireach_run [OF second, of 0] by (simp add: run_bindP)
  ultimately show ?thesis by blast
qed

definition drafted_once :: pworld where
  "drafted_once = play DEFAULT_BETA_CAPS calm [Request (CreateDraft sample_draft)] empty_world"

definition draft_facts :: "pworld \<Rightarrow> ExecutionState option \<times> PositionAction option \<times> nat" where
  "draft_facts w = (life_session (view w ''aa''), map_option pos_action (getPositionById ''aa'' (w_positions w)), count_if (funds ''aa'') (w_trail w))"

theorem overlapping_executions_fund_twice_witness:
  "\<exists>w'. ireach (handle calm) (is_execution DEFAULT_BETA_CAPS ''aa'') drafted_once (w', [Done (), Done ()]) \<and>
     count_if (funds ''aa'') (w_trail w') = 2"
proof -
  have facts: "draft_facts drafted_once = (Some AwaitingSignature, Some AddLiquidityAction, 0)" by code_simp
  then obtain p where p: "getPositionById ''aa'' (w_positions drafted_once) = Some p" "pos_action p = AddLiquidityAction"
    by (auto simp: draft_facts_def)
  have "represents calm (view drafted_once) drafted_once"
    unfolding drafted_once_def
    using play_settled [OF calm_reliable represents_empty settled_empty, of DEFAULT_BETA_CAPS "[Request (CreateDraft sample_draft)]"] by (auto simp: represents_def)
  then show ?thesis
    using overlapping_executions_fund_twice [OF calm_reliable _ _ p, of "view drafted_once" DEFAULT_BETA_CAPS] facts by (simp add: draft_facts_def numeral_2_eq_2)
qed

end
