(* ===== verification/PositionOutcomes.thy ===== *)
theory PositionOutcomes imports PositionSafety begin

text \<open>
  What single requests return and leave behind: failure guidance, the beta caps, and the
  activation of an executed position.
\<close>

section \<open>Failures carry guidance\<close>

text \<open>The two calls of a request that leave the service, in their order.\<close>

definition prepares :: "request \<Rightarrow> pcall \<Rightarrow> bool" where
  "prepares req c \<longleftrightarrow>
     (case (req, c) of
        (Execute pid msg, PrepareFunding a b d e f) \<Rightarrow> True
      | (Claim pid, PrepareExit a b d) \<Rightarrow> True
      | (WithdrawAndClose pid, PrepareExit a b d) \<Rightarrow> True
      | _ \<Rightarrow> False)"

definition submits :: "request \<Rightarrow> pcall \<Rightarrow> bool" where
  "submits req c \<longleftrightarrow>
     (case (req, c) of
        (Execute pid msg, AddLiquidity a b) \<Rightarrow> True
      | (Claim pid, ClaimFees a b) \<Rightarrow> True
      | (WithdrawAndClose pid, WithdrawClose a b) \<Rightarrow> True
      | _ \<Rightarrow> False)"

text \<open>The stage a failed answer must name, by whether the venue was asked.\<close>

definition stage_reached :: "request \<Rightarrow> pcall list \<Rightarrow> FailureStage option" where
  "stage_reached req calls =
     (let asked = (\<exists>c \<in> set calls. submits req c) in
      case req of
        Execute pid msg \<Rightarrow> Some (if asked then FundingPartial else PreFunding)
      | Claim pid \<Rightarrow> Some (if asked then VenueConfirmation else VenueSubmission)
      | WithdrawAndClose pid \<Rightarrow> Some (if asked then VenueConfirmation else VenueSubmission)
      | _ \<Rightarrow> None)"

text \<open>An answer against the calls the request has made since the world it found.\<close>

definition guided :: "request \<Rightarrow> pworld \<Rightarrow> perr + PositionResponse \<Rightarrow> pworld \<Rightarrow> bool" where
  "guided req w0 r w \<longleftrightarrow> (case r of Inl e \<Rightarrow> True | Inr resp \<Rightarrow>
     ps_state (resp_position resp) = Failed \<longrightarrow>
       (\<exists>calls stage. w_trail w = calls @ w_trail w0 \<and> stage_reached req calls = Some stage \<and> (\<exists>c \<in> set calls. prepares req c) \<and>
          ss_state (resp_session resp) = Failed \<and> ss_failureStage (resp_session resp) = Some stage \<and>
          resp_recovery resp = Some (recoveryCatalog stage)))"

text \<open>How far a request has come: before the preparation, after it, after the venue was asked.\<close>

definition come :: "request \<Rightarrow> pworld \<Rightarrow> nat \<Rightarrow> pworld \<Rightarrow> bool" where
  "come req w0 n w \<longleftrightarrow>
     (\<exists>calls. w_trail w = calls @ w_trail w0 \<and> ((\<exists>c \<in> set calls. submits req c) \<longleftrightarrow> n = 2) \<and> (0 < n \<longrightarrow> (\<exists>c \<in> set calls. prepares req c)))"

lemma come_start: "come req w 0 w"
  by (auto simp: come_def intro: exI [of _ "[]"])

lemma come_call:
  assumes "come req w0 n w" and "handle env c w = (r, w')" and "\<not> submits req c"
  shows "come req w0 (if n = 0 \<and> prepares req c then 1 else n) w'"
proof -
  obtain calls where "w_trail w = calls @ w_trail w0" "(\<exists>c \<in> set calls. submits req c) \<longleftrightarrow> n = 2" "0 < n \<longrightarrow> (\<exists>c \<in> set calls. prepares req c)"
    using assms(1) by (auto simp: come_def)
  then show ?thesis
    using assms(2,3) handle_trail [of env c w] by (auto simp: come_def intro!: exI [of _ "c # calls"])
qed

lemma come_submit: "come req w0 1 w \<Longrightarrow> handle env c w = (r, w') \<Longrightarrow> submits req c \<Longrightarrow> come req w0 2 w'"
  using handle_trail [of env c w] by (fastforce simp: come_def intro: exI [of _ "c # _"])

lemma come_run: "makes_only (\<lambda>c. \<not> submits req c \<and> \<not> prepares req c) p \<Longrightarrow> come req w0 n w \<Longrightarrow> come req w0 n (snd (run (handle env) p w))"
proof (induction p arbitrary: w)
  case (Call c k)
  obtain r w' where h: "handle env c w = (r, w')" by (cases "handle env c w")
  have "come req w0 n w'" using come_call [OF Call.prems(2) h] Call.prems(1) by simp
  with Call h show ?case by (auto simp: range_eqI)
qed simp

text \<open>Rules for the next statement of a program.\<close>

lemma on_call:
  assumes "come req w0 n w" and "\<not> submits req c \<and> \<not> prepares req c"
    and "\<And>a x w'. handle env c w = (Inr a, w') \<Longrightarrow> get a = Some x \<Longrightarrow> come req w0 n w' \<Longrightarrow> wpos env (f x) Q w'" and "\<And>e w'. Q (Inl e) w'"
  shows "wpos env (bindE (callE c get) f) Q w"
  using assms come_call [OF assms(1), of env c] by (intro wp_bindE wp_callE) auto

lemma on_bind:
  assumes "come req w0 n w" and "makes_only (\<lambda>c. \<not> submits req c \<and> \<not> prepares req c) p"
    and "\<And>x w'. come req w0 n w' \<Longrightarrow> wpos env (f x) Q w'" and "\<And>e w'. Q (Inl e) w'"
  shows "wpos env (bindE p f) Q w"
  using assms(3,4) come_run [OF assms(2,1), of env]
  by (intro wp_bindE) (auto simp: wp_def [of _ p] split: sum.splits)

lemma on_prepare:
  assumes "come req w0 0 w" and "prepares req c" and "\<not> submits req c"
    and "\<And>x w'. come req w0 1 w' \<Longrightarrow> wpos env (f x) Q w'" and "\<And>e w'. come req w0 1 w' \<Longrightarrow> wpos env (g e) Q w'"
  shows "wpos env (attemptE (callE c get) g f) Q w"
  using assms(4,5) come_call [OF assms(1) _ assms(3), of env] assms(2) by (intro wp_attemptE wp_callE) auto

lemma on_submit:
  assumes "come req w0 1 w" and "submits req c"
    and "\<And>x w'. come req w0 2 w' \<Longrightarrow> wpos env (f x) Q w'" and "\<And>e w'. come req w0 2 w' \<Longrightarrow> wpos env (g e) Q w'"
  shows "wpos env (attemptE (callE c get) g f) Q w"
  using assms(3,4) come_submit [OF assms(1) _ assms(2), of env] by (intro wp_attemptE wp_callE) auto

lemma update_position_answer:
  "handle env (UpdatePositionState pid st) w = (Inr a, w') \<Longrightarrow> as_position a = Some p \<Longrightarrow> pos_state p = st"
  by (auto simp: handle_def Let_def updatePositionState_def set_position_state_def split: option.splits fault.splits)

lemma update_session_answer:
  "handle env (UpdateExecutionSession pid st stage) w = (Inr a, w') \<Longrightarrow> as_session a = Some s
     \<Longrightarrow> ses_state s = st \<and> ses_failureStage s = stage"
  by (auto simp: handle_def Let_def updateExecutionSession_def set_session_state_def split: option.splits fault.splits)

lemma create_position_answer:
  "handle env (CreatePosition inp) w = (Inr a, w') \<Longrightarrow> as_position a = Some p \<Longrightarrow> pos_state p = cp_state inp"
  by (auto simp: handle_def Let_def createPosition_def new_position_def split: option.splits fault.splits if_splits)

lemma neither [simp]:
  "\<not> submits req RandomUUID" "\<not> prepares req RandomUUID" "\<not> submits req (GetPositionById p)" "\<not> prepares req (GetPositionById p)"
  "\<not> submits req (GetLatestExecutionSession p)" "\<not> prepares req (GetLatestExecutionSession p)"
  "\<not> submits req (UpdatePositionState p st)" "\<not> prepares req (UpdatePositionState p st)"
  "\<not> submits req (UpdateExecutionSession p st sg)" "\<not> prepares req (UpdateExecutionSession p st sg)"
  "\<not> submits req (CreateActivity a p ac st h d n)" "\<not> prepares req (CreateActivity a p ac st h d n)"
  "\<not> submits req (ListActivities p)" "\<not> prepares req (ListActivities p)"
  "\<not> submits req (StartSaveReconciliation p t)" "\<not> prepares req (StartSaveReconciliation p t)"
  "\<not> submits req (CreatePosition inp)" "\<not> prepares req (CreatePosition inp)"
  "\<not> submits req (CreateExecutionSession i p st sg)" "\<not> prepares req (CreateExecutionSession i p st sg)"
  "\<not> submits req (CountActiveByWallet wl)" "\<not> prepares req (CountActiveByWallet wl)"
  "\<not> submits req SumActiveAmountSol" "\<not> prepares req SumActiveAmountSol"
  by (cases req; simp add: submits_def prepares_def)+

lemma on_update_position:
  assumes "come req w0 n w" and "\<And>p w'. come req w0 n w' \<Longrightarrow> pos_state p = st \<Longrightarrow> wpos env (f p) Q w'" and "\<And>e w'. Q (Inl e) w'"
  shows "wpos env (bindE (callE (UpdatePositionState pid st) as_position) f) Q w"
  using assms by (intro on_call [OF assms(1)]) (auto dest: update_position_answer)

lemma on_update_session:
  assumes "come req w0 n w" and "\<And>s w'. come req w0 n w' \<Longrightarrow> ses_state s = st \<Longrightarrow> ses_failureStage s = stage \<Longrightarrow> wpos env (f s) Q w'"
    and "\<And>e w'. Q (Inl e) w'"
  shows "wpos env (bindE (callE (UpdateExecutionSession pid st stage) as_session) f) Q w"
  using assms by (intro on_call [OF assms(1)]) (auto dest: update_session_answer)

lemma on_create_position:
  assumes "come req w0 n w" and "\<And>p w'. come req w0 n w' \<Longrightarrow> pos_state p = cp_state inp \<Longrightarrow> wpos env (f p) Q w'" and "\<And>e w'. Q (Inl e) w'"
  shows "wpos env (bindE (callE (CreatePosition inp) as_position) f) Q w"
  using assms by (intro on_call [OF assms(1)]) (auto dest: create_position_answer)

lemma guided_Inl [simp]: "guided req w0 (Inl e) w"
  by (simp add: guided_def)

lemma guided_other: "pos_state p \<noteq> Failed \<Longrightarrow> guided req w0 (Inr (buildResponse p s acts)) w"
  by (simp add: guided_def)

lemma only_recordActivity [simp]: "makes_only (\<lambda>c. \<not> submits req c \<and> \<not> prepares req c) (recordActivity p st h d n)"
  by (rule makes_only_recordActivity) simp_all

lemma guided_failure:
  assumes "come req w0 n w" and "0 < n" and "\<And>calls. ((\<exists>c \<in> set calls. submits req c) \<longleftrightarrow> n = 2) \<Longrightarrow> stage_reached req calls = Some stage"
  shows "wpos env (recordFailure p stage e) (guided req w0) w"
  unfolding recordFailure_def Let_def
  apply (rule on_update_position [OF assms(1)])
   apply (rule on_update_session, assumption)
    apply (rule on_bind, assumption, simp)
     apply (rule on_bind, assumption, simp)
      apply (rule wp_returnE)
      apply (use assms(2,3) in \<open>auto simp: guided_def come_def buildResponse_def Let_def resolveRecovery_def serviceRecoveryGuidance_def getRecoveryGuidance_def\<close>)
  done

lemma only_start [simp]:
  "makes_only (\<lambda>c. \<not> submits req c \<and> \<not> prepares req c) (beginReconciliation p)"
  "makes_only (\<lambda>c. \<not> submits req c \<and> \<not> prepares req c) (registerSnapshot p t)"
  by (simp_all add: beginReconciliation_def registerSnapshot_def)

lemma only_caps [simp]: "makes_only (\<lambda>c. \<not> submits req c \<and> \<not> prepares req c) (assertBetaCaps caps inp)"
  by (auto simp: assertBetaCaps_def Let_def intro!: makes_only_bindE)

lemma only_active [simp]:
  "makes_only (\<lambda>c. \<not> submits req c \<and> \<not> prepares req c) (getActivePosition p)"
  "makes_only (\<lambda>c. \<not> submits req c \<and> \<not> prepares req c) (getLatestActiveSession p)"
  by (auto simp: getActivePosition_def getLatestActiveSession_def intro!: makes_only_bindE split: option.splits)

lemma wp_case_option:
  "(x = None \<Longrightarrow> wpos env p Q w) \<Longrightarrow> (\<And>a. x = Some a \<Longrightarrow> wpos env (f a) Q w) \<Longrightarrow> wpos env (case x of None \<Rightarrow> p | Some a \<Rightarrow> f a) Q w"
  by (cases x) auto

lemmas on_rules = on_update_position on_bind on_prepare on_submit guided_failure wp_case_option wp_returnE wp_throwE guided_other guided_Inl

lemma stage_calls [simp]:
  "prepares (Execute pid msg) (PrepareFunding a b d e f)" "\<not> submits (Execute pid msg) (PrepareFunding a b d e f)"
  "prepares (Claim pid) (PrepareExit a b md)" "\<not> submits (Claim pid) (PrepareExit a b md)"
  "prepares (WithdrawAndClose pid) (PrepareExit a b md)" "\<not> submits (WithdrawAndClose pid) (PrepareExit a b md)"
  "submits (Execute pid msg) (AddLiquidity a b)" "submits (Claim pid) (ClaimFees a b)" "submits (WithdrawAndClose pid) (WithdrawClose a b)"
  by (simp_all add: prepares_def submits_def)

lemma execute_guided: "come (Execute pid msg) w0 0 w \<Longrightarrow> wpos env (executeSignedIntent pid msg) (guided (Execute pid msg) w0) w"
  unfolding executeSignedIntent_def executionModeE_id bindE_returnE
  by (rule on_rules | assumption | simp add: stage_reached_def)+

lemma claim_guided: "come (Claim pid) w0 0 w \<Longrightarrow> wpos env (claimPosition pid) (guided (Claim pid) w0) w"
  unfolding claimPosition_def executionModeE_id bindE_returnE
  by (rule on_rules | assumption | simp add: stage_reached_def)+

lemma withdraw_guided: "come (WithdrawAndClose pid) w0 0 w \<Longrightarrow> wpos env (withdrawClosePosition pid) (guided (WithdrawAndClose pid) w0) w"
  unfolding withdrawClosePosition_def executionModeE_id bindE_returnE
  by (rule on_rules | assumption | simp add: stage_reached_def)+

lemma draft_guided: "come (CreateDraft inp) w0 0 w \<Longrightarrow> wpos env (createDraftPositionIntent caps inp) (guided (CreateDraft inp) w0) w"
  unfolding createDraftPositionIntent_def
  by (rule on_create_position on_rules | assumption | simp)+

text \<open>
  C18.  Errors: whatever the environment does, when an execution, a claim or a withdrawal answers
  with a failed position, it had asked for its preparation, and the answer names the stage it
  reached: for an execution before funding if the venue was never asked to add liquidity and with funding
  partial if it was, for an exit the submission if the venue was never asked and the confirmation if it
  was.  The answer carries exactly the catalogued recovery guidance of that stage; a new draft never
  answers with a failed position.
\<close>

theorem failed_answers_carry_guidance:
  assumes "\<And>pid. req \<noteq> Read pid" and "run (handle env) (serve caps req) w = (r, w')"
  shows "guided req w r w'"
proof -
  have "wpos env (serve caps req) (guided req w) w"
    using assms(1) come_start draft_guided execute_guided claim_guided withdraw_guided by (cases req) auto
  then show ?thesis using assms(2) by (simp add: wp_def)
qed

text \<open>A draft, and an execution of it whose venue fails.\<close>

definition broken_venue :: penv where
  "broken_venue = calm\<lparr>env_venue := (\<lambda>n. Inl ''down'')\<rparr>"

definition drafted_world :: pworld where
  "drafted_world = snd (run (handle broken_venue) (serve DEFAULT_BETA_CAPS (CreateDraft sample_draft)) empty_world)"

definition broken_execution :: "(perr + PositionResponse) \<times> pworld" where
  "broken_execution = run (handle broken_venue) (serve DEFAULT_BETA_CAPS (Execute ''aa'' ''m'')) drafted_world"

lemma broken_execution_fails:
  "case fst broken_execution of Inl e \<Rightarrow> False | Inr resp \<Rightarrow>
     ps_state (resp_position resp) = Failed \<and> ss_failureStage (resp_session resp) = Some FundingPartial"
  by code_simp

theorem failed_answers_carry_guidance_witness:
  "\<exists>resp. fst broken_execution = Inr resp \<and> ps_state (resp_position resp) = Failed \<and>
     resp_recovery resp = Some (recoveryCatalog FundingPartial)"
proof -
  obtain resp where resp: "fst broken_execution = Inr resp" "ps_state (resp_position resp) = Failed"
    "ss_failureStage (resp_session resp) = Some FundingPartial"
    using broken_execution_fails by (auto split: sum.splits)
  have "guided (Execute ''aa'' ''m'') drafted_world (fst broken_execution) (snd broken_execution)"
    by (rule failed_answers_carry_guidance [where env = broken_venue and caps = DEFAULT_BETA_CAPS]) (simp_all add: broken_execution_def)
  then show ?thesis using resp by (auto simp: guided_def)
qed

section \<open>Beta caps\<close>

lemma kept_call:
  assumes "w_positions w = ps" and "\<not> writes_position c"
    and "\<And>a x w'. handle env c w = (Inr a, w') \<Longrightarrow> get a = Some x \<Longrightarrow> w_positions w' = ps \<Longrightarrow> wpos env (f x) Q w'"
    and "\<And>e w'. Q (Inl e) w'"
  shows "wpos env (bindE (callE c get) f) Q w"
  using assms(3,4) handle_positions [OF assms(2), of env w] assms(1)
  by (intro wp_bindE wp_callE) auto

lemma count_answer:
  "handle env (CountActiveByWallet wallet) w = (Inr a, w') \<Longrightarrow> as_count a = Some n
     \<Longrightarrow> n = countActiveByWallet wallet (w_positions w)"
  by (auto simp: handle_def Let_def split: option.splits fault.splits)

lemma sum_answer:
  "handle env SumActiveAmountSol w = (Inr a, w') \<Longrightarrow> as_num a = Some x \<Longrightarrow> x = sumActiveAmountSol (w_positions w)"
  by (auto simp: handle_def Let_def split: option.splits fault.splits)

definition within_caps :: "BetaCapsConfig \<Rightarrow> CreateDraftPositionIntentInput \<Rightarrow> PositionRow list \<Rightarrow> bool" where
  "within_caps caps inp ps \<longleftrightarrow>
     (let x = number_of_string (dr_amount inp) in
      js_isFinite x \<and> js_gt x (Fin 0) \<and> \<not> js_gt x (maxPositionSol caps) \<and>
      \<not> js_ge (Fin (of_nat (countActiveByWallet (dr_wallet inp) ps))) (maxPositionsPerWallet caps) \<and>
      \<not> js_gt (js_add (sumActiveAmountSol ps) x) (maxGlobalTvlSol caps))"

lemma caps_checked:
  assumes "w_positions w = ps"
    and "\<And>w'. w_positions w' = ps \<Longrightarrow> within_caps caps inp ps \<Longrightarrow> wpos env (f ()) Q w'"
    and "\<And>e w'. Q (Inl e) w'"
  shows "wpos env (bindE (assertBetaCaps caps inp) f) Q w"
proof -
  have "wpos env (assertBetaCaps caps inp)
      (\<lambda>r w'. case r of Inl e \<Rightarrow> True | Inr u \<Rightarrow> w_positions w' = ps \<and> within_caps caps inp ps) w"
    unfolding assertBetaCaps_def Let_def
    apply (rule seq_guard)
     apply (rule seq_guard)
      apply (rule kept_call [OF assms(1)], simp)
       apply (rule kept_call, assumption, simp)
        apply (drule (1) count_answer, drule (1) sum_answer)
        apply (rule seq_guard)
         apply (rule wp_guardE)
          apply (simp_all add: within_caps_def assms(1))
    done
  then show ?thesis
    by (intro wp_bindE, elim wp_mono) (auto split: sum.splits intro: assms(2,3))
qed


definition draft_row :: "CreateDraftPositionIntentInput \<Rightarrow> PositionRow \<Rightarrow> bool" where
  "draft_row inp r \<longleftrightarrow> pos_wallet r = dr_wallet inp \<and> pos_amount r = dr_amount inp \<and> pos_state r = Draft"

lemma create_appends:
  assumes "handle env (CreatePosition inp) w = (Inr a, w')"
  shows "\<exists>now. w_positions w' = w_positions w @ [new_position now inp]"
  using assms by (auto simp: handle_def Let_def createPosition_def split: option.splits fault.splits if_splits)

lemma kept_uuid:
  assumes "w_positions w = ps" and "\<And>t w'. w_positions w' = ps \<Longrightarrow> wpos env (f t) Q w'" and "\<And>e w'. Q (Inl e) w'"
  shows "wpos env (bindE (callE RandomUUID as_text) f) Q w"
  by (rule kept_call [OF assms(1)]) (simp_all add: assms)

lemma kept_create:
  assumes "w_positions w = ps"
    and "\<And>now p w'. w_positions w' = ps @ [new_position now inp] \<Longrightarrow> wpos env (f p) Q w'" and "\<And>e w'. Q (Inl e) w'"
  shows "wpos env (bindE (callE (CreatePosition inp) as_position) f) Q w"
  using assms by (intro wp_bindE wp_callE) (auto dest: create_appends)

lemma kept_last:
  assumes "w_positions w = ps" and "\<not> writes_position c"
  shows "wpos env (callE c get) (\<lambda>r w'. isl r \<or> w_positions w' = ps) w"
  using handle_positions [OF assms(2), of env w] assms(1) by (intro wp_callE) auto

lemma kept_record:
  assumes "w_positions w = ps" and "\<And>a w'. w_positions w' = ps \<Longrightarrow> wpos env (f a) Q w'" and "\<And>e w'. Q (Inl e) w'"
  shows "wpos env (bindE (recordActivity p st h d n) f) Q w"
proof -
  have "wpos env (recordActivity p st h d n) (\<lambda>r w'. isl r \<or> w_positions w' = ps) w"
    unfolding recordActivity_def
    by (rule kept_uuid [OF assms(1)], rule kept_last) simp_all
  then show ?thesis
    by (intro wp_bindE, elim wp_mono) (auto split: sum.splits intro: assms(2,3))
qed

lemma draft_accepted:
  "wpos env (createDraftPositionIntent caps inp) (\<lambda>r w'. isl r \<or>
     within_caps caps inp (w_positions w) \<and> (\<exists>row. draft_row inp row \<and> w_positions w' = w_positions w @ [row])) w"
  unfolding createDraftPositionIntent_def
  apply (rule seq_guard)
   apply (rule caps_checked [OF refl])
    apply (rule kept_uuid, assumption)+
       apply (rule kept_create, assumption)
        apply (rule kept_call, assumption, simp)
         apply (rule kept_record, assumption)
          apply (rule wp_returnE)
          apply (auto simp: draft_row_def new_position_def)
  done

text \<open>
  C19.  Bounds: a draft is accepted only within the three caps, read off the tables the request
  found (whatever faults the request met): its amount is a finite positive number not above the
  per-position cap, its wallet holds fewer live positions than the per-wallet cap, and the live
  total with the new amount is not above the global cap.  The accepted draft raises the wallet's
  count by one and the live total by exactly its amount, and leaves every other wallet's count.
\<close>

theorem accepted_draft_within_caps:
  assumes "run (handle env) (createDraftPositionIntent caps inp) w = (Inr resp, w')"
  shows "within_caps caps inp (w_positions w) \<and>
    sumActiveAmountSol (w_positions w') = js_add (sumActiveAmountSol (w_positions w)) (number_of_string (dr_amount inp)) \<and>
    (\<forall>wallet. countActiveByWallet wallet (w_positions w') =
       (if wallet = dr_wallet inp then 1 else 0) + countActiveByWallet wallet (w_positions w))"
proof -
  obtain row where caps: "within_caps caps inp (w_positions w)" and row: "draft_row inp row"
    and w': "w_positions w' = w_positions w @ [row]"
    using draft_accepted [of env caps inp w] assms by (auto simp: wp_def)
  have live: "\<not> terminal row" using row by (simp add: terminal_def TERMINAL_POSITION_STATES_def draft_row_def)
  have "\<forall>wallet. countActiveByWallet wallet (w_positions w') =
      (if wallet = dr_wallet inp then 1 else 0) + countActiveByWallet wallet (w_positions w)"
    using row live by (auto simp: countActiveByWallet_def w' draft_row_def)
  moreover have "sumActiveAmountSol (w_positions w') =
      js_add (sumActiveAmountSol (w_positions w)) (number_of_string (dr_amount inp))"
    using row live caps by (simp add: sumActiveAmountSol_def w' add_amount_def draft_row_def within_caps_def Let_def)
  ultimately show ?thesis using caps by blast
qed

lemma sample_draft_accepted:
  "\<not> isl (fst (run (handle calm) (createDraftPositionIntent DEFAULT_BETA_CAPS sample_draft) empty_world))"
  by code_simp

theorem accepted_draft_within_caps_witness:
  "within_caps DEFAULT_BETA_CAPS sample_draft (w_positions empty_world)"
proof -
  obtain resp w' where "run (handle calm) (createDraftPositionIntent DEFAULT_BETA_CAPS sample_draft) empty_world = (Inr resp, w')"
    using sample_draft_accepted
    by (cases "run (handle calm) (createDraftPositionIntent DEFAULT_BETA_CAPS sample_draft) empty_world"; cases "fst (run (handle calm) (createDraftPositionIntent DEFAULT_BETA_CAPS sample_draft) empty_world)") auto
  from accepted_draft_within_caps [OF this] show ?thesis by blast
qed

section \<open>Caps under overlap\<close>

definition overlapping_drafts :: "event list" where
  "overlapping_drafts = replicate 2 (Request (CreateDraft sample_draft))"

definition one_each :: BetaCapsConfig where
  "one_each = DEFAULT_BETA_CAPS\<lparr>maxPositionsPerWallet := Fin 1\<rparr>"

definition draft_schedule :: "nat list" where
  "draft_schedule = [0, 0, 1, 1] @ replicate 7 0 @ replicate 7 1"

definition draft_run :: "pworld \<times> (pcall, perr + presp, unit) prog list" where
  "draft_run = run_schedule (handle calm) draft_schedule (empty_world, map (job one_each) overlapping_drafts)"

lemma draft_run_reachable: "ireach (handle calm) (is_job one_each) empty_world (fst draft_run, snd draft_run)"
proof -
  have "ireach (handle calm) (is_job one_each) empty_world (empty_world, [] @ map (job one_each) overlapping_drafts)"
    by (rule ireach_admit_all [OF ireach.start]) (auto simp: is_job_def)
  then show ?thesis
    unfolding draft_run_def prod.collapse append_Nil
    by (rule ireach_run_schedule) (auto simp: draft_schedule_def overlapping_drafts_def)
qed

text \<open>
  The caps are checked before the row is written, in separate queries: two drafts of one
  wallet that overlap are both accepted under a cap of one position per wallet.
\<close>

theorem overlapping_drafts_exceed_cap:
  "\<exists>w ts. ireach (handle calm) (is_job one_each) empty_world (w, ts) \<and>
     maxPositionsPerWallet one_each = Fin 1 \<and> countActiveByWallet ''w'' (w_positions w) = 2"
proof -
  have "countActiveByWallet ''w'' (w_positions (fst draft_run)) = 2" by code_simp
  moreover have "maxPositionsPerWallet one_each = Fin 1" by (simp add: one_each_def)
  ultimately show ?thesis using draft_run_reachable by blast
qed

end
