(* ===== verification/PositionReconcile.thy ===== *)
theory PositionReconcile imports PositionSafety begin

text \<open>
  The end of an execution: the reconciliation record decides whether a read activates the
  position.
\<close>

section \<open>The reconciliation record\<close>

definition stored :: "string \<Rightarrow> string option option \<Rightarrow> pworld \<Rightarrow> bool" where
  "stored pid x w \<longleftrightarrow> w_unsaved w = [] \<and> w_recs w pid = x"

fun keeps_record :: "string \<Rightarrow> pcall \<Rightarrow> bool" where
  "keeps_record pid (StartSaveReconciliation q s) = False"
| "keeps_record pid (SaveReconciliation q s) = (q \<noteq> pid)"
| "keeps_record pid (ClearReconciliation q) = (q \<noteq> pid)"
| "keeps_record pid c = True"

lemma flush_nothing: "w_unsaved w = [] \<Longrightarrow> flush is w = w"
  by (induction "is" w rule: flush.induct) auto

lemma stored_before: "stored pid x w \<Longrightarrow> stored pid x (before_call env c w)"
  by (simp add: stored_def before_call_def flush_nothing)

lemma exec_stored: "stored pid x w \<Longrightarrow> keeps_record pid c \<Longrightarrow> stored pid x (snd (exec_call env n c w))"
  by (cases c) (auto simp: stored_def store_update_defs split: option.splits)

lemma handle_stored: "stored pid x w \<Longrightarrow> keeps_record pid c \<Longrightarrow> stored pid x (snd (handle env c w))"
  using exec_stored [of pid x "before_call env c w" c env "length (w_trail w)"] stored_before [of pid x w env c]
  by (auto simp: handle_def Let_def stored_def split: option.splits fault.splits)

interpretation reconciliation: guarded_world "handle env" "stored pid x" "keeps_record pid" for env pid x
  by unfold_locales (rule handle_stored)

lemma record_call:
  assumes "reliable env" and "represents env V w" and "stored pid x w" and "\<not> writes c" and "keeps_record pid c"
    and "\<And>a w'. handle env c w = (Inr a, w') \<Longrightarrow> represents env V w' \<Longrightarrow> stored pid x w' \<Longrightarrow>
           \<exists>y. get a = Some y \<and> wpos env (f y) Q w'"
    and "\<not> isl (fst (handle env c w))"
  shows "wpos env (bindE (callE c get) f) Q w"
proof -
  obtain a w' where h: "handle env c w = (Inr a, w')"
    using assms(7) by (cases "handle env c w"; cases "fst (handle env c w)") auto
  have "represents env V w'" using represents_quiet [OF assms(2,4)] h by simp
  moreover have "stored pid x w'" using handle_stored [OF assms(3,5), where env = env] h by simp
  ultimately show ?thesis using assms(6) [OF h] h by (auto intro!: wp_bindE wp_callE)
qed


text \<open>What \<open>reconcile\<close> decides on a stored record.\<close>

definition has_signature :: "string option option \<Rightarrow> bool" where
  "has_signature x \<longleftrightarrow> (case x of Some (Some sig) \<Rightarrow> sig \<noteq> [] | _ \<Rightarrow> False)"

lemma seq_reconcile_decides:
  assumes "reliable env" and "represents env V w" and "stored pid x w"
    and "\<And>r w'. represents env V w' \<Longrightarrow> rr_state r = NowActive \<Longrightarrow> has_signature x \<Longrightarrow> wpos env (f r) Q w'"
    and "\<And>r w'. represents env V w' \<Longrightarrow> stored pid x w' \<Longrightarrow> rr_state r = StillIndexing \<Longrightarrow> \<not> has_signature x
           \<Longrightarrow> wpos env (f r) Q w'"
  shows "wpos env (bindE (reconcile pid) f) Q w"
proof -
  have "wpos env (reconcile pid) (\<lambda>r w'. represents env V w' \<and>
      (case r of Inl e \<Rightarrow> False
       | Inr y \<Rightarrow> if has_signature x then rr_state y = NowActive else rr_state y = StillIndexing \<and> stored pid x w')) w"
    unfolding reconcile_def
  proof (rule record_call [OF assms(1-3)])
    fix a w' assume h: "handle env (LoadReconciliation pid) w = (Inr a, w')" and r: "represents env V w'" "stored pid x w'"
    have a: "a = RReconciliation x"
      using h stored_before [OF assms(3)] by (auto simp: handle_reliable [OF assms(1)] stored_def)
    have "represents env V (snd (handle env (ClearReconciliation pid) w'))"
      by (rule represents_quiet [OF r(1)]) simp
    then show "\<exists>y. as_rec a = Some y \<and>
      wpos env
       (if case y of Some (Some sig) \<Rightarrow> sig = [] | _ \<Rightarrow> True
        then returnE \<lparr>rr_state = StillIndexing, rr_statusLabel = ''Execution delayed'', rr_nextStep = Refresh\<rparr>
        else bindE (callE (ClearReconciliation pid) as_unit)
              (\<lambda>_. returnE \<lparr>rr_state = NowActive, rr_statusLabel = ''Position active'', rr_nextStep = Wait\<rparr>))
       (\<lambda>r w'. represents env V w' \<and>
          (case r of Inl e \<Rightarrow> False
           | Inr y \<Rightarrow> if has_signature x then rr_state y = NowActive else rr_state y = StillIndexing \<and> stored pid x w')) w'"
      using r by (auto simp: a has_signature_def handle_reliable [OF assms(1)]
          intro!: wp_returnE wp_bindE wp_callE split: option.splits)
  qed (simp_all add: handle_reliable [OF assms(1)])
  then show ?thesis
    by (intro wp_bindE, elim wp_mono) (auto split: sum.splits if_splits intro: assms(4,5))
qed

text \<open>One read of a position whose session is in indexing.\<close>

definition read_outcome :: "penv \<Rightarrow> lives \<Rightarrow> string \<Rightarrow> bool \<Rightarrow> perr + PositionResponse \<Rightarrow> pworld \<Rightarrow> bool" where
  "read_outcome env V pid signed r w' \<longleftrightarrow>
     (if signed then verdict_of r = Answered Active \<and> represents env (V(pid := moved [Active] (V pid))) w'
      else verdict_of r = Answered Indexing \<and>
        life_position (view w' pid) = Some Indexing \<and> life_session (view w' pid) = Some Indexing \<and>
        w_unsaved w' = [] \<and> \<not> has_signature (w_recs w' pid))"

lemma record_get_position:
  assumes "reliable env" and "represents env V w" and "stored pid x w" and "life_position (V pid) = Some st"
    and "\<And>p w'. represents env V w' \<Longrightarrow> stored pid x w' \<Longrightarrow> pos_id p = pid \<Longrightarrow> pos_state p = st
           \<Longrightarrow> wpos env (f (Some p)) Q w'"
  shows "wpos env (bindE (callE (GetPositionById pid) as_position_opt) f) Q w"
proof -
  obtain p where p: "getPositionById pid (w_positions w) = Some p" "pos_state p = st"
    using assms(2,4) by (auto simp: represents_def view_def)
  then have "pos_id p = pid" by (auto simp: getPositionById_def dest: find_by_SomeD)
  then show ?thesis
    using p assms(5)
    by (intro record_call [OF assms(1-3)]) (auto simp: handle_reliable [OF assms(1)])
qed

lemma record_get_session:
  assumes "reliable env" and "represents env V w" and "stored pid x w" and "life_session (V pid) = Some st"
    and "\<And>s w'. represents env V w' \<Longrightarrow> stored pid x w' \<Longrightarrow> ses_state s = st \<Longrightarrow> wpos env (f (Some s)) Q w'"
  shows "wpos env (bindE (callE (GetLatestExecutionSession pid) as_session_opt) f) Q w"
proof -
  obtain s where s: "getLatestExecutionSession pid (w_sessions w) = Some s" "ses_state s = st"
    using assms(2,4) by (auto simp: represents_def view_def)
  then show ?thesis
    using assms(5) by (intro record_call [OF assms(1-3)]) (auto simp: handle_reliable [OF assms(1)])
qed

lemma record_list:
  assumes "reliable env" and "represents env V w" and "stored pid x w"
    and "\<And>l w'. represents env V w' \<Longrightarrow> stored pid x w' \<Longrightarrow> wpos env (f l) Q w'"
  shows "wpos env (bindE (listActivitiesE q) f) Q w"
  unfolding listActivitiesE_def
  using assms(4) by (intro record_call [OF assms(1-3)]) (auto simp: handle_reliable [OF assms(1)])

lemma record_record:
  assumes "reliable env" and "represents env V w" and "stored pid x w" and "life_position (V (pos_id p)) = Some a"
    and "\<And>r w'. represents env (V(pos_id p := (V (pos_id p))\<lparr>life_log := life_log (V (pos_id p)) @ [st]\<rparr>)) w'
           \<Longrightarrow> stored pid x w' \<Longrightarrow> wpos env (f r) Q w'"
  shows "wpos env (bindE (recordActivity p st h d n) f) Q w"
proof -
  let ?p = "recordActivity p st h d n"
  have "makes_only (keeps_record pid) ?p" by (auto intro!: makes_only_recordActivity)
  then have "stored pid x (snd (run (handle env) ?p w))" by (rule reconciliation.run_keeps [OF _ assms(3)])
  then have "wpos env ?p (\<lambda>r w'. (\<exists>y. r = Inr y) \<and> stored pid x w' \<and>
      represents env (V(pos_id p := (V (pos_id p))\<lparr>life_log := life_log (V (pos_id p)) @ [st]\<rparr>)) w') w"
    using life_record_activity [OF assms(1,2) refl assms(4),
      where Q = "\<lambda>r w'. (\<exists>y. r = Inr y) \<and> represents env (V(pos_id p := (V (pos_id p))\<lparr>life_log := life_log (V (pos_id p)) @ [st]\<rparr>)) w'"]
    by (auto simp: wp_def)
  then show ?thesis
    by (intro wp_bindE, elim wp_mono) (auto intro: assms(5))
qed

lemma read_decides:
  assumes "reliable env" and "represents env V w" and "stored pid x w"
    and "life_position (V pid) = Some Indexing" and "life_session (V pid) = Some Indexing"
  shows "wpos env (getPosition pid) (read_outcome env V pid (has_signature x)) w"
  unfolding getPosition_def
  apply (rule record_get_position [OF assms(1-4)], simp only: option.case)
  apply (rule record_get_session [OF assms(1)], assumption, assumption, rule assms(5), simp only: option.case)
  apply (rule record_list [OF assms(1)], assumption, assumption)
  apply (rule wp_if, simp)
  apply (rule seq_reconcile_decides [OF assms(1)], assumption, assumption)
   apply (rule wp_if)
    prefer 2 apply simp
   apply (rule seq_update_position [OF assms(1)], assumption, rule assms(4))
   apply (rule seq_update_session [OF assms(1)], assumption, simp add: assms(5))
   apply (rule seq_record [OF assms(1)], assumption, simp)
   apply (rule seq_list [OF assms(1)], assumption)
   apply (rule seq_answer)
   apply (cases "V pid", simp add: read_outcome_def verdict_of_def moved_def)
  apply (rule wp_if, simp)
  apply (rule wp_if)
   apply (rule record_record [OF assms(1)], assumption, assumption, simp add: assms(4))
   apply (rule record_list [OF assms(1)], assumption, assumption)
   apply (rule seq_answer)
  using assms(4,5)
   apply (clarsimp simp: read_outcome_def verdict_of_def represents_def stored_def)
  using assms(4,5)
  apply (intro seq_answer)
  apply (clarsimp simp: read_outcome_def verdict_of_def represents_def stored_def)
  done

definition executed_history :: "event list" where
  "executed_history = [Request (CreateDraft sample_draft), Request (Execute ''aa'' ''m'')]"

text \<open>
  C37.  Liveness, when no call is lost: once the two reconciliation writes of an execution have
  reached the table in the order the code starts them, so that the record holds the signature and
  no write of a record is pending, the very next read of a position that is being indexed activates
  it: it answers Active and moves the row, the session and the log together.
\<close>

theorem signed_record_activates:
  assumes "reliable env" and "represents env V w"
    and "life_position (V pid) = Some Indexing" and "life_session (V pid) = Some Indexing"
    and "w_unsaved w = []" and "w_recs w pid = Some (Some sig)" and "sig \<noteq> []"
  shows "case run (handle env) (getPosition pid) w of
      (r, w') \<Rightarrow> verdict_of r = Answered Active \<and> represents env (V(pid := moved [Active] (V pid))) w'"
proof -
  have "stored pid (Some (Some sig)) w" "has_signature (Some (Some sig))"
    using assms(5-7) by (simp_all add: stored_def has_signature_def)
  then show ?thesis
    using read_decides [OF assms(1,2) _ assms(3,4), of "Some (Some sig)"]
    by (simp add: wp_def read_outcome_def case_prod_beta)
qed


text \<open>What the two theorems below read of a world: unsaved writes, record, position, session.\<close>

definition record_facts :: "pworld \<Rightarrow> bool \<times> string option option \<times> ExecutionState option \<times> ExecutionState option" where
  "record_facts w = (w_unsaved w = [], w_recs w ''aa'', life_position (view w ''aa''), life_session (view w ''aa''))"

definition ready_world :: pworld where
  "ready_world = play DEFAULT_BETA_CAPS calm executed_history empty_world"

lemma ready_world_facts:
  "w_unsaved ready_world = [] \<and> w_recs ready_world ''aa'' = Some (Some ''sig'') \<and>
     life_position (view ready_world ''aa'') = Some Indexing \<and> life_session (view ready_world ''aa'') = Some Indexing"
proof -
  have "record_facts ready_world = (True, Some (Some ''sig''), Some Indexing, Some Indexing)" by code_simp
  then show ?thesis by (simp add: record_facts_def)
qed

theorem signed_record_activates_witness:
  "verdict_of (fst (run (handle calm) (getPosition ''aa'') ready_world)) = Answered Active"
proof -
  have "represents calm (view ready_world) ready_world"
    unfolding ready_world_def using play_settled [OF calm_reliable represents_empty settled_empty] by (auto simp: represents_def)
  then show ?thesis
    using signed_record_activates [OF calm_reliable, of "view ready_world" ready_world "''aa''" "''sig''"] ready_world_facts
    by (simp add: case_prod_beta)
qed

section \<open>Writes that land in the wrong order\<close>

definition stuck :: "penv \<Rightarrow> string \<Rightarrow> pworld \<Rightarrow> bool" where
  "stuck env pid w \<longleftrightarrow> represents env (view w) w \<and> w_unsaved w = [] \<and> \<not> has_signature (w_recs w pid) \<and>
     life_position (view w pid) = Some Indexing \<and> life_session (view w pid) = Some Indexing"

lemma read_other_keeps: "q \<noteq> pid \<Longrightarrow> makes_only (keeps_record pid) (getPosition q)"
  by (auto simp: op_defs split: option.splits intro!: makes_only_rules)

lemma read_keeps_stuck:
  assumes "reliable env" and "stuck env pid w"
  shows "stuck env pid (snd (run (handle env) (getPosition q) w))"
proof -
  let ?w' = "snd (run (handle env) (getPosition q) w)"
  have rep: "represents env (view w) w" and st: "stored pid (w_recs w pid) w" "\<not> has_signature (w_recs w pid)"
    and life: "life_position (view w pid) = Some Indexing" "life_session (view w pid) = Some Indexing"
    using assms(2) by (auto simp: stuck_def stored_def)
  obtain V' where V': "represents env V' ?w'" and step: "life_step (Read q) (view w) (verdict_of (fst (run (handle env) (getPosition q) w))) V'"
    using getPosition_refines [OF assms(1) rep, of q] by (auto simp: wp_def refines_def)
  from V' have rep': "represents env (view ?w') ?w'" by (simp add: represents_def)
  show ?thesis
  proof (cases "q = pid")
    case True
    then show ?thesis
      using read_decides [OF assms(1) rep st(1) life] st(2) rep' by (simp add: wp_def read_outcome_def stuck_def)
  next
    case False
    from step have "V' pid = view w pid"
      by (cases rule: life_step.cases) (use False in auto)
    then have "view ?w' pid = view w pid" using V' by (simp add: represents_def)
    with reconciliation.run_keeps [OF read_other_keeps [OF False] st(1), of env] st(2) life rep'
    show ?thesis by (simp add: stuck_def stored_def)
  qed
qed

lemma reads_keep_stuck:
  "reliable env \<Longrightarrow> stuck env pid w \<Longrightarrow> stuck env pid (play caps env (map (\<lambda>q. Request (Read q)) qs) w)"
  by (induction qs arbitrary: w) (auto intro: read_keeps_stuck)

definition swapped :: penv where
  "swapped = calm\<lparr>env_flush := (\<lambda>n. if n < 25 then [] else [1, 0])\<rparr>"

lemma swapped_reliable: "reliable swapped"
  using calm_reliable by (simp add: reliable_def swapped_def)

definition executed_world :: pworld where
  "executed_world = play DEFAULT_BETA_CAPS swapped executed_history empty_world"

lemma executed_world_facts:
  "w_unsaved executed_world = [] \<and> \<not> has_signature (w_recs executed_world ''aa'') \<and>
     life_position (view executed_world ''aa'') = Some Indexing \<and> life_session (view executed_world ''aa'') = Some Indexing"
proof -
  have "record_facts executed_world = (True, Some None, Some Indexing, Some Indexing)" by code_simp
  then show ?thesis by (simp add: record_facts_def has_signature_def)
qed


text \<open>
  The two writes are started without being awaited.  When the later one (the signature)
  lands first and the earlier one (the empty record) overwrites it, no call is lost and the
  execution has succeeded, yet the position stays in indexing for ever: every further sequence of
  reads leaves it there.
\<close>

theorem swapped_writes_never_activate:
  "life_position (view (play DEFAULT_BETA_CAPS swapped (executed_history @ map (\<lambda>q. Request (Read q)) qs) empty_world) ''aa'')
     = Some Indexing"
proof -
  have "\<exists>V'. represents swapped V' executed_world"
    unfolding executed_world_def using play_settled [OF swapped_reliable represents_empty settled_empty] by blast
  then have "stuck swapped ''aa'' executed_world"
    using executed_world_facts by (auto simp: stuck_def represents_def)
  from reads_keep_stuck [OF swapped_reliable this] show ?thesis
    by (simp add: executed_world_def stuck_def)
qed

end
