(* ===== verification/FieldBytes.thy ===== *)
theory FieldBytes imports JsNumbers "HOL-Library.Word" begin

unbundle bit_operations_syntax

text \<open>
  Byte packing for the mixer program: proof-converter.ts, \<open>bigintToBytes32\<close> of
  mixer.service.ts, the seeds of solana-client.ts and layout.ts.  A buffer is a list of bytes;
  out-of-range writes are cut off as \<open>Buffer.copy\<close> does.
\<close>

type_synonym byte = "8 word"
type_synonym bytes = "byte list"

datatype pack_error =
    SeedRangeError string int
  | NegativeValue int
  | TooWide int
  | NotBigInt string
  | MissingElement
  | SignalCount nat
  | OutOfRange64 int

section \<open>Fixed-width big-endian integers\<close>

text \<open>\<open>for (i = 31; i >= 0; i--) { out[i] = Number(v & 0xffn); v >>= 8n }\<close>\<close>

fun fill_be :: "nat \<Rightarrow> int \<Rightarrow> bytes \<Rightarrow> bytes" where
  "fill_be 0 v out = out"
| "fill_be (Suc i) v out = fill_be i (drop_bit 8 v) (out[i := word_of_int (v AND 255)])"

definition bigintToBytes32 :: "int \<Rightarrow> string \<Rightarrow> pack_error + bytes" where
  "bigintToBytes32 value field =
     (if value < 0 \<or> push_bit 256 1 \<le> value then Inl (SeedRangeError field value)
      else Inr (fill_be 32 value (replicate 32 0)))"

text \<open>\<open>Buffer.from(text, "hex")\<close> stops at the first pair that is not two hex digits.\<close>

fun hex_decode :: "string \<Rightarrow> bytes" where
  "hex_decode (a # b # rest) =
     (case (digit_value a, digit_value b) of
        (Some x, Some y) \<Rightarrow> word_of_int (16 * x + y) # hex_decode rest
      | _ \<Rightarrow> [])"
| "hex_decode s = []"

definition hex_encode :: "bytes \<Rightarrow> string" where
  "hex_encode bs = concat (map (\<lambda>b. [digit_char (uint b div 16), digit_char (uint b mod 16)]) bs)"

definition TWO_POW_256 :: int where
  "TWO_POW_256 = push_bit 256 1"

definition bigintToBeBytes :: "int \<Rightarrow> pack_error + bytes" where
  "bigintToBeBytes value =
     (if value < 0 then Inl (NegativeValue value)
      else if TWO_POW_256 \<le> value then Inl (TooWide value)
      else Inr (hex_decode (padStart 64 (digits 16 value))))"

text \<open>The number a big-endian buffer stands for.\<close>

definition be_value :: "bytes \<Rightarrow> int" where
  "be_value bs = foldl (\<lambda>acc b. acc * 256 + uint b) 0 bs"

section \<open>Buffers\<close>

definition copy_at :: "nat \<Rightarrow> bytes \<Rightarrow> bytes \<Rightarrow> bytes" where
  "copy_at off src buf =
     take (length buf) (take off buf @ src @ drop (off + length src) buf)"

definition slot :: "nat \<Rightarrow> bytes \<Rightarrow> bytes" where
  "slot i buf = take 32 (drop (32 * i) buf)"

section \<open>Facts\<close>

lemma be_value_Nil [simp]: "be_value [] = 0"
  by (simp add: be_value_def)

lemma be_value_append: "be_value (xs @ ys) = be_value xs * 256 ^ length ys + be_value ys"
proof (induction ys rule: rev_induct)
  case (snoc y ys)
  then show ?case by (simp add: be_value_def algebra_simps flip: append_assoc)
qed (simp add: be_value_def)

lemma be_value_single [simp]: "be_value [b] = uint b"
  by (simp add: be_value_def)

lemma be_value_Cons: "be_value (b # bs) = uint b * 256 ^ length bs + be_value bs"
  using be_value_append [of "[b]" bs] by simp

lemma be_value_bounds: "0 \<le> be_value bs \<and> be_value bs < 256 ^ length bs"
proof (induction bs rule: rev_induct)
  case (snoc b bs)
  have "0 \<le> uint b" "uint b < 256" using uint_bounded [of b] by auto
  with snoc show ?case by (simp add: be_value_append)
qed simp

lemma be_value_inject:
  "length xs = length ys \<Longrightarrow> be_value xs = be_value ys \<Longrightarrow> xs = ys"
proof (induction xs arbitrary: ys rule: rev_induct)
  case (snoc x xs)
  then obtain y ys' where ys: "ys = ys' @ [y]" "length ys' = length xs"
    by (cases ys rule: rev_cases) auto
  have b: "uint x < 256" "uint y < 256" "0 \<le> uint x" "0 \<le> uint y"
    using uint_bounded [of x] uint_bounded [of y] by auto
  have eq: "be_value xs * 256 + uint x = be_value ys' * 256 + uint y"
    using snoc.prems ys by (simp add: be_value_append)
  then have "(be_value xs * 256 + uint x) mod 256 = (be_value ys' * 256 + uint y) mod 256" by simp
  then have "uint x = uint y" using b by simp
  with eq have "be_value xs = be_value ys'" by simp
  with snoc.IH [of ys'] ys \<open>uint x = uint y\<close> show ?case by (simp add: word_uint_eq_iff)
qed simp


text \<open>The loop writes the base-256 digits of the value.\<close>

fun be_bytes :: "nat \<Rightarrow> int \<Rightarrow> bytes" where
  "be_bytes 0 v = []"
| "be_bytes (Suc n) v = be_bytes n (v div 256) @ [word_of_int v]"

lemma length_be_bytes [simp]: "length (be_bytes n v) = n"
  by (induction n arbitrary: v) auto

lemma uint_byte: "uint (word_of_int v :: byte) = v mod 256"
  by (simp add: uint_word_of_int)

lemma byte_mask: "(word_of_int (v AND 255) :: byte) = word_of_int v"
proof -
  have "v AND mask 8 = v mod 2 ^ 8" by (simp only: flip: take_bit_eq_mask take_bit_eq_mod)
  then have "v AND 255 = v mod 256" by (simp add: mask_eq_exp_minus_1)
  then show ?thesis by (simp add: word_uint_eq_iff uint_byte)
qed

lemma fill_be_bytes: "n \<le> length out \<Longrightarrow> fill_be n v out = be_bytes n v @ drop n out"
proof (induction n arbitrary: v out)
  case (Suc n)
  have "drop_bit 8 v = v div 256" by (simp add: drop_bit_eq_div)
  with Suc show ?case
    by (simp add: byte_mask drop_update_swap Cons_nth_drop_Suc [symmetric])
qed simp

lemma be_value_be_bytes: "be_value (be_bytes n v) = v mod 256 ^ n"
proof (induction n arbitrary: v)
  case (Suc n)
  have "v div 256 mod 256 ^ n * 256 + v mod 256 = v mod (256 * 256 ^ n)"
    by (metis add.commute mod_mult2_eq' mult.commute zmod_zmult2_eq zero_le_numeral zero_le_power)
  with Suc show ?case by (simp add: be_value_append uint_byte)
qed simp

lemma bigintToBytes32_ok:
  assumes "0 \<le> v" "v < 2 ^ 256"
  shows "bigintToBytes32 v field = Inr (be_bytes 32 v)"
proof -
  have "\<not> push_bit 256 (1 :: int) \<le> v" using assms(2) by (simp add: push_bit_eq_mult)
  with assms(1) show ?thesis by (simp add: bigintToBytes32_def fill_be_bytes)
qed

lemma be_bytes_unique: "length bs = n \<Longrightarrow> be_value bs = v \<Longrightarrow> bs = be_bytes n v"
  using be_value_inject [of bs "be_bytes n v"] be_value_be_bytes [of n v] be_value_bounds [of bs] by simp


section \<open>Hexadecimal text\<close>

lemma digit_value_range: "digit_value c = Some d \<Longrightarrow> 0 \<le> d \<and> d < 16"
  by (auto simp: digit_value_def Let_def split: if_splits)

lemma zero_digit: "digit_char 0 = CHR ''0''"
  by code_simp

lemma hex_decode_value:
  assumes "length s = 2 * n" and "\<And>c. c \<in> set s \<Longrightarrow> \<exists>d. 0 \<le> d \<and> d < 16 \<and> c = digit_char d"
  shows "length (hex_decode s) = n \<and> digits_acc 16 a s = Some (a * 256 ^ n + be_value (hex_decode s))"
  using assms
proof (induction n arbitrary: a s)
  case (Suc n)
  then obtain c d rest where s: "s = c # d # rest" and len: "length rest = 2 * n"
    by (cases s; cases "tl s") auto
  obtain x where x: "0 \<le> x" "x < 16" "c = digit_char x" using Suc.prems(2) [of c] s by auto
  obtain y where y: "0 \<le> y" "y < 16" "d = digit_char y" using Suc.prems(2) [of d] s by auto
  have IH: "length (hex_decode rest) = n \<and>
      digits_acc 16 ((a * 16 + x) * 16 + y) rest = Some (((a * 16 + x) * 16 + y) * 256 ^ n + be_value (hex_decode rest))"
    using Suc.IH [OF len] Suc.prems(2) s by auto
  have "be_value ((word_of_int (16 * x + y) :: byte) # hex_decode rest) = (16 * x + y) * 256 ^ n + be_value (hex_decode rest)"
    using x y IH by (simp only: be_value_Cons uint_byte) simp
  then have "be_value (hex_decode s) = (16 * x + y) * 256 ^ n + be_value (hex_decode rest)"
    using x y s by simp
  with IH x y s show ?case by (simp add: algebra_simps)
qed simp

lemma digits_acc_padStart: "digits_acc b 0 (padStart n s) = digits_acc b 0 s" if "0 < b"
proof -
  have "digits_acc b 0 (replicate k (CHR ''0'')) = Some 0" for k
    using that by (induction k) (simp_all add: digit_value_def)
  then show ?thesis by (simp add: padStart_def digits_acc_append)
qed

lemma length_digits_bound:
  assumes "2 \<le> b" "0 \<le> n" "n < b ^ k" "0 < k"
  shows "length (digits b n) \<le> k"
  using assms
proof (induction k arbitrary: n)
  case (Suc k)
  show ?case
  proof (cases "n < b")
    case True
    then show ?thesis by (subst digits.simps) simp
  next
    case False
    then have "0 < k" using Suc.prems by (cases k) auto
    moreover have "n div b < b ^ k"
    proof (rule ccontr)
      assume "\<not> n div b < b ^ k"
      then have "b * b ^ k \<le> b * (n div b)" using Suc.prems(1) by (intro mult_left_mono) auto
      also have "\<dots> \<le> n" using Suc.prems(1) mult_div_mod_eq [of b n] pos_mod_sign [of b n] by linarith
      finally show False using Suc.prems(3) by simp
    qed
    moreover have "0 \<le> n div b" using Suc.prems by (simp add: pos_imp_zdiv_nonneg_iff)
    ultimately have "length (digits b (n div b)) \<le> k" using Suc.IH Suc.prems(1) by blast
    with False Suc.prems(1) show ?thesis by (subst digits.simps) simp
  qed
qed simp

lemma bigintToBeBytes_ok:
  assumes "0 \<le> v" "v < 2 ^ 256"
  shows "bigintToBeBytes v = Inr (be_bytes 32 v)"
proof -
  let ?h = "padStart 64 (digits 16 v)"
  have "length (digits 16 v) \<le> 64" by (rule length_digits_bound) (use assms in auto)
  then have len: "length ?h = 2 * 32" by (simp add: padStart_def)
  have chars: "\<exists>d. 0 \<le> d \<and> d < 16 \<and> c = digit_char d" if "c \<in> set ?h" for c
  proof (cases "c \<in> set (digits 16 v)")
    case True
    then show ?thesis using digits_chars [of 16 v c] assms(1) by auto
  next
    case False
    then have "c = digit_char 0" using that by (auto simp: padStart_def zero_digit)
    then show ?thesis by (intro exI [of _ 0]) simp
  qed
  have "digits_acc 16 0 ?h = Some v"
    using digits_acc_padStart [of 16 64 "digits 16 v"] digits_acc_digits [of 16 v] assms(1) by simp
  with hex_decode_value [of ?h 32 0] chars len
  have "length (hex_decode ?h) = 32" "be_value (hex_decode ?h) = v" by auto
  then have "hex_decode ?h = be_bytes 32 v" by (rule be_bytes_unique)
  with assms show ?thesis by (simp add: bigintToBeBytes_def TWO_POW_256_def push_bit_eq_mult)
qed


section \<open>Packing the instruction\<close>

text \<open>\<open>BigInt(text)\<close> followed by the packer.\<close>

definition pack_text :: "string \<Rightarrow> pack_error + bytes" where
  "pack_text t = (case bigint_of_string t of None \<Rightarrow> Inl (NotBigInt t) | Some v \<Rightarrow> bigintToBeBytes v)"

text \<open>\<open>for (i = 0; i < 5; i++) bytes.copy(buf, i * 32)\<close>\<close>

fun pack_signals :: "nat \<Rightarrow> string list \<Rightarrow> bytes \<Rightarrow> pack_error + bytes" where
  "pack_signals i [] buf = Inr buf"
| "pack_signals i (t # ts) buf =
     (case pack_text t of Inl e \<Rightarrow> Inl e | Inr bs \<Rightarrow> pack_signals (Suc i) ts (copy_at (i * 32) bs buf))"

definition convertPublicInputsToBytes :: "string list \<Rightarrow> pack_error + bytes" where
  "convertPublicInputsToBytes signals =
     (if length signals \<noteq> 5 then Inl (SignalCount (length signals))
      else pack_signals 0 signals (replicate 160 0))"

record Groth16Proof =
  pi_a :: "string list"
  pi_b :: "string list list"
  pi_c :: "string list"

definition BN254_P :: int where
  "BN254_P = 21888242871839275222246405745257275088696311157297823662689037894645226208583"

text \<open>\<open>BigInt(xs[i])\<close>, a \<open>TypeError\<close> when the element is missing.\<close>

definition element :: "'a list \<Rightarrow> nat \<Rightarrow> pack_error + 'a" where
  "element xs i = (if i < length xs then Inr (xs ! i) else Inl MissingElement)"

definition bind_res :: "'e + 'a \<Rightarrow> ('a \<Rightarrow> 'e + 'b) \<Rightarrow> 'e + 'b" where
  "bind_res r f = (case r of Inl e \<Rightarrow> Inl e | Inr a \<Rightarrow> f a)"

definition element_int :: "string list \<Rightarrow> nat \<Rightarrow> pack_error + int" where
  "element_int xs i = bind_res (element xs i) (\<lambda>t.
     case bigint_of_string t of None \<Rightarrow> Inl (NotBigInt t) | Some v \<Rightarrow> Inr v)"

definition element_bytes :: "string list \<Rightarrow> nat \<Rightarrow> pack_error + bytes" where
  "element_bytes xs i = bind_res (element_int xs i) bigintToBeBytes"

text \<open>The eight coordinates in the order the code converts them.\<close>

definition convertProofToBytes :: "Groth16Proof \<Rightarrow> pack_error + bytes" where
  "convertProofToBytes proof =
     bind_res (element_bytes (pi_a proof) 0) (\<lambda>piAx.
     bind_res (element_int (pi_a proof) 1) (\<lambda>piAyRaw.
     bind_res (bigintToBeBytes (BN254_P - piAyRaw)) (\<lambda>piAyNeg.
     bind_res (element (pi_b proof) 0) (\<lambda>xx.
     bind_res (element_bytes xx 1) (\<lambda>piBx1.
     bind_res (element_bytes xx 0) (\<lambda>piBx0.
     bind_res (element (pi_b proof) 1) (\<lambda>yy.
     bind_res (element_bytes yy 1) (\<lambda>piBy1.
     bind_res (element_bytes yy 0) (\<lambda>piBy0.
     bind_res (element_bytes (pi_c proof) 0) (\<lambda>piCx.
     bind_res (element_bytes (pi_c proof) 1) (\<lambda>piCy.
     Inr (copy_at 224 piCy (copy_at 192 piCx (copy_at 160 piBy0 (copy_at 128 piBy1
       (copy_at 96 piBx0 (copy_at 64 piBx1 (copy_at 32 piAyNeg (copy_at 0 piAx
          (replicate 256 0))))))))))))))))))))"

section \<open>Keys as field elements\<close>

definition big_of_hex :: "bytes \<Rightarrow> int" where
  "big_of_hex bs = (case bigint_of_string (''0x'' @ hex_encode bs) of Some v \<Rightarrow> v | None \<Rightarrow> 0)"

definition pubkeyToFieldElement :: "bytes \<Rightarrow> int" where
  "pubkeyToFieldElement key = big_of_hex key"

definition pubkeyToFieldHash :: "(int list \<Rightarrow> int) \<Rightarrow> bytes \<Rightarrow> int" where
  "pubkeyToFieldHash poseidonHash key =
     (let hi = big_of_hex (take 16 key); lo = big_of_hex (take 16 (drop 16 key)) in poseidonHash [hi, lo])"

section \<open>Seeds of the program addresses\<close>

definition ascii :: "string \<Rightarrow> bytes" where
  "ascii s = map of_char s"

definition MIXER_POOL_SEED :: bytes where "MIXER_POOL_SEED = ascii ''mixer_pool''"
definition NULLIFIER_SEED :: bytes where "NULLIFIER_SEED = ascii ''nullifier''"
definition COMMITMENT_SEED :: bytes where "COMMITMENT_SEED = ascii ''commitment''"

text \<open>\<open>writeBigUInt64LE\<close> refuses what does not fit in 64 bits.\<close>

definition writeBigUInt64LE :: "int \<Rightarrow> pack_error + bytes" where
  "writeBigUInt64LE v = (if v < 0 \<or> 2 ^ 64 \<le> v then Inl (OutOfRange64 v) else Inr (rev (be_bytes 8 v)))"

definition deriveMixerPoolPDA :: "(bytes list \<Rightarrow> 'k \<Rightarrow> 'a) \<Rightarrow> 'k \<Rightarrow> int \<Rightarrow> pack_error + 'a" where
  "deriveMixerPoolPDA findProgramAddress programId denomination =
     bind_res (writeBigUInt64LE denomination) (\<lambda>denomBuf.
     Inr (findProgramAddress [MIXER_POOL_SEED, denomBuf] programId))"

definition deriveNullifierPDA :: "(bytes list \<Rightarrow> 'k \<Rightarrow> 'a) \<Rightarrow> 'k \<Rightarrow> bytes \<Rightarrow> bytes \<Rightarrow> 'a" where
  "deriveNullifierPDA findProgramAddress programId mixerPoolKey nullifierHash =
     findProgramAddress [NULLIFIER_SEED, mixerPoolKey, nullifierHash] programId"

definition deriveCommitmentPDA :: "(bytes list \<Rightarrow> 'k \<Rightarrow> 'a) \<Rightarrow> 'k \<Rightarrow> bytes \<Rightarrow> bytes \<Rightarrow> 'a" where
  "deriveCommitmentPDA findProgramAddress programId mixerPoolKey commitment =
     findProgramAddress [COMMITMENT_SEED, mixerPoolKey, commitment] programId"

section \<open>Account layout\<close>

definition MIXER_POOL_ROOT_HISTORY_SIZE :: nat where "MIXER_POOL_ROOT_HISTORY_SIZE = 256"
definition MIXER_POOL_TREE_LEVELS :: nat where "MIXER_POOL_TREE_LEVELS = 20"
definition MIXER_POOL_NEXT_LEAF_INDEX_OFFSET :: nat where
  "MIXER_POOL_NEXT_LEAF_INDEX_OFFSET = 8 + 32 + 8"
definition MIXER_POOL_IS_PAUSED_OFFSET :: nat where
  "MIXER_POOL_IS_PAUSED_OFFSET =
     8 + 32 + 8 + 4 + 1 + 32 * MIXER_POOL_ROOT_HISTORY_SIZE + 32 * MIXER_POOL_TREE_LEVELS"


section \<open>Facts about packing\<close>

lemma be_bytes_be_value [simp]: "length bs = n \<Longrightarrow> be_bytes n (be_value bs) = bs"
  using be_bytes_unique [of bs n] by simp

definition fits :: "int \<Rightarrow> bool" where
  "fits v \<longleftrightarrow> 0 \<le> v \<and> v < 2 ^ 256"

lemma bigintToBeBytes_cases: "bigintToBeBytes v = (if fits v then Inr (be_bytes 32 v) else if v < 0 then Inl (NegativeValue v) else Inl (TooWide v))"
  using bigintToBeBytes_ok [of v] by (auto simp: fits_def bigintToBeBytes_def TWO_POW_256_def push_bit_eq_mult)

lemma bigintToBytes32_cases: "bigintToBytes32 v f = (if fits v then Inr (be_bytes 32 v) else Inl (SeedRangeError f v))"
  using bigintToBytes32_ok [of v f] by (auto simp: fits_def bigintToBytes32_def push_bit_eq_mult)

lemma be_value_32: "fits v \<Longrightarrow> be_value (be_bytes 32 v) = v"
  by (simp add: be_value_be_bytes fits_def)

definition packed :: "string \<Rightarrow> bytes \<Rightarrow> bool" where
  "packed t bs \<longleftrightarrow> (\<exists>v. bigint_of_string t = Some v \<and> fits v \<and> length bs = 32 \<and> be_value bs = v)"

lemma pack_text_iff: "pack_text t = Inr bs \<longleftrightarrow> packed t bs"
  by (auto simp: pack_text_def packed_def bigintToBeBytes_cases be_value_32 be_bytes_unique split: option.splits)

lemma copy_at_exact:
  "off + length src \<le> length buf \<Longrightarrow> copy_at off src buf = take off buf @ src @ drop (off + length src) buf"
  by (simp add: copy_at_def)

lemma pack_signals_iff:
  "length buf = 32 * (i + length ts) \<Longrightarrow>
     pack_signals i ts buf = Inr r \<longleftrightarrow> (\<exists>bss. list_all2 packed ts bss \<and> r = take (32 * i) buf @ concat bss)"
proof (induction i ts buf rule: pack_signals.induct)
  case (2 i t ts buf)
  show ?case
  proof (cases "pack_text t")
    case (Inr bs)
    then have pk: "packed t bs" by (simp add: pack_text_iff)
    then have len: "length bs = 32" by (auto simp: packed_def)
    have other: "bs' = bs" if "packed t bs'" for bs'
      using that Inr by (simp flip: pack_text_iff)
    have c: "copy_at (i * 32) bs buf = take (32 * i) buf @ bs @ drop (32 * i + 32) buf"
      using "2.prems" len by (simp add: copy_at_exact mult.commute)
    have "length (copy_at (i * 32) bs buf) = 32 * (Suc i + length ts)"
      using "2.prems" len by (simp add: c)
    from "2.IH" [OF Inr this] have "pack_signals i (t # ts) buf = Inr r \<longleftrightarrow>
        (\<exists>bss. list_all2 packed ts bss \<and> r = take (32 * Suc i) (copy_at (i * 32) bs buf) @ concat bss)"
      using Inr by simp
    moreover have "take (32 * Suc i) (copy_at (i * 32) bs buf) = take (32 * i) buf @ bs"
      using "2.prems" len by (simp add: c)
    moreover have "(\<exists>bss'. list_all2 packed (t # ts) bss' \<and> r = take (32 * i) buf @ concat bss') \<longleftrightarrow>
        (\<exists>bss. list_all2 packed ts bss \<and> r = take (32 * i) buf @ bs @ concat bss)"
    proof
      assume "\<exists>bss'. list_all2 packed (t # ts) bss' \<and> r = take (32 * i) buf @ concat bss'"
      then show "\<exists>bss. list_all2 packed ts bss \<and> r = take (32 * i) buf @ bs @ concat bss"
        using other by (fastforce simp: list_all2_Cons1)
    next
      assume "\<exists>bss. list_all2 packed ts bss \<and> r = take (32 * i) buf @ bs @ concat bss"
      then obtain bss where "list_all2 packed ts bss" "r = take (32 * i) buf @ bs @ concat bss" by blast
      with pk show "\<exists>bss'. list_all2 packed (t # ts) bss' \<and> r = take (32 * i) buf @ concat bss'"
        by (intro exI [of _ "bs # bss"]) simp
    qed
    ultimately show ?thesis by simp
  next
    case (Inl e)
    then have "\<not> packed t bs" for bs by (simp flip: pack_text_iff)
    with Inl show ?thesis by (auto simp: list_all2_Cons1)
  qed
qed auto

lemma slot_concat:
  assumes "\<forall>bs \<in> set bss. length bs = 32" "i < length bss"
  shows "slot i (concat bss) = bss ! i"
  using assms
proof (induction bss arbitrary: i)
  case (Cons b bss)
  then show ?case by (cases i) (auto simp: slot_def add.commute)
qed simp

lemma concat_slots:
  "length buf = 32 * n \<Longrightarrow> concat (map (\<lambda>i. slot i buf) [0 ..< n]) = buf"
proof (induction n arbitrary: buf)
  case (Suc n)
  have "concat (map (\<lambda>i. slot i (take (32 * n) buf)) [0 ..< n]) = take (32 * n) buf"
    using Suc by (simp add: Suc.IH)
  moreover have "slot i (take (32 * n) buf) = slot i buf" if "i < n" for i
    using that by (simp add: slot_def drop_take min_def)
  ultimately have "concat (map (\<lambda>i. slot i buf) [0 ..< n]) = take (32 * n) buf"
    by (metis (no_types, lifting) atLeastLessThan_iff map_cong set_upt)
  with Suc.prems show ?case by (simp add: slot_def)
qed simp

text \<open>
   Round trip and bounds: the seed packer \<open>bigintToBytes32\<close> succeeds exactly on the numbers
  from 0 to 2^256 - 1, and then returns the only 32-byte buffer whose big-endian value is the
  number; every other number is a \<open>SeedRangeError\<close> that names the field.
\<close>

theorem bytes32_roundtrip:
  "bigintToBytes32 v field = (if 0 \<le> v \<and> v < 2 ^ 256 then Inr (be_bytes 32 v) else Inl (SeedRangeError field v)) \<and>
   (bigintToBytes32 v field = Inr bs \<longleftrightarrow> length bs = 32 \<and> be_value bs = v)"
proof -
  have "fits v" if "length bs = 32" "be_value bs = v"
    using be_value_bounds [of bs] that by (auto simp: fits_def)
  then show ?thesis
    by (auto simp: bigintToBytes32_cases fits_def be_value_32 be_bytes_unique split: if_splits)
qed

text \<open>
  Equivalence: the hexadecimal packer of the proof converter and the shifting loop of the
  seed packer accept the same numbers and produce the same bytes.
\<close>

theorem packers_agree:
  "(case bigintToBeBytes v of Inr bs \<Rightarrow> bigintToBytes32 v field = Inr bs
     | Inl e \<Rightarrow> bigintToBytes32 v field = Inl (SeedRangeError field v))"
  by (simp add: bigintToBeBytes_cases bigintToBytes32_cases)

lemma public_inputs_slots:
  "convertPublicInputsToBytes signals = Inr buf \<longleftrightarrow>
     length signals = 5 \<and> length buf = 160 \<and> (\<forall>i < 5. packed (signals ! i) (slot i buf))"
proof (cases "length signals = 5")
  case True
  have "convertPublicInputsToBytes signals = Inr buf \<longleftrightarrow> (\<exists>bss. list_all2 packed signals bss \<and> buf = concat bss)"
    using True pack_signals_iff [of "replicate 160 0" 0 signals buf] by (simp add: convertPublicInputsToBytes_def)
  also have "\<dots> \<longleftrightarrow> length buf = 160 \<and> (\<forall>i < 5. packed (signals ! i) (slot i buf))"
  proof
    assume "\<exists>bss. list_all2 packed signals bss \<and> buf = concat bss"
    then obtain bss where bss: "list_all2 packed signals bss" "buf = concat bss" by blast
    have l5: "length bss = 5" using bss(1) True by (auto dest: list_all2_lengthD)
    have l32: "\<forall>bs \<in> set bss. length bs = 32"
      using bss(1) by (auto simp: list_all2_conv_all_nth in_set_conv_nth packed_def)
    then have "length (concat bss) = 32 * length bss"
      by (induction bss) auto
    with bss l5 l32 True show "length buf = 160 \<and> (\<forall>i < 5. packed (signals ! i) (slot i buf))"
      by (simp add: slot_concat list_all2_conv_all_nth)
  next
    assume r: "length buf = 160 \<and> (\<forall>i < 5. packed (signals ! i) (slot i buf))"
    then have "list_all2 packed signals (map (\<lambda>i. slot i buf) [0 ..< 5])"
      using True by (simp add: list_all2_conv_all_nth)
    moreover have "buf = concat (map (\<lambda>i. slot i buf) [0 ..< 5])"
      using r concat_slots [of buf 5] by simp
    ultimately show "\<exists>bss. list_all2 packed signals bss \<and> buf = concat bss" by blast
  qed
  finally show ?thesis using True by simp
qed (simp add: convertPublicInputsToBytes_def)


lemma bind_res_Inr: "bind_res r f = Inr b \<longleftrightarrow> (\<exists>a. r = Inr a \<and> f a = Inr b)"
  by (cases r) (auto simp: bind_res_def)

lemma element_Inr: "element xs i = Inr x \<longleftrightarrow> i < length xs \<and> x = xs ! i"
  by (auto simp: element_def)

lemma element_int_Inr: "element_int xs i = Inr v \<longleftrightarrow> i < length xs \<and> bigint_of_string (xs ! i) = Some v"
  by (auto simp: element_int_def bind_res_Inr element_Inr split: option.splits)

lemma bigintToBeBytes_Inr: "bigintToBeBytes v = Inr bs \<longleftrightarrow> length bs = 32 \<and> be_value bs = v"
  using be_value_bounds [of bs] by (auto simp: bigintToBeBytes_cases fits_def be_value_be_bytes)

definition coordinate :: "string list \<Rightarrow> nat \<Rightarrow> bytes \<Rightarrow> bool" where
  "coordinate xs i bs \<longleftrightarrow> i < length xs \<and> packed (xs ! i) bs"

lemma element_bytes_Inr: "element_bytes xs i = Inr bs \<longleftrightarrow> coordinate xs i bs"
  using be_value_bounds [of bs]
  by (auto simp: element_bytes_def bind_res_Inr element_int_Inr bigintToBeBytes_Inr coordinate_def packed_def fits_def)

lemma copy_next:
  "length pre = off \<Longrightarrow> length src = 32 \<Longrightarrow>
     copy_at off src (pre @ replicate (32 + k) 0) = (pre @ src) @ replicate k 0"
  by (simp add: copy_at_exact)

lemma copy_eight:
  assumes "length b0 = 32" "length b1 = 32" "length b2 = 32" "length b3 = 32"
    "length b4 = 32" "length b5 = 32" "length b6 = 32" "length b7 = 32"
  shows "copy_at 224 b7 (copy_at 192 b6 (copy_at 160 b5 (copy_at 128 b4 (copy_at 96 b3 (copy_at 64 b2
       (copy_at 32 b1 (copy_at 0 b0 (replicate 256 0)))))))) = concat [b0, b1, b2, b3, b4, b5, b6, b7]"
  using assms copy_next [of "[]" 0 b0 224] copy_next [of b0 32 b1 192] copy_next [of "b0 @ b1" 64 b2 160]
    copy_next [of "b0 @ b1 @ b2" 96 b3 128] copy_next [of "b0 @ b1 @ b2 @ b3" 128 b4 96]
    copy_next [of "b0 @ b1 @ b2 @ b3 @ b4" 160 b5 64] copy_next [of "b0 @ b1 @ b2 @ b3 @ b4 @ b5" 192 b6 32]
    copy_next [of "b0 @ b1 @ b2 @ b3 @ b4 @ b5 @ b6" 224 b7 0]
  by simp

text \<open>
   Layout of the proof: a packed proof has 256 bytes; its slots hold x of A, the base field
  prime minus y of A (so the two add up to a multiple of the prime: the point is negated), then
  the coordinates of B with the two components of each swapped, then C.
\<close>

theorem proof_layout:
  assumes "convertProofToBytes proof = Inr buf"
  shows "length buf = 256 \<and> coordinate (pi_a proof) 0 (slot 0 buf) \<and>
    (\<exists>y. bigint_of_string (pi_a proof ! 1) = Some y \<and> be_value (slot 1 buf) + y = BN254_P) \<and>
    coordinate (pi_b proof ! 0) 1 (slot 2 buf) \<and> coordinate (pi_b proof ! 0) 0 (slot 3 buf) \<and>
    coordinate (pi_b proof ! 1) 1 (slot 4 buf) \<and> coordinate (pi_b proof ! 1) 0 (slot 5 buf) \<and>
    coordinate (pi_c proof) 0 (slot 6 buf) \<and> coordinate (pi_c proof) 1 (slot 7 buf)"
proof -
  obtain b0 y b1 b2 b3 b4 b5 b6 b7 where
    c: "coordinate (pi_a proof) 0 b0" "coordinate (pi_b proof ! 0) 1 b2" "coordinate (pi_b proof ! 0) 0 b3"
      "coordinate (pi_b proof ! 1) 1 b4" "coordinate (pi_b proof ! 1) 0 b5" "coordinate (pi_c proof) 0 b6"
      "coordinate (pi_c proof) 1 b7"
    and y: "bigint_of_string (pi_a proof ! 1) = Some y" "length b1 = 32" "be_value b1 = BN254_P - y"
    and buf: "buf = copy_at 224 b7 (copy_at 192 b6 (copy_at 160 b5 (copy_at 128 b4 (copy_at 96 b3 (copy_at 64 b2
       (copy_at 32 b1 (copy_at 0 b0 (replicate 256 0))))))))"
    using assms
    by (auto simp: convertProofToBytes_def bind_res_Inr element_bytes_Inr element_Inr element_int_Inr bigintToBeBytes_Inr)
  have len: "length b = 32" if "b \<in> {b0, b1, b2, b3, b4, b5, b6, b7}" for b
    using that c y by (auto simp: coordinate_def packed_def)
  have "buf = concat [b0, b1, b2, b3, b4, b5, b6, b7]"
    unfolding buf by (rule copy_eight) (simp_all add: len)
  moreover have "slot i (concat [b0, b1, b2, b3, b4, b5, b6, b7]) = [b0, b1, b2, b3, b4, b5, b6, b7] ! i" if "i < 8" for i
    by (rule slot_concat) (use len that in auto)
  ultimately show ?thesis using c y len by (simp add: eval_nat_numeral)
qed

text \<open>
  Round trip: the public inputs of the withdrawal instruction are packed exactly when there
  are five signals, each the text of an integer that fits in 32 bytes; the result is the only
  160-byte buffer whose five 32-byte slots, read big-endian, are the five integers in order.
\<close>

theorem public_inputs_layout:
  "convertPublicInputsToBytes signals = Inr buf \<longleftrightarrow>
     length buf = 160 \<and> list_all2 packed signals (map (\<lambda>i. slot i buf) [0..<5])"
  unfolding public_inputs_slots by (auto simp: list_all2_conv_all_nth)

definition sample_proof :: Groth16Proof where
  "sample_proof = \<lparr>pi_a = [''1'', ''2'', ''1''], pi_b = [[''3'', ''4''], [''5'', ''6''], [''1'', ''0'']],
     pi_c = [''7'', ''8'', ''1'']\<rparr>"

lemma sample_proof_packs: "\<exists>buf. convertProofToBytes sample_proof = Inr buf"
proof -
  have ints: "bigint_of_string ''1'' = Some 1" "bigint_of_string ''2'' = Some 2" "bigint_of_string ''3'' = Some 3"
    "bigint_of_string ''4'' = Some 4" "bigint_of_string ''5'' = Some 5" "bigint_of_string ''6'' = Some 6"
    "bigint_of_string ''7'' = Some 7" "bigint_of_string ''8'' = Some 8"
    by code_simp+
  show ?thesis
    by (simp add: convertProofToBytes_def sample_proof_def element_bytes_def element_int_def element_def bind_res_def
        ints bigintToBeBytes_cases fits_def BN254_P_def del: be_bytes.simps)
qed

theorem proof_layout_witness:
  "\<exists>buf. convertProofToBytes sample_proof = Inr buf \<and> be_value (slot 1 buf) + 2 = BN254_P"
proof -
  have two: "bigint_of_string ''2'' = Some 2" by code_simp
  obtain buf where buf: "convertProofToBytes sample_proof = Inr buf" using sample_proof_packs by blast
  with proof_layout [OF buf] two show ?thesis by (auto simp: sample_proof_def)
qed

section \<open>Facts about keys\<close>

lemma nibbles: "0 \<le> uint (b :: byte) div 16 \<and> uint b div 16 < 16 \<and> 0 \<le> uint b mod 16 \<and> uint b mod 16 < 16"
proof -
  have "0 \<le> uint b" "uint b < 256" using uint_bounded [of b] by auto
  then show ?thesis by (simp add: pos_imp_zdiv_nonneg_iff)
qed

lemma hex_encode_Cons:
  "hex_encode (b # bs) = digit_char (uint b div 16) # digit_char (uint b mod 16) # hex_encode bs"
  by (simp add: hex_encode_def)

lemma hex_encode_Nil [simp]: "hex_encode [] = []"
  by (simp add: hex_encode_def)

lemma hex_chars: "c \<in> set (hex_encode bs) \<Longrightarrow> \<exists>d. 0 \<le> d \<and> d < 16 \<and> c = digit_char d"
proof (induction bs)
  case (Cons b bs)
  then consider "c = digit_char (uint b div 16)" | "c = digit_char (uint b mod 16)" | "c \<in> set (hex_encode bs)"
    by (auto simp: hex_encode_Cons)
  then show ?case using Cons.IH nibbles [of b] by metis
qed simp

lemma hex_decode_encode: "hex_decode (hex_encode bs) = bs"
proof (induction bs)
  case (Cons b bs)
  have "word_of_int (16 * (uint b div 16) + uint b mod 16) = b"
    by (simp only: mult_div_mod_eq word_of_int_uint)
  with Cons nibbles [of b] show ?case by (simp add: hex_encode_Cons del: of_int_add of_int_mult)
qed simp

lemma length_hex_encode [simp]: "length (hex_encode bs) = 2 * length bs"
  by (induction bs) (auto simp: hex_encode_Cons)

lemma big_of_hex_value:
  assumes "bs \<noteq> []"
  shows "big_of_hex bs = be_value bs"
proof -
  let ?h = "hex_encode bs"
  have "\<not> is_space c" if "c \<in> set ?h" for c using hex_chars [OF that] by auto
  moreover have "\<not> is_space CHR ''0''" "\<not> is_space CHR ''x''" by code_simp+
  ultimately have "js_trim (''0x'' @ ?h) = ''0x'' @ ?h" by (intro js_trim_id) auto
  moreover have "parse_nondecimal (''0x'' @ ?h) = Some (parse_digits 16 ?h)"
    by (simp add: parse_nondecimal_def)
  moreover have "?h \<noteq> []" using assms by (cases bs) (simp_all add: hex_encode_Cons)
  moreover have "digits_acc 16 0 ?h = Some (be_value bs)"
    using hex_decode_value [of ?h "length bs" 0] hex_chars [of _ bs] by (simp add: hex_decode_encode)
  ultimately show ?thesis
    by (simp add: big_of_hex_def bigint_of_string_def parse_digits_def)
qed

text \<open>
  Binding: with a hash that tells apart pairs of 128-bit numbers, the field element that a
  proof binds for a 32-byte key determines the key.  The two halves are always 128-bit numbers.
\<close>

theorem pubkey_hash_injective:
  assumes "length k1 = 32" and "length k2 = 32"
    and "\<And>a b c d. a \<in> {0 ..< 2 ^ 128} \<Longrightarrow> b \<in> {0 ..< 2 ^ 128} \<Longrightarrow> c \<in> {0 ..< 2 ^ 128} \<Longrightarrow> d \<in> {0 ..< 2 ^ 128}
           \<Longrightarrow> poseidonHash [a, b] = poseidonHash [c, d] \<Longrightarrow> a = c \<and> b = d"
  shows "pubkeyToFieldHash poseidonHash k1 = pubkeyToFieldHash poseidonHash k2 \<longleftrightarrow> k1 = k2"
proof
  assume eq: "pubkeyToFieldHash poseidonHash k1 = pubkeyToFieldHash poseidonHash k2"
  have half: "be_value bs \<in> {0 ..< 2 ^ 128}" if "length bs = 16" for bs
    using be_value_bounds [of bs] that by simp
  have ne: "take 16 k \<noteq> []" "drop 16 k \<noteq> []" "length (take 16 k) = 16" "length (drop 16 k) = 16"
    if "length k = 32" for k :: bytes
    using that by auto
  have "be_value (take 16 k1) = be_value (take 16 k2) \<and> be_value (drop 16 k1) = be_value (drop 16 k2)"
    by (rule assms(3) [OF half half half half])
      (use eq ne [OF assms(1)] ne [OF assms(2)] assms(1,2) in \<open>simp_all add: pubkeyToFieldHash_def Let_def big_of_hex_value\<close>)
  then have "take 16 k1 = take 16 k2" "drop 16 k1 = drop 16 k2"
    using be_value_inject [of "take 16 k1" "take 16 k2"] be_value_inject [of "drop 16 k1" "drop 16 k2"] assms(1,2)
    by simp_all
  then show "k1 = k2" by (metis append_take_drop_id)
qed simp

theorem pubkey_hash_injective_witness:
  "pubkeyToFieldHash (\<lambda>xs. xs ! 0 * 2 ^ 128 + xs ! 1) (replicate 32 0)
     = pubkeyToFieldHash (\<lambda>xs. xs ! 0 * 2 ^ 128 + xs ! 1) (replicate 32 1) \<longleftrightarrow> replicate 32 (0 :: byte) = replicate 32 1"
proof (rule pubkey_hash_injective)
  fix a b c d :: int
  assume r: "a \<in> {0 ..< 2 ^ 128}" "b \<in> {0 ..< 2 ^ 128}" "c \<in> {0 ..< 2 ^ 128}" "d \<in> {0 ..< 2 ^ 128}"
    and eq: "[a, b] ! 0 * 2 ^ 128 + [a, b] ! 1 = [c, d] ! 0 * 2 ^ 128 + [c, d] ! 1"
  then have "(a * 2 ^ 128 + b) div 2 ^ 128 = (c * 2 ^ 128 + d) div 2 ^ 128" by simp
  with r have "a = c" by simp
  with eq show "a = c \<and> b = d" by simp
qed simp_all

text \<open>
  Addresses: the pool address of a denomination is derived from ten bytes of tag and the
  little-endian value, for exactly the denominations that fit in 64 bits; two denominations with
  the same seeds are equal.
\<close>

theorem pool_seeds_injective:
  "deriveMixerPoolPDA (\<lambda>seeds k. seeds) k d1 = Inr seeds \<and> deriveMixerPoolPDA (\<lambda>seeds k. seeds) k d2 = Inr seeds
     \<longleftrightarrow> d1 = d2 \<and> 0 \<le> d1 \<and> d1 < 2 ^ 64 \<and> (\<exists>le. seeds = [MIXER_POOL_SEED, le] \<and> length le = 8 \<and> be_value (rev le) = d1)"
proof -
  have one: "deriveMixerPoolPDA (\<lambda>seeds k. seeds) k d = Inr seeds \<longleftrightarrow>
      0 \<le> d \<and> d < 2 ^ 64 \<and> (\<exists>le. seeds = [MIXER_POOL_SEED, le] \<and> length le = 8 \<and> be_value (rev le) = d)" for d
    using be_bytes_unique [of "rev _" 8]
    by (auto simp: deriveMixerPoolPDA_def writeBigUInt64LE_def bind_res_def be_value_be_bytes simp del: be_bytes.simps
        intro: rev_swap [THEN iffD1])
  show ?thesis unfolding one by auto
qed

end
