(* ===== verification/WalletAuth.thy ===== *)
theory WalletAuth imports PositionSafety FieldBytes begin

text \<open>
  common/auth.ts: one-time nonces, the wallet signature pre-handler, the beta gate and the admin
  token.  \<open>PublicKey\<close>, its base58 text, base64 decoding and Ed25519 verification are native or
  third-party code: they are the fields of \<open>crypto\<close>.
\<close>

record crypto =
  cr_PublicKey :: "string \<Rightarrow> bytes option"
  cr_toBase58 :: "bytes \<Rightarrow> string"
  cr_base64 :: "string \<Rightarrow> bytes"
  cr_verify :: "bytes \<Rightarrow> bytes \<Rightarrow> bytes \<Rightarrow> bool"

definition NONCE_TTL_MS :: int where "NONCE_TTL_MS = 5 * 60 * 1000"

section \<open>The nonce table\<close>

record AuthNonceRow =
  nn_nonce :: string
  nn_wallet :: string
  nn_expiresAt :: int
  nn_used :: bool

datatype acall =
    CreateNonce string
  | DeleteExpiredNonces
  | ClaimNonce string string
  | FindBetaAccess string

datatype aresp = ANonce string int | ADeleted | AClaimed nat | AFound bool

text \<open>\<open>aw_claims\<close> lists the claims that updated a row, newest first.\<close>

record aworld =
  aw_nonces :: "AuthNonceRow list"
  aw_beta :: "string list"
  aw_clock :: nat
  aw_claims :: "(string \<times> string) list"
  aw_calls :: nat

record aenv =
  an_elapsed :: "nat \<Rightarrow> nat"
  an_fault :: "nat \<Rightarrow> fault option"
  an_random :: "nat \<Rightarrow> string"

datatype auth_error = HttpReply nat string | AuthError string nat | Unavailable string

definition claimable :: "int \<Rightarrow> string \<Rightarrow> string \<Rightarrow> AuthNonceRow \<Rightarrow> bool" where
  "claimable now nonce wallet r \<longleftrightarrow>
     nn_nonce r = nonce \<and> nn_wallet r = wallet \<and> \<not> nn_used r \<and> now < nn_expiresAt r"

definition mark_used :: "int \<Rightarrow> string \<Rightarrow> string \<Rightarrow> AuthNonceRow list \<Rightarrow> AuthNonceRow list" where
  "mark_used now nonce wallet rs = map (\<lambda>r. if claimable now nonce wallet r then r\<lparr>nn_used := True\<rparr> else r) rs"

text \<open>
  Each action reads the clock when it is issued: \<open>create\<close> computes the expiry, \<open>updateMany\<close> and
  \<open>deleteMany\<close> their bounds.
\<close>

fun auth_exec :: "aenv \<Rightarrow> nat \<Rightarrow> acall \<Rightarrow> aworld \<Rightarrow> (auth_error + aresp) \<times> aworld" where
  "auth_exec env n (CreateNonce wallet) w =
     (let nonce = an_random env n; expires = int (aw_clock w) + NONCE_TTL_MS in
      if nonce \<in> nn_nonce ` set (aw_nonces w) then (Inl (Unavailable ''Unique constraint failed''), w)
      else (Inr (ANonce nonce expires),
            w\<lparr>aw_nonces := aw_nonces w @ [\<lparr>nn_nonce = nonce, nn_wallet = wallet, nn_expiresAt = expires, nn_used = False\<rparr>]\<rparr>))"
| "auth_exec env n DeleteExpiredNonces w =
     (Inr ADeleted, w\<lparr>aw_nonces := filter (\<lambda>r. \<not> nn_expiresAt r < int (aw_clock w) - NONCE_TTL_MS) (aw_nonces w)\<rparr>)"
| "auth_exec env n (ClaimNonce nonce wallet) w =
     (let now = int (aw_clock w); k = count_if (claimable now nonce wallet) (aw_nonces w) in
      (Inr (AClaimed k),
       w\<lparr>aw_nonces := mark_used now nonce wallet (aw_nonces w),
         aw_claims := replicate k (nonce, wallet) @ aw_claims w\<rparr>))"
| "auth_exec env n (FindBetaAccess wallet) w = (Inr (AFound (wallet \<in> set (aw_beta w))), w)"

definition auth_handle :: "aenv \<Rightarrow> acall \<Rightarrow> aworld \<Rightarrow> (auth_error + aresp) \<times> aworld" where
  "auth_handle env c w =
     (let n = aw_calls w;
          w0 = w\<lparr>aw_clock := aw_clock w + an_elapsed env n, aw_calls := Suc n\<rparr> in
      case an_fault env n of
        Some (LostBefore e) \<Rightarrow> (Inl (Unavailable e), w0)
      | Some (LostAfter e) \<Rightarrow> (Inl (Unavailable e), snd (auth_exec env n c w0))
      | None \<Rightarrow> auth_exec env n c w0)"

type_synonym 'a aasync = "(acall, aresp, auth_error, 'a) async"

definition acallE :: "acall \<Rightarrow> (aresp \<Rightarrow> 'a option) \<Rightarrow> 'a aasync" where
  "acallE c get =
     Call c (\<lambda>r. case r of
        Inl e \<Rightarrow> throwE e
      | Inr a \<Rightarrow> (case get a of Some x \<Rightarrow> returnE x | None \<Rightarrow> throwE (Unavailable ''unexpected answer'')))"

fun as_nonce :: "aresp \<Rightarrow> (string \<times> int) option" where
  "as_nonce (ANonce n e) = Some (n, e)" | "as_nonce _ = None"
fun as_deleted :: "aresp \<Rightarrow> unit option" where
  "as_deleted ADeleted = Some ()" | "as_deleted _ = None"
fun as_claimed :: "aresp \<Rightarrow> nat option" where
  "as_claimed (AClaimed k) = Some k" | "as_claimed _ = None"
fun as_found :: "aresp \<Rightarrow> bool option" where
  "as_found (AFound b) = Some b" | "as_found _ = None"

section \<open>Issuing\<close>

definition issueAuthNonce :: "crypto \<Rightarrow> string \<Rightarrow> (string \<times> int) aasync" where
  "issueAuthNonce cr walletAddress =
     bindE (guardE (cr_PublicKey cr walletAddress \<noteq> None)
              (AuthError ''walletAddress is not a valid base58 Solana pubkey'' 400)) (\<lambda>_.
     bindE (acallE (CreateNonce walletAddress) as_nonce) (\<lambda>issued.
     bindE (catchE (acallE DeleteExpiredNonces as_deleted) (\<lambda>_. returnE ())) (\<lambda>_.
     returnE issued)))"

text \<open>\<open>POST /auth/nonce\<close>: the status a failure is answered with.\<close>

definition nonce_status :: "auth_error \<Rightarrow> nat" where
  "nonce_status e = (case e of AuthError m s \<Rightarrow> s | _ \<Rightarrow> 500)"

section \<open>Checking a request\<close>

datatype header = One string | Many "string list"

type_synonym headers = "string \<rightharpoonup> header"

definition pickHeader :: "headers \<Rightarrow> string \<Rightarrow> string option" where
  "pickHeader hs key =
     (case hs key of
        None \<Rightarrow> None
      | Some (One v) \<Rightarrow> Some (js_trim v)
      | Some (Many vs) \<Rightarrow> (case vs of [] \<Rightarrow> None | v # _ \<Rightarrow> Some (js_trim v)))"

text \<open>UTF-8 of a string of code units below 256.\<close>

definition utf8_char :: "char \<Rightarrow> bytes" where
  "utf8_char c = (let n = (of_char c :: int) in
     if n < 128 then [word_of_int n] else [word_of_int (192 + n div 64), word_of_int (128 + n mod 64)])"

definition utf8 :: "string \<Rightarrow> bytes" where
  "utf8 s = concat (map utf8_char s)"

definition verifyEd25519Detached :: "crypto \<Rightarrow> bytes \<Rightarrow> bytes \<Rightarrow> bytes \<Rightarrow> bool" where
  "verifyEd25519Detached cr message signature rawPubkey =
     (if length rawPubkey \<noteq> 32 then False
      else if length signature \<noteq> 64 then False
      else cr_verify cr message signature rawPubkey)"

record AuthenticatedWallet =
  auth_address :: string
  auth_pubkey :: bytes

definition missing :: "string option \<Rightarrow> bool" where
  "missing v = (case v of None \<Rightarrow> True | Some s \<Rightarrow> s = [])"

definition requireWalletSignature :: "crypto \<Rightarrow> headers \<Rightarrow> AuthenticatedWallet aasync" where
  "requireWalletSignature cr hs =
     (let walletHeader = pickHeader hs ''x-wallet-address'';
          nonceHeader = pickHeader hs ''x-signed-nonce'';
          signatureHeader = pickHeader hs ''x-signature'' in
      if missing walletHeader \<or> missing nonceHeader \<or> missing signatureHeader
      then throwE (HttpReply 401 ''Unauthorized'')
      else (case cr_PublicKey cr (the walletHeader) of
          None \<Rightarrow> throwE (HttpReply 401 ''Unauthorized'')
        | Some pubkey \<Rightarrow>
            let signatureBytes = cr_base64 cr (the signatureHeader) in
            bindE (guardE (length signatureBytes = 64) (HttpReply 401 ''Unauthorized'')) (\<lambda>_.
            bindE (acallE (ClaimNonce (the nonceHeader) (the walletHeader)) as_claimed) (\<lambda>count.
            bindE (guardE (count = 1) (HttpReply 401 ''Unauthorized'')) (\<lambda>_.
            bindE (guardE (verifyEd25519Detached cr (utf8 (the nonceHeader)) signatureBytes pubkey)
                     (HttpReply 401 ''Unauthorized'')) (\<lambda>_.
            returnE \<lparr>auth_address = cr_toBase58 cr pubkey, auth_pubkey = pubkey\<rparr>))))))"

definition requireBetaAccess :: "AuthenticatedWallet option \<Rightarrow> unit aasync" where
  "requireBetaAccess wallet =
     (case wallet of
        None \<Rightarrow> throwE (HttpReply 500 ''ServerMisconfigured'')
      | Some wl \<Rightarrow>
          bindE (acallE (FindBetaAccess (auth_address wl)) as_found) (\<lambda>row.
          guardE row (HttpReply 403 ''Forbidden'')))"

text \<open>The pre-handlers of a protected route, in the order the routes register them.\<close>

definition protect :: "crypto \<Rightarrow> headers \<Rightarrow> AuthenticatedWallet aasync" where
  "protect cr hs =
     bindE (requireWalletSignature cr hs) (\<lambda>wallet.
     bindE (requireBetaAccess (Some wallet)) (\<lambda>_. returnE wallet))"

definition assertBodyWalletMatchesAuth ::
    "AuthenticatedWallet option \<Rightarrow> string option \<Rightarrow> auth_error + bool" where
  "assertBodyWalletMatchesAuth wallet bodyWallet =
     (case wallet of
        None \<Rightarrow> Inl (HttpReply 500 ''ServerMisconfigured'')
      | Some wl \<Rightarrow>
          if missing bodyWallet \<or> bodyWallet \<noteq> Some (auth_address wl)
          then Inl (HttpReply 403 ''Forbidden'') else Inr True)"

section \<open>The admin token\<close>

definition starts_with :: "string \<Rightarrow> string \<Rightarrow> bool" where
  "starts_with p s = (take (length p) s = p)"

definition requireAdminToken :: "string option \<Rightarrow> headers \<Rightarrow> auth_error + unit" where
  "requireAdminToken adminToken hs =
     (if missing adminToken then Inl (HttpReply 503 ''AdminDisabled'')
      else
        let presented = (case pickHeader hs ''authorization'' of None \<Rightarrow> [] | Some s \<Rightarrow> s);
            stripped = (if starts_with ''Bearer '' presented then drop 7 presented else presented);
            a = utf8 stripped; b = utf8 (the adminToken)
        in if length a \<noteq> length b \<or> a \<noteq> b then Inl (HttpReply 401 ''Unauthorized'') else Inr ())"


section \<open>A nonce is used once\<close>

definition drawn :: "aenv \<Rightarrow> nat \<Rightarrow> string set" where
  "drawn env n = an_random env ` {..<n}"

lemma drawn_Suc: "drawn env n \<subseteq> drawn env (Suc n)"
  by (auto simp: drawn_def)

lemma drawn_new: "an_random env n \<in> drawn env (Suc n)"
  by (simp add: drawn_def)

lemma drawn_fresh: "inj (an_random env) \<Longrightarrow> an_random env n \<notin> drawn env n"
  by (auto simp: drawn_def inj_def)

definition nonce_inv :: "aenv \<Rightarrow> aworld \<Rightarrow> bool" where
  "nonce_inv env w \<longleftrightarrow>
     distinct (map nn_nonce (aw_nonces w)) \<and>
     nn_nonce ` set (aw_nonces w) \<union> fst ` set (aw_claims w) \<subseteq> drawn env (aw_calls w) \<and>
     distinct (map fst (aw_claims w)) \<and>
     (\<forall>r \<in> set (aw_nonces w). nn_nonce r \<in> fst ` set (aw_claims w) \<longrightarrow> nn_used r)"

lemma mark_used_ids [simp]: "map nn_nonce (mark_used now x wl rs) = map nn_nonce rs"
  by (simp add: mark_used_def o_def)

lemma mark_used_ids_set [simp]: "nn_nonce ` set (mark_used now x wl rs) = nn_nonce ` set rs"
  by (metis list.set_map mark_used_ids)

lemma mark_used_row:
  "r \<in> set (mark_used now x wl rs) \<Longrightarrow>
     \<exists>q \<in> set rs. nn_nonce r = nn_nonce q \<and> (nn_used q \<or> claimable now x wl q \<longrightarrow> nn_used r)"
  by (auto simp: mark_used_def)

lemma distinct_claims: "distinct (map fst cs) \<Longrightarrow> count_if (\<lambda>claim. fst claim = x) cs \<le> 1"
  by (induction cs) (auto simp: count_if_def filter_empty_conv image_iff)

lemma claimable_unique:
  assumes "distinct (map nn_nonce rs)"
  shows "count_if (claimable now x wl) rs = 0 \<or>
    count_if (claimable now x wl) rs = 1 \<and> (\<exists>r \<in> set rs. claimable now x wl r)"
  using assms
proof (induction rs)
  case (Cons r rs)
  show ?case
  proof (cases "claimable now x wl r")
    case True
    then have "\<not> claimable now x wl q" if "q \<in> set rs" for q
      using Cons.prems that by (auto simp: claimable_def image_iff)
    then have "count_if (claimable now x wl) rs = 0" by (auto simp: count_if_def filter_empty_conv)
    with True show ?thesis by simp
  next
    case False
    with Cons show ?thesis by auto
  qed
qed simp

lemma auth_exec_inv:
  assumes "inj (an_random env)" and "nonce_inv env w"
  shows "nonce_inv env ((snd (auth_exec env (aw_calls w) c (w\<lparr>aw_clock := t, aw_calls := Suc (aw_calls w)\<rparr>))))"
proof (cases c)
  case (CreateNonce wallet)
  have "an_random env (aw_calls w) \<notin> nn_nonce ` set (aw_nonces w) \<union> fst ` set (aw_claims w)"
    using assms drawn_fresh [of env "aw_calls w"] by (auto simp: nonce_inv_def)
  with assms(2) CreateNonce drawn_Suc [of env "aw_calls w"] drawn_new [of env "aw_calls w"] show ?thesis
    by (auto simp: nonce_inv_def Let_def)
next
  case DeleteExpiredNonces
  with assms(2) drawn_Suc [of env "aw_calls w"] show ?thesis
    by (auto simp: nonce_inv_def distinct_map_filter)
next
  case (ClaimNonce x wl)
  let ?k = "count_if (claimable (int t) x wl) (aw_nonces w)"
  have d: "distinct (map nn_nonce (aw_nonces w))"
    and old: "\<And>q. q \<in> set (aw_nonces w) \<Longrightarrow> nn_nonce q \<in> fst ` set (aw_claims w) \<Longrightarrow> nn_used q"
    using assms(2) by (auto simp: nonce_inv_def)
  consider "?k = 0" | r where "?k = 1" "r \<in> set (aw_nonces w)" "claimable (int t) x wl r"
    using claimable_unique [OF d, where now = "int t" and x = x and wl = wl] by (elim disjE conjE bexE) auto
  then show ?thesis
  proof cases
    case 1
    have "nn_used r" if "r \<in> set (mark_used (int t) x wl (aw_nonces w))" "nn_nonce r \<in> fst ` set (aw_claims w)" for r
      using mark_used_row [OF that(1)] that(2) old by metis
    with 1 assms(2) ClaimNonce drawn_Suc [of env "aw_calls w"] show ?thesis
      by (auto simp: nonce_inv_def Let_def)
  next
    case 2
    have x: "x \<in> nn_nonce ` set (aw_nonces w)" "x \<notin> fst ` set (aw_claims w)"
      using 2 old by (auto simp: claimable_def)
    have "nn_used p" if m: "p \<in> set (mark_used (int t) x wl (aw_nonces w))" and c: "nn_nonce p = x \<or> nn_nonce p \<in> fst ` set (aw_claims w)" for p
    proof -
      obtain q where q: "q \<in> set (aw_nonces w)" "nn_nonce p = nn_nonce q" "nn_used q \<or> claimable (int t) x wl q \<longrightarrow> nn_used p"
        using mark_used_row [OF m] by blast
      show ?thesis
      proof (cases "nn_nonce p = x")
        case True
        then have "q = r" using d q(1,2) 2 by (auto simp: claimable_def distinct_map dest: inj_onD)
        with q(3) 2 show ?thesis by simp
      qed (use c q old in metis)
    qed
    moreover have "x \<in> drawn env (Suc (aw_calls w))"
      using x(1) assms(2) drawn_Suc [of env "aw_calls w"] by (auto simp: nonce_inv_def)
    ultimately show ?thesis
      using assms(2) ClaimNonce 2(1) x(2) drawn_Suc [of env "aw_calls w"]
      by (auto simp: nonce_inv_def Let_def)
  qed
next
  case (FindBetaAccess wallet)
  with assms(2) drawn_Suc [of env "aw_calls w"] show ?thesis by (auto simp: nonce_inv_def)
qed

lemma auth_handle_inv:
  assumes "inj (an_random env)" and "nonce_inv env w"
  shows "nonce_inv env (snd (auth_handle env c w))"
proof -
  have "nonce_inv env (w\<lparr>aw_clock := aw_clock w + an_elapsed env (aw_calls w), aw_calls := Suc (aw_calls w)\<rparr>)"
    using assms(2) drawn_Suc [of env "aw_calls w"] by (auto simp: nonce_inv_def)
  then show ?thesis
    using auth_exec_inv [OF assms] by (auto simp: auth_handle_def Let_def split: option.splits fault.splits)
qed

text \<open>The invariant as a contract: with unique random nonces no call can break it.\<close>

definition nonce_contract :: "aenv \<Rightarrow> aworld \<Rightarrow> bool" where
  "nonce_contract env w \<longleftrightarrow> inj (an_random env) \<longrightarrow> nonce_inv env w"

interpretation nonces: guarded_world "auth_handle env" "nonce_contract env" "\<lambda>c. True" for env
  by unfold_locales (simp add: nonce_contract_def auth_handle_inv)

definition empty_auth :: "string list \<Rightarrow> aworld" where
  "empty_auth beta = \<lparr>aw_nonces = [], aw_beta = beta, aw_clock = 0, aw_claims = [], aw_calls = 0\<rparr>"

lemma makes_only_True [simp]: "makes_only (\<lambda>c. True) p"
  by (induction p) auto

text \<open>
  C14.  Safety: however requests for nonces and signed requests interleave, and whatever database
  calls are lost, a nonce is claimed at most once, so a captured signed request cannot be
  replayed, in parallel or later, before or after the expired rows are deleted.
\<close>

theorem nonce_claimed_once:
  assumes "inj (an_random env)" and "ireach (auth_handle env) entry (empty_auth beta) (w, ts)"
  shows "count_if (\<lambda>claim. fst claim = nonce) (aw_claims w) \<le> 1"
proof -
  have "nonce_contract env w"
    using nonces.ireach_keeps [OF assms(2)] by (simp add: nonce_contract_def nonce_inv_def empty_auth_def)
  then have "distinct (map fst (aw_claims w))" using assms(1) by (simp add: nonce_contract_def nonce_inv_def)
  then show ?thesis by (rule distinct_claims)
qed


text \<open>One nonce is issued, then presented by two overlapping requests: one of them claims it.\<close>

definition demo_crypto :: crypto where
  "demo_crypto = \<lparr>cr_PublicKey = (\<lambda>s. if s = ''wallet'' then Some (replicate 32 1) else None),
     cr_toBase58 = (\<lambda>_. ''wallet''), cr_base64 = (\<lambda>_. replicate 64 2),
     cr_verify = (\<lambda>message signature key. message = [97])\<rparr>"

definition demo_auth_env :: aenv where
  "demo_auth_env = \<lparr>an_elapsed = (\<lambda>_. 1), an_fault = (\<lambda>_. None), an_random = (\<lambda>n. replicate (Suc n) CHR ''a'')\<rparr>"

definition demo_headers :: headers where
  "demo_headers = [''x-wallet-address'' \<mapsto> One ''wallet'', ''x-signed-nonce'' \<mapsto> Many ['' a '', ''b''],
     ''x-signature'' \<mapsto> One ''sig'']"

definition answered :: "'a aasync \<Rightarrow> bool aasync" where
  "answered p = catchE (bindE p (\<lambda>_. returnE True)) (\<lambda>_. returnE False)"

definition demo_claims :: "aworld \<times> (acall, (auth_error, aresp) res, (auth_error, bool) res) prog list" where
  "demo_claims = run_schedule (auth_handle demo_auth_env) [0, 1, 2, 0, 1, 2]
     (empty_auth [''wallet''], [answered (issueAuthNonce demo_crypto ''wallet''),
        answered (protect demo_crypto demo_headers), answered (protect demo_crypto demo_headers)])"

lemma demo_random_inj: "inj (an_random demo_auth_env)"
proof (rule injI)
  fix m n
  assume "an_random demo_auth_env m = an_random demo_auth_env n"
  then have "length (an_random demo_auth_env m) = length (an_random demo_auth_env n)" by simp
  then show "m = n" by (simp add: demo_auth_env_def)
qed

lemma demo_claims_reach: "ireach (auth_handle demo_auth_env) (\<lambda>_. True) (empty_auth [''wallet'']) demo_claims"
  unfolding demo_claims_def
  by (rule ireach_run_schedule, use ireach_admit_all [OF ireach.start] in force) simp

lemma demo_claims_value: "aw_claims (fst demo_claims) = [(''a'', ''wallet'')]"
  by code_simp

theorem nonce_claimed_once_witness:
  "count_if (\<lambda>claim. fst claim = ''a'') (aw_claims (fst demo_claims)) \<le> 1 \<and>
   aw_claims (fst demo_claims) = [(''a'', ''wallet'')]"
  using nonce_claimed_once [OF demo_random_inj,
      of "\<lambda>_. True" "[''wallet'']" "fst demo_claims" "snd demo_claims" "''a''"]
    demo_claims_reach demo_claims_value by simp

section \<open>What an accepted request proves\<close>

lemma acallE_ok:
  "run (auth_handle env) (acallE c get) w = (Inr x, w') \<longleftrightarrow>
     (\<exists>a. auth_handle env c w = (Inr a, w') \<and> get a = Some x)"
  by (cases "auth_handle env c w") (auto simp: acallE_def split: sum.splits option.splits)

lemma auth_handle_ok:
  assumes "auth_handle env c w = (Inr a, w')"
  shows "\<exists>t \<ge> aw_clock w. auth_exec env (aw_calls w) c (w\<lparr>aw_clock := t, aw_calls := Suc (aw_calls w)\<rparr>) = (Inr a, w')"
  using assms by (intro exI [of _ "aw_clock w + an_elapsed env (aw_calls w)"])
    (auto simp: auth_handle_def Let_def simp del: auth_exec.simps split: option.splits fault.splits)

lemma claim_ok:
  assumes "auth_handle env (ClaimNonce nonce address) w = (Inr a, w')" and "as_claimed a = Some 1"
  shows "(\<exists>r \<in> set (aw_nonces w). claimable (int (aw_clock w)) nonce address r) \<and>
    aw_claims w' = (nonce, address) # aw_claims w \<and> aw_beta w' = aw_beta w \<and>
    (\<forall>r \<in> set (aw_nonces w'). \<not> claimable (int (aw_clock w')) nonce address r)"
proof -
  obtain t where t: "aw_clock w \<le> t"
    and e: "auth_exec env (aw_calls w) (ClaimNonce nonce address) (w\<lparr>aw_clock := t, aw_calls := Suc (aw_calls w)\<rparr>) = (Inr a, w')"
    using auth_handle_ok [OF assms(1)] by blast
  have k: "count_if (claimable (int t) nonce address) (aw_nonces w) = 1"
    using e assms(2) by (auto simp: Let_def)
  then have "filter (claimable (int t) nonce address) (aw_nonces w) \<noteq> []" by (auto simp: count_if_def)
  then obtain r where "r \<in> set (aw_nonces w)" "claimable (int t) nonce address r"
    by (auto simp: filter_empty_conv)
  with t have "\<exists>r \<in> set (aw_nonces w). claimable (int (aw_clock w)) nonce address r"
    by (intro bexI [of _ r]) (auto simp: claimable_def)
  with e k show ?thesis by (auto simp: Let_def mark_used_def claimable_def)
qed

text \<open>
  C17.  Safety: a request that passes the wallet signature and the beta gate presented the three
  headers, its nonce was stored, unused, unexpired and bound to the wallet of the header, it has
  just been claimed and no row of it can be claimed again, the signature of its bytes verifies under the 32-byte key of that
  wallet, and the wallet is on the beta list.
\<close>

theorem accepted_requests_are_authentic:
  assumes "run (auth_handle env) (protect cr hs) w = (Inr wallet, w')"
  shows "\<exists>address nonce signature r.
     pickHeader hs ''x-wallet-address'' = Some address \<and>
     pickHeader hs ''x-signed-nonce'' = Some nonce \<and>
     pickHeader hs ''x-signature'' = Some signature \<and>
     r \<in> set (aw_nonces w) \<and> nn_nonce r = nonce \<and> nn_wallet r = address \<and>
     \<not> nn_used r \<and> int (aw_clock w) < nn_expiresAt r \<and>
     aw_claims w' = (nonce, address) # aw_claims w \<and>
     (\<forall>q \<in> set (aw_nonces w'). \<not> claimable (int (aw_clock w')) nonce address q) \<and>
     cr_PublicKey cr address = Some (auth_pubkey wallet) \<and> length (auth_pubkey wallet) = 32 \<and>
     length (cr_base64 cr signature) = 64 \<and>
     cr_verify cr (utf8 nonce) (cr_base64 cr signature) (auth_pubkey wallet) \<and>
     auth_address wallet = cr_toBase58 cr (auth_pubkey wallet) \<and> auth_address wallet \<in> set (aw_beta w)"
proof -
  obtain w1 where s: "run (auth_handle env) (requireWalletSignature cr hs) w = (Inr wallet, w1)"
    and b: "run (auth_handle env) (requireBetaAccess (Some wallet)) w1 = (Inr (), w')"
    using assms by (auto simp: protect_def run_bindE split: prod.splits sum.splits)
  obtain address nonce signature key a where h: "pickHeader hs ''x-wallet-address'' = Some address"
      "pickHeader hs ''x-signed-nonce'' = Some nonce" "pickHeader hs ''x-signature'' = Some signature"
      "cr_PublicKey cr address = Some key" "length (cr_base64 cr signature) = 64"
    and c: "auth_handle env (ClaimNonce nonce address) w = (Inr a, w1)" "as_claimed a = Some 1"
    and v: "verifyEd25519Detached cr (utf8 nonce) (cr_base64 cr signature) key"
      "wallet = \<lparr>auth_address = cr_toBase58 cr key, auth_pubkey = key\<rparr>"
    using s by (auto simp: requireWalletSignature_def Let_def missing_def run_bindE run_guardE acallE_ok
        split: option.splits prod.splits sum.splits if_splits)
  note claim = claim_ok [OF c]
  have e: "aw_nonces w' = aw_nonces w1" "aw_claims w' = aw_claims w1" "aw_clock w1 \<le> aw_clock w'"
    "auth_address wallet \<in> set (aw_beta w1)"
    using b auth_handle_ok [of env "FindBetaAccess (auth_address wallet)" w1]
    by (auto simp: requireBetaAccess_def run_bindE run_guardE acallE_ok split: prod.splits sum.splits if_splits)
  have "\<not> claimable (int (aw_clock w')) nonce address q" if "q \<in> set (aw_nonces w')" for q
    using claim e that by (fastforce simp: claimable_def)
  then show ?thesis
    using h v claim e unfolding claimable_def verifyEd25519Detached_def
    by (auto split: if_splits)
qed

definition demo_stored :: aworld where
  "demo_stored = \<lparr>aw_nonces = [\<lparr>nn_nonce = ''a'', nn_wallet = ''wallet'', nn_expiresAt = 9, nn_used = False\<rparr>],
     aw_beta = [''wallet''], aw_clock = 0, aw_claims = [], aw_calls = 0\<rparr>"

lemma demo_accepted:
  "fst (run (auth_handle demo_auth_env) (protect demo_crypto demo_headers) demo_stored)
    = Inr \<lparr>auth_address = ''wallet'', auth_pubkey = replicate 32 1\<rparr>"
  by code_simp

theorem accepted_requests_are_authentic_witness:
  "\<exists>r \<in> set (aw_nonces demo_stored). nn_wallet r = ''wallet'' \<and> \<not> nn_used r \<and> nn_nonce r = ''a''"
proof -
  obtain w' where "run (auth_handle demo_auth_env) (protect demo_crypto demo_headers) demo_stored
      = (Inr \<lparr>auth_address = ''wallet'', auth_pubkey = replicate 32 1\<rparr>, w')"
    using demo_accepted by (metis prod.collapse)
  moreover have "pickHeader demo_headers ''x-wallet-address'' = Some ''wallet''"
    "pickHeader demo_headers ''x-signed-nonce'' = Some ''a''"
    by code_simp+
  ultimately show ?thesis using accepted_requests_are_authentic by fastforce
qed

section \<open>The admin gate\<close>

lemma byte_inj: "0 \<le> a \<Longrightarrow> a < 256 \<Longrightarrow> 0 \<le> b \<Longrightarrow> b < 256 \<Longrightarrow> (word_of_int a :: 8 word) = word_of_int b \<longleftrightarrow> a = b"
  by (simp add: word_of_int_eq_iff take_bit_eq_mod)

lemma of_char_byte: "0 \<le> (of_char c :: int)" "(of_char c :: int) < 256"
  using nat_of_char_less_256 [of c] of_nat_of_char [of c, where 'a = int] by linarith+

lemma utf8_char_inj:
  assumes "utf8_char c @ xs = utf8_char d @ ys"
  shows "c = d \<and> xs = ys"
proof -
  define m n where mn: "m = (of_char c :: int)" "n = (of_char d :: int)"
  have r: "0 \<le> m" "m < 256" "0 \<le> n" "n < 256" using of_char_byte mn by auto
  then have q: "0 \<le> 192 + m div 64" "192 + m div 64 < 256" "0 \<le> 192 + n div 64" "192 + n div 64 < 256"
    "0 \<le> 128 + m mod 64" "128 + m mod 64 < 256" "0 \<le> 128 + n mod 64" "128 + n mod 64 < 256"
    using pos_mod_bound [of 64 m] pos_mod_bound [of 64 n] pos_mod_sign [of 64 m] pos_mod_sign [of 64 n]
    by linarith+
  have e: "m = 64 * (m div 64) + m mod 64" "n = 64 * (n div 64) + n mod 64" by simp_all
  have "m = n \<and> xs = ys"
  proof (cases "m < 128"; cases "n < 128")
    assume "\<not> m < 128" "\<not> n < 128"
    then have "192 + m div 64 = 192 + n div 64" "128 + m mod 64 = 128 + n mod 64" "xs = ys"
      using assms q by (simp_all only: utf8_char_def Let_def mn [symmetric] byte_inj if_False append_Cons append_Nil list.inject)
    then show ?thesis using e by linarith
  next
    assume a: "m < 128" "\<not> n < 128"
    then have "m = 192 + n div 64"
      using assms q r by (simp only: utf8_char_def Let_def mn [symmetric] byte_inj if_False if_True append_Cons append_Nil list.inject)
    with a q r show ?thesis by linarith
  next
    assume a: "\<not> m < 128" "n < 128"
    then have "192 + m div 64 = n"
      using assms q r by (simp only: utf8_char_def Let_def mn [symmetric] byte_inj if_False if_True append_Cons append_Nil list.inject)
    with a q r show ?thesis by linarith
  qed (use assms r byte_inj [of m n] in \<open>simp add: utf8_char_def Let_def mn [symmetric]\<close>)
  then show ?thesis by (simp add: mn of_char_eq_iff)
qed

lemma utf8_inj: "utf8 s = utf8 t \<longleftrightarrow> s = t"
proof (induction s arbitrary: t)
  case Nil
  then show ?case by (cases t) (auto simp: utf8_def utf8_char_def Let_def)
next
  case (Cons c s)
  show ?case
  proof (cases t)
    case Nil
    then show ?thesis by (auto simp: utf8_def utf8_char_def Let_def)
  next
    case t: (Cons d u)
    have "utf8 (c # s) = utf8_char c @ utf8 s" "utf8 t = utf8_char d @ utf8 u"
      by (simp_all add: t utf8_def)
    with Cons.IH [of u] t show ?thesis by (metis utf8_char_inj)
  qed
qed

lemma starts_with_iff: "starts_with p s \<longleftrightarrow> (\<exists>u. s = p @ u)"
  unfolding starts_with_def by (metis append_eq_conv_conj append_take_drop_id)

lemma gate_eq:
  "((if length (utf8 x) \<noteq> length (utf8 t) \<or> x \<noteq> t then Inl e else Inr ()) = Inr ()) = (x = t)"
  by auto

text \<open>
   Functional: the admin pre-handler answers 503 exactly when no token is configured and
  lets a request through exactly when its authorization header, with or without the
  \<open>Bearer\<close> prefix, is the configured token.
\<close>

theorem admin_gate_exact:
  "(requireAdminToken token hs = Inl (HttpReply 503 ''AdminDisabled'') \<longleftrightarrow> token = None \<or> token = Some []) \<and>
   (requireAdminToken token hs = Inr () \<longleftrightarrow>
      (\<exists>t presented. token = Some t \<and> t \<noteq> [] \<and> pickHeader hs ''authorization'' = Some presented \<and>
         (presented = ''Bearer '' @ t \<or> presented = t \<and> \<not> starts_with ''Bearer '' t)))"
proof -
  have s: "(if starts_with ''Bearer '' p then drop 7 p else p) = t \<longleftrightarrow>
      p = ''Bearer '' @ t \<or> p = t \<and> \<not> starts_with ''Bearer '' t" for p t
  proof (cases "starts_with ''Bearer '' p")
    case True
    then obtain u where u: "p = ''Bearer '' @ u" using starts_with_iff by blast
    moreover have "starts_with ''Bearer '' (''Bearer '' @ u)" unfolding starts_with_iff by blast
    ultimately show ?thesis by auto
  next
    case False
    then have "p \<noteq> ''Bearer '' @ t" unfolding starts_with_iff by blast
    with False show ?thesis by auto
  qed
  show ?thesis
  proof (cases "missing token")
    case True
    then show ?thesis by (auto simp: requireAdminToken_def missing_def split: option.splits)
  next
    case False
    then obtain t where t: "token = Some t" "t \<noteq> []" by (auto simp: missing_def split: option.splits)
    define p where "p = (case pickHeader hs ''authorization'' of None \<Rightarrow> [] | Some s \<Rightarrow> s)"
    have "requireAdminToken token hs = Inr () \<longleftrightarrow> (if starts_with ''Bearer '' p then drop 7 p else p) = t"
      unfolding requireAdminToken_def Let_def utf8_inj p_def [symmetric] t(1) option.sel
        if_not_P [OF False [unfolded t(1)]]
      by (rule gate_eq)
    then have e: "requireAdminToken token hs = Inr () \<longleftrightarrow> p = ''Bearer '' @ t \<or> p = t \<and> \<not> starts_with ''Bearer '' t"
      unfolding s .
    have n: "requireAdminToken token hs \<noteq> Inl (HttpReply 503 ''AdminDisabled'')"
      using False by (simp add: requireAdminToken_def Let_def)
    show ?thesis
    proof (cases "pickHeader hs ''authorization''")
      case None
      then have "p = []" by (simp add: p_def)
      with t n e None show ?thesis by simp
    next
      case (Some q)
      then have q: "q = p" by (simp add: p_def)
      have "(\<exists>t' presented. token = Some t' \<and> t' \<noteq> [] \<and> pickHeader hs ''authorization'' = Some presented \<and>
          (presented = ''Bearer '' @ t' \<or> presented = t' \<and> \<not> starts_with ''Bearer '' t')) \<longleftrightarrow>
        p = ''Bearer '' @ t \<or> p = t \<and> \<not> starts_with ''Bearer '' t"
        unfolding Some q t(1) option.inject using t(2) by blast
      moreover have "token \<noteq> None" "token \<noteq> Some []" using t by simp_all
      ultimately show ?thesis using n e by presburger
    qed
  qed
qed

end
