(* ===== verification/RateLimit.thy ===== *)
theory RateLimit imports Prelude begin

text \<open>
  The in-memory rate limiter of mixer/rate-limit.ts, one fixed window per address.  Times are
  milliseconds; \<open>gc\<close> is the interval callback that prunes windows that have ended.
\<close>

record RateLimiterOpts =
  windowMs :: int
  maxHits :: nat

record Bucket =
  bk_count :: nat
  bk_resetAt :: int

type_synonym buckets = "string \<rightharpoonup> Bucket"

datatype hit_reply = Admitted | TooMany int int

definition client_ip :: "string option \<Rightarrow> string" where
  "client_ip ip = (case ip of None \<Rightarrow> ''unknown'' | Some a \<Rightarrow> if a = [] then ''unknown'' else a)"

definition gcInterval :: "RateLimiterOpts \<Rightarrow> int option \<Rightarrow> int" where
  "gcInterval opts given = (case given of Some g \<Rightarrow> g | None \<Rightarrow> max (windowMs opts * 4) 60000)"

definition retryAfterSec :: "int \<Rightarrow> int" where
  "retryAfterSec retryAfterMs = max 1 (- ((- retryAfterMs) div 1000))"

definition hit :: "RateLimiterOpts \<Rightarrow> int \<Rightarrow> string option \<Rightarrow> buckets \<Rightarrow> hit_reply \<times> buckets" where
  "hit opts now ipaddr buckets =
     (let ip = client_ip ipaddr;
          fresh = (Admitted, buckets(ip \<mapsto> \<lparr>bk_count = 1, bk_resetAt = now + windowMs opts\<rparr>)) in
      case buckets ip of
        None \<Rightarrow> fresh
      | Some b \<Rightarrow>
          if bk_resetAt b \<le> now then fresh
          else if maxHits opts \<le> bk_count b
          then (TooMany (retryAfterSec (bk_resetAt b - now)) (bk_resetAt b - now), buckets)
          else (Admitted, buckets(ip \<mapsto> b\<lparr>bk_count := bk_count b + 1\<rparr>)))"

definition gc :: "int \<Rightarrow> buckets \<Rightarrow> buckets" where
  "gc now buckets ip = (case buckets ip of
       None \<Rightarrow> None
     | Some b \<Rightarrow> if bk_resetAt b \<le> now then None else Some b)"

section \<open>Traces\<close>

datatype limiter_event = Hit int "string option" | Gc int

fun event_time :: "limiter_event \<Rightarrow> int" where
  "event_time (Hit t ip) = t"
| "event_time (Gc t) = t"

text \<open>The state after a trace and the times at which an address was admitted, newest first.\<close>

fun limiter_run :: "RateLimiterOpts \<Rightarrow> string \<Rightarrow> limiter_event list \<Rightarrow> buckets \<times> int list \<Rightarrow> buckets \<times> int list" where
  "limiter_run opts ip [] s = s"
| "limiter_run opts ip (Gc t # evs) (st, hs) = limiter_run opts ip evs (gc t st, hs)"
| "limiter_run opts ip (Hit t a # evs) (st, hs) =
     (case hit opts t a st of (r, st') \<Rightarrow>
        limiter_run opts ip evs (st', if client_ip a = ip \<and> r = Admitted then t # hs else hs))"

definition within :: "int \<Rightarrow> int \<Rightarrow> int list \<Rightarrow> nat" where
  "within a b hs = count_if (\<lambda>t. a \<le> t \<and> t < b) hs"

definition since :: "int \<Rightarrow> int list \<Rightarrow> nat" where
  "since a hs = count_if (\<lambda>t. a \<le> t) hs"

lemma count_if_mono: "(\<And>x. x \<in> set xs \<Longrightarrow> P x \<Longrightarrow> Q x) \<Longrightarrow> count_if P xs \<le> count_if Q xs"
  by (induction xs) (auto intro: le_SucI)

lemma count_if_split: "count_if P xs \<le> count_if (\<lambda>x. P x \<and> Q x) xs + count_if (\<lambda>x. P x \<and> \<not> Q x) xs"
  by (induction xs) auto

lemma within_Cons [simp]: "within a b (t # hs) = (if a \<le> t \<and> t < b then Suc (within a b hs) else within a b hs)"
  by (simp add: within_def)

lemma since_Cons [simp]: "since a (t # hs) = (if a \<le> t then Suc (since a hs) else since a hs)"
  by (simp add: since_def)

text \<open>
  The invariant of one address at time \<open>now\<close>: no admission lies in the future, no interval of
  one window's length holds more than twice the maximum, the current window holds at most its
  counter, and the window's length before it at most the maximum.
\<close>

definition limiter_inv :: "RateLimiterOpts \<Rightarrow> Bucket option \<Rightarrow> int list \<Rightarrow> int \<Rightarrow> bool" where
  "limiter_inv opts b hs now \<longleftrightarrow>
     (\<forall>t \<in> set hs. t \<le> now) \<and>
     (\<forall>t. within t (t + windowMs opts) hs \<le> 2 * maxHits opts) \<and>
     (case b of
        None \<Rightarrow> (\<forall>t \<in> set hs. t < now) \<and> since (now - windowMs opts) hs \<le> maxHits opts
      | Some b \<Rightarrow> (\<forall>t \<in> set hs. t < bk_resetAt b) \<and> since (bk_resetAt b - windowMs opts) hs \<le> bk_count b \<and> bk_count b \<le> maxHits opts \<and>
          within (bk_resetAt b - 2 * windowMs opts) (bk_resetAt b - windowMs opts) hs \<le> maxHits opts \<and>
          bk_resetAt b \<le> now + windowMs opts)"

lemma since_mono: "a \<le> b \<Longrightarrow> since b hs \<le> since a hs"
  unfolding since_def by (rule count_if_mono) auto

lemma within_since: "within a b hs \<le> since a hs"
  unfolding within_def since_def by (rule count_if_mono) auto

lemma within_split: "within a c hs \<le> within a b hs + since b hs"
proof -
  have "within a c hs \<le> count_if (\<lambda>t. (a \<le> t \<and> t < c) \<and> t < b) hs + count_if (\<lambda>t. (a \<le> t \<and> t < c) \<and> \<not> t < b) hs"
    unfolding within_def by (rule count_if_split)
  also have "\<dots> \<le> within a b hs + since b hs"
    unfolding within_def since_def by (intro add_mono count_if_mono) auto
  finally show ?thesis .
qed

lemma within_antimono: "a' \<le> a \<Longrightarrow> within a b hs \<le> within a' b hs"
  unfolding within_def by (rule count_if_mono) auto

lemma since_none: "\<forall>t \<in> set hs. t < a \<Longrightarrow> since a hs = 0"
  unfolding since_def count_if_def by (auto simp: filter_empty_conv)

lemma since_le: "since a hs \<le> k \<Longrightarrow> a \<le> b \<Longrightarrow> since b hs \<le> k"
  using since_mono order_trans by blast

lemma inv_time:
  assumes "limiter_inv opts b hs now" and "now \<le> now'"
  shows "limiter_inv opts b hs now'"
proof (cases b)
  case None
  have "since (now' - windowMs opts) hs \<le> maxHits opts"
    by (rule since_le [of "now - windowMs opts"]) (use None assms in \<open>auto simp: limiter_inv_def\<close>)
  with None assms show ?thesis by (fastforce simp: limiter_inv_def)
next
  case (Some b)
  with assms show ?thesis by (fastforce simp: limiter_inv_def)
qed

lemma inv_fresh:
  assumes inv: "limiter_inv opts b hs now" and "1 \<le> maxHits opts" and "0 < windowMs opts"
    and ended: "\<And>x. b = Some x \<Longrightarrow> bk_resetAt x \<le> now"
  shows "limiter_inv opts (Some \<lparr>bk_count = 1, bk_resetAt = now + windowMs opts\<rparr>) (now # hs) now"
proof -
  let ?W = "windowMs opts"
  have past: "\<forall>t \<in> set hs. t < now"
    using inv ended by (cases b) (fastforce simp: limiter_inv_def)+
  have recent: "since (now - ?W) hs \<le> maxHits opts"
  proof (cases b)
    case (Some x)
    then have "since (bk_resetAt x - ?W) hs \<le> maxHits opts" using inv by (simp add: limiter_inv_def)
    then show ?thesis by (rule since_le) (use ended [OF Some] in simp)
  qed (use inv in \<open>simp add: limiter_inv_def\<close>)
  have "within t (t + ?W) (now # hs) \<le> 2 * maxHits opts" for t
  proof (cases "t \<le> now \<and> now < t + ?W")
    case True
    then have "within t (t + ?W) hs \<le> since (now - ?W) hs"
      by (intro order_trans [OF within_since since_mono]) simp
    with True recent assms(2) show ?thesis by simp
  next
    case False
    then show ?thesis using inv by (auto simp: limiter_inv_def)
  qed
  moreover have "within (now - ?W) now (now # hs) \<le> maxHits opts"
    using order_trans [OF within_since recent] by simp
  moreover have "since now (now # hs) = 1" using since_none [OF past] by simp
  ultimately show ?thesis
    using past assms(2,3) by (fastforce simp: limiter_inv_def)
qed

lemma inv_counted:
  assumes inv: "limiter_inv opts (Some b) hs now" and "now < bk_resetAt b" and "bk_count b < maxHits opts"
    and "0 < windowMs opts"
  shows "limiter_inv opts (Some (b\<lparr>bk_count := bk_count b + 1\<rparr>)) (now # hs) now"
proof -
  let ?W = "windowMs opts" and ?s = "bk_resetAt b - windowMs opts"
  have i: "since ?s hs \<le> bk_count b" "within (?s - ?W) ?s hs \<le> maxHits opts" "?s \<le> now" "\<forall>t \<in> set hs. t < bk_resetAt b"
    using inv by (auto simp: limiter_inv_def algebra_simps)
  have "within t (t + ?W) (now # hs) \<le> 2 * maxHits opts" for t
  proof (cases "t \<le> now \<and> now < t + ?W")
    case True
    then have "within t ?s hs \<le> within (?s - ?W) ?s hs"
      by (intro within_antimono) (use i(3) in linarith)
    then have "within t (t + ?W) hs \<le> maxHits opts + bk_count b"
      using within_split [of t "t + ?W" hs ?s] i(1,2) by linarith
    with True assms(3) show ?thesis by simp
  next
    case False
    then show ?thesis using inv by (auto simp: limiter_inv_def)
  qed
  moreover have "within (?s - ?W) ?s (now # hs) \<le> maxHits opts" using i by simp
  ultimately show ?thesis
    using inv i assms(2,3) by (fastforce simp: limiter_inv_def algebra_simps)
qed

lemma inv_gc: "limiter_inv opts (st ip) hs now \<Longrightarrow> limiter_inv opts (gc now st ip) hs now"
proof (cases "st ip")
  case (Some b)
  assume inv: "limiter_inv opts (st ip) hs now"
  have "since (now - windowMs opts) hs \<le> maxHits opts" if "bk_resetAt b \<le> now"
    by (rule since_le [of "bk_resetAt b - windowMs opts"]) (use inv Some that in \<open>auto simp: limiter_inv_def\<close>)
  with inv Some show ?thesis by (fastforce simp: gc_def limiter_inv_def)
qed (simp add: gc_def)

lemma inv_hit:
  assumes "limiter_inv opts (st ip) hs now" and "1 \<le> maxHits opts" and "0 < windowMs opts"
    and "hit opts now a st = (r, st')"
  shows "limiter_inv opts (st' ip) (if client_ip a = ip \<and> r = Admitted then now # hs else hs) now"
proof (cases "client_ip a = ip")
  case True
  show ?thesis
  proof (cases "st ip")
    case None
    with True assms inv_fresh [OF assms(1-3)] show ?thesis by (auto simp: hit_def Let_def)
  next
    case (Some b)
    with True assms inv_fresh [OF assms(1-3)] inv_counted [of opts b hs now] show ?thesis
      by (auto simp: hit_def Let_def split: if_splits)
  qed
next
  case False
  with assms(1,4) show ?thesis by (auto simp: hit_def Let_def split: option.splits if_splits)
qed

lemma limiter_run_inv:
  "1 \<le> maxHits opts \<Longrightarrow> 0 < windowMs opts \<Longrightarrow> limiter_inv opts (fst s ip) (snd s) now \<Longrightarrow>
     sorted (now # map event_time evs) \<Longrightarrow>
     \<exists>now'. limiter_inv opts (fst (limiter_run opts ip evs s) ip) (snd (limiter_run opts ip evs s)) now'"
proof (induction opts ip evs s arbitrary: now rule: limiter_run.induct)
  case (2 opts ip t evs st hs)
  have "limiter_inv opts (gc t st ip) hs t"
    using inv_time [of opts "st ip" hs now t] inv_gc 2(4,5) by simp
  with 2 show ?case by simp
next
  case (3 opts ip t a evs st hs)
  obtain r st' where h: "hit opts t a st = (r, st')" by fastforce
  have "limiter_inv opts (st ip) hs t" using inv_time [of opts "st ip" hs now t] 3(4,5) by simp
  then have "limiter_inv opts (st' ip) (if client_ip a = ip \<and> r = Admitted then t # hs else hs) t"
    by (rule inv_hit [OF _ 3(2,3) h])
  with h 3 show ?case by simp
qed auto

text \<open>
  C38.  Bounds: over every trace of requests and prunings in time order, an address is admitted
  at most twice the maximum in any interval as long as the window, wherever the interval starts.
\<close>

theorem rate_limit_bound:
  assumes "1 \<le> maxHits opts" and "0 < windowMs opts" and "sorted (map event_time evs)"
  shows "within t (t + windowMs opts) (snd (limiter_run opts ip evs (Map.empty, []))) \<le> 2 * maxHits opts"
proof (cases evs)
  case (Cons ev rest)
  have "limiter_inv opts (fst (Map.empty, []) ip) (snd (Map.empty :: buckets, [])) (event_time ev)"
    by (simp add: limiter_inv_def within_def since_def)
  from limiter_run_inv [where s = "(Map.empty, [])" and ip = ip, OF assms(1,2) this, of evs] assms(3) Cons
  obtain now' where "limiter_inv opts (fst (limiter_run opts ip evs (Map.empty, [])) ip)
      (snd (limiter_run opts ip evs (Map.empty, []))) now'" by auto
  then show ?thesis by (simp add: limiter_inv_def)
qed (simp add: within_def)


definition burst :: "limiter_event list" where
  "burst = [Hit 0 None, Hit 900 None, Hit 950 None, Hit 1000 None, Hit 1050 None, Hit 1100 None]"

theorem rate_limit_bound_witness:
  "within 900 (900 + 1000) (snd (limiter_run \<lparr>windowMs = 1000, maxHits = 2\<rparr> ''unknown'' burst (Map.empty, []))) \<le> 2 * 2"
  using rate_limit_bound [of "\<lparr>windowMs = 1000, maxHits = 2\<rparr>" burst 900 "''unknown''"] by (simp add: burst_def)

text \<open>The factor of two is reached: a burst at the end of a window and one at the start of the next.\<close>

lemma rate_limit_bound_tight:
  "snd (limiter_run \<lparr>windowMs = 1000, maxHits = 2\<rparr> ''unknown'' burst (Map.empty, [])) = [1050, 1000, 900, 0]"
  by code_simp

end
