(* ===== verification/PositionController.thy ===== *)
theory PositionController imports PositionOutcomes WalletAuth RateLimit begin

text \<open>
  position.schema.ts, position.controller.ts and position.routes.ts: the HTTP face of the position
  service.  A request passes the rate limiter of its route, the schema, the wallet signature and
  the beta gate, and then the handler, which checks the owner before it calls the service.
\<close>

section \<open>Schemas\<close>

text \<open>The body of a request: the properties that are strings, after coercion.\<close>

type_synonym json_body = "string \<rightharpoonup> string"

definition parse_action :: "string \<Rightarrow> PositionAction option" where
  "parse_action s =
     (if s = ''add-liquidity'' then Some AddLiquidityAction
      else if s = ''claim'' then Some ClaimAction
      else if s = ''withdraw-close'' then Some WithdrawCloseAction else None)"

definition parse_mode :: "string \<Rightarrow> ExecutionMode option" where
  "parse_mode s = (if s = ''standard'' then Some Standard else if s = ''fast-private'' then Some FastPrivate else None)"

record CreateIntentBody =
  ci_action :: PositionAction
  ci_amount :: string
  ci_pool :: string
  ci_mode :: ExecutionMode

definition non_empty :: "string option \<Rightarrow> string option" where
  "non_empty v = (case v of None \<Rightarrow> None | Some s \<Rightarrow> if s = [] then None else Some s)"

definition createIntentSchema :: "json_body \<Rightarrow> CreateIntentBody option" where
  "createIntentSchema body =
     (case (Option.bind (body ''action'') parse_action, non_empty (body ''amount''), non_empty (body ''pool''),
            Option.bind (body ''mode'') parse_mode) of
        (Some action, Some amount, Some pool, Some mode) \<Rightarrow>
          Some \<lparr>ci_action = action, ci_amount = amount, ci_pool = pool, ci_mode = mode\<rparr>
      | _ \<Rightarrow> None)"

definition executeIntentSchema :: "json_body \<Rightarrow> string option" where
  "executeIntentSchema body = non_empty (body ''signedMessage'')"

definition positionParamsSchema :: "string \<Rightarrow> string option" where
  "positionParamsSchema positionId = non_empty (Some positionId)"

section \<open>Handlers\<close>

datatype position_body =
    PositionBody PositionResponse
  | Unauthorized
  | NotFound string
  | Forbidden
  | CapExceeded CapReason
  | ErrorBody perr
  | AuthRefusal auth_error
  | BadRequest
  | TooManyRequests int

type_synonym position_reply = "nat \<times> position_body"

text \<open>The wallet of the request, \<open>req.wallet?.address\<close>; an empty one is falsy.\<close>

definition requireWallet :: "AuthenticatedWallet option \<Rightarrow> position_reply + string" where
  "requireWallet wallet =
     (case wallet of
        None \<Rightarrow> Inl (401, Unauthorized)
      | Some w \<Rightarrow> if auth_address w = [] then Inl (401, Unauthorized) else Inr (auth_address w))"

definition requirePositionOwner :: "AuthenticatedWallet option \<Rightarrow> string \<Rightarrow> (position_reply + string) pasync" where
  "requirePositionOwner wallet positionId =
     (case requireWallet wallet of
        Inl reply \<Rightarrow> returnE (Inl reply)
      | Inr address \<Rightarrow>
          bindE (callE (GetPositionById positionId) as_position_opt) (\<lambda>position.
          returnE (case position of
              None \<Rightarrow> Inl (404, NotFound positionId)
            | Some p \<Rightarrow> if pos_wallet p \<noteq> address then Inl (403, Forbidden) else Inr address)))"

definition createIntent :: "BetaCapsConfig \<Rightarrow> AuthenticatedWallet option \<Rightarrow> CreateIntentBody \<Rightarrow> position_reply pasync" where
  "createIntent caps wallet body =
     (case requireWallet wallet of
        Inl reply \<Rightarrow> returnE reply
      | Inr address \<Rightarrow>
          attemptE (createDraftPositionIntent caps
                     \<lparr>dr_action = ci_action body, dr_amount = ci_amount body, dr_pool = ci_pool body,
                      dr_mode = ci_mode body, dr_wallet = address\<rparr>)
            (\<lambda>err. case err of
               BetaCapExceededError reason \<Rightarrow> returnE (429, CapExceeded reason)
             | e \<Rightarrow> throwE e) (\<lambda>response.
          returnE (201, PositionBody response)))"

text \<open>The three \<open>catch\<close> blocks that answer 404.\<close>

definition or_not_found :: "PositionResponse pasync \<Rightarrow> position_reply pasync" where
  "or_not_found service =
     attemptE service
       (\<lambda>err. case err of PositionNotFoundError pid \<Rightarrow> returnE (404, NotFound pid) | e \<Rightarrow> throwE e)
       (\<lambda>response. returnE (200, PositionBody response))"

definition get_position_handler :: "string \<Rightarrow> position_reply pasync" where
  "get_position_handler positionId = or_not_found (getPosition positionId)"

definition executeIntent :: "AuthenticatedWallet option \<Rightarrow> string \<Rightarrow> string \<Rightarrow> position_reply pasync" where
  "executeIntent wallet positionId signedMessage =
     bindE (requirePositionOwner wallet positionId) (\<lambda>owner.
     case owner of
       Inl reply \<Rightarrow> returnE reply
     | Inr _ \<Rightarrow> or_not_found (executeSignedIntent positionId signedMessage))"

definition claim_handler :: "AuthenticatedWallet option \<Rightarrow> string \<Rightarrow> position_reply pasync" where
  "claim_handler wallet positionId =
     bindE (requirePositionOwner wallet positionId) (\<lambda>owner.
     case owner of
       Inl reply \<Rightarrow> returnE reply
     | Inr _ \<Rightarrow> or_not_found (claimPosition positionId))"

definition withdraw_close_handler :: "AuthenticatedWallet option \<Rightarrow> string \<Rightarrow> position_reply pasync" where
  "withdraw_close_handler wallet positionId =
     bindE (requirePositionOwner wallet positionId) (\<lambda>owner.
     case owner of
       Inl reply \<Rightarrow> returnE reply
     | Inr _ \<Rightarrow> or_not_found (withdrawClosePosition positionId))"

section \<open>Routes\<close>

datatype position_request =
    PostIntent json_body
  | GetOne string
  | PostExecute string json_body
  | PostClaim string
  | PostWithdrawClose string

datatype parsed_request =
    ParsedIntent CreateIntentBody
  | ParsedGet string
  | ParsedExecute string string
  | ParsedClaim string
  | ParsedWithdrawClose string

definition check_schema :: "position_request \<Rightarrow> parsed_request option" where
  "check_schema rq =
     (case rq of
        PostIntent body \<Rightarrow> map_option ParsedIntent (createIntentSchema body)
      | GetOne pid \<Rightarrow> map_option ParsedGet (positionParamsSchema pid)
      | PostExecute pid body \<Rightarrow>
          (case (positionParamsSchema pid, executeIntentSchema body) of
             (Some p, Some msg) \<Rightarrow> Some (ParsedExecute p msg)
           | _ \<Rightarrow> None)
      | PostClaim pid \<Rightarrow> map_option ParsedClaim (positionParamsSchema pid)
      | PostWithdrawClose pid \<Rightarrow> map_option ParsedWithdrawClose (positionParamsSchema pid))"

text \<open>What a request carries besides its body, and the state it meets.\<close>

record http_context =
  hc_now :: int
  hc_ip :: "string option"
  hc_headers :: headers

record site =
  si_positions :: pworld
  si_auth :: aworld
  si_intentLimiter :: buckets
  si_mutateLimiter :: buckets

record site_env =
  se_positions :: penv
  se_auth :: aenv
  se_crypto :: crypto
  se_caps :: BetaCapsConfig

definition intent_limit :: RateLimiterOpts where "intent_limit = \<lparr>windowMs = 60000, maxHits = 10\<rparr>"
definition mutate_limit :: RateLimiterOpts where "mutate_limit = \<lparr>windowMs = 60000, maxHits = 5\<rparr>"

text \<open>The limiter of the route, if it has one.\<close>

definition rate_limit :: "http_context \<Rightarrow> position_request \<Rightarrow> site \<Rightarrow> hit_reply \<times> site" where
  "rate_limit hc rq s =
     (case rq of
        GetOne pid \<Rightarrow> (Admitted, s)
      | PostIntent body \<Rightarrow>
          (case hit intent_limit (hc_now hc) (hc_ip hc) (si_intentLimiter s) of (r, b) \<Rightarrow> (r, s\<lparr>si_intentLimiter := b\<rparr>))
      | _ \<Rightarrow>
          (case hit mutate_limit (hc_now hc) (hc_ip hc) (si_mutateLimiter s) of (r, b) \<Rightarrow> (r, s\<lparr>si_mutateLimiter := b\<rparr>)))"

definition auth_status :: "auth_error \<Rightarrow> nat" where
  "auth_status e = (case e of HttpReply code m \<Rightarrow> code | AuthError m code \<Rightarrow> code | Unavailable m \<Rightarrow> 500)"

text \<open>The error handler of the application: no error of the service carries a status.\<close>

definition run_handler :: "site_env \<Rightarrow> position_reply pasync \<Rightarrow> site \<Rightarrow> position_reply \<times> site" where
  "run_handler se p s =
     (case run (PositionStore.handle (se_positions se)) p (si_positions s) of
        (Inl e, w) \<Rightarrow> ((500, ErrorBody e), s\<lparr>si_positions := w\<rparr>)
      | (Inr reply, w) \<Rightarrow> (reply, s\<lparr>si_positions := w\<rparr>))"

definition authenticated ::
    "site_env \<Rightarrow> http_context \<Rightarrow> site \<Rightarrow> (AuthenticatedWallet \<Rightarrow> site \<Rightarrow> position_reply \<times> site) \<Rightarrow> position_reply \<times> site" where
  "authenticated se hc s f =
     (case run (auth_handle (se_auth se)) (protect (se_crypto se) (hc_headers hc)) (si_auth s) of
        (Inl e, a) \<Rightarrow> ((auth_status e, AuthRefusal e), s\<lparr>si_auth := a\<rparr>)
      | (Inr wallet, a) \<Rightarrow> f wallet (s\<lparr>si_auth := a\<rparr>))"

definition handle_parsed :: "site_env \<Rightarrow> http_context \<Rightarrow> parsed_request \<Rightarrow> site \<Rightarrow> position_reply \<times> site" where
  "handle_parsed se hc rq s =
     (case rq of
        ParsedGet pid \<Rightarrow> run_handler se (get_position_handler pid) s
      | ParsedIntent body \<Rightarrow> authenticated se hc s (\<lambda>wallet. run_handler se (createIntent (se_caps se) (Some wallet) body))
      | ParsedExecute pid msg \<Rightarrow> authenticated se hc s (\<lambda>wallet. run_handler se (executeIntent (Some wallet) pid msg))
      | ParsedClaim pid \<Rightarrow> authenticated se hc s (\<lambda>wallet. run_handler se (claim_handler (Some wallet) pid))
      | ParsedWithdrawClose pid \<Rightarrow>
          authenticated se hc s (\<lambda>wallet. run_handler se (withdraw_close_handler (Some wallet) pid)))"

definition position_route :: "site_env \<Rightarrow> http_context \<Rightarrow> position_request \<Rightarrow> site \<Rightarrow> position_reply \<times> site" where
  "position_route se hc rq s =
     (case rate_limit hc rq s of
        (TooMany retryAfter ms, s1) \<Rightarrow> ((429, TooManyRequests retryAfter), s1)
      | (Admitted, s1) \<Rightarrow>
          (case check_schema rq of
             None \<Rightarrow> ((400, BadRequest), s1)
           | Some parsed \<Rightarrow> handle_parsed se hc parsed s1))"


section \<open>Strangers\<close>

definition same_tables :: "pworld \<Rightarrow> pworld \<Rightarrow> bool" where
  "same_tables w w' \<longleftrightarrow> w_positions w' = w_positions w \<and> w_sessions w' = w_sessions w \<and> w_activities w' = w_activities w"

text \<open>No row changes, and nothing is called but, at most, the lookup of the position.\<close>

definition idle :: "pworld \<Rightarrow> pworld \<Rightarrow> bool" where
  "idle w w' \<longleftrightarrow> same_tables w w' \<and> (w_trail w' = w_trail w \<or> (\<exists>pid. w_trail w' = GetPositionById pid # w_trail w))"

lemma idle_refl [simp]: "idle w w"
  by (simp add: idle_def same_tables_def)

lemma lookup_idle: "PositionStore.handle env (GetPositionById pid) w = (r, w') \<Longrightarrow> idle w w'"
  using handle_positions [of "GetPositionById pid" env w] handle_sessions [of "GetPositionById pid" env w]
    handle_activities [of "GetPositionById pid" env w] handle_trail [of env "GetPositionById pid" w]
  by (simp add: idle_def same_tables_def)

lemma lookup_answer:
  "PositionStore.handle env (GetPositionById pid) w = (Inr a, w') \<Longrightarrow> as_position_opt a = Some found
     \<Longrightarrow> found = getPositionById pid (w_positions w)"
  by (auto simp: handle_def Let_def split: option.splits fault.splits)

definition owned_by :: "string \<Rightarrow> string \<Rightarrow> pworld \<Rightarrow> bool" where
  "owned_by address pid w \<longleftrightarrow> address \<noteq> [] \<and> (\<exists>r. getPositionById pid (w_positions w) = Some r \<and> pos_wallet r = address)"

lemma owner_checked:
  "wp (PositionStore.handle env) (requirePositionOwner (Some wallet) pid)
     (\<lambda>r w'. idle w w' \<and> (case r of Inr (Inr a) \<Rightarrow> owned_by (auth_address wallet) pid w | _ \<Rightarrow> True)) w"
proof (cases "auth_address wallet = []")
  case True
  then show ?thesis by (auto simp: requirePositionOwner_def requireWallet_def intro!: wp_returnE)
next
  case False
  then have "requirePositionOwner (Some wallet) pid =
      bindE (callE (GetPositionById pid) as_position_opt) (\<lambda>position.
          returnE (case position of
              None \<Rightarrow> Inl (404, NotFound pid)
            | Some p \<Rightarrow> if pos_wallet p \<noteq> auth_address wallet then Inl (403, Forbidden) else Inr (auth_address wallet)))"
    by (simp add: requirePositionOwner_def requireWallet_def)
  then show ?thesis
    using False lookup_idle [of env pid w] lookup_answer [of env pid w]
    by (simp only:) (intro wp_bindE wp_callE, auto intro!: wp_returnE simp: owned_by_def split: option.splits)
qed

text \<open>Replies that say the request was turned away.\<close>

fun turned_away :: "position_body \<Rightarrow> bool" where
  "turned_away Unauthorized = True"
| "turned_away Forbidden = True"
| "turned_away (AuthRefusal e) = True"
| "turned_away BadRequest = True"
| "turned_away (TooManyRequests n) = True"
| "turned_away b = False"

definition owner_outcome :: "AuthenticatedWallet \<Rightarrow> string \<Rightarrow> pworld \<Rightarrow> perr + position_reply \<Rightarrow> pworld \<Rightarrow> bool" where
  "owner_outcome wallet pid w r w' \<longleftrightarrow>
     (idle w w' \<or> owned_by (auth_address wallet) pid w) \<and>
     (case r of Inl e \<Rightarrow> True | Inr reply \<Rightarrow> turned_away (snd reply) \<longrightarrow> idle w w')"

lemma service_replies:
  "wp h (or_not_found p) (\<lambda>r w'. case r of Inl e \<Rightarrow> True | Inr reply \<Rightarrow> \<not> turned_away (snd reply)) w"
  unfolding or_not_found_def
  by (rule wp_attemptE) (auto simp: wp_def split: sum.splits perr.splits)

lemma owner_programs:
  "wp (PositionStore.handle env) (bindE (requirePositionOwner (Some wallet) pid) (\<lambda>owner.
       case owner of Inl reply \<Rightarrow> returnE reply | Inr a \<Rightarrow> or_not_found p)) (owner_outcome wallet pid w) w"
proof (rule wp_bindE, rule wp_mono [OF owner_checked])
  fix r :: "perr + (position_reply + string)" and w'
  assume r: "idle w w' \<and> (case r of Inr (Inr a) \<Rightarrow> owned_by (auth_address wallet) pid w | _ \<Rightarrow> True)"
  show "case r of Inl e \<Rightarrow> owner_outcome wallet pid w (Inl e) w'
    | Inr a \<Rightarrow> wp (PositionStore.handle env) (case a of Inl reply \<Rightarrow> returnE reply | Inr x \<Rightarrow> or_not_found p) (owner_outcome wallet pid w) w'"
  proof (cases r)
    case (Inl e)
    then show ?thesis using r by (simp add: owner_outcome_def)
  next
    case (Inr a)
    show ?thesis
    proof (cases a)
      case (Inl reply)
      then show ?thesis using r Inr by (auto simp: owner_outcome_def intro!: wp_returnE)
    next
      case a: (Inr x)
      have own: "owned_by (auth_address wallet) pid w" using r Inr a by simp
      have "wp (PositionStore.handle env) (or_not_found p) (owner_outcome wallet pid w) w'"
        by (rule wp_mono [OF service_replies]) (auto simp: owner_outcome_def own split: sum.splits)
      then show ?thesis using Inr a by simp
    qed
  qed
qed

section \<open>Drafts\<close>

text \<open>The calls a draft of one wallet makes never write a row of another.\<close>

fun drafts_for :: "string \<Rightarrow> pcall \<Rightarrow> bool" where
  "drafts_for wallet (CreatePosition inp) = (cp_wallet inp = wallet)"
| "drafts_for wallet (UpdatePositionState pid st) = False"
| "drafts_for wallet c = True"

definition others :: "string \<Rightarrow> PositionRow list \<Rightarrow> PositionRow list" where
  "others wallet ps = filter (\<lambda>r. pos_wallet r \<noteq> wallet) ps"

lemma exec_others:
  "drafts_for wallet c \<Longrightarrow> others wallet (w_positions (snd (exec_call env n c w))) = others wallet (w_positions w)"
proof (cases "writes_position c")
  case True
  then show "drafts_for wallet c \<Longrightarrow> ?thesis"
    by (cases c) (auto simp: createPosition_def others_def new_position_def Let_def)
qed simp

lemma handle_others:
  "drafts_for wallet c \<Longrightarrow> others wallet (w_positions (snd (PositionStore.handle env c w))) = others wallet (w_positions w)"
  by (simp add: handle_def Let_def exec_others split: option.splits fault.splits)

interpretation drafts: guarded_world "PositionStore.handle env" "\<lambda>w. others wallet (w_positions w) = ps" "drafts_for wallet"
  for env wallet ps
  by unfold_locales (simp add: handle_others)

lemma assertBetaCaps_drafts: "makes_only (drafts_for wallet) (assertBetaCaps caps inp)"
  unfolding assertBetaCaps_def Let_def by (intro makes_only_bindE) (auto simp: callE_def split: sum.splits option.splits)

lemma draft_calls: "makes_only (drafts_for (dr_wallet inp)) (createDraftPositionIntent caps inp)"
  unfolding createDraftPositionIntent_def
  by (intro makes_only_bindE assertBetaCaps_drafts makes_only_recordActivity makes_only_guardE makes_only_callE [THEN iffD2] makes_only_returnE) auto

lemma createIntent_calls:
  "makes_only (drafts_for (auth_address wallet)) (createIntent caps (Some wallet) body)"
  unfolding createIntent_def requireWallet_def
  by (auto split: perr.splits intro!: makes_only_attemptE draft_calls [of "\<lparr>dr_action = ci_action body, dr_amount = ci_amount body,
      dr_pool = ci_pool body, dr_mode = ci_mode body, dr_wallet = auth_address wallet\<rparr>", simplified])

definition draft_outcome :: "AuthenticatedWallet \<Rightarrow> pworld \<Rightarrow> perr + position_reply \<Rightarrow> pworld \<Rightarrow> bool" where
  "draft_outcome wallet w r w' \<longleftrightarrow>
     others (auth_address wallet) (w_positions w') = others (auth_address wallet) (w_positions w) \<and>
     (idle w w' \<or> auth_address wallet \<noteq> []) \<and>
     (case r of Inl e \<Rightarrow> True | Inr reply \<Rightarrow> turned_away (snd reply) \<longrightarrow> idle w w')"

lemma draft_programs: "wp (PositionStore.handle env) (createIntent caps (Some wallet) body) (draft_outcome wallet w) w"
proof -
  have o: "others (auth_address wallet) (w_positions (snd (run (PositionStore.handle env) (createIntent caps (Some wallet) body) w))) =
      others (auth_address wallet) (w_positions w)"
    using drafts.run_keeps [OF createIntent_calls] by blast
  have t: "wp (PositionStore.handle env) p (\<lambda>_ _. True) v" for p :: "PositionResponse pasync" and v
    by (simp add: wp_def)
  have "wp (PositionStore.handle env) (createIntent caps (Some wallet) body)
      (\<lambda>r w'. (idle w w' \<or> auth_address wallet \<noteq> []) \<and> (case r of Inl e \<Rightarrow> True | Inr reply \<Rightarrow> turned_away (snd reply) \<longrightarrow> idle w w')) w"
  proof (cases "auth_address wallet = []")
    case True
    then show ?thesis by (simp add: createIntent_def requireWallet_def wp_returnE)
  next
    case False
    have e: "wp (PositionStore.handle env) (case err of BetaCapExceededError reason \<Rightarrow> returnE (429, CapExceeded reason) | e \<Rightarrow> throwE e)
        (\<lambda>r w'. case r of Inl e \<Rightarrow> True | Inr reply \<Rightarrow> \<not> turned_away (snd reply)) v" for err v
      by (cases err) (simp_all add: wp_returnE wp_throwE)
    have "wp (PositionStore.handle env) (createIntent caps (Some wallet) body)
        (\<lambda>r w'. case r of Inl e \<Rightarrow> True | Inr reply \<Rightarrow> \<not> turned_away (snd reply)) w"
      using False unfolding createIntent_def requireWallet_def
      by (simp, intro wp_attemptE, intro wp_mono [OF t]) (auto simp: e wp_returnE split: sum.splits)
    then show ?thesis using False by (elim wp_mono) (auto split: sum.splits)
  qed
  with o show ?thesis by (simp add: wp_def draft_outcome_def)
qed

section \<open>The routes\<close>

definition signed_in :: "site_env \<Rightarrow> http_context \<Rightarrow> site \<Rightarrow> site \<Rightarrow> AuthenticatedWallet \<Rightarrow> bool" where
  "signed_in se hc s s' wallet \<longleftrightarrow>
     run (auth_handle (se_auth se)) (protect (se_crypto se) (hc_headers hc)) (si_auth s) = (Inr wallet, si_auth s')"

fun may_act :: "position_request \<Rightarrow> string \<Rightarrow> pworld \<Rightarrow> pworld \<Rightarrow> bool" where
  "may_act (PostIntent body) address w w' \<longleftrightarrow>
     address \<noteq> [] \<and> others address (w_positions w') = others address (w_positions w)"
| "may_act (GetOne pid) address w w' \<longleftrightarrow> True"
| "may_act (PostExecute pid body) address w w' \<longleftrightarrow> owned_by address pid w"
| "may_act (PostClaim pid) address w w' \<longleftrightarrow> owned_by address pid w"
| "may_act (PostWithdrawClose pid) address w w' \<longleftrightarrow> owned_by address pid w"

definition lawful :: "site_env \<Rightarrow> http_context \<Rightarrow> position_request \<Rightarrow> site \<Rightarrow> position_reply \<times> site \<Rightarrow> bool" where
  "lawful se hc rq s out \<longleftrightarrow>
     (let (reply, s') = out in
      (idle (si_positions s) (si_positions s') \<or> (\<exists>pid. rq = GetOne pid) \<or>
       (\<exists>wallet. signed_in se hc s s' wallet \<and> may_act rq (auth_address wallet) (si_positions s) (si_positions s'))) \<and>
      (turned_away (snd reply) \<longrightarrow> idle (si_positions s) (si_positions s')))"

lemma rate_limit_frame:
  "rate_limit hc rq s = (r, s1) \<Longrightarrow> si_positions s1 = si_positions s \<and> si_auth s1 = si_auth s"
  by (auto simp: rate_limit_def split: position_request.splits prod.splits)

lemma lawful_frame:
  "lawful se hc rq s1 out \<Longrightarrow> si_positions s1 = si_positions s \<Longrightarrow> si_auth s1 = si_auth s \<Longrightarrow> lawful se hc rq s out"
  by (simp add: lawful_def signed_in_def Let_def split: prod.splits)

lemma lawful_idle: "idle (si_positions s) (si_positions s') \<Longrightarrow> lawful se hc rq s (reply, s')"
  by (simp add: lawful_def)

lemma lawful_authenticated:
  assumes "\<And>wallet w. wp (PositionStore.handle (se_positions se)) (p wallet) (Q wallet w) w"
    and "\<And>wallet w r w'. Q wallet w r w' \<Longrightarrow> (idle w w' \<or> may_act rq (auth_address wallet) w w') \<and>
      (case r of Inl e \<Rightarrow> True | Inr reply \<Rightarrow> turned_away (snd reply) \<longrightarrow> idle w w')"
  shows "lawful se hc rq s (authenticated se hc s (\<lambda>wallet. run_handler se (p wallet)))"
proof -
  obtain r a where a: "run (auth_handle (se_auth se)) (protect (se_crypto se) (hc_headers hc)) (si_auth s) = (r, a)" by (metis surj_pair)
  show ?thesis
  proof (cases r)
    case (Inl e)
    then show ?thesis by (simp add: authenticated_def a lawful_idle)
  next
    case (Inr wallet)
    obtain x w where x: "run (PositionStore.handle (se_positions se)) (p wallet) (si_positions s) = (x, w)" by (metis surj_pair)
    have "Q wallet (si_positions s) x w" using assms(1) [of wallet "si_positions s"] by (simp add: wp_def x)
    from assms(2) [OF this] show ?thesis
      by (cases x) (auto simp: authenticated_def a Inr run_handler_def x lawful_def signed_in_def)
  qed
qed

lemma read_replies:
  "wp (PositionStore.handle env) (get_position_handler pid)
     (\<lambda>r w'. case r of Inl e \<Rightarrow> True | Inr reply \<Rightarrow> \<not> turned_away (snd reply)) w"
  unfolding get_position_handler_def by (rule service_replies)

text \<open>
  C6.  Safety: only the owner acts on a position.  Whatever the request and the faults it meets, no row of
  the tables changes and nothing outside is called, unless the request reads (reading needs no
  wallet, though it may advance the position), or the wallet signature and the beta gate have
  just accepted a wallet that owns the position, or that wallet drafts a position of its own,
  which leaves the rows of every other wallet as they were.  A request answered as turned away
  has changed nothing.
\<close>

theorem only_owners_act: "lawful se hc rq s (position_route se hc rq s)"
proof -
  obtain r s1 where r: "rate_limit hc rq s = (r, s1)" by (metis surj_pair)
  note f = rate_limit_frame [OF r]
  have owner: "lawful se hc rq s1 (authenticated se hc s1 (\<lambda>wallet. run_handler se (bindE (requirePositionOwner (Some wallet) pid) (\<lambda>owner.
       case owner of Inl reply \<Rightarrow> returnE reply | Inr a \<Rightarrow> or_not_found p))))"
    if "\<And>address w w'. may_act rq address w w' \<longleftrightarrow> owned_by address pid w" for pid p
    by (rule lawful_authenticated, rule owner_programs) (simp add: owner_outcome_def that)
  have "lawful se hc rq s1 (handle_parsed se hc parsed s1)" if ck: "check_schema rq = Some parsed" for parsed
  proof (cases rq)
    case (GetOne pid)
    then have "parsed = ParsedGet pid" using ck by (auto simp: check_schema_def positionParamsSchema_def non_empty_def split: if_splits)
    then show ?thesis using read_replies [of "se_positions se" pid "si_positions s1"]
      by (auto simp: handle_parsed_def GetOne lawful_def run_handler_def wp_def split: prod.splits sum.splits)
  next
    case (PostIntent body)
    then obtain b where "parsed = ParsedIntent b" using ck by (auto simp: check_schema_def)
    moreover have "lawful se hc rq s1 (authenticated se hc s1 (\<lambda>wallet. run_handler se (createIntent (se_caps se) (Some wallet) b)))"
      by (rule lawful_authenticated, rule draft_programs) (auto simp: draft_outcome_def PostIntent)
    ultimately show ?thesis by (simp add: handle_parsed_def)
  next
    case (PostExecute pid body)
    then obtain msg where "parsed = ParsedExecute pid msg"
      using ck by (auto simp: check_schema_def positionParamsSchema_def non_empty_def split: option.splits if_splits)
    then show ?thesis using owner [of pid] by (simp add: handle_parsed_def executeIntent_def PostExecute)
  next
    case (PostClaim pid)
    then have "parsed = ParsedClaim pid"
      using ck by (auto simp: check_schema_def positionParamsSchema_def non_empty_def split: if_splits)
    then show ?thesis using owner [of pid] by (simp add: handle_parsed_def claim_handler_def PostClaim)
  next
    case (PostWithdrawClose pid)
    then have "parsed = ParsedWithdrawClose pid"
      using ck by (auto simp: check_schema_def positionParamsSchema_def non_empty_def split: if_splits)
    then show ?thesis using owner [of pid] by (simp add: handle_parsed_def withdraw_close_handler_def PostWithdrawClose)
  qed
  then have "lawful se hc rq s1 (position_route se hc rq s)"
    by (auto simp: position_route_def r lawful_idle split: hit_reply.splits option.splits)
  with f show ?thesis by (blast intro: lawful_frame)
qed

end
