(* ===== verification/RelayerService.thy ===== *)
theory RelayerService imports WalletAuth begin

text \<open>
  relayer.service.ts, nullifier-registry.ts and root-seen.repository.ts: the withdrawal pipeline
  of one pool.  The service keeps in memory the map of withdrawals in flight, the cache of spent
  nullifiers and two counters; Postgres keeps the slot at which each root was first seen; the
  chain keeps one nullifier account per spent nullifier.  All of them are the fields of
  \<open>rworld\<close>, and a request is a program over the calls below.

  The Groth16 verifier, Poseidon and \<open>PublicKey\<close> are fields of \<open>verifier\<close>.  An account address
  derived from a nullifier is identified with the 32 bytes it is derived from.
\<close>

section \<open>Configuration, requests and results\<close>

record RelayerConfig =
  rc_minFeeLamports :: int
  rc_poolDenomination :: int
  rc_privacyDelayMs :: "int option"

record WithdrawRequest =
  wr_proof :: Groth16Proof
  wr_publicSignals :: "string list"
  wr_root :: string
  wr_nullifierHash :: string
  wr_recipient :: string
  wr_relayer :: string
  wr_fee :: string

datatype failure =
    ForeignRelayer
  | FeeNotInteger string
  | FeeBelowMinimum int int
  | AlreadySpent
  | SignalMismatch string
  | PrivacyDelay int int int
  | ProofError string
  | InvalidProof
  | SubmissionFailed string

record WithdrawResult =
  re_success :: bool
  re_txSignature :: "string option"
  re_nullifierHash :: string
  re_recipient :: string
  re_amountLamports :: string
  re_feeLamports :: string
  re_error :: "failure option"

definition LOW_BALANCE_THRESHOLD_WITHDRAWALS :: int where "LOW_BALANCE_THRESHOLD_WITHDRAWALS = 50"
definition QUEUE_BACKED_THRESHOLD :: nat where "QUEUE_BACKED_THRESHOLD = 25"
definition SLOT_DURATION_MS :: int where "SLOT_DURATION_MS = 400"

definition ceil_div :: "int \<Rightarrow> int \<Rightarrow> int" where
  "ceil_div a b = - ((- a) div b)"

text \<open>
  The constructed service: \<open>rl_hotWallet\<close> is the address of the initialised client, if any;
  \<open>rl_rootSeenRepo\<close> and \<open>rl_slotProvider\<close> say which collaborators were passed in.
\<close>

record relayer =
  rl_config :: RelayerConfig
  rl_hotWallet :: "string option"
  rl_poolPDA :: string
  rl_rootSeenRepo :: bool
  rl_slotProvider :: bool

definition privacyDelaySlots :: "relayer \<Rightarrow> int" where
  "privacyDelaySlots rl =
     max 0 (ceil_div (case rc_privacyDelayMs (rl_config rl) of None \<Rightarrow> 13000 | Some ms \<Rightarrow> ms) SLOT_DURATION_MS)"

record verifier =
  vf_PublicKey :: "string \<Rightarrow> bytes option"
  vf_poseidon :: "int list \<Rightarrow> int"
  vf_verify :: "Groth16Proof \<Rightarrow> string list \<Rightarrow> string + bool"

section \<open>Calls and the world\<close>

datatype rexn =
    RpcFailure string
  | BadPacking pack_error
  | BadKey string
  | ClientUninitialized
  | PoolNotInitialized string
  | Diagnosed string string
  | Impossible

record MixerPool =
  mp_nextLeafIndex :: nat
  mp_currentRootIndex :: int
  mp_rootHistory :: "bytes list"

datatype rcall =
    JoinOrStart string
  | Release string
  | CacheHas string
  | CacheSet string string
  | CacheCount
  | NullifierAccount bytes
  | GetSlot
  | ObserveRoot string int
  | VerifyProof Groth16Proof "string list"
  | AddPending int
  | CountProcessed
  | PoolAccount
  | SubmitWithdraw WithdrawRequest bytes
  | FetchPool
  | GetBalance
  | Counters

datatype rresp =
    AnsUnit
  | AnsJoined nat
  | AnsStarted nat
  | AnsBool bool
  | AnsInt int
  | AnsText string
  | AnsPool MixerPool
  | AnsCounters int nat nat

text \<open>
  \<open>rw_log\<close>, \<open>rw_submitted\<close> and \<open>rw_slots\<close> record, newest first, the flights and transactions, the
  requests submitted and the slots read; the code does not have them.
\<close>

datatype flight_event = Began string | Paid string | Ended string

record rworld =
  rw_inFlight :: "(string \<times> nat) list"
  rw_flights :: nat
  rw_cache :: "(string \<times> string) list"
  rw_spent :: "bytes list"
  rw_roots :: "string \<rightharpoonup> int"
  rw_pending :: int
  rw_processed :: nat
  rw_log :: "flight_event list"
  rw_submitted :: "WithdrawRequest list"
  rw_slots :: "int list"
  rw_calls :: nat

definition relayer_start :: "bytes list \<Rightarrow> rworld" where
  "relayer_start spent = \<lparr>rw_inFlight = [], rw_flights = 0, rw_cache = [], rw_spent = spent,
     rw_roots = Map.empty, rw_pending = 0, rw_processed = 0, rw_log = [], rw_submitted = [], rw_slots = [], rw_calls = 0\<rparr>"

text \<open>
  What the outside does at the \<open>n\<close>-th call.  A submitted transaction lands and is confirmed,
  lands without a confirmation reaching the relayer, or is refused; the mixer program refuses
  a nullifier whose account exists.
\<close>

datatype landing = Landed string | LandedUnconfirmed string | Refused string

record renv =
  rv_fault :: "nat \<Rightarrow> fault option"
  rv_slot :: "nat \<Rightarrow> int"
  rv_landing :: "nat \<Rightarrow> landing"
  rv_poolExists :: "nat \<Rightarrow> bool"
  rv_pool :: "nat \<Rightarrow> MixerPool"
  rv_balance :: "nat \<Rightarrow> int"

fun remote :: "rcall \<Rightarrow> bool" where
  "remote (NullifierAccount b) = True"
| "remote GetSlot = True"
| "remote (ObserveRoot rt cur) = True"
| "remote PoolAccount = True"
| "remote FetchPool = True"
| "remote GetBalance = True"
| "remote c = False"

text \<open>\<open>upsert\<close> with an empty \<open>update\<close>: the first slot stays.\<close>

definition observe :: "string \<Rightarrow> int \<Rightarrow> (string \<rightharpoonup> int) \<Rightarrow> int \<times> (string \<rightharpoonup> int)" where
  "observe rt currentSlot m =
     (case m rt of Some s \<Rightarrow> (s, m) | None \<Rightarrow> (currentSlot, m(rt \<mapsto> currentSlot)))"

definition land_tx :: "landing \<Rightarrow> WithdrawRequest \<Rightarrow> bytes \<Rightarrow> rworld \<Rightarrow> (rexn + rresp) \<times> rworld" where
  "land_tx outcome req nullifier w =
     (let w1 = w\<lparr>rw_submitted := req # rw_submitted w, rw_log := Paid (wr_nullifierHash req) # rw_log w\<rparr> in
      if nullifier \<in> set (rw_spent w) then (Inl (RpcFailure ''account already in use''), w1)
      else (case outcome of
          Landed sig \<Rightarrow> (Inr (AnsText sig), w1\<lparr>rw_spent := nullifier # rw_spent w\<rparr>)
        | LandedUnconfirmed msg \<Rightarrow> (Inl (RpcFailure msg), w1\<lparr>rw_spent := nullifier # rw_spent w\<rparr>)
        | Refused msg \<Rightarrow> (Inl (RpcFailure msg), w1)))"

fun rexec :: "renv \<Rightarrow> verifier \<Rightarrow> nat \<Rightarrow> rcall \<Rightarrow> rworld \<Rightarrow> (rexn + rresp) \<times> rworld" where
  "rexec env vf n (JoinOrStart h) w =
     (case map_of (rw_inFlight w) h of
        Some k \<Rightarrow> (Inr (AnsJoined k), w)
      | None \<Rightarrow> (Inr (AnsStarted (rw_flights w)),
                 w\<lparr>rw_inFlight := (h, rw_flights w) # rw_inFlight w, rw_flights := Suc (rw_flights w),
                   rw_log := Began h # rw_log w\<rparr>))"
| "rexec env vf n (Release h) w =
     (Inr AnsUnit, w\<lparr>rw_inFlight := filter (\<lambda>p. fst p \<noteq> h) (rw_inFlight w), rw_log := Ended h # rw_log w\<rparr>)"
| "rexec env vf n (CacheHas h) w = (Inr (AnsBool (h \<in> fst ` set (rw_cache w))), w)"
| "rexec env vf n (CacheSet h sig) w =
     (Inr AnsUnit, w\<lparr>rw_cache := (h, sig) # filter (\<lambda>p. fst p \<noteq> h) (rw_cache w)\<rparr>)"
| "rexec env vf n CacheCount w = (Inr (AnsInt (int (length (rw_cache w)))), w)"
| "rexec env vf n (NullifierAccount b) w = (Inr (AnsBool (b \<in> set (rw_spent w))), w)"
| "rexec env vf n GetSlot w = (Inr (AnsInt (rv_slot env n)), w\<lparr>rw_slots := rv_slot env n # rw_slots w\<rparr>)"
| "rexec env vf n (ObserveRoot rt cur) w =
     (let (s, m) = observe rt cur (rw_roots w) in (Inr (AnsInt s), w\<lparr>rw_roots := m\<rparr>))"
| "rexec env vf n (VerifyProof p sigs) w = (map_sum RpcFailure AnsBool (vf_verify vf p sigs), w)"
| "rexec env vf n (AddPending d) w = (Inr AnsUnit, w\<lparr>rw_pending := rw_pending w + d\<rparr>)"
| "rexec env vf n CountProcessed w = (Inr AnsUnit, w\<lparr>rw_processed := Suc (rw_processed w)\<rparr>)"
| "rexec env vf n PoolAccount w = (Inr (AnsBool (rv_poolExists env n)), w)"
| "rexec env vf n (SubmitWithdraw req b) w = land_tx (rv_landing env n) req b w"
| "rexec env vf n FetchPool w = (Inr (AnsPool (rv_pool env n)), w)"
| "rexec env vf n GetBalance w = (Inr (AnsInt (rv_balance env n)), w)"
| "rexec env vf n Counters w =
     (Inr (AnsCounters (rw_pending w) (length (rw_inFlight w)) (rw_processed w)), w)"

definition rhandle :: "renv \<Rightarrow> verifier \<Rightarrow> rcall \<Rightarrow> rworld \<Rightarrow> (rexn + rresp) \<times> rworld" where
  "rhandle env vf c w =
     (let n = rw_calls w; w0 = w\<lparr>rw_calls := Suc n\<rparr> in
      if \<not> remote c then rexec env vf n c w0
      else (case rv_fault env n of
          Some (LostBefore e) \<Rightarrow> (Inl (RpcFailure e), w0)
        | Some (LostAfter e) \<Rightarrow> (Inl (RpcFailure e), snd (rexec env vf n c w0))
        | None \<Rightarrow> rexec env vf n c w0))"

section \<open>The calls as expressions\<close>

type_synonym 'a rasync = "(rcall, rresp, rexn, 'a) async"

definition rcallE :: "rcall \<Rightarrow> (rresp \<Rightarrow> 'a option) \<Rightarrow> 'a rasync" where
  "rcallE c get =
     Call c (\<lambda>r. case r of
        Inl e \<Rightarrow> throwE e
      | Inr a \<Rightarrow> (case get a of Some x \<Rightarrow> returnE x | None \<Rightarrow> throwE Impossible))"

text \<open>A synchronous statement on the service's own fields.\<close>

definition doE :: "rcall \<Rightarrow> unit rasync" where
  "doE c = Call c (\<lambda>_. returnE ())"

definition liftE :: "pack_error + 'a \<Rightarrow> 'a rasync" where
  "liftE r = (case r of Inl e \<Rightarrow> throwE (BadPacking e) | Inr a \<Rightarrow> returnE a)"

definition finallyE :: "'a rasync \<Rightarrow> unit rasync \<Rightarrow> 'a rasync" where
  "finallyE p fin = bindP p (\<lambda>r. bindP fin (\<lambda>_. Done r))"

fun ans_bool :: "rresp \<Rightarrow> bool option" where
  "ans_bool (AnsBool b) = Some b" | "ans_bool _ = None"
fun ans_int :: "rresp \<Rightarrow> int option" where
  "ans_int (AnsInt i) = Some i" | "ans_int _ = None"
fun ans_text :: "rresp \<Rightarrow> string option" where
  "ans_text (AnsText s) = Some s" | "ans_text _ = None"
fun ans_pool :: "rresp \<Rightarrow> MixerPool option" where
  "ans_pool (AnsPool p) = Some p" | "ans_pool _ = None"
fun ans_counters :: "rresp \<Rightarrow> (int \<times> nat \<times> nat) option" where
  "ans_counters (AnsCounters p i t) = Some (p, i, t)" | "ans_counters _ = None"
fun ans_flight :: "rresp \<Rightarrow> (nat + nat) option" where
  "ans_flight (AnsJoined k) = Some (Inl k)" | "ans_flight (AnsStarted k) = Some (Inr k)" | "ans_flight _ = None"

section \<open>The nullifier registry\<close>

text \<open>\<open>BigInt(text)\<close> packed into the 32 bytes of a seed.\<close>

definition seed_of :: "string \<Rightarrow> string \<Rightarrow> pack_error + bytes" where
  "seed_of text field =
     (case bigint_of_string text of None \<Rightarrow> Inl (NotBigInt text) | Some v \<Rightarrow> bigintToBytes32 v field)"

definition isNullifierSpentOnChain :: "string \<Rightarrow> bool rasync" where
  "isNullifierSpentOnChain nullifierHash =
     bindE (liftE (seed_of nullifierHash ''nullifierHash'')) (\<lambda>nullifierBuf.
     rcallE (NullifierAccount nullifierBuf) ans_bool)"

definition isSpent :: "string \<Rightarrow> bool rasync" where
  "isSpent nullifierHash =
     bindE (rcallE (CacheHas nullifierHash) ans_bool) (\<lambda>hit.
     if hit then returnE True
     else
       bindE (isNullifierSpentOnChain nullifierHash) (\<lambda>spentOnChain.
       bindE (if spentOnChain then doE (CacheSet nullifierHash ''on-chain'') else returnE ()) (\<lambda>_.
       returnE spentOnChain)))"

definition markSpent :: "string \<Rightarrow> string \<Rightarrow> unit rasync" where
  "markSpent nullifierHash txSignature = doE (CacheSet nullifierHash txSignature)"

section \<open>The checks\<close>

definition failed :: "WithdrawRequest \<Rightarrow> failure \<Rightarrow> WithdrawResult" where
  "failed req e = \<lparr>re_success = False, re_txSignature = None, re_nullifierHash = wr_nullifierHash req,
     re_recipient = wr_recipient req, re_amountLamports = ''0'', re_feeLamports = wr_fee req, re_error = Some e\<rparr>"

definition guardRequest :: "relayer \<Rightarrow> WithdrawRequest \<Rightarrow> failure option" where
  "guardRequest rl req =
     (if rl_hotWallet rl \<noteq> None \<and> rl_hotWallet rl \<noteq> Some (wr_relayer req) then Some ForeignRelayer
      else (case bigint_of_string (wr_fee req) of
          None \<Rightarrow> Some (FeeNotInteger (wr_fee req))
        | Some feeLamports \<Rightarrow>
            if feeLamports < rc_minFeeLamports (rl_config rl)
            then Some (FeeBelowMinimum feeLamports (rc_minFeeLamports (rl_config rl))) else None))"

definition bigint_or_throw :: "string \<Rightarrow> string + int" where
  "bigint_or_throw t = (case bigint_of_string t of None \<Rightarrow> Inl (''Cannot convert '' @ t @ '' to a BigInt'') | Some v \<Rightarrow> Inr v)"

fun bigints_or_throw :: "string list \<Rightarrow> string + int list" where
  "bigints_or_throw [] = Inr []"
| "bigints_or_throw (t # ts) =
     bind_res (bigint_or_throw t) (\<lambda>v. bind_res (bigints_or_throw ts) (\<lambda>vs. Inr (v # vs)))"

definition publicKey_or_throw :: "verifier \<Rightarrow> string \<Rightarrow> string + bytes" where
  "publicKey_or_throw vf t = (case vf_PublicKey vf t of None \<Rightarrow> Inl ''Invalid public key input'' | Some k \<Rightarrow> Inr k)"

definition must :: "bool \<Rightarrow> string \<Rightarrow> string + unit" where
  "must b reason = (if b then Inr () else Inl reason)"

definition checkPublicSignalsParity :: "verifier \<Rightarrow> WithdrawRequest \<Rightarrow> string + unit" where
  "checkPublicSignalsParity vf req =
     bind_res (must (length (wr_publicSignals req) = 5) ''expected 5 publicSignals'') (\<lambda>_.
     bind_res (bigints_or_throw (wr_publicSignals req)) (\<lambda>sigs.
     bind_res (bigint_or_throw (wr_root req)) (\<lambda>rt.
     bind_res (must (rt = sigs ! 0) ''root mismatch'') (\<lambda>_.
     bind_res (bigint_or_throw (wr_nullifierHash req)) (\<lambda>nullifier.
     bind_res (must (nullifier = sigs ! 1) ''nullifierHash mismatch'') (\<lambda>_.
     bind_res (bigint_or_throw (wr_fee req)) (\<lambda>fee.
     bind_res (must (fee = sigs ! 4) ''fee mismatch'') (\<lambda>_.
     bind_res (publicKey_or_throw vf (wr_recipient req)) (\<lambda>recPub.
     bind_res (publicKey_or_throw vf (wr_relayer req)) (\<lambda>relPub.
     bind_res (must (pubkeyToFieldHash (vf_poseidon vf) recPub = sigs ! 2) ''recipient mismatch'') (\<lambda>_.
     must (pubkeyToFieldHash (vf_poseidon vf) relPub = sigs ! 3) ''relayer mismatch'')))))))))))"

datatype delay = Ripe | Unripe int int

definition checkPrivacyDelay :: "relayer \<Rightarrow> string \<Rightarrow> delay rasync" where
  "checkPrivacyDelay rl rt =
     (if privacyDelaySlots rl \<le> 0 then returnE Ripe
      else if \<not> rl_rootSeenRepo rl then returnE Ripe
      else if \<not> rl_slotProvider rl \<and> rl_hotWallet rl = None then returnE Ripe
      else
        bindE (rcallE GetSlot ans_int) (\<lambda>currentSlot.
        bindE (rcallE (ObserveRoot rt currentSlot) ans_int) (\<lambda>firstSeenSlot.
        let deltaBigInt = currentSlot - firstSeenSlot;
            delta = (if deltaBigInt < 0 then 0 else deltaBigInt)
        in returnE (if delta < privacyDelaySlots rl then Unripe delta (privacyDelaySlots rl - delta) else Ripe))))"

section \<open>Submission\<close>

fun has_substring :: "string \<Rightarrow> string \<Rightarrow> bool" where
  "has_substring p [] = (p = [])"
| "has_substring p (c # s) = (starts_with p (c # s) \<or> has_substring p s)"

fun pack_error_text :: "pack_error \<Rightarrow> string" where
  "pack_error_text (SeedRangeError field v) = field @ '' value too large to fit in 32-byte PDA seed: '' @ string_of_bigint v"
| "pack_error_text (NegativeValue v) = ''bigintToBeBytes: value must be non-negative, got '' @ string_of_bigint v"
| "pack_error_text (TooWide v) = ''bigintToBeBytes: value 0x'' @ digits 16 v @ '' does not fit in 32 bytes''"
| "pack_error_text (NotBigInt t) = ''Cannot convert '' @ t @ '' to a BigInt''"
| "pack_error_text MissingElement = ''Cannot convert undefined to a BigInt''"
| "pack_error_text (SignalCount n) = ''Expected 5 public signals, got '' @ string_of_bigint (int n)"
| "pack_error_text (OutOfRange64 v) = ''The value of value is out of range''"

fun exn_text :: "rexn \<Rightarrow> string" where
  "exn_text (RpcFailure m) = m"
| "exn_text (BadPacking e) = pack_error_text e"
| "exn_text (BadKey k) = ''Invalid public key input''"
| "exn_text ClientUninitialized = ''RelayerService Solana client not initialized. Call initializeClient() first.''"
| "exn_text (PoolNotInitialized pool) = ''Mixer pool '' @ pool @ '' not initialized.''"
| "exn_text (Diagnosed m d) = m @ '' | '' @ d"
| "exn_text Impossible = ''unknown''"

text \<open>\<open>(idx - i + length) % length\<close>, and the \<open>TypeError\<close> of an entry that is not there.\<close>

definition recent_root :: "MixerPool \<Rightarrow> int \<Rightarrow> string option" where
  "recent_root pool i =
     (let len = int (length (mp_rootHistory pool)); k = mp_currentRootIndex pool - i + len;
          j = (if k < 0 then - ((- k) mod len) else k mod len) in
      if len = 0 \<or> j < 0 then None
      else Some (''['' @ string_of_bigint j @ '']='' @ take 16 (hex_encode (mp_rootHistory pool ! nat j)) @ ''...''))"

fun recent_roots :: "MixerPool \<Rightarrow> int list \<Rightarrow> string list option" where
  "recent_roots pool [] = Some []"
| "recent_roots pool (i # is) =
     (case (recent_root pool i, recent_roots pool is) of (Some t, Some ts) \<Rightarrow> Some (t # ts) | _ \<Rightarrow> None)"

definition comma_join :: "string list \<Rightarrow> string" where
  "comma_join ts = (case ts of [] \<Rightarrow> [] | t # rest \<Rightarrow> t @ concat (map (\<lambda>u. '', '' @ u) rest))"

definition diagnoseRootNotFound :: "string \<Rightarrow> string \<Rightarrow> string rasync" where
  "diagnoseRootNotFound poolAddress submittedRootDecimal =
     bindE (rcallE FetchPool ans_pool) (\<lambda>pool.
     bindE (liftE (seed_of submittedRootDecimal ''root'')) (\<lambda>submitted.
     case recent_roots pool [0, 1, 2, 3, 4] of
       None \<Rightarrow> throwE (RpcFailure ''Cannot read properties of undefined'')
     | Some recent \<Rightarrow>
         returnE (''pool='' @ poolAddress @ '' nextLeafIndex='' @ string_of_bigint (int (mp_nextLeafIndex pool)) @
           '' currentRootIndex='' @ string_of_bigint (mp_currentRootIndex pool) @
           '' submittedRoot='' @ take 16 (hex_encode submitted) @ ''... submittedInHistory='' @
           (if hex_encode submitted \<in> hex_encode ` set (mp_rootHistory pool) then ''true'' else ''false'') @
           '' recentRoots='' @ comma_join recent)))"

definition submitWithdrawalTx :: "relayer \<Rightarrow> verifier \<Rightarrow> WithdrawRequest \<Rightarrow> string rasync" where
  "submitWithdrawalTx rl vf req =
     bindE (guardE (rl_hotWallet rl \<noteq> None) ClientUninitialized) (\<lambda>_.
     bindE (rcallE PoolAccount ans_bool) (\<lambda>poolAcct.
     bindE (guardE poolAcct (PoolNotInitialized (rl_poolPDA rl))) (\<lambda>_.
     bindE (liftE (convertProofToBytes (wr_proof req))) (\<lambda>proofBytes.
     bindE (liftE (convertPublicInputsToBytes (wr_publicSignals req))) (\<lambda>publicInputsBytes.
     bindE (liftE (seed_of (wr_nullifierHash req) ''nullifierHash'')) (\<lambda>nullifierHashBuf.
     bindE (guardE (vf_PublicKey vf (wr_recipient req) \<noteq> None) (BadKey (wr_recipient req))) (\<lambda>_.
     catchE (rcallE (SubmitWithdraw req nullifierHashBuf) ans_text) (\<lambda>err.
       let msg = exn_text err in
       if has_substring ''RootNotFound'' msg \<or> has_substring ''6003'' msg then
         bindE (catchE (diagnoseRootNotFound (rl_poolPDA rl) (wr_root req))
                  (\<lambda>e. returnE (''(diag failed: '' @ exn_text e @ '')''))) (\<lambda>diag.
         throwE (Diagnosed msg diag))
       else throwE err))))))))"

section \<open>The pipeline\<close>

text \<open>Steps 4 to 6: verify the proof, pay for the transaction, record the nullifier.\<close>

definition verifyAndSubmit :: "relayer \<Rightarrow> verifier \<Rightarrow> WithdrawRequest \<Rightarrow> WithdrawResult rasync" where
  "verifyAndSubmit rl vf req =
     attemptE (rcallE (VerifyProof (wr_proof req) (wr_publicSignals req)) ans_bool)
       (\<lambda>err. returnE (failed req (ProofError (exn_text err)))) (\<lambda>proofValid.
     if \<not> proofValid then returnE (failed req InvalidProof)
     else
       bindE (doE (AddPending 1)) (\<lambda>_.
       attemptE (submitWithdrawalTx rl vf req)
         (\<lambda>err. bindE (doE (AddPending (- 1))) (\<lambda>_.
                 returnE (failed req (SubmissionFailed (exn_text err))))) (\<lambda>txSignature.
       bindE (markSpent (wr_nullifierHash req) txSignature) (\<lambda>_.
       bindE (doE (AddPending (- 1))) (\<lambda>_.
       bindE (doE CountProcessed) (\<lambda>_.
       case bigint_of_string (wr_fee req) of
         None \<Rightarrow> throwE (BadPacking (NotBigInt (wr_fee req)))
       | Some fee \<Rightarrow>
           returnE \<lparr>re_success = True, re_txSignature = Some txSignature,
             re_nullifierHash = wr_nullifierHash req, re_recipient = wr_recipient req,
             re_amountLamports = string_of_bigint (rc_poolDenomination (rl_config rl) - fee),
             re_feeLamports = wr_fee req, re_error = None\<rparr>))))))"

definition doProcessWithdrawal :: "relayer \<Rightarrow> verifier \<Rightarrow> WithdrawRequest \<Rightarrow> WithdrawResult rasync" where
  "doProcessWithdrawal rl vf req =
     bindE (isSpent (wr_nullifierHash req)) (\<lambda>alreadySpent.
     if alreadySpent then returnE (failed req AlreadySpent)
     else (case checkPublicSignalsParity vf req of
       Inl reason \<Rightarrow> returnE (failed req (SignalMismatch reason))
     | Inr _ \<Rightarrow>
       bindE (checkPrivacyDelay rl (wr_root req)) (\<lambda>delay.
       case delay of
         Unripe elapsedSlots waitSlots \<Rightarrow>
           returnE (failed req (PrivacyDelay elapsedSlots (privacyDelaySlots rl)
             (ceil_div (waitSlots * SLOT_DURATION_MS) 1000)))
       | Ripe \<Rightarrow> verifyAndSubmit rl vf req)))"

text \<open>
  A caller that finds the nullifier in flight awaits the promise of that flight: its outcome is
  the outcome of flight \<open>k\<close>, whichever it will be.
\<close>

datatype outcome = Own WithdrawResult | SharesFlight nat

definition processWithdrawal :: "relayer \<Rightarrow> verifier \<Rightarrow> WithdrawRequest \<Rightarrow> outcome rasync" where
  "processWithdrawal rl vf req =
     (case guardRequest rl req of
        Some e \<Rightarrow> returnE (Own (failed req e))
      | None \<Rightarrow>
          bindE (rcallE (JoinOrStart (wr_nullifierHash req)) ans_flight) (\<lambda>flight.
          case flight of
            Inl k \<Rightarrow> returnE (SharesFlight k)
          | Inr k \<Rightarrow>
              finallyE (bindE (doProcessWithdrawal rl vf req) (\<lambda>r. returnE (Own r)))
                (doE (Release (wr_nullifierHash req)))))"

section \<open>Dry run, status and health\<close>

definition validateProof :: "relayer \<Rightarrow> verifier \<Rightarrow> WithdrawRequest \<Rightarrow> failure option rasync" where
  "validateProof rl vf req =
     (case guardRequest rl req of
        Some e \<Rightarrow> returnE (Some e)
      | None \<Rightarrow>
          bindE (isSpent (wr_nullifierHash req)) (\<lambda>spent.
          if spent then returnE (Some AlreadySpent)
          else (case checkPublicSignalsParity vf req of
              Inl reason \<Rightarrow> returnE (Some (SignalMismatch reason))
            | Inr _ \<Rightarrow>
                attemptE (rcallE (VerifyProof (wr_proof req) (wr_publicSignals req)) ans_bool)
                  (\<lambda>err. returnE (Some (ProofError (exn_text err)))) (\<lambda>proofValid.
                returnE (if proofValid then None else Some InvalidProof)))))"

definition getHotWalletPublicKey :: "relayer \<Rightarrow> string" where
  "getHotWalletPublicKey rl = (case rl_hotWallet rl of None \<Rightarrow> ''NOT_INITIALIZED'' | Some k \<Rightarrow> k)"

definition getHotWalletBalance :: "relayer \<Rightarrow> string rasync" where
  "getHotWalletBalance rl =
     (if rl_hotWallet rl = None then returnE ''0''
      else bindE (rcallE GetBalance ans_int) (\<lambda>balance. returnE (string_of_bigint balance)))"

record RelayerStatus =
  st_publicKey :: string
  st_balanceLamports :: string
  st_pendingWithdrawals :: int
  st_totalProcessed :: nat
  st_nullifierCount :: int

definition relayer_status :: "relayer \<Rightarrow> RelayerStatus rasync" where
  "relayer_status rl =
     bindE (getHotWalletBalance rl) (\<lambda>balance.
     bindE (rcallE Counters ans_counters) (\<lambda>(pending, inFlight, processed).
     bindE (rcallE CacheCount ans_int) (\<lambda>count.
     returnE \<lparr>st_publicKey = getHotWalletPublicKey rl, st_balanceLamports = balance,
       st_pendingWithdrawals = pending, st_totalProcessed = processed, st_nullifierCount = count\<rparr>)))"

datatype RelayerHealthIssue = Client_uninitialized | Low_balance | Queue_backed_up

record RelayerHealth =
  he_healthy :: bool
  he_issues :: "RelayerHealthIssue list"
  he_publicKey :: string
  he_balanceLamports :: string
  he_withdrawalsBudget :: int
  he_pendingWithdrawals :: int
  he_inFlightNullifiers :: nat
  he_totalProcessed :: nat
  he_nullifierCount :: int
  he_minFeeLamports :: string
  he_poolDenomination :: string

text \<open>Division of \<open>bigint\<close>s truncates; a balance is never negative.\<close>

definition health_issues :: "relayer \<Rightarrow> int \<Rightarrow> nat \<Rightarrow> int \<times> RelayerHealthIssue list" where
  "health_issues rl balance inFlight =
     (let minFee = rc_minFeeLamports (rl_config rl);
          budget = (if 0 < minFee then balance div minFee else 0) in
      (budget,
       (if rl_hotWallet rl = None then [Client_uninitialized] else []) @
       (if budget < LOW_BALANCE_THRESHOLD_WITHDRAWALS then [Low_balance] else []) @
       (if QUEUE_BACKED_THRESHOLD \<le> inFlight then [Queue_backed_up] else [])))"

definition relayer_health :: "relayer \<Rightarrow> RelayerHealth rasync" where
  "relayer_health rl =
     bindE (getHotWalletBalance rl) (\<lambda>balanceLamports.
     bindE (liftE (case bigint_of_string balanceLamports of None \<Rightarrow> Inl (NotBigInt balanceLamports) | Some b \<Rightarrow> Inr b)) (\<lambda>balance.
     bindE (rcallE Counters ans_counters) (\<lambda>(pending, inFlight, processed).
     bindE (rcallE CacheCount ans_int) (\<lambda>count.
     let (budget, issues) = health_issues rl balance inFlight in
     returnE \<lparr>he_healthy = (issues = []), he_issues = issues, he_publicKey = getHotWalletPublicKey rl,
       he_balanceLamports = balanceLamports, he_withdrawalsBudget = budget, he_pendingWithdrawals = pending,
       he_inFlightNullifiers = inFlight, he_totalProcessed = processed, he_nullifierCount = count,
       he_minFeeLamports = string_of_bigint (rc_minFeeLamports (rl_config rl)),
       he_poolDenomination = string_of_bigint (rc_poolDenomination (rl_config rl))\<rparr>))))"

end
