(* ===== verification/RelayerSafety.thy ===== *)
theory RelayerSafety imports RelayerService begin

text \<open>
  The withdrawal pipeline under every interleaving of requests: a phase for each request, the
  calls each phase allows, and the link between the phases in flight and the relayer's state.
\<close>

section \<open>Phases\<close>

record rphase =
  ph_started :: bool
  ph_held :: "string option"
  ph_slot :: "int option"
  ph_seen :: "(string \<times> int \<times> int) option"
  ph_verified :: "(Groth16Proof \<times> string list) option"
  ph_pending :: bool
  ph_paid :: bool

definition arriving :: rphase where
  "arriving = \<lparr>ph_started = False, ph_held = None, ph_slot = None, ph_seen = None, ph_verified = None,
     ph_pending = False, ph_paid = False\<rparr>"

definition gated :: "relayer \<Rightarrow> bool" where
  "gated rl \<longleftrightarrow> 0 < privacyDelaySlots rl \<and> rl_rootSeenRepo rl \<and> (rl_slotProvider rl \<or> rl_hotWallet rl \<noteq> None)"

definition ripe :: "relayer \<Rightarrow> rphase \<Rightarrow> string \<Rightarrow> bool" where
  "ripe rl ph rt \<longleftrightarrow> (gated rl \<longrightarrow> (\<exists>c s. ph_seen ph = Some (rt, c, s) \<and> privacyDelaySlots rl \<le> c - s))"

definition payable :: "relayer \<Rightarrow> verifier \<Rightarrow> rphase \<Rightarrow> WithdrawRequest \<Rightarrow> bool" where
  "payable rl vf ph req \<longleftrightarrow>
     ph_held ph = Some (wr_nullifierHash req) \<and> \<not> ph_paid ph \<and> guardRequest rl req = None \<and>
     checkPublicSignalsParity vf req = Inr () \<and> ripe rl ph (wr_root req) \<and>
     ph_verified ph = Some (wr_proof req, wr_publicSignals req)"

fun rdelta :: "relayer \<Rightarrow> verifier \<Rightarrow> rphase \<Rightarrow> rcall \<Rightarrow> (rexn, rresp) res \<Rightarrow> rphase option" where
  "rdelta rl vf ph (JoinOrStart h) r =
     (if ph_started ph then None
      else Some (case r of
          Inr (AnsStarted k) \<Rightarrow> ph\<lparr>ph_started := True, ph_held := Some h\<rparr>
        | _ \<Rightarrow> ph\<lparr>ph_started := True\<rparr>))"
| "rdelta rl vf ph (Release h) r = (if ph_held ph = Some h then Some (ph\<lparr>ph_held := None\<rparr>) else None)"
| "rdelta rl vf ph GetSlot r = Some (case r of Inr (AnsInt c) \<Rightarrow> ph\<lparr>ph_slot := Some c\<rparr> | _ \<Rightarrow> ph)"
| "rdelta rl vf ph (ObserveRoot rt c) r =
     (if ph_slot ph = Some c then Some (case r of Inr (AnsInt s) \<Rightarrow> ph\<lparr>ph_seen := Some (rt, c, s)\<rparr> | _ \<Rightarrow> ph)
      else None)"
| "rdelta rl vf ph (VerifyProof p sigs) r =
     Some (case r of Inr (AnsBool True) \<Rightarrow> ph\<lparr>ph_verified := Some (p, sigs)\<rparr> | _ \<Rightarrow> ph)"
| "rdelta rl vf ph (AddPending d) r =
     (if d = 1 \<and> \<not> ph_pending ph then Some (ph\<lparr>ph_pending := True\<rparr>)
      else if d = - 1 \<and> ph_pending ph then Some (ph\<lparr>ph_pending := False\<rparr>) else None)"
| "rdelta rl vf ph (SubmitWithdraw req b) r =
     (if payable rl vf ph req then Some (ph\<lparr>ph_paid := True\<rparr>) else None)"
| "rdelta rl vf ph c r = Some ph"

definition finished :: "rphase \<Rightarrow> 'a \<Rightarrow> bool" where
  "finished ph a \<longleftrightarrow> ph_held ph = None \<and> \<not> ph_pending ph"

section \<open>The requests conform\<close>

lemma conforms_rcallE:
  assumes "\<And>r. case rdelta rl vf ph c r of None \<Rightarrow> False | Some ph' \<Rightarrow>
      (case r of Inl e \<Rightarrow> fin ph' (Inl e) | Inr a \<Rightarrow> (case get a of None \<Rightarrow> fin ph' (Inl Impossible) | Some x \<Rightarrow> fin ph' (Inr x)))"
  shows "conforms (rdelta rl vf) fin ph (rcallE c get)"
  unfolding rcallE_def conforms.simps
proof
  fix r
  show "case rdelta rl vf ph c r of None \<Rightarrow> False | Some ph' \<Rightarrow>
      conforms (rdelta rl vf) fin ph' (case r of Inl e \<Rightarrow> throwE e
        | Inr a \<Rightarrow> (case get a of None \<Rightarrow> throwE Impossible | Some x \<Rightarrow> returnE x))"
    using assms [of r] by (auto split: option.splits sum.splits)
qed

text \<open>A call that leaves the phase alone, whatever it answers.\<close>

lemma conforms_neutral:
  assumes "\<And>r. rdelta rl vf ph c r = Some ph" and "\<And>x. fin ph x"
  shows "conforms (rdelta rl vf) fin ph (rcallE c get)"
  using assms by (intro conforms_rcallE) (auto split: sum.splits option.splits)

lemma conforms_doE:
  assumes "\<And>r. case rdelta rl vf ph c r of None \<Rightarrow> False | Some ph' \<Rightarrow> fin ph' (Inr ())"
  shows "conforms (rdelta rl vf) fin ph (doE c)"
  unfolding doE_def conforms.simps
proof
  fix r
  show "case rdelta rl vf ph c r of None \<Rightarrow> False | Some ph' \<Rightarrow> conforms (rdelta rl vf) fin ph' (returnE ())"
    using assms [of r] by (auto split: option.splits)
qed

lemma conforms_liftE:
  "(\<And>e. fin ph (Inl e)) \<Longrightarrow> (\<And>x. r = Inr x \<Longrightarrow> fin ph (Inr x)) \<Longrightarrow> conforms step fin ph (liftE r)"
  by (cases r) (auto simp: liftE_def)

lemma conforms_finallyE:
  assumes "conforms step (\<lambda>ph r. conforms step (\<lambda>ph' _. fin ph' r) ph q) ph p"
  shows "conforms step fin ph (finallyE p q)"
  unfolding finallyE_def
  by (rule conforms_bindP, rule conforms_mono [OF assms], rule conforms_bindP) simp

lemma conforms_isSpent: "(\<And>x. fin ph x) \<Longrightarrow> conforms (rdelta rl vf) fin ph (isSpent h)"
  unfolding isSpent_def isNullifierSpentOnChain_def
  by (auto intro!: conforms_bindE conforms_neutral conforms_liftE conforms_doE split: sum.splits)

text \<open>The gate lets a request through only in a phase that has seen its root ripen.\<close>

lemma conforms_checkPrivacyDelay:
  assumes "\<And>e ph'. ph_held ph' = ph_held ph \<Longrightarrow> ph_pending ph' = ph_pending ph \<Longrightarrow> fin ph' (Inl e)"
    and "\<And>a b ph'. ph_held ph' = ph_held ph \<Longrightarrow> ph_pending ph' = ph_pending ph \<Longrightarrow> fin ph' (Inr (Unripe a b))"
    and "\<And>ph'. ph_held ph' = ph_held ph \<Longrightarrow> ph_pending ph' = ph_pending ph \<Longrightarrow> ph_paid ph' = ph_paid ph \<Longrightarrow>
           ripe rl ph' rt \<Longrightarrow> fin ph' (Inr Ripe)"
  shows "conforms (rdelta rl vf) fin ph (checkPrivacyDelay rl rt)"
proof (cases "gated rl")
  case False
  then show ?thesis using assms(3) [of ph] by (auto simp: checkPrivacyDelay_def gated_def ripe_def)
next
  case True
  then have g: "\<not> privacyDelaySlots rl \<le> 0" "rl_rootSeenRepo rl" "rl_slotProvider rl \<or> rl_hotWallet rl \<noteq> None"
    by (auto simp: gated_def)
  show ?thesis
    unfolding checkPrivacyDelay_def using g assms
    by (auto intro!: conforms_bindE conforms_rcallE simp: ripe_def Let_def split: sum.splits option.splits rresp.splits)
qed

lemma conforms_diagnose: "(\<And>x. fin ph x) \<Longrightarrow> conforms (rdelta rl vf) fin ph (diagnoseRootNotFound pool rt)"
  unfolding diagnoseRootNotFound_def
  by (auto intro!: conforms_bindE conforms_neutral conforms_liftE split: sum.splits option.splits)

lemma conforms_submit:
  assumes "payable rl vf ph req"
    and "\<And>x. fin ph x" and "\<And>x. fin (ph\<lparr>ph_paid := True\<rparr>) x"
  shows "conforms (rdelta rl vf) fin ph (submitWithdrawalTx rl vf req)"
  unfolding submitWithdrawalTx_def Let_def
  apply (rule conforms_bindE, simp add: assms(2), intro impI)
  apply (rule conforms_bindE, rule conforms_neutral, simp)
  apply (split sum.split, intro conjI allI impI, rule assms(2))
  apply (rule conforms_bindE, simp add: assms(2), intro impI)
  apply (rule conforms_bindE, rule conforms_liftE, simp add: assms(2), simp)
  apply (rule conforms_bindE, rule conforms_liftE, simp add: assms(2), simp)
  apply (rule conforms_bindE, rule conforms_liftE, simp add: assms(2), simp)
  apply (rule conforms_bindE, simp add: assms(2), intro impI)
  apply (rule conforms_catchE, rule conforms_rcallE)
  apply (simp add: assms(1))
  apply (auto simp: assms(3) split: sum.splits option.splits
      intro!: conforms_bindE conforms_catchE conforms_diagnose)
  done

lemma conforms_verifyAndSubmit:
  assumes "guardRequest rl req = None" and "ph_held ph = Some (wr_nullifierHash req)"
    and "\<not> ph_paid ph" and "\<not> ph_pending ph"
    and "ripe rl ph (wr_root req)" and "checkPublicSignalsParity vf req = Inr ()"
    and "\<And>x ph'. ph_held ph' = ph_held ph \<Longrightarrow> \<not> ph_pending ph' \<Longrightarrow> fin ph' x"
  shows "conforms (rdelta rl vf) fin ph (verifyAndSubmit rl vf req)"
  unfolding verifyAndSubmit_def
  apply (rule conforms_attemptE, rule conforms_rcallE)
  apply (simp split: sum.split rresp.split bool.split)
  apply (intro conjI allI impI)
  using assms
  apply (auto simp: markSpent_def payable_def ripe_def split: sum.splits option.splits
      intro!: conforms_bindE conforms_doE conforms_attemptE conforms_submit)
  done

lemma conforms_doProcess:
  assumes "guardRequest rl req = None" and "ph_held ph = Some (wr_nullifierHash req)"
    and "\<not> ph_paid ph" and "\<not> ph_pending ph"
    and "\<And>x ph'. ph_held ph' = ph_held ph \<Longrightarrow> \<not> ph_pending ph' \<Longrightarrow> fin ph' x"
  shows "conforms (rdelta rl vf) fin ph (doProcessWithdrawal rl vf req)"
  unfolding doProcessWithdrawal_def
  using assms
  by (auto split: sum.splits delay.splits
      intro!: conforms_bindE conforms_isSpent conforms_checkPrivacyDelay conforms_verifyAndSubmit)

lemma conforms_process: "conforms (rdelta rl vf) finished arriving (processWithdrawal rl vf req)"
proof (cases "guardRequest rl req")
  case None
  have flight: "conforms (rdelta rl vf) finished ph
      (finallyE (bindE (doProcessWithdrawal rl vf req) (\<lambda>r. returnE (Own r))) (doE (Release (wr_nullifierHash req))))"
    if "ph = arriving\<lparr>ph_started := True, ph_held := Some (wr_nullifierHash req)\<rparr>" for ph
    using that None
    by (auto simp: arriving_def finished_def split: sum.splits
        intro!: conforms_finallyE conforms_bindE conforms_doProcess conforms_doE)
  show ?thesis
    unfolding processWithdrawal_def None option.case
    by (rule conforms_bindE, rule conforms_rcallE)
      (auto simp: arriving_def finished_def split: sum.splits rresp.splits option.splits intro!: flight)
qed (auto simp: processWithdrawal_def finished_def arriving_def)

text \<open>A dry run pays for nothing.\<close>

lemma conforms_validate: "conforms (rdelta rl vf) finished arriving (validateProof rl vf req)"
  unfolding validateProof_def
  by (auto simp: finished_def arriving_def split: option.splits sum.splits rresp.splits bool.splits
      intro!: conforms_bindE conforms_isSpent conforms_attemptE conforms_rcallE)

section \<open>The link\<close>

fun flight_of :: "string \<Rightarrow> flight_event list \<Rightarrow> nat option" where
  "flight_of h [] = Some 0"
| "flight_of h (Began g # es) = (if g = h then (if flight_of h es = Some 0 then Some 1 else None) else flight_of h es)"
| "flight_of h (Paid g # es) = (if g = h then (if flight_of h es = Some 1 then Some 2 else None) else flight_of h es)"
| "flight_of h (Ended g # es) =
     (if g = h then (if flight_of h es \<in> {Some 1, Some 2} then Some 0 else None) else flight_of h es)"

definition paid_for :: "relayer \<Rightarrow> verifier \<Rightarrow> rworld \<Rightarrow> WithdrawRequest \<Rightarrow> bool" where
  "paid_for rl vf w req \<longleftrightarrow>
     guardRequest rl req = None \<and> checkPublicSignalsParity vf req = Inr () \<and>
     vf_verify vf (wr_proof req) (wr_publicSignals req) = Inr True \<and>
     (gated rl \<longrightarrow> (\<exists>c \<in> set (rw_slots w). \<exists>s. rw_roots w (wr_root req) = Some s \<and> s + privacyDelaySlots rl \<le> c))"

definition holding :: "string \<Rightarrow> rphase \<Rightarrow> bool" where
  "holding h ph \<longleftrightarrow> ph_held ph = Some h"

definition paying :: "string \<Rightarrow> rphase \<Rightarrow> bool" where
  "paying h ph \<longleftrightarrow> ph_held ph = Some h \<and> ph_paid ph"

definition phase_ok :: "verifier \<Rightarrow> rworld \<Rightarrow> rphase \<Rightarrow> bool" where
  "phase_ok vf w ph \<longleftrightarrow>
     (\<forall>c. ph_slot ph = Some c \<longrightarrow> c \<in> set (rw_slots w)) \<and>
     (\<forall>rt c s. ph_seen ph = Some (rt, c, s) \<longrightarrow> rw_roots w rt = Some s \<and> c \<in> set (rw_slots w)) \<and>
     (\<forall>p sigs. ph_verified ph = Some (p, sigs) \<longrightarrow> vf_verify vf p sigs = Inr True) \<and>
     (ph_paid ph \<longrightarrow> ph_started ph) \<and> (ph_held ph \<noteq> None \<longrightarrow> ph_started ph)"

definition rlink :: "relayer \<Rightarrow> verifier \<Rightarrow> rphase list \<Rightarrow> rworld \<Rightarrow> bool" where
  "rlink rl vf phs w \<longleftrightarrow>
     distinct (map fst (rw_inFlight w)) \<and>
     (\<forall>h. count_if (holding h) phs = (if h \<in> fst ` set (rw_inFlight w) then 1 else 0)) \<and>
     (\<forall>h. flight_of h (rw_log w) = Some (count_if (holding h) phs + count_if (paying h) phs)) \<and>
     rw_pending w = int (count_if ph_pending phs) \<and>
     (\<forall>ph \<in> set phs. phase_ok vf w ph) \<and>
     (\<forall>req \<in> set (rw_submitted w). paid_for rl vf w req)"

lemma count_if_update:
  "i < length xs \<Longrightarrow>
     count_if P (xs[i := y]) + (if P (xs ! i) then 1 else 0) = count_if P xs + (if P y then 1 else 0)"
proof (induction xs arbitrary: i)
  case (Cons x xs)
  then show ?case using Cons.IH [of "i - 1"] by (cases i) auto
qed simp

lemma count_if_nth: "i < length xs \<Longrightarrow> P (xs ! i) \<Longrightarrow> 1 \<le> count_if P xs"
proof (induction xs arbitrary: i)
  case (Cons x xs)
  then show ?case using Cons.IH [of "i - 1"] by (cases i) auto
qed simp

lemma map_leD: "m \<subseteq>\<^sub>m m' \<Longrightarrow> m k = Some v \<Longrightarrow> m' k = Some v"
  by (metis domI map_le_def)

text \<open>What a step has to show, and the steps that move no flight.\<close>

lemma paid_for_mono:
  assumes "paid_for rl vf w req" and "set (rw_slots w) \<subseteq> set (rw_slots w')" and "rw_roots w \<subseteq>\<^sub>m rw_roots w'"
  shows "paid_for rl vf w' req"
  using assms map_leD [OF assms(3)] unfolding paid_for_def by (meson subsetD)

lemma phase_ok_mono:
  assumes "phase_ok vf w ph" and "set (rw_slots w) \<subseteq> set (rw_slots w')" and "rw_roots w \<subseteq>\<^sub>m rw_roots w'"
  shows "phase_ok vf w' ph"
  using assms map_leD [OF assms(3)] unfolding phase_ok_def by (meson subsetD)

definition one_if :: "bool \<Rightarrow> nat" where
  "one_if b = (if b then 1 else 0)"

lemma rlink_step:
  assumes "rlink rl vf phs w" and "i < length phs"
    and "set (rw_slots w) \<subseteq> set (rw_slots w')" and "rw_roots w \<subseteq>\<^sub>m rw_roots w'"
    and "phase_ok vf w' ph'"
    and "distinct (map fst (rw_inFlight w'))"
    and "\<And>h. one_if (h \<in> fst ` set (rw_inFlight w')) + one_if (holding h (phs ! i))
           = one_if (h \<in> fst ` set (rw_inFlight w)) + one_if (holding h ph')"
    and "\<And>h n. flight_of h (rw_log w) = Some n \<Longrightarrow> n \<ge> one_if (holding h (phs ! i)) + one_if (paying h (phs ! i)) \<Longrightarrow>
           (holding h (phs ! i) \<Longrightarrow> n = 1 + one_if (paying h (phs ! i))) \<Longrightarrow>
           (h \<notin> fst ` set (rw_inFlight w) \<Longrightarrow> n = 0) \<Longrightarrow>
           flight_of h (rw_log w') = Some (n + one_if (holding h ph') + one_if (paying h ph')
             - one_if (holding h (phs ! i)) - one_if (paying h (phs ! i)))"
    and "rw_pending w' + int (one_if (ph_pending (phs ! i))) = rw_pending w + int (one_if (ph_pending ph'))"
    and "\<And>req. req \<in> set (rw_submitted w') \<Longrightarrow> req \<in> set (rw_submitted w) \<or> paid_for rl vf w' req"
  shows "rlink rl vf (phs[i := ph']) w'"
proof -
  note old = assms(1) [unfolded rlink_def]
  have c: "count_if P (phs[i := ph']) + one_if (P (phs ! i)) = count_if P phs + one_if (P ph')" for P
    using count_if_update [OF assms(2), of P ph'] by (simp add: one_if_def)
  have held: "count_if (holding h) phs = one_if (h \<in> fst ` set (rw_inFlight w))" for h
    using old by (simp add: one_if_def)
  have le: "count_if (paying h) xs \<le> count_if (holding h) xs" for h xs
    by (induction xs) (auto simp: holding_def paying_def)
  have at: "one_if (P (phs ! i)) \<le> count_if P phs" for P
    using count_if_nth [OF assms(2), of P] by (simp add: one_if_def)
  have h: "count_if (holding h) (phs[i := ph']) = one_if (h \<in> fst ` set (rw_inFlight w'))" for h
    using c [of "holding h"] held [of h] assms(7) [of h] by simp
  have f: "flight_of h (rw_log w') = Some (count_if (holding h) (phs[i := ph']) + count_if (paying h) (phs[i := ph']))" for h
  proof -
    let ?n = "count_if (holding h) phs + count_if (paying h) phs"
    have one: "?n = 1 + one_if (paying h (phs ! i))" if "holding h (phs ! i)"
    proof -
      have "count_if (holding h) phs = 1" using held [of h] at [of "holding h"] that by (auto simp: one_if_def split: if_splits)
      moreover have "count_if (paying h) phs = one_if (paying h (phs ! i))"
      proof (cases "paying h (phs ! i)")
        case True
        with at [of "paying h"] le [of h phs] \<open>count_if (holding h) phs = 1\<close> show ?thesis by (simp add: one_if_def)
      next
        case False
        have "count_if (paying h) (phs[i := arriving]) \<le> count_if (holding h) (phs[i := arriving])" by (rule le)
        moreover have "\<not> holding h arriving" "\<not> paying h arriving" by (simp_all add: holding_def paying_def arriving_def)
        ultimately show ?thesis
          using False that \<open>count_if (holding h) phs = 1\<close>
            count_if_update [OF assms(2), of "holding h" arriving] count_if_update [OF assms(2), of "paying h" arriving]
          by (simp add: one_if_def)
      qed
      ultimately show ?thesis by simp
    qed
    have "flight_of h (rw_log w') = Some (?n + one_if (holding h ph') + one_if (paying h ph')
        - one_if (holding h (phs ! i)) - one_if (paying h (phs ! i)))"
      using old at [of "holding h"] at [of "paying h"] one held [of h] le [of h phs]
      by (intro assms(8)) (auto simp: one_if_def split: if_splits)
    with c [of "holding h"] c [of "paying h"] at [of "holding h"] at [of "paying h"] show ?thesis by simp
  qed
  have p: "rw_pending w' = int (count_if ph_pending (phs[i := ph']))"
    using c [of ph_pending] assms(9) old by linarith
  have "\<forall>ph \<in> set (phs[i := ph']). phase_ok vf w' ph"
    using old phase_ok_mono [OF _ assms(3,4)] assms(5) by (auto dest!: set_update_subset_insert [THEN subsetD])
  moreover have "\<forall>req \<in> set (rw_submitted w'). paid_for rl vf w' req"
    using old paid_for_mono [OF _ assms(3,4)] assms(10) by blast
  ultimately show ?thesis
    using assms(6) h f p by (simp add: rlink_def one_if_def)
qed

text \<open>A call that leaves the flights alone, and one that leaves the counter alone too.\<close>

lemma rlink_still:
  assumes "rlink rl vf phs w" and "i < length phs"
    and "set (rw_slots w) \<subseteq> set (rw_slots w')" and "rw_roots w \<subseteq>\<^sub>m rw_roots w'"
    and "phase_ok vf w' ph'"
    and "rw_inFlight w' = rw_inFlight w" "rw_log w' = rw_log w" "rw_submitted w' = rw_submitted w"
    and "ph_held ph' = ph_held (phs ! i)" "ph_paid ph' = ph_paid (phs ! i)"
    and "rw_pending w' + int (one_if (ph_pending (phs ! i))) = rw_pending w + int (one_if (ph_pending ph'))"
  shows "rlink rl vf (phs[i := ph']) w'"
proof (rule rlink_step [OF assms(1-5) _ _ _ assms(11)])
  show "distinct (map fst (rw_inFlight w'))" using assms(1,6) by (simp add: rlink_def)
qed (use assms(6-10) in \<open>simp_all add: holding_def paying_def one_if_def\<close>)

lemma rlink_quiet:
  assumes "rlink rl vf phs w" and "i < length phs"
    and "set (rw_slots w) \<subseteq> set (rw_slots w')" and "rw_roots w \<subseteq>\<^sub>m rw_roots w'"
    and "phase_ok vf w' ph'"
    and "rw_inFlight w' = rw_inFlight w" "rw_log w' = rw_log w" "rw_pending w' = rw_pending w" "rw_submitted w' = rw_submitted w"
    and "ph_held ph' = ph_held (phs ! i)" "ph_paid ph' = ph_paid (phs ! i)" "ph_pending ph' = ph_pending (phs ! i)"
  shows "rlink rl vf (phs[i := ph']) w'"
  by (rule rlink_still [OF assms(1-7,9-11)]) (simp add: assms(8,12))

lemma phase_at: "rlink rl vf phs w \<Longrightarrow> i < length phs \<Longrightarrow> phase_ok vf w (phs ! i)"
  by (simp add: rlink_def)

lemma map_of_None_fst: "map_of xs k = None \<longleftrightarrow> k \<notin> fst ` set xs"
  by (rule map_of_eq_None_iff)

lemma rlink_join:
  assumes "rlink rl vf phs w" and "i < length phs" and "rhandle env vf (JoinOrStart h) w = (r, w')"
    and "rdelta rl vf (phs ! i) (JoinOrStart h) r = Some ph'"
  shows "rlink rl vf (phs[i := ph']) w'"
proof (cases "map_of (rw_inFlight w) h")
  case (Some k)
  with assms phase_at [OF assms(1,2)] show ?thesis
    by (intro rlink_quiet [OF assms(1,2)])
      (auto simp: rhandle_def Let_def phase_ok_def split: if_splits)
next
  case None
  then have new: "h \<notin> fst ` set (rw_inFlight w)" by (simp add: map_of_None_fst)
  have start: "\<not> ph_started (phs ! i)" using assms(4) by (auto split: if_splits)
  then have out: "ph_held (phs ! i) = None" "\<not> ph_paid (phs ! i)"
    using phase_at [OF assms(1,2)] by (auto simp: phase_ok_def)
  show ?thesis
    using assms(3,4) None new start out phase_at [OF assms(1,2)] assms(1)
    by (intro rlink_step [OF assms(1,2)])
      (auto simp: rhandle_def Let_def phase_ok_def rlink_def one_if_def holding_def paying_def)
qed

lemma rlink_release:
  assumes "rlink rl vf phs w" and "i < length phs" and "rhandle env vf (Release h) w = (r, w')"
    and "rdelta rl vf (phs ! i) (Release h) r = Some ph'"
  shows "rlink rl vf (phs[i := ph']) w'"
proof -
  have held: "ph_held (phs ! i) = Some h" and ph': "ph' = (phs ! i)\<lparr>ph_held := None\<rparr>"
    using assms(4) by (auto split: if_splits)
  have w': "w' = w\<lparr>rw_calls := Suc (rw_calls w), rw_inFlight := filter (\<lambda>p. fst p \<noteq> h) (rw_inFlight w), rw_log := Ended h # rw_log w\<rparr>"
    using assms(3) by (simp add: rhandle_def Let_def)
  have "count_if (holding h) phs = (if h \<in> fst ` set (rw_inFlight w) then 1 else 0)"
    using assms(1) by (simp add: rlink_def)
  moreover have "1 \<le> count_if (holding h) phs"
    using count_if_nth [OF assms(2), of "holding h"] held by (simp add: holding_def)
  ultimately have mem: "h \<in> fst ` set (rw_inFlight w)" by (auto split: if_splits)
  have fil: "g \<in> fst ` set (filter (\<lambda>p. fst p \<noteq> h) xs) \<longleftrightarrow> g \<in> fst ` set xs \<and> g \<noteq> h" for g and xs :: "(string \<times> nat) list"
    by auto
  have dis: "distinct (map fst (filter (\<lambda>p. fst p \<noteq> h) (rw_inFlight w)))"
    using assms(1) by (simp add: rlink_def distinct_map_filter)
  show ?thesis
    unfolding w' ph' using held mem dis phase_at [OF assms(1,2)] assms(1)
    by (intro rlink_step [OF assms(1,2)])
      (auto simp: fil one_if_def holding_def paying_def phase_ok_def rlink_def)
qed

lemma rlink_observe:
  assumes "rlink rl vf phs w" and "i < length phs" and "rhandle env vf (ObserveRoot rt c) w = (r, w')"
    and "rdelta rl vf (phs ! i) (ObserveRoot rt c) r = Some ph'"
  shows "rlink rl vf (phs[i := ph']) w'"
proof -
  have slot: "ph_slot (phs ! i) = Some c" using assms(4) by (auto split: if_splits)
  have keep: "rw_inFlight w' = rw_inFlight w" "rw_log w' = rw_log w" "rw_pending w' = rw_pending w"
    "rw_submitted w' = rw_submitted w" "rw_slots w' = rw_slots w"
    using assms(3) by (auto simp: rhandle_def Let_def observe_def split: option.splits fault.splits)
  have roots: "rw_roots w \<subseteq>\<^sub>m rw_roots w'"
    using assms(3) by (auto simp: rhandle_def Let_def observe_def map_le_def split: option.splits fault.splits)
  have seen: "rw_roots w' rt = Some s" if "r = Inr (AnsInt s)" for s
    using assms(3) that by (auto simp: rhandle_def Let_def observe_def split: option.splits fault.splits)
  have old: "phase_ok vf w' (phs ! i)"
    using phase_ok_mono [OF phase_at [OF assms(1,2)] _ roots] keep by simp
  have "ph' = phs ! i \<or> (\<exists>s. r = Inr (AnsInt s) \<and> ph' = (phs ! i)\<lparr>ph_seen := Some (rt, c, s)\<rparr>)"
    using assms(4) slot by (auto split: sum.splits rresp.splits)
  then show ?thesis
    using keep roots old seen slot
    by (intro rlink_quiet [OF assms(1,2)]) (auto simp: phase_ok_def)
qed

lemma rlink_pending:
  assumes "rlink rl vf phs w" and "i < length phs" and "rhandle env vf (AddPending d) w = (r, w')"
    and "rdelta rl vf (phs ! i) (AddPending d) r = Some ph'"
  shows "rlink rl vf (phs[i := ph']) w'"
proof -
  have w': "w' = w\<lparr>rw_calls := Suc (rw_calls w), rw_pending := rw_pending w + d\<rparr>"
    using assms(3) by (simp add: rhandle_def Let_def)
  obtain b where ph': "ph' = (phs ! i)\<lparr>ph_pending := b\<rparr>" and d: "d + int (one_if (ph_pending (phs ! i))) = int (one_if b)"
    using assms(4) by (auto simp: one_if_def split: if_splits)
  have "phase_ok vf w' ph'" using phase_at [OF assms(1,2)] by (simp add: w' ph' phase_ok_def)
  then show ?thesis
    by (rule rlink_still [OF assms(1,2), rotated 2]) (use d in \<open>simp_all add: w' ph'\<close>)
qed

lemma rlink_submit:
  assumes "rlink rl vf phs w" and "i < length phs" and "rhandle env vf (SubmitWithdraw req b) w = (r, w')"
    and "rdelta rl vf (phs ! i) (SubmitWithdraw req b) r = Some ph'"
  shows "rlink rl vf (phs[i := ph']) w'"
proof -
  have pay: "payable rl vf (phs ! i) req" and ph': "ph' = (phs ! i)\<lparr>ph_paid := True\<rparr>"
    using assms(4) by (auto split: if_splits)
  have keep: "rw_inFlight w' = rw_inFlight w" "rw_pending w' = rw_pending w" "rw_slots w' = rw_slots w"
    "rw_roots w' = rw_roots w" "rw_log w' = Paid (wr_nullifierHash req) # rw_log w"
    "rw_submitted w' = req # rw_submitted w"
    using assms(3) by (auto simp: rhandle_def Let_def land_tx_def split: if_splits landing.splits)
  have pf: "paid_for rl vf w' req"
  proof -
    have "\<exists>c \<in> set (rw_slots w'). \<exists>s. rw_roots w' (wr_root req) = Some s \<and> s + privacyDelaySlots rl \<le> c" if gate: "gated rl"
    proof -
      obtain c s where seen: "ph_seen (phs ! i) = Some (wr_root req, c, s)" "privacyDelaySlots rl \<le> c - s"
        using pay gate by (auto simp: payable_def ripe_def)
      then have "rw_roots w' (wr_root req) = Some s" "c \<in> set (rw_slots w')" "s + privacyDelaySlots rl \<le> c"
        using phase_at [OF assms(1,2)] keep by (simp_all add: phase_ok_def)
      then show ?thesis by blast
    qed
    with pay phase_at [OF assms(1,2)] show ?thesis by (auto simp: payable_def paid_for_def phase_ok_def)
  qed
  show ?thesis
    unfolding ph' using keep pf pay phase_at [OF assms(1,2)] assms(1)
    by (intro rlink_step [OF assms(1,2)])
      (auto simp: one_if_def holding_def paying_def payable_def phase_ok_def rlink_def)
qed

text \<open>The other calls write no field of the link.\<close>

definition moves_flights :: "rcall \<Rightarrow> bool" where
  "moves_flights c = (case c of JoinOrStart h \<Rightarrow> True | Release h \<Rightarrow> True | ObserveRoot rt s \<Rightarrow> True
     | AddPending d \<Rightarrow> True | SubmitWithdraw req b \<Rightarrow> True | _ \<Rightarrow> False)"

lemma rexec_fields:
  assumes "\<not> moves_flights c"
  shows "let w' = snd (rexec env vf n c w) in rw_inFlight w' = rw_inFlight w \<and> rw_log w' = rw_log w \<and>
    rw_pending w' = rw_pending w \<and> rw_submitted w' = rw_submitted w \<and> rw_roots w' = rw_roots w \<and>
    set (rw_slots w) \<subseteq> set (rw_slots w')"
  using assms by (cases c) (auto simp: moves_flights_def)

lemma rlink_fields:
  assumes "rhandle env vf c w = (r, w')" and "\<not> moves_flights c"
  shows "rw_inFlight w' = rw_inFlight w" "rw_log w' = rw_log w" "rw_pending w' = rw_pending w"
    "rw_submitted w' = rw_submitted w" "rw_roots w' = rw_roots w" "set (rw_slots w) \<subseteq> set (rw_slots w')"
  using assms(1) rexec_fields [OF assms(2), of env vf "rw_calls w" "w\<lparr>rw_calls := Suc (rw_calls w)\<rparr>"]
  by (auto simp: rhandle_def Let_def simp del: rexec.simps split: if_splits option.splits fault.splits)

lemma rlink_other:
  assumes "rlink rl vf phs w" and "i < length phs" and "rhandle env vf c w = (r, w')"
    and "rdelta rl vf (phs ! i) c r = Some ph'"
    and "\<And>h. c \<noteq> JoinOrStart h" "\<And>h. c \<noteq> Release h" "\<And>rt s. c \<noteq> ObserveRoot rt s"
      "\<And>d. c \<noteq> AddPending d" "\<And>req b. c \<noteq> SubmitWithdraw req b"
  shows "rlink rl vf (phs[i := ph']) w'"
proof -
  have "\<not> moves_flights c" using assms(5-9) by (auto simp: moves_flights_def split: rcall.splits)
  note w = rlink_fields [OF assms(3) this]
  have "phase_ok vf w' ph' \<and> ph_held ph' = ph_held (phs ! i) \<and> ph_paid ph' = ph_paid (phs ! i) \<and> ph_pending ph' = ph_pending (phs ! i)"
  proof (cases "c = GetSlot")
    case True
    with assms(3,4) w phase_at [OF assms(1,2)] show ?thesis
      by (auto simp: rhandle_def Let_def phase_ok_def split: option.splits fault.splits)
  next
    case slot: False
    show ?thesis
    proof (cases "\<exists>p sigs. c = VerifyProof p sigs")
      case True
      then obtain p sigs where c: "c = VerifyProof p sigs" by blast
      have old: "phase_ok vf w' (phs ! i)" using phase_ok_mono [OF phase_at [OF assms(1,2)] w(6)] w(5) by simp
      have r: "r = map_sum RpcFailure AnsBool (vf_verify vf p sigs)"
        using assms(3) by (simp add: c rhandle_def Let_def)
      show ?thesis
      proof (cases "vf_verify vf p sigs = Inr True")
        case True
        with assms(4) old show ?thesis by (auto simp: c r phase_ok_def)
      next
        case False
        then have "ph' = phs ! i" using assms(4) by (cases "vf_verify vf p sigs") (auto simp: c r split: bool.splits)
        with old show ?thesis by simp
      qed
    next
      case False
      then have "ph' = phs ! i" using assms(4-9) slot by (cases c) auto
      with phase_ok_mono [OF phase_at [OF assms(1,2)] w(6)] w(5) show ?thesis by simp
    qed
  qed
  with w show ?thesis by (intro rlink_quiet [OF assms(1,2)]) auto
qed

lemma rlink_move:
  assumes "rlink rl vf phs w" and "i < length phs" and "rhandle env vf c w = (r, w')"
    and "rdelta rl vf (phs ! i) c r = Some ph'"
  shows "rlink rl vf (phs[i := ph']) w'"
proof (cases c)
  case (JoinOrStart h)
  with assms show ?thesis by (auto intro: rlink_join)
next
  case (Release h)
  with assms show ?thesis by (auto intro: rlink_release)
next
  case (ObserveRoot rt s)
  with assms show ?thesis by (auto intro: rlink_observe)
next
  case (AddPending d)
  with assms show ?thesis by (auto intro: rlink_pending)
next
  case (SubmitWithdraw req b)
  with assms show ?thesis by (auto intro: rlink_submit)
qed (rule rlink_other [OF assms], simp_all)+

lemma rlink_admit: "rlink rl vf phs w \<Longrightarrow> rlink rl vf (phs @ [arriving]) w"
  by (auto simp: rlink_def arriving_def holding_def paying_def phase_ok_def)

interpretation relayer_pool: protocol_pool "rhandle env vf" "rdelta rl vf" "rlink rl vf" arriving for env rl vf
  by unfold_locales (fact rlink_admit, rule rlink_move)

end
