(* ===== verification/RelayerProperties.thy ===== *)
theory RelayerProperties imports RelayerSafety begin

text \<open>
  Properties of the relayer: single flight per nullifier text, checked payments, no leaks,
  the double payment of an aliased nullifier, the account an answer gives, the privacy delay and
  the dry run.
\<close>

section \<open>Every interleaving\<close>

text \<open>What may be in flight: withdrawals and dry runs.\<close>

definition relayer_job :: "relayer \<Rightarrow> verifier \<Rightarrow> (rcall, (rexn, rresp) res, (rexn, outcome + failure option) res) prog \<Rightarrow> bool" where
  "relayer_job rl vf p \<longleftrightarrow>
     (\<exists>req. p = bindE (processWithdrawal rl vf req) (\<lambda>x. returnE (Inl x))) \<or>
     (\<exists>req. p = bindE (validateProof rl vf req) (\<lambda>x. returnE (Inr x)))"

lemma relayer_job_conforms:
  assumes "relayer_job rl vf p"
  shows "conforms (rdelta rl vf) finished arriving p"
proof -
  have wrap: "conforms (rdelta rl vf) finished arriving (bindE q (\<lambda>x. returnE (f x)))"
    if "conforms (rdelta rl vf) finished arriving q" for q :: "'x rasync" and f :: "'x \<Rightarrow> 'y"
    by (rule conforms_bindE, rule conforms_mono [OF that]) (simp add: finished_def split: sum.splits)
  show ?thesis using assms conforms_process [of rl vf] conforms_validate [of rl vf]
    by (auto simp: relayer_job_def intro: wrap)
qed

lemma rlink_start: "rlink rl vf [] (relayer_start spent)"
  by (simp add: rlink_def relayer_start_def)

lemma relayer_linked:
  assumes "ireach (rhandle env vf) (relayer_job rl vf) (relayer_start spent) (w, ts)"
  obtains phs where "length phs = length ts" "rlink rl vf phs w"
    "\<And>i a. i < length ts \<Longrightarrow> ts ! i = Done a \<Longrightarrow> finished (phs ! i) a"
  using relayer_pool.ireach_returned [OF assms rlink_start relayer_job_conforms] by blast

text \<open>
  C21.  Safety: withdrawals of the same nullifier text never overlap.  In the record of flights
  of any text, under every interleaving of withdrawals and dry runs and every pattern of lost
  calls, flights begin and end one after the other and each pays for at most one transaction.
\<close>

theorem single_flight_per_nullifier_text:
  assumes "ireach (rhandle env vf) (relayer_job rl vf) (relayer_start spent) (w, ts)"
  shows "flight_of h (rw_log w) \<noteq> None"
  using relayer_linked [OF assms] by (metis rlink_def option.distinct(1))

text \<open>
  C2.  Safety: the relayer pays for a transaction only after every check of the pipeline: the
  proof names its own hot wallet, the fee reaches the minimum, the five public signals are the
  numbers of the request, the Groth16 verifier accepted them, and, where the privacy delay is
  on, some slot it has read lies the full delay after the slot stored for the root.
\<close>

theorem payments_are_checked:
  assumes "ireach (rhandle env vf) (relayer_job rl vf) (relayer_start spent) (w, ts)"
    and "req \<in> set (rw_submitted w)"
  shows "paid_for rl vf w req"
  using relayer_linked [OF assms(1)] assms(2) by (metis rlink_def)

text \<open>
   Liveness: nothing leaks.  When every request in flight has returned, with a result or with an
  exception, no nullifier is held in flight and the counter of pending withdrawals is zero.
\<close>

theorem nothing_left_in_flight:
  assumes "ireach (rhandle env vf) (relayer_job rl vf) (relayer_start spent) (w, ts)"
    and "\<forall>i < length ts. \<exists>a. ts ! i = Done a"
  shows "rw_inFlight w = [] \<and> rw_pending w = 0"
proof -
  obtain phs where phs: "length phs = length ts" "rlink rl vf phs w"
    "\<And>i a. i < length ts \<Longrightarrow> ts ! i = Done a \<Longrightarrow> finished (phs ! i) a"
    using relayer_linked [OF assms(1)] by blast
  then have out: "ph_held ph = None \<and> \<not> ph_pending ph" if "ph \<in> set phs" for ph
    using that assms(2) by (force simp: in_set_conv_nth finished_def)
  then have "count_if (holding h) phs = 0" "count_if ph_pending phs = 0" for h
    by (auto simp: count_if_def filter_empty_conv holding_def)
  then have "h \<notin> fst ` set (rw_inFlight w)" "rw_pending w = 0" for h
    using phs(2) by (auto simp: rlink_def split: if_splits)
  then show ?thesis by (cases "rw_inFlight w") auto
qed

section \<open>A concrete relayer\<close>

definition toy_verifier :: verifier where
  "toy_verifier = \<lparr>vf_PublicKey = (\<lambda>s. Some (replicate 32 0)), vf_poseidon = (\<lambda>xs. 7), vf_verify = (\<lambda>p s. Inr True)\<rparr>"

definition toy_relayer :: "int \<Rightarrow> relayer" where
  "toy_relayer ms = \<lparr>rl_config = \<lparr>rc_minFeeLamports = 2, rc_poolDenomination = 100, rc_privacyDelayMs = Some ms\<rparr>,
     rl_hotWallet = Some ''hot'', rl_poolPDA = ''pool'', rl_rootSeenRepo = True, rl_slotProvider = False\<rparr>"

definition toy_request :: "string \<Rightarrow> WithdrawRequest" where
  "toy_request nullifier = \<lparr>wr_proof = sample_proof, wr_publicSignals = [''5'', ''1'', ''7'', ''7'', ''2''],
     wr_root = ''5'', wr_nullifierHash = nullifier, wr_recipient = ''r'', wr_relayer = ''hot'', wr_fee = ''2''\<rparr>"

definition toy_env :: renv where
  "toy_env = \<lparr>rv_fault = (\<lambda>n. None), rv_slot = (\<lambda>n. int n), rv_landing = (\<lambda>n. Landed ''sig''),
     rv_poolExists = (\<lambda>n. True), rv_pool = (\<lambda>n. \<lparr>mp_nextLeafIndex = 0, mp_currentRootIndex = 0, mp_rootHistory = []\<rparr>),
     rv_balance = (\<lambda>n. 1000)\<rparr>"

definition job :: "relayer \<Rightarrow> string \<Rightarrow> (rcall, (rexn, rresp) res, (rexn, outcome + failure option) res) prog" where
  "job rl nullifier = bindE (processWithdrawal rl toy_verifier (toy_request nullifier)) (\<lambda>x. returnE (Inl x))"

definition overlap :: "string \<Rightarrow> string \<Rightarrow> nat list \<Rightarrow> rworld \<times> (rcall, (rexn, rresp) res, (rexn, outcome + failure option) res) prog list" where
  "overlap n1 n2 sched = run_schedule (rhandle toy_env toy_verifier) sched
     (relayer_start [], [job (toy_relayer 0) n1, job (toy_relayer 0) n2])"

definition one_bytes :: bytes where
  "one_bytes = replicate 31 0 @ [1]"

lemma toy_seeds:
  "seed_of ''1'' ''nullifierHash'' = Inr one_bytes" "seed_of ''01'' ''nullifierHash'' = Inr one_bytes"
  by code_simp+

lemma toy_numbers: "bigint_of_string ''2'' = Some 2" "bigint_of_string ''1'' = Some 1" "bigint_of_string ''01'' = Some 1"
  "string_of_bigint 98 = ''98''"
  by code_simp+

lemma toy_checks:
  "guardRequest (toy_relayer ms) (toy_request ''1'') = None" "guardRequest (toy_relayer ms) (toy_request ''01'') = None"
  "checkPublicSignalsParity toy_verifier (toy_request ''1'') = Inr ()"
  "checkPublicSignalsParity toy_verifier (toy_request ''01'') = Inr ()"
  by (simp add: guardRequest_def toy_relayer_def toy_request_def toy_numbers, simp add: guardRequest_def toy_relayer_def toy_request_def toy_numbers)
   code_simp+

lemma toy_delay: "checkPrivacyDelay (toy_relayer 0) rt = returnE Ripe"
  by (simp add: checkPrivacyDelay_def privacyDelaySlots_def toy_relayer_def ceil_div_def SLOT_DURATION_MS_def)

lemma toy_public: "\<exists>bs. convertPublicInputsToBytes [''5'', ''1'', ''7'', ''7'', ''2''] = Inr bs"
proof -
  have "\<not> isl (convertPublicInputsToBytes [''5'', ''1'', ''7'', ''7'', ''2''])" by code_simp
  then show ?thesis by (cases "convertPublicInputsToBytes [''5'', ''1'', ''7'', ''7'', ''2'']") auto
qed

definition toy_submit :: "int \<Rightarrow> string \<Rightarrow> string rasync" where
  "toy_submit ms nullifier = bindE (rcallE PoolAccount ans_bool) (\<lambda>poolAcct.
     bindE (guardE poolAcct (PoolNotInitialized (rl_poolPDA (toy_relayer ms)))) (\<lambda>_.
     catchE (rcallE (SubmitWithdraw (toy_request nullifier) one_bytes) ans_text) (\<lambda>err.
       let msg = exn_text err in
       if has_substring ''RootNotFound'' msg \<or> has_substring ''6003'' msg then
         bindE (catchE (diagnoseRootNotFound (rl_poolPDA (toy_relayer ms)) (wr_root (toy_request nullifier)))
                  (\<lambda>e. returnE (''(diag failed: '' @ exn_text e @ '')''))) (\<lambda>diag.
         throwE (Diagnosed msg diag))
       else throwE err)))"

lemma toy_submit_eq:
  assumes "nullifier = ''1'' \<or> nullifier = ''01''"
  shows "submitWithdrawalTx (toy_relayer ms) toy_verifier (toy_request nullifier) = toy_submit ms nullifier"
proof -
  obtain pb ib where packs: "convertProofToBytes (wr_proof (toy_request nullifier)) = Inr pb"
      "convertPublicInputsToBytes (wr_publicSignals (toy_request nullifier)) = Inr ib"
    using sample_proof_packs toy_public by (auto simp: toy_request_def)
  have "seed_of (wr_nullifierHash (toy_request nullifier)) ''nullifierHash'' = Inr one_bytes"
    using assms toy_seeds by (auto simp: toy_request_def)
  moreover have "rl_hotWallet (toy_relayer ms) \<noteq> None" "vf_PublicKey toy_verifier (wr_recipient (toy_request nullifier)) \<noteq> None"
    by (simp_all add: toy_relayer_def toy_verifier_def)
  ultimately show ?thesis
    using packs by (simp add: submitWithdrawalTx_def toy_submit_def liftE_def guardE_def)
qed

text \<open>The whole flight of a toy request, with the byte packing evaluated.\<close>

lemma toy_job:
  assumes "nullifier = ''1'' \<or> nullifier = ''01''"
  shows "job (toy_relayer 0) nullifier =
    bindE (bindE (rcallE (JoinOrStart nullifier) ans_flight) (\<lambda>flight.
      case flight of Inl k \<Rightarrow> returnE (SharesFlight k)
      | Inr k \<Rightarrow> finallyE (bindE (
          bindE (bindE (rcallE (CacheHas nullifier) ans_bool) (\<lambda>hit.
            if hit then returnE True
            else bindE (rcallE (NullifierAccount one_bytes) ans_bool) (\<lambda>spent.
              bindE (if spent then doE (CacheSet nullifier ''on-chain'') else returnE ()) (\<lambda>_. returnE spent))))
          (\<lambda>spent. if spent then returnE (failed (toy_request nullifier) AlreadySpent)
            else attemptE (rcallE (VerifyProof sample_proof [''5'', ''1'', ''7'', ''7'', ''2'']) ans_bool)
              (\<lambda>err. returnE (failed (toy_request nullifier) (ProofError (exn_text err)))) (\<lambda>proofValid.
              if \<not> proofValid then returnE (failed (toy_request nullifier) InvalidProof)
              else bindE (doE (AddPending 1)) (\<lambda>_.
                attemptE (toy_submit 0 nullifier)
                  (\<lambda>err. bindE (doE (AddPending (- 1))) (\<lambda>_.
                     returnE (failed (toy_request nullifier) (SubmissionFailed (exn_text err))))) (\<lambda>sig.
                bindE (doE (CacheSet nullifier sig)) (\<lambda>_.
                bindE (doE (AddPending (- 1))) (\<lambda>_.
                bindE (doE CountProcessed) (\<lambda>_.
                returnE \<lparr>re_success = True, re_txSignature = Some sig, re_nullifierHash = nullifier,
                  re_recipient = ''r'', re_amountLamports = ''98'', re_feeLamports = ''2'', re_error = None\<rparr>))))))))
          (\<lambda>r. returnE (Own r))) (doE (Release nullifier)))) (\<lambda>x. returnE (Inl x))"
proof -
  note facts = toy_checks(1) [of 0] toy_checks(2) [of 0] toy_checks(3,4) toy_delay toy_seeds toy_numbers
    toy_submit_eq [of nullifier 0]
  have req: "wr_nullifierHash (toy_request n) = n" "wr_fee (toy_request n) = ''2''"
    "wr_proof (toy_request n) = sample_proof" "wr_recipient (toy_request n) = ''r''"
    "wr_publicSignals (toy_request n) = [''5'', ''1'', ''7'', ''7'', ''2'']" for n by (simp_all add: toy_request_def)
  have rl: "rc_poolDenomination (rl_config (toy_relayer 0)) - 2 = 98" by (simp add: toy_relayer_def)
  show ?thesis
    using assms facts
    by (auto simp: job_def processWithdrawal_def doProcessWithdrawal_def verifyAndSubmit_def isSpent_def
        isNullifierSpentOnChain_def markSpent_def liftE_def req rl cong: if_cong)
qed

lemmas flight_steps = bindE_def bindP.simps rcallE_def doE_def returnE_def throwE_def guardE_def attemptE_def
  catchE_def finallyE_def toy_submit_def rhandle_def Let_def relayer_start_def toy_env_def toy_verifier_def land_tx_def

lemma overlap_aliases:
  "let w = fst (overlap ''1'' ''01'' (concat (replicate 7 [0, 1]))) in
     rw_log w = [Paid ''01'', Paid ''1'', Began ''01'', Began ''1''] \<and>
     rw_submitted w = [toy_request ''01'', toy_request ''1''] \<and> rw_spent w = [one_bytes]"
  unfolding overlap_def toy_job [OF disjI1 [OF refl]] toy_job [OF disjI2 [OF refl]]
  by (simp add: flight_steps eval_nat_numeral toy_request_def)

lemma overlap_reach:
  assumes "\<forall>i \<in> set sched. i < 2"
  shows "ireach (rhandle toy_env toy_verifier) (relayer_job (toy_relayer 0) toy_verifier) (relayer_start []) (overlap n1 n2 sched)"
proof -
  have "ireach (rhandle toy_env toy_verifier) (relayer_job (toy_relayer 0) toy_verifier) (relayer_start [])
      (relayer_start [], [] @ [job (toy_relayer 0) n1, job (toy_relayer 0) n2])"
    by (rule ireach_admit_all [OF ireach.start]) (auto simp: relayer_job_def job_def)
  then show ?thesis
    unfolding overlap_def using assms by (intro ireach_run_schedule) auto
qed

text \<open>
  Safety, violated: the lock of withdrawals in flight is keyed by the text of the nullifier, not by its
  number.  Two overlapping requests for the nullifier 1, written 1 and 01, both pass every check
  and both are submitted before either ends; the relayer pays for two transactions and the
  nullifier account is created once.
\<close>

theorem aliased_nullifier_paid_twice:
  "\<exists>w ts. ireach (rhandle toy_env toy_verifier) (relayer_job (toy_relayer 0) toy_verifier) (relayer_start []) (w, ts) \<and>
     rw_log w = [Paid ''01'', Paid ''1'', Began ''01'', Began ''1''] \<and>
     rw_submitted w = [toy_request ''01'', toy_request ''1''] \<and>
     seed_of ''01'' ''nullifierHash'' = seed_of ''1'' ''nullifierHash'' \<and> length (rw_spent w) = 1"
proof -
  let ?s = "overlap ''1'' ''01'' (concat (replicate 7 [0, 1]))"
  have "ireach (rhandle toy_env toy_verifier) (relayer_job (toy_relayer 0) toy_verifier) (relayer_start []) (fst ?s, snd ?s)"
    using overlap_reach [of "concat (replicate 7 [0, 1])" "''1''" "''01''"] by auto
  with overlap_aliases toy_seeds show ?thesis by (intro exI [of _ "fst ?s"] exI [of _ "snd ?s"]) (auto simp: Let_def)
qed

theorem single_flight_per_nullifier_text_witness:
  "flight_of ''1'' (rw_log (fst (overlap ''1'' ''01'' [0, 1, 0, 1]))) \<noteq> None"
  using single_flight_per_nullifier_text [of toy_env toy_verifier "toy_relayer 0" "[]"
      "fst (overlap ''1'' ''01'' [0, 1, 0, 1])" "snd (overlap ''1'' ''01'' [0, 1, 0, 1])" "''1''"]
    overlap_reach [of "[0, 1, 0, 1]" "''1''" "''01''"] by simp

theorem payments_are_checked_witness:
  "paid_for (toy_relayer 0) toy_verifier (fst (overlap ''1'' ''01'' (concat (replicate 7 [0, 1])))) (toy_request ''01'')"
proof -
  let ?s = "overlap ''1'' ''01'' (concat (replicate 7 [0, 1]))"
  have "ireach (rhandle toy_env toy_verifier) (relayer_job (toy_relayer 0) toy_verifier) (relayer_start []) (fst ?s, snd ?s)"
    using overlap_reach [of "concat (replicate 7 [0, 1])" "''1''" "''01''"] by auto
  moreover have "toy_request ''01'' \<in> set (rw_submitted (fst ?s))" using overlap_aliases by (simp add: Let_def)
  ultimately show ?thesis by (rule payments_are_checked)
qed

text \<open>The same nullifier text twice: the second request shares the flight of the first.\<close>

lemma overlap_same:
  "snd (overlap ''1'' ''1'' (concat (replicate 11 [0, 1]))) =
     [Done (Inr (Inl (Own \<lparr>re_success = True, re_txSignature = Some ''sig'', re_nullifierHash = ''1'',
        re_recipient = ''r'', re_amountLamports = ''98'', re_feeLamports = ''2'', re_error = None\<rparr>))),
      Done (Inr (Inl (SharesFlight 0)))]"
  unfolding overlap_def toy_job [OF disjI1 [OF refl]]
  by (simp add: flight_steps eval_nat_numeral toy_request_def)

theorem nothing_left_in_flight_witness:
  "rw_inFlight (fst (overlap ''1'' ''1'' (concat (replicate 11 [0, 1])))) = [] \<and>
   rw_pending (fst (overlap ''1'' ''1'' (concat (replicate 11 [0, 1])))) = 0"
proof -
  let ?s = "overlap ''1'' ''1'' (concat (replicate 11 [0, 1]))"
  have "ireach (rhandle toy_env toy_verifier) (relayer_job (toy_relayer 0) toy_verifier) (relayer_start []) (fst ?s, snd ?s)"
    using overlap_reach [of "concat (replicate 11 [0, 1])" "''1''" "''1''"] by auto
  moreover have "\<forall>i < length (snd ?s). \<exists>a. snd ?s ! i = Done a"
    unfolding overlap_same by (auto simp: less_Suc_eq)
  ultimately show ?thesis by (rule nothing_left_in_flight)
qed

section \<open>One request alone\<close>

abbreviation "wpr env vf \<equiv> wp (rhandle env vf)"

definition unpaid :: "rworld \<Rightarrow> rworld \<Rightarrow> bool" where
  "unpaid w w' \<longleftrightarrow> rw_submitted w' = rw_submitted w \<and> rw_spent w' = rw_spent w"

lemma unpaid_refl [simp]: "unpaid w w"
  by (simp add: unpaid_def)

lemma unpaid_trans: "unpaid w w1 \<Longrightarrow> unpaid w1 w2 \<Longrightarrow> unpaid w w2"
  by (simp add: unpaid_def)

fun submits :: "rcall \<Rightarrow> bool" where
  "submits (SubmitWithdraw req b) = True"
| "submits c = False"

lemma rexec_unpaid: "\<not> submits c \<Longrightarrow> unpaid w (snd (rexec env vf n c w))"
  by (cases c) (auto simp: unpaid_def observe_def split: option.splits)

lemma rhandle_unpaid: "\<not> submits c \<Longrightarrow> unpaid w (snd (rhandle env vf c w))"
  using rexec_unpaid [of c "w\<lparr>rw_calls := Suc (rw_calls w)\<rparr>" env vf "rw_calls w"]
  by (auto simp: rhandle_def Let_def unpaid_def simp del: rexec.simps split: option.splits fault.splits)

lemma wp_rcallE:
  assumes "\<And>e w'. rhandle env vf c w = (Inl e, w') \<Longrightarrow> Q (Inl e) w'"
    and "\<And>a w'. rhandle env vf c w = (Inr a, w') \<Longrightarrow> get a = None \<Longrightarrow> Q (Inl Impossible) w'"
    and "\<And>a x w'. rhandle env vf c w = (Inr a, w') \<Longrightarrow> get a = Some x \<Longrightarrow> Q (Inr x) w'"
  shows "wpr env vf (rcallE c get) Q w"
proof (cases "rhandle env vf c w")
  case (Pair r w')
  then show ?thesis using assms
    by (cases r) (auto simp: wp_def rcallE_def split: option.splits)
qed

text \<open>A program that submits nothing pays for nothing.\<close>

interpretation unpaid_world: guarded_world "rhandle env vf" "unpaid w0" "\<lambda>c. \<not> submits c" for env vf w0
  by unfold_locales (blast intro: unpaid_trans rhandle_unpaid)

lemma wp_free:
  assumes "makes_only (\<lambda>c. \<not> submits c) p" and "\<And>r w'. unpaid w w' \<Longrightarrow> Q r w'"
  shows "wpr env vf p Q w"
  unfolding wp_def using unpaid_world.run_keeps [OF assms(1), of w w env vf] by (intro assms(2)) simp

lemma makes_only_rcallE [intro!]: "ok c \<Longrightarrow> makes_only ok (rcallE c get)"
  by (auto simp: rcallE_def split: sum.splits option.splits)

lemma makes_only_doE [intro!]: "ok c \<Longrightarrow> makes_only ok (doE c)"
  by (simp add: doE_def)

lemma makes_only_liftE [simp]: "makes_only ok (liftE r)"
  by (cases r) (simp_all add: liftE_def)

lemma free_programs:
  "makes_only (\<lambda>c. \<not> submits c) (isSpent h)"
  "makes_only (\<lambda>c. \<not> submits c) (checkPrivacyDelay rl rt)"
  "makes_only (\<lambda>c. \<not> submits c) (diagnoseRootNotFound pool rt)"
  by (auto simp: isSpent_def isNullifierSpentOnChain_def checkPrivacyDelay_def diagnoseRootNotFound_def
      Let_def split: option.splits intro!: makes_only_bindE)

lemma wp_liftE:
  "(\<And>x. r = Inr x \<Longrightarrow> Q (Inr x) w) \<Longrightarrow> (\<And>e. r = Inl e \<Longrightarrow> Q (Inl (BadPacking e)) w) \<Longrightarrow> wpr env vf (liftE r) Q w"
  by (cases r) (auto simp: liftE_def intro: wp_returnE wp_throwE)

lemma wp_finallyE:
  assumes "wpr env vf p (\<lambda>r w'. wpr env vf q (\<lambda>_ w''. Q r w'') w') w"
  shows "wpr env vf (finallyE p q) Q w"
  using assms by (simp add: wp_def finallyE_def run_bindP)

text \<open>The transaction of a request: what its submission may change.\<close>

definition landed :: "WithdrawRequest \<Rightarrow> rworld \<Rightarrow> rworld \<Rightarrow> bool" where
  "landed req w w' \<longleftrightarrow> (\<exists>b. seed_of (wr_nullifierHash req) ''nullifierHash'' = Inr b \<and> b \<notin> set (rw_spent w) \<and>
     rw_spent w' = b # rw_spent w \<and> rw_submitted w' = req # rw_submitted w)"

text \<open>A submission that was reported as failed: not sent, sent and refused, or landed all the same.\<close>

definition attempted :: "WithdrawRequest \<Rightarrow> rworld \<Rightarrow> rworld \<Rightarrow> bool" where
  "attempted req w w' \<longleftrightarrow> unpaid w w' \<or> landed req w w' \<or> (rw_spent w' = rw_spent w \<and> rw_submitted w' = req # rw_submitted w)"

lemma attempted_unpaid: "unpaid w w1 \<Longrightarrow> attempted req w1 w2 \<Longrightarrow> unpaid w2 w3 \<Longrightarrow> attempted req w w3"
  by (auto simp: attempted_def landed_def unpaid_def)

lemma attempted_kept: "attempted req w w1 \<Longrightarrow> unpaid w1 w2 \<Longrightarrow> attempted req w w2"
  by (rule attempted_unpaid [OF unpaid_refl])

lemma unpaid_attempted: "unpaid w w' \<Longrightarrow> attempted req w w'"
  by (simp add: attempted_def)

lemma submit_attempted:
  "rhandle env vf (SubmitWithdraw req b) w = (r, w') \<Longrightarrow> seed_of (wr_nullifierHash req) ''nullifierHash'' = Inr b \<Longrightarrow> attempted req w w'"
  by (auto simp: rhandle_def Let_def land_tx_def attempted_def landed_def unpaid_def split: if_splits landing.splits option.splits fault.splits)

lemma submit_landed:
  "rhandle env vf (SubmitWithdraw req b) w = (Inr a, w') \<Longrightarrow> seed_of (wr_nullifierHash req) ''nullifierHash'' = Inr b \<Longrightarrow> landed req w w'"
  by (auto simp: rhandle_def Let_def land_tx_def landed_def split: if_splits landing.splits option.splits fault.splits)

lemma wp_submitWithdrawalTx:
  assumes failed: "\<And>e w'. attempted req w w' \<Longrightarrow> Q (Inl e) w'" and sent: "\<And>sig w'. landed req w w' \<Longrightarrow> Q (Inr sig) w'"
  shows "wpr env vf (submitWithdrawalTx rl vf req) Q w"
proof -
  have submit: "wpr env vf (rcallE (SubmitWithdraw req b) ans_text) R w1"
    if "unpaid w w1" "seed_of (wr_nullifierHash req) ''nullifierHash'' = Inr b"
      "\<And>e w'. attempted req w w' \<Longrightarrow> R (Inl e) w'" "\<And>sig w'. landed req w w' \<Longrightarrow> R (Inr sig) w'" for b R w1
    using that submit_attempted [of env vf req b w1] submit_landed [of env vf req b w1]
    by (intro wp_rcallE) (auto simp: landed_def attempted_def unpaid_def)
  have handler: "wpr env vf (bindE (catchE (diagnoseRootNotFound pool rt) (\<lambda>e. returnE (f e))) (\<lambda>diag. throwE (g diag))) Q w1"
    if "attempted req w w1" for pool rt w1 and f :: "rexn \<Rightarrow> string" and g :: "string \<Rightarrow> rexn"
    by (rule wp_bindE, rule wp_free)
      (auto intro!: free_programs wp_throwE failed attempted_kept [OF that] split: sum.splits)
  note early = failed [OF unpaid_attempted]
  show ?thesis
    unfolding submitWithdrawalTx_def Let_def
    apply (rule wp_bindE, rule wp_guardE; simp add: early)
    apply (rule wp_bindE, rule wp_free, force)
    apply (split sum.split, intro conjI allI impI, erule early)
    apply (rule wp_bindE, rule wp_guardE; simp add: early)
    apply (rule wp_bindE, rule wp_liftE; simp add: early)
    apply (rule wp_bindE, rule wp_liftE; simp add: early)
    apply (rule wp_bindE, rule wp_liftE; simp add: early)
    apply (rule wp_bindE, rule wp_guardE; simp add: early)
    apply (rule wp_catchE, rule submit, assumption, assumption)
     apply (auto intro!: handler wp_throwE failed sent)
    done
qed

text \<open>What an answer says about the money.\<close>

definition accounted :: "relayer \<Rightarrow> WithdrawRequest \<Rightarrow> rworld \<Rightarrow> rexn + outcome \<Rightarrow> rworld \<Rightarrow> bool" where
  "accounted rl req w r w' \<longleftrightarrow>
     (case r of
        Inl e \<Rightarrow> unpaid w w'
      | Inr (SharesFlight k) \<Rightarrow> unpaid w w'
      | Inr (Own x) \<Rightarrow>
          if re_success x then
            landed req w w' \<and> re_error x = None \<and> re_txSignature x \<noteq> None \<and>
            (\<exists>fee. bigint_of_string (wr_fee req) = Some fee \<and> rc_minFeeLamports (rl_config rl) \<le> fee \<and>
               re_amountLamports x = string_of_bigint (rc_poolDenomination (rl_config rl) - fee))
          else
            re_txSignature x = None \<and> re_amountLamports x = ''0'' \<and>
            (case re_error x of None \<Rightarrow> False | Some (SubmissionFailed m) \<Rightarrow> attempted req w w' | Some e \<Rightarrow> unpaid w w'))"

lemma accounted_failed: "unpaid w w' \<Longrightarrow> accounted rl req w (Inr (Own (failed req e))) w'"
  by (cases e) (simp_all add: accounted_def failed_def unpaid_attempted)

lemma accounted_throw: "unpaid w w' \<Longrightarrow> accounted rl req w (Inl e) w'"
  by (simp add: accounted_def)

lemma wp_do:
  assumes "\<And>w'. unpaid w w' \<Longrightarrow> Q (Inr ()) w'" and "\<not> submits c"
  shows "wpr env vf (doE c) Q w"
  using rhandle_unpaid [OF assms(2), of w env vf] assms(1) by (simp add: wp_def doE_def)

lemma landed_unpaid: "unpaid w w1 \<Longrightarrow> landed req w1 w2 \<Longrightarrow> unpaid w2 w3 \<Longrightarrow> landed req w w3"
  by (simp add: unpaid_def landed_def)

lemma wp_verifyAndSubmit:
  assumes "guardRequest rl req = None" and "unpaid w0 w"
    and "\<And>r w'. accounted rl req w0 (map_sum id Own r) w' \<Longrightarrow> Q r w'"
  shows "wpr env vf (verifyAndSubmit rl vf req) Q w"
proof -
  obtain fee where fee: "bigint_of_string (wr_fee req) = Some fee" "rc_minFeeLamports (rl_config rl) \<le> fee"
    using assms(1) by (auto simp: guardRequest_def split: option.splits if_splits)
  have fail: "Q (Inr (failed req e)) w'" if "unpaid w w'" for e w'
    using accounted_failed [OF unpaid_trans [OF assms(2) that]] by (intro assms(3)) simp
  have lost: "Q (Inr (failed req (SubmissionFailed m))) w'" if "attempted req w w'" for m w'
    using attempted_unpaid [OF assms(2) that unpaid_refl] by (intro assms(3)) (simp add: accounted_def failed_def)
  have good: "Q (Inr \<lparr>re_success = True, re_txSignature = Some sig, re_nullifierHash = wr_nullifierHash req,
      re_recipient = wr_recipient req, re_amountLamports = string_of_bigint (rc_poolDenomination (rl_config rl) - fee),
      re_feeLamports = wr_fee req, re_error = None\<rparr>) w'" if "landed req w0 w'" for sig w'
    using that fee by (intro assms(3)) (simp add: accounted_def)
  show ?thesis
    unfolding verifyAndSubmit_def markSpent_def fee(1) option.case
    apply (rule wp_attemptE, rule wp_free, force)
    apply (split sum.split, intro conjI allI impI, rule wp_returnE, rule fail, simp)
    apply (rule wp_if, rule wp_returnE, rule fail, simp)
    apply (rule wp_bindE, rule wp_do, simp)
     apply (rule wp_attemptE, rule wp_submitWithdrawalTx, simp)
      apply (rule wp_bindE, rule wp_do, simp, rule wp_returnE, rule lost)
       apply (rule attempted_unpaid [OF unpaid_trans], assumption+)
      apply simp
     apply simp
     apply (rule wp_bindE, rule wp_do, simp)
      apply (rule wp_bindE, rule wp_do, simp)
       apply (rule wp_bindE, rule wp_do, simp)
        apply (rule wp_returnE, rule good)
        apply (meson landed_unpaid assms(2) unpaid_trans)
       apply simp_all
    done
qed

lemma wp_processWithdrawal:
  "wpr env vf (processWithdrawal rl vf req) (accounted rl req w) w"
proof (cases "guardRequest rl req")
  case (Some e)
  then show ?thesis by (auto simp: processWithdrawal_def intro!: wp_returnE accounted_failed)
next
  case None
  have flight: "wpr env vf (bindE (doProcessWithdrawal rl vf req) (\<lambda>r. returnE (Own r)))
      (\<lambda>r w'. wpr env vf (doE (Release h)) (\<lambda>_. accounted rl req w r) w') w1" if "unpaid w w1" for w1 h
  proof -
    have fin: "wpr env vf (doE (Release h)) (\<lambda>_. accounted rl req w r) w'" if "accounted rl req w r w'" for r w'
      by (rule wp_do) (use that in \<open>auto simp: accounted_def unpaid_def landed_def attempted_def split: sum.splits outcome.splits option.splits failure.splits if_splits\<close>)
    show ?thesis
      unfolding doProcessWithdrawal_def
      apply (rule wp_bindE, rule wp_bindE, rule wp_free, rule free_programs)
      apply (split sum.split, intro conjI allI impI)
       apply (simp, rule fin, rule accounted_throw, rule unpaid_trans [OF that], assumption)
      apply (rule wp_if, rule wp_returnE, simp, rule wp_returnE, rule fin, rule accounted_failed, rule unpaid_trans [OF that], assumption)
      apply (split sum.split, intro conjI allI impI)
       apply (rule wp_returnE, simp, rule wp_returnE, rule fin, rule accounted_failed, rule unpaid_trans [OF that], assumption)
      apply (rule wp_bindE, rule wp_free, rule free_programs)
      apply (split sum.split, intro conjI allI impI)
       apply (simp, rule fin, rule accounted_throw, meson that unpaid_trans)
      apply (split delay.split, intro conjI allI impI)
       apply (rule wp_verifyAndSubmit [OF None, of w])
        apply (meson that unpaid_trans)
       apply (split sum.split, intro conjI allI impI, simp, erule fin, simp, rule wp_returnE, erule fin)
      apply (rule wp_returnE, simp, rule wp_returnE, rule fin, rule accounted_failed, meson that unpaid_trans)
      done
  qed
  show ?thesis
    unfolding processWithdrawal_def None option.case
    apply (rule wp_bindE, rule wp_free, force)
    apply (split sum.split, intro conjI allI impI, erule accounted_throw)
    apply (split sum.split, intro conjI allI impI)
     apply (rule wp_returnE, simp add: accounted_def)
    apply (rule wp_finallyE, erule flight)
    done
qed

text \<open>
  C10.  Functional: whatever is lost, the answer of a withdrawal accounts for the payment.  A success
  carries a signature and the denomination less the fee, which reaches the minimum, and the
  nullifier, unspent before, is now spent by the one transaction submitted.  A shared flight, an exception and
  every refusal but one have submitted nothing and spent nothing.  The exception is a failed
  submission, whose answer leaves open what happened: nothing was submitted, or one transaction,
  which did not land or which landed all the same and spent the nullifier.
\<close>

theorem answers_account_for_payment:
  "case run (rhandle env vf) (processWithdrawal rl vf req) w of (r, w') \<Rightarrow> accounted rl req w r w'"
  using wp_processWithdrawal [of env vf rl req w] by (simp add: wp_def case_prod_beta)

section \<open>The privacy delay\<close>

lemma rhandle_snd:
  "snd (rhandle env vf c w) = snd (rexec env vf (rw_calls w) c (w\<lparr>rw_calls := Suc (rw_calls w)\<rparr>)) \<or>
   snd (rhandle env vf c w) = w\<lparr>rw_calls := Suc (rw_calls w)\<rparr>"
  by (auto simp: rhandle_def Let_def simp del: rexec.simps split: option.splits fault.splits)

lemma rhandle_roots: "rw_roots w \<subseteq>\<^sub>m rw_roots (snd (rhandle env vf c w))"
proof -
  have "rw_roots w \<subseteq>\<^sub>m rw_roots (snd (rexec env vf n c w))" for n w
    by (cases c) (auto simp: observe_def land_tx_def map_le_def Let_def split: option.splits landing.splits)
  from this [of "w\<lparr>rw_calls := Suc (rw_calls w)\<rparr>" "rw_calls w"] show ?thesis
    using rhandle_snd [of env vf c w] by auto
qed

lemma roots_grow:
  "rw_roots w \<subseteq>\<^sub>m rw_roots (snd (run (rhandle env vf) p w))"
proof (induction p arbitrary: w)
  case (Call c k)
  show ?case using map_le_trans [OF rhandle_roots [of w env vf c] Call.IH] by simp
qed simp

text \<open>
  Invariant: the slot at which a root was first seen is never changed or forgotten, by any
  program that runs against the relayer's tables.
\<close>

theorem first_seen_slot_permanent:
  "rw_roots w \<subseteq>\<^sub>m rw_roots (snd (run (rhandle env vf) p w))"
  by (rule roots_grow)

fun keeps_roots :: "rcall \<Rightarrow> bool" where
  "keeps_roots (ObserveRoot rt s) = False"
| "keeps_roots (SubmitWithdraw req b) = False"
| "keeps_roots c = True"

lemma rhandle_keeps_roots:
  assumes "keeps_roots c"
  shows "unpaid w (snd (rhandle env vf c w)) \<and> rw_roots (snd (rhandle env vf c w)) = rw_roots w"
proof -
  have "rw_roots (snd (rexec env vf n c w)) = rw_roots w" for n w using assms by (cases c) (auto split: option.splits)
  from this [of "rw_calls w" "w\<lparr>rw_calls := Suc (rw_calls w)\<rparr>"]
  have "rw_roots (snd (rhandle env vf c w)) = rw_roots w" using rhandle_snd [of env vf c w] by auto
  moreover have "\<not> submits c" using assms by (cases c) auto
  ultimately show ?thesis using rhandle_unpaid by blast
qed

definition untouched :: "rworld \<Rightarrow> rworld \<Rightarrow> bool" where
  "untouched w w' \<longleftrightarrow> unpaid w w' \<and> rw_roots w' = rw_roots w"

interpretation untouched_world: guarded_world "rhandle env vf" "untouched w0" keeps_roots for env vf w0
proof unfold_locales
  fix w c
  assume "untouched w0 w" and "keeps_roots c"
  then show "untouched w0 (snd (rhandle env vf c w))"
    using rhandle_keeps_roots [of c w env vf] unpaid_trans [of w0 w] by (auto simp: untouched_def)
qed

lemma isSpent_untouched: "makes_only keeps_roots (isSpent h)"
  by (auto simp: isSpent_def isNullifierSpentOnChain_def intro!: makes_only_bindE)

lemma wp_isSpent_untouched:
  assumes "\<And>r w'. untouched w w' \<Longrightarrow> Q r w'"
  shows "wpr env vf (isSpent h) Q w"
  unfolding wp_def using untouched_world.run_keeps [OF isSpent_untouched, of w w env vf h]
  by (intro assms) (simp add: untouched_def)

text \<open>A root nobody has seen: the gate arms it and answers with a delay of zero slots elapsed.\<close>

lemma wp_delay_unseen:
  assumes "gated rl" and "rw_roots w rt = None"
    and "\<And>e w'. unpaid w w' \<Longrightarrow> Q (Inl e) w'"
    and "\<And>a b w'. unpaid w w' \<Longrightarrow> Q (Inr (Unripe a b)) w'"
  shows "wpr env vf (checkPrivacyDelay rl rt) Q w"
proof -
  have g: "\<not> privacyDelaySlots rl \<le> 0" "rl_rootSeenRepo rl" "rl_slotProvider rl \<or> rl_hotWallet rl \<noteq> None"
    using assms(1) by (auto simp: gated_def)
  have slot: "untouched w (snd (rhandle env vf GetSlot w))" "unpaid w (snd (rhandle env vf GetSlot w))"
    using rhandle_keeps_roots [of GetSlot w env vf] by (auto simp: untouched_def)
  have obs: "wpr env vf (rcallE (ObserveRoot rt c) ans_int) R w1"
    if "untouched w w1" "\<And>e w'. unpaid w w' \<Longrightarrow> R (Inl e) w'" "\<And>w'. unpaid w w' \<Longrightarrow> R (Inr c) w'" for c R w1
  proof -
    have "unpaid w (snd (rhandle env vf (ObserveRoot rt c) w1))"
      using rhandle_unpaid [of "ObserveRoot rt c" w1 env vf] that(1) by (auto simp: untouched_def intro: unpaid_trans)
    moreover have "rw_roots w1 rt = None" using that(1) assms(2) by (simp add: untouched_def)
    ultimately show ?thesis
      by (intro wp_rcallE)
        (auto simp: rhandle_def Let_def observe_def intro!: that(2,3) split: option.splits fault.splits)
  qed
  show ?thesis
    unfolding checkPrivacyDelay_def using g slot
    apply (simp add: Let_def)
    apply (intro impI conjI)
     apply force
    apply (rule wp_bindE, rule wp_rcallE)
      apply (simp, metis assms(3) snd_conv)
     apply (simp, metis assms(3) snd_conv)
    apply simp
    apply (rule wp_bindE, rule obs)
      apply (metis snd_conv)
     apply (simp add: assms(3))
    apply (simp, rule wp_returnE, simp add: assms(4))
    done
qed

text \<open>
   Safety: with the privacy delay on, the first withdrawal against a root that was never seen
  is not submitted, whatever slot the cluster reports and whatever is lost.
\<close>

theorem first_sight_is_not_submitted:
  assumes "gated rl" and "rw_roots w (wr_root req) = None"
  shows "unpaid w (snd (run (rhandle env vf) (processWithdrawal rl vf req) w))"
proof -
  have free: "wpr env vf (returnE x) (\<lambda>r w'. unpaid w w') w'" if "unpaid w w'" for x :: 'x and w'
    using that by (rule wp_returnE)
  have rel: "wpr env vf (doE (Release h)) (\<lambda>_. unpaid w) w'" if "unpaid w w'" for h w'
    by (rule wp_do) (use that unpaid_trans in auto)
  have flight: "wpr env vf (bindE (doProcessWithdrawal rl vf req) (\<lambda>r. returnE (Own r)))
      (\<lambda>r w'. wpr env vf (doE (Release h)) (\<lambda>_. unpaid w) w') w1" if "untouched w w1" for w1 h
    unfolding doProcessWithdrawal_def
    apply (rule wp_bindE, rule wp_bindE, rule wp_isSpent_untouched)
    subgoal premises p for r w2
    proof -
      have w2: "unpaid w w2" "rw_roots w2 (wr_root req) = None"
        using that p assms(2) unpaid_trans by (auto simp: untouched_def)
      show ?thesis
        apply (split sum.split, intro conjI allI impI)
         apply (simp, rule rel, rule w2)
        apply (rule wp_if, rule wp_returnE, simp, rule wp_returnE, rule rel, rule w2)
        apply (split sum.split, intro conjI allI impI)
         apply (rule wp_returnE, simp, rule wp_returnE, rule rel, rule w2)
        apply (rule wp_bindE, rule wp_delay_unseen [OF assms(1) w2(2)])
         apply (simp, rule rel, meson w2(1) unpaid_trans)
        apply (simp, rule wp_returnE, simp, rule wp_returnE, rule rel, meson w2(1) unpaid_trans)
        done
    qed
    done
  have "wpr env vf (processWithdrawal rl vf req) (\<lambda>r w'. unpaid w w') w"
    unfolding processWithdrawal_def
    apply (split option.split, intro conjI allI impI)
     apply (rule wp_bindE, rule wp_rcallE)
       apply (metis rhandle_unpaid snd_conv submits.simps(2) sum.case(1))
      apply (metis rhandle_unpaid snd_conv submits.simps(2) sum.case(1))
     apply (simp split: sum.split, intro conjI allI impI)
      apply (rule wp_returnE, metis rhandle_unpaid snd_conv submits.simps(2))
     apply (rule wp_finallyE, rule flight, metis rhandle_keeps_roots keeps_roots.simps(3) snd_conv untouched_def)
    apply (rule wp_returnE, simp)
    done
  then show ?thesis by (simp add: wp_def)
qed

lemma toy_gated: "gated (toy_relayer 400)"
  by (simp add: gated_def privacyDelaySlots_def toy_relayer_def ceil_div_def SLOT_DURATION_MS_def)

theorem first_sight_is_not_submitted_witness:
  "unpaid (relayer_start []) (snd (run (rhandle toy_env toy_verifier)
     (processWithdrawal (toy_relayer 400) toy_verifier (toy_request ''1'')) (relayer_start [])))"
  by (rule first_sight_is_not_submitted [OF toy_gated]) (simp add: relayer_start_def)

section \<open>The dry run\<close>

text \<open>What the registry knows of a nullifier, when no call is lost.\<close>

definition spent_in :: "rworld \<Rightarrow> string \<Rightarrow> bool" where
  "spent_in w h \<longleftrightarrow> h \<in> fst ` set (rw_cache w) \<or> (\<exists>b \<in> set (rw_spent w). seed_of h ''nullifierHash'' = Inr b)"

definition faultless :: "renv \<Rightarrow> bool" where
  "faultless env \<longleftrightarrow> (\<forall>n. rv_fault env n = None)"

lemma rhandle_faultless: "faultless env \<Longrightarrow> rhandle env vf c w = rexec env vf (rw_calls w) c (w\<lparr>rw_calls := Suc (rw_calls w)\<rparr>)"
  by (simp add: rhandle_def faultless_def Let_def)

lemma run_isSpent:
  assumes "faultless env" and "run (rhandle env vf) (isSpent h) w = (Inr b, w')"
  shows "b = spent_in w h"
  using assms(2)
  by (auto simp: isSpent_def isNullifierSpentOnChain_def rcallE_def rhandle_faultless [OF assms(1)] run_bindE
      spent_in_def liftE_def doE_def image_iff split: sum.splits if_splits prod.splits)

lemma wp_isSpent_faultless:
  assumes "faultless env" and "\<And>w'. Q (Inr (spent_in w h)) w'" and "\<And>e w'. Q (Inl e) w'"
  shows "wpr env vf (isSpent h) Q w"
  using run_isSpent [OF assms(1), of vf h w] assms(2,3)
  by (cases "run (rhandle env vf) (isSpent h) w"; cases "fst (run (rhandle env vf) (isSpent h) w)") (auto simp: wp_def)

lemma validate_accepts:
  assumes "faultless env" and "run (rhandle env vf) (validateProof rl vf req) w = (Inr None, w')"
  shows "guardRequest rl req = None" and "\<not> spent_in w (wr_nullifierHash req)"
    and "checkPublicSignalsParity vf req = Inr ()" and "vf_verify vf (wr_proof req) (wr_publicSignals req) = Inr True"
  using assms(2) run_isSpent [OF assms(1)]
  by (cases "vf_verify vf (wr_proof req) (wr_publicSignals req)";
      auto simp: validateProof_def run_bindE run_attemptE rcallE_def rhandle_faultless [OF assms(1)]
      split: option.splits sum.splits prod.splits if_splits)+

text \<open>The refusals a dry run cannot foresee.\<close>

fun foreseen :: "failure option \<Rightarrow> bool" where
  "foreseen None = False"
| "foreseen (Some (PrivacyDelay a b c)) = False"
| "foreseen (Some (SubmissionFailed m)) = False"
| "foreseen (Some e) = True"

text \<open>
  Equivalence of the dry run with the pipeline, up to what it leaves out: when no call is lost and the dry
  run accepts a request, processing it at once is refused neither by the guards nor as spent,
  mismatched or invalid.  The privacy delay is not part of the dry run and may still refuse it.
\<close>

theorem dry_run_predicts_all_but_delay:
  assumes "faultless env" and "run (rhandle env vf) (validateProof rl vf req) w = (Inr None, w1)"
    and "run (rhandle env vf) (processWithdrawal rl vf req) w = (Inr (Own x), w2)"
  shows "\<not> foreseen (re_error x)"
proof -
  note v = validate_accepts [OF assms(1,2)]
  let ?Q = "\<lambda>r (w' :: rworld). \<forall>x. r = Inr (Own x) \<longrightarrow> \<not> foreseen (re_error x)"
  let ?R = "\<lambda>r (w' :: rworld). \<forall>x. r = Inr x \<longrightarrow> \<not> foreseen (re_error x)"
  have submit: "wpr env vf (verifyAndSubmit rl vf req) ?R w'" for w'
    unfolding verifyAndSubmit_def markSpent_def
    apply (rule wp_attemptE, rule wp_rcallE)
      apply (use v(4) in \<open>auto simp: rhandle_faultless [OF assms(1)]\<close>)
    apply (rule wp_bindE, rule wp_do, simp_all)
    apply (rule wp_attemptE, rule wp_submitWithdrawalTx, simp)
     apply (rule wp_bindE, rule wp_do, simp, rule wp_returnE, simp_all add: failed_def)
    apply (rule wp_bindE, rule wp_do, simp_all)
    apply (rule wp_bindE, rule wp_do, simp_all)
    apply (rule wp_bindE, rule wp_do, simp_all)
    apply (auto split: option.splits intro!: wp_returnE wp_throwE)
    done
  have pipeline: "wpr env vf (doProcessWithdrawal rl vf req) ?R w'" if "spent_in w' (wr_nullifierHash req) = spent_in w (wr_nullifierHash req)" for w'
    unfolding doProcessWithdrawal_def
    apply (rule wp_bindE, rule wp_isSpent_faultless [OF assms(1)])
     apply (use v that in simp)
     apply (rule wp_bindE, rule wp_free, rule free_programs)
     apply (auto split: sum.splits delay.splits intro!: submit wp_returnE simp: failed_def)
    done
  have release: "wpr env vf (doE (Release h)) (\<lambda>_. ?Q r) w'" if "?Q r w'" for h r w'
    by (rule wp_do) (use that in auto)
  have "wpr env vf (processWithdrawal rl vf req) ?Q w"
    unfolding processWithdrawal_def v(1) option.case
    apply (rule wp_bindE, rule wp_rcallE, simp, simp)
    apply (simp only: sum.case)
    apply (split sum.split, intro conjI allI impI, rule wp_returnE, simp)
    apply (rule wp_finallyE, rule wp_bindE, rule wp_mono, rule pipeline)
     apply (auto simp: rhandle_faultless [OF assms(1)] spent_in_def split: option.splits)[1]
    apply (split sum.split, intro conjI allI impI)
     apply (rule release, simp)
    apply (rule wp_returnE, rule release, simp)
    done
  with assms(3) show ?thesis by (simp add: wp_def)
qed

lemma toy_faultless: "faultless toy_env"
  by (simp add: faultless_def toy_env_def)

lemma toy_slots: "privacyDelaySlots (toy_relayer 400) = 1"
  by (simp add: privacyDelaySlots_def toy_relayer_def ceil_div_def SLOT_DURATION_MS_def)

lemma toy_is_spent:
  "isSpent ''1'' = bindE (rcallE (CacheHas ''1'') ans_bool) (\<lambda>hit. if hit then returnE True
     else bindE (rcallE (NullifierAccount one_bytes) ans_bool) (\<lambda>spent.
       bindE (if spent then doE (CacheSet ''1'' ''on-chain'') else returnE ()) (\<lambda>_. returnE spent)))"
  by (simp add: isSpent_def isNullifierSpentOnChain_def liftE_def toy_seeds cong: if_cong)

lemma toy_dry_run:
  "fst (run (rhandle toy_env toy_verifier) (validateProof (toy_relayer 400) toy_verifier (toy_request ''1'')) (relayer_start []))
     = Inr None"
  using toy_is_spent toy_checks(1) [of 400] toy_checks(3)
  by (simp add: validateProof_def flight_steps toy_request_def)

lemma toy_too_early:
  "fst (run (rhandle toy_env toy_verifier) (processWithdrawal (toy_relayer 400) toy_verifier (toy_request ''1'')) (relayer_start []))
     = Inr (Own (failed (toy_request ''1'') (PrivacyDelay 0 1 1)))"
proof -
  have "wr_nullifierHash (toy_request ''1'') = ''1''" "wr_root (toy_request ''1'') = ''5''" by (simp_all add: toy_request_def)
  moreover have "rl_rootSeenRepo (toy_relayer 400)" "rl_hotWallet (toy_relayer 400) = Some ''hot''"
    by (simp_all add: toy_relayer_def)
  moreover have "ceil_div SLOT_DURATION_MS 1000 = 1" by (simp add: ceil_div_def SLOT_DURATION_MS_def)
  ultimately show ?thesis
    by (simp add: processWithdrawal_def doProcessWithdrawal_def checkPrivacyDelay_def toy_is_spent toy_checks toy_slots
        flight_steps observe_def del: toy_verifier_def)
qed

theorem dry_run_predicts_all_but_delay_witness:
  "fst (run (rhandle toy_env toy_verifier) (validateProof (toy_relayer 400) toy_verifier (toy_request ''1'')) (relayer_start []))
     = Inr None \<and>
   fst (run (rhandle toy_env toy_verifier) (processWithdrawal (toy_relayer 400) toy_verifier (toy_request ''1'')) (relayer_start []))
     = Inr (Own (failed (toy_request ''1'') (PrivacyDelay 0 1 1))) \<and>
   \<not> foreseen (Some (PrivacyDelay 0 1 1))"
proof -
  obtain w1 w2 where
    "run (rhandle toy_env toy_verifier) (validateProof (toy_relayer 400) toy_verifier (toy_request ''1'')) (relayer_start []) = (Inr None, w1)"
    "run (rhandle toy_env toy_verifier) (processWithdrawal (toy_relayer 400) toy_verifier (toy_request ''1'')) (relayer_start [])
       = (Inr (Own (failed (toy_request ''1'') (PrivacyDelay 0 1 1))), w2)"
    using toy_dry_run toy_too_early by (metis prod.collapse)
  from dry_run_predicts_all_but_delay [OF toy_faultless this] show ?thesis
    using toy_dry_run toy_too_early by (simp add: failed_def)
qed

end
