(* ===== verification/MixerService.thy ===== *)
theory MixerService imports WalletAuth begin

text \<open>
  mixer.service.ts and mixer.registry.ts: the public deposit history of one pool, its hydration
  from the logs of the chain, the anonymity-set gate and the unsigned transactions.  What an RPC
  node answers is an argument of each operation; base64 decoding, \<open>PublicKey\<close> and the derivation
  of program addresses are parameters.
\<close>

section \<open>Configuration\<close>

text \<open>\<open>Number.parseInt(text, 10)\<close>: the longest run of digits after spaces and a sign.\<close>

definition parse_int10 :: "string \<Rightarrow> int option" where
  "parse_int10 s =
     (let t = dropWhile is_space s;
          neg = (t \<noteq> [] \<and> hd t = CHR ''-'');
          u = (if t \<noteq> [] \<and> (hd t = CHR ''-'' \<or> hd t = CHR ''+'') then tl t else t)
      in map_option (\<lambda>n. if neg then - n else n) (parse_digits 10 (takeWhile is_decimal u)))"

definition MIN_ANONYMITY_SET :: "string option \<Rightarrow> int" where
  "MIN_ANONYMITY_SET env =
     (if missing env then 20
      else (case parse_int10 (the env) of None \<Rightarrow> 20 | Some n \<Rightarrow> if 0 \<le> n then n else 20))"

section \<open>The deposit cache\<close>

record PublicDepositRecord =
  dp_commitment :: string
  dp_leafIndex :: int
  dp_txSignature :: string

text \<open>
  The service: \<open>mx_deposits\<close> is the \<open>Map\<close> in insertion order, \<open>mx_knownNullifiers\<close> the \<open>Set\<close>.
\<close>

record mixer =
  mx_denomination :: int
  mx_deposits :: "PublicDepositRecord list"
  mx_knownNullifiers :: "string list"

definition new_mixer :: "int \<Rightarrow> mixer" where
  "new_mixer denomination = \<lparr>mx_denomination = denomination, mx_deposits = [], mx_knownNullifiers = []\<rparr>"

definition has_deposit :: "string \<Rightarrow> mixer \<Rightarrow> bool" where
  "has_deposit key m \<longleftrightarrow> key \<in> dp_commitment ` set (mx_deposits m)"

definition put_deposit :: "string \<Rightarrow> int \<Rightarrow> string \<Rightarrow> mixer \<Rightarrow> mixer" where
  "put_deposit key leafIndex sig m =
     m\<lparr>mx_deposits := mx_deposits m @ [\<lparr>dp_commitment = key, dp_leafIndex = leafIndex, dp_txSignature = sig\<rparr>]\<rparr>"

definition recordDeposit :: "int \<Rightarrow> int \<Rightarrow> string \<Rightarrow> mixer \<Rightarrow> mixer" where
  "recordDeposit commitment leafIndex txSignature m =
     (let key = string_of_bigint commitment in
      if has_deposit key m then m else put_deposit key leafIndex txSignature m)"

definition listDeposits :: "mixer \<Rightarrow> PublicDepositRecord list" where
  "listDeposits m = sort_key dp_leafIndex (mx_deposits m)"

definition add_nullifier :: "string \<Rightarrow> mixer \<Rightarrow> mixer" where
  "add_nullifier h m = (if h \<in> set (mx_knownNullifiers m) then m else m\<lparr>mx_knownNullifiers := mx_knownNullifiers m @ [h]\<rparr>)"

definition recordWithdrawal :: "string \<Rightarrow> mixer \<Rightarrow> mixer" where
  "recordWithdrawal nullifierHashDecimal m = add_nullifier nullifierHashDecimal m"

section \<open>Hydration\<close>

record SignatureInfo =
  sg_signature :: string
  sg_err :: bool

text \<open>
  The node: a page of signatures before a cursor (\<open>None\<close> when the request fails), and the log
  lines of a transaction (\<open>None\<close> when it cannot be fetched or has no logs).
\<close>

record node =
  nd_signatures :: "nat \<Rightarrow> string option \<Rightarrow> SignatureInfo list option"
  nd_logs :: "string \<Rightarrow> string list option"
  nd_base64 :: "string \<Rightarrow> bytes"

record idl =
  idl_deposit :: "bytes option"
  idl_withdraw :: "bytes option"

fun fetch_signatures :: "node \<Rightarrow> nat \<Rightarrow> nat \<Rightarrow> string option \<Rightarrow> SignatureInfo list" where
  "fetch_signatures nd 0 page before = []"
| "fetch_signatures nd (Suc left) page before =
     (case nd_signatures nd page before of
        None \<Rightarrow> []
      | Some batch \<Rightarrow>
          if batch = [] then []
          else if length batch < 1000 then batch
          else batch @ fetch_signatures nd left (Suc page) (Some (sg_signature (last batch))))"

definition program_data :: "string \<Rightarrow> string option" where
  "program_data line =
     (if starts_with ''Program data: '' line \<and> drop 14 line \<noteq> [] \<and>
         (\<forall>c \<in> set (drop 14 line). c \<noteq> CHR 0x0A \<and> c \<noteq> CHR 0x0D)
      then Some (drop 14 line) else None)"

definition readUInt32LE :: "bytes \<Rightarrow> nat \<Rightarrow> int option" where
  "readUInt32LE bs off = (if off + 4 \<le> length bs then Some (be_value (rev (take 4 (drop off bs)))) else None)"

datatype chain_event = DepositEvent int int | WithdrawEvent string

definition decode_event :: "idl \<Rightarrow> bytes \<Rightarrow> chain_event option" where
  "decode_event il payload =
     (let disc = take 8 payload in
      if length payload < 8 + 32 then None
      else if idl_deposit il = Some disc then
        (if length payload < 8 + 32 + 4 then None
         else Some (DepositEvent (big_of_hex (take 32 (drop 8 payload))) (the (readUInt32LE payload 40))))
      else if idl_withdraw il = Some disc then
        Some (WithdrawEvent (string_of_bigint (big_of_hex (take 32 (drop 8 payload)))))
      else None)"

text \<open>The events of one transaction, with its signature.\<close>

definition events_of :: "node \<Rightarrow> idl \<Rightarrow> SignatureInfo \<Rightarrow> (string \<times> chain_event) list" where
  "events_of nd il sg =
     (if sg_err sg then []
      else (case nd_logs nd (sg_signature sg) of
          None \<Rightarrow> []
        | Some lines \<Rightarrow>
            List.map_filter (\<lambda>line. case program_data line of
                None \<Rightarrow> None
              | Some text \<Rightarrow> map_option (Pair (sg_signature sg)) (decode_event il (nd_base64 nd text))) lines))"

record hydrate_result =
  hy_scannedSignatures :: nat
  hy_depositsLoaded :: nat
  hy_withdrawalsLoaded :: nat

fun apply_event :: "string \<times> chain_event \<Rightarrow> mixer \<times> nat \<times> nat \<Rightarrow> mixer \<times> nat \<times> nat" where
  "apply_event (sig, DepositEvent commitment leafIndex) (m, d, k) =
     (let key = string_of_bigint commitment in
      if has_deposit key m then (m, d, k) else (put_deposit key leafIndex sig m, Suc d, k))"
| "apply_event (sig, WithdrawEvent nullifier) (m, d, k) =
     (if nullifier \<in> set (mx_knownNullifiers m) then (m, d, k) else (add_nullifier nullifier m, d, Suc k))"

definition chain_events :: "node \<Rightarrow> idl \<Rightarrow> nat \<Rightarrow> (string \<times> chain_event) list" where
  "chain_events nd il maxPages = concat (map (events_of nd il) (rev (fetch_signatures nd maxPages 0 None)))"

definition hydrateFromChain :: "node \<Rightarrow> idl \<Rightarrow> nat option \<Rightarrow> mixer \<Rightarrow> hydrate_result \<times> mixer" where
  "hydrateFromChain nd il maxPages m =
     (let pages = (case maxPages of None \<Rightarrow> 50 | Some p \<Rightarrow> p) in
      if idl_deposit il = None
      then (\<lparr>hy_scannedSignatures = 0, hy_depositsLoaded = 0, hy_withdrawalsLoaded = 0\<rparr>, m)
      else
        let (m', d, k) = fold apply_event (chain_events nd il pages) (m, 0, 0) in
        (\<lparr>hy_scannedSignatures = length (fetch_signatures nd pages 0 None),
          hy_depositsLoaded = d, hy_withdrawalsLoaded = k\<rparr>, m'))"

section \<open>Pool status and the anonymity set\<close>

text \<open>An account as the node answers it: the request fails, there is none, or its data.\<close>

type_synonym account = "string + bytes option"

record PoolStatus =
  ps_poolAddress :: string
  ps_denomination :: string
  ps_nextLeafIndex :: int
  ps_isPaused :: bool
  ps_balance :: string
  ps_depositsTracked :: nat

definition paused_byte :: "bytes \<Rightarrow> bool" where
  "paused_byte data = (MIXER_POOL_IS_PAUSED_OFFSET < length data \<and> data ! MIXER_POOL_IS_PAUSED_OFFSET = 1)"

definition getPoolStatus :: "string \<Rightarrow> account \<Rightarrow> string + int \<Rightarrow> mixer \<Rightarrow> PoolStatus option" where
  "getPoolStatus poolPDA acct bal m =
     (case acct of
        Inr (Some data) \<Rightarrow>
          (case (bal, readUInt32LE data MIXER_POOL_NEXT_LEAF_INDEX_OFFSET) of
             (Inr balance, Some nextLeafIndex) \<Rightarrow>
               Some \<lparr>ps_poolAddress = poolPDA, ps_denomination = string_of_bigint (mx_denomination m),
                 ps_nextLeafIndex = nextLeafIndex, ps_isPaused = paused_byte data,
                 ps_balance = string_of_bigint balance, ps_depositsTracked = length (mx_deposits m)\<rparr>
           | _ \<Rightarrow> None)
      | _ \<Rightarrow> None)"

record AnonymitySnapshot =
  sn_nextLeafIndex :: int
  sn_withdrawalCount :: nat
  sn_anonymitySet :: int

definition getAnonymitySetSnapshot :: "PoolStatus option \<Rightarrow> mixer \<Rightarrow> AnonymitySnapshot" where
  "getAnonymitySetSnapshot status m =
     (let nextLeafIndex = (case status of None \<Rightarrow> 0 | Some s \<Rightarrow> ps_nextLeafIndex s);
          withdrawalCount = length (mx_knownNullifiers m)
      in \<lparr>sn_nextLeafIndex = nextLeafIndex, sn_withdrawalCount = withdrawalCount,
          sn_anonymitySet = max 0 (nextLeafIndex - int withdrawalCount)\<rparr>)"

datatype mixer_error =
    PoolNotInitializedError int string
  | AnonymitySetTooThinError int int int
  | SeedError pack_error
  | BadPubkey string
  | NodeError string

definition assertAnonymitySetSatisfied :: "int \<Rightarrow> PoolStatus option \<Rightarrow> mixer \<Rightarrow> mixer_error + unit" where
  "assertAnonymitySetSatisfied minSet status m =
     (if minSet \<le> 0 then Inr ()
      else let snap = getAnonymitySetSnapshot status m in
        if sn_anonymitySet snap < minSet
        then Inl (AnonymitySetTooThinError (sn_anonymitySet snap) minSet (mx_denomination m))
        else Inr ())"

record PoolReading =
  rd_poolAddress :: string
  rd_denomination :: string
  rd_nextLeafIndex :: int
  rd_depositCount :: int
  rd_withdrawalCount :: nat
  rd_anonymitySet :: int
  rd_isPaused :: bool
  rd_balance :: string

definition readPoolStatus ::
    "string \<Rightarrow> int \<Rightarrow> account \<Rightarrow> string + int \<Rightarrow> mixer_error + PoolReading option" where
  "readPoolStatus poolPDA denomination acct bal =
     (case acct of
        Inl e \<Rightarrow> Inl (NodeError e)
      | Inr None \<Rightarrow> Inr None
      | Inr (Some data) \<Rightarrow>
          (case bal of
             Inl e \<Rightarrow> Inl (NodeError e)
           | Inr balance \<Rightarrow>
               (case readUInt32LE data MIXER_POOL_NEXT_LEAF_INDEX_OFFSET of
                  None \<Rightarrow> Inl (NodeError ''out of range'')
                | Some nextLeafIndex \<Rightarrow>
                    Inr (Some \<lparr>rd_poolAddress = poolPDA, rd_denomination = string_of_bigint denomination,
                      rd_nextLeafIndex = nextLeafIndex, rd_depositCount = nextLeafIndex, rd_withdrawalCount = 0,
                      rd_anonymitySet = nextLeafIndex, rd_isPaused = paused_byte data,
                      rd_balance = string_of_bigint balance\<rparr>))))"

section \<open>Unsigned transactions\<close>

record instruction =
  ix_method :: string
  ix_args :: "bytes list"
  ix_accounts :: "(string \<times> string) list"

record unsigned_tx =
  tx_feePayer :: string
  tx_blockhash :: string
  tx_unitLimit :: "nat option"
  tx_instruction :: instruction

record chain_lib =
  cl_PublicKey :: "string \<Rightarrow> bytes option"
  cl_base58 :: "bytes \<Rightarrow> string"
  cl_findProgramAddress :: "bytes list \<Rightarrow> bytes"
  cl_base64 :: "string \<Rightarrow> bytes"
  cl_systemProgram :: string

definition pool_key :: "chain_lib \<Rightarrow> int \<Rightarrow> pack_error + bytes" where
  "pool_key cl denomination =
     deriveMixerPoolPDA (\<lambda>seeds (). cl_findProgramAddress cl seeds) () denomination"

definition mixer_pubkey :: "chain_lib \<Rightarrow> string \<Rightarrow> mixer_error + string" where
  "mixer_pubkey cl s = (case cl_PublicKey cl s of None \<Rightarrow> Inl (BadPubkey s) | Some k \<Rightarrow> Inr (cl_base58 cl k))"

definition mixer_bytes32 :: "int \<Rightarrow> mixer_error + bytes" where
  "mixer_bytes32 v = (case bigintToBytes32 v ''commitment'' of Inl e \<Rightarrow> Inl (SeedError e) | Inr bs \<Rightarrow> Inr bs)"

definition node_res :: "string + 'a \<Rightarrow> mixer_error + 'a" where
  "node_res r = (case r of Inl e \<Rightarrow> Inl (NodeError e) | Inr a \<Rightarrow> Inr a)"

definition assertPoolInitialized :: "chain_lib \<Rightarrow> bytes \<Rightarrow> account \<Rightarrow> mixer \<Rightarrow> mixer_error + unit" where
  "assertPoolInitialized cl pool acct m =
     (case acct of
        Inl e \<Rightarrow> Inl (NodeError e)
      | Inr None \<Rightarrow> Inl (PoolNotInitializedError (mx_denomination m) (cl_base58 cl pool))
      | Inr (Some data) \<Rightarrow> Inr ())"

definition buildDepositTransaction ::
    "chain_lib \<Rightarrow> bytes \<Rightarrow> account \<Rightarrow> string + string \<Rightarrow> mixer \<Rightarrow> string \<Rightarrow> int \<Rightarrow> mixer_error + unsigned_tx" where
  "buildDepositTransaction cl pool acct blockhash m depositorPubkey commitment =
     bind_res (assertPoolInitialized cl pool acct m) (\<lambda>_.
     bind_res (mixer_pubkey cl depositorPubkey) (\<lambda>depositor.
     bind_res (mixer_bytes32 commitment) (\<lambda>commitmentBytes.
     let commitmentPDA = cl_findProgramAddress cl [COMMITMENT_SEED, pool, commitmentBytes] in
     bind_res (node_res blockhash) (\<lambda>bh.
     Inr \<lparr>tx_feePayer = depositor, tx_blockhash = bh, tx_unitLimit = Some 400000,
       tx_instruction = \<lparr>ix_method = ''deposit'', ix_args = [commitmentBytes],
         ix_accounts = [(''depositor'', depositor), (''mixerPool'', cl_base58 cl pool),
           (''commitmentAccount'', cl_base58 cl commitmentPDA), (''systemProgram'', cl_systemProgram cl)]\<rparr>\<rparr>))))"

definition buildWithdrawTransaction ::
    "chain_lib \<Rightarrow> int \<Rightarrow> bytes \<Rightarrow> account \<Rightarrow> PoolStatus option \<Rightarrow> string + string \<Rightarrow> mixer
      \<Rightarrow> string \<Rightarrow> string \<Rightarrow> string \<Rightarrow> string \<Rightarrow> string \<Rightarrow> mixer_error + unsigned_tx" where
  "buildWithdrawTransaction cl minSet pool acct status blockhash m
      signerPubkey recipientPubkey proofBase64 inputsBase64 nullifierHash =
     bind_res (assertPoolInitialized cl pool acct m) (\<lambda>_.
     bind_res (assertAnonymitySetSatisfied minSet status m) (\<lambda>_.
     bind_res (mixer_pubkey cl signerPubkey) (\<lambda>signer.
     bind_res (mixer_pubkey cl recipientPubkey) (\<lambda>recipient.
     bind_res (case bigint_of_string nullifierHash of None \<Rightarrow> Inl (SeedError (NotBigInt nullifierHash)) | Some v \<Rightarrow> Inr v) (\<lambda>v.
     bind_res (mixer_bytes32 v) (\<lambda>nullifierHashBuf.
     let nullifierPDA = cl_findProgramAddress cl [NULLIFIER_SEED, pool, nullifierHashBuf] in
     bind_res (node_res blockhash) (\<lambda>bh.
     Inr \<lparr>tx_feePayer = signer, tx_blockhash = bh, tx_unitLimit = Some 400000,
       tx_instruction = \<lparr>ix_method = ''withdraw'', ix_args = [cl_base64 cl proofBase64, cl_base64 cl inputsBase64],
         ix_accounts = [(''signer'', signer), (''mixerPool'', cl_base58 cl pool),
           (''nullifierAccount'', cl_base58 cl nullifierPDA), (''recipient'', recipient), (''relayer'', signer),
           (''systemProgram'', cl_systemProgram cl)]\<rparr>\<rparr>)))))))"

definition buildInitializeTransaction ::
    "chain_lib \<Rightarrow> bytes \<Rightarrow> string + string \<Rightarrow> mixer \<Rightarrow> string \<Rightarrow> mixer_error + unsigned_tx \<times> string" where
  "buildInitializeTransaction cl pool blockhash m authorityPubkey =
     bind_res (mixer_pubkey cl authorityPubkey) (\<lambda>authority.
     bind_res (case writeBigUInt64LE (mx_denomination m) of Inl e \<Rightarrow> Inl (SeedError e) | Inr bs \<Rightarrow> Inr bs) (\<lambda>amount.
     bind_res (node_res blockhash) (\<lambda>bh.
     Inr (\<lparr>tx_feePayer = authority, tx_blockhash = bh, tx_unitLimit = None,
       tx_instruction = \<lparr>ix_method = ''initialize'', ix_args = [amount],
         ix_accounts = [(''authority'', authority), (''mixerPool'', cl_base58 cl pool),
           (''systemProgram'', cl_systemProgram cl)]\<rparr>\<rparr>, cl_base58 cl pool))))"

section \<open>The registry\<close>

record mixer_registry =
  mr_denominations :: "int list"
  mr_services :: "string \<rightharpoonup> mixer"

text \<open>A value of a parsed request: \<open>RawOther\<close> is any other JSON value, with its \<open>String(raw)\<close>.\<close>

datatype raw_value = RawMissing | RawBigint int | RawNumber js_num | RawString string | RawOther string

datatype registry_error =
    NoDenomination
  | UnknownDenominationError int "int list"
  | InvalidDenominationError raw_value

definition new_registry :: "int list \<Rightarrow> registry_error + mixer_registry" where
  "new_registry denominations =
     (if denominations = [] then Inl NoDenomination
      else Inr \<lparr>mr_denominations = denominations,
        mr_services = fold (\<lambda>d m. m(string_of_bigint d \<mapsto> new_mixer d)) denominations Map.empty\<rparr>)"

definition defaultDenomination :: "mixer_registry \<Rightarrow> int" where
  "defaultDenomination reg = hd (mr_denominations reg)"

definition registry_get :: "mixer_registry \<Rightarrow> int \<Rightarrow> registry_error + mixer" where
  "registry_get reg denomination =
     (case mr_services reg (string_of_bigint denomination) of
        None \<Rightarrow> Inl (UnknownDenominationError denomination (mr_denominations reg))
      | Some m \<Rightarrow> Inr m)"

definition registry_list :: "mixer_registry \<Rightarrow> (int \<times> mixer option) list" where
  "registry_list reg = map (\<lambda>d. (d, mr_services reg (string_of_bigint d))) (mr_denominations reg)"

definition parseDenomination :: "raw_value \<Rightarrow> registry_error + int option" where
  "parseDenomination raw =
     (case raw of
        RawMissing \<Rightarrow> Inr None
      | RawBigint n \<Rightarrow> Inr (Some n)
      | RawNumber x \<Rightarrow>
          (case x of
             Fin r \<Rightarrow> if r = of_int \<lfloor>r\<rfloor> \<and> 0 < r then Inr (Some \<lfloor>r\<rfloor>) else Inl (InvalidDenominationError raw)
           | _ \<Rightarrow> Inl (InvalidDenominationError raw))
      | RawString s \<Rightarrow>
          if s = [] then Inr None
          else (case bigint_of_string s of
              Some v \<Rightarrow> if v \<le> 0 then Inl (InvalidDenominationError raw) else Inr (Some v)
            | None \<Rightarrow> Inl (InvalidDenominationError raw))
      | RawOther s \<Rightarrow> Inl (InvalidDenominationError raw))"

text \<open>\<open>resolveService\<close> of the controllers: the status of a refusal, or the pool.\<close>

definition resolveService :: "mixer_registry \<Rightarrow> raw_value \<Rightarrow> (nat \<times> registry_error) + mixer" where
  "resolveService reg raw =
     (case parseDenomination raw of
        Inl e \<Rightarrow> Inl (400, e)
      | Inr denomination \<Rightarrow>
          (case registry_get reg (case denomination of None \<Rightarrow> defaultDenomination reg | Some d \<Rightarrow> d) of
             Inl e \<Rightarrow> Inl (400, e)
           | Inr m \<Rightarrow> Inr m))"

end
