(* ===== verification/MixerProperties.thy ===== *)
theory MixerProperties imports MixerService begin

text \<open>
  Properties of the mixer service: the deposit cache keeps its first records, hydration is
  idempotent and rebuilds the leaves of an honest history in order, the anonymity gate fails
  closed, and where the code departs from its comments.
\<close>

section \<open>The cache grows and never changes\<close>

definition mixer_inv :: "mixer \<Rightarrow> bool" where
  "mixer_inv m \<longleftrightarrow> distinct (map dp_commitment (mx_deposits m)) \<and> distinct (mx_knownNullifiers m)"

definition extends_mixer :: "mixer \<Rightarrow> mixer \<Rightarrow> bool" where
  "extends_mixer m m' \<longleftrightarrow> (\<exists>ds ns. mx_deposits m' = mx_deposits m @ ds \<and> mx_knownNullifiers m' = mx_knownNullifiers m @ ns)"

lemma extends_refl [simp]: "extends_mixer m m"
  by (simp add: extends_mixer_def)

lemma extends_trans: "extends_mixer m m1 \<Longrightarrow> extends_mixer m1 m2 \<Longrightarrow> extends_mixer m m2"
  by (auto simp: extends_mixer_def)

lemma extends_put: "extends_mixer m (put_deposit key i sig m)" "extends_mixer m (add_nullifier h m)"
  by (auto simp: extends_mixer_def put_deposit_def add_nullifier_def)

lemma inv_put: "mixer_inv m \<Longrightarrow> \<not> has_deposit key m \<Longrightarrow> mixer_inv (put_deposit key i sig m)"
  by (auto simp: mixer_inv_def put_deposit_def has_deposit_def)

lemma inv_add: "mixer_inv m \<Longrightarrow> mixer_inv (add_nullifier h m)"
  by (auto simp: mixer_inv_def add_nullifier_def)

lemma apply_event_step:
  assumes "mixer_inv (fst s)"
  shows "mixer_inv (fst (apply_event ev s)) \<and> extends_mixer (fst s) (fst (apply_event ev s))"
proof -
  obtain m d k where s: "s = (m, d, k)" by (cases s) auto
  show ?thesis
    using assms extends_put inv_put inv_add
    by (cases ev; cases "snd ev") (auto simp: s Let_def)
qed

lemma apply_events:
  "mixer_inv (fst s) \<Longrightarrow> mixer_inv (fst (fold apply_event evs s)) \<and> extends_mixer (fst s) (fst (fold apply_event evs s))"
proof (induction evs arbitrary: s)
  case (Cons ev evs)
  have step: "mixer_inv (fst (apply_event ev s))" "extends_mixer (fst s) (fst (apply_event ev s))"
    using apply_event_step [OF Cons.prems, of ev] by auto
  show ?case
    using Cons.IH [OF step(1)] extends_trans [OF step(2)] by simp
qed simp

text \<open>An event that has been applied is known for ever, and a known event changes nothing.\<close>

fun known_event :: "chain_event \<Rightarrow> mixer \<Rightarrow> bool" where
  "known_event (DepositEvent c i) m = has_deposit (string_of_bigint c) m"
| "known_event (WithdrawEvent h) m = (h \<in> set (mx_knownNullifiers m))"

lemma known_after: "known_event (snd ev) (fst (apply_event ev s))"
  by (cases s; cases ev; cases "snd ev") (auto simp: Let_def has_deposit_def put_deposit_def add_nullifier_def)

lemma known_extends: "known_event e m \<Longrightarrow> extends_mixer m m' \<Longrightarrow> known_event e m'"
  by (cases e) (auto simp: has_deposit_def extends_mixer_def)

lemma known_noop: "known_event (snd ev) (fst s) \<Longrightarrow> apply_event ev s = s"
  by (cases s; cases ev; cases "snd ev") (auto simp: Let_def)

lemma known_all:
  "mixer_inv (fst s) \<Longrightarrow> ev \<in> set evs \<Longrightarrow> known_event (snd ev) (fst (fold apply_event evs s))"
proof (induction evs arbitrary: s)
  case (Cons e evs)
  have inv: "mixer_inv (fst (apply_event e s))" using apply_event_step Cons.prems(1) by blast
  show ?case
  proof (cases "ev \<in> set evs")
    case True
    then show ?thesis using Cons.IH [OF inv] by simp
  next
    case False
    then have "known_event (snd ev) (fst (apply_event e s))" using Cons.prems(2) known_after by auto
    then show ?thesis using known_extends apply_events [OF inv] by (metis fold_simps(2))
  qed
qed simp

lemma noop_all: "(\<And>ev. ev \<in> set evs \<Longrightarrow> known_event (snd ev) (fst s)) \<Longrightarrow> fold apply_event evs s = s"
  by (induction evs arbitrary: s) (auto simp: known_noop)

lemma inv_new [simp]: "mixer_inv (new_mixer d)"
  by (simp add: mixer_inv_def new_mixer_def)

text \<open>
  What clients and hydration can do to a pool.  A hydration awaits between its transactions, so that
  other requests may come in between: it is also any number of single events, applied one by one.
\<close>

datatype mixer_op = Confirm int int string | Withdrawn string | Hydrate node idl "nat option" | Apply "string \<times> chain_event"

fun mixer_step :: "mixer_op \<Rightarrow> mixer \<Rightarrow> mixer" where
  "mixer_step (Confirm c i sig) m = recordDeposit c i sig m"
| "mixer_step (Withdrawn h) m = recordWithdrawal h m"
| "mixer_step (Hydrate nd il pages) m = snd (hydrateFromChain nd il pages m)"
| "mixer_step (Apply ev) m = fst (apply_event ev (m, 0, 0))"

lemma hydrate_step:
  assumes "mixer_inv m"
  shows "mixer_inv (snd (hydrateFromChain nd il pages m)) \<and> extends_mixer m (snd (hydrateFromChain nd il pages m))"
proof (cases "idl_deposit il")
  case None
  with assms show ?thesis by (simp add: hydrateFromChain_def Let_def)
next
  case (Some b)
  show ?thesis
    using apply_events [of "(m, 0, 0)"] assms by (simp add: hydrateFromChain_def Some Let_def split: prod.splits) (metis fst_conv)
qed

lemma mixer_step_keeps: "mixer_inv m \<Longrightarrow> mixer_inv (mixer_step op m) \<and> extends_mixer m (mixer_step op m)"
  using inv_put extends_put hydrate_step apply_event_step [of "(m, 0, 0)"]
  by (cases op) (auto simp: recordDeposit_def recordWithdrawal_def Let_def inv_add)

lemma mixer_steps: "mixer_inv m \<Longrightarrow> mixer_inv (fold mixer_step ops m) \<and> extends_mixer m (fold mixer_step ops m)"
proof (induction ops arbitrary: m)
  case (Cons op ops)
  have step: "mixer_inv (mixer_step op m)" "extends_mixer m (mixer_step op m)"
    using mixer_step_keeps [OF Cons.prems, of op] by auto
  show ?case
    using Cons.IH [OF step(1)] extends_trans [OF step(2)] by simp
qed simp

text \<open>
  C22.  Invariant over every history of confirmations, relayed withdrawals and hydrations, whole or event by
  event with others in between: commitments are
  recorded once, the list for the browsers is sorted by leaf and holds exactly the records, and
  a record, once made, keeps its leaf index and signature through everything that follows.
\<close>

theorem first_record_wins:
  "distinct (map dp_commitment (listDeposits (fold mixer_step ops (new_mixer d)))) \<and>
   sorted (map dp_leafIndex (listDeposits (fold mixer_step ops (new_mixer d)))) \<and>
   set (listDeposits (fold mixer_step ops (new_mixer d)))
     \<subseteq> set (listDeposits (fold mixer_step later (fold mixer_step ops (new_mixer d))))"
proof -
  let ?m = "fold mixer_step ops (new_mixer d)"
  have m: "mixer_inv ?m" using mixer_steps by simp
  have "mset (map dp_commitment (listDeposits ?m)) = mset (map dp_commitment (mx_deposits ?m))"
    by (simp add: listDeposits_def)
  then have "distinct (map dp_commitment (listDeposits ?m))"
    using m mset_eq_imp_distinct_iff by (fastforce simp: mixer_inv_def)
  moreover have "set (mx_deposits ?m) \<subseteq> set (mx_deposits (fold mixer_step later ?m))"
    using mixer_steps [OF m, of later] by (auto simp: extends_mixer_def)
  ultimately show ?thesis by (simp add: listDeposits_def)
qed

text \<open>
  Idempotence of the recovery: a second scan of the same chain loads nothing and changes nothing.
\<close>

theorem hydration_idempotent:
  "hydrateFromChain nd il pages (snd (hydrateFromChain nd il pages (fold mixer_step ops (new_mixer d)))) =
     (\<lparr>hy_scannedSignatures = hy_scannedSignatures (fst (hydrateFromChain nd il pages (fold mixer_step ops (new_mixer d)))),
       hy_depositsLoaded = 0, hy_withdrawalsLoaded = 0\<rparr>,
      snd (hydrateFromChain nd il pages (fold mixer_step ops (new_mixer d))))"
proof -
  let ?m = "fold mixer_step ops (new_mixer d)"
  have inv: "mixer_inv ?m" using mixer_steps by simp
  show ?thesis
  proof (cases "idl_deposit il")
    case None
    then show ?thesis by (simp add: hydrateFromChain_def Let_def)
  next
    case (Some b)
    define evs where "evs = chain_events nd il (case pages of None \<Rightarrow> 50 | Some p \<Rightarrow> p)"
    obtain m' x y where s: "fold apply_event evs (?m, 0, 0) = (m', x, y)" by (cases "fold apply_event evs (?m, 0, 0)") auto
    have "known_event (snd ev) m'" if "ev \<in> set evs" for ev
      using known_all [OF _ that, of "(?m, 0, 0)"] inv s by simp
    then have "fold apply_event evs (m', 0, 0) = (m', 0, 0)" by (intro noop_all) simp
    with s Some show ?thesis by (simp add: hydrateFromChain_def Let_def evs_def)
  qed
qed


section \<open>Hydration against a reference\<close>

text \<open>The first element of every key, in order.\<close>

fun firsts :: "('a \<Rightarrow> 'k) \<Rightarrow> 'a list \<Rightarrow> 'a list" where
  "firsts f [] = []"
| "firsts f (x # xs) = x # filter (\<lambda>y. f y \<noteq> f x) (firsts f xs)"

fun deposit_record :: "string \<times> chain_event \<Rightarrow> PublicDepositRecord option" where
  "deposit_record (sig, DepositEvent c i) = Some \<lparr>dp_commitment = string_of_bigint c, dp_leafIndex = i, dp_txSignature = sig\<rparr>"
| "deposit_record (sig, WithdrawEvent h) = None"

fun withdrawn_nullifier :: "string \<times> chain_event \<Rightarrow> string option" where
  "withdrawn_nullifier (sig, DepositEvent c i) = None"
| "withdrawn_nullifier (sig, WithdrawEvent h) = Some h"

lemma filter_firsts: "filter (\<lambda>x. P (f x)) (firsts f xs) = firsts f (filter (\<lambda>x. P (f x)) xs)"
proof (induction xs)
  case (Cons x xs)
  show ?case
  proof (cases "P (f x)")
    case True
    then show ?thesis by (simp add: Cons.IH [symmetric] conj_commute)
  next
    case False
    then have "filter (\<lambda>y. f y \<noteq> f x \<and> P (f y)) zs = filter (\<lambda>y. P (f y)) zs" for zs
      by (auto intro: filter_cong)
    then show ?thesis using Cons False by simp
  qed
qed simp

lemma firsts_filter_filter:
  "firsts f (filter (\<lambda>x. f x \<noteq> key \<and> P (f x)) xs) = filter (\<lambda>x. f x \<noteq> key) (firsts f (filter (\<lambda>x. P (f x)) xs))"
  using filter_firsts [of "\<lambda>k. k \<noteq> key" f "filter (\<lambda>x. P (f x)) xs"] by (simp add: conj_commute)

definition fresh_records :: "mixer \<Rightarrow> (string \<times> chain_event) list \<Rightarrow> PublicDepositRecord list" where
  "fresh_records m evs = firsts dp_commitment (filter (\<lambda>r. \<not> has_deposit (dp_commitment r) m) (List.map_filter deposit_record evs))"

definition fresh_nullifiers :: "mixer \<Rightarrow> (string \<times> chain_event) list \<Rightarrow> string list" where
  "fresh_nullifiers m evs = firsts id (filter (\<lambda>h. h \<notin> set (mx_knownNullifiers m)) (List.map_filter withdrawn_nullifier evs))"

lemma fold_events:
  "fold apply_event evs (m, d, k) =
     (m\<lparr>mx_deposits := mx_deposits m @ fresh_records m evs, mx_knownNullifiers := mx_knownNullifiers m @ fresh_nullifiers m evs\<rparr>,
      d + length (fresh_records m evs), k + length (fresh_nullifiers m evs))"
proof (induction evs arbitrary: m d k)
  case (Cons e evs)
  obtain sig ev where e: "e = (sig, ev)" by (cases e)
  show ?case
  proof (cases ev)
    case (DepositEvent c i)
    let ?r = "\<lparr>dp_commitment = string_of_bigint c, dp_leafIndex = i, dp_txSignature = sig\<rparr>"
    let ?m = "put_deposit (string_of_bigint c) i sig m"
    show ?thesis
    proof (cases "has_deposit (string_of_bigint c) m")
      case True
      then show ?thesis using Cons.IH
        by (simp add: e DepositEvent Let_def fresh_records_def fresh_nullifiers_def List.map_filter_simps)
    next
      case False
      have "fresh_records m (e # evs) = ?r # fresh_records ?m evs"
        using False firsts_filter_filter [of "dp_commitment :: PublicDepositRecord \<Rightarrow> string" "string_of_bigint c" "\<lambda>key. key \<notin> dp_commitment ` set (mx_deposits m)"]
        by (simp add: e DepositEvent fresh_records_def List.map_filter_simps put_deposit_def has_deposit_def conj_commute)
      moreover have "fresh_nullifiers m (e # evs) = fresh_nullifiers ?m evs"
        by (simp add: e DepositEvent fresh_nullifiers_def List.map_filter_simps put_deposit_def)
      ultimately show ?thesis using False Cons.IH [of ?m "Suc d" k]
        by (simp add: e DepositEvent Let_def) (simp add: put_deposit_def)
    qed
  next
    case (WithdrawEvent h)
    let ?m = "add_nullifier h m"
    show ?thesis
    proof (cases "h \<in> set (mx_knownNullifiers m)")
      case True
      then show ?thesis using Cons.IH
        by (simp add: e WithdrawEvent fresh_records_def fresh_nullifiers_def List.map_filter_simps)
    next
      case False
      have "fresh_nullifiers m (e # evs) = h # fresh_nullifiers ?m evs"
        using False firsts_filter_filter [of id h "\<lambda>key. key \<notin> set (mx_knownNullifiers m)"]
        by (simp add: e WithdrawEvent fresh_nullifiers_def List.map_filter_simps add_nullifier_def conj_commute)
      moreover have "fresh_records m (e # evs) = fresh_records ?m evs"
        by (simp add: e WithdrawEvent fresh_records_def List.map_filter_simps add_nullifier_def has_deposit_def)
      ultimately show ?thesis using False Cons.IH [of ?m d "Suc k"]
        by (simp add: e WithdrawEvent) (simp add: add_nullifier_def)
    qed
  qed
qed (simp add: fresh_records_def fresh_nullifiers_def List.map_filter_simps)

text \<open>
  The chain as it happened: transactions from the oldest to the newest, each with the lines of its
  log (\<open>None\<close> where the node does not have it), and an event as the program emits it, before
  any encoding.
\<close>

datatype emitted = Deposited int int | Withdrew int

datatype logged = Line string | Event emitted bytes

record chain_tx =
  ct_signature :: string
  ct_err :: bool
  ct_logs :: "logged list option"

text \<open>The bytes of an event: its discriminator, the field element, and the leaf index, low byte first.\<close>

fun event_bytes :: "bytes \<Rightarrow> bytes \<Rightarrow> emitted \<Rightarrow> bytes" where
  "event_bytes dd dw (Deposited c i) = dd @ be_bytes 32 c @ rev (be_bytes 4 i)"
| "event_bytes dd dw (Withdrew n) = dw @ be_bytes 32 n"

fun in_range :: "emitted \<Rightarrow> bool" where
  "in_range (Deposited c i) \<longleftrightarrow> 0 \<le> c \<and> c < 2 ^ 256 \<and> 0 \<le> i \<and> i < 2 ^ 32"
| "in_range (Withdrew n) \<longleftrightarrow> 0 \<le> n \<and> n < 2 ^ 256"

text \<open>
  How a line is shown: an event as the Base64 text of its bytes, with whatever follows them; any
  other line is not program data, or is that of another event.
\<close>

fun shows_line :: "(string \<Rightarrow> bytes) \<Rightarrow> bytes \<Rightarrow> bytes \<Rightarrow> logged \<Rightarrow> string \<Rightarrow> bool" where
  "shows_line base64 dd dw (Line t) line \<longleftrightarrow> line = t \<and>
     (starts_with ''Program data: '' t \<longrightarrow> take 8 (base64 (drop 14 t)) \<noteq> dd \<and> take 8 (base64 (drop 14 t)) \<noteq> dw)"
| "shows_line base64 dd dw (Event e rest) line \<longleftrightarrow>
     (\<exists>t. line = ''Program data: '' @ t \<and> t \<noteq> [] \<and> (\<forall>c \<in> set t. c \<noteq> CHR 0x0A \<and> c \<noteq> CHR 0x0D) \<and>
        base64 t = event_bytes dd dw e @ rest \<and> in_range e)"

text \<open>The transactions before a cursor.\<close>

fun earlier :: "string option \<Rightarrow> chain_tx list \<Rightarrow> chain_tx list" where
  "earlier None chain = chain"
| "earlier (Some sig) chain = takeWhile (\<lambda>tx. ct_signature tx \<noteq> sig) chain"

definition info_of :: "chain_tx \<Rightarrow> SignatureInfo" where
  "info_of tx = \<lparr>sg_signature = ct_signature tx, sg_err = ct_err tx\<rparr>"

text \<open>
  A node that serves the chain as documented: a page is the newest thousand signatures before the
  cursor, newest first; it answers the first \<open>n\<close> pages and fails afterwards.
\<close>

definition serves :: "node \<Rightarrow> bytes \<Rightarrow> bytes \<Rightarrow> nat \<Rightarrow> chain_tx list \<Rightarrow> bool" where
  "serves nd dd dw n chain \<longleftrightarrow>
     distinct (map ct_signature chain) \<and>
     (\<forall>page before. nd_signatures nd page before =
        (if page < n then Some (map info_of (take 1000 (rev (earlier before chain)))) else None)) \<and>
     (\<forall>tx \<in> set chain. rel_option (list_all2 (shows_line (nd_base64 nd) dd dw)) (ct_logs tx) (nd_logs nd (ct_signature tx)))"

text \<open>What happened in a stretch of the chain, oldest first; failed transactions have no events.\<close>

fun event_of :: "emitted \<Rightarrow> chain_event" where
  "event_of (Deposited c i) = DepositEvent c i"
| "event_of (Withdrew n) = WithdrawEvent (string_of_bigint n)"

fun logged_event :: "string \<Rightarrow> logged \<Rightarrow> (string \<times> chain_event) option" where
  "logged_event sig (Line t) = None"
| "logged_event sig (Event e rest) = Some (sig, event_of e)"

definition happened :: "chain_tx list \<Rightarrow> (string \<times> chain_event) list" where
  "happened chain = concat (map (\<lambda>tx.
     if ct_err tx then [] else case ct_logs tx of None \<Rightarrow> [] | Some ls \<Rightarrow> List.map_filter (logged_event (ct_signature tx)) ls) chain)"

lemma be_bytes_ne: "be_bytes 32 v \<noteq> []"
  by (metis length_be_bytes list.size(3) zero_neq_numeral)

lemma decode_emitted:
  assumes "length dd = 8" "length dw = 8" "dd \<noteq> dw" "in_range e" "idl_deposit il = Some dd" "idl_withdraw il = Some dw"
  shows "decode_event il (event_bytes dd dw e @ rest) = Some (event_of e)"
proof (cases e)
  case (Deposited c i)
  have "take 32 (drop 8 (event_bytes dd dw e @ rest)) = be_bytes 32 c" using assms(1) by (simp add: Deposited)
  moreover have "readUInt32LE (event_bytes dd dw e @ rest) 40 = Some i"
    using assms(1,4) by (simp add: readUInt32LE_def Deposited be_value_be_bytes)
  moreover have "big_of_hex (be_bytes 32 c) = c"
    using assms(4) be_bytes_ne by (simp add: big_of_hex_value Deposited be_value_be_bytes del: be_bytes.simps)
  ultimately show ?thesis using assms by (simp add: decode_event_def Let_def Deposited)
next
  case (Withdrew n)
  have "take 32 (drop 8 (event_bytes dd dw e @ rest)) = be_bytes 32 n" using assms(2) by (simp add: Withdrew)
  moreover have "big_of_hex (be_bytes 32 n) = n"
    using assms(4) be_bytes_ne by (simp add: big_of_hex_value Withdrew be_value_be_bytes del: be_bytes.simps)
  ultimately show ?thesis using assms by (simp add: decode_event_def Let_def Withdrew)
qed

lemma decode_foreign:
  "take 8 payload \<noteq> dd \<Longrightarrow> take 8 payload \<noteq> dw \<Longrightarrow> idl_deposit il = Some dd \<Longrightarrow> idl_withdraw il = Some dw \<Longrightarrow> decode_event il payload = None"
  by (auto simp: decode_event_def Let_def)

lemma event_line:
  assumes "shows_line (nd_base64 nd) dd dw l line" and "length dd = 8" "length dw = 8" "dd \<noteq> dw"
    and "idl_deposit il = Some dd" "idl_withdraw il = Some dw"
  shows "(case program_data line of None \<Rightarrow> None | Some t \<Rightarrow> map_option (Pair sig) (decode_event il (nd_base64 nd t))) = logged_event sig l"
proof (cases l)
  case (Line t)
  then show ?thesis using assms decode_foreign [of "nd_base64 nd (drop 14 t)" dd dw il] by (auto simp: program_data_def)
next
  case (Event e rest)
  then obtain t where t: "line = ''Program data: '' @ t" "t \<noteq> []" "\<forall>c \<in> set t. c \<noteq> CHR 0x0A \<and> c \<noteq> CHR 0x0D"
    "nd_base64 nd t = event_bytes dd dw e @ rest" "in_range e" using assms(1) by auto
  then have "program_data line = Some t" by (simp add: program_data_def starts_with_def)
  then show ?thesis using Event t decode_emitted [OF assms(2-4) t(5) assms(5,6)] by simp
qed

lemma event_lines:
  assumes "list_all2 (shows_line (nd_base64 nd) dd dw) ls lines" and "length dd = 8" "length dw = 8" "dd \<noteq> dw"
    and "idl_deposit il = Some dd" "idl_withdraw il = Some dw"
  shows "List.map_filter (\<lambda>line. case program_data line of None \<Rightarrow> None | Some t \<Rightarrow> map_option (Pair sig) (decode_event il (nd_base64 nd t))) lines =
    List.map_filter (logged_event sig) ls"
  using assms(1)
proof (induction rule: list_all2_induct)
  case (Cons l ls line lines)
  then show ?case using event_line [OF Cons.hyps(1) assms(2-)] by (simp add: List.map_filter_simps split: option.splits)
qed (simp add: List.map_filter_simps)

lemma events_of_tx:
  assumes "serves nd dd dw n chain" and "tx \<in> set chain" and "length dd = 8" "length dw = 8" "dd \<noteq> dw"
    and "idl_deposit il = Some dd" "idl_withdraw il = Some dw"
  shows "events_of nd il (info_of tx) = happened [tx]"
proof -
  have "rel_option (list_all2 (shows_line (nd_base64 nd) dd dw)) (ct_logs tx) (nd_logs nd (ct_signature tx))"
    using assms(1,2) by (simp add: serves_def)
  then show ?thesis
    using event_lines [where nd = nd and sig = "ct_signature tx", OF _ assms(3-)]
    by (cases "ct_logs tx"; cases "nd_logs nd (ct_signature tx)") (simp_all add: events_of_def info_of_def happened_def cong: option.case_cong)
qed

text \<open>The scan: page by page, newest first, it sees the newest transactions before the cursor.\<close>

lemma earlier_page:
  assumes "distinct (map ct_signature chain)" and "rev (earlier before chain) = page @ rest" and "page \<noteq> []"
  shows "earlier (Some (ct_signature (last page))) chain = rev rest"
proof -
  have "\<exists>tail. chain = earlier before chain @ tail"
    by (cases before) (simp, metis earlier.simps(2) takeWhile_dropWhile_id)
  then obtain tail where "chain = rev (page @ rest) @ tail" using assms(2) by (metis rev_rev_ident)
  then have chain: "chain = rev rest @ last page # rev (butlast page) @ tail"
    using assms(3) by (cases page rule: rev_cases) auto
  then have "\<forall>tx \<in> set (rev rest). ct_signature tx \<noteq> ct_signature (last page)"
    using assms(1) unfolding chain by (auto simp: rev_image_eqI)
  then show ?thesis unfolding chain by (subst earlier.simps, subst takeWhile_append2) auto
qed

lemma fetch_serves:
  assumes "serves nd dd dw n chain"
  shows "fetch_signatures nd left page before = map info_of (take (1000 * min left (n - page)) (rev (earlier before chain)))"
proof (induction left arbitrary: page before)
  case (Suc left)
  let ?L = "rev (earlier before chain)"
  show ?case
  proof (cases "page < n")
    case False
    then show ?thesis using assms by (simp add: serves_def)
  next
    case True
    then have batch: "nd_signatures nd page before = Some (map info_of (take 1000 ?L))" using assms by (simp add: serves_def)
    show ?thesis
    proof (cases "length ?L < 1000")
      case True
      then show ?thesis using batch \<open>page < n\<close> by (auto simp: min_def)
    next
      case False
      let ?p = "take 1000 ?L"
      have p: "length ?p = 1000" "?p \<noteq> []" using False by auto
      have "earlier (Some (ct_signature (last ?p))) chain = rev (drop 1000 ?L)"
        by (rule earlier_page) (use assms p in \<open>auto simp: serves_def\<close>)
      then have "fetch_signatures nd left (Suc page) (Some (sg_signature (last (map info_of ?p)))) =
          map info_of (take (1000 * min left (n - Suc page)) (drop 1000 ?L))"
        using Suc.IH p by (simp add: last_map info_of_def)
      moreover have "1000 * min (Suc left) (n - page) = 1000 + 1000 * min left (n - Suc page)"
        using \<open>page < n\<close> by (auto simp: min_def)
      ultimately show ?thesis using batch p by (simp add: take_add)
    qed
  qed
qed simp

lemma rev_newest: "rev (take k (rev xs)) = drop (length xs - k) xs"
  by (simp add: take_rev)

text \<open>
  C16.  Equivalence with the chain as it happened.  Against a node that serves the chain as documented, page by page and
  newest first, hydrating a pool appends, in the order of the chain, the first deposit of every
  commitment and the first withdrawal of every nullifier that the pool does not know yet, out of the
  events emitted in the newest thousand transactions of every page the node answers, failed transactions left out; the
  counters it reports are those numbers and the number of transactions seen.
\<close>

theorem hydration_reads_the_chain:
  assumes "serves nd dd dw n chain" and "length dd = 8" "length dw = 8" "dd \<noteq> dw"
    and "idl_deposit il = Some dd" "idl_withdraw il = Some dw"
    and "window = drop (length chain - 1000 * min (case pages of None \<Rightarrow> 50 | Some p \<Rightarrow> p) n) chain"
  shows "hydrateFromChain nd il pages m =
    (\<lparr>hy_scannedSignatures = length window, hy_depositsLoaded = length (fresh_records m (happened window)),
       hy_withdrawalsLoaded = length (fresh_nullifiers m (happened window))\<rparr>,
     m\<lparr>mx_deposits := mx_deposits m @ fresh_records m (happened window),
       mx_knownNullifiers := mx_knownNullifiers m @ fresh_nullifiers m (happened window)\<rparr>)"
proof -
  let ?p = "case pages of None \<Rightarrow> 50 | Some p \<Rightarrow> p"
  have fetched: "rev (fetch_signatures nd ?p 0 None) = map info_of window"
    by (simp add: fetch_serves [OF assms(1)] rev_map rev_newest assms(7))
  have "map (events_of nd il) (map info_of window) = map (\<lambda>tx. happened [tx]) window"
    using events_of_tx [OF assms(1) _ assms(2-6)] by (auto simp: assms(7) dest: in_set_dropD)
  then have "chain_events nd il ?p = concat (map (\<lambda>tx. happened [tx]) window)"
    by (simp only: chain_events_def fetched)
  then have "chain_events nd il ?p = happened window" by (simp add: happened_def)
  moreover have "length (fetch_signatures nd ?p 0 None) = length window"
    using fetched by (metis length_map length_rev)
  ultimately show ?thesis using assms(5) by (simp add: hydrateFromChain_def Let_def fold_events)
qed

text \<open>
  A chain of three transactions, one of them failed, with one commitment deposited twice.
\<close>

definition demo_event :: "int \<Rightarrow> logged" where
  "demo_event i = Event (Deposited 3 i) []"

definition demo_chain :: "chain_tx list" where
  "demo_chain = [\<lparr>ct_signature = ''a'', ct_err = True, ct_logs = Some [demo_event 0]\<rparr>,
     \<lparr>ct_signature = ''b'', ct_err = False, ct_logs = Some [Line ''Program log: x'', demo_event 1]\<rparr>,
     \<lparr>ct_signature = ''c'', ct_err = False, ct_logs = Some [demo_event 2]\<rparr>]"

definition serving_node :: node where
  "serving_node = \<lparr>nd_signatures = (\<lambda>page before. if page < 1 then Some (map info_of (take 1000 (rev (earlier before demo_chain)))) else None),
     nd_logs = (\<lambda>sig. if sig = ''a'' then Some [''Program data: 0''] else if sig = ''b'' then Some [''Program log: x'', ''Program data: 1'']
       else Some [''Program data: 2'']),
     nd_base64 = (\<lambda>t. event_bytes (replicate 8 5) (replicate 8 7) (Deposited 3 (if t = ''0'' then 0 else if t = ''1'' then 1 else 2)))\<rparr>"

lemma serving_node_serves: "serves serving_node (replicate 8 5) (replicate 8 7) 1 demo_chain"
  by (simp add: serves_def serving_node_def demo_chain_def demo_event_def starts_with_def del: event_bytes.simps)

section \<open>The anonymity gate\<close>

fun withdrawal_answer ::
    "chain_lib \<Rightarrow> int \<Rightarrow> bytes \<Rightarrow> account \<Rightarrow> PoolStatus option \<Rightarrow> mixer \<Rightarrow> string \<Rightarrow> mixer_error + unsigned_tx \<Rightarrow> bool" where
  "withdrawal_answer cl minSet pool acct status m h (Inr tx) \<longleftrightarrow>
     (\<exists>data. acct = Inr (Some data)) \<and>
     (minSet \<le> 0 \<or> (\<exists>s. status = Some s \<and> minSet + int (length (mx_knownNullifiers m)) \<le> ps_nextLeafIndex s)) \<and>
     tx_unitLimit tx = Some 400000 \<and>
     (\<exists>v bs. bigint_of_string h = Some v \<and> be_value bs = v \<and> length bs = 32 \<and>
        (''nullifierAccount'', cl_base58 cl (cl_findProgramAddress cl [NULLIFIER_SEED, pool, bs])) \<in> set (ix_accounts (tx_instruction tx)))"
| "withdrawal_answer cl minSet pool acct status m h (Inl (AnonymitySetTooThinError current required denomination)) \<longleftrightarrow>
     required = minSet \<and> denomination = mx_denomination m \<and> 0 \<le> current \<and> current < minSet \<and>
     current = max 0 ((case status of None \<Rightarrow> 0 | Some s \<Rightarrow> ps_nextLeafIndex s) - int (length (mx_knownNullifiers m)))"
| "withdrawal_answer cl minSet pool acct status m h (Inl (PoolNotInitializedError denomination a)) \<longleftrightarrow>
     acct = Inr None \<and> denomination = mx_denomination m"
| "withdrawal_answer cl minSet pool acct status m h (Inl (SeedError e)) \<longleftrightarrow>
     (case bigint_of_string h of None \<Rightarrow> e = NotBigInt h | Some v \<Rightarrow> (v < 0 \<or> 2 ^ 256 \<le> v) \<and> e = SeedRangeError ''commitment'' v)"
| "withdrawal_answer cl minSet pool acct status m h (Inl e) \<longleftrightarrow> True"


lemma answer_bind:
  "(\<And>e. r = Inl e \<Longrightarrow> withdrawal_answer cl minSet pool acct status m h (Inl e)) \<Longrightarrow>
   (\<And>a. r = Inr a \<Longrightarrow> withdrawal_answer cl minSet pool acct status m h (f a)) \<Longrightarrow>
   withdrawal_answer cl minSet pool acct status m h (bind_res r f)"
  by (cases r) (simp_all add: bind_res_def)

lemma pool_there: "assertPoolInitialized cl pool acct m = Inr u \<longleftrightarrow> (\<exists>data. acct = Inr (Some data))"
  by (auto simp: assertPoolInitialized_def split: sum.splits option.splits)

lemma pool_missing: "assertPoolInitialized cl pool acct m = Inl e \<longleftrightarrow>
    (\<exists>x. acct = Inl x \<and> e = NodeError x) \<or> (acct = Inr None \<and> e = PoolNotInitializedError (mx_denomination m) (cl_base58 cl pool))"
  by (auto simp: assertPoolInitialized_def split: sum.splits option.splits)

lemma gate_open: "assertAnonymitySetSatisfied minSet status m = Inr u \<longleftrightarrow>
    minSet \<le> 0 \<or> (\<exists>s. status = Some s \<and> minSet + int (length (mx_knownNullifiers m)) \<le> ps_nextLeafIndex s)"
  by (cases status) (auto simp: assertAnonymitySetSatisfied_def getAnonymitySetSnapshot_def Let_def)

lemma gate_shut: "assertAnonymitySetSatisfied minSet status m = Inl e \<longleftrightarrow>
    \<not> minSet \<le> 0 \<and> sn_anonymitySet (getAnonymitySetSnapshot status m) < minSet \<and>
    e = AnonymitySetTooThinError (sn_anonymitySet (getAnonymitySetSnapshot status m)) minSet (mx_denomination m)"
  by (auto simp: assertAnonymitySetSatisfied_def Let_def)

lemma snapshot_value: "sn_anonymitySet (getAnonymitySetSnapshot status m) =
    max 0 ((case status of None \<Rightarrow> 0 | Some s \<Rightarrow> ps_nextLeafIndex s) - int (length (mx_knownNullifiers m)))"
  by (simp add: getAnonymitySetSnapshot_def Let_def)

lemma mixer_bytes32_Inr: "mixer_bytes32 v = Inr bs \<longleftrightarrow> length bs = 32 \<and> be_value bs = v"
proof -
  have "mixer_bytes32 v = Inr bs \<longleftrightarrow> bigintToBytes32 v ''commitment'' = Inr bs"
    by (simp add: mixer_bytes32_def split: sum.splits)
  also have "\<dots> \<longleftrightarrow> fits v \<and> bs = be_bytes 32 v" by (auto simp: bigintToBytes32_cases)
  finally show ?thesis
    using be_value_bounds [of bs] by (auto simp: fits_def be_value_be_bytes)
qed

lemma mixer_bytes32_Inl: "mixer_bytes32 v = Inl e \<longleftrightarrow> \<not> fits v \<and> e = SeedError (SeedRangeError ''commitment'' v)"
  by (auto simp: mixer_bytes32_def bigintToBytes32_cases)

text \<open>
  C20.  Error behaviour and safety of the build of a withdrawal.  A transaction is answered only for a pool that exists,
  whose unspent deposits (leaves less nullifiers known to be spent) reach the minimum \<open>minSet\<close>,
  and it names the nullifier account of the 32 big-endian bytes of the hash; where the status
  cannot be read the gate refuses.  The refusal for a thin set reports the true figures, and the
  range error of a nullifier names the field ''commitment''.
\<close>

theorem withdrawals_pass_the_gate:
  "withdrawal_answer cl minSet pool acct status m h (buildWithdrawTransaction cl minSet pool acct status bh m signer recipient proof inputs h)"
  unfolding buildWithdrawTransaction_def Let_def
  by (intro answer_bind; clarsimp simp: pool_there pool_missing gate_open gate_shut snapshot_value fits_def mixer_pubkey_def
      mixer_bytes32_Inr mixer_bytes32_Inl node_res_def split: option.splits sum.splits; force)

text \<open>
  Bounds: the reading of a pool without its service counts every leaf as unspent, so it never
  understates the anonymity set and overstates it by exactly the withdrawals the service knows,
  up to the floor at zero.
\<close>

fun overstates :: "mixer \<Rightarrow> PoolStatus option \<Rightarrow> PoolReading option \<Rightarrow> bool" where
  "overstates m (Some s) (Some r) \<longleftrightarrow>
     rd_nextLeafIndex r = ps_nextLeafIndex s \<and> rd_isPaused r = ps_isPaused s \<and> rd_balance r = ps_balance s \<and>
     sn_anonymitySet (getAnonymitySetSnapshot (Some s) m) =
       max 0 (rd_anonymitySet r - int (length (mx_knownNullifiers m))) \<and>
     sn_anonymitySet (getAnonymitySetSnapshot (Some s) m) \<le> rd_anonymitySet r"
| "overstates m None r \<longleftrightarrow> r = None"
| "overstates m (Some s) None \<longleftrightarrow> False"

theorem pool_reading_overestimates:
  "overstates m (getPoolStatus pda acct bal m)
     (case readPoolStatus pda (mx_denomination m) acct bal of Inl e \<Rightarrow> None | Inr r \<Rightarrow> r)"
proof (cases "\<exists>data b n. acct = Inr (Some data) \<and> bal = Inr b \<and> readUInt32LE data MIXER_POOL_NEXT_LEAF_INDEX_OFFSET = Some n")
  case True
  then obtain data b n where c: "acct = Inr (Some data)" "bal = Inr b" "readUInt32LE data MIXER_POOL_NEXT_LEAF_INDEX_OFFSET = Some n"
    by blast
  then have "0 \<le> n" using be_value_bounds by (auto simp: readUInt32LE_def split: if_splits)
  with c show ?thesis by (simp add: getPoolStatus_def readPoolStatus_def snapshot_value)
next
  case False
  then show ?thesis
    by (auto simp: getPoolStatus_def readPoolStatus_def split: option.splits sum.splits)
qed


section \<open>A respelled nullifier\<close>

definition demo_node :: node where
  "demo_node = \<lparr>nd_signatures = (\<lambda>page before. Some [\<lparr>sg_signature = ''sig'', sg_err = False\<rparr>]),
     nd_logs = (\<lambda>sig. Some [''Program log: x'', ''Program data: AA'']),
     nd_base64 = (\<lambda>text. replicate 8 7 @ replicate 31 0 @ [1])\<rparr>"

definition demo_idl :: idl where
  "demo_idl = \<lparr>idl_deposit = Some (replicate 8 5), idl_withdraw = Some (replicate 8 7)\<rparr>"

lemma demo_events: "chain_events demo_node demo_idl 50 = [(''sig'', WithdrawEvent ''1'')]"
  by code_simp

text \<open>
  Safety (a defect): the tracker counts texts, and a text comes from the client.  A withdrawal relayed
  under the spelling 01 of the nullifier 1, and then seen on the chain, is counted as two.
\<close>

theorem respelled_withdrawal_counted_twice:
  "bigint_of_string ''01'' = bigint_of_string ''1'' \<and>
   sn_anonymitySet (getAnonymitySetSnapshot (Some s) (snd (hydrateFromChain demo_node demo_idl None (recordWithdrawal ''01'' (new_mixer d))))) =
     max 0 (ps_nextLeafIndex s - 2) \<and>
   sn_anonymitySet (getAnonymitySetSnapshot (Some s) (snd (hydrateFromChain demo_node demo_idl None (recordWithdrawal ''1'' (new_mixer d))))) =
     max 0 (ps_nextLeafIndex s - 1)"
proof -
  have "bigint_of_string ''01'' = bigint_of_string ''1''" by code_simp
  moreover have "idl_deposit demo_idl = Some (replicate 8 5)" by (simp only: demo_idl_def idl.simps)
  ultimately show ?thesis
    by (simp add: hydrateFromChain_def demo_events snapshot_value recordWithdrawal_def add_nullifier_def new_mixer_def)
qed

text \<open>The first deposit of the commitment is the one recorded.\<close>

theorem hydration_reads_the_chain_witness:
  "hydrateFromChain serving_node demo_idl None (new_mixer 100) =
    (\<lparr>hy_scannedSignatures = 3, hy_depositsLoaded = 1, hy_withdrawalsLoaded = 0\<rparr>,
     (new_mixer 100)\<lparr>mx_deposits := [\<lparr>dp_commitment = string_of_bigint 3, dp_leafIndex = 1, dp_txSignature = ''b''\<rparr>]\<rparr>)"
proof -
  have "drop (length demo_chain - 1000 * min (case None of None \<Rightarrow> 50 | Some p \<Rightarrow> p) 1) demo_chain = demo_chain"
    by (simp add: demo_chain_def)
  then show ?thesis
    using hydration_reads_the_chain [OF serving_node_serves, where il = demo_idl and pages = None and m = "new_mixer 100" and window = demo_chain]
    by (simp add: demo_idl_def) (simp add: demo_chain_def demo_event_def happened_def fresh_records_def fresh_nullifiers_def List.map_filter_simps
        has_deposit_def new_mixer_def)
qed

end
