(* ===== verification/RelayerHttp.thy ===== *)
theory RelayerHttp imports RelayerProperties MixerProperties begin

text \<open>
  relayer.registry.ts, relayer.controller.ts and the withdrawal and health routes of
  relayer.routes.ts: one relayer per denomination behind one set of routes, with the
  anonymity-set tracker of the mixer registry wired in by the two hooks.
\<close>

section \<open>The registry\<close>

record MixerRelayerConfig =
  mc_denominations :: "int list option"
  mc_poolDenomination :: int
  mc_minFeeLamports :: int
  mc_privacyDelayMs :: int

record RelayerInfo =
  ri_relayerPubkey :: string
  ri_feeLamports :: string
  ri_denominationLamports :: string
  ri_mixerPoolAddress :: string

record relayer_entry =
  en_service :: relayer
  en_info :: RelayerInfo

record RelayerInfoBundle =
  ib_relayerPubkey :: string
  ib_feeLamports :: string
  ib_denominationLamports :: string
  ib_mixerPoolAddress :: string
  ib_pools :: "(string \<times> string) list"

datatype registry_failure =
    NoDenominations
  | PoolSeed pack_error
  | HotWalletDiverged string string

text \<open>
  The client of a denomination: the address of the hot wallet it loaded, and its pool.
\<close>

record client_lib =
  cb_hotWallet :: "int \<Rightarrow> string"
  cb_poolPDA :: "int \<Rightarrow> pack_error + string"

record relayer_registry =
  rr_denominations :: "int list"
  rr_entries :: "string \<rightharpoonup> relayer_entry"
  rr_infoBundle :: RelayerInfoBundle

definition relayer_of :: "MixerRelayerConfig \<Rightarrow> bool \<Rightarrow> string \<Rightarrow> string \<Rightarrow> int \<Rightarrow> relayer" where
  "relayer_of cfg prisma pubkey pool denomination =
     \<lparr>rl_config = \<lparr>rc_minFeeLamports = mc_minFeeLamports cfg, rc_poolDenomination = denomination,
        rc_privacyDelayMs = Some (mc_privacyDelayMs cfg)\<rparr>,
      rl_hotWallet = Some pubkey, rl_poolPDA = pool, rl_rootSeenRepo = prisma, rl_slotProvider = False\<rparr>"

text \<open>\<open>firstPubkey\<close> and \<open>firstPoolAddress\<close> are set while they are empty.\<close>

record registry_build =
  rg_entries :: "string \<rightharpoonup> relayer_entry"
  rg_firstPool :: string
  rg_firstPubkey :: string

definition add_entry ::
    "client_lib \<Rightarrow> MixerRelayerConfig \<Rightarrow> bool \<Rightarrow> int \<Rightarrow> registry_build \<Rightarrow> registry_failure + registry_build" where
  "add_entry cb cfg prisma denomination b =
     bind_res (case cb_poolPDA cb denomination of Inl e \<Rightarrow> Inl (PoolSeed e) | Inr p \<Rightarrow> Inr p) (\<lambda>pool.
     let pubkey = cb_hotWallet cb denomination;
         firstPubkey = (if rg_firstPubkey b = [] then pubkey else rg_firstPubkey b) in
     if firstPubkey \<noteq> [] \<and> firstPubkey \<noteq> pubkey then Inl (HotWalletDiverged pubkey firstPubkey)
     else
       let info = \<lparr>ri_relayerPubkey = pubkey, ri_feeLamports = string_of_bigint (mc_minFeeLamports cfg),
             ri_denominationLamports = string_of_bigint denomination, ri_mixerPoolAddress = pool\<rparr> in
       Inr \<lparr>rg_entries = (rg_entries b)(string_of_bigint denomination \<mapsto>
               \<lparr>en_service = relayer_of cfg prisma pubkey pool denomination, en_info = info\<rparr>),
            rg_firstPool = (if rg_firstPool b = [] then pool else rg_firstPool b),
            rg_firstPubkey = firstPubkey\<rparr>)"

fun add_entries ::
    "client_lib \<Rightarrow> MixerRelayerConfig \<Rightarrow> bool \<Rightarrow> int list \<Rightarrow> registry_build \<Rightarrow> registry_failure + registry_build" where
  "add_entries cb cfg prisma [] b = Inr b"
| "add_entries cb cfg prisma (d # ds) b = bind_res (add_entry cb cfg prisma d b) (add_entries cb cfg prisma ds)"

definition relayer_denominations :: "MixerRelayerConfig \<Rightarrow> int list" where
  "relayer_denominations cfg = (case mc_denominations cfg of None \<Rightarrow> [mc_poolDenomination cfg] | Some ds \<Rightarrow> ds)"

definition create_registry ::
    "client_lib \<Rightarrow> MixerRelayerConfig \<Rightarrow> bool \<Rightarrow> registry_failure + relayer_registry" where
  "create_registry cb cfg prisma =
     (let denominations = relayer_denominations cfg in
      if denominations = [] then Inl NoDenominations
      else
        bind_res (add_entries cb cfg prisma denominations \<lparr>rg_entries = Map.empty, rg_firstPool = [], rg_firstPubkey = []\<rparr>) (\<lambda>b.
        Inr \<lparr>rr_denominations = denominations, rr_entries = rg_entries b,
          rr_infoBundle = \<lparr>ib_relayerPubkey = rg_firstPubkey b, ib_feeLamports = string_of_bigint (mc_minFeeLamports cfg),
            ib_denominationLamports = string_of_bigint (hd denominations), ib_mixerPoolAddress = rg_firstPool b,
            ib_pools = map (\<lambda>d. (string_of_bigint d,
              ri_mixerPoolAddress (en_info (the (rg_entries b (string_of_bigint d)))))) denominations\<rparr>\<rparr>))"

definition entry_get :: "relayer_registry \<Rightarrow> int \<Rightarrow> registry_error + relayer_entry" where
  "entry_get reg denomination =
     (case rr_entries reg (string_of_bigint denomination) of
        None \<Rightarrow> Inl (UnknownDenominationError denomination (rr_denominations reg))
      | Some e \<Rightarrow> Inr e)"

definition entry_list :: "relayer_registry \<Rightarrow> relayer_entry option list" where
  "entry_list reg = map (\<lambda>d. rr_entries reg (string_of_bigint d)) (rr_denominations reg)"

section \<open>Requests\<close>

text \<open>
  A body as parsed: a field is absent (undefined or null), of the type the interface declares, or
  of another type.  The text in \<open>Mistyped\<close> is its \<open>String(value)\<close>.
\<close>

datatype 'a field = Absent | Typed 'a | Mistyped string

record WithdrawBody =
  wb_proof :: "Groth16Proof field"
  wb_publicSignals :: "string list field"
  wb_root :: "string field"
  wb_nullifierHash :: "string field"
  wb_recipient :: "string field"
  wb_fee :: "string field"
  wb_denomination :: raw_value

definition body_denomination :: "WithdrawBody option \<Rightarrow> raw_value" where
  "body_denomination body = (case body of None \<Rightarrow> RawMissing | Some b \<Rightarrow> wb_denomination b)"

definition resolveEntry :: "relayer_registry \<Rightarrow> raw_value \<Rightarrow> registry_error + relayer_entry" where
  "resolveEntry reg raw =
     bind_res (parseDenomination raw) (\<lambda>denomination.
     entry_get reg (case denomination of None \<Rightarrow> hd (rr_denominations reg) | Some d \<Rightarrow> d))"

fun typed :: "'a field \<Rightarrow> 'a option" where
  "typed (Typed a) = Some a"
| "typed f = None"

text \<open>The refusal, or the request the handler passes on.\<close>

definition validateWithdrawBody ::
    "verifier \<Rightarrow> RelayerInfo \<Rightarrow> WithdrawBody option \<Rightarrow> string + WithdrawRequest" where
  "validateWithdrawBody vf info body =
     (case body of
        None \<Rightarrow> Inl ''Body must be an object.''
      | Some b \<Rightarrow>
          (case typed (wb_proof b) of None \<Rightarrow> Inl ''proof is required.'' | Some proof \<Rightarrow>
          (case typed (wb_publicSignals b) of None \<Rightarrow> Inl ''publicSignals must be an array of 5 field elements.'' | Some signals \<Rightarrow>
           if length signals \<noteq> 5 then Inl ''publicSignals must be an array of 5 field elements.'' else
          (case typed (wb_root b) of None \<Rightarrow> Inl ''root is required.'' | Some rt \<Rightarrow>
          (case typed (wb_nullifierHash b) of None \<Rightarrow> Inl ''nullifierHash is required.'' | Some nullifier \<Rightarrow>
          (case typed (wb_recipient b) of None \<Rightarrow> Inl ''recipient is required.'' | Some recipient \<Rightarrow>
          (case typed (wb_fee b) of None \<Rightarrow> Inl ''fee is required.'' | Some fee \<Rightarrow>
           if vf_PublicKey vf recipient = None then Inl ''recipient is not a valid Solana address.''
           else if fee \<noteq> ri_feeLamports info
             then Inl (''fee must equal advertised relayer fee ('' @ ri_feeLamports info @ '').'')
           else Inr \<lparr>wr_proof = proof, wr_publicSignals = signals, wr_root = rt, wr_nullifierHash = nullifier,
             wr_recipient = recipient, wr_relayer = ri_relayerPubkey info, wr_fee = fee\<rparr>)))))))"

fun absent :: "'a field \<Rightarrow> bool" where
  "absent Absent = True"
| "absent f = False"

text \<open>
  The check of the dry-run route: the first missing field, then the recipient.  A value that is
  not text is passed to \<open>PublicKey\<close> as it is.
\<close>

definition parseWithdrawBody ::
    "verifier \<Rightarrow> (string \<Rightarrow> bool) \<Rightarrow> WithdrawBody option \<Rightarrow> string + WithdrawBody" where
  "parseWithdrawBody vf otherKeyOk body =
     (case body of
        None \<Rightarrow> Inl ''Body must be a JSON object.''
      | Some b \<Rightarrow>
          if absent (wb_proof b) then Inl ''Missing required field: proof''
          else if absent (wb_publicSignals b) then Inl ''Missing required field: publicSignals''
          else if absent (wb_root b) then Inl ''Missing required field: root''
          else if absent (wb_nullifierHash b) then Inl ''Missing required field: nullifierHash''
          else if absent (wb_recipient b) then Inl ''Missing required field: recipient''
          else if absent (wb_fee b) then Inl ''Missing required field: fee''
          else if (case wb_recipient b of Typed r \<Rightarrow> vf_PublicKey vf r \<noteq> None | Mistyped r \<Rightarrow> otherKeyOk r | Absent \<Rightarrow> False)
            then Inr b
            else Inl ''recipient must be a valid base58 pubkey'')"

section \<open>The withdrawal route\<close>

text \<open>
  The process: the worlds of the pools, whose \<open>rw_roots\<close> is the one shared table \<open>ap_roots\<close>
  while a request runs, and the mixer registry when the mixer routes share theirs.
\<close>

record relayer_api =
  ap_registry :: relayer_registry
  ap_worlds :: "string \<Rightarrow> rworld"
  ap_roots :: "string \<rightharpoonup> int"
  ap_mixers :: "mixer_registry option"

text \<open>
  What a request meets outside: the calls of the pipeline, the on-chain status of the pools, and
  the outcomes of the flights it may join.
\<close>

record relayer_outside =
  ro_env :: renv
  ro_verifier :: verifier
  ro_minSet :: int
  ro_status :: "int \<Rightarrow> PoolStatus option"
  ro_flight :: "nat \<Rightarrow> rexn + WithdrawResult"

datatype relayer_body =
    RefusedEntry registry_error
  | RefusedBody string
  | TooThin mixer_error
  | UnexpectedError
  | Answer WithdrawResult
  | Failed rexn

definition preSubmit :: "relayer_outside \<Rightarrow> relayer_api \<Rightarrow> relayer_entry \<Rightarrow> (nat \<times> relayer_body) option" where
  "preSubmit ro api e =
     (case ap_mixers api of
        None \<Rightarrow> None
      | Some mixers \<Rightarrow>
          (case bigint_of_string (ri_denominationLamports (en_info e)) of
             None \<Rightarrow> Some (500, UnexpectedError)
           | Some denom \<Rightarrow>
               (case registry_get mixers denom of
                  Inl _ \<Rightarrow> Some (500, UnexpectedError)
                | Inr m \<Rightarrow>
                    (case assertAnonymitySetSatisfied (ro_minSet ro) (ro_status ro denom) m of
                       Inl thin \<Rightarrow> Some (400, TooThin thin)
                     | Inr _ \<Rightarrow> None))))"

text \<open>An error of the book-keeping is swallowed.\<close>

definition postCommit :: "relayer_entry \<Rightarrow> string \<Rightarrow> relayer_api \<Rightarrow> relayer_api" where
  "postCommit e nullifierHash api =
     (case ap_mixers api of
        None \<Rightarrow> api
      | Some mixers \<Rightarrow>
          (case bigint_of_string (ri_denominationLamports (en_info e)) of
             None \<Rightarrow> api
           | Some denom \<Rightarrow>
               (case registry_get mixers denom of
                  Inl _ \<Rightarrow> api
                | Inr m \<Rightarrow>
                    api\<lparr>ap_mixers := Some (mixers\<lparr>mr_services :=
                      (mr_services mixers)(string_of_bigint denom \<mapsto> recordWithdrawal nullifierHash m)\<rparr>)\<rparr>)))"

definition settle :: "relayer_outside \<Rightarrow> rexn + outcome \<Rightarrow> rexn + WithdrawResult" where
  "settle ro r = (case r of Inl e \<Rightarrow> Inl e | Inr (Own res) \<Rightarrow> Inr res | Inr (SharesFlight k) \<Rightarrow> ro_flight ro k)"

definition run_withdrawal ::
    "relayer_outside \<Rightarrow> relayer_entry \<Rightarrow> WithdrawRequest \<Rightarrow> relayer_api \<Rightarrow> (rexn + WithdrawResult) \<times> relayer_api" where
  "run_withdrawal ro e req api =
     (let key = ri_denominationLamports (en_info e);
          (r, w) = run (rhandle (ro_env ro) (ro_verifier ro)) (processWithdrawal (en_service e) (ro_verifier ro) req)
                     ((ap_worlds api key)\<lparr>rw_roots := ap_roots api\<rparr>)
      in (settle ro r, api\<lparr>ap_worlds := (ap_worlds api)(key := w), ap_roots := rw_roots w\<rparr>))"

definition relayer_withdraw ::
    "relayer_outside \<Rightarrow> WithdrawBody option \<Rightarrow> relayer_api \<Rightarrow> (nat \<times> relayer_body) \<times> relayer_api" where
  "relayer_withdraw ro body api =
     (case resolveEntry (ap_registry api) (body_denomination body) of
        Inl refusal \<Rightarrow> ((400, RefusedEntry refusal), api)
      | Inr e \<Rightarrow>
          (case validateWithdrawBody (ro_verifier ro) (en_info e) body of
             Inl validation \<Rightarrow> ((400, RefusedBody validation), api)
           | Inr req \<Rightarrow>
               (case preSubmit ro api e of
                  Some reply \<Rightarrow> (reply, api)
                | None \<Rightarrow>
                    (case run_withdrawal ro e req api of
                       (Inl err, api') \<Rightarrow> ((400, Failed err), api')
                     | (Inr res, api') \<Rightarrow>
                         if re_success res then ((200, Answer res), postCommit e (wr_nullifierHash req) api')
                         else ((400, Answer res), api')))))"

section \<open>Health of all pools\<close>

text \<open>\<open>Promise.all\<close> over the entries: \<open>None\<close> when one of the probes throws.\<close>

definition health_report :: "(rexn + RelayerHealth) list \<Rightarrow> (nat \<times> bool \<times> RelayerHealth list) option" where
  "health_report answers =
     (if list_all (\<lambda>a. case a of Inl e \<Rightarrow> False | Inr h \<Rightarrow> True) answers
      then let perPool = List.map_filter (\<lambda>a. case a of Inl e \<Rightarrow> None | Inr h \<Rightarrow> Some h) answers;
               overall = list_all he_healthy perPool
           in Some (if overall then 200 else 503, overall, perPool)
      else None)"

definition relayer_health_route :: "relayer_outside \<Rightarrow> relayer_api \<Rightarrow> (nat \<times> bool \<times> RelayerHealth list) option" where
  "relayer_health_route ro api =
     health_report (map (\<lambda>e. fst (run (rhandle (ro_env ro) (ro_verifier ro)) (relayer_health (en_service e))
        (ap_worlds api (ri_denominationLamports (en_info e))))) (List.map_filter id (entry_list (ap_registry api))))"


section \<open>Every entry is the relayer of its denomination\<close>

definition entry_ok :: "MixerRelayerConfig \<Rightarrow> string \<Rightarrow> relayer_entry \<Rightarrow> bool" where
  "entry_ok cfg key e \<longleftrightarrow>
     (\<exists>d. key = string_of_bigint d \<and> d \<in> set (relayer_denominations cfg) \<and>
        rl_hotWallet (en_service e) = Some (ri_relayerPubkey (en_info e)) \<and>
        rc_minFeeLamports (rl_config (en_service e)) = mc_minFeeLamports cfg \<and>
        rc_poolDenomination (rl_config (en_service e)) = d \<and>
        rl_poolPDA (en_service e) = ri_mixerPoolAddress (en_info e) \<and>
        ri_feeLamports (en_info e) = string_of_bigint (mc_minFeeLamports cfg) \<and>
        ri_denominationLamports (en_info e) = key)"

text \<open>While the entries are built, those so far share the first hot wallet.\<close>

definition build_ok :: "MixerRelayerConfig \<Rightarrow> int set \<Rightarrow> registry_build \<Rightarrow> bool" where
  "build_ok cfg ds b \<longleftrightarrow>
     dom (rg_entries b) = string_of_bigint ` ds \<and>
     (\<forall>key e. rg_entries b key = Some e \<longrightarrow>
        entry_ok cfg key e \<and> (ri_relayerPubkey (en_info e) = rg_firstPubkey b \<or> ri_relayerPubkey (en_info e) = []))"

lemma add_entry_ok:
  assumes "build_ok cfg ds b" "d \<in> set (relayer_denominations cfg)" "add_entry cb cfg prisma d b = Inr b'"
  shows "build_ok cfg (insert d ds) b'"
proof -
  obtain pool where pool: "cb_poolPDA cb d = Inr pool"
    using assms(3) by (cases "cb_poolPDA cb d") (auto simp: add_entry_def bind_res_def)
  define e where "e = \<lparr>en_service = relayer_of cfg prisma (cb_hotWallet cb d) pool d,
    en_info = \<lparr>ri_relayerPubkey = cb_hotWallet cb d, ri_feeLamports = string_of_bigint (mc_minFeeLamports cfg),
             ri_denominationLamports = string_of_bigint d, ri_mixerPoolAddress = pool\<rparr>\<rparr>"
  have b': "rg_entries b' = (rg_entries b)(string_of_bigint d \<mapsto> e)"
    "rg_firstPubkey b' = (if rg_firstPubkey b = [] then cb_hotWallet cb d else rg_firstPubkey b)"
    "rg_firstPubkey b' = [] \<or> rg_firstPubkey b' = cb_hotWallet cb d"
    using assms(3) by (auto simp: add_entry_def bind_res_def pool e_def Let_def split: if_splits)
  have "entry_ok cfg (string_of_bigint d) e" using assms(2) by (auto simp: entry_ok_def e_def relayer_of_def)
  moreover have "ri_relayerPubkey (en_info e) = rg_firstPubkey b'" using b'(2,3) by (auto simp: e_def split: if_splits)
  ultimately show ?thesis
    using assms(1) b'(1,2) unfolding build_ok_def by (auto split: if_splits)
qed

lemma add_entries_ok:
  "build_ok cfg ds b \<Longrightarrow> set xs \<subseteq> set (relayer_denominations cfg) \<Longrightarrow> add_entries cb cfg prisma xs b = Inr b' \<Longrightarrow>
   build_ok cfg (ds \<union> set xs) b'"
proof (induction xs arbitrary: b ds)
  case (Cons x xs)
  obtain b1 where b1: "add_entry cb cfg prisma x b = Inr b1" "add_entries cb cfg prisma xs b1 = Inr b'"
    using Cons.prems(3) by (auto simp: bind_res_def split: sum.splits)
  show ?case using Cons.IH [OF add_entry_ok [OF Cons.prems(1) _ b1(1)] _ b1(2)] Cons.prems(2) by simp
qed simp

definition registry_sound :: "MixerRelayerConfig \<Rightarrow> relayer_registry \<Rightarrow> bool" where
  "registry_sound cfg reg \<longleftrightarrow>
     rr_denominations reg = relayer_denominations cfg \<and> rr_denominations reg \<noteq> [] \<and>
     dom (rr_entries reg) = string_of_bigint ` set (rr_denominations reg) \<and>
     (\<forall>key e. rr_entries reg key = Some e \<longrightarrow>
        entry_ok cfg key e \<and>
        (ri_relayerPubkey (en_info e) = ib_relayerPubkey (rr_infoBundle reg) \<or> ri_relayerPubkey (en_info e) = []))"

lemma create_registry_sound: "create_registry cb cfg prisma = Inr reg \<Longrightarrow> registry_sound cfg reg"
  using add_entries_ok [of cfg "{}" "\<lparr>rg_entries = Map.empty, rg_firstPool = [], rg_firstPubkey = []\<rparr>" "relayer_denominations cfg" cb prisma]
  by (fastforce simp: create_registry_def Let_def bind_res_def registry_sound_def build_ok_def split: if_splits sum.splits)

lemma resolveEntry_ok:
  assumes "registry_sound cfg reg" "resolveEntry reg raw = Inr e"
  shows "entry_ok cfg (ri_denominationLamports (en_info e)) e"
proof -
  obtain d where "rr_entries reg (string_of_bigint d) = Some e"
    using assms(2) by (auto simp: resolveEntry_def bind_res_def entry_get_def split: sum.splits option.splits)
  then have "entry_ok cfg (string_of_bigint d) e" using assms(1) by (auto simp: registry_sound_def)
  then show ?thesis by (auto simp: entry_ok_def)
qed

section \<open>What the withdrawal route answers\<close>

lemma validated_request:
  assumes "validateWithdrawBody vf info body = Inr req"
  shows "wr_fee req = ri_feeLamports info" "wr_relayer req = ri_relayerPubkey info"
    "length (wr_publicSignals req) = 5" "vf_PublicKey vf (wr_recipient req) \<noteq> None"
  using assms by (auto simp: validateWithdrawBody_def split: option.splits if_splits)

text \<open>The advertised fee and wallet are those the service demands: its guard refuses nothing more.\<close>

lemma validated_passes_guard:
  assumes "entry_ok cfg key e" "validateWithdrawBody vf (en_info e) body = Inr req"
  shows "guardRequest (en_service e) req = None"
  using assms(1) validated_request [OF assms(2)] by (auto simp: entry_ok_def guardRequest_def)

definition gate_passed :: "relayer_outside \<Rightarrow> relayer_api \<Rightarrow> int \<Rightarrow> bool" where
  "gate_passed ro api d \<longleftrightarrow>
     (\<forall>mixers. ap_mixers api = Some mixers \<longrightarrow>
        (\<exists>m. registry_get mixers d = Inr m \<and>
           (ro_minSet ro \<le> 0 \<or>
            (\<exists>s. ro_status ro d = Some s \<and> ro_minSet ro + int (length (mx_knownNullifiers m)) \<le> ps_nextLeafIndex s))))"

lemma preSubmit_gate:
  assumes "preSubmit ro api e = None" "ri_denominationLamports (en_info e) = string_of_bigint d"
  shows "gate_passed ro api d"
proof -
  have "\<exists>m. registry_get mixers d = Inr m \<and>
      (ro_minSet ro \<le> 0 \<or> (\<exists>s. ro_status ro d = Some s \<and> ro_minSet ro + int (length (mx_knownNullifiers m)) \<le> ps_nextLeafIndex s))"
    if "ap_mixers api = Some mixers" for mixers
    using assms that gate_open [of "ro_minSet ro" "ro_status ro d"]
    by (auto simp: preSubmit_def split: sum.splits)
  then show ?thesis by (simp add: gate_passed_def)
qed

text \<open>The tracker of a pool after a success.\<close>

definition tracked :: "relayer_api \<Rightarrow> int \<Rightarrow> string \<Rightarrow> bool" where
  "tracked api d h \<longleftrightarrow>
     (\<forall>mixers. ap_mixers api = Some mixers \<longrightarrow> (\<exists>m. registry_get mixers d = Inr m \<and> h \<in> set (mx_knownNullifiers m)))"

definition with_roots :: "relayer_api \<Rightarrow> string \<Rightarrow> rworld" where
  "with_roots api key = (ap_worlds api key)\<lparr>rw_roots := ap_roots api\<rparr>"

definition pipeline_ran ::
    "relayer_outside \<Rightarrow> WithdrawBody option \<Rightarrow> relayer_api \<Rightarrow> relayer_entry \<Rightarrow> WithdrawRequest \<Rightarrow> int \<Rightarrow> rexn + outcome \<Rightarrow> relayer_api \<Rightarrow> bool" where
  "pipeline_ran ro body api e req d x api' \<longleftrightarrow>
     resolveEntry (ap_registry api) (body_denomination body) = Inr e \<and>
     validateWithdrawBody (ro_verifier ro) (en_info e) body = Inr req \<and>
     guardRequest (en_service e) req = None \<and>
     rc_poolDenomination (rl_config (en_service e)) = d \<and> gate_passed ro api d \<and>
     accounted (en_service e) req (with_roots api (string_of_bigint d)) x (ap_worlds api' (string_of_bigint d)) \<and>
     ap_worlds api' = (ap_worlds api)(string_of_bigint d := ap_worlds api' (string_of_bigint d)) \<and>
     ap_roots api \<subseteq>\<^sub>m ap_roots api'"

fun route_answer :: "relayer_outside \<Rightarrow> WithdrawBody option \<Rightarrow> relayer_api \<Rightarrow> (nat \<times> relayer_body) \<times> relayer_api \<Rightarrow> bool" where
  "route_answer ro body api ((code, Answer res), api') \<longleftrightarrow>
     code = (if re_success res then 200 else 400) \<and>
     (\<exists>e req d x. pipeline_ran ro body api e req d x api' \<and> settle ro x = Inr res \<and>
        (if re_success res then tracked api' d (wr_nullifierHash req) else ap_mixers api' = ap_mixers api))"
| "route_answer ro body api ((code, Failed err), api') \<longleftrightarrow>
     code = 400 \<and> ap_mixers api' = ap_mixers api \<and>
     (\<exists>e req d x. pipeline_ran ro body api e req d x api' \<and> settle ro x = Inl err)"
| "route_answer ro body api ((code, UnexpectedError), api') \<longleftrightarrow> code = 500 \<and> api' = api"
| "route_answer ro body api ((code, b), api') \<longleftrightarrow> code = 400 \<and> api' = api"

lemma map_le_with_roots:
  "ap_roots api \<subseteq>\<^sub>m rw_roots (snd (run (rhandle env vf) p (with_roots api key)))"
proof -
  have "rw_roots (with_roots api key) = ap_roots api" by (simp add: with_roots_def)
  then show ?thesis by (metis roots_grow)
qed

lemma run_withdrawal_ran:
  assumes "resolveEntry (ap_registry api) (body_denomination body) = Inr e"
    and "validateWithdrawBody (ro_verifier ro) (en_info e) body = Inr req"
    and "entry_ok cfg (string_of_bigint d) e" "ri_denominationLamports (en_info e) = string_of_bigint d"
    and "rc_poolDenomination (rl_config (en_service e)) = d"
    and "preSubmit ro api e = None"
    and "run_withdrawal ro e req api = (r, api')"
  obtains x where "pipeline_ran ro body api e req d x api'" "settle ro x = r" "ap_mixers api' = ap_mixers api"
proof -
  obtain x w where x: "run (rhandle (ro_env ro) (ro_verifier ro)) (processWithdrawal (en_service e) (ro_verifier ro) req)
      (with_roots api (string_of_bigint d)) = (x, w)" by (metis surj_pair)
  then have r: "settle ro x = r" "api' = api\<lparr>ap_worlds := (ap_worlds api)(string_of_bigint d := w), ap_roots := rw_roots w\<rparr>"
    using assms(4,7) by (auto simp: run_withdrawal_def Let_def with_roots_def)
  have "accounted (en_service e) req (with_roots api (string_of_bigint d)) x w"
    using wp_processWithdrawal [of "ro_env ro" "ro_verifier ro" "en_service e" req "with_roots api (string_of_bigint d)"]
    by (simp add: wp_def x)
  moreover have "ap_roots api \<subseteq>\<^sub>m rw_roots w"
    using map_le_with_roots [of api "ro_env ro" "ro_verifier ro" "processWithdrawal (en_service e) (ro_verifier ro) req"] x by (metis snd_conv)
  ultimately have "pipeline_ran ro body api e req d x api'"
    using assms(1,2,5) validated_passes_guard [OF assms(3,2)] preSubmit_gate [OF assms(6,4)] r(2)
    by (simp add: pipeline_ran_def)
  with r that show thesis by simp
qed

lemma postCommit_tracked:
  assumes "ri_denominationLamports (en_info e) = string_of_bigint d" "gate_passed ro api0 d" "ap_mixers api = ap_mixers api0"
  shows "tracked (postCommit e h api) d h" "ap_worlds (postCommit e h api) = ap_worlds api" "ap_roots (postCommit e h api) = ap_roots api"
  using assms
  by (auto simp: postCommit_def tracked_def gate_passed_def registry_get_def recordWithdrawal_def add_nullifier_def
      split: option.splits sum.splits)

lemma preSubmit_refusal:
  "preSubmit ro api e = Some reply \<Longrightarrow> (\<exists>thin. reply = (400, TooThin thin)) \<or> reply = (500, UnexpectedError)"
  by (auto simp: preSubmit_def split: option.splits sum.splits)

lemma pipeline_ran_cong:
  "pipeline_ran ro body api e req d x api1 \<Longrightarrow> ap_worlds api2 = ap_worlds api1 \<Longrightarrow> ap_roots api2 = ap_roots api1 \<Longrightarrow>
   pipeline_ran ro body api e req d x api2"
  by (simp add: pipeline_ran_def)

text \<open>
  C11.  Functional and safety of the withdrawal route of a registry the code can create.  A refusal leaves
  the process as it was.  When the pipeline runs, the body was valid, its fee and relayer are the
  advertised ones so that the guard of the service passes, the anonymity gate of that pool held,
  only that pool was touched, the answer accounts for the payment, and a success, and nothing
  else, is answered with 200 and leaves the nullifier in the tracker of the pool.
\<close>

theorem withdrawal_route_accounts:
  "case create_registry cb cfg prisma of
     Inl err \<Rightarrow> (err = NoDenominations) = (relayer_denominations cfg = [])
   | Inr reg \<Rightarrow> registry_sound cfg reg \<and>
       route_answer ro body (api\<lparr>ap_registry := reg\<rparr>) (relayer_withdraw ro body (api\<lparr>ap_registry := reg\<rparr>))"
proof (cases "create_registry cb cfg prisma")
  case (Inl err)
  moreover have "add_entries cb cfg prisma xs b \<noteq> Inl NoDenominations" for xs b
    by (induction xs arbitrary: b) (auto simp: add_entry_def bind_res_def Let_def split: sum.splits if_splits)
  ultimately show ?thesis by (auto simp: create_registry_def Let_def bind_res_def split: if_splits sum.splits)
next
  case (Inr reg)
  note sound = create_registry_sound [OF Inr]
  let ?api = "api\<lparr>ap_registry := reg\<rparr>"
  have "route_answer ro body ?api (relayer_withdraw ro body ?api)"
  proof (cases "resolveEntry reg (body_denomination body)")
    case (Inl refusal)
    then show ?thesis by (simp add: relayer_withdraw_def)
  next
    case entry: (Inr e)
    obtain d where d: "entry_ok cfg (string_of_bigint d) e" "ri_denominationLamports (en_info e) = string_of_bigint d"
      "rc_poolDenomination (rl_config (en_service e)) = d"
      using resolveEntry_ok [OF sound entry] by (auto simp: entry_ok_def)
    show ?thesis
    proof (cases "validateWithdrawBody (ro_verifier ro) (en_info e) body")
      case (Inl v)
      then show ?thesis by (simp add: relayer_withdraw_def entry)
    next
      case req: (Inr req)
      show ?thesis
      proof (cases "preSubmit ro ?api e")
        case (Some reply)
        then show ?thesis using preSubmit_refusal [OF Some] by (auto simp: relayer_withdraw_def entry req)
      next
        case None
        obtain r api' where r: "run_withdrawal ro e req ?api = (r, api')" by (metis surj_pair)
        have e: "resolveEntry (ap_registry ?api) (body_denomination body) = Inr e" using entry by simp
        obtain x where x: "pipeline_ran ro body ?api e req d x api'" "settle ro x = r" "ap_mixers api' = ap_mixers ?api"
          using run_withdrawal_ran [OF e req d None r] by blast
        have g: "gate_passed ro ?api d" using x(1) by (simp add: pipeline_ran_def)
        note post = postCommit_tracked [OF d(2) g x(3), of "wr_nullifierHash req"]
        show ?thesis
        proof (cases r)
          case (Inl err)
          then show ?thesis using x by (auto simp: relayer_withdraw_def entry req None r)
        next
          case (Inr res)
          then show ?thesis using x post pipeline_ran_cong [OF x(1) post(2,3)]
            by (auto simp: relayer_withdraw_def entry req None r)
        qed
      qed
    qed
  qed
  with Inr sound show ?thesis by simp
qed

end
