(* ===== verification/MixerController.thy ===== *)
theory MixerController imports MixerProperties begin

text \<open>
  mixer.controller.ts with the pools it serves: every handler as a function of the request, of
  what the node answers and of the services of the registry, to a reply and the new services.
  Bodies are taken as parsed, with the fields the handlers destructure; a thrown error is a 500.
\<close>

section \<open>Replies\<close>

record PoolDetails =
  pd_denomination :: string
  pd_poolAddress :: string
  pd_anonymitySet :: int
  pd_anonymitySetMin :: int
  pd_depositCount :: int
  pd_withdrawalCount :: nat
  pd_isPaused :: bool
  pd_balanceLamports :: string
  pd_nextLeafIndex :: int

datatype PoolEntry = Uninitialized string | Initialized PoolDetails

record PoolsPayload =
  pp_pools :: "PoolEntry list"
  pp_anonymitySetMin :: int

datatype mixer_body =
    StatusBody PoolStatus
  | PoolsBody PoolsPayload
  | TransactionBody unsigned_tx
  | InitializeBody unsigned_tx string
  | DepositsBody "PublicDepositRecord list"
  | OkBody
  | RegistryRefusal registry_error
  | BuildRefusal mixer_error
  | BadNumber string
  | MessageBody string
  | Thrown mixer_error

type_synonym mixer_reply = "nat \<times> mixer_body"

text \<open>
  What the outside answers while a request runs: the account and the balance of a pool, and the
  latest blockhash.
\<close>

record mixer_world =
  mw_lib :: chain_lib
  mw_minSet :: int
  mw_pool :: "int \<Rightarrow> bytes"
  mw_account :: "int \<Rightarrow> account"
  mw_balance :: "int \<Rightarrow> string + int"
  mw_blockhash :: "string + string"

definition pool_address :: "mixer_world \<Rightarrow> int \<Rightarrow> string" where
  "pool_address mw denomination = cl_base58 (mw_lib mw) (mw_pool mw denomination)"

definition pool_status :: "mixer_world \<Rightarrow> mixer \<Rightarrow> PoolStatus option" where
  "pool_status mw m =
     getPoolStatus (pool_address mw (mx_denomination m)) (mw_account mw (mx_denomination m)) (mw_balance mw (mx_denomination m)) m"

definition with_service ::
    "mixer_registry \<Rightarrow> raw_value \<Rightarrow> (mixer \<Rightarrow> mixer_reply \<times> mixer_registry) \<Rightarrow> mixer_reply \<times> mixer_registry" where
  "with_service reg raw f =
     (case resolveService reg raw of
        Inl (code, e) \<Rightarrow> ((code, RegistryRefusal e), reg)
      | Inr m \<Rightarrow> f m)"

definition put_service :: "mixer \<Rightarrow> mixer_registry \<Rightarrow> mixer_registry" where
  "put_service m reg = reg\<lparr>mr_services := (mr_services reg)(string_of_bigint (mx_denomination m) \<mapsto> m)\<rparr>"

section \<open>Handlers\<close>

definition getStatus :: "mixer_world \<Rightarrow> raw_value \<Rightarrow> mixer_registry \<Rightarrow> mixer_reply \<times> mixer_registry" where
  "getStatus mw raw reg =
     with_service reg raw (\<lambda>m.
       case pool_status mw m of
         None \<Rightarrow> ((404, MessageBody ''Pool not initialized on-chain''), reg)
       | Some status \<Rightarrow> ((200, StatusBody status), reg))"

text \<open>One entry of the snapshot; the catch keeps the figures of the static reading.\<close>

definition pool_entry :: "mixer_world \<Rightarrow> mixer_registry \<Rightarrow> int \<Rightarrow> mixer_error + PoolEntry" where
  "pool_entry mw reg denomination =
     bind_res (readPoolStatus (pool_address mw denomination) denomination (mw_account mw denomination) (mw_balance mw denomination)) (\<lambda>reading.
     case reading of
       None \<Rightarrow> Inr (Uninitialized (string_of_bigint denomination))
     | Some status \<Rightarrow>
         let (withdrawalCount, anonymitySet) =
               (case registry_get reg denomination of
                  Inl e \<Rightarrow> (rd_withdrawalCount status, rd_anonymitySet status)
                | Inr svc \<Rightarrow>
                    let snap = getAnonymitySetSnapshot (pool_status mw svc) svc
                    in (sn_withdrawalCount snap, sn_anonymitySet snap))
         in Inr (Initialized \<lparr>pd_denomination = rd_denomination status, pd_poolAddress = rd_poolAddress status,
              pd_anonymitySet = anonymitySet, pd_anonymitySetMin = mw_minSet mw, pd_depositCount = rd_depositCount status,
              pd_withdrawalCount = withdrawalCount, pd_isPaused = rd_isPaused status,
              pd_balanceLamports = rd_balance status, pd_nextLeafIndex = rd_nextLeafIndex status\<rparr>))"

fun pool_entries :: "mixer_world \<Rightarrow> mixer_registry \<Rightarrow> int list \<Rightarrow> mixer_error + PoolEntry list" where
  "pool_entries mw reg [] = Inr []"
| "pool_entries mw reg (d # ds) =
     bind_res (pool_entry mw reg d) (\<lambda>e. bind_res (pool_entries mw reg ds) (\<lambda>es. Inr (e # es)))"

definition POOLS_TTL_MS :: int where "POOLS_TTL_MS = 30000"

type_synonym pools_cache = "(int \<times> PoolsPayload) option"

definition listPools ::
    "int list option \<Rightarrow> int \<Rightarrow> mixer_world \<Rightarrow> mixer_registry \<Rightarrow> pools_cache \<Rightarrow> mixer_reply \<times> pools_cache" where
  "listPools pools now mw reg poolsCache =
     (case pools of
        None \<Rightarrow> ((501, MessageBody ''Multi-pool config not wired''), poolsCache)
      | Some denominations \<Rightarrow>
          (case poolsCache of
             Some (ts, payload) \<Rightarrow>
               if now - ts < POOLS_TTL_MS then ((200, PoolsBody payload), poolsCache)
               else (case pool_entries mw reg denominations of
                   Inl e \<Rightarrow> ((500, Thrown e), poolsCache)
                 | Inr results \<Rightarrow>
                     let payload = \<lparr>pp_pools = results, pp_anonymitySetMin = mw_minSet mw\<rparr>
                     in ((200, PoolsBody payload), Some (now, payload)))
           | None \<Rightarrow>
               (case pool_entries mw reg denominations of
                   Inl e \<Rightarrow> ((500, Thrown e), poolsCache)
                 | Inr results \<Rightarrow>
                     let payload = \<lparr>pp_pools = results, pp_anonymitySetMin = mw_minSet mw\<rparr>
                     in ((200, PoolsBody payload), Some (now, payload)))))"

definition mixer_initialize :: "mixer_world \<Rightarrow> raw_value \<Rightarrow> string \<Rightarrow> mixer_registry \<Rightarrow> mixer_reply \<times> mixer_registry" where
  "mixer_initialize mw raw authority reg =
     with_service reg raw (\<lambda>m.
       case buildInitializeTransaction (mw_lib mw) (mw_pool mw (mx_denomination m)) (mw_blockhash mw) m authority of
         Inl e \<Rightarrow> ((500, Thrown e), reg)
       | Inr (tx, address) \<Rightarrow> ((200, InitializeBody tx address), reg))"

definition mixer_listDeposits :: "raw_value \<Rightarrow> mixer_registry \<Rightarrow> mixer_reply \<times> mixer_registry" where
  "mixer_listDeposits raw reg = with_service reg raw (\<lambda>m. ((200, DepositsBody (listDeposits m)), reg))"

definition mixer_deposit ::
    "mixer_world \<Rightarrow> raw_value \<Rightarrow> string \<Rightarrow> string \<Rightarrow> mixer_registry \<Rightarrow> mixer_reply \<times> mixer_registry" where
  "mixer_deposit mw raw depositor commitment reg =
     with_service reg raw (\<lambda>m.
       case bigint_of_string commitment of
         None \<Rightarrow> ((400, BadNumber commitment), reg)
       | Some c \<Rightarrow>
           (case buildDepositTransaction (mw_lib mw) (mw_pool mw (mx_denomination m)) (mw_account mw (mx_denomination m))
                   (mw_blockhash mw) m depositor c of
              Inl e \<Rightarrow> ((400, BuildRefusal e), reg)
            | Inr tx \<Rightarrow> ((200, TransactionBody tx), reg)))"

definition confirmDeposit :: "raw_value \<Rightarrow> string \<Rightarrow> int \<Rightarrow> string \<Rightarrow> mixer_registry \<Rightarrow> mixer_reply \<times> mixer_registry" where
  "confirmDeposit raw commitment leafIndex txSignature reg =
     with_service reg raw (\<lambda>m.
       case bigint_of_string commitment of
         None \<Rightarrow> ((500, BadNumber commitment), reg)
       | Some c \<Rightarrow> ((200, OkBody), put_service (recordDeposit c leafIndex txSignature m) reg))"

definition mixer_withdraw ::
    "mixer_world \<Rightarrow> raw_value \<Rightarrow> string \<Rightarrow> string \<Rightarrow> string \<Rightarrow> string \<Rightarrow> string \<Rightarrow> mixer_registry \<Rightarrow> mixer_reply \<times> mixer_registry" where
  "mixer_withdraw mw raw signer recipient proofBytes publicInputsBytes nullifierHash reg =
     with_service reg raw (\<lambda>m.
       case buildWithdrawTransaction (mw_lib mw) (mw_minSet mw) (mw_pool mw (mx_denomination m)) (mw_account mw (mx_denomination m))
              (pool_status mw m) (mw_blockhash mw) m signer recipient proofBytes publicInputsBytes nullifierHash of
         Inl e \<Rightarrow> ((400, BuildRefusal e), reg)
       | Inr tx \<Rightarrow> ((200, TransactionBody tx), reg))"

text \<open>The hydration of every configured pool when the routes are registered.\<close>

definition hydrate_pool :: "(int \<Rightarrow> node \<times> idl) \<Rightarrow> int \<Rightarrow> mixer_registry \<Rightarrow> mixer_registry" where
  "hydrate_pool chain denomination reg =
     (case mr_services reg (string_of_bigint denomination) of
        None \<Rightarrow> reg
      | Some m \<Rightarrow> put_service (snd (hydrateFromChain (fst (chain denomination)) (snd (chain denomination)) None m)) reg)"

definition registerMixerRoutes :: "(int \<Rightarrow> node \<times> idl) \<Rightarrow> mixer_registry \<Rightarrow> mixer_registry" where
  "registerMixerRoutes chain reg = fold (hydrate_pool chain) (mr_denominations reg) reg"

section \<open>The registry keeps one service per denomination\<close>

definition registry_ok :: "mixer_registry \<Rightarrow> bool" where
  "registry_ok reg \<longleftrightarrow>
     mr_denominations reg \<noteq> [] \<and>
     dom (mr_services reg) = string_of_bigint ` set (mr_denominations reg) \<and>
     (\<forall>key m. mr_services reg key = Some m \<longrightarrow> key = string_of_bigint (mx_denomination m))"

datatype mixer_request =
    GetStatus raw_value
  | Initialize raw_value string
  | ListDeposits raw_value
  | Deposit raw_value string string
  | ConfirmDeposit raw_value string int string
  | Withdraw raw_value string string string string string

fun serve_mixer :: "mixer_world \<Rightarrow> mixer_request \<Rightarrow> mixer_registry \<Rightarrow> mixer_reply \<times> mixer_registry" where
  "serve_mixer mw (GetStatus raw) reg = getStatus mw raw reg"
| "serve_mixer mw (Initialize raw authority) reg = mixer_initialize mw raw authority reg"
| "serve_mixer mw (ListDeposits raw) reg = mixer_listDeposits raw reg"
| "serve_mixer mw (Deposit raw depositor commitment) reg = mixer_deposit mw raw depositor commitment reg"
| "serve_mixer mw (ConfirmDeposit raw commitment leaf sig) reg = confirmDeposit raw commitment leaf sig reg"
| "serve_mixer mw (Withdraw raw signer recipient proof inputs h) reg = mixer_withdraw mw raw signer recipient proof inputs h reg"


definition registry_grows :: "mixer_registry \<Rightarrow> mixer_registry \<Rightarrow> bool" where
  "registry_grows reg reg' \<longleftrightarrow>
     mr_denominations reg' = mr_denominations reg \<and>
     (\<forall>key. rel_option extends_mixer (mr_services reg key) (mr_services reg' key))"

lemma grows_refl [simp]: "registry_grows reg reg"
  by (simp add: registry_grows_def option.rel_refl)

lemma rel_option_extends_trans:
  "rel_option extends_mixer a b \<Longrightarrow> rel_option extends_mixer b c \<Longrightarrow> rel_option extends_mixer a c"
  by (cases a; cases b; cases c) (simp_all, rule extends_trans)

lemma grows_trans: "registry_grows reg reg1 \<Longrightarrow> registry_grows reg1 reg2 \<Longrightarrow> registry_grows reg reg2"
  unfolding registry_grows_def by (metis rel_option_extends_trans)

text \<open>The service under a key and its replacement by a grown one.\<close>

lemma put_service_grows:
  assumes "mr_services reg (string_of_bigint (mx_denomination m)) = Some m"
    and "extends_mixer m m'" "mx_denomination m' = mx_denomination m" "registry_ok reg"
  shows "registry_grows reg (put_service m' reg) \<and> registry_ok (put_service m' reg)"
proof
  have "rel_option extends_mixer v v" for v by (rule option.rel_refl) simp
  then show "registry_grows reg (put_service m' reg)" using assms(1-3) by (simp add: registry_grows_def put_service_def)
  have "string_of_bigint (mx_denomination m) \<in> dom (mr_services reg)" using assms(1) by blast
  then have "insert (string_of_bigint (mx_denomination m)) (dom (mr_services reg)) = dom (mr_services reg)" by blast
  then show "registry_ok (put_service m' reg)" using assms(3,4) by (simp add: registry_ok_def put_service_def)
qed

lemma registry_get_ok:
  assumes "registry_ok reg" "registry_get reg d = Inr m"
  shows "mr_services reg (string_of_bigint (mx_denomination m)) = Some m"
proof -
  have "mr_services reg (string_of_bigint d) = Some m" using assms(2) by (simp add: registry_get_def split: option.splits)
  moreover from this have "string_of_bigint d = string_of_bigint (mx_denomination m)" using assms(1) by (simp add: registry_ok_def)
  ultimately show ?thesis by simp
qed

lemma resolveService_ok:
  "registry_ok reg \<Longrightarrow> resolveService reg raw = Inr m \<Longrightarrow> mr_services reg (string_of_bigint (mx_denomination m)) = Some m"
  by (auto simp: resolveService_def intro: registry_get_ok split: sum.splits)

lemma recordDeposit_grows: "extends_mixer m (recordDeposit c i sig m)" "mx_denomination (recordDeposit c i sig m) = mx_denomination m"
  by (auto simp: recordDeposit_def Let_def extends_put) (simp add: put_deposit_def)

lemma serve_mixer_grows:
  assumes "registry_ok reg"
  shows "registry_grows reg (snd (serve_mixer mw req reg)) \<and> registry_ok (snd (serve_mixer mw req reg))"
proof (cases req)
  case (ConfirmDeposit raw commitment leaf sig)
  show ?thesis
  proof (cases "resolveService reg raw")
    case (Inr m)
    with put_service_grows [OF resolveService_ok [OF assms Inr] recordDeposit_grows assms] assms show ?thesis
      by (simp add: ConfirmDeposit confirmDeposit_def with_service_def split: option.splits)
  qed (use assms in \<open>simp add: ConfirmDeposit confirmDeposit_def with_service_def split: prod.splits\<close>)
qed (use assms in \<open>simp_all add: getStatus_def mixer_initialize_def mixer_listDeposits_def mixer_deposit_def
       mixer_withdraw_def with_service_def split: sum.splits option.splits prod.splits\<close>)

definition serve_all :: "(mixer_world \<times> mixer_request) list \<Rightarrow> mixer_registry \<Rightarrow> mixer_registry" where
  "serve_all reqs reg = fold (\<lambda>(mw, req) r. snd (serve_mixer mw req r)) reqs reg"

lemma serve_all_grows: "registry_ok reg \<Longrightarrow> registry_grows reg (serve_all reqs reg) \<and> registry_ok (serve_all reqs reg)"
proof (induction reqs arbitrary: reg)
  case (Cons r reqs)
  obtain mw req where r: "r = (mw, req)" by (cases r)
  have "registry_grows reg (snd (serve_mixer mw req reg))" "registry_ok (snd (serve_mixer mw req reg))"
    using serve_mixer_grows [OF Cons.prems, of mw req] by auto
  then show ?case using Cons.IH [of "snd (serve_mixer mw req reg)"] grows_trans by (auto simp: serve_all_def r)
qed (simp add: serve_all_def)

lemma new_registry_keys:
  assumes "\<forall>key m. f key = Some m \<longrightarrow> key = string_of_bigint (mx_denomination m)"
  shows "dom (fold (\<lambda>d m. m(string_of_bigint d \<mapsto> new_mixer d)) xs f) = string_of_bigint ` set xs \<union> dom f \<and>
    (\<forall>key m. fold (\<lambda>d m. m(string_of_bigint d \<mapsto> new_mixer d)) xs f key = Some m \<longrightarrow> key = string_of_bigint (mx_denomination m))"
  using assms
proof (induction xs arbitrary: f)
  case (Cons x xs)
  have "\<forall>key m. (f(string_of_bigint x \<mapsto> new_mixer x)) key = Some m \<longrightarrow> key = string_of_bigint (mx_denomination m)"
    using Cons.prems by (simp add: new_mixer_def)
  from Cons.IH [OF this] show ?case by auto
qed simp

lemma new_registry_ok: "new_registry ds = Inr reg \<Longrightarrow> registry_ok reg"
  using new_registry_keys [of Map.empty ds] by (clarsimp simp: new_registry_def registry_ok_def simp del: dom_eq_empty_conv split: if_splits)

text \<open>
  Invariant of the mixer API: from the configured denominations on, whatever the clients
  send, every pool keeps its service under its own denomination and a service only ever gains
  deposits; apart from a confirmation of a deposit no request changes anything.
\<close>

theorem mixer_requests_only_append:
  "case new_registry ds of
     Inl e \<Rightarrow> ds = [] \<and> e = NoDenomination
   | Inr reg \<Rightarrow>
       registry_ok (serve_all reqs reg) \<and> registry_grows reg (serve_all reqs reg) \<and>
       registry_grows (serve_all reqs reg) (serve_all (reqs @ later) reg) \<and>
       (case req of ConfirmDeposit raw c i sig \<Rightarrow> True | _ \<Rightarrow> snd (serve_mixer mw req (serve_all reqs reg)) = serve_all reqs reg)"
proof (cases "new_registry ds")
  case (Inr reg)
  have "registry_grows (serve_all reqs reg) (serve_all (reqs @ later) reg)"
    using serve_all_grows [of "serve_all reqs reg" later] serve_all_grows [OF new_registry_ok [OF Inr]]
    by (simp add: serve_all_def)
  moreover have "case req of ConfirmDeposit raw c i sig \<Rightarrow> True | _ \<Rightarrow> snd (serve_mixer mw req r) = r" for r
    by (cases req) (auto simp: getStatus_def mixer_initialize_def mixer_listDeposits_def mixer_deposit_def
       mixer_withdraw_def with_service_def split: sum.splits option.splits prod.splits)
  ultimately show ?thesis using Inr serve_all_grows [OF new_registry_ok [OF Inr]] by simp
qed (auto simp: new_registry_def split: if_splits)

section \<open>The cache of pools\<close>

text \<open>A history of \<open>GET /mixer/pools\<close>: each request with its time, newest first in the log.\<close>

record pools_call =
  pc_now :: int
  pc_world :: mixer_world
  pc_registry :: mixer_registry

definition serve_pools :: "int list \<Rightarrow> pools_call \<Rightarrow> (pools_call \<times> mixer_reply) list \<times> pools_cache \<Rightarrow> (pools_call \<times> mixer_reply) list \<times> pools_cache" where
  "serve_pools ds c = (\<lambda>(answers, cache).
     let (reply, cache') = listPools (Some ds) (pc_now c) (pc_world c) (pc_registry c) cache in ((c, reply) # answers, cache'))"

definition reading_of :: "int list \<Rightarrow> pools_call \<Rightarrow> PoolsPayload \<Rightarrow> bool" where
  "reading_of ds c payload \<longleftrightarrow>
     pool_entries (pc_world c) (pc_registry c) ds = Inr (pp_pools payload) \<and> pp_anonymitySetMin payload = mw_minSet (pc_world c)"

definition fresh_answer :: "int list \<Rightarrow> pools_call list \<Rightarrow> pools_call \<times> mixer_reply \<Rightarrow> bool" where
  "fresh_answer ds calls a =
     (let (c, code, body) = a in
      case body of
        PoolsBody payload \<Rightarrow>
          code = 200 \<and> (\<exists>c0 \<in> set calls. reading_of ds c0 payload \<and> pc_now c - pc_now c0 < POOLS_TTL_MS)
      | _ \<Rightarrow> code = 500 \<and> (\<exists>e. pool_entries (pc_world c) (pc_registry c) ds = Inl e \<and> body = Thrown e))"

definition cache_from :: "int list \<Rightarrow> pools_call list \<Rightarrow> pools_cache \<Rightarrow> bool" where
  "cache_from ds calls cache =
     (case cache of None \<Rightarrow> True | Some (ts, payload) \<Rightarrow> \<exists>c0 \<in> set calls. reading_of ds c0 payload \<and> pc_now c0 = ts)"

lemma fresh_mono: "fresh_answer ds calls a \<Longrightarrow> set calls \<subseteq> set calls' \<Longrightarrow> fresh_answer ds calls' a"
  by (auto simp: fresh_answer_def split: prod.splits mixer_body.splits)

lemma listPools_fresh:
  assumes "cache_from ds calls cache" "c \<in> set calls"
  shows "case listPools (Some ds) (pc_now c) (pc_world c) (pc_registry c) cache of
    (reply, cache') \<Rightarrow> fresh_answer ds calls (c, reply) \<and> cache_from ds calls cache'"
proof -
  have new: "fresh_answer ds calls (c, 200, PoolsBody \<lparr>pp_pools = es, pp_anonymitySetMin = mw_minSet (pc_world c)\<rparr>) \<and>
      cache_from ds calls (Some (pc_now c, \<lparr>pp_pools = es, pp_anonymitySetMin = mw_minSet (pc_world c)\<rparr>))"
    if "pool_entries (pc_world c) (pc_registry c) ds = Inr es" for es
    using that assms(2) by (auto simp: fresh_answer_def cache_from_def reading_of_def POOLS_TTL_MS_def intro!: bexI [of _ c])
  show ?thesis
  proof (cases cache)
    case None
    with new show ?thesis by (auto simp: listPools_def fresh_answer_def cache_from_def Let_def split: sum.splits)
  next
    case (Some p)
    obtain ts payload where p: "p = (ts, payload)" by (cases p)
    show ?thesis
    proof (cases "pc_now c - ts < POOLS_TTL_MS")
      case True
      then show ?thesis using assms(1) by (auto simp: listPools_def Some p fresh_answer_def cache_from_def)
    next
      case False
      then show ?thesis using new assms(1)
        by (cases "pool_entries (pc_world c) (pc_registry c) ds") (auto simp: listPools_def Some p Let_def fresh_answer_def)
    qed
  qed
qed

text \<open>
  Safety of the cache: in every history of requests, an answered snapshot is one that the code
  computed from the chain for a request at most thirty seconds earlier by its own clock, and any other
  answer is the failure of a reading.
\<close>

theorem pools_answers_are_fresh:
  "list_all (fresh_answer ds calls) (fst (fold (serve_pools ds) calls ([], None)))"
proof -
  have "list_all (fresh_answer ds calls) (fst (fold (serve_pools ds) cs s)) \<and> cache_from ds calls (snd (fold (serve_pools ds) cs s))"
    if "set cs \<subseteq> set calls" "list_all (fresh_answer ds calls) (fst s)" "cache_from ds calls (snd s)" for cs s
    using that
  proof (induction cs arbitrary: s)
    case (Cons c cs)
    have "c \<in> set calls" using Cons.prems(1) by simp
    from listPools_fresh [OF Cons.prems(3) this] Cons.prems
    have "list_all (fresh_answer ds calls) (fst (serve_pools ds c s)) \<and> cache_from ds calls (snd (serve_pools ds c s))"
      by (auto simp: serve_pools_def Let_def split: prod.splits)
    with Cons.IH Cons.prems(1) show ?case by simp
  qed simp
  from this [of calls "([], None)"] show ?thesis by (simp add: cache_from_def)
qed

end
