(* ===== verification/StealthWallet.thy ===== *)
theory StealthWallet imports WalletAuth begin

text \<open>
  relayer/stealth-wallet.ts of the API and lib/mixer/stealth-wallet.ts of the browser: the
  encrypted seed of a stealth wallet, with its three versions of the key derivation.  HKDF,
  AES-256-GCM and the key pair of a seed are the fields of \<open>seal\<close>; random bytes are arguments.
\<close>

section \<open>Primitives\<close>

record seal =
  sl_hkdf :: "bytes \<Rightarrow> bytes \<Rightarrow> bytes \<Rightarrow> bytes"
  sl_encrypt :: "bytes \<Rightarrow> bytes \<Rightarrow> bytes \<Rightarrow> bytes \<times> bytes"
  sl_decrypt :: "bytes \<Rightarrow> bytes \<Rightarrow> bytes \<Rightarrow> bytes \<Rightarrow> bytes option"
  sl_publicKey :: "bytes \<Rightarrow> string"

record StealthWallet =
  sw_publicKey :: string
  sw_seed :: bytes

record EncryptedSeed =
  es_ciphertext :: string
  es_iv :: string
  es_authTag :: string
  es_publicKey :: string
  es_version :: "int option"
  es_nonce :: "string option"

datatype seal_error =
    KeyTooShort
  | EmptyKeyMaterial
  | EmptyNonce
  | MissingNonce
  | UnsupportedVersion int
  | BadSeed
  | AuthenticationFailed
  | WrongPublicKey

definition HKDF_SALT_V2 :: bytes where "HKDF_SALT_V2 = ascii ''octora-stealth-salt-v2''"
definition HKDF_INFO_V2 :: bytes where "HKDF_INFO_V2 = ascii ''octora.stealth.seed.v2''"
definition HKDF_SALT_V3 :: bytes where "HKDF_SALT_V3 = ascii ''octora-stealth-salt-v3''"
definition HKDF_INFO_V3_PREFIX :: bytes where "HKDF_INFO_V3_PREFIX = ascii ''octora.stealth.seed.v3:''"

definition deriveAesKeyV2 :: "seal \<Rightarrow> bytes \<Rightarrow> seal_error + bytes" where
  "deriveAesKeyV2 sl ikm =
     (if ikm = [] then Inl EmptyKeyMaterial else Inr (sl_hkdf sl ikm HKDF_SALT_V2 HKDF_INFO_V2))"

definition deriveAesKeyV3 :: "seal \<Rightarrow> bytes \<Rightarrow> bytes \<Rightarrow> seal_error + bytes" where
  "deriveAesKeyV3 sl ikm nonce =
     (if ikm = [] then Inl EmptyKeyMaterial
      else if nonce = [] then Inl EmptyNonce
      else Inr (sl_hkdf sl ikm HKDF_SALT_V3 (HKDF_INFO_V3_PREFIX @ nonce)))"

section \<open>The API\<close>

text \<open>\<open>Keypair.fromSeed\<close> throws unless the seed has 32 bytes.\<close>

definition fromSeed :: "seal \<Rightarrow> bytes \<Rightarrow> seal_error + StealthWallet" where
  "fromSeed sl seed =
     (if length seed \<noteq> 32 then Inl BadSeed else Inr \<lparr>sw_publicKey = sl_publicKey sl seed, sw_seed = seed\<rparr>)"

definition recoverStealthWallet :: "seal \<Rightarrow> bytes \<Rightarrow> seal_error + StealthWallet" where
  "recoverStealthWallet sl seed = (if length seed \<noteq> 32 then Inl BadSeed else fromSeed sl seed)"

text \<open>\<open>generateStealthWallet\<close>, given its 32 random bytes.\<close>

definition generateStealthWallet :: "seal \<Rightarrow> bytes \<Rightarrow> seal_error + StealthWallet" where
  "generateStealthWallet sl randomSeed = fromSeed sl randomSeed"

definition encryptSeed :: "seal \<Rightarrow> bytes \<Rightarrow> bytes \<Rightarrow> StealthWallet \<Rightarrow> bytes \<Rightarrow> seal_error + EncryptedSeed" where
  "encryptSeed sl nonce iv wallet encryptionKey =
     (if length encryptionKey < 32 then Inl KeyTooShort
      else
        bind_res (deriveAesKeyV3 sl encryptionKey nonce) (\<lambda>key.
        let (encrypted, authTag) = sl_encrypt sl key iv (sw_seed wallet) in
        Inr \<lparr>es_ciphertext = hex_encode encrypted, es_iv = hex_encode iv, es_authTag = hex_encode authTag,
          es_publicKey = sw_publicKey wallet, es_version = Some 3, es_nonce = Some (hex_encode nonce)\<rparr>))"

definition seal_key :: "seal \<Rightarrow> EncryptedSeed \<Rightarrow> bytes \<Rightarrow> seal_error + bytes" where
  "seal_key sl enc encryptionKey =
     (let version = (case es_version enc of None \<Rightarrow> 1 | Some v \<Rightarrow> v) in
      if version = 1 then Inr (take 32 encryptionKey)
      else if version = 2 then deriveAesKeyV2 sl encryptionKey
      else if version = 3 then
        (if missing (es_nonce enc) then Inl MissingNonce
         else deriveAesKeyV3 sl encryptionKey (hex_decode (the (es_nonce enc))))
      else Inl (UnsupportedVersion version))"

definition decryptSeed :: "seal \<Rightarrow> EncryptedSeed \<Rightarrow> bytes \<Rightarrow> seal_error + StealthWallet" where
  "decryptSeed sl enc encryptionKey =
     (if length encryptionKey < 32 then Inl KeyTooShort
      else
        bind_res (seal_key sl enc encryptionKey) (\<lambda>key.
        case sl_decrypt sl key (hex_decode (es_iv enc)) (hex_decode (es_ciphertext enc)) (hex_decode (es_authTag enc)) of
          None \<Rightarrow> Inl AuthenticationFailed
        | Some seed \<Rightarrow>
            bind_res (fromSeed sl seed) (\<lambda>wallet.
            if sw_publicKey wallet \<noteq> es_publicKey enc then Inl WrongPublicKey else Inr wallet)))"

section \<open>The browser\<close>

text \<open>
  \<open>parseInt(text, 16)\<close> of at most two characters, stored in a byte: leading white space and a sign
  are read, then the hexadecimal prefix; 0 where there is none.
\<close>

definition parse_hex_byte :: "string \<Rightarrow> byte" where
  "parse_hex_byte s =
     (case s of
        [] \<Rightarrow> 0
      | a # rest \<Rightarrow>
          (case digit_value a of
             None \<Rightarrow>
               (case rest of
                  [] \<Rightarrow> 0
                | b # _ \<Rightarrow>
                    (case digit_value b of
                       None \<Rightarrow> 0
                     | Some y \<Rightarrow>
                         if is_space a \<or> a = CHR ''+'' then word_of_int y
                         else if a = CHR ''-'' then word_of_int (- y)
                         else 0))
           | Some x \<Rightarrow>
               (case rest of
                  [] \<Rightarrow> word_of_int x
                | b # _ \<Rightarrow> (case digit_value b of None \<Rightarrow> word_of_int x | Some y \<Rightarrow> word_of_int (16 * x + y)))))"

fun hex_pairs :: "string \<Rightarrow> bytes" where
  "hex_pairs (a # b # rest) = parse_hex_byte [a, b] # hex_pairs rest"
| "hex_pairs s = []"

definition hexToBytes :: "string \<Rightarrow> bytes" where
  "hexToBytes hex = hex_pairs (if starts_with ''0x'' hex then drop 2 hex else hex)"

text \<open>WebCrypto joins the ciphertext and the 16 bytes of the tag.\<close>

definition subtle_encrypt :: "seal \<Rightarrow> bytes \<Rightarrow> bytes \<Rightarrow> bytes \<Rightarrow> bytes" where
  "subtle_encrypt sl key iv m = (let (c, t) = sl_encrypt sl key iv m in c @ t)"

definition subtle_decrypt :: "seal \<Rightarrow> bytes \<Rightarrow> bytes \<Rightarrow> bytes \<Rightarrow> bytes option" where
  "subtle_decrypt sl key iv combined =
     (if length combined < 16 then None
      else sl_decrypt sl key iv (take (length combined - 16) combined) (drop (length combined - 16) combined))"

definition web_encryptSeed :: "seal \<Rightarrow> bytes \<Rightarrow> StealthWallet \<Rightarrow> bytes \<Rightarrow> seal_error + EncryptedSeed" where
  "web_encryptSeed sl iv wallet encryptionKey =
     (if length encryptionKey < 32 then Inl KeyTooShort
      else
        bind_res (deriveAesKeyV2 sl encryptionKey) (\<lambda>key.
        let combined = subtle_encrypt sl key iv (sw_seed wallet);
            n = length combined - 16 in
        Inr \<lparr>es_ciphertext = hex_encode (take n combined), es_iv = hex_encode iv, es_authTag = hex_encode (drop n combined),
          es_publicKey = sw_publicKey wallet, es_version = Some 2, es_nonce = None\<rparr>))"

definition web_decryptSeed :: "seal \<Rightarrow> EncryptedSeed \<Rightarrow> bytes \<Rightarrow> seal_error + StealthWallet" where
  "web_decryptSeed sl enc encryptionKey =
     (if length encryptionKey < 32 then Inl KeyTooShort
      else if es_version enc \<noteq> Some 2 then Inl (UnsupportedVersion (case es_version enc of None \<Rightarrow> 0 | Some v \<Rightarrow> v))
      else
        bind_res (deriveAesKeyV2 sl encryptionKey) (\<lambda>key.
        case subtle_decrypt sl key (hexToBytes (es_iv enc)) (hexToBytes (es_ciphertext enc) @ hexToBytes (es_authTag enc)) of
          None \<Rightarrow> Inl AuthenticationFailed
        | Some seed \<Rightarrow>
            bind_res (recoverStealthWallet sl seed) (\<lambda>wallet.
            if sw_publicKey wallet \<noteq> es_publicKey enc then Inl WrongPublicKey else Inr wallet)))"

section \<open>Round trips\<close>

text \<open>The laws of AES-GCM the code relies on.\<close>

definition gcm_correct :: "seal \<Rightarrow> bool" where
  "gcm_correct sl \<longleftrightarrow>
     (\<forall>key iv m. length (snd (sl_encrypt sl key iv m)) = 16 \<and>
        sl_decrypt sl key iv (fst (sl_encrypt sl key iv m)) (snd (sl_encrypt sl key iv m)) = Some m)"

definition genuine :: "seal \<Rightarrow> StealthWallet \<Rightarrow> bool" where
  "genuine sl w \<longleftrightarrow> length (sw_seed w) = 32 \<and> sw_publicKey w = sl_publicKey sl (sw_seed w)"

lemma genuine_fromSeed: "fromSeed sl s = Inr w \<longleftrightarrow> genuine sl w \<and> sw_seed w = s"
  by (cases w) (auto simp: fromSeed_def genuine_def)

lemma recover_fromSeed [simp]: "recoverStealthWallet sl s = fromSeed sl s"
  by (simp add: recoverStealthWallet_def fromSeed_def)

lemma digit_value_char: "0 \<le> d \<Longrightarrow> d < 16 \<Longrightarrow> digit_value (digit_char d) = Some d"
  using nibbles [of "word_of_int d"] by (simp add: unsigned_of_int take_bit_int_eq_self)

lemma hex_pairs_encode: "hex_pairs (hex_encode bs) = bs"
proof (induction bs)
  case (Cons b bs)
  with Cons nibbles [of b] show ?case
    by (simp add: hex_encode_Cons parse_hex_byte_def del: of_int_add of_int_mult)
qed simp

lemma hex_not_prefixed: "\<not> starts_with ''0x'' (hex_encode bs)"
proof (cases bs)
  case (Cons b r)
  have "digit_char d \<noteq> CHR ''x''" if "0 \<le> d" "d < 16" for d
    using digit_value_char [OF that] by (auto simp: digit_value_def Let_def)
  then have "digit_char (uint b mod 16) \<noteq> CHR ''x''" by simp
  with Cons show ?thesis by (simp add: starts_with_def hex_encode_Cons)
qed (simp add: starts_with_def)

lemma hexToBytes_encode [simp]: "hexToBytes (hex_encode bs) = bs"
  by (simp add: hexToBytes_def hex_not_prefixed hex_pairs_encode)

lemma deriveAesKeyV2_long: "32 \<le> length ikm \<Longrightarrow> deriveAesKeyV2 sl ikm = Inr (sl_hkdf sl ikm HKDF_SALT_V2 HKDF_INFO_V2)"
  by (auto simp: deriveAesKeyV2_def)

lemma deriveAesKeyV3_long:
  "32 \<le> length ikm \<Longrightarrow> n \<noteq> [] \<Longrightarrow> deriveAesKeyV3 sl ikm n = Inr (sl_hkdf sl ikm HKDF_SALT_V3 (HKDF_INFO_V3_PREFIX @ n))"
  by (auto simp: deriveAesKeyV3_def)

lemma web_blob:
  assumes "gcm_correct sl" "32 \<le> length ikm"
  shows "web_encryptSeed sl iv w ikm = Inr \<lparr>
      es_ciphertext = hex_encode (fst (sl_encrypt sl (sl_hkdf sl ikm HKDF_SALT_V2 HKDF_INFO_V2) iv (sw_seed w))),
      es_iv = hex_encode iv,
      es_authTag = hex_encode (snd (sl_encrypt sl (sl_hkdf sl ikm HKDF_SALT_V2 HKDF_INFO_V2) iv (sw_seed w))),
      es_publicKey = sw_publicKey w, es_version = Some 2, es_nonce = None\<rparr>"
proof -
  obtain c t where e: "sl_encrypt sl (sl_hkdf sl ikm HKDF_SALT_V2 HKDF_INFO_V2) iv (sw_seed w) = (c, t)" by (metis surj_pair)
  then have "length t = 16" using assms(1) unfolding gcm_correct_def by (metis snd_conv)
  then show ?thesis using assms(2)
    by (simp add: web_encryptSeed_def deriveAesKeyV2_long bind_res_def subtle_encrypt_def e Let_def)
qed


text \<open>
  C39.  Round trip: a seed sealed by the API, whatever its nonce and iv, opens in the API to the same
  wallet, and a seed sealed by the browser opens on both sides.  A blob of the API, version 3, is
  refused by the browser.
\<close>

theorem seal_roundtrips:
  assumes "gcm_correct sl" and "genuine sl w" and "32 \<le> length ikm" and "nonce \<noteq> []"
  shows "(case encryptSeed sl nonce iv w ikm of
      Inl e \<Rightarrow> False
    | Inr blob \<Rightarrow> decryptSeed sl blob ikm = Inr w \<and> web_decryptSeed sl blob ikm = Inl (UnsupportedVersion 3)) \<and>
    (case web_encryptSeed sl iv w ikm of
      Inl e \<Rightarrow> False
    | Inr blob \<Rightarrow> decryptSeed sl blob ikm = Inr w \<and> web_decryptSeed sl blob ikm = Inr w)"
proof
  let ?k = "sl_hkdf sl ikm HKDF_SALT_V3 (HKDF_INFO_V3_PREFIX @ nonce)"
  have law: "sl_decrypt sl k i (fst (sl_encrypt sl k i m)) (snd (sl_encrypt sl k i m)) = Some m"
    "length (snd (sl_encrypt sl k i m)) = 16" for k i m
    using assms(1) by (simp_all add: gcm_correct_def)
  have seed: "fromSeed sl (sw_seed w) = Inr w" using assms(2) by (simp add: genuine_fromSeed)
  have pub: "sw_publicKey w = sl_publicKey sl (sw_seed w)" using assms(2) by (simp add: genuine_def)
  obtain c t where e: "sl_encrypt sl ?k iv (sw_seed w) = (c, t)" by (metis surj_pair)
  have d: "sl_decrypt sl ?k iv c t = Some (sw_seed w)" using law(1) [of ?k iv "sw_seed w"] e by simp
  have n: "\<not> missing (Some (hex_encode nonce))"
    using assms(4) by (cases nonce) (simp_all add: missing_def hex_encode_Cons)
  show "case encryptSeed sl nonce iv w ikm of
      Inl e \<Rightarrow> False
    | Inr blob \<Rightarrow> decryptSeed sl blob ikm = Inr w \<and> web_decryptSeed sl blob ikm = Inl (UnsupportedVersion 3)"
    using assms(3,4) d n seed
    by (simp add: encryptSeed_def decryptSeed_def web_decryptSeed_def seal_key_def deriveAesKeyV3_long bind_res_def e hex_decode_encode)
  show "case web_encryptSeed sl iv w ikm of
      Inl e \<Rightarrow> False
    | Inr blob \<Rightarrow> decryptSeed sl blob ikm = Inr w \<and> web_decryptSeed sl blob ikm = Inr w"
    using assms(3) law seed
    by (simp add: web_blob [OF assms(1,3)] decryptSeed_def web_decryptSeed_def seal_key_def deriveAesKeyV2_long bind_res_def
        hex_decode_encode subtle_decrypt_def)
qed

definition toy_seal :: seal where
  "toy_seal = \<lparr>sl_hkdf = (\<lambda>ikm salt info. ikm), sl_encrypt = (\<lambda>key iv m. (m, replicate 16 0)),
     sl_decrypt = (\<lambda>key iv c t. Some c), sl_publicKey = (\<lambda>seed. ''stealth'')\<rparr>"

lemma toy_ops: "sl_encrypt toy_seal k i m = (m, replicate 16 0)"
  by (simp add: toy_seal_def)

theorem seal_roundtrips_witness:
  "web_decryptSeed toy_seal \<lparr>es_ciphertext = hex_encode (replicate 32 7), es_iv = hex_encode [], es_authTag = hex_encode (replicate 16 0),
     es_publicKey = ''stealth'', es_version = Some 2, es_nonce = None\<rparr> (replicate 32 1) =
   Inr \<lparr>sw_publicKey = ''stealth'', sw_seed = replicate 32 7\<rparr>"
proof -
  have g: "gcm_correct toy_seal" by (simp add: gcm_correct_def toy_seal_def)
  have w: "genuine toy_seal \<lparr>sw_publicKey = ''stealth'', sw_seed = replicate 32 7\<rparr>" by (simp add: genuine_def toy_seal_def)
  show ?thesis
    using seal_roundtrips [OF g w, of "replicate 32 1" "[0]" "[]"]
    by (simp add: web_blob [OF g] toy_ops)
qed

definition opened :: "seal \<Rightarrow> EncryptedSeed \<Rightarrow> bytes \<Rightarrow> seal_error + StealthWallet \<Rightarrow> bool" where
  "opened sl enc ikm r \<longleftrightarrow>
     (case r of
        Inr w \<Rightarrow> genuine sl w \<and> sw_publicKey w = es_publicKey enc \<and> 32 \<le> length ikm
      | Inl KeyTooShort \<Rightarrow> length ikm < 32
      | Inl MissingNonce \<Rightarrow> es_version enc = Some 3 \<and> missing (es_nonce enc)
      | Inl (UnsupportedVersion v) \<Rightarrow> v \<noteq> 2
      | Inl EmptyKeyMaterial \<Rightarrow> False
      | Inl e \<Rightarrow> True)"

text \<open>
  Safety: on either side, whatever the blob and the key, a wallet that is opened has a seed of
  32 bytes, its address is the address of that seed, and it is the one the blob names; the
  refusals for a short key, a missing nonce and an unknown version say the truth, and the check
  for empty key material can never fire.
\<close>

theorem opened_wallets_are_genuine:
  "opened sl enc ikm (decryptSeed sl enc ikm) \<and> opened sl enc ikm (web_decryptSeed sl enc ikm)"
proof
  show "opened sl enc ikm (decryptSeed sl enc ikm)"
    by (auto simp: opened_def decryptSeed_def seal_key_def deriveAesKeyV2_def deriveAesKeyV3_def bind_res_def Let_def fromSeed_def
        genuine_def split: option.splits sum.splits if_splits)
  show "opened sl enc ikm (web_decryptSeed sl enc ikm)"
    by (auto simp: opened_def web_decryptSeed_def deriveAesKeyV2_def bind_res_def fromSeed_def
        genuine_def split: option.splits sum.splits if_splits)
qed

end
