(* ===== verification/JsArithmetic.thy ===== *)
theory JsArithmetic imports FieldBytes begin

text \<open>
  More of the arithmetic of JavaScript numbers: products, quotients, \<open>x || 0\<close>, the order of the
  doubles a comparator sees, exactness on the integers of 53 bits, and lower case.
\<close>

section \<open>Operations\<close>

fun js_neg :: "js_num \<Rightarrow> js_num" where
  "js_neg (Fin a) = Fin (- a)"
| "js_neg PosInf = NegInf"
| "js_neg NegInf = PosInf"
| "js_neg NaN = NaN"

definition js_sub :: "js_num \<Rightarrow> js_num \<Rightarrow> js_num" where
  "js_sub a b = js_add a (js_neg b)"

definition js_signed_inf :: "rat \<Rightarrow> js_num" where
  "js_signed_inf a = (if a = 0 then NaN else if 0 < a then PosInf else NegInf)"

fun js_mul :: "js_num \<Rightarrow> js_num \<Rightarrow> js_num" where
  "js_mul (Fin a) (Fin b) = fl64 (a * b)"
| "js_mul NaN _ = NaN"
| "js_mul _ NaN = NaN"
| "js_mul (Fin a) PosInf = js_signed_inf a"
| "js_mul (Fin a) NegInf = js_signed_inf (- a)"
| "js_mul PosInf (Fin b) = js_signed_inf b"
| "js_mul NegInf (Fin b) = js_signed_inf (- b)"
| "js_mul PosInf PosInf = PosInf"
| "js_mul NegInf NegInf = PosInf"
| "js_mul _ _ = NegInf"

text \<open>A zero divisor counts as the positive zero, the only one the model keeps.\<close>

fun js_div :: "js_num \<Rightarrow> js_num \<Rightarrow> js_num" where
  "js_div (Fin a) (Fin b) = (if b = 0 then js_signed_inf a else fl64 (a / b))"
| "js_div NaN _ = NaN"
| "js_div _ NaN = NaN"
| "js_div (Fin a) _ = Fin 0"
| "js_div PosInf (Fin b) = (if b < 0 then NegInf else PosInf)"
| "js_div NegInf (Fin b) = (if b < 0 then PosInf else NegInf)"
| "js_div _ _ = NaN"

text \<open>\<open>x || 0\<close> and \<open>x ?? 0\<close>.\<close>

definition or_zero :: "js_num \<Rightarrow> js_num" where
  "or_zero x = (if x = NaN then Fin 0 else x)"

definition default_zero :: "js_num option \<Rightarrow> js_num" where
  "default_zero x = (case x of None \<Rightarrow> Fin 0 | Some n \<Rightarrow> n)"

definition js_int :: "int \<Rightarrow> js_num" where
  "js_int n = Fin (of_int n)"

section \<open>Order\<close>

text \<open>
  The order a comparator \<open>(a, b) => a - b\<close> induces: the difference of two different doubles is
  never zero, and equal infinities compare as equal.  NaN, which no sort key of the program is,
  comes first.
\<close>

instantiation js_num :: linorder
begin

fun less_eq_js_num :: "js_num \<Rightarrow> js_num \<Rightarrow> bool" where
  "less_eq_js_num NaN _ = True"
| "less_eq_js_num _ NaN = False"
| "less_eq_js_num NegInf _ = True"
| "less_eq_js_num _ NegInf = False"
| "less_eq_js_num (Fin a) (Fin b) = (a \<le> b)"
| "less_eq_js_num (Fin a) PosInf = True"
| "less_eq_js_num PosInf (Fin b) = False"
| "less_eq_js_num PosInf PosInf = True"

definition less_js_num :: "js_num \<Rightarrow> js_num \<Rightarrow> bool" where
  "less_js_num a b = (a \<le> b \<and> \<not> b \<le> a)"

instance
proof
  fix x y z :: js_num
  show "x < y \<longleftrightarrow> x \<le> y \<and> \<not> y \<le> x" by (simp add: less_js_num_def)
  show "x \<le> x" by (cases x) simp_all
  show "x \<le> z" if "x \<le> y" "y \<le> z" using that by (cases x; cases y; cases z) simp_all
  show "x = y" if "x \<le> y" "y \<le> x" using that by (cases x; cases y) simp_all
  show "x \<le> y \<or> y \<le> x" by (cases x; cases y) (simp_all add: linear)
qed

end

lemma js_neg_le: "a \<noteq> NaN \<Longrightarrow> b \<noteq> NaN \<Longrightarrow> js_neg a \<le> js_neg b \<longleftrightarrow> b \<le> a"
  by (cases a; cases b) simp_all

lemma js_neg_not_nan [simp]: "js_neg a = NaN \<longleftrightarrow> a = NaN"
  by (cases a) simp_all

lemma js_gt_less: "a \<noteq> NaN \<Longrightarrow> b \<noteq> NaN \<Longrightarrow> js_gt a b \<longleftrightarrow> b < a"
  by (cases a; cases b) (auto simp: less_js_num_def)

definition js_ge_num :: "js_num \<Rightarrow> js_num \<Rightarrow> bool" where
  "js_ge_num a b \<longleftrightarrow> a \<noteq> NaN \<and> b \<noteq> NaN \<and> b \<le> a"

text \<open>\<open>xs.sort((a, b) => key(b) - key(a))\<close>; both sorts are stable.\<close>

definition sort_desc :: "('a \<Rightarrow> js_num) \<Rightarrow> 'a list \<Rightarrow> 'a list" where
  "sort_desc key = sort_key (\<lambda>x. js_neg (key x))"

lemma mset_sort_desc [simp]: "mset (sort_desc key xs) = mset xs"
  by (simp add: sort_desc_def)

lemma set_sort_desc [simp]: "set (sort_desc key xs) = set xs"
  by (simp add: sort_desc_def)

lemma length_sort_desc [simp]: "length (sort_desc key xs) = length xs"
  by (simp add: sort_desc_def)

lemma sort_desc_stable: "filter (\<lambda>x. key x = k) (sort_desc key xs) = filter (\<lambda>x. key x = k) xs"
proof -
  have "js_neg (key x) = js_neg k \<longleftrightarrow> key x = k" for x by (cases "key x"; cases k) simp_all
  then show ?thesis
    using sort_key_stable [of "\<lambda>x. js_neg (key x)" "js_neg k" xs] by (simp add: sort_desc_def)
qed

lemma sort_desc_head:
  assumes "\<And>x. x \<in> set xs \<Longrightarrow> key x \<noteq> NaN" and "sort_desc key xs = y # ys" and "x \<in> set xs"
  shows "key x \<le> key y"
proof -
  have s: "sorted (map (\<lambda>x. js_neg (key x)) (y # ys))"
    using sorted_sort_key [of "\<lambda>x. js_neg (key x)" xs] assms(2) unfolding sort_desc_def by simp
  have st: "set (y # ys) = set xs" using assms(2) set_sort_desc [of key xs] by simp
  then have "x = y \<or> x \<in> set ys" and y: "y \<in> set xs" using assms(3) by auto
  then have "js_neg (key y) \<le> js_neg (key x)" using s by auto
  then show ?thesis using assms(1,3) y by (simp add: js_neg_le)
qed

lemma sort_desc_sorted:
  assumes "\<And>x. x \<in> set xs \<Longrightarrow> key x \<noteq> NaN"
  shows "sorted_wrt (\<lambda>x y. key y \<le> key x) (sort_desc key xs)"
proof -
  have "sorted_wrt (\<lambda>x y. js_neg (key x) \<le> js_neg (key y)) (sort_desc key xs)"
    using sorted_sort_key [of "\<lambda>x. js_neg (key x)" xs] by (simp add: sort_desc_def sorted_wrt_map)
  then show ?thesis
    by (rule sorted_wrt_mono_rel [rotated]) (use assms in \<open>simp add: js_neg_le\<close>)
qed

section \<open>Exact integers\<close>

lemma fl64_nat:
  assumes "0 < n" "n < 2 ^ 53"
  shows "fl64 (of_int n) = Fin (of_int n) \<and> fl64 (- of_int n) = Fin (- of_int n)"
proof -
  let ?x = "of_int n :: rat"
  have len: "length (digits 2 n) \<le> 53" using length_digits_bound [of 2 n 53] assms by simp
  have q: "quotient_of ?x = (n, 1)" by (simp add: quotient_of_int)
  have one: "length (digits 2 1) = 1" by (simp add: digits.simps)
  have be: "binary_exponent ?x \<le> 52" using len by (simp add: binary_exponent_def q one Let_def)
  define e where "e = max (binary_exponent ?x - 52) (- 1074)"
  have e0: "e \<le> 0" using be by (simp add: e_def)
  have p: "pow2 e = 1 / 2 ^ nat (- e)" using e0 by (auto simp: pow2_def)
  have m: "?x / pow2 e = of_int (n * 2 ^ nat (- e))" by (simp add: p)
  have r: "round_half_even (?x / pow2 e) = n * 2 ^ nat (- e)"
    unfolding m round_half_even_def Let_def floor_of_int by simp
  have ret: "of_int (n * 2 ^ nat (- e)) * pow2 e = ?x" by (simp add: p)
  have pos: "0 < ?x" using assms by simp
  have big: "\<not> (971 < e \<or> (e = 971 \<and> round_half_even (?x / pow2 e) = 2 ^ 53))" using e0 by simp
  have "fl64 ?x = Fin (1 * (of_int (round_half_even (?x / pow2 e)) * pow2 e))"
    using pos big unfolding fl64_def Let_def e_def [symmetric] abs_of_pos [OF pos] by auto
  moreover have "fl64 (- ?x) = Fin (- 1 * (of_int (round_half_even (?x / pow2 e)) * pow2 e))"
    using pos big unfolding fl64_def Let_def abs_minus_cancel abs_of_pos [OF pos] e_def [symmetric] by auto
  ultimately show ?thesis using ret by (simp add: r)
qed

lemma fl64_int [simp]: "\<bar>n\<bar> < 2 ^ 53 \<Longrightarrow> fl64 (of_int n) = Fin (of_int n)"
  using fl64_nat [of n] fl64_nat [of "- n"] by (cases n "0 :: int" rule: linorder_cases) (simp_all add: fl64_def)

section \<open>Lower case\<close>

definition char_lower :: "char \<Rightarrow> char" where
  "char_lower c =
     (let n = (of_char c :: nat) in
      if (65 \<le> n \<and> n \<le> 90) \<or> (192 \<le> n \<and> n \<le> 222 \<and> n \<noteq> 215) then char_of (n + 32) else c)"

definition js_lower :: "string \<Rightarrow> string" where
  "js_lower s = map char_lower s"

end
