(* ===== verification/DlmmPools.thy ===== *)
theory DlmmPools imports JsArithmetic WalletAuth "HOL-Library.Sublist" begin

text \<open>
  dlmm.types.ts and dlmm.service.ts: the pools of the two Meteora indexers, mapped to one shape,
  the in-memory search, order and pagination of the devnet list with its cache, the pool of a
  local chain, and the windows of bins and quotes.  What the indexers and the SDK answer is an
  argument; a field the code reads without a default is taken as present.
\<close>

section \<open>Types\<close>

datatype Network = Mainnet | Devnet | Localnet

record TokenInfo =
  ti_symbol :: string
  ti_mint :: string
  ti_decimals :: int

type_synonym by_timeframe = "(string \<times> js_num) list"

record PoolSummary =
  pl_address :: string
  pl_name :: string
  pl_pair :: string
  pl_tokenX :: TokenInfo
  pl_tokenY :: TokenInfo
  pl_tvl :: js_num
  pl_volume24h :: js_num
  pl_fees24h :: js_num
  pl_volumeByTf :: by_timeframe
  pl_feesByTf :: by_timeframe
  pl_apr :: js_num
  pl_feeBps :: js_num
  pl_binStep :: js_num
  pl_baseFee :: js_num
  pl_createdAt :: js_num
  pl_network :: Network

record PoolDetail = PoolSummary +
  pl_activeBinId :: js_num
  pl_price :: js_num
  pl_priceMin :: js_num
  pl_priceMax :: js_num
  pl_liquidityShape :: string
  pl_totalLiquidity :: js_num
  pl_baseFeeBps :: js_num
  pl_maxFeeBps :: js_num
  pl_protocolFeeBps :: js_num

record 'a PaginatedResponse =
  pg_data :: "'a list"
  pg_total :: int
  pg_pages :: int
  pg_currentPage :: int
  pg_pageSize :: int

record PoolGroup =
  gr_name :: string
  gr_pair :: string
  gr_mintX :: string
  gr_mintY :: string
  gr_pools :: "PoolSummary list"
  gr_total :: int
  gr_pages :: int
  gr_currentPage :: int

section \<open>The indexers\<close>

datatype dlmm_error = MeteoraApiError nat string | FetchFailed string

record meteora_request =
  mq_base :: string
  mq_path :: string
  mq_params :: "(string \<times> string) list"

text \<open>An answer: a transport failure, or a status and a body that may not be JSON.\<close>

type_synonym 'b meteora = "meteora_request \<Rightarrow> string + nat \<times> (string + 'b)"

definition API_BASE :: "Network \<Rightarrow> string" where
  "API_BASE network = (if network = Mainnet then ''https://dlmm.datapi.meteora.ag'' else ''https://dlmm-api.devnet.meteora.ag'')"

definition fetchMeteora :: "'b meteora \<Rightarrow> Network \<Rightarrow> string \<Rightarrow> (string \<times> string) list \<Rightarrow> dlmm_error + 'b" where
  "fetchMeteora fetch network path params =
     (if network = Localnet then
        Inl (MeteoraApiError 501 (''Meteora indexer not available on localnet (path='' @ path @ ''); use the chain-direct path''))
      else
        case fetch \<lparr>mq_base = API_BASE network, mq_path = path, mq_params = params\<rparr> of
          Inl e \<Rightarrow> Inl (FetchFailed e)
        | Inr (status, body) \<Rightarrow>
            if \<not> (200 \<le> status \<and> status < 300) then
              Inl (MeteoraApiError status (''Meteora API error: '' @ string_of_bigint (int status)))
            else (case body of Inl e \<Rightarrow> Inl (FetchFailed e) | Inr b \<Rightarrow> Inr b))"

section \<open>Mainnet pools\<close>

record MeteoraTokenMainnet =
  mt_address :: string
  mt_symbol :: string
  mt_decimals :: int

record MeteoraPoolMainnet =
  mm_address :: string
  mm_name :: string
  mm_token_x :: MeteoraTokenMainnet
  mm_token_y :: MeteoraTokenMainnet
  mm_bin_step :: js_num
  mm_base_fee_pct :: js_num
  mm_max_fee_pct :: js_num
  mm_protocol_fee_pct :: js_num
  mm_tvl :: js_num
  mm_current_price :: js_num
  mm_apr :: js_num
  mm_created_at :: "js_num option"
  mm_volume :: by_timeframe
  mm_fees :: by_timeframe

record MeteoraPagedResponseMainnet =
  mp_total :: int
  mp_pages :: int
  mp_current_page :: int
  mp_page_size :: int
  mp_data :: "MeteoraPoolMainnet list"

definition mapPoolMainnet :: "MeteoraPoolMainnet \<Rightarrow> Network \<Rightarrow> PoolSummary" where
  "mapPoolMainnet pool network = \<lparr>
     pl_address = mm_address pool, pl_name = mm_name pool,
     pl_pair = mt_symbol (mm_token_x pool) @ '' / '' @ mt_symbol (mm_token_y pool),
     pl_tokenX = \<lparr>ti_symbol = mt_symbol (mm_token_x pool), ti_mint = mt_address (mm_token_x pool), ti_decimals = mt_decimals (mm_token_x pool)\<rparr>,
     pl_tokenY = \<lparr>ti_symbol = mt_symbol (mm_token_y pool), ti_mint = mt_address (mm_token_y pool), ti_decimals = mt_decimals (mm_token_y pool)\<rparr>,
     pl_tvl = mm_tvl pool,
     pl_volume24h = default_zero (map_of (mm_volume pool) ''24h''), pl_fees24h = default_zero (map_of (mm_fees pool) ''24h''),
     pl_volumeByTf = mm_volume pool, pl_feesByTf = mm_fees pool,
     pl_apr = mm_apr pool, pl_feeBps = js_mul (mm_base_fee_pct pool) (Fin 100), pl_binStep = mm_bin_step pool,
     pl_baseFee = mm_base_fee_pct pool, pl_createdAt = default_zero (mm_created_at pool), pl_network = network\<rparr>"

definition mapPoolDetailMainnet :: "MeteoraPoolMainnet \<Rightarrow> Network \<Rightarrow> PoolDetail" where
  "mapPoolDetailMainnet pool network =
     PoolSummary.extend (mapPoolMainnet pool network) (PoolDetail.fields (Fin 0) (mm_current_price pool) (Fin 0) (Fin 0) ''spot''
       (mm_tvl pool) (js_mul (mm_base_fee_pct pool) (Fin 100)) (js_mul (mm_max_fee_pct pool) (Fin 100))
       (js_mul (mm_protocol_fee_pct pool) (Fin 100)))"

section \<open>Devnet pools\<close>

record MeteoraPairDevnet =
  md_address :: string
  md_name :: "string option"
  md_mint_x :: string
  md_mint_y :: string
  md_bin_step :: js_num
  md_base_fee_percentage :: string
  md_max_fee_percentage :: string
  md_protocol_fee_percentage :: string
  md_liquidity :: string
  md_fees_24h :: "js_num option"
  md_trade_volume_24h :: "js_num option"
  md_current_price :: "js_num option"
  md_apr :: "js_num option"
  md_fees :: "by_timeframe option"
  md_volume :: "by_timeframe option"

definition NATIVE_SOL_MINT :: string where
  "NATIVE_SOL_MINT = ''So11111111111111111111111111111111111111112''"

definition KNOWN_DEVNET_MINTS :: "string \<Rightarrow> (string \<times> int) option" where
  "KNOWN_DEVNET_MINTS = [NATIVE_SOL_MINT \<mapsto> (''SOL'', 9)]"

definition text_or :: "string \<Rightarrow> string \<Rightarrow> string" where
  "text_or s d = (if s = [] then d else s)"

definition tokensFromPairName :: "string \<Rightarrow> string \<times> string" where
  "tokensFromPairName name =
     (if CHR ''-'' \<notin> set name then (text_or name ''?'', ''?'')
      else (text_or (takeWhile (\<lambda>c. c \<noteq> CHR ''-'') name) ''?'', text_or (tl (dropWhile (\<lambda>c. c \<noteq> CHR ''-'') name)) ''?''))"

definition tokenInfoDevnet :: "string \<Rightarrow> string \<Rightarrow> TokenInfo" where
  "tokenInfoDevnet mint fallbackSymbol =
     (case KNOWN_DEVNET_MINTS mint of
        Some (symbol, decimals) \<Rightarrow> \<lparr>ti_symbol = symbol, ti_mint = mint, ti_decimals = decimals\<rparr>
      | None \<Rightarrow> \<lparr>ti_symbol = (if fallbackSymbol \<noteq> [] \<and> fallbackSymbol \<noteq> ''?'' then fallbackSymbol else take 4 mint),
          ti_mint = mint, ti_decimals = 0\<rparr>)"

definition number_or_zero :: "string \<Rightarrow> js_num" where
  "number_or_zero s = or_zero (number_of_string s)"

definition mapPoolDevnet :: "MeteoraPairDevnet \<Rightarrow> Network \<Rightarrow> PoolSummary" where
  "mapPoolDevnet p network =
     (let (symX, symY) = tokensFromPairName (case md_name p of None \<Rightarrow> [] | Some n \<Rightarrow> n);
          tokenX = tokenInfoDevnet (md_mint_x p) symX;
          tokenY = tokenInfoDevnet (md_mint_y p) symY;
          baseFeePct = number_or_zero (md_base_fee_percentage p);
          volume = default_zero (md_trade_volume_24h p);
          fees = default_zero (md_fees_24h p)
      in \<lparr>pl_address = md_address p,
          pl_name = text_or (case md_name p of None \<Rightarrow> [] | Some n \<Rightarrow> n) (ti_symbol tokenX @ ''-'' @ ti_symbol tokenY),
          pl_pair = ti_symbol tokenX @ '' / '' @ ti_symbol tokenY,
          pl_tokenX = tokenX, pl_tokenY = tokenY, pl_tvl = number_or_zero (md_liquidity p),
          pl_volume24h = volume, pl_fees24h = fees,
          pl_volumeByTf = (case md_volume p of None \<Rightarrow> [(''24h'', volume)] | Some m \<Rightarrow> m),
          pl_feesByTf = (case md_fees p of None \<Rightarrow> [(''24h'', fees)] | Some m \<Rightarrow> m),
          pl_apr = default_zero (md_apr p), pl_feeBps = js_mul baseFeePct (Fin 100), pl_binStep = md_bin_step p,
          pl_baseFee = baseFeePct, pl_createdAt = Fin 0, pl_network = network\<rparr>)"

definition mapPoolDetailDevnet :: "MeteoraPairDevnet \<Rightarrow> Network \<Rightarrow> PoolDetail" where
  "mapPoolDetailDevnet p network =
     (let summary = mapPoolDevnet p network in
      PoolSummary.extend summary (PoolDetail.fields (Fin 0) (default_zero (md_current_price p)) (Fin 0) (Fin 0) ''spot'' (pl_tvl summary)
        (js_mul (number_or_zero (md_base_fee_percentage p)) (Fin 100)) (js_mul (number_or_zero (md_max_fee_percentage p)) (Fin 100))
        (js_mul (number_or_zero (md_protocol_fee_percentage p)) (Fin 100))))"

section \<open>Lists\<close>

record ListOpts =
  lo_search :: "string option"
  lo_page :: "int option"
  lo_pageSize :: "int option"
  lo_sortBy :: "string option"
  lo_filterBy :: "string option"

text \<open>\<open>if (value) params.set(name, String(value))\<close>\<close>

definition text_param :: "string \<Rightarrow> string option \<Rightarrow> (string \<times> string) list" where
  "text_param name v = (case v of None \<Rightarrow> [] | Some s \<Rightarrow> if s = [] then [] else [(name, s)])"

definition int_param :: "string \<Rightarrow> int option \<Rightarrow> (string \<times> string) list" where
  "int_param name v = (case v of None \<Rightarrow> [] | Some n \<Rightarrow> if n = 0 then [] else [(name, string_of_bigint n)])"

definition DEVNET_PAIRS_TTL_MS :: int where "DEVNET_PAIRS_TTL_MS = 30000"

datatype pairs_body = PairArray "MeteoraPairDevnet list" | PairObject "MeteoraPairDevnet list option"

type_synonym pairs_cache = "(int \<times> MeteoraPairDevnet list) option"

text \<open>\<open>now\<close> is the clock of the check, \<open>later\<close> the clock after the answer.\<close>

definition fetchAllDevnetPairs ::
    "pairs_body meteora \<Rightarrow> int \<Rightarrow> int \<Rightarrow> pairs_cache \<Rightarrow> (dlmm_error + MeteoraPairDevnet list) \<times> pairs_cache" where
  "fetchAllDevnetPairs fetch now later cache =
     (let miss = (case fetchMeteora fetch Devnet ''/pair/all'' [(''include_unknown'', ''true'')] of
            Inl e \<Rightarrow> (Inl e, cache)
          | Inr body \<Rightarrow>
              let pairs = (case body of PairArray ps \<Rightarrow> ps | PairObject None \<Rightarrow> [] | PairObject (Some ps) \<Rightarrow> ps)
              in (Inr pairs, Some (later, pairs)))
      in case cache of
           Some (fetchedAt, pairs) \<Rightarrow> if now - fetchedAt < DEVNET_PAIRS_TTL_MS then (Inr pairs, cache) else miss
         | None \<Rightarrow> miss)"

definition devnetPairMatchesSearch :: "MeteoraPairDevnet \<Rightarrow> string \<Rightarrow> bool" where
  "devnetPairMatchesSearch p query =
     (let q = js_lower query in
      sublist q (js_lower (md_address p)) \<or> sublist q (js_lower (case md_name p of None \<Rightarrow> [] | Some n \<Rightarrow> n)) \<or>
      sublist q (js_lower (md_mint_x p)) \<or> sublist q (js_lower (md_mint_y p)))"

definition devnetSortKey :: "string \<Rightarrow> MeteoraPairDevnet \<Rightarrow> js_num" where
  "devnetSortKey key p =
     (if key \<in> set [''volume'', ''volume24h'', ''trade_volume_24h''] then default_zero (md_trade_volume_24h p)
      else if key \<in> set [''fees'', ''fees24h''] then default_zero (md_fees_24h p)
      else if key = ''apr'' then default_zero (md_apr p)
      else if key \<in> set [''binStep'', ''bin_step''] then md_bin_step p
      else number_or_zero (md_liquidity p))"

definition devnet_matches :: "ListOpts \<Rightarrow> MeteoraPairDevnet \<Rightarrow> bool" where
  "devnet_matches opts p = (case lo_search opts of None \<Rightarrow> True | Some q \<Rightarrow> q = [] \<or> devnetPairMatchesSearch p q)"

definition devnet_sort_key :: "ListOpts \<Rightarrow> MeteoraPairDevnet \<Rightarrow> js_num" where
  "devnet_sort_key opts = devnetSortKey (case lo_sortBy opts of None \<Rightarrow> ''tvl'' | Some k \<Rightarrow> k)"

definition devnet_ascending :: "ListOpts \<Rightarrow> bool" where
  "devnet_ascending opts \<longleftrightarrow> js_lower (case lo_filterBy opts of None \<Rightarrow> [] | Some f \<Rightarrow> f) = ''asc''"

definition devnet_selected :: "ListOpts \<Rightarrow> MeteoraPairDevnet list \<Rightarrow> MeteoraPairDevnet list" where
  "devnet_selected opts pairs =
     (let filtered = filter (devnet_matches opts) pairs in
      if devnet_ascending opts then sort_key (devnet_sort_key opts) filtered else sort_desc (devnet_sort_key opts) filtered)"

text \<open>\<open>Math.ceil(total / pageSize)\<close>: exact, since a list has fewer than \<open>2 ^ 32\<close> elements.\<close>

definition ceil_div :: "int \<Rightarrow> int \<Rightarrow> int" where
  "ceil_div a b = - ((- a) div b)"

definition devnet_page :: "ListOpts \<Rightarrow> MeteoraPairDevnet list \<Rightarrow> PoolSummary PaginatedResponse" where
  "devnet_page opts pairs =
     (let page = max 1 (case lo_page opts of None \<Rightarrow> 1 | Some p \<Rightarrow> p);
          pageSize = max 1 (case lo_pageSize opts of None \<Rightarrow> 50 | Some n \<Rightarrow> n);
          filtered = devnet_selected opts pairs;
          total = int (length filtered);
          start = (page - 1) * pageSize;
          slice = take (nat pageSize) (drop (nat start) filtered)
      in \<lparr>pg_data = map (\<lambda>p. mapPoolDevnet p Devnet) slice, pg_total = total, pg_pages = max 1 (ceil_div total pageSize),
          pg_currentPage = page, pg_pageSize = pageSize\<rparr>)"

definition listPoolsDevnet ::
    "pairs_body meteora \<Rightarrow> int \<Rightarrow> int \<Rightarrow> ListOpts \<Rightarrow> pairs_cache \<Rightarrow> (dlmm_error + PoolSummary PaginatedResponse) \<times> pairs_cache" where
  "listPoolsDevnet fetch now later opts cache =
     (case fetchAllDevnetPairs fetch now later cache of
        (Inl e, cache') \<Rightarrow> (Inl e, cache')
      | (Inr pairs, cache') \<Rightarrow> (Inr (devnet_page opts pairs), cache'))"

text \<open>The two indexers and the clock of one call.\<close>

record indexer =
  ix_mainnet :: "MeteoraPagedResponseMainnet meteora"
  ix_mainnetPool :: "MeteoraPoolMainnet meteora"
  ix_devnet :: "pairs_body meteora"
  ix_devnetPair :: "MeteoraPairDevnet meteora"
  ix_now :: int
  ix_later :: int

definition dlmm_listPools ::
    "indexer \<Rightarrow> Network \<Rightarrow> ListOpts \<Rightarrow> pairs_cache \<Rightarrow> (dlmm_error + PoolSummary PaginatedResponse) \<times> pairs_cache" where
  "dlmm_listPools ix network opts cache =
     (case network of
        Localnet \<Rightarrow>
          (Inr \<lparr>pg_data = [], pg_total = 0, pg_pages = 0, pg_currentPage = 1,
             pg_pageSize = (case lo_pageSize opts of None \<Rightarrow> 50 | Some n \<Rightarrow> n)\<rparr>, cache)
      | Devnet \<Rightarrow> listPoolsDevnet (ix_devnet ix) (ix_now ix) (ix_later ix) opts cache
      | Mainnet \<Rightarrow>
          (bind_res (fetchMeteora (ix_mainnet ix) network ''/pools''
             (int_param ''page'' (lo_page opts) @ int_param ''page_size'' (lo_pageSize opts) @ text_param ''query'' (lo_search opts) @
              text_param ''sort_by'' (lo_sortBy opts) @ text_param ''filter_by'' (lo_filterBy opts))) (\<lambda>body.
           Inr \<lparr>pg_data = map (\<lambda>p. mapPoolMainnet p network) (mp_data body), pg_total = mp_total body, pg_pages = mp_pages body,
             pg_currentPage = mp_current_page body, pg_pageSize = mp_page_size body\<rparr>), cache))"


section \<open>One pool\<close>

text \<open>
  What \<open>getPoolFromChain\<close> reads: the mints, the decimals the SDK knows, the account of each mint,
  and the numbers of the pair.  \<open>pow\<close> is \<open>Math.pow\<close>, which the language does not specify exactly.
\<close>

record chain_pair =
  cp_tokenXMint :: string
  cp_tokenYMint :: string
  cp_decimalsX :: "int option"
  cp_decimalsY :: "int option"
  cp_accountX :: "string + bytes option"
  cp_accountY :: "string + bytes option"
  cp_binStep :: js_num
  cp_baseFactor :: js_num
  cp_activeId :: js_num
  cp_protocolShare :: js_num

definition mint_decimals :: "bytes option \<Rightarrow> int" where
  "mint_decimals acct = (case acct of None \<Rightarrow> 0 | Some data \<Rightarrow> if length data < 45 then 0 else uint (data ! 44))"

definition fetchMintDecimals :: "string + bytes option \<Rightarrow> int option \<Rightarrow> dlmm_error + int" where
  "fetchMintDecimals acct fallback =
     (case fallback of
        Some d \<Rightarrow> Inr d
      | None \<Rightarrow> (case acct of Inl e \<Rightarrow> Inl (FetchFailed e) | Inr a \<Rightarrow> Inr (mint_decimals a)))"

definition labelForMint :: "string \<Rightarrow> string" where
  "labelForMint mint = (if mint = NATIVE_SOL_MINT then ''SOL'' else take 4 mint)"

fun js_round :: "js_num \<Rightarrow> js_num" where
  "js_round (Fin a) = Fin (of_int (floor (a + 1 / 2)))"
| "js_round a = a"

definition getPoolFromChain ::
    "(js_num \<Rightarrow> js_num \<Rightarrow> js_num) \<Rightarrow> string \<Rightarrow> Network \<Rightarrow> chain_pair option \<Rightarrow> dlmm_error + PoolDetail option" where
  "getPoolFromChain pow address network dlmm =
     (case dlmm of
        None \<Rightarrow> Inr None
      | Some d \<Rightarrow>
          bind_res (fetchMintDecimals (cp_accountX d) (cp_decimalsX d)) (\<lambda>xDecimals.
          bind_res (fetchMintDecimals (cp_accountY d) (cp_decimalsY d)) (\<lambda>yDecimals.
          let xSymbol = labelForMint (cp_tokenXMint d);
              ySymbol = labelForMint (cp_tokenYMint d);
              baseFeeBps = js_round (js_div (js_mul (cp_baseFactor d) (cp_binStep d)) (Fin 100));
              price = pow (js_add (Fin 1) (js_div (cp_binStep d) (Fin 10000))) (cp_activeId d)
          in Inr (Some \<lparr>
              pl_address = address, pl_name = xSymbol @ ''-'' @ ySymbol, pl_pair = xSymbol @ ''/'' @ ySymbol,
              pl_tokenX = \<lparr>ti_symbol = xSymbol, ti_mint = cp_tokenXMint d, ti_decimals = xDecimals\<rparr>,
              pl_tokenY = \<lparr>ti_symbol = ySymbol, ti_mint = cp_tokenYMint d, ti_decimals = yDecimals\<rparr>,
              pl_tvl = Fin 0, pl_volume24h = Fin 0, pl_fees24h = Fin 0, pl_volumeByTf = [], pl_feesByTf = [], pl_apr = Fin 0,
              pl_feeBps = baseFeeBps, pl_binStep = cp_binStep d, pl_baseFee = baseFeeBps, pl_createdAt = Fin 0, pl_network = network,
              pl_activeBinId = cp_activeId d, pl_price = price, pl_priceMin = Fin 0, pl_priceMax = Fin 0,
              pl_liquidityShape = ''unknown'', pl_totalLiquidity = Fin 0, pl_baseFeeBps = baseFeeBps, pl_maxFeeBps = baseFeeBps,
              pl_protocolFeeBps = cp_protocolShare d\<rparr>))))"

record pool_reader =
  pr_indexer :: indexer
  pr_pow :: "js_num \<Rightarrow> js_num \<Rightarrow> js_num"
  pr_chain :: "string \<Rightarrow> chain_pair option"

definition getPool :: "pool_reader \<Rightarrow> string \<Rightarrow> Network \<Rightarrow> dlmm_error + PoolDetail option" where
  "getPool pr address network =
     (let attempt =
        (case network of
           Localnet \<Rightarrow> getPoolFromChain (pr_pow pr) address network (pr_chain pr address)
         | Devnet \<Rightarrow> bind_res (fetchMeteora (ix_devnetPair (pr_indexer pr)) Devnet (''/pair/'' @ address) [])
                       (\<lambda>pair. Inr (Some (mapPoolDetailDevnet pair Devnet)))
         | Mainnet \<Rightarrow> bind_res (fetchMeteora (ix_mainnetPool (pr_indexer pr)) network (''/pools/'' @ address) [])
                       (\<lambda>pool. Inr (Some (mapPoolDetailMainnet pool network))))
      in case attempt of Inl (MeteoraApiError status msg) \<Rightarrow> if status = 404 then Inr None else attempt | _ \<Rightarrow> attempt)"

section \<open>Groups and windows\<close>

record GroupedPairs =
  gp_groups :: "(string \<times> MeteoraPairDevnet list) list option"
  gp_total :: "int option"

definition group_of :: "string \<times> MeteoraPairDevnet list \<Rightarrow> PoolGroup" where
  "group_of g =
     \<lparr>gr_name = fst g, gr_pair = fst g,
      gr_mintX = (case snd g of [] \<Rightarrow> [] | p # _ \<Rightarrow> md_mint_x p), gr_mintY = (case snd g of [] \<Rightarrow> [] | p # _ \<Rightarrow> md_mint_y p),
      gr_pools = map (\<lambda>p. mapPoolDevnet p Devnet) (snd g), gr_total = int (length (snd g)), gr_pages = 1, gr_currentPage = 1\<rparr>"

definition listGroupsDevnet :: "GroupedPairs meteora \<Rightarrow> int option \<Rightarrow> int option \<Rightarrow> dlmm_error + PoolGroup PaginatedResponse" where
  "listGroupsDevnet fetch optPage optSize =
     (let page = max 1 (case optPage of None \<Rightarrow> 1 | Some p \<Rightarrow> p);
          pageSize = max 1 (case optSize of None \<Rightarrow> 50 | Some n \<Rightarrow> n)
      in bind_res (fetchMeteora fetch Devnet ''/pair/all_by_groups''
           [(''page'', string_of_bigint (page - 1)), (''limit'', string_of_bigint pageSize), (''include_unknown'', ''true'')]) (\<lambda>body.
         let total = (case gp_total body of None \<Rightarrow> 0 | Some t \<Rightarrow> t);
             groups = (case gp_groups body of None \<Rightarrow> [] | Some gs \<Rightarrow> gs)
         in Inr \<lparr>pg_data = map group_of groups, pg_total = total,
              pg_pages = (if 0 < pageSize then max 1 (ceil_div total pageSize) else 1), pg_currentPage = page, pg_pageSize = pageSize\<rparr>))"

text \<open>The days of a volume window: a missing or zero bound means thirty days.\<close>

definition numDays :: "int option \<Rightarrow> int option \<Rightarrow> int" where
  "numDays startTime endTime =
     (case (startTime, endTime) of
        (Some a, Some b) \<Rightarrow> if a \<noteq> 0 \<and> b \<noteq> 0 then max 1 (min 255 (ceil_div (b - a) 86400)) else 30
      | _ \<Rightarrow> 30)"

definition bin_window :: "int option \<Rightarrow> int" where
  "bin_window wanted = (max 7 (min (case wanted of None \<Rightarrow> 61 | Some c \<Rightarrow> c) 201)) div 2"

section \<open>Pages\<close>

lemma ceil_div_bounds: "0 < b \<Longrightarrow> a \<le> ceil_div a b * b \<and> ceil_div a b * b < a + b"
proof -
  assume b: "0 < b"
  have d: "(- a) div b * b + (- a) mod b = - a" by simp
  have "0 \<le> (- a) mod b" "(- a) mod b < b" using b by simp_all
  with d show ?thesis unfolding ceil_div_def minus_mult_left [symmetric] by linarith
qed

lemma concat_slices:
  "concat (map (\<lambda>n. take k (drop (n * k) xs)) [0..<m]) = take (m * k) xs"
proof (induction m)
  case (Suc m)
  have "take (Suc m * k) xs = take (m * k) xs @ take k (drop (m * k) xs)"
    using take_add [of "m * k" k xs] by (simp add: add.commute)
  with Suc show ?case by simp
qed simp

lemma sort_key_stable_sorted: "sorted_wrt (\<lambda>x y. key x \<le> key y) (sort_key key xs)"
  using sorted_sort_key [of key xs] by (simp add: sorted_wrt_map)

text \<open>A page of the list, with the size kept.\<close>

definition at_page :: "ListOpts \<Rightarrow> nat \<Rightarrow> ListOpts" where
  "at_page opts n = opts\<lparr>lo_page := Some (int n)\<rparr>"

lemma selected_at_page [simp]: "devnet_selected (at_page opts n) = devnet_selected opts"
  by (rule ext) (simp add: devnet_selected_def at_page_def devnet_matches_def devnet_sort_key_def devnet_ascending_def Let_def
      cong: filter_cong)

definition page_size :: "ListOpts \<Rightarrow> nat" where
  "page_size opts = nat (max 1 (case lo_pageSize opts of None \<Rightarrow> 50 | Some n \<Rightarrow> n))"

lemma page_size_pos [simp]: "0 < page_size opts" by (simp add: page_size_def)

lemma page_data:
  "0 < n \<Longrightarrow> pg_data (devnet_page (at_page opts n) pairs) =
     map (\<lambda>p. mapPoolDevnet p Devnet) (take (page_size opts) (drop ((n - 1) * page_size opts) (devnet_selected opts pairs)))"
proof -
  assume n: "0 < n"
  have "nat ((int n - 1) * max 1 (case lo_pageSize opts of None \<Rightarrow> 50 | Some m \<Rightarrow> m)) = (n - 1) * page_size opts"
    using n by (simp add: page_size_def nat_mult_distrib of_nat_diff nat_diff_distrib')
  with n show ?thesis
    by (simp add: devnet_page_def Let_def page_size_def at_page_def [symmetric]) (simp add: at_page_def page_size_def)
qed

lemma page_count: "pg_pages (devnet_page opts pairs) = max 1 (ceil_div (int (length (devnet_selected opts pairs))) (int (page_size opts)))"
  by (simp add: devnet_page_def Let_def page_size_def)

lemma all_pages:
  "concat (map (\<lambda>n. pg_data (devnet_page (at_page opts n) pairs)) [1..<Suc (nat (pg_pages (devnet_page opts pairs)))]) =
     map (\<lambda>p. mapPoolDevnet p Devnet) (devnet_selected opts pairs)"
proof -
  let ?m = "nat (pg_pages (devnet_page opts pairs))" and ?k = "page_size opts" and ?xs = "devnet_selected opts pairs"
  have idx: "[1..<Suc ?m] = map Suc [0..<?m]" by (simp add: map_Suc_upt)
  have "concat (map (\<lambda>n. pg_data (devnet_page (at_page opts n) pairs)) [1..<Suc ?m]) =
      map (\<lambda>p. mapPoolDevnet p Devnet) (concat (map (\<lambda>n. take ?k (drop (n * ?k) ?xs)) [0..<?m]))"
    unfolding idx by (simp add: page_data map_concat comp_def)
  also have "\<dots> = map (\<lambda>p. mapPoolDevnet p Devnet) (take (?m * ?k) ?xs)" by (simp only: concat_slices)
  also have "take (?m * ?k) ?xs = ?xs"
  proof -
    have "int (length ?xs) \<le> ceil_div (int (length ?xs)) (int ?k) * int ?k" using ceil_div_bounds by simp
    also have "\<dots> \<le> int ?m * int ?k"
    proof (rule mult_right_mono)
      show "ceil_div (int (length ?xs)) (int ?k) \<le> int ?m" unfolding page_count by linarith
    qed simp
    finally have "length ?xs \<le> ?m * ?k" unfolding of_nat_mult [symmetric] of_nat_le_iff .
    then show ?thesis by simp
  qed
  finally show ?thesis .
qed

text \<open>
  Functional: while the devnet cache lives, the pages of one query, asked for in any order and at
  any time, are cut from one list: page by page they give every matching pool exactly once, in
  the order asked for with ties as the indexer lists them, and the counters they carry are right.
\<close>

theorem devnet_pages_partition:
  assumes "dlmm_listPools ix Devnet opts cache = (Inr first, Some (fetchedAt, pairs))"
    and "\<And>n. ix_now (calls n) - fetchedAt < DEVNET_PAIRS_TTL_MS"
  shows "concat (map (\<lambda>n. case dlmm_listPools (calls n) Devnet (at_page opts n) (Some (fetchedAt, pairs)) of
             (Inr page, c) \<Rightarrow> pg_data page | (Inl e, c) \<Rightarrow> []) [1..<Suc (nat (pg_pages first))]) =
         map (\<lambda>p. mapPoolDevnet p Devnet) (devnet_selected opts pairs) \<and>
       mset (devnet_selected opts pairs) = mset (filter (devnet_matches opts) pairs) \<and>
       filter (\<lambda>p. devnet_sort_key opts p = k) (devnet_selected opts pairs) =
         filter (\<lambda>p. devnet_matches opts p \<and> devnet_sort_key opts p = k) pairs \<and>
       sorted_wrt (\<lambda>x y. if devnet_ascending opts then devnet_sort_key opts x \<le> devnet_sort_key opts y
          else js_neg (devnet_sort_key opts x) \<le> js_neg (devnet_sort_key opts y)) (devnet_selected opts pairs) \<and>
       pg_total first = int (length (filter (devnet_matches opts) pairs)) \<and>
       pg_total first \<le> pg_pages first * pg_pageSize first"
proof -
  have first: "first = devnet_page opts pairs"
    using assms(1) by (auto simp: dlmm_listPools_def listPoolsDevnet_def fetchAllDevnetPairs_def Let_def split: option.splits prod.splits sum.splits
        if_splits pairs_body.splits)
  have served: "dlmm_listPools (calls n) Devnet (at_page opts n) (Some (fetchedAt, pairs)) =
      (Inr (devnet_page (at_page opts n) pairs), Some (fetchedAt, pairs))" for n
    using assms(2) [of n] by (simp add: dlmm_listPools_def listPoolsDevnet_def fetchAllDevnetPairs_def Let_def)
  have size: "pg_pageSize first = int (page_size opts)" by (simp add: first devnet_page_def Let_def page_size_def)
  have total: "pg_total first = int (length (devnet_selected opts pairs))" by (simp add: first devnet_page_def Let_def)
  have len: "length (devnet_selected opts pairs) = length (filter (devnet_matches opts) pairs)"
    by (simp add: devnet_selected_def Let_def)
  have "pg_total first \<le> ceil_div (pg_total first) (pg_pageSize first) * pg_pageSize first"
    using ceil_div_bounds size by simp
  also have "\<dots> \<le> pg_pages first * pg_pageSize first"
  proof (rule mult_right_mono)
    show "ceil_div (pg_total first) (pg_pageSize first) \<le> pg_pages first"
      by (simp add: size total) (simp add: first page_count)
  qed (simp add: size)
  finally have bound: "pg_total first \<le> pg_pages first * pg_pageSize first" .
  have stable: "filter (\<lambda>p. devnet_sort_key opts p = k) (devnet_selected opts pairs) =
      filter (\<lambda>p. devnet_matches opts p \<and> devnet_sort_key opts p = k) pairs"
    by (simp add: devnet_selected_def Let_def sort_desc_stable sort_key_stable conj_commute)
  have sorted: "sorted_wrt (\<lambda>x y. if devnet_ascending opts then devnet_sort_key opts x \<le> devnet_sort_key opts y
          else js_neg (devnet_sort_key opts x) \<le> js_neg (devnet_sort_key opts y)) (devnet_selected opts pairs)"
    by (simp add: devnet_selected_def Let_def sort_desc_def sort_key_stable_sorted)
  have ms: "mset (devnet_selected opts pairs) = mset (filter (devnet_matches opts) pairs)"
    by (simp add: devnet_selected_def Let_def)
  show ?thesis
    using all_pages [of opts pairs] stable sorted ms bound by (simp add: served first [symmetric] total len)
qed


definition quiet_indexer :: indexer where
  "quiet_indexer = \<lparr>ix_mainnet = (\<lambda>r. Inl ''down''), ix_mainnetPool = (\<lambda>r. Inl ''down''), ix_devnet = (\<lambda>r. Inl ''down''),
     ix_devnetPair = (\<lambda>r. Inl ''down''), ix_now = 5, ix_later = 6\<rparr>"

definition sample_pair :: "string \<Rightarrow> rat \<Rightarrow> MeteoraPairDevnet" where
  "sample_pair a apr = \<lparr>md_address = a, md_name = Some ''TOK-SOL'', md_mint_x = ''m'', md_mint_y = NATIVE_SOL_MINT, md_bin_step = Fin 10,
     md_base_fee_percentage = ''1'', md_max_fee_percentage = ''2'', md_protocol_fee_percentage = ''3'', md_liquidity = ''7'',
     md_fees_24h = None, md_trade_volume_24h = None, md_current_price = None, md_apr = Some (Fin apr), md_fees = None, md_volume = None\<rparr>"

definition by_apr :: ListOpts where
  "by_apr = \<lparr>lo_search = None, lo_page = None, lo_pageSize = Some 1, lo_sortBy = Some ''apr'', lo_filterBy = None\<rparr>"

theorem devnet_pages_partition_witness:
  "concat (map (\<lambda>n. case dlmm_listPools quiet_indexer Devnet (at_page by_apr n) (Some (0, [sample_pair ''a'' 1, sample_pair ''b'' 2])) of
       (Inr page, c) \<Rightarrow> pg_data page | (Inl e, c) \<Rightarrow> []) [1..<3]) =
   [mapPoolDevnet (sample_pair ''b'' 2) Devnet, mapPoolDevnet (sample_pair ''a'' 1) Devnet]"
proof -
  let ?pairs = "[sample_pair ''a'' 1, sample_pair ''b'' 2]"
  have k: "devnet_sort_key by_apr (sample_pair a r) = Fin r" for a r
    by (simp add: devnet_sort_key_def by_apr_def devnetSortKey_def sample_pair_def default_zero_def)
  have sel: "devnet_selected by_apr ?pairs = [sample_pair ''b'' 2, sample_pair ''a'' 1]"
    by (simp add: devnet_selected_def Let_def devnet_ascending_def js_lower_def sort_desc_def k)
       (simp add: by_apr_def devnet_matches_def)
  have page: "dlmm_listPools quiet_indexer Devnet by_apr (Some (0, ?pairs)) = (Inr (devnet_page by_apr ?pairs), Some (0, ?pairs))"
    by (simp add: dlmm_listPools_def listPoolsDevnet_def fetchAllDevnetPairs_def quiet_indexer_def DEVNET_PAIRS_TTL_MS_def)
  have "pg_pages (devnet_page by_apr ?pairs) = 2"
    unfolding page_count sel by (simp add: page_size_def by_apr_def ceil_div_def)
  then have "[1..<Suc (nat (pg_pages (devnet_page by_apr ?pairs)))] = [1..<3]" by simp
  with devnet_pages_partition [OF page, of "\<lambda>n. quiet_indexer"] show ?thesis
    by (simp add: sel quiet_indexer_def DEVNET_PAIRS_TTL_MS_def)
qed

end
