(* ===== verification/SwapPlanning.thy ===== *)
theory SwapPlanning imports DlmmPools begin

text \<open>
  single-sided.ts, swap.service.ts and swap-pool-resolver.ts: the plan of a single-sided SOL
  deposit and its wire format, the swap intent, the choice of the pool to swap through, and the
  minimum output.
\<close>

section \<open>Single-sided deposits\<close>

text \<open>The shape is the text of the request: a text outside the record has no strategy.\<close>

definition STRATEGY_BY_SHAPE :: "string \<Rightarrow> int option" where
  "STRATEGY_BY_SHAPE = [''spot'' \<mapsto> 6, ''curve'' \<mapsto> 7, ''bid-ask'' \<mapsto> 8]"

record SingleSidedSolPlan =
  sp_amountX :: int
  sp_amountY :: int
  sp_strategyType :: "int option"
  sp_minBinId :: int
  sp_maxBinId :: int

record SingleSidedSolInput =
  si_totalLamports :: int
  si_activeBinId :: int
  si_lowerBinId :: int
  si_upperBinId :: int
  si_shape :: string
  si_solIsTokenX :: bool

datatype SingleSidedRangeError =
    NotPositive
  | Disordered int int
  | BelowActive int int int
  | AboveActive int int int

definition planSingleSidedSol :: "SingleSidedSolInput \<Rightarrow> SingleSidedRangeError + SingleSidedSolPlan" where
  "planSingleSidedSol inp =
     (if si_totalLamports inp \<le> 0 then Inl NotPositive
      else if si_upperBinId inp < si_lowerBinId inp then Inl (Disordered (si_lowerBinId inp) (si_upperBinId inp))
      else if si_solIsTokenX inp \<and> si_upperBinId inp < si_activeBinId inp then
        Inl (BelowActive (si_lowerBinId inp) (si_upperBinId inp) (si_activeBinId inp))
      else if \<not> si_solIsTokenX inp \<and> si_activeBinId inp < si_lowerBinId inp then
        Inl (AboveActive (si_lowerBinId inp) (si_upperBinId inp) (si_activeBinId inp))
      else Inr \<lparr>sp_amountX = (if si_solIsTokenX inp then si_totalLamports inp else 0),
        sp_amountY = (if si_solIsTokenX inp then 0 else si_totalLamports inp),
        sp_strategyType = STRATEGY_BY_SHAPE (si_shape inp),
        sp_minBinId = si_lowerBinId inp, sp_maxBinId = si_upperBinId inp\<rparr>)"

datatype write_error = OutOfRange int | NotANumber

text \<open>\<open>writeBigUInt64LE\<close>, \<open>writeInt32LE\<close> and \<open>writeUInt8\<close> refuse what does not fit.\<close>

definition write_u64 :: "int \<Rightarrow> write_error + bytes" where
  "write_u64 v = (if v < 0 \<or> 2 ^ 64 \<le> v then Inl (OutOfRange v) else Inr (rev (be_bytes 8 v)))"

definition write_i32 :: "int \<Rightarrow> write_error + bytes" where
  "write_i32 v = (if v < - (2 ^ 31) \<or> 2 ^ 31 \<le> v then Inl (OutOfRange v) else Inr (rev (be_bytes 4 (v mod 2 ^ 32))))"

definition write_u8 :: "int option \<Rightarrow> write_error + bytes" where
  "write_u8 v = (case v of None \<Rightarrow> Inl NotANumber | Some n \<Rightarrow> if n < 0 \<or> 256 \<le> n then Inl (OutOfRange n) else Inr [word_of_int n])"

record LiquidityParams =
  lp_amountX :: int
  lp_amountY :: int
  lp_activeId :: int
  lp_maxActiveBinSlippage :: int
  lp_minBinId :: int
  lp_maxBinId :: int
  lp_strategyType :: "int option"

definition encodeLiquidityParamsByStrategy :: "LiquidityParams \<Rightarrow> write_error + bytes" where
  "encodeLiquidityParamsByStrategy p =
     bind_res (write_u64 (lp_amountX p)) (\<lambda>x.
     bind_res (write_u64 (lp_amountY p)) (\<lambda>y.
     bind_res (write_i32 (lp_activeId p)) (\<lambda>active.
     bind_res (write_i32 (lp_maxActiveBinSlippage p)) (\<lambda>slippage.
     bind_res (write_i32 (lp_minBinId p)) (\<lambda>lo.
     bind_res (write_i32 (lp_maxBinId p)) (\<lambda>hi.
     bind_res (write_u8 (lp_strategyType p)) (\<lambda>s.
     Inr (x @ y @ active @ slippage @ lo @ hi @ s @ replicate 64 0))))))))"

section \<open>The pool to swap through\<close>

record SwapSourceCandidate =
  sc_pool :: PoolSummary
  sc_isTarget :: bool

record ResolveSwapSourceInput =
  rs_network :: Network
  rs_targetPoolAddress :: string
  rs_nonSolMint :: string
  rs_minTvlUsd :: "js_num option"

definition poolContainsBothMints :: "PoolSummary \<Rightarrow> string \<Rightarrow> string \<Rightarrow> bool" where
  "poolContainsBothMints pool mintA mintB \<longleftrightarrow>
     (ti_mint (pl_tokenX pool) = mintA \<and> ti_mint (pl_tokenY pool) = mintB) \<or>
     (ti_mint (pl_tokenX pool) = mintB \<and> ti_mint (pl_tokenY pool) = mintA)"

definition source_query :: ListOpts where
  "source_query = \<lparr>lo_search = None, lo_page = None, lo_pageSize = Some 200, lo_sortBy = Some ''tvl'', lo_filterBy = None\<rparr>"

definition source_candidates :: "ResolveSwapSourceInput \<Rightarrow> PoolSummary list \<Rightarrow> SwapSourceCandidate list" where
  "source_candidates inp pools =
     (let minTvlUsd = (case rs_minTvlUsd inp of None \<Rightarrow> Fin 50000 | Some t \<Rightarrow> t) in
      sort_desc (\<lambda>c. pl_tvl (sc_pool c))
        (map (\<lambda>pool. \<lparr>sc_pool = pool, sc_isTarget = (pl_address pool = rs_targetPoolAddress inp)\<rparr>)
          (filter (\<lambda>pool. js_ge_num (pl_tvl pool) minTvlUsd \<or> pl_address pool = rs_targetPoolAddress inp)
            (filter (\<lambda>pool. poolContainsBothMints pool (rs_nonSolMint inp) NATIVE_SOL_MINT) pools))))"

definition listSwapSourceCandidates ::
    "indexer \<Rightarrow> ResolveSwapSourceInput \<Rightarrow> pairs_cache \<Rightarrow> (dlmm_error + SwapSourceCandidate list) \<times> pairs_cache" where
  "listSwapSourceCandidates ix inp cache =
     (case dlmm_listPools ix (rs_network inp) source_query cache of
        (Inl e, c) \<Rightarrow> (Inl e, c)
      | (Inr page, c) \<Rightarrow> (Inr (source_candidates inp (pg_data page)), c))"

datatype SwapValidationErrorCode =
    swap_source_equals_target
  | swap_source_unknown
  | swap_source_wrong_pair
  | swap_min_out_invalid
  | swap_disabled
  | swap_required_for_non_sol_pair

datatype swap_error =
    SwapValidationError SwapValidationErrorCode
  | NoSwapSourceAvailableError string string
  | ListingFailed dlmm_error
  | NotAnInteger js_num

definition recommendSwapSource :: "indexer \<Rightarrow> ResolveSwapSourceInput \<Rightarrow> pairs_cache \<Rightarrow> (swap_error + PoolSummary) \<times> pairs_cache" where
  "recommendSwapSource ix inp cache =
     (case listSwapSourceCandidates ix inp cache of
        (Inl e, c) \<Rightarrow> (Inl (ListingFailed e), c)
      | (Inr candidates, c) \<Rightarrow>
          (case filter (\<lambda>k. \<not> sc_isTarget k) candidates of
             [] \<Rightarrow> (Inl (NoSwapSourceAvailableError (rs_targetPoolAddress inp) (rs_nonSolMint inp)), c)
           | k # _ \<Rightarrow> (Inr (sc_pool k), c)))"

section \<open>Swap intents\<close>

definition isSolMint :: "string \<Rightarrow> bool" where
  "isSolMint mint = (mint = NATIVE_SOL_MINT)"

record SwapStep =
  ss_sourcePoolAddress :: string
  ss_minAmountOut :: string
  ss_swapForY :: bool

record ValidateSwapIntentInput =
  vs_swapEnabled :: bool
  vs_network :: Network
  vs_targetPool :: PoolSummary
  vs_swap :: "SwapStep option"

record ValidatedSwapIntent =
  vi_sourcePool :: PoolSummary
  vi_minAmountOut :: int
  vi_swapForY :: bool

definition sol_quoted :: "'a PoolSummary_scheme \<Rightarrow> bool" where
  "sol_quoted pool \<longleftrightarrow> isSolMint (ti_mint (pl_tokenY pool)) \<or> isSolMint (ti_mint (pl_tokenX pool))"

definition swap_mint :: "'a PoolSummary_scheme \<Rightarrow> bool \<Rightarrow> string" where
  "swap_mint tgt swapForY = ti_mint (if swapForY then pl_tokenY tgt else pl_tokenX tgt)"

definition validateSwapIntent ::
    "indexer \<Rightarrow> ValidateSwapIntentInput \<Rightarrow> pairs_cache \<Rightarrow> (swap_error + ValidatedSwapIntent option) \<times> pairs_cache" where
  "validateSwapIntent ix inp cache =
     (let tgt = vs_targetPool inp; refuse = (\<lambda>code. (Inl (SwapValidationError code), cache)) in
      if sol_quoted tgt then
        (case vs_swap inp of Some s \<Rightarrow> refuse swap_required_for_non_sol_pair | None \<Rightarrow> (Inr None, cache))
      else
        case vs_swap inp of
          None \<Rightarrow> refuse swap_required_for_non_sol_pair
        | Some swap \<Rightarrow>
            if \<not> vs_swapEnabled inp then refuse swap_disabled
            else if ss_sourcePoolAddress swap = pl_address tgt then refuse swap_source_equals_target
            else
              case bigint_of_string (ss_minAmountOut swap) of
                None \<Rightarrow> refuse swap_min_out_invalid
              | Some minOut \<Rightarrow>
                  if minOut \<le> 0 then refuse swap_min_out_invalid
                  else
                    case listSwapSourceCandidates ix \<lparr>rs_network = vs_network inp, rs_targetPoolAddress = pl_address tgt,
                           rs_nonSolMint = swap_mint tgt (ss_swapForY swap), rs_minTvlUsd = None\<rparr> cache of
                      (Inl e, c) \<Rightarrow> (Inl (ListingFailed e), c)
                    | (Inr candidates, c) \<Rightarrow>
                        (case List.find (\<lambda>k. pl_address (sc_pool k) = ss_sourcePoolAddress swap) candidates of
                           None \<Rightarrow> (Inl (SwapValidationError swap_source_unknown), c)
                         | Some match \<Rightarrow>
                             if \<not> (isSolMint (ti_mint (pl_tokenX (sc_pool match))) \<or> isSolMint (ti_mint (pl_tokenY (sc_pool match)))) then
                               (Inl (SwapValidationError swap_source_wrong_pair), c)
                             else (Inr (Some \<lparr>vi_sourcePool = sc_pool match, vi_minAmountOut = minOut, vi_swapForY = ss_swapForY swap\<rparr>), c)))"

definition recommendSourceForTarget ::
    "indexer \<Rightarrow> Network \<Rightarrow> string \<Rightarrow> js_num option \<Rightarrow> PoolSummary \<Rightarrow> bool \<Rightarrow> pairs_cache \<Rightarrow> (swap_error + PoolSummary) \<times> pairs_cache" where
  "recommendSourceForTarget ix network targetPoolAddress minTvlUsd targetPool swapForY cache =
     recommendSwapSource ix \<lparr>rs_network = network, rs_targetPoolAddress = targetPoolAddress,
       rs_nonSolMint = swap_mint targetPool swapForY, rs_minTvlUsd = minTvlUsd\<rparr> cache"

section \<open>Minimum output\<close>

definition MAX_SLIPPAGE_BPS :: int where "MAX_SLIPPAGE_BPS = 2000"

text \<open>\<open>a / b\<close> of two bigints cuts towards zero; \<open>BigInt(n)\<close> refuses a number with a fraction.\<close>

definition bigint_div :: "int \<Rightarrow> int \<Rightarrow> int" where
  "bigint_div a b = sgn a * sgn b * (\<bar>a\<bar> div \<bar>b\<bar>)"

definition BigInt_of_number :: "js_num \<Rightarrow> int option" where
  "BigInt_of_number x = (case x of Fin q \<Rightarrow> if q = of_int (floor q) then Some (floor q) else None | _ \<Rightarrow> None)"

definition computeMinAmountOut :: "int \<Rightarrow> js_num \<Rightarrow> swap_error + int" where
  "computeMinAmountOut expectedOut slippageBps =
     (if \<not> js_isFinite slippageBps \<or> js_gt (Fin 0) slippageBps then Inl (SwapValidationError swap_min_out_invalid)
      else
        let capped = min slippageBps (js_int MAX_SLIPPAGE_BPS); keep = js_sub (Fin 10000) capped in
        case BigInt_of_number keep of
          None \<Rightarrow> Inl (NotAnInteger keep)
        | Some k \<Rightarrow> Inr (bigint_div (expectedOut * k) 10000))"

section \<open>The swap source endpoint\<close>

datatype source_body =
    PoolNotFound
  | NoSwapNeeded
  | NoSwapSource string string
  | SwapSource PoolSummary "PoolSummary list" string
  | IndexerError string

datatype source_reply = Reply nat source_body | Threw dlmm_error

text \<open>
  The first lookup is outside the try block, the second inside: \<open>handleError\<close> answers an indexer
  error with its status and throws everything else.
\<close>

definition handleError :: "dlmm_error \<Rightarrow> source_reply" where
  "handleError e = (case e of MeteoraApiError status msg \<Rightarrow> Reply status (IndexerError msg) | _ \<Rightarrow> Threw e)"

definition getSwapSourceHandler ::
    "pool_reader \<Rightarrow> string \<Rightarrow> Network option \<Rightarrow> bool option \<Rightarrow> pairs_cache \<Rightarrow> source_reply \<times> pairs_cache" where
  "getSwapSourceHandler pr address optNetwork optSwapForY cache =
     (let network = (case optNetwork of None \<Rightarrow> Devnet | Some n \<Rightarrow> n);
          swapForY = (case optSwapForY of None \<Rightarrow> False | Some b \<Rightarrow> b)
      in case getPool pr address network of
           Inl e \<Rightarrow> (Threw e, cache)
         | Inr None \<Rightarrow> (Reply 404 PoolNotFound, cache)
         | Inr (Some tgt) \<Rightarrow>
             if sol_quoted tgt then (Reply 404 NoSwapNeeded, cache)
             else
               let nonSolMint = swap_mint tgt swapForY in
               case listSwapSourceCandidates (pr_indexer pr) \<lparr>rs_network = network, rs_targetPoolAddress = pl_address tgt,
                      rs_nonSolMint = nonSolMint, rs_minTvlUsd = None\<rparr> cache of
                 (Inl e, c) \<Rightarrow> (handleError e, c)
               | (Inr candidates, c) \<Rightarrow>
                   (case filter (\<lambda>k. \<not> sc_isTarget k) candidates of
                      [] \<Rightarrow> (Reply 422 (NoSwapSource (pl_address tgt) nonSolMint), c)
                    | k # ks \<Rightarrow> (Reply 200 (SwapSource (sc_pool k) (map sc_pool (k # ks)) (pl_address tgt)), c)))"

end
