(* ===== verification/DlmmQueries.thy ===== *)
theory DlmmQueries imports SwapPlanning begin

text \<open>
  The rest of dlmm.service.ts: one group of pools, candles, volume history, protocol metrics, and
  what is read through an instance of the DLMM SDK, with its cache: the bins around the active bin
  and swap quotes.  Then the handlers of dlmm.controller.ts.
\<close>

section \<open>Values of an untyped body\<close>

datatype js_any = Undefined | Null | Number js_num | Text string

definition Number_of :: "js_any \<Rightarrow> js_num" where
  "Number_of v = (case v of Undefined \<Rightarrow> NaN | Null \<Rightarrow> Fin 0 | Number n \<Rightarrow> n | Text s \<Rightarrow> number_of_string s)"

definition or_default :: "js_any \<Rightarrow> js_any \<Rightarrow> js_any" where
  "or_default v d = (if v = Undefined \<or> v = Null then d else v)"

text \<open>\<open>Math.floor\<close>, and \<open>Math.min\<close>, \<open>Math.max\<close>, which are NaN as soon as an argument is.\<close>

fun js_floor :: "js_num \<Rightarrow> js_num" where
  "js_floor (Fin a) = Fin (of_int (floor a))"
| "js_floor a = a"

definition js_min :: "js_num \<Rightarrow> js_num \<Rightarrow> js_num" where
  "js_min a b = (if a = NaN \<or> b = NaN then NaN else min a b)"

definition js_max :: "js_num \<Rightarrow> js_num \<Rightarrow> js_num" where
  "js_max a b = (if a = NaN \<or> b = NaN then NaN else max a b)"

text \<open>\<open>s.split('-')\<close> at 0 and 1.\<close>

definition before_dash :: "string \<Rightarrow> string" where
  "before_dash s = takeWhile (\<lambda>c. c \<noteq> CHR ''-'') s"

definition after_dash :: "string \<Rightarrow> string option" where
  "after_dash s = (if CHR ''-'' \<in> set s then Some (before_dash (tl (dropWhile (\<lambda>c. c \<noteq> CHR ''-'') s))) else None)"

section \<open>Groups\<close>

record PagedPairsByGroup =
  pbg_total :: "int option"
  pbg_pages :: "int option"
  pbg_current_page :: "int option"
  pbg_data :: "MeteoraPairDevnet list option"

definition getGroupDevnet :: "PagedPairsByGroup meteora \<Rightarrow> string \<Rightarrow> int option \<Rightarrow> int option \<Rightarrow> dlmm_error + PoolGroup" where
  "getGroupDevnet fetch mintPair optPage optSize =
     (let page = max 1 (case optPage of None \<Rightarrow> 1 | Some p \<Rightarrow> p);
          pageSize = max 1 (case optSize of None \<Rightarrow> 50 | Some n \<Rightarrow> n)
      in bind_res (fetchMeteora fetch Devnet (''/pair/groups/'' @ mintPair)
           [(''page'', string_of_bigint page), (''per_page'', string_of_bigint pageSize)]) (\<lambda>body.
         let rawPairs = (case pbg_data body of None \<Rightarrow> [] | Some ps \<Rightarrow> ps);
             total = (case pbg_total body of None \<Rightarrow> int (length rawPairs) | Some t \<Rightarrow> t)
         in Inr \<lparr>gr_name = mintPair, gr_pair = mintPair,
              gr_mintX = (case rawPairs of [] \<Rightarrow> before_dash mintPair | p # _ \<Rightarrow> md_mint_x p),
              gr_mintY = (case rawPairs of [] \<Rightarrow> (case after_dash mintPair of None \<Rightarrow> [] | Some y \<Rightarrow> y) | p # _ \<Rightarrow> md_mint_y p),
              gr_pools = map (\<lambda>p. mapPoolDevnet p Devnet) rawPairs, gr_total = total,
              gr_pages = (case pbg_pages body of None \<Rightarrow> max 1 (ceil_div total pageSize) | Some n \<Rightarrow> n),
              gr_currentPage = (case pbg_current_page body of None \<Rightarrow> page | Some n \<Rightarrow> n)\<rparr>))"

section \<open>Candles, volume and metrics\<close>

record OhlcvCandle =
  oc_open :: js_any
  oc_high :: js_any
  oc_low :: js_any
  oc_close :: js_any
  oc_volume :: js_any
  oc_timestamp :: js_any

text \<open>\<open>body.data ?? body ?? []\<close>: an array, an object with rows, or something that has no \<open>map\<close>.\<close>

datatype 'r rows_body = RowArray "'r list" | RowObject "'r list" | NoRows

definition rows_of :: "'r rows_body \<Rightarrow> dlmm_error + 'r list" where
  "rows_of body = (case body of RowArray rs \<Rightarrow> Inr rs | RowObject rs \<Rightarrow> Inr rs | NoRows \<Rightarrow> Inl (FetchFailed ''TypeError''))"

definition range_params :: "int option \<Rightarrow> int option \<Rightarrow> string option \<Rightarrow> (string \<times> string) list" where
  "range_params startTime endTime resolution =
     int_param ''start_time'' startTime @ int_param ''end_time'' endTime @ text_param ''resolution'' resolution"

definition getOhlcv ::
    "OhlcvCandle rows_body meteora \<Rightarrow> string \<Rightarrow> Network \<Rightarrow> int option \<Rightarrow> int option \<Rightarrow> string option \<Rightarrow> dlmm_error + OhlcvCandle list" where
  "getOhlcv fetch address network startTime endTime resolution =
     (if network = Devnet \<or> network = Localnet then Inr []
      else bind_res (fetchMeteora fetch network (''/pools/'' @ address @ ''/ohlcv'') (range_params startTime endTime resolution)) rows_of)"

record VolumeHistoryBucket =
  vb_timestamp :: js_any
  vb_volume :: js_any

record devnet_volume_row =
  vr_day_date :: js_any
  vr_trade_volume :: js_any

text \<open>\<open>getTime\<close> is \<open>new Date(s).getTime()\<close>.\<close>

definition volume_bucket :: "(string \<Rightarrow> js_num) \<Rightarrow> devnet_volume_row \<Rightarrow> VolumeHistoryBucket" where
  "volume_bucket getTime r =
     \<lparr>vb_timestamp = Number (case vr_day_date r of
          Text s \<Rightarrow> js_floor (js_div (getTime s) (Fin 1000))
        | v \<Rightarrow> or_zero (Number_of v)),
      vb_volume = Number (or_zero (Number_of (vr_trade_volume r)))\<rparr>"

datatype volume_body = VolumeArray "devnet_volume_row list" | VolumeObject "devnet_volume_row list option"

definition getVolumeHistoryDevnet ::
    "(string \<Rightarrow> js_num) \<Rightarrow> volume_body meteora \<Rightarrow> string \<Rightarrow> int option \<Rightarrow> int option \<Rightarrow> dlmm_error + VolumeHistoryBucket list" where
  "getVolumeHistoryDevnet getTime fetch address startTime endTime =
     bind_res (fetchMeteora fetch Devnet (''/pair/'' @ address @ ''/analytic/pair_trade_volume'')
       [(''num_of_days'', string_of_bigint (numDays startTime endTime))]) (\<lambda>body.
     Inr (map (volume_bucket getTime)
       (case body of VolumeArray rs \<Rightarrow> rs | VolumeObject None \<Rightarrow> [] | VolumeObject (Some rs) \<Rightarrow> rs)))"

definition getVolumeHistory ::
    "(string \<Rightarrow> js_num) \<Rightarrow> volume_body meteora \<Rightarrow> VolumeHistoryBucket rows_body meteora \<Rightarrow> string \<Rightarrow> Network \<Rightarrow>
      int option \<Rightarrow> int option \<Rightarrow> string option \<Rightarrow> dlmm_error + VolumeHistoryBucket list" where
  "getVolumeHistory getTime devnet mainnet address network startTime endTime resolution =
     (if network = Localnet then Inr []
      else if network = Devnet then getVolumeHistoryDevnet getTime devnet address startTime endTime
      else bind_res (fetchMeteora mainnet network (''/pools/'' @ address @ ''/volume/history'') (range_params startTime endTime resolution)) rows_of)"

record ProtocolMetrics =
  pm_totalTvl :: js_any
  pm_volume24h :: js_any
  pm_fee24h :: js_any
  pm_totalVolume :: js_any
  pm_totalFees :: js_any
  pm_totalPools :: js_any

text \<open>The metrics of an indexer by the name of the field; the devnet one may wrap them in an array.\<close>

datatype metrics_body = MetricsObject "string \<Rightarrow> js_any" | MetricsArray "(string \<Rightarrow> js_any) list"

definition zero_or_number :: "js_any \<Rightarrow> js_any" where
  "zero_or_number v = Number (or_zero (Number_of v))"

definition getProtocolMetrics ::
    "metrics_body meteora \<Rightarrow> (string \<Rightarrow> js_any) meteora \<Rightarrow> Network \<Rightarrow> dlmm_error + ProtocolMetrics" where
  "getProtocolMetrics devnet mainnet network =
     (let zero = Number (Fin 0) in
      case network of
        Localnet \<Rightarrow> Inr \<lparr>pm_totalTvl = zero, pm_volume24h = zero, pm_fee24h = zero, pm_totalVolume = zero, pm_totalFees = zero, pm_totalPools = zero\<rparr>
      | Devnet \<Rightarrow>
          bind_res (fetchMeteora devnet Devnet ''/info/protocol_metrics'' []) (\<lambda>raw.
          let body = (case raw of MetricsObject m \<Rightarrow> m | MetricsArray [] \<Rightarrow> (\<lambda>_. Undefined) | MetricsArray (m # _) \<Rightarrow> m)
          in Inr \<lparr>pm_totalTvl = zero_or_number (body ''total_tvl''), pm_volume24h = zero_or_number (body ''daily_trade_volume''),
               pm_fee24h = zero_or_number (body ''daily_fee''), pm_totalVolume = zero_or_number (body ''total_trade_volume''),
               pm_totalFees = zero_or_number (body ''total_fee''), pm_totalPools = zero\<rparr>)
      | Mainnet \<Rightarrow>
          bind_res (fetchMeteora mainnet network ''/stats/protocol_metrics'' []) (\<lambda>body.
          Inr \<lparr>pm_totalTvl = body ''total_tvl'', pm_volume24h = body ''volume_24h'', pm_fee24h = body ''fee_24h'',
            pm_totalVolume = body ''total_volume'', pm_totalFees = body ''total_fees'', pm_totalPools = body ''total_pools''\<rparr>))"

section \<open>Instances of the SDK\<close>

record raw_bin =
  rb_binId :: int
  rb_price :: string
  rb_xAmount :: "string option"
  rb_yAmount :: "string option"

record raw_quote =
  rq_outAmount :: string
  rq_minOutAmount :: string
  rq_consumedInAmount :: string
  rq_fee :: string
  rq_priceImpact :: string
  rq_endPrice :: string

text \<open>
  An instance answers from the chain; \<open>di_bn\<close> is \<open>new BN(n)\<close>, which refuses what is no safe number.
\<close>

record dlmm_instance =
  di_decimalsX :: "int option"
  di_decimalsY :: "int option"
  di_binStep :: "int option"
  di_binsAround :: "int \<Rightarrow> int \<Rightarrow> string + int \<times> raw_bin list"
  di_binArrays :: "bool \<Rightarrow> int \<Rightarrow> string + string list"
  di_bn :: "js_num \<Rightarrow> string + int"
  di_quote :: "int \<Rightarrow> bool \<Rightarrow> int \<Rightarrow> string list \<Rightarrow> string + raw_quote"

definition DLMM_CACHE_TTL_MS :: int where "DLMM_CACHE_TTL_MS = 30000"

type_synonym dlmm_cache = "Network \<times> string \<Rightarrow> (dlmm_instance \<times> int) option"

text \<open>\<open>now\<close> is the clock of the check, \<open>later\<close> that after the instance was created.\<close>

definition getDlmmInstance ::
    "(Network \<Rightarrow> string \<Rightarrow> string + dlmm_instance) \<Rightarrow> int \<Rightarrow> int \<Rightarrow> string \<Rightarrow> Network \<Rightarrow> dlmm_cache \<Rightarrow> (string + dlmm_instance) \<times> dlmm_cache" where
  "getDlmmInstance create now later address network cache =
     (let miss = (case create network address of
            Inl e \<Rightarrow> (Inl e, cache)
          | Inr i \<Rightarrow> (Inr i, cache((network, address) \<mapsto> (i, later))))
      in case cache (network, address) of
           Some (i, createdAt) \<Rightarrow> if now - createdAt < DLMM_CACHE_TTL_MS then (Inr i, cache) else miss
         | None \<Rightarrow> miss)"

definition decimalize :: "(js_num \<Rightarrow> js_num \<Rightarrow> js_num) \<Rightarrow> string option \<Rightarrow> int \<Rightarrow> js_num" where
  "decimalize pow raw decimals =
     (case raw of
        None \<Rightarrow> Fin 0
      | Some s \<Rightarrow>
          let n = number_of_string s in
          if \<not> js_isFinite n then Fin 0 else js_div n (pow (Fin 10) (js_int decimals)))"

definition bnToString :: "string option \<Rightarrow> string" where
  "bnToString raw = (case raw of None \<Rightarrow> ''0'' | Some s \<Rightarrow> s)"

record LiquidityBin =
  lb_binId :: int
  lb_price :: js_num
  lb_liquidity :: js_num
  lb_xAmount :: string
  lb_yAmount :: string

record PoolBins =
  pb_address :: string
  pb_network :: Network
  pb_activeBinId :: int
  pb_binStep :: int
  pb_bins :: "LiquidityBin list"

definition liquidity_bin :: "(js_num \<Rightarrow> js_num \<Rightarrow> js_num) \<Rightarrow> int \<Rightarrow> int \<Rightarrow> raw_bin \<Rightarrow> LiquidityBin" where
  "liquidity_bin pow decX decY b =
     (let price = number_of_string (rb_price b);
          x = decimalize pow (rb_xAmount b) decX;
          y = decimalize pow (rb_yAmount b) decY
      in \<lparr>lb_binId = rb_binId b, lb_price = price,
          lb_liquidity = js_add y (if js_isFinite price then js_mul x price else Fin 0),
          lb_xAmount = bnToString (rb_xAmount b), lb_yAmount = bnToString (rb_yAmount b)\<rparr>)"

text \<open>What one call sees of the SDK and the clock.\<close>

record dlmm_sdk =
  ds_create :: "Network \<Rightarrow> string \<Rightarrow> string + dlmm_instance"
  ds_pow :: "js_num \<Rightarrow> js_num \<Rightarrow> js_num"
  ds_now :: int
  ds_later :: int

definition with_instance ::
    "dlmm_sdk \<Rightarrow> string \<Rightarrow> Network \<Rightarrow> dlmm_cache \<Rightarrow> (dlmm_instance \<Rightarrow> dlmm_error + 'a) \<Rightarrow> (dlmm_error + 'a) \<times> dlmm_cache" where
  "with_instance sdk address network cache k =
     (case getDlmmInstance (ds_create sdk) (ds_now sdk) (ds_later sdk) address network cache of
        (Inl e, c) \<Rightarrow> (Inl (MeteoraApiError 404 (''DLMM pool not found: '' @ e)), c)
      | (Inr i, c) \<Rightarrow> (k i, c))"

definition getPoolBins :: "dlmm_sdk \<Rightarrow> string \<Rightarrow> Network \<Rightarrow> int option \<Rightarrow> dlmm_cache \<Rightarrow> (dlmm_error + PoolBins) \<times> dlmm_cache" where
  "getPoolBins sdk address network wanted cache =
     (let half = bin_window wanted in
      with_instance sdk address network cache (\<lambda>dlmm.
      case di_binsAround dlmm half half of
        Inl e \<Rightarrow> Inl (FetchFailed e)
      | Inr (activeBin, bins) \<Rightarrow>
          let decX = (case di_decimalsX dlmm of None \<Rightarrow> 0 | Some d \<Rightarrow> d);
              decY = (case di_decimalsY dlmm of None \<Rightarrow> 0 | Some d \<Rightarrow> d)
          in Inr \<lparr>pb_address = address, pb_network = network, pb_activeBinId = activeBin,
               pb_binStep = (case di_binStep dlmm of None \<Rightarrow> 0 | Some s \<Rightarrow> s),
               pb_bins = map (liquidity_bin (ds_pow sdk) decX decY) bins\<rparr>))"

record SwapQuoteResult =
  sq_amountIn :: string
  sq_expectedOut :: string
  sq_minOut :: string
  sq_allowedSlippageBps :: js_num
  sq_consumedIn :: string
  sq_feeLamports :: string
  sq_priceImpact :: string
  sq_endPrice :: string
  sq_swapForY :: bool

definition getSwapQuote ::
    "dlmm_sdk \<Rightarrow> string \<Rightarrow> Network \<Rightarrow> int \<Rightarrow> bool \<Rightarrow> js_num option \<Rightarrow> dlmm_cache \<Rightarrow> (dlmm_error + SwapQuoteResult) \<times> dlmm_cache" where
  "getSwapQuote sdk address network amountIn swapForY optSlippage cache =
     (let allowedSlippageBps = js_max (Fin 0) (js_min (case optSlippage of None \<Rightarrow> Fin 500 | Some b \<Rightarrow> b) (Fin 2000)) in
      with_instance sdk address network cache (\<lambda>dlmm.
      case di_binArrays dlmm swapForY 4 of
        Inl e \<Rightarrow> Inl (FetchFailed e)
      | Inr binArrays \<Rightarrow>
          (case di_bn dlmm allowedSlippageBps of
             Inl e \<Rightarrow> Inl (FetchFailed e)
           | Inr slippage \<Rightarrow>
               (case di_quote dlmm amountIn swapForY slippage binArrays of
                  Inl e \<Rightarrow> Inl (MeteoraApiError 422
                    (''Swap quote failed: '' @ e @ ''. Pool may have insufficient liquidity in the requested direction.''))
                | Inr quote \<Rightarrow> Inr \<lparr>sq_amountIn = string_of_bigint amountIn, sq_expectedOut = rq_outAmount quote,
                    sq_minOut = rq_minOutAmount quote, sq_allowedSlippageBps = allowedSlippageBps,
                    sq_consumedIn = rq_consumedInAmount quote, sq_feeLamports = rq_fee quote,
                    sq_priceImpact = rq_priceImpact quote, sq_endPrice = rq_endPrice quote, sq_swapForY = swapForY\<rparr>))))"

section \<open>Handlers\<close>

datatype 'a dlmm_reply = Ok 'a | Status nat string | Thrown dlmm_error

definition plain_reply :: "dlmm_error + 'a \<Rightarrow> 'a dlmm_reply" where
  "plain_reply r = (case r of Inl e \<Rightarrow> Thrown e | Inr a \<Rightarrow> Ok a)"

text \<open>\<open>handleError\<close> in a catch.\<close>

definition handled_reply :: "dlmm_error + 'a \<Rightarrow> 'a dlmm_reply" where
  "handled_reply r =
     (case r of Inr a \<Rightarrow> Ok a | Inl (MeteoraApiError status msg) \<Rightarrow> Status status msg | Inl (FetchFailed e) \<Rightarrow> Thrown (FetchFailed e))"

definition network_or_devnet :: "Network option \<Rightarrow> Network" where
  "network_or_devnet n = (case n of None \<Rightarrow> Devnet | Some m \<Rightarrow> m)"

definition listPoolsHandler :: "indexer \<Rightarrow> Network option \<Rightarrow> ListOpts \<Rightarrow> pairs_cache \<Rightarrow> PoolSummary PaginatedResponse dlmm_reply \<times> pairs_cache" where
  "listPoolsHandler ix network opts cache = (case dlmm_listPools ix (network_or_devnet network) opts cache of (r, c) \<Rightarrow> (plain_reply r, c))"

definition getPoolHandler :: "pool_reader \<Rightarrow> string \<Rightarrow> Network option \<Rightarrow> PoolDetail dlmm_reply" where
  "getPoolHandler pr address network =
     (case getPool pr address (network_or_devnet network) of
        Inl e \<Rightarrow> Thrown e
      | Inr None \<Rightarrow> Status 404 ''Pool not found''
      | Inr (Some pool) \<Rightarrow> Ok pool)"

definition getPoolBinsHandler :: "dlmm_sdk \<Rightarrow> string \<Rightarrow> Network option \<Rightarrow> int option \<Rightarrow> dlmm_cache \<Rightarrow> PoolBins dlmm_reply \<times> dlmm_cache" where
  "getPoolBinsHandler sdk address network wanted cache =
     (case getPoolBins sdk address (network_or_devnet network) wanted cache of (r, c) \<Rightarrow> (handled_reply r, c))"

definition getOhlcvHandler ::
    "OhlcvCandle rows_body meteora \<Rightarrow> string \<Rightarrow> Network option \<Rightarrow> int option \<Rightarrow> int option \<Rightarrow> string option \<Rightarrow> OhlcvCandle list dlmm_reply" where
  "getOhlcvHandler fetch address network startTime endTime resolution =
     plain_reply (getOhlcv fetch address (network_or_devnet network) startTime endTime resolution)"

definition getVolumeHistoryHandler ::
    "(string \<Rightarrow> js_num) \<Rightarrow> volume_body meteora \<Rightarrow> VolumeHistoryBucket rows_body meteora \<Rightarrow> string \<Rightarrow> Network option \<Rightarrow>
      int option \<Rightarrow> int option \<Rightarrow> string option \<Rightarrow> VolumeHistoryBucket list dlmm_reply" where
  "getVolumeHistoryHandler getTime devnet mainnet address network startTime endTime resolution =
     plain_reply (getVolumeHistory getTime devnet mainnet address (network_or_devnet network) startTime endTime resolution)"

definition getProtocolMetricsHandler :: "metrics_body meteora \<Rightarrow> (string \<Rightarrow> js_any) meteora \<Rightarrow> Network option \<Rightarrow> ProtocolMetrics dlmm_reply" where
  "getProtocolMetricsHandler devnet mainnet network = plain_reply (getProtocolMetrics devnet mainnet (network_or_devnet network))"

text \<open>The query of a quote: texts as the query parser leaves them; \<open>swapForY\<close> may be a boolean, a number or a text.\<close>

datatype query_flag = FlagBool bool | FlagNumber js_num | FlagText string | FlagMissing

definition flag_set :: "query_flag \<Rightarrow> bool" where
  "flag_set f = (f = FlagBool True \<or> f = FlagText ''true'' \<or> f = FlagNumber (Fin 1) \<or> f = FlagText ''1'')"

record SwapQuoteQuery =
  qq_network :: "Network option"
  qq_amountIn :: "string option"
  qq_swapForY :: query_flag
  qq_allowedSlippageBps :: "js_any"

definition getSwapQuoteHandler :: "dlmm_sdk \<Rightarrow> string \<Rightarrow> SwapQuoteQuery \<Rightarrow> dlmm_cache \<Rightarrow> SwapQuoteResult dlmm_reply \<times> dlmm_cache" where
  "getSwapQuoteHandler sdk address q cache =
     (case qq_amountIn q of
        None \<Rightarrow> (Status 400 ''amountIn is required (lamports as decimal string).'', cache)
      | Some t \<Rightarrow>
          if t = [] then (Status 400 ''amountIn is required (lamports as decimal string).'', cache)
          else
            case bigint_of_string t of
              None \<Rightarrow> (Status 400 (''amountIn must be a positive lamports integer: Cannot convert '' @ t @ '' to a BigInt''), cache)
            | Some amountIn \<Rightarrow>
                if amountIn \<le> 0 then (Status 400 ''amountIn must be a positive lamports integer: amountIn must be > 0'', cache)
                else
                  case getSwapQuote sdk address (network_or_devnet (qq_network q)) amountIn (flag_set (qq_swapForY q))
                      (if qq_allowedSlippageBps q = Undefined then None else Some (Number_of (qq_allowedSlippageBps q))) cache of
                    (r, c) \<Rightarrow> (handled_reply r, c))"

section \<open>Quotes\<close>

text \<open>What a quote endpoint may answer.\<close>

definition quote_answer :: "dlmm_sdk \<Rightarrow> string \<Rightarrow> SwapQuoteQuery \<Rightarrow> dlmm_cache \<Rightarrow> SwapQuoteResult dlmm_reply \<times> dlmm_cache \<Rightarrow> bool" where
  "quote_answer sdk address q cache answer \<longleftrightarrow>
     (let n = Option.bind (qq_amountIn q) (\<lambda>t. if t = [] then None else bigint_of_string t);
          network = network_or_devnet (qq_network q);
          opened = getDlmmInstance (ds_create sdk) (ds_now sdk) (ds_later sdk) address network cache
      in case answer of
        (Ok r, c) \<Rightarrow> (\<exists>k i. n = Some k \<and> 0 < k \<and> opened = (Inr i, c) \<and> sq_amountIn r = string_of_bigint k \<and>
            (sq_allowedSlippageBps r = NaN \<or> (Fin 0 \<le> sq_allowedSlippageBps r \<and> sq_allowedSlippageBps r \<le> Fin 2000)) \<and>
            (\<exists>slippage arrays quote. di_bn i (sq_allowedSlippageBps r) = Inr slippage \<and>
               di_quote i k (flag_set (qq_swapForY q)) slippage arrays = Inr quote \<and>
               sq_minOut r = rq_minOutAmount quote \<and> sq_expectedOut r = rq_outAmount quote))
      | (Status s m, c) \<Rightarrow>
          (s = 400 \<and> c = cache \<and> (\<forall>k. n = Some k \<longrightarrow> k \<le> 0)) \<or>
          (s = 404 \<and> (\<exists>k e. n = Some k \<and> 0 < k \<and> opened = (Inl e, c))) \<or>
          (s = 422 \<and> (\<exists>k i. n = Some k \<and> 0 < k \<and> opened = (Inr i, c)))
      | (Thrown e, c) \<Rightarrow> (\<exists>k i. n = Some k \<and> 0 < k \<and> opened = (Inr i, c)))"

lemma clamped: "js_max (Fin 0) (js_min b (Fin 2000)) = NaN \<or>
    (Fin 0 \<le> js_max (Fin 0) (js_min b (Fin 2000)) \<and> js_max (Fin 0) (js_min b (Fin 2000)) \<le> Fin 2000)"
  by (auto simp: js_max_def js_min_def)

theorem swap_quotes_decided: "quote_answer sdk address q cache (getSwapQuoteHandler sdk address q cache)"
proof (cases "Option.bind (qq_amountIn q) (\<lambda>t. if t = [] then None else bigint_of_string t)")
  case None
  then show ?thesis by (auto simp: quote_answer_def getSwapQuoteHandler_def split: option.splits)
next
  case (Some k)
  then obtain t where t: "qq_amountIn q = Some t" "t \<noteq> []" "bigint_of_string t = Some k"
    by (cases "qq_amountIn q") (auto split: if_splits)
  show ?thesis
  proof (cases "0 < k")
    case False
    with t show ?thesis by (simp add: quote_answer_def getSwapQuoteHandler_def)
  next
    case True
    let ?net = "network_or_devnet (qq_network q)"
    let ?open = "getDlmmInstance (ds_create sdk) (ds_now sdk) (ds_later sdk) address ?net cache"
    obtain o' c where o: "?open = (o', c)" by fastforce
    let ?b = "js_max (Fin 0) (js_min (case if qq_allowedSlippageBps q = Undefined then None else Some (Number_of (qq_allowedSlippageBps q)) of
        None \<Rightarrow> Fin 500 | Some b \<Rightarrow> b) (Fin 2000))"
    show ?thesis using t True o clamped
      by (cases o') (auto simp: quote_answer_def getSwapQuoteHandler_def getSwapQuote_def with_instance_def handled_reply_def Let_def
        split: sum.splits dlmm_error.splits)
  qed
qed

end
