(* ===== verification/SwapProperties.thy ===== *)
theory SwapProperties imports SwapPlanning begin

text \<open>
  The wire format against a reader of its documented layout, and what the choice of a swap
  source, a swap intent and the minimum output promise.
\<close>

section \<open>Wire format\<close>

definition read_u :: "nat \<Rightarrow> nat \<Rightarrow> bytes \<Rightarrow> int" where
  "read_u pos n bs = be_value (rev (take n (drop pos bs)))"

definition read_i32 :: "nat \<Rightarrow> bytes \<Rightarrow> int" where
  "read_i32 pos bs = (let v = read_u pos 4 bs in if 2 ^ 31 \<le> v then v - 2 ^ 32 else v)"

definition decodeLiquidityParams :: "bytes \<Rightarrow> LiquidityParams option" where
  "decodeLiquidityParams bs =
     (if length bs \<noteq> 97 \<or> drop 33 bs \<noteq> replicate 64 0 then None
      else Some \<lparr>lp_amountX = read_u 0 8 bs, lp_amountY = read_u 8 8 bs, lp_activeId = read_i32 16 bs,
        lp_maxActiveBinSlippage = read_i32 20 bs, lp_minBinId = read_i32 24 bs, lp_maxBinId = read_i32 28 bs,
        lp_strategyType = Some (read_u 32 1 bs)\<rparr>)"

definition fits_u64 :: "int \<Rightarrow> bool" where "fits_u64 v \<longleftrightarrow> 0 \<le> v \<and> v < 2 ^ 64"
definition fits_i32 :: "int \<Rightarrow> bool" where "fits_i32 v \<longleftrightarrow> - (2 ^ 31) \<le> v \<and> v < 2 ^ 31"

definition encodable :: "LiquidityParams \<Rightarrow> bool" where
  "encodable p \<longleftrightarrow> fits_u64 (lp_amountX p) \<and> fits_u64 (lp_amountY p) \<and> fits_i32 (lp_activeId p) \<and>
     fits_i32 (lp_maxActiveBinSlippage p) \<and> fits_i32 (lp_minBinId p) \<and> fits_i32 (lp_maxBinId p) \<and>
     (\<exists>s. lp_strategyType p = Some s \<and> 0 \<le> s \<and> s < 256)"

lemma read_u_at: "length pre = pos \<Longrightarrow> length field = n \<Longrightarrow> read_u pos n (pre @ field @ rest) = be_value (rev field)"
  by (simp add: read_u_def)

lemma write_u64_cases:
  "(\<exists>bs. write_u64 v = Inr bs \<and> length bs = 8 \<and> be_value (rev bs) = v \<and> fits_u64 v) \<or> (\<exists>e. write_u64 v = Inl e \<and> \<not> fits_u64 v)"
  by (auto simp: write_u64_def fits_u64_def be_value_be_bytes simp del: be_bytes.simps)

lemma write_i32_cases:
  "(\<exists>bs. write_i32 v = Inr bs \<and> length bs = 4 \<and> be_value (rev bs) = v mod 2 ^ 32 \<and> fits_i32 v) \<or>
   (\<exists>e. write_i32 v = Inl e \<and> \<not> fits_i32 v)"
  by (auto simp: write_i32_def fits_i32_def be_value_be_bytes simp del: be_bytes.simps)

lemma i32_of_mod:
  "fits_i32 v \<Longrightarrow> (if 2 ^ 31 \<le> v mod 2 ^ 32 then v mod 2 ^ 32 - 2 ^ 32 else v mod 2 ^ 32) = v"
  unfolding fits_i32_def
proof (cases "0 \<le> v")
  case True
  assume "- (2 ^ 31) \<le> v \<and> v < 2 ^ 31"
  with True have "v mod 2 ^ 32 = v" by simp
  with \<open>_ \<and> _\<close> show ?thesis by simp
next
  case False
  assume a: "- (2 ^ 31) \<le> v \<and> v < 2 ^ 31"
  have "v mod 2 ^ 32 = (v + 2 ^ 32) mod 2 ^ 32" by simp
  also have "\<dots> = v + 2 ^ 32" using a False by (intro mod_pos_pos_trivial) simp_all
  finally show ?thesis using a by simp
qed

lemma write_u8_cases:
  "(\<exists>b s. write_u8 v = Inr [b] \<and> v = Some s \<and> uint b = s \<and> 0 \<le> s \<and> s < 256) \<or>
   (\<exists>e. write_u8 v = Inl e \<and> \<not> (\<exists>s. v = Some s \<and> 0 \<le> s \<and> s < 256))"
  by (cases v) (auto simp: write_u8_def unsigned_of_int take_bit_int_eq_self)

lemma written:
  "write_u64 v = Inr bs \<Longrightarrow> fits_u64 v"
  "write_i32 v = Inr bs \<Longrightarrow> fits_i32 v"
  "write_u8 t = Inr bs \<Longrightarrow> \<exists>s. t = Some s \<and> 0 \<le> s \<and> s < 256"
  by (auto simp: write_u64_def fits_u64_def write_i32_def fits_i32_def write_u8_def split: if_splits option.splits)

lemma encoded_encodable: "encodeLiquidityParamsByStrategy p = Inr bs \<Longrightarrow> encodable p"
  unfolding encodeLiquidityParamsByStrategy_def bind_res_Inr encodable_def using written by blast

lemma liquidity_encoded:
  "case encodeLiquidityParamsByStrategy p of
     Inr bs \<Rightarrow> encodable p \<and> length bs = 97 \<and> decodeLiquidityParams bs = Some p
   | Inl e \<Rightarrow> \<not> encodable p"
proof (cases "encodable p")
  case False
  then show ?thesis
    using encoded_encodable by (cases "encodeLiquidityParamsByStrategy p") auto
next
  case True
  then have ok: "fits_u64 (lp_amountX p)" "fits_u64 (lp_amountY p)" "fits_i32 (lp_activeId p)" "fits_i32 (lp_maxActiveBinSlippage p)"
    "fits_i32 (lp_minBinId p)" "fits_i32 (lp_maxBinId p)" "\<exists>s. lp_strategyType p = Some s \<and> 0 \<le> s \<and> s < 256"
    by (simp_all add: encodable_def)
  obtain x where x: "write_u64 (lp_amountX p) = Inr x" "length x = 8" "be_value (rev x) = lp_amountX p"
    using write_u64_cases ok(1) by metis
  obtain y where y: "write_u64 (lp_amountY p) = Inr y" "length y = 8" "be_value (rev y) = lp_amountY p"
    using write_u64_cases ok(2) by metis
  obtain a where a: "write_i32 (lp_activeId p) = Inr a" "length a = 4" "be_value (rev a) = lp_activeId p mod 2 ^ 32"
    using write_i32_cases ok(3) by metis
  obtain b where b: "write_i32 (lp_maxActiveBinSlippage p) = Inr b" "length b = 4" "be_value (rev b) = lp_maxActiveBinSlippage p mod 2 ^ 32"
    using write_i32_cases ok(4) by metis
  obtain l where l: "write_i32 (lp_minBinId p) = Inr l" "length l = 4" "be_value (rev l) = lp_minBinId p mod 2 ^ 32"
    using write_i32_cases ok(5) by metis
  obtain h where h: "write_i32 (lp_maxBinId p) = Inr h" "length h = 4" "be_value (rev h) = lp_maxBinId p mod 2 ^ 32"
    using write_i32_cases ok(6) by metis
  obtain s n where s: "write_u8 (lp_strategyType p) = Inr [s]" "lp_strategyType p = Some n" "uint s = n"
    using write_u8_cases ok(7) by metis
  let ?z = "replicate 64 0 :: bytes" and ?bs = "x @ y @ a @ b @ l @ h @ [s] @ replicate 64 (0 :: byte)"
  have e: "encodeLiquidityParamsByStrategy p = Inr ?bs"
    by (simp add: encodeLiquidityParamsByStrategy_def bind_res_def x y a b l h s(1) [unfolded s(2)] s(2))
  have r: "read_u 0 8 ?bs = lp_amountX p" "read_u 8 8 ?bs = lp_amountY p" "read_u 16 4 ?bs = lp_activeId p mod 2 ^ 32"
    "read_u 20 4 ?bs = lp_maxActiveBinSlippage p mod 2 ^ 32" "read_u 24 4 ?bs = lp_minBinId p mod 2 ^ 32"
    "read_u 28 4 ?bs = lp_maxBinId p mod 2 ^ 32"
    by (simp_all add: read_u_def x y a b l h)
  have r8: "read_u 32 1 ?bs = n" by (simp add: read_u_def x y a b l h be_value_def s(3))
  have tail: "drop 33 ?bs = ?z" by (simp add: x y a b l h)
  have len: "length ?bs = 97" by (simp add: x y a b l h)
  have i: "read_i32 16 ?bs = lp_activeId p" "read_i32 20 ?bs = lp_maxActiveBinSlippage p" "read_i32 24 ?bs = lp_minBinId p"
    "read_i32 28 ?bs = lp_maxBinId p"
    unfolding read_i32_def Let_def r using i32_of_mod ok by blast+
  have "decodeLiquidityParams ?bs = Some p"
    unfolding decodeLiquidityParams_def len tail i r r8 s(2) [symmetric] by simp
  with True e len show ?thesis by simp
qed


text \<open>
  C40. Round trip: the parameters of a liquidity instruction are written to exactly 97 bytes that the
  documented layout reads back, and they are refused exactly when a field does not fit.
\<close>

theorem liquidity_params_roundtrip:
  "case encodeLiquidityParamsByStrategy p of
     Inr bs \<Rightarrow> encodable p \<and> length bs = 97 \<and> decodeLiquidityParams bs = Some p
   | Inl e \<Rightarrow> \<not> encodable p"
  by (rule liquidity_encoded)

section \<open>Swap sources\<close>

definition min_tvl :: "ResolveSwapSourceInput \<Rightarrow> js_num" where
  "min_tvl inp = (case rs_minTvlUsd inp of None \<Rightarrow> Fin 50000 | Some t \<Rightarrow> t)"

text \<open>A pool a swap may go through: not the target, paired with SOL, and deep enough.\<close>

definition usable_source :: "ResolveSwapSourceInput \<Rightarrow> PoolSummary \<Rightarrow> bool" where
  "usable_source inp pool \<longleftrightarrow>
     pl_address pool \<noteq> rs_targetPoolAddress inp \<and> poolContainsBothMints pool (rs_nonSolMint inp) NATIVE_SOL_MINT \<and>
     js_ge_num (pl_tvl pool) (min_tvl inp)"

definition usable_sources :: "ResolveSwapSourceInput \<Rightarrow> PoolSummary list \<Rightarrow> PoolSummary list" where
  "usable_sources inp pools = map sc_pool (filter (\<lambda>k. \<not> sc_isTarget k) (source_candidates inp pools))"

lemma candidate_flag: "c \<in> set (source_candidates inp pools) \<Longrightarrow> sc_isTarget c \<longleftrightarrow> pl_address (sc_pool c) = rs_targetPoolAddress inp"
  by (auto simp: source_candidates_def Let_def)

lemma set_usable: "set (usable_sources inp pools) = {p \<in> set pools. usable_source inp p}"
proof (intro set_eqI iffI)
  fix p assume "p \<in> set (usable_sources inp pools)"
  then show "p \<in> {p \<in> set pools. usable_source inp p}"
    by (auto simp: usable_sources_def source_candidates_def Let_def usable_source_def min_tvl_def)
next
  fix p assume "p \<in> {p \<in> set pools. usable_source inp p}"
  then have "\<lparr>sc_pool = p, sc_isTarget = False\<rparr> \<in> set (filter (\<lambda>k. \<not> sc_isTarget k) (source_candidates inp pools))"
    by (auto simp: source_candidates_def Let_def usable_source_def min_tvl_def)
  then have "sc_pool \<lparr>sc_pool = p, sc_isTarget = False\<rparr> \<in> set (usable_sources inp pools)"
    unfolding usable_sources_def set_map by (rule imageI)
  then show "p \<in> set (usable_sources inp pools)" by simp
qed

lemma usable_sorted:
  "usable_sources inp pools = p # ps \<Longrightarrow> q \<in> set pools \<Longrightarrow> usable_source inp q \<Longrightarrow> pl_tvl q \<le> pl_tvl p"
proof -
  assume u: "usable_sources inp pools = p # ps" and q: "q \<in> set pools" "usable_source inp q"
  have "sorted_wrt (\<lambda>a b. js_neg (pl_tvl (sc_pool a)) \<le> js_neg (pl_tvl (sc_pool b))) (source_candidates inp pools)"
    by (simp add: source_candidates_def Let_def sort_desc_def sort_key_stable_sorted)
  then have "sorted_wrt (\<lambda>a b. js_neg (pl_tvl a) \<le> js_neg (pl_tvl b)) (usable_sources inp pools)"
    by (simp add: usable_sources_def sorted_wrt_map sorted_wrt_filter)
  moreover have "q \<in> set (p # ps)" and p: "usable_source inp p" using q set_usable [of inp pools] u by auto
  ultimately have "js_neg (pl_tvl p) \<le> js_neg (pl_tvl q)" by (auto simp: u)
  then show ?thesis using q p by (simp add: js_neg_le usable_source_def js_ge_num_def)
qed

fun source_answer :: "pool_reader \<Rightarrow> string \<Rightarrow> Network \<Rightarrow> bool \<Rightarrow> pairs_cache \<Rightarrow> source_reply \<Rightarrow> bool" where
  "source_answer pr address network swapForY cache (Threw e) \<longleftrightarrow>
     getPool pr address network = Inl e \<or> fst (dlmm_listPools (pr_indexer pr) network source_query cache) = Inl e"
| "source_answer pr address network swapForY cache (Reply code body) \<longleftrightarrow>
     (case body of
        PoolNotFound \<Rightarrow> code = 404 \<and> getPool pr address network = Inr None
      | IndexerError msg \<Rightarrow> fst (dlmm_listPools (pr_indexer pr) network source_query cache) = Inl (MeteoraApiError code msg)
      | NoSwapNeeded \<Rightarrow> code = 404 \<and> (\<exists>tgt. getPool pr address network = Inr (Some tgt) \<and> sol_quoted tgt)
      | NoSwapSource addr mint \<Rightarrow> code = 422 \<and>
          (\<exists>tgt page c inp. getPool pr address network = Inr (Some tgt) \<and> \<not> sol_quoted tgt \<and>
             dlmm_listPools (pr_indexer pr) network source_query cache = (Inr page, c) \<and>
             inp = \<lparr>rs_network = network, rs_targetPoolAddress = pl_address tgt, rs_nonSolMint = swap_mint tgt swapForY, rs_minTvlUsd = None\<rparr> \<and>
             addr = pl_address tgt \<and> mint = swap_mint tgt swapForY \<and>
             filter (usable_source inp) (pg_data page) = [])
      | SwapSource best all addr \<Rightarrow> code = 200 \<and>
          (\<exists>tgt page c inp. getPool pr address network = Inr (Some tgt) \<and> \<not> sol_quoted tgt \<and>
             dlmm_listPools (pr_indexer pr) network source_query cache = (Inr page, c) \<and>
             inp = \<lparr>rs_network = network, rs_targetPoolAddress = pl_address tgt, rs_nonSolMint = swap_mint tgt swapForY, rs_minTvlUsd = None\<rparr> \<and>
             addr = pl_address tgt \<and> set all = set (filter (usable_source inp) (pg_data page)) \<and> all = best # tl all \<and>
             list_all (\<lambda>p. pl_tvl p \<le> pl_tvl best) all))"

text \<open>
  Functional: the swap source endpoint never recommends the target pool.  It answers 404 exactly
  for a missing or SOL-paired target, 422 when no other pool pairs the token with SOL above the
  liquidity threshold, and otherwise lists exactly those pools with the deepest recommended.
\<close>

theorem swap_source_is_deepest:
  "source_answer pr address (case optNetwork of None \<Rightarrow> Devnet | Some n \<Rightarrow> n) (case optSwapForY of None \<Rightarrow> False | Some b \<Rightarrow> b) cache
     (fst (getSwapSourceHandler pr address optNetwork optSwapForY cache))"
proof -
  define network where "network = (case optNetwork of None \<Rightarrow> Devnet | Some n \<Rightarrow> n)"
  define swapForY where "swapForY = (case optSwapForY of None \<Rightarrow> False | Some b \<Rightarrow> b)"
  note defs = getSwapSourceHandler_def Let_def network_def [symmetric] swapForY_def [symmetric]
  consider (err) e where "getPool pr address network = Inl e" | (none) "getPool pr address network = Inr None"
    | (sol) tgt where "getPool pr address network = Inr (Some tgt)" "sol_quoted tgt"
    | (ask) tgt where "getPool pr address network = Inr (Some tgt)" "\<not> sol_quoted tgt"
  proof (cases "getPool pr address network")
    case (Inr o')
    then show ?thesis by (cases o') (use none sol ask in auto)
  qed (use err in auto)
  then have "source_answer pr address network swapForY cache (fst (getSwapSourceHandler pr address optNetwork optSwapForY cache))"
  proof cases
    case ask
    let ?inp = "\<lparr>rs_network = network, rs_targetPoolAddress = pl_address tgt, rs_nonSolMint = swap_mint tgt swapForY, rs_minTvlUsd = None\<rparr>"
    show ?thesis
    proof (cases "dlmm_listPools (pr_indexer pr) network source_query cache")
      case (Pair r c)
      show ?thesis
      proof (cases r)
        case (Inl e)
        then show ?thesis using ask Pair
          by (cases e) (simp_all add: defs listSwapSourceCandidates_def handleError_def)
      next
        case (Inr page)
        have u: "map sc_pool (filter (\<lambda>k. \<not> sc_isTarget k) (source_candidates ?inp (pg_data page))) = usable_sources ?inp (pg_data page)"
          by (simp add: usable_sources_def)
        show ?thesis
        proof (cases "filter (\<lambda>k. \<not> sc_isTarget k) (source_candidates ?inp (pg_data page))")
          case Nil
          then have "usable_sources ?inp (pg_data page) = []" using u by simp
          then have "filter (usable_source ?inp) (pg_data page) = []"
            using set_usable [of ?inp "pg_data page"] by (simp add: filter_empty_conv)
          with Nil ask Pair Inr show ?thesis by (simp add: defs listSwapSourceCandidates_def)
        next
          case (Cons k ks)
          then have us: "usable_sources ?inp (pg_data page) = sc_pool k # map sc_pool ks" using u by simp
          then have st: "set (sc_pool k # map sc_pool ks) = set (filter (usable_source ?inp) (pg_data page))"
            using set_usable [of ?inp "pg_data page"] by simp
          have "list_all (\<lambda>p. pl_tvl p \<le> pl_tvl (sc_pool k)) (sc_pool k # map sc_pool ks)"
            unfolding list_all_iff st using usable_sorted [OF us] by simp
          with Cons ask Pair Inr st show ?thesis by (simp add: defs listSwapSourceCandidates_def)
        qed
      qed
    qed
  qed (simp_all add: defs)
  then show ?thesis by (simp add: network_def swapForY_def)
qed

section \<open>Swap intents\<close>

definition source_offered :: "indexer \<Rightarrow> ValidateSwapIntentInput \<Rightarrow> SwapStep \<Rightarrow> pairs_cache \<Rightarrow> PoolSummary \<Rightarrow> bool" where
  "source_offered ix inp swap cache pool \<longleftrightarrow>
     (\<exists>page c. dlmm_listPools ix (vs_network inp) source_query cache = (Inr page, c) \<and> pool \<in> set (pg_data page) \<and>
        pl_address pool = ss_sourcePoolAddress swap \<and>
        poolContainsBothMints pool (swap_mint (vs_targetPool inp) (ss_swapForY swap)) NATIVE_SOL_MINT \<and>
        js_ge_num (pl_tvl pool) (Fin 50000))"

definition swap_checked :: "ValidateSwapIntentInput \<Rightarrow> SwapStep \<Rightarrow> int \<Rightarrow> bool" where
  "swap_checked inp swap minOut \<longleftrightarrow>
     vs_swap inp = Some swap \<and> \<not> sol_quoted (vs_targetPool inp) \<and> vs_swapEnabled inp \<and>
     ss_sourcePoolAddress swap \<noteq> pl_address (vs_targetPool inp) \<and> bigint_of_string (ss_minAmountOut swap) = Some minOut \<and> 0 < minOut"

fun swap_decision :: "indexer \<Rightarrow> ValidateSwapIntentInput \<Rightarrow> pairs_cache \<Rightarrow> swap_error + ValidatedSwapIntent option \<Rightarrow> bool" where
  "swap_decision ix inp cache (Inr None) \<longleftrightarrow> sol_quoted (vs_targetPool inp) \<and> vs_swap inp = None"
| "swap_decision ix inp cache (Inr (Some v)) \<longleftrightarrow>
     (\<exists>swap. swap_checked inp swap (vi_minAmountOut v) \<and> source_offered ix inp swap cache (vi_sourcePool v) \<and>
        vi_swapForY v = ss_swapForY swap)"
| "swap_decision ix inp cache (Inl e) \<longleftrightarrow>
     (case e of
        SwapValidationError swap_required_for_non_sol_pair \<Rightarrow> sol_quoted (vs_targetPool inp) = (vs_swap inp \<noteq> None)
      | SwapValidationError swap_disabled \<Rightarrow> \<not> vs_swapEnabled inp
      | SwapValidationError swap_source_equals_target \<Rightarrow>
          (\<exists>swap. vs_swap inp = Some swap \<and> ss_sourcePoolAddress swap = pl_address (vs_targetPool inp))
      | SwapValidationError swap_min_out_invalid \<Rightarrow>
          (\<exists>swap. vs_swap inp = Some swap \<and> (\<forall>n. bigint_of_string (ss_minAmountOut swap) = Some n \<longrightarrow> n \<le> 0))
      | SwapValidationError swap_source_unknown \<Rightarrow>
          (\<exists>swap n. swap_checked inp swap n \<and> (\<nexists>pool. source_offered ix inp swap cache pool))
      | SwapValidationError swap_source_wrong_pair \<Rightarrow> False
      | ListingFailed f \<Rightarrow> fst (dlmm_listPools ix (vs_network inp) source_query cache) = Inl f
      | _ \<Rightarrow> False)"

lemma find_iff: "List.find P xs = Some x \<Longrightarrow> x \<in> set xs \<and> P x"
  by (auto simp: find_Some_iff)

text \<open>
  Safety: an accepted swap intent goes through a pool of the indexer that is not the target, pairs
  the token bought with SOL, holds at least 50,000 dollars and is the one asked for, with a
  positive minimum; every refusal is for the reason it names, a pool on offer is never refused as
  unknown, and the last check, for a source without SOL, can never fire.
\<close>

theorem swap_intents_decided:
  "swap_decision ix inp cache (fst (validateSwapIntent ix inp cache))"
proof (cases "sol_quoted (vs_targetPool inp)")
  case True
  then show ?thesis by (simp add: validateSwapIntent_def Let_def split: option.splits)
next
  case False
  show ?thesis
  proof (cases "vs_swap inp")
    case None
    with False show ?thesis by (simp add: validateSwapIntent_def Let_def)
  next
    case (Some swap)
    let ?t = "vs_targetPool inp"
    let ?inp = "\<lparr>rs_network = vs_network inp, rs_targetPoolAddress = pl_address ?t, rs_nonSolMint = swap_mint ?t (ss_swapForY swap), rs_minTvlUsd = None\<rparr>"
    show ?thesis
    proof (cases "\<exists>n. swap_checked inp swap n")
      case False
      with \<open>\<not> sol_quoted ?t\<close> Some show ?thesis
        by (auto simp: validateSwapIntent_def Let_def swap_checked_def split: option.splits)
    next
      case True
      then obtain n where n: "swap_checked inp swap n" by blast
      then have c: "vs_swapEnabled inp" "ss_sourcePoolAddress swap \<noteq> pl_address ?t" "bigint_of_string (ss_minAmountOut swap) = Some n" "0 < n"
        by (simp_all add: swap_checked_def)
      note defs = validateSwapIntent_def Let_def False Some c listSwapSourceCandidates_def
      show ?thesis
      proof (cases "dlmm_listPools ix (vs_network inp) source_query cache")
        case (Pair r c')
        show ?thesis
        proof (cases r)
          case (Inl e)
          with Pair c show ?thesis by (simp add: defs)
        next
          case (Inr page)
          have in_set: "k \<in> set (source_candidates ?inp (pg_data page)) \<longleftrightarrow>
              sc_pool k \<in> set (pg_data page) \<and> poolContainsBothMints (sc_pool k) (swap_mint ?t (ss_swapForY swap)) NATIVE_SOL_MINT \<and>
              (js_ge_num (pl_tvl (sc_pool k)) (Fin 50000) \<or> pl_address (sc_pool k) = pl_address ?t) \<and>
              sc_isTarget k = (pl_address (sc_pool k) = pl_address ?t)" for k
            by (cases k) (auto simp: source_candidates_def Let_def)
          show ?thesis
          proof (cases "List.find (\<lambda>k. pl_address (sc_pool k) = ss_sourcePoolAddress swap) (source_candidates ?inp (pg_data page))")
            case None
            have "\<not> source_offered ix inp swap cache pool" for pool
            proof
              assume "source_offered ix inp swap cache pool"
              then have "\<lparr>sc_pool = pool, sc_isTarget = (pl_address pool = pl_address ?t)\<rparr> \<in> set (source_candidates ?inp (pg_data page))"
                and "pl_address pool = ss_sourcePoolAddress swap"
                using Pair Inr by (auto simp: source_offered_def in_set)
              with None show False by (auto simp: find_None_iff)
            qed
            with None Pair Inr c n show ?thesis by (auto simp: defs)
          next
            case k: (Some k)
            note m = find_iff [OF k]
            then have "poolContainsBothMints (sc_pool k) (swap_mint ?t (ss_swapForY swap)) NATIVE_SOL_MINT" by (simp add: in_set)
            then have sol: "isSolMint (ti_mint (pl_tokenX (sc_pool k))) \<or> isSolMint (ti_mint (pl_tokenY (sc_pool k)))"
              by (auto simp: poolContainsBothMints_def isSolMint_def)
            have "source_offered ix inp swap cache (sc_pool k)"
              using m c(2) Pair Inr by (auto simp: source_offered_def in_set)
            with k sol Pair Inr c n show ?thesis by (auto simp: defs)
          qed
        qed
      qed
    qed
  qed
qed


section \<open>Minimum output\<close>

lemma floor_bounds: "(a :: int) div 10000 * 10000 \<le> a \<and> a < (a div 10000 + 1) * 10000"
  by presburger

lemma bigint_div_nonneg: "0 \<le> a \<Longrightarrow> bigint_div a 10000 = a div 10000"
  by (cases "a = 0") (simp_all add: bigint_div_def sgn_if)

lemma js_int_min: "min (js_int a) (js_int b) = js_int (min a b)"
  by (simp add: js_int_def min_def)

lemma keep_exact:
  assumes "0 \<le> c" "c \<le> 2000"
  shows "js_sub (Fin 10000) (js_int c) = js_int (10000 - c)"
proof -
  have "fl64 (of_int (10000 - c)) = Fin (of_int (10000 - c))" using assms by (intro fl64_int) simp
  then show ?thesis by (simp add: js_sub_def js_int_def)
qed

lemma min_out_value:
  assumes "0 \<le> bps"
  shows "computeMinAmountOut expectedOut (js_int bps) = Inr (bigint_div (expectedOut * (10000 - min bps 2000)) 10000)"
proof -
  have "\<not> js_gt (Fin 0) (js_int bps)" using assms by (simp add: js_int_def)
  moreover have "js_isFinite (js_int bps)" by (simp add: js_int_def js_isFinite_def)
  moreover have "js_sub (Fin 10000) (min (js_int bps) (js_int 2000)) = js_int (10000 - min bps 2000)"
    unfolding js_int_min using assms by (intro keep_exact) simp_all
  ultimately show ?thesis
    by (simp add: computeMinAmountOut_def MAX_SLIPPAGE_BPS_def BigInt_of_number_def js_int_def)
qed

lemma half_bps: "computeMinAmountOut expectedOut (Fin (1 / 2)) = Inl (NotAnInteger (Fin (19999 / 2)))"
proof -
  have q: "quotient_of (19999 / 2 :: rat) = (19999, 2)" by code_simp
  have d: "length (digits 2 19999) = 15" "length (digits 2 2) = 2" by code_simp+
  have be: "binary_exponent (19999 / 2) = 13" by (simp add: binary_exponent_def q d pow2_def)
  have "fl64 (19999 / 2) = Fin (19999 / 2)" by (simp add: fl64_def be pow2_def round_half_even_def Let_def)
  moreover have "min (Fin (1 / 2)) (js_int 2000) = Fin (1 / 2)" by (simp add: min_def js_int_def)
  moreover have "\<lfloor>19999 / 2 :: rat\<rfloor> = 9999" by (simp add: floor_eq_iff)
  ultimately show ?thesis
    by (simp add: computeMinAmountOut_def js_isFinite_def MAX_SLIPPAGE_BPS_def js_sub_def BigInt_of_number_def)
qed

text \<open>
  Bounds: for a quote and a whole number of basis points the minimum is the quote less the
  slippage, rounded down, never less than four fifths of the quote up to rounding and never more
  than the quote; half a basis point passes the check and ends in a RangeError of \<open>BigInt\<close>.
\<close>

theorem min_out_protects:
  assumes "0 \<le> expectedOut" and "0 \<le> bps"
  shows "(\<exists>m. computeMinAmountOut expectedOut (js_int bps) = Inr m \<and> 0 \<le> m \<and> m \<le> expectedOut \<and>
      m * 10000 \<le> expectedOut * (10000 - min bps 2000) \<and> expectedOut * (10000 - min bps 2000) < (m + 1) * 10000 \<and>
      expectedOut * 4 < (m + 1) * 5) \<and>
    computeMinAmountOut expectedOut (Fin (1 / 2)) = Inl (NotAnInteger (Fin (19999 / 2)))"
proof -
  let ?k = "10000 - min bps 2000"
  let ?m = "expectedOut * ?k div 10000"
  have k: "8000 \<le> ?k" "?k \<le> 10000" using assms(2) by simp_all
  have nn: "0 \<le> expectedOut * ?k" using assms k by simp
  have m: "bigint_div (expectedOut * ?k) 10000 = ?m"
    using bigint_div_nonneg [OF nn] .
  have b: "?m * 10000 \<le> expectedOut * ?k" "expectedOut * ?k < (?m + 1) * 10000"
    using floor_bounds [of "expectedOut * ?k"] by simp_all
  have "expectedOut * ?k \<le> expectedOut * 10000" "expectedOut * 8000 \<le> expectedOut * ?k"
    using assms k by (intro mult_left_mono; simp)+
  with b have "?m \<le> expectedOut" "expectedOut * 4 < (?m + 1) * 5" by linarith+
  moreover have "0 \<le> ?m" using nn by simp
  ultimately show ?thesis using min_out_value [OF assms(2), of expectedOut] b half_bps unfolding m by blast
qed

theorem min_out_protects_witness: "computeMinAmountOut 1000 (js_int 50) = Inr 995"
proof -
  obtain m where "computeMinAmountOut 1000 (js_int 50) = Inr m" "m * 10000 \<le> 1000 * (10000 - min 50 2000)"
    "1000 * (10000 - min 50 2000) < (m + 1) * 10000"
    using min_out_protects [of 1000 50] by auto
  then show ?thesis by simp
qed

end
