(* ===== verification/ExecutorProgram.thy ===== *)
theory ExecutorProgram imports SwapPlanning begin

text \<open>
  programs/octora-executor: the on-chain program the executor of the API builds instructions for.
  Its accounts, the checks of its five DLMM handlers in their order, the calls they make into the
  DLMM program and the state they leave.  What the runtime derives (program addresses) is a field
  of \<open>sdk\<close>; the DLMM program itself is not part of the repository, a call into it is recorded.
\<close>

section \<open>Keys and accounts\<close>

type_synonym pubkey = bytes

text \<open>
  web3.js, spl-token and the DLMM SDK as far as the code uses them: keys, derived addresses, the
  curve, and the array a bin lies in.
\<close>

record sdk =
  sk_PublicKey :: "string \<Rightarrow> pubkey option"
  sk_base58 :: "pubkey \<Rightarrow> string"
  sk_programAddress :: "bytes list \<Rightarrow> pubkey \<Rightarrow> pubkey"
  sk_onCurve :: "pubkey \<Rightarrow> bool"
  sk_ata :: "pubkey \<Rightarrow> pubkey \<Rightarrow> pubkey"
  sk_binArrayIndex :: "int \<Rightarrow> int"
  sk_binArray :: "pubkey \<Rightarrow> int \<Rightarrow> pubkey"
  sk_reserve :: "pubkey \<Rightarrow> pubkey \<Rightarrow> pubkey"
  sk_oracle :: "pubkey \<Rightarrow> pubkey"
  sk_lbPair :: "pubkey \<Rightarrow> pubkey \<Rightarrow> int \<Rightarrow> int \<Rightarrow> pubkey"

definition key_of :: "sdk \<Rightarrow> string \<Rightarrow> pubkey" where
  "key_of sk text = (case sk_PublicKey sk text of None \<Rightarrow> [] | Some k \<Rightarrow> k)"

definition DLMM_PROGRAM_ID :: "sdk \<Rightarrow> pubkey" where
  "DLMM_PROGRAM_ID sk = key_of sk ''LBUZKhRxPF3XUpBCjp4YzTKgLccjZhTSDM9YuVaPwxo''"

definition SPL_TOKEN_PROGRAM_ID :: "sdk \<Rightarrow> pubkey" where
  "SPL_TOKEN_PROGRAM_ID sk = key_of sk ''TokenkegQfeZyiNwAJbNbGKPFXCWuBvf9Ss623VQ5DA''"

definition SPL_TOKEN_2022_PROGRAM_ID :: "sdk \<Rightarrow> pubkey" where
  "SPL_TOKEN_2022_PROGRAM_ID sk = key_of sk ''TokenzQdBNbLqP5VEhdkAS6EPFLC1PHnBqCXEpPxuEb''"

definition SYSTEM_PROGRAM_ID :: "sdk \<Rightarrow> pubkey" where
  "SYSTEM_PROGRAM_ID sk = key_of sk ''11111111111111111111111111111111''"

definition SYSVAR_RENT_ID :: "sdk \<Rightarrow> pubkey" where
  "SYSVAR_RENT_ID sk = key_of sk ''SysvarRent111111111111111111111111111111111''"

definition POOL_AUTHORITY_SEED :: bytes where "POOL_AUTHORITY_SEED = ascii ''pool-authority''"

datatype PoolRef = Dlmm pubkey pubkey | Damm pubkey pubkey pubkey

record PoolAuthority =
  pa_stealth_pubkey :: pubkey
  pa_exit_recipient :: pubkey
  pa_pool_ref :: PoolRef

record AccountMeta =
  am_pubkey :: pubkey
  am_isSigner :: bool
  am_isWritable :: bool

text \<open>
  The accounts of the cluster: the authorities the program owns, the data and the executable flag
  of the others, and the pause of \<open>Config\<close>.
\<close>

record ledger =
  lg_authority :: "pubkey \<Rightarrow> PoolAuthority option"
  lg_data :: "pubkey \<Rightarrow> bytes"
  lg_executable :: "pubkey \<Rightarrow> bool"
  lg_paused :: bool

datatype ExecutorError =
    Paused
  | StealthMismatch
  | NotSigned
  | SeedsMismatch
  | AuthorityMissing
  | AlreadyInUse
  | DlmmProgramMismatch
  | DlmmEventAuthorityMismatch
  | AccountsTooShort
  | MissingPositionSigner
  | LbPairMismatch
  | PositionMismatch
  | InvalidSysAccount
  | InvalidTokenAccount
  | InvalidTokenProgram
  | ExitRecipientMismatch
  | InvalidPoolRefType
  | TokenMintMismatch
  | ArgOutOfRange
  | SwapSlippageExceeded

text \<open>An instruction of the program: its named accounts and the remaining ones.\<close>

datatype executor_args =
    InitPosition int int pubkey
  | AddDlmmLiquidity bytes
  | ClaimDlmmFees
  | RemoveAndClose int int int
  | SwapArgs int int

record executor_ix =
  xi_args :: executor_args
  xi_stealth :: pubkey
  xi_poolAuthority :: pubkey
  xi_lbPair :: pubkey
  xi_dlmmProgram :: pubkey
  xi_remaining :: "AccountMeta list"

text \<open>A call into the DLMM program.\<close>

record dlmm_call =
  dc_name :: string
  dc_metas :: "AccountMeta list"
  dc_args :: bytes

section \<open>Checks\<close>

definition check :: "bool \<Rightarrow> ExecutorError \<Rightarrow> ExecutorError + unit" where
  "check b e = (if b then Inr () else Inl e)"

definition and_then :: "ExecutorError + unit \<Rightarrow> ExecutorError + 'a \<Rightarrow> ExecutorError + 'a" where
  "and_then r k = (case r of Inl e \<Rightarrow> Inl e | Inr _ \<Rightarrow> k)"

fun checks :: "(ExecutorError + unit) list \<Rightarrow> ExecutorError + 'a \<Rightarrow> ExecutorError + 'a" where
  "checks [] k = k"
| "checks (c # cs) k = and_then c (checks cs k)"

definition event_authority :: "sdk \<Rightarrow> pubkey" where
  "event_authority sk = sk_programAddress sk [ascii ''__event_authority''] (DLMM_PROGRAM_ID sk)"

definition require_dlmm_program :: "sdk \<Rightarrow> pubkey \<Rightarrow> ExecutorError + unit" where
  "require_dlmm_program sk k = check (k = DLMM_PROGRAM_ID sk) DlmmProgramMismatch"

definition require_dlmm_event_authority :: "sdk \<Rightarrow> pubkey \<Rightarrow> ExecutorError + unit" where
  "require_dlmm_event_authority sk k = check (k = event_authority sk) DlmmEventAuthorityMismatch"

definition require_spl_token_program :: "sdk \<Rightarrow> pubkey \<Rightarrow> ExecutorError + unit" where
  "require_spl_token_program sk k = check (k = SPL_TOKEN_PROGRAM_ID sk \<or> k = SPL_TOKEN_2022_PROGRAM_ID sk) InvalidTokenProgram"

definition require_system_program :: "sdk \<Rightarrow> pubkey \<Rightarrow> ExecutorError + unit" where
  "require_system_program sk k = check (k = SYSTEM_PROGRAM_ID sk) InvalidSysAccount"

definition require_rent_sysvar :: "sdk \<Rightarrow> ledger \<Rightarrow> AccountMeta \<Rightarrow> ExecutorError + unit" where
  "require_rent_sysvar sk lg m =
     check (am_pubkey m = SYSVAR_RENT_ID sk \<and> \<not> am_isSigner m \<and> \<not> lg_executable lg (am_pubkey m)) InvalidSysAccount"

text \<open>The mint and the owner of a token account are its bytes 0 to 31 and 32 to 63.\<close>

definition token_mint :: "bytes \<Rightarrow> pubkey" where "token_mint data = take 32 data"
definition token_owner :: "bytes \<Rightarrow> pubkey" where "token_owner data = take 32 (drop 32 data)"

definition require_token_account_owner :: "ledger \<Rightarrow> AccountMeta \<Rightarrow> pubkey \<Rightarrow> ExecutorError + unit" where
  "require_token_account_owner lg m expected =
     (let data = lg_data lg (am_pubkey m) in
      if length data < 165 then Inl InvalidTokenAccount else check (token_owner data = expected) ExitRecipientMismatch)"

definition require_token_account_mint :: "ledger \<Rightarrow> AccountMeta \<Rightarrow> pubkey \<Rightarrow> ExecutorError + unit" where
  "require_token_account_mint lg m expected =
     (let data = lg_data lg (am_pubkey m) in
      if length data < 165 then Inl InvalidTokenAccount else check (token_mint data = expected) InvalidTokenAccount)"

text \<open>The constraints Anchor checks before a handler on an existing authority runs.\<close>

definition authority_seeds :: "pubkey \<Rightarrow> pubkey \<Rightarrow> bytes list" where
  "authority_seeds stealth lbPair = [POOL_AUTHORITY_SEED, stealth, lbPair]"

definition with_authority ::
    "sdk \<Rightarrow> pubkey \<Rightarrow> ledger \<Rightarrow> pubkey set \<Rightarrow> executor_ix \<Rightarrow> (PoolAuthority \<Rightarrow> ExecutorError + 'a) \<Rightarrow> ExecutorError + 'a" where
  "with_authority sk programId lg signers ix k =
     (if xi_stealth ix \<notin> signers then Inl NotSigned
      else case lg_authority lg (xi_poolAuthority ix) of
        None \<Rightarrow> Inl AuthorityMissing
      | Some pa \<Rightarrow>
          checks [check (xi_poolAuthority ix = sk_programAddress sk (authority_seeds (xi_stealth ix) (xi_lbPair ix)) programId) SeedsMismatch,
                  check (pa_stealth_pubkey pa = xi_stealth ix) StealthMismatch,
                  check (\<not> lg_paused lg) Paused] (k pa))"

text \<open>The program signs for its authority in one slot of the call.\<close>

definition signed_metas :: "nat \<Rightarrow> pubkey \<Rightarrow> AccountMeta list \<Rightarrow> AccountMeta list" where
  "signed_metas pos pa remaining =
     map (\<lambda>(i, m). if i = pos then m\<lparr>am_pubkey := pa, am_isSigner := True\<rparr> else m) (zip [0..<length remaining] remaining)"

definition le_i32 :: "int \<Rightarrow> bytes" where "le_i32 v = rev (be_bytes 4 (v mod 2 ^ 32))"
definition le_u16 :: "int \<Rightarrow> bytes" where "le_u16 v = rev (be_bytes 2 v)"
definition le_u64 :: "int \<Rightarrow> bytes" where "le_u64 v = rev (be_bytes 8 v)"

definition key_at :: "executor_ix \<Rightarrow> nat \<Rightarrow> pubkey" where "key_at ix i = am_pubkey (xi_remaining ix ! i)"

section \<open>Handlers\<close>

definition dlmm_init_position ::
    "sdk \<Rightarrow> pubkey \<Rightarrow> ledger \<Rightarrow> pubkey set \<Rightarrow> executor_ix \<Rightarrow> int \<Rightarrow> int \<Rightarrow> pubkey \<Rightarrow> ExecutorError + ledger \<times> dlmm_call list" where
  "dlmm_init_position sk programId lg signers ix lower width exitRecipient =
     (let rem = xi_remaining ix in
      checks [check (xi_stealth ix \<in> signers) NotSigned,
              check (xi_poolAuthority ix = sk_programAddress sk (authority_seeds (xi_stealth ix) (xi_lbPair ix)) programId) SeedsMismatch,
              check (lg_authority lg (xi_poolAuthority ix) = None) AlreadyInUse,
              check (\<not> lg_paused lg) Paused,
              require_dlmm_program sk (xi_dlmmProgram ix),
              check (length rem = 8) AccountsTooShort]
      (checks [check (am_isSigner (rem ! 1)) MissingPositionSigner,
              check (xi_lbPair ix = key_at ix 2) LbPairMismatch,
              require_system_program sk (key_at ix 4),
              require_rent_sysvar sk lg (rem ! 5),
              require_dlmm_event_authority sk (key_at ix 6),
              require_dlmm_program sk (key_at ix 7)]
        (Inr (lg\<lparr>lg_authority := (lg_authority lg)(xi_poolAuthority ix \<mapsto>
                \<lparr>pa_stealth_pubkey = xi_stealth ix, pa_exit_recipient = exitRecipient, pa_pool_ref = Dlmm (key_at ix 2) (key_at ix 1)\<rparr>)\<rparr>,
              [\<lparr>dc_name = ''initialize_position'', dc_metas = signed_metas 3 (xi_poolAuthority ix) rem,
                dc_args = le_i32 lower @ le_i32 width\<rparr>]))))"

definition dlmm_add_liquidity ::
    "sdk \<Rightarrow> pubkey \<Rightarrow> ledger \<Rightarrow> pubkey set \<Rightarrow> executor_ix \<Rightarrow> bytes \<Rightarrow> ExecutorError + ledger \<times> dlmm_call list" where
  "dlmm_add_liquidity sk programId lg signers ix params =
     (let rem = xi_remaining ix in
      with_authority sk programId lg signers ix (\<lambda>pa.
      checks [require_dlmm_program sk (xi_dlmmProgram ix), check (length rem = 16) AccountsTooShort]
        (case pa_pool_ref pa of
           Damm pool mint escrow \<Rightarrow> Inl InvalidPoolRefType
         | Dlmm stored_lb_pair stored_position \<Rightarrow>
             checks [check (key_at ix 0 = stored_position) PositionMismatch,
                     check (key_at ix 1 = stored_lb_pair) LbPairMismatch,
                     check (key_at ix 1 = xi_lbPair ix) LbPairMismatch,
                     require_token_account_mint lg (rem ! 3) (key_at ix 7),
                     require_token_account_mint lg (rem ! 4) (key_at ix 8),
                     require_spl_token_program sk (key_at ix 12),
                     require_spl_token_program sk (key_at ix 13),
                     require_dlmm_event_authority sk (key_at ix 14),
                     require_dlmm_program sk (key_at ix 15)]
               (Inr (lg, [\<lparr>dc_name = ''add_liquidity_by_strategy'', dc_metas = signed_metas 11 (xi_poolAuthority ix) rem, dc_args = params\<rparr>])))))"

definition dlmm_claim_fees ::
    "sdk \<Rightarrow> pubkey \<Rightarrow> ledger \<Rightarrow> pubkey set \<Rightarrow> executor_ix \<Rightarrow> ExecutorError + ledger \<times> dlmm_call list" where
  "dlmm_claim_fees sk programId lg signers ix =
     (let rem = xi_remaining ix in
      with_authority sk programId lg signers ix (\<lambda>pa.
      checks [require_dlmm_program sk (xi_dlmmProgram ix), check (length rem = 14) AccountsTooShort]
        (case pa_pool_ref pa of
           Damm pool mint escrow \<Rightarrow> Inl InvalidPoolRefType
         | Dlmm stored_lb_pair stored_position \<Rightarrow>
             checks [check (key_at ix 0 = stored_lb_pair) LbPairMismatch,
                     check (key_at ix 1 = stored_position) PositionMismatch,
                     require_token_account_owner lg (rem ! 7) (pa_exit_recipient pa),
                     require_token_account_owner lg (rem ! 8) (pa_exit_recipient pa),
                     require_token_account_mint lg (rem ! 7) (key_at ix 9),
                     require_token_account_mint lg (rem ! 8) (key_at ix 10),
                     require_spl_token_program sk (key_at ix 11),
                     require_dlmm_event_authority sk (key_at ix 12),
                     require_dlmm_program sk (key_at ix 13),
                     check (xi_lbPair ix = stored_lb_pair) LbPairMismatch]
               (Inr (lg, [\<lparr>dc_name = ''claim_fee'', dc_metas = signed_metas 4 (xi_poolAuthority ix) rem, dc_args = []\<rparr>])))))"

text \<open>\<open>close = stealth\<close>: when the handler returns the authority is gone.\<close>

definition dlmm_withdraw_close ::
    "sdk \<Rightarrow> pubkey \<Rightarrow> ledger \<Rightarrow> pubkey set \<Rightarrow> executor_ix \<Rightarrow> int \<Rightarrow> int \<Rightarrow> int \<Rightarrow> ExecutorError + ledger \<times> dlmm_call list" where
  "dlmm_withdraw_close sk programId lg signers ix from_bin to_bin bps =
     (let rem = xi_remaining ix in
      with_authority sk programId lg signers ix (\<lambda>pa.
      checks [check (from_bin \<le> to_bin) ArgOutOfRange, check (0 < bps \<and> bps \<le> 10000) ArgOutOfRange,
              require_dlmm_program sk (xi_dlmmProgram ix), check (length rem = 17) AccountsTooShort]
        (case pa_pool_ref pa of
           Damm pool mint escrow \<Rightarrow> Inl InvalidPoolRefType
         | Dlmm stored_lb_pair stored_position \<Rightarrow>
             checks [check (key_at ix 0 = stored_position) PositionMismatch,
                     check (key_at ix 1 = stored_lb_pair) LbPairMismatch,
                     require_token_account_owner lg (rem ! 3) (pa_exit_recipient pa),
                     require_token_account_owner lg (rem ! 4) (pa_exit_recipient pa),
                     require_token_account_mint lg (rem ! 3) (key_at ix 7),
                     require_token_account_mint lg (rem ! 4) (key_at ix 8),
                     require_spl_token_program sk (key_at ix 12),
                     require_spl_token_program sk (key_at ix 13),
                     require_dlmm_event_authority sk (key_at ix 14),
                     require_dlmm_program sk (key_at ix 15),
                     check (key_at ix 16 = pa_exit_recipient pa) ExitRecipientMismatch,
                     check (key_at ix 16 \<noteq> key_at ix 0) PositionMismatch,
                     check (key_at ix 16 \<noteq> key_at ix 1) LbPairMismatch,
                     check (xi_lbPair ix = stored_lb_pair) LbPairMismatch]
               (Inr (lg\<lparr>lg_authority := (lg_authority lg)(xi_poolAuthority ix := None)\<rparr>,
                 let metas = signed_metas 11 (xi_poolAuthority ix) rem in
                 [\<lparr>dc_name = ''remove_liquidity_by_range'', dc_metas = take 16 metas,
                   dc_args = le_i32 from_bin @ le_i32 to_bin @ le_u16 bps\<rparr>,
                  \<lparr>dc_name = ''close_position'', dc_metas = map (\<lambda>i. metas ! i) [0, 1, 9, 10, 11, 16, 14, 15], dc_args = []\<rparr>])))))"

text \<open>The flags of a swap are fixed by slot.\<close>

definition swap_flags :: "nat \<Rightarrow> bool \<times> bool" where
  "swap_flags i =
     (if i = 10 then (True, True) else if i \<in> {6, 7, 11, 12, 13, 14} then (False, False) else (False, True))"

definition dlmm_swap ::
    "sdk \<Rightarrow> ledger \<Rightarrow> pubkey set \<Rightarrow> executor_ix \<Rightarrow> int \<Rightarrow> int \<Rightarrow> ExecutorError + ledger \<times> dlmm_call list" where
  "dlmm_swap sk lg signers ix amount_in min_amount_out =
     (let rem = xi_remaining ix; data = (\<lambda>i. lg_data lg (key_at ix i)) in
      checks [check (xi_stealth ix \<in> signers) NotSigned, check (\<not> lg_paused lg) Paused,
              check (0 < amount_in \<and> 0 < min_amount_out) ArgOutOfRange,
              require_dlmm_program sk (xi_dlmmProgram ix), check (16 \<le> length rem) AccountsTooShort]
      (checks [check (key_at ix 0 = xi_lbPair ix) LbPairMismatch,
              require_token_account_owner lg (rem ! 4) (xi_stealth ix),
              require_token_account_owner lg (rem ! 5) (xi_stealth ix),
              check (key_at ix 4 \<noteq> key_at ix 5) TokenMintMismatch,
              check (key_at ix 10 = xi_stealth ix) StealthMismatch,
              check (am_isSigner (rem ! 10)) StealthMismatch,
              require_spl_token_program sk (key_at ix 11),
              require_spl_token_program sk (key_at ix 12),
              check ((token_mint (data 4) = key_at ix 6 \<and> token_mint (data 5) = key_at ix 7) \<or>
                     (token_mint (data 4) = key_at ix 7 \<and> token_mint (data 5) = key_at ix 6)) TokenMintMismatch,
              require_dlmm_event_authority sk (key_at ix 13),
              require_dlmm_program sk (key_at ix 14)]
        (Inr (lg, [\<lparr>dc_name = ''swap'',
           dc_metas = map (\<lambda>(i, m). m\<lparr>am_isSigner := fst (swap_flags i), am_isWritable := snd (swap_flags i)\<rparr>) (zip [0..<length rem] rem),
           dc_args = le_u64 amount_in @ le_u64 min_amount_out\<rparr>]))))"

text \<open>
  After the call the handler reads the output account again: \<open>before\<close> and \<open>after\<close> are its data around
  the call, which the DLMM program makes.
\<close>

definition token_amount :: "bytes \<Rightarrow> int" where "token_amount data = be_value (rev (take 8 (drop 64 data)))"

definition enforce_min_out :: "bytes \<Rightarrow> bytes \<Rightarrow> int \<Rightarrow> ExecutorError + unit" where
  "enforce_min_out before after min_amount_out =
     (if length after < 165 then Inl InvalidTokenAccount
      else if token_amount after < token_amount before then Inl ArgOutOfRange
      else check (min_amount_out \<le> token_amount after - token_amount before) SwapSlippageExceeded)"

definition execute ::
    "sdk \<Rightarrow> pubkey \<Rightarrow> ledger \<Rightarrow> pubkey set \<Rightarrow> executor_ix \<Rightarrow> ExecutorError + ledger \<times> dlmm_call list" where
  "execute sk programId lg signers ix =
     (case xi_args ix of
        InitPosition lower width exit \<Rightarrow> dlmm_init_position sk programId lg signers ix lower width exit
      | AddDlmmLiquidity params \<Rightarrow> dlmm_add_liquidity sk programId lg signers ix params
      | ClaimDlmmFees \<Rightarrow> dlmm_claim_fees sk programId lg signers ix
      | RemoveAndClose lo hi bps \<Rightarrow> dlmm_withdraw_close sk programId lg signers ix lo hi bps
      | SwapArgs a m \<Rightarrow> dlmm_swap sk lg signers ix a m)"

section \<open>Facts about the checks\<close>

lemma check_Inr [simp]: "check b e = Inr u \<longleftrightarrow> b"
  by (simp add: check_def)

lemma and_then_Inr: "and_then r k = Inr y \<longleftrightarrow> r = Inr () \<and> k = Inr y"
  by (cases r) (simp_all add: and_then_def)

lemma checks_Inr: "checks cs k = Inr y \<longleftrightarrow> list_all (\<lambda>c. c = Inr ()) cs \<and> k = Inr y"
  by (induction cs) (auto simp: and_then_Inr)

declare checks.simps [simp del]

lemma with_authority_Inr:
  "with_authority sk programId lg signers ix k = Inr y \<longleftrightarrow>
     (\<exists>pa. lg_authority lg (xi_poolAuthority ix) = Some pa \<and> xi_stealth ix \<in> signers \<and> k pa = Inr y \<and>
        xi_poolAuthority ix = sk_programAddress sk (authority_seeds (xi_stealth ix) (xi_lbPair ix)) programId \<and>
        pa_stealth_pubkey pa = xi_stealth ix \<and> \<not> lg_paused lg)"
  by (auto simp: with_authority_def checks_Inr split: option.splits)

lemma token_owner_ok:
  "require_token_account_owner lg m k = Inr u \<longleftrightarrow> 165 \<le> length (lg_data lg (am_pubkey m)) \<and> token_owner (lg_data lg (am_pubkey m)) = k"
  by (auto simp: require_token_account_owner_def Let_def)

lemma token_mint_ok:
  "require_token_account_mint lg m k = Inr u \<longleftrightarrow> 165 \<le> length (lg_data lg (am_pubkey m)) \<and> token_mint (lg_data lg (am_pubkey m)) = k"
  by (auto simp: require_token_account_mint_def Let_def)

lemma dlmm_ref_Inr:
  "(case r of Dlmm a b \<Rightarrow> f a b | Damm x y z \<Rightarrow> Inl e) = Inr v \<longleftrightarrow> (\<exists>a b. r = Dlmm a b \<and> f a b = Inr v)"
  by (cases r) simp_all

lemmas accepted = checks_Inr dlmm_ref_Inr with_authority_Inr token_owner_ok token_mint_ok require_dlmm_program_def
  require_dlmm_event_authority_def require_spl_token_program_def require_system_program_def require_rent_sysvar_def

end
