(* ===== verification/ExecutorService.thy ===== *)
theory ExecutorService imports ExecutorProgram begin

text \<open>
  executor.service.ts, clients/dlmm-swap.client.ts and executor.controller.ts: the unsigned
  transactions of a position's life, the range a pool is used with, and the handlers in front.
  What the node answers during one call is the record \<open>exec_node\<close>; a signature of the server is an
  entry of \<open>et_signedBy\<close>.
\<close>

section \<open>Transactions\<close>

datatype tx_ix =
    SetComputeUnitLimit nat
  | SystemTransfer pubkey pubkey int
  | CreateAtaIdempotent pubkey pubkey pubkey pubkey
  | SyncNative pubkey
  | TokenTransfer pubkey pubkey pubkey int
  | CloseTokenAccount pubkey pubkey pubkey
  | ExecutorIx executor_ix

record executor_tx =
  et_feePayer :: pubkey
  et_blockhash :: string
  et_instructions :: "tx_ix list"
  et_signedBy :: "pubkey list"

record lb_pair =
  lp_tokenXMint :: pubkey
  lp_tokenYMint :: pubkey
  lp_active :: int
  lp_binStep :: int

record exec_node =
  xn_account :: "pubkey \<Rightarrow> string + bytes option"
  xn_authority :: "pubkey \<Rightarrow> string + PoolAuthority option"
  xn_pair :: "pubkey \<Rightarrow> string + lb_pair"
  xn_positionBins :: "pubkey \<Rightarrow> string + int \<times> int"
  xn_blockhash :: "string + string"
  xn_newKey :: pubkey

record executor =
  ex_sdk :: sdk
  ex_relayer :: pubkey
  ex_programId :: pubkey

datatype exec_error =
    BadPublicKey string
  | BadBigInt string
  | NodeFailed string
  | NoAuthority
  | NotDlmmPosition
  | StalePosition pubkey pubkey
  | NoNativeSide
  | RangeRefused SingleSidedRangeError
  | WriteRefused write_error
  | OwnerOffCurve pubkey

record TestPairConfig =
  tc_tokenX :: string
  tc_tokenY :: string
  tc_lbPair :: string
  tc_binArrayLower :: string
  tc_binArrayUpper :: string
  tc_lowerBinId :: int
  tc_upperBinId :: int
  tc_width :: int
  tc_activeBin :: int
  tc_binStep :: int
  tc_baseFactor :: int

definition STEALTH_INIT_FUNDING_LAMPORTS :: int where "STEALTH_INIT_FUNDING_LAMPORTS = 5000000"

definition DLMM_EVENT_AUTHORITY :: "sdk \<Rightarrow> pubkey" where
  "DLMM_EVENT_AUTHORITY sk = key_of sk ''D1ZN9Wj1fRSUQfCjhvnu1hqDMT7hzjzBBpi12nVniYD6''"

definition NATIVE_MINT :: "sdk \<Rightarrow> pubkey" where "NATIVE_MINT sk = key_of sk NATIVE_SOL_MINT"

definition new_PublicKey :: "sdk \<Rightarrow> string \<Rightarrow> exec_error + pubkey" where
  "new_PublicKey sk s = (case sk_PublicKey sk s of None \<Rightarrow> Inl (BadPublicKey s) | Some k \<Rightarrow> Inr k)"

definition from_node :: "string + 'a \<Rightarrow> exec_error + 'a" where
  "from_node r = (case r of Inl e \<Rightarrow> Inl (NodeFailed e) | Inr a \<Rightarrow> Inr a)"

definition derivePoolAuthorityPda :: "executor \<Rightarrow> pubkey \<Rightarrow> pubkey \<Rightarrow> pubkey" where
  "derivePoolAuthorityPda ex stealth lbPair = sk_programAddress (ex_sdk ex) (authority_seeds stealth lbPair) (ex_programId ex)"

text \<open>\<open>getAssociatedTokenAddressSync\<close> refuses an owner off the curve unless told otherwise.\<close>

definition ata_of :: "sdk \<Rightarrow> bool \<Rightarrow> pubkey \<Rightarrow> pubkey \<Rightarrow> exec_error + pubkey" where
  "ata_of sk allowOffCurve mint owner =
     (if \<not> allowOffCurve \<and> \<not> sk_onCurve sk owner then Inl (OwnerOffCurve owner) else Inr (sk_ata sk mint owner))"

definition fetch_authority :: "exec_node \<Rightarrow> pubkey \<Rightarrow> exec_error + PoolAuthority" where
  "fetch_authority nd pda =
     bind_res (from_node (xn_authority nd pda)) (\<lambda>acct. case acct of None \<Rightarrow> Inl NoAuthority | Some pa \<Rightarrow> Inr pa)"

definition fetchPositionFromAuthority :: "exec_node \<Rightarrow> pubkey \<Rightarrow> exec_error + pubkey" where
  "fetchPositionFromAuthority nd pda =
     bind_res (fetch_authority nd pda) (\<lambda>acct.
     case pa_pool_ref acct of Dlmm lbPair position \<Rightarrow> Inr position | Damm pool mint escrow \<Rightarrow> Inl NotDlmmPosition)"

definition rw :: "pubkey \<Rightarrow> AccountMeta" where "rw k = \<lparr>am_pubkey = k, am_isSigner = False, am_isWritable = True\<rparr>"
definition ro :: "pubkey \<Rightarrow> AccountMeta" where "ro k = \<lparr>am_pubkey = k, am_isSigner = False, am_isWritable = False\<rparr>"
definition signer :: "pubkey \<Rightarrow> AccountMeta" where "signer k = \<lparr>am_pubkey = k, am_isSigner = True, am_isWritable = True\<rparr>"

definition presigned :: "executor \<Rightarrow> exec_node \<Rightarrow> tx_ix list \<Rightarrow> pubkey list \<Rightarrow> exec_error + executor_tx" where
  "presigned ex nd ixs others =
     bind_res (from_node (xn_blockhash nd)) (\<lambda>bh.
     Inr \<lparr>et_feePayer = ex_relayer ex, et_blockhash = bh, et_instructions = ixs, et_signedBy = ex_relayer ex # others\<rparr>)"

section \<open>Opening a position\<close>

record InitPositionResult =
  ir_transaction :: "executor_tx option"
  ir_positionPubkey :: string
  ir_positionAuthority :: string
  ir_alreadyInitialized :: bool

definition buildInitPositionTx ::
    "executor \<Rightarrow> exec_node \<Rightarrow> pubkey \<Rightarrow> pubkey \<Rightarrow> pubkey \<Rightarrow> int \<Rightarrow> int \<Rightarrow> exec_error + InitPositionResult" where
  "buildInitPositionTx ex nd stealth lbPair exitRecipient lowerBinId width =
     (let sk = ex_sdk ex; positionAuthority = derivePoolAuthorityPda ex stealth lbPair in
      bind_res (from_node (xn_account nd positionAuthority)) (\<lambda>existing.
      case existing of
        Some data \<Rightarrow>
          bind_res (fetchPositionFromAuthority nd positionAuthority) (\<lambda>positionPubkey.
          bind_res (from_node (xn_account nd positionPubkey)) (\<lambda>positionAcct.
          case positionAcct of
            None \<Rightarrow> Inl (StalePosition positionAuthority positionPubkey)
          | Some d \<Rightarrow> Inr \<lparr>ir_transaction = None, ir_positionPubkey = sk_base58 sk positionPubkey,
              ir_positionAuthority = sk_base58 sk positionAuthority, ir_alreadyInitialized = True\<rparr>))
      | None \<Rightarrow>
          let position = xn_newKey nd;
              fundStealthIx = SystemTransfer (ex_relayer ex) stealth STEALTH_INIT_FUNDING_LAMPORTS;
              ix = ExecutorIx \<lparr>xi_args = InitPosition lowerBinId width exitRecipient, xi_stealth = stealth,
                xi_poolAuthority = positionAuthority, xi_lbPair = lbPair, xi_dlmmProgram = DLMM_PROGRAM_ID sk,
                xi_remaining = [signer (ex_relayer ex), signer position, ro lbPair, ro positionAuthority,
                  ro (SYSTEM_PROGRAM_ID sk), ro (SYSVAR_RENT_ID sk), ro (DLMM_EVENT_AUTHORITY sk), ro (DLMM_PROGRAM_ID sk)]\<rparr>
          in bind_res (presigned ex nd [SetComputeUnitLimit 600000, fundStealthIx, ix] [position]) (\<lambda>tx.
             Inr \<lparr>ir_transaction = Some tx, ir_positionPubkey = sk_base58 sk position,
               ir_positionAuthority = sk_base58 sk positionAuthority, ir_alreadyInitialized = False\<rparr>)))"

section \<open>Adding liquidity\<close>

record pair_keys =
  pk_tokenX :: pubkey
  pk_tokenY :: pubkey
  pk_lbPair :: pubkey
  pk_binArrayLower :: pubkey
  pk_binArrayUpper :: pubkey

definition config_keys :: "sdk \<Rightarrow> TestPairConfig \<Rightarrow> exec_error + pair_keys" where
  "config_keys sk config =
     bind_res (new_PublicKey sk (tc_tokenX config)) (\<lambda>tokenX.
     bind_res (new_PublicKey sk (tc_tokenY config)) (\<lambda>tokenY.
     bind_res (new_PublicKey sk (tc_lbPair config)) (\<lambda>lbPair.
     bind_res (new_PublicKey sk (tc_binArrayLower config)) (\<lambda>lower.
     bind_res (new_PublicKey sk (tc_binArrayUpper config)) (\<lambda>upper.
     Inr \<lparr>pk_tokenX = tokenX, pk_tokenY = tokenY, pk_lbPair = lbPair, pk_binArrayLower = lower, pk_binArrayUpper = upper\<rparr>)))))"

definition liquidity_accounts :: "sdk \<Rightarrow> pair_keys \<Rightarrow> pubkey \<Rightarrow> pubkey \<Rightarrow> pubkey \<Rightarrow> pubkey \<Rightarrow> AccountMeta list" where
  "liquidity_accounts sk keys positionPubkey userX userY authority =
     [rw positionPubkey, rw (pk_lbPair keys), ro (DLMM_PROGRAM_ID sk), rw userX, rw userY,
      rw (sk_reserve sk (pk_tokenX keys) (pk_lbPair keys)), rw (sk_reserve sk (pk_tokenY keys) (pk_lbPair keys)),
      ro (pk_tokenX keys), ro (pk_tokenY keys), rw (pk_binArrayLower keys), rw (pk_binArrayUpper keys), ro authority,
      ro (SPL_TOKEN_PROGRAM_ID sk), ro (SPL_TOKEN_PROGRAM_ID sk), ro (DLMM_EVENT_AUTHORITY sk), ro (DLMM_PROGRAM_ID sk)]"

definition liquidity_instructions ::
    "executor \<Rightarrow> pubkey \<Rightarrow> pair_keys \<Rightarrow> pubkey \<Rightarrow> pubkey \<Rightarrow> pubkey \<Rightarrow> pubkey \<Rightarrow> pubkey \<Rightarrow> int \<Rightarrow> bytes \<Rightarrow> tx_ix list" where
  "liquidity_instructions ex stealth keys authority positionPubkey pdaAtaX pdaAtaY wsolAta lamports params =
     (let sk = ex_sdk ex; pdaSolAta = (if pk_tokenX keys = NATIVE_MINT sk then pdaAtaX else pdaAtaY) in
      [SetComputeUnitLimit 1400000,
       CreateAtaIdempotent (ex_relayer ex) pdaAtaX authority (pk_tokenX keys),
       CreateAtaIdempotent (ex_relayer ex) pdaAtaY authority (pk_tokenY keys),
       CreateAtaIdempotent (ex_relayer ex) wsolAta stealth (NATIVE_MINT sk),
       SystemTransfer stealth wsolAta lamports,
       SyncNative wsolAta,
       TokenTransfer wsolAta pdaSolAta stealth lamports,
       CloseTokenAccount wsolAta stealth stealth,
       ExecutorIx \<lparr>xi_args = AddDlmmLiquidity params, xi_stealth = stealth, xi_poolAuthority = authority,
         xi_lbPair = pk_lbPair keys, xi_dlmmProgram = DLMM_PROGRAM_ID sk,
         xi_remaining = liquidity_accounts sk keys positionPubkey pdaAtaX pdaAtaY authority\<rparr>])"

definition buildAddLiquidityTx ::
    "executor \<Rightarrow> exec_node \<Rightarrow> pubkey \<Rightarrow> TestPairConfig \<Rightarrow> int \<Rightarrow> string \<Rightarrow> exec_error + executor_tx" where
  "buildAddLiquidityTx ex nd stealth config totalSolLamports shape =
     (let sk = ex_sdk ex in
      bind_res (config_keys sk config) (\<lambda>keys.
      let positionAuthority = derivePoolAuthorityPda ex stealth (pk_lbPair keys);
          solIsTokenX = (pk_tokenX keys = NATIVE_MINT sk);
          solIsTokenY = (pk_tokenY keys = NATIVE_MINT sk)
      in if \<not> solIsTokenX \<and> \<not> solIsTokenY then Inl NoNativeSide
         else
      bind_res (case planSingleSidedSol \<lparr>si_totalLamports = totalSolLamports, si_activeBinId = tc_activeBin config,
          si_lowerBinId = tc_lowerBinId config, si_upperBinId = tc_upperBinId config, si_shape = shape, si_solIsTokenX = solIsTokenX\<rparr> of
          Inl e \<Rightarrow> Inl (RangeRefused e) | Inr p \<Rightarrow> Inr p) (\<lambda>plan.
      bind_res (fetchPositionFromAuthority nd positionAuthority) (\<lambda>positionPubkey.
      bind_res (ata_of sk True (pk_tokenX keys) positionAuthority) (\<lambda>pdaAtaX.
      bind_res (ata_of sk True (pk_tokenY keys) positionAuthority) (\<lambda>pdaAtaY.
      bind_res (ata_of sk False (NATIVE_MINT sk) stealth) (\<lambda>stealthWsolAta.
      bind_res (case encodeLiquidityParamsByStrategy \<lparr>lp_amountX = sp_amountX plan, lp_amountY = sp_amountY plan,
          lp_activeId = tc_activeBin config, lp_maxActiveBinSlippage = 5, lp_minBinId = sp_minBinId plan,
          lp_maxBinId = sp_maxBinId plan, lp_strategyType = sp_strategyType plan\<rparr> of
          Inl e \<Rightarrow> Inl (WriteRefused e) | Inr bs \<Rightarrow> Inr bs) (\<lambda>liquidityParams.
      presigned ex nd (liquidity_instructions ex stealth keys positionAuthority positionPubkey pdaAtaX pdaAtaY stealthWsolAta
        totalSolLamports liquidityParams) []))))))))"

section \<open>Claims and exits\<close>

definition exit_accounts ::
    "executor \<Rightarrow> exec_node \<Rightarrow> pubkey \<Rightarrow> TestPairConfig \<Rightarrow>
      (pair_keys \<Rightarrow> pubkey \<Rightarrow> pubkey \<Rightarrow> pubkey \<Rightarrow> pubkey \<Rightarrow> pubkey \<Rightarrow> exec_error + 'a) \<Rightarrow> exec_error + 'a" where
  "exit_accounts ex nd stealth config k =
     (let sk = ex_sdk ex in
      bind_res (config_keys sk config) (\<lambda>keys.
      let positionAuthority = derivePoolAuthorityPda ex stealth (pk_lbPair keys) in
      bind_res (fetch_authority nd positionAuthority) (\<lambda>acct.
      bind_res (fetchPositionFromAuthority nd positionAuthority) (\<lambda>positionPubkey.
      bind_res (ata_of sk False (pk_tokenX keys) (pa_exit_recipient acct)) (\<lambda>exitAtaX.
      bind_res (ata_of sk False (pk_tokenY keys) (pa_exit_recipient acct)) (\<lambda>exitAtaY.
      k keys positionAuthority (pa_exit_recipient acct) positionPubkey exitAtaX exitAtaY))))))"

text \<open>\<open>buildWithdrawCloseTx\<close> derives the token accounts before it reads the position.\<close>

definition close_accounts ::
    "executor \<Rightarrow> exec_node \<Rightarrow> pubkey \<Rightarrow> TestPairConfig \<Rightarrow>
      (pair_keys \<Rightarrow> pubkey \<Rightarrow> pubkey \<Rightarrow> pubkey \<Rightarrow> pubkey \<Rightarrow> pubkey \<Rightarrow> exec_error + 'a) \<Rightarrow> exec_error + 'a" where
  "close_accounts ex nd stealth config k =
     (let sk = ex_sdk ex in
      bind_res (config_keys sk config) (\<lambda>keys.
      let positionAuthority = derivePoolAuthorityPda ex stealth (pk_lbPair keys) in
      bind_res (fetch_authority nd positionAuthority) (\<lambda>acct.
      bind_res (ata_of sk False (pk_tokenX keys) (pa_exit_recipient acct)) (\<lambda>exitAtaX.
      bind_res (ata_of sk False (pk_tokenY keys) (pa_exit_recipient acct)) (\<lambda>exitAtaY.
      bind_res (fetchPositionFromAuthority nd positionAuthority) (\<lambda>positionPubkey.
      k keys positionAuthority (pa_exit_recipient acct) positionPubkey exitAtaX exitAtaY))))))"

definition exit_transaction ::
    "executor \<Rightarrow> exec_node \<Rightarrow> nat \<Rightarrow> pair_keys \<Rightarrow> pubkey \<Rightarrow> pubkey \<Rightarrow> pubkey \<Rightarrow> executor_ix \<Rightarrow> exec_error + executor_tx \<times> string" where
  "exit_transaction ex nd units keys exitRecipient exitAtaX exitAtaY ix =
     bind_res (presigned ex nd
       [SetComputeUnitLimit units,
        CreateAtaIdempotent (ex_relayer ex) exitAtaX exitRecipient (pk_tokenX keys),
        CreateAtaIdempotent (ex_relayer ex) exitAtaY exitRecipient (pk_tokenY keys), ExecutorIx ix] []) (\<lambda>tx.
     Inr (tx, sk_base58 (ex_sdk ex) exitRecipient))"

definition claim_accounts :: "sdk \<Rightarrow> pair_keys \<Rightarrow> pubkey \<Rightarrow> pubkey \<Rightarrow> pubkey \<Rightarrow> pubkey \<Rightarrow> AccountMeta list" where
  "claim_accounts sk keys positionPubkey exitAtaX exitAtaY authority =
     [rw (pk_lbPair keys), rw positionPubkey, rw (pk_binArrayLower keys), rw (pk_binArrayUpper keys), ro authority,
      rw (sk_reserve sk (pk_tokenX keys) (pk_lbPair keys)), rw (sk_reserve sk (pk_tokenY keys) (pk_lbPair keys)),
      rw exitAtaX, rw exitAtaY, ro (pk_tokenX keys), ro (pk_tokenY keys), ro (SPL_TOKEN_PROGRAM_ID sk),
      ro (DLMM_EVENT_AUTHORITY sk), ro (DLMM_PROGRAM_ID sk)]"

definition buildClaimFeesTx :: "executor \<Rightarrow> exec_node \<Rightarrow> pubkey \<Rightarrow> TestPairConfig \<Rightarrow> exec_error + executor_tx \<times> string" where
  "buildClaimFeesTx ex nd stealth config =
     exit_accounts ex nd stealth config (\<lambda>keys positionAuthority exitRecipient positionPubkey exitAtaX exitAtaY.
     exit_transaction ex nd 600000 keys exitRecipient exitAtaX exitAtaY
       \<lparr>xi_args = ClaimDlmmFees, xi_stealth = stealth, xi_poolAuthority = positionAuthority,
        xi_lbPair = pk_lbPair keys, xi_dlmmProgram = DLMM_PROGRAM_ID (ex_sdk ex),
        xi_remaining = claim_accounts (ex_sdk ex) keys positionPubkey exitAtaX exitAtaY positionAuthority\<rparr>)"

definition buildWithdrawCloseTx :: "executor \<Rightarrow> exec_node \<Rightarrow> pubkey \<Rightarrow> TestPairConfig \<Rightarrow> exec_error + executor_tx \<times> string" where
  "buildWithdrawCloseTx ex nd stealth config =
     close_accounts ex nd stealth config (\<lambda>keys positionAuthority exitRecipient positionPubkey exitAtaX exitAtaY.
     exit_transaction ex nd 1400000 keys exitRecipient exitAtaX exitAtaY
       \<lparr>xi_args = RemoveAndClose (tc_lowerBinId config) (tc_upperBinId config) 10000, xi_stealth = stealth,
        xi_poolAuthority = positionAuthority, xi_lbPair = pk_lbPair keys, xi_dlmmProgram = DLMM_PROGRAM_ID (ex_sdk ex),
        xi_remaining = liquidity_accounts (ex_sdk ex) keys positionPubkey exitAtaX exitAtaY positionAuthority @ [rw exitRecipient]\<rparr>)"

section \<open>Swaps\<close>

record BuildSwapTxResult =
  bs_transaction :: executor_tx
  bs_userTokenIn :: string
  bs_userTokenOut :: string

definition buildSwapTx :: "executor \<Rightarrow> exec_node \<Rightarrow> pubkey \<Rightarrow> pubkey \<Rightarrow> int \<Rightarrow> int \<Rightarrow> bool \<Rightarrow> exec_error + BuildSwapTxResult" where
  "buildSwapTx ex nd stealth lbPair amountIn minAmountOut swapForY =
     (let sk = ex_sdk ex in
      bind_res (from_node (xn_pair nd lbPair)) (\<lambda>dlmm.
      let tokenX = lp_tokenXMint dlmm; tokenY = lp_tokenYMint dlmm;
          activeIdx = sk_binArrayIndex sk (lp_active dlmm);
          binArray0 = sk_binArray sk lbPair activeIdx;
          binArray1 = sk_binArray sk lbPair (activeIdx + (if swapForY then - 1 else 1));
          inputMint = (if swapForY then tokenX else tokenY);
          outputMint = (if swapForY then tokenY else tokenX)
      in bind_res (ata_of sk False inputMint stealth) (\<lambda>userTokenIn.
         bind_res (ata_of sk False outputMint stealth) (\<lambda>userTokenOut.
         let ix = ExecutorIx \<lparr>xi_args = SwapArgs amountIn minAmountOut, xi_stealth = stealth, xi_poolAuthority = [],
               xi_lbPair = lbPair, xi_dlmmProgram = DLMM_PROGRAM_ID sk,
               xi_remaining =
                 [rw lbPair, rw (DLMM_PROGRAM_ID sk), rw (sk_reserve sk tokenX lbPair), rw (sk_reserve sk tokenY lbPair),
                  rw userTokenIn, rw userTokenOut, ro tokenX, ro tokenY, rw (sk_oracle sk lbPair), rw (DLMM_PROGRAM_ID sk),
                  signer stealth, ro (SPL_TOKEN_PROGRAM_ID sk), ro (SPL_TOKEN_PROGRAM_ID sk), ro (DLMM_EVENT_AUTHORITY sk),
                  ro (DLMM_PROGRAM_ID sk), rw binArray0, rw binArray1]\<rparr>
         in bind_res (presigned ex nd [SetComputeUnitLimit 1400000, ix] []) (\<lambda>tx.
            Inr \<lparr>bs_transaction = tx, bs_userTokenIn = sk_base58 sk userTokenIn, bs_userTokenOut = sk_base58 sk userTokenOut\<rparr>)))))"

end
