(* ===== verification/ExecutorPools.thy ===== *)
theory ExecutorPools imports ExecutorService begin

text \<open>
  The rest of executor.service.ts: the bin range of an existing pool, the test pair, and the views
  of an authority and of a position; then executor.controller.ts.
\<close>

section \<open>The range of a pool\<close>

definition MAX_WIDTH :: int where "MAX_WIDTH = 70"

record bin_range =
  br_lower :: int
  br_upper :: int
  br_lowerArray :: int
  br_upperArray :: int

definition range_of :: "(int \<Rightarrow> int) \<Rightarrow> int \<Rightarrow> int \<Rightarrow> bin_range" where
  "range_of arrayIndex lower upper =
     \<lparr>br_lower = lower, br_upper = upper, br_lowerArray = arrayIndex lower, br_upperArray = arrayIndex upper\<rparr>"

text \<open>
  A range inside one array is extended into a neighbour: down when it lies below the active bin,
  else up; a range that grew past 70 bins is cut at the other end.
\<close>

definition adjust_range :: "(int \<Rightarrow> int) \<Rightarrow> int \<Rightarrow> int \<Rightarrow> int \<Rightarrow> bin_range" where
  "adjust_range arrayIndex activeBin lower0 width =
     (let upper0 = lower0 + width - 1; r = range_of arrayIndex lower0 upper0 in
      if br_lowerArray r = br_upperArray r then
        (if upper0 < activeBin then
           let lower = br_lowerArray r * 70 - 1;
               upper = (if MAX_WIDTH < upper0 - lower + 1 then lower + MAX_WIDTH - 1 else upper0)
           in range_of arrayIndex lower upper
         else
           let upper = (br_upperArray r + 1) * 70;
               lower = (if MAX_WIDTH < upper - lower0 + 1 then upper - MAX_WIDTH + 1 else lower0)
           in range_of arrayIndex lower upper)
      else r)"

text \<open>\<open>useExistingPool\<close>: the configuration, and the arrays it initialises.\<close>

definition useExistingPool ::
    "executor \<Rightarrow> exec_node \<Rightarrow> pubkey \<Rightarrow> int option \<Rightarrow> int option \<Rightarrow> exec_error + TestPairConfig \<times> int list" where
  "useExistingPool ex nd lbPair optWidth optLower =
     (let sk = ex_sdk ex; width = (case optWidth of None \<Rightarrow> 20 | Some w \<Rightarrow> w) in
      bind_res (from_node (xn_pair nd lbPair)) (\<lambda>dlmm.
      let activeBin = lp_active dlmm;
          lowerBinId = (case optLower of None \<Rightarrow> activeBin - width div 2 | Some l \<Rightarrow> l);
          r = adjust_range (sk_binArrayIndex sk) activeBin lowerBinId width
      in Inr (\<lparr>tc_tokenX = sk_base58 sk (lp_tokenXMint dlmm), tc_tokenY = sk_base58 sk (lp_tokenYMint dlmm),
            tc_lbPair = sk_base58 sk lbPair,
            tc_binArrayLower = sk_base58 sk (sk_binArray sk lbPair (br_lowerArray r)),
            tc_binArrayUpper = sk_base58 sk (sk_binArray sk lbPair (br_upperArray r)),
            tc_lowerBinId = br_lower r, tc_upperBinId = br_upper r, tc_width = br_upper r - br_lower r + 1,
            tc_activeBin = activeBin, tc_binStep = lp_binStep dlmm, tc_baseFactor = 0\<rparr>,
          if br_lowerArray r = br_upperArray r then [br_lowerArray r] else [br_lowerArray r, br_upperArray r])))"

section \<open>The test pair\<close>

definition BIN_STEP :: int where "BIN_STEP = 10"
definition BASE_FACTOR :: int where "BASE_FACTOR = 10000"
definition ACTIVE_BIN :: int where "ACTIVE_BIN = 0"

text \<open>\<open>Buffer.compare(a, b) > 0\<close>\<close>

fun buffer_gt :: "bytes \<Rightarrow> bytes \<Rightarrow> bool" where
  "buffer_gt (a # as) (b # bs) = (b < a \<or> a = b \<and> buffer_gt as bs)"
| "buffer_gt (a # as) [] = True"
| "buffer_gt [] bs = False"

text \<open>\<open>setupTestPair\<close>, given the mints it creates.\<close>

definition setupTestPair ::
    "executor \<Rightarrow> int option \<Rightarrow> int option \<Rightarrow> bool \<Rightarrow> pubkey \<Rightarrow> pubkey \<Rightarrow> TestPairConfig \<times> int list" where
  "setupTestPair ex optLower optWidth useNativeSol mintX mintY =
     (let sk = ex_sdk ex;
          lowerBinId = (case optLower of None \<Rightarrow> - 10 | Some l \<Rightarrow> l);
          width = (case optWidth of None \<Rightarrow> 20 | Some w \<Rightarrow> w);
          upperBinId = lowerBinId + width - 1;
          tokenX0 = mintX; tokenY0 = (if useNativeSol then NATIVE_MINT sk else mintY);
          (tokenX, tokenY) = (if buffer_gt tokenX0 tokenY0 then (tokenY0, tokenX0) else (tokenX0, tokenY0));
          lbPair = sk_lbPair sk tokenX tokenY BIN_STEP BASE_FACTOR;
          lowerArrayIdx = sk_binArrayIndex sk lowerBinId;
          upperArrayIdx = sk_binArrayIndex sk upperBinId
      in (\<lparr>tc_tokenX = sk_base58 sk tokenX, tc_tokenY = sk_base58 sk tokenY, tc_lbPair = sk_base58 sk lbPair,
           tc_binArrayLower = sk_base58 sk (sk_binArray sk lbPair lowerArrayIdx),
           tc_binArrayUpper = sk_base58 sk (sk_binArray sk lbPair upperArrayIdx),
           tc_lowerBinId = lowerBinId, tc_upperBinId = upperBinId, tc_width = width,
           tc_activeBin = ACTIVE_BIN, tc_binStep = BIN_STEP, tc_baseFactor = BASE_FACTOR\<rparr>,
          if lowerArrayIdx = upperArrayIdx then [lowerArrayIdx] else [lowerArrayIdx, upperArrayIdx]))"

text \<open>
  \<open>mintTestTokens\<close>: the account of each token is found or created, then a positive amount is minted
  to it; the calls the relayer signs, and the accounts.
\<close>

datatype mint_call = GetOrCreateAta pubkey pubkey | MintTo pubkey pubkey int

definition mintTestTokens :: "executor \<Rightarrow> pubkey \<Rightarrow> pubkey \<Rightarrow> pubkey \<Rightarrow> int \<Rightarrow> int \<Rightarrow> exec_error + mint_call list \<times> string \<times> string" where
  "mintTestTokens ex own tokenX tokenY amountX amountY =
     (let sk = ex_sdk ex in
      bind_res (ata_of sk False tokenX own) (\<lambda>ataX.
      bind_res (ata_of sk False tokenY own) (\<lambda>ataY.
      Inr ([GetOrCreateAta tokenX own, GetOrCreateAta tokenY own] @
           (if 0 < amountX then [MintTo tokenX ataX amountX] else []) @
           (if 0 < amountY then [MintTo tokenY ataY amountY] else []),
           sk_base58 sk ataX, sk_base58 sk ataY))))"

section \<open>Views\<close>

record AuthorityView =
  av_pda :: string
  av_stealthPubkey :: string
  av_lbPair :: string
  av_position :: string
  av_exitRecipient :: string
  av_range :: "TestPairConfig option"

text \<open>The extras are best effort: a failure leaves them out.\<close>

definition fetchPositionAuthority :: "executor \<Rightarrow> exec_node \<Rightarrow> pubkey \<Rightarrow> pubkey \<Rightarrow> exec_error + AuthorityView option" where
  "fetchPositionAuthority ex nd stealth lbPair =
     (let sk = ex_sdk ex; pda = derivePoolAuthorityPda ex stealth lbPair in
      bind_res (from_node (xn_authority nd pda)) (\<lambda>acct.
      case acct of
        None \<Rightarrow> Inr None
      | Some pa \<Rightarrow>
          (case pa_pool_ref pa of
             Damm pool mint escrow \<Rightarrow> Inr None
           | Dlmm storedPair position \<Rightarrow>
               let extras =
                 (case (xn_pair nd lbPair, xn_positionBins nd position) of
                    (Inr dlmm, Inr (lowerBinId, upperBinId)) \<Rightarrow>
                      Some \<lparr>tc_tokenX = sk_base58 sk (lp_tokenXMint dlmm), tc_tokenY = sk_base58 sk (lp_tokenYMint dlmm),
                        tc_lbPair = sk_base58 sk storedPair,
                        tc_binArrayLower = sk_base58 sk (sk_binArray sk lbPair (sk_binArrayIndex sk lowerBinId)),
                        tc_binArrayUpper = sk_base58 sk (sk_binArray sk lbPair (sk_binArrayIndex sk upperBinId)),
                        tc_lowerBinId = lowerBinId, tc_upperBinId = upperBinId, tc_width = upperBinId - lowerBinId + 1,
                        tc_activeBin = lp_active dlmm, tc_binStep = lp_binStep dlmm, tc_baseFactor = 0\<rparr>
                  | _ \<Rightarrow> None)
               in Inr (Some \<lparr>av_pda = sk_base58 sk pda, av_stealthPubkey = sk_base58 sk (pa_stealth_pubkey pa),
                    av_lbPair = sk_base58 sk storedPair, av_position = sk_base58 sk position,
                    av_exitRecipient = sk_base58 sk (pa_exit_recipient pa), av_range = extras\<rparr>))))"

text \<open>
  \<open>getPositionState\<close>: \<open>pow\<close> is \<open>10 ** n\<close>; the SDK gives amounts as texts that may carry a
  fraction, of which the code keeps what precedes the point.
\<close>

record position_data =
  pd_feeX :: int
  pd_feeY :: int
  pd_totalXAmount :: string
  pd_totalYAmount :: string

definition rawToUsd :: "(js_num \<Rightarrow> js_num \<Rightarrow> js_num) \<Rightarrow> int \<Rightarrow> int \<Rightarrow> js_num \<Rightarrow> js_num" where
  "rawToUsd pow raw decimals priceUsd =
     (if raw = 0 \<or> priceUsd = Fin 0 then Fin 0
      else js_mul (js_div (fl64 (of_int raw)) (pow (Fin 10) (js_int decimals))) priceUsd)"

definition whole_part :: "string \<Rightarrow> exec_error + int" where
  "whole_part s =
     (let w = takeWhile (\<lambda>c. c \<noteq> CHR ''.'') s in
      case bigint_of_string w of None \<Rightarrow> Inl (BadBigInt w) | Some n \<Rightarrow> Inr n)"

record PositionStateView =
  sv_lbPair :: string
  sv_lowerBinId :: int
  sv_upperBinId :: int
  sv_activeBinId :: int
  sv_tokenXMint :: string
  sv_tokenYMint :: string
  sv_decimalsX :: int
  sv_decimalsY :: int
  sv_feeXLamports :: string
  sv_feeYLamports :: string
  sv_totalXLamports :: string
  sv_totalYLamports :: string
  sv_feeUsd :: js_num
  sv_valueUsd :: js_num
  sv_priceXUsd :: js_num
  sv_priceYUsd :: js_num

definition getPositionState ::
    "executor \<Rightarrow> exec_node \<Rightarrow> (js_num \<Rightarrow> js_num \<Rightarrow> js_num) \<Rightarrow> (string \<Rightarrow> js_num option) \<Rightarrow> (pubkey \<Rightarrow> position_data) \<Rightarrow>
      pubkey \<Rightarrow> pubkey \<Rightarrow> exec_error + PositionStateView option" where
  "getPositionState ex nd pow prices position_of lbPair positionPubkey =
     (let sk = ex_sdk ex in
      bind_res (from_node (xn_pair nd lbPair)) (\<lambda>dlmm.
      case xn_positionBins nd positionPubkey of
        Inl e \<Rightarrow> Inr None
      | Inr (lower, upper) \<Rightarrow>
          let data = position_of positionPubkey;
              mintX = lp_tokenXMint dlmm; mintY = lp_tokenYMint dlmm;
              priceX = default_zero (prices (sk_base58 sk mintX));
              priceY = default_zero (prices (sk_base58 sk mintY))
          in bind_res (from_node (xn_account nd mintX)) (\<lambda>acctX.
             bind_res (from_node (xn_account nd mintY)) (\<lambda>acctY.
             let decimalsX = mint_decimals acctX; decimalsY = mint_decimals acctY in
             bind_res (whole_part (pd_totalXAmount data)) (\<lambda>totalX.
             bind_res (whole_part (pd_totalYAmount data)) (\<lambda>totalY.
             Inr (Some \<lparr>sv_lbPair = sk_base58 sk lbPair, sv_lowerBinId = lower, sv_upperBinId = upper, sv_activeBinId = lp_active dlmm,
               sv_tokenXMint = sk_base58 sk mintX, sv_tokenYMint = sk_base58 sk mintY, sv_decimalsX = decimalsX, sv_decimalsY = decimalsY,
               sv_feeXLamports = string_of_bigint (pd_feeX data), sv_feeYLamports = string_of_bigint (pd_feeY data),
               sv_totalXLamports = string_of_bigint totalX, sv_totalYLamports = string_of_bigint totalY,
               sv_feeUsd = js_add (rawToUsd pow (pd_feeX data) decimalsX priceX) (rawToUsd pow (pd_feeY data) decimalsY priceY),
               sv_valueUsd = js_add (rawToUsd pow totalX decimalsX priceX) (rawToUsd pow totalY decimalsY priceY),
               sv_priceXUsd = priceX, sv_priceYUsd = priceY\<rparr>))))))) "

section \<open>Handlers\<close>

text \<open>A handler with a catch answers 400; without one the error leaves it.\<close>

datatype 'a exec_reply = Sent 'a | BadRequest exec_error | MissingParam | NotFound | Uncaught exec_error

definition caught :: "exec_error + 'a \<Rightarrow> 'a exec_reply" where
  "caught r = (case r of Inl e \<Rightarrow> BadRequest e | Inr a \<Rightarrow> Sent a)"

definition uncaught :: "exec_error + 'a \<Rightarrow> 'a exec_reply" where
  "uncaught r = (case r of Inl e \<Rightarrow> Uncaught e | Inr a \<Rightarrow> Sent a)"

definition new_BigInt :: "string \<Rightarrow> exec_error + int" where
  "new_BigInt s = (case bigint_of_string s of None \<Rightarrow> Inl (BadBigInt s) | Some n \<Rightarrow> Inr n)"

record InitPositionBody =
  ib_stealth :: string
  ib_lbPair :: string
  ib_lowerBinId :: int
  ib_width :: int
  ib_exitRecipient :: "string option"

definition initPositionTx :: "executor \<Rightarrow> exec_node \<Rightarrow> InitPositionBody \<Rightarrow> InitPositionResult exec_reply" where
  "initPositionTx ex nd body =
     uncaught
       (bind_res (new_PublicKey (ex_sdk ex) (ib_stealth body)) (\<lambda>stealth.
        bind_res (new_PublicKey (ex_sdk ex) (ib_lbPair body)) (\<lambda>lbPair.
        buildInitPositionTx ex nd stealth lbPair stealth (ib_lowerBinId body) (ib_width body))))"

definition addLiquidityTx :: "executor \<Rightarrow> exec_node \<Rightarrow> string \<Rightarrow> TestPairConfig \<Rightarrow> string \<Rightarrow> string \<Rightarrow> executor_tx exec_reply" where
  "addLiquidityTx ex nd stealth config totalSolLamports shape =
     caught
       (bind_res (new_PublicKey (ex_sdk ex) stealth) (\<lambda>k.
        bind_res (new_BigInt totalSolLamports) (\<lambda>total. buildAddLiquidityTx ex nd k config total shape)))"

definition claimFeesTx :: "executor \<Rightarrow> exec_node \<Rightarrow> string \<Rightarrow> TestPairConfig \<Rightarrow> (executor_tx \<times> string) exec_reply" where
  "claimFeesTx ex nd stealth config =
     caught (bind_res (new_PublicKey (ex_sdk ex) stealth) (\<lambda>k. buildClaimFeesTx ex nd k config))"

definition withdrawCloseTx :: "executor \<Rightarrow> exec_node \<Rightarrow> string \<Rightarrow> TestPairConfig \<Rightarrow> (executor_tx \<times> string) exec_reply" where
  "withdrawCloseTx ex nd stealth config =
     caught (bind_res (new_PublicKey (ex_sdk ex) stealth) (\<lambda>k. buildWithdrawCloseTx ex nd k config))"

definition dlmmSwapTx :: "executor \<Rightarrow> exec_node \<Rightarrow> string \<Rightarrow> string \<Rightarrow> string \<Rightarrow> string \<Rightarrow> bool \<Rightarrow> BuildSwapTxResult exec_reply" where
  "dlmmSwapTx ex nd stealth lbPair amountIn minAmountOut swapForY =
     caught
       (bind_res (new_PublicKey (ex_sdk ex) stealth) (\<lambda>k.
        bind_res (new_PublicKey (ex_sdk ex) lbPair) (\<lambda>p.
        bind_res (new_BigInt amountIn) (\<lambda>a.
        bind_res (new_BigInt minAmountOut) (\<lambda>m. buildSwapTx ex nd k p a m swapForY)))))"

definition poolAuthority :: "executor \<Rightarrow> exec_node \<Rightarrow> string \<Rightarrow> string \<Rightarrow> AuthorityView exec_reply" where
  "poolAuthority ex nd stealth lbPair =
     (if lbPair = [] then MissingParam
      else case uncaught (bind_res (new_PublicKey (ex_sdk ex) stealth) (\<lambda>s.
               bind_res (new_PublicKey (ex_sdk ex) lbPair) (\<lambda>p. fetchPositionAuthority ex nd s p))) of
             Sent None \<Rightarrow> NotFound
           | Sent (Some v) \<Rightarrow> Sent v
           | BadRequest e \<Rightarrow> BadRequest e
           | MissingParam \<Rightarrow> MissingParam
           | NotFound \<Rightarrow> NotFound
           | Uncaught e \<Rightarrow> Uncaught e)"

definition usePool :: "executor \<Rightarrow> exec_node \<Rightarrow> string \<Rightarrow> int option \<Rightarrow> int option \<Rightarrow> TestPairConfig exec_reply" where
  "usePool ex nd lbPair optWidth optLower =
     caught
       (bind_res (new_PublicKey (ex_sdk ex) lbPair) (\<lambda>p.
        bind_res (useExistingPool ex nd p optWidth optLower) (\<lambda>(config, arrays). Inr config)))"

definition setupPair :: "executor \<Rightarrow> int option \<Rightarrow> int option \<Rightarrow> bool \<Rightarrow> pubkey \<Rightarrow> pubkey \<Rightarrow> TestPairConfig exec_reply" where
  "setupPair ex optLower optWidth useNativeSol mintX mintY = Sent (fst (setupTestPair ex optLower optWidth useNativeSol mintX mintY))"

definition mintTokens :: "executor \<Rightarrow> string \<Rightarrow> string \<Rightarrow> string \<Rightarrow> string \<Rightarrow> string \<Rightarrow> (mint_call list \<times> string \<times> string) exec_reply" where
  "mintTokens ex own tokenX tokenY amountX amountY =
     uncaught
       (bind_res (new_PublicKey (ex_sdk ex) own) (\<lambda>k.
        bind_res (new_PublicKey (ex_sdk ex) tokenX) (\<lambda>x.
        bind_res (new_PublicKey (ex_sdk ex) tokenY) (\<lambda>y.
        bind_res (new_BigInt amountX) (\<lambda>m.
        bind_res (new_BigInt amountY) (\<lambda>n. mintTestTokens ex k x y m n))))))"

definition positionState ::
    "executor \<Rightarrow> exec_node \<Rightarrow> (js_num \<Rightarrow> js_num \<Rightarrow> js_num) \<Rightarrow> (string \<Rightarrow> js_num option) \<Rightarrow> (pubkey \<Rightarrow> position_data) \<Rightarrow>
      string \<Rightarrow> string \<Rightarrow> PositionStateView exec_reply" where
  "positionState ex nd pow prices position_of lbPair positionPubkey =
     (if lbPair = [] \<or> positionPubkey = [] then MissingParam
      else case caught (bind_res (new_PublicKey (ex_sdk ex) lbPair) (\<lambda>p.
               bind_res (new_PublicKey (ex_sdk ex) positionPubkey) (\<lambda>k. getPositionState ex nd pow prices position_of p k))) of
             Sent None \<Rightarrow> NotFound
           | Sent (Some v) \<Rightarrow> Sent v
           | BadRequest e \<Rightarrow> BadRequest e
           | MissingParam \<Rightarrow> MissingParam
           | NotFound \<Rightarrow> NotFound
           | Uncaught e \<Rightarrow> Uncaught e)"

end
