(* ===== verification/ExecutorProperties.thy ===== *)
theory ExecutorProperties imports ExecutorPools begin

text \<open>
  The executor of the API against the program on chain: what a stealth wallet earns stays with
  it, what the API builds the program accepts, and the relayer pays only what it says.
\<close>

section \<open>Proceeds\<close>

text \<open>The transactions the API hands out for one stealth wallet.\<close>

definition api_tx :: "executor \<Rightarrow> pubkey \<Rightarrow> executor_tx \<Rightarrow> bool" where
  "api_tx ex S tx \<longleftrightarrow>
     (\<exists>nd s. sk_PublicKey (ex_sdk ex) s = Some S \<and>
       ((\<exists>body r. ib_stealth body = s \<and> initPositionTx ex nd body = Sent r \<and> ir_transaction r = Some tx) \<or>
        (\<exists>config total shape. addLiquidityTx ex nd s config total shape = Sent tx) \<or>
        (\<exists>config e. claimFeesTx ex nd s config = Sent (tx, e)) \<or>
        (\<exists>config e. withdrawCloseTx ex nd s config = Sent (tx, e)) \<or>
        (\<exists>lb a m b r. dlmmSwapTx ex nd s lb a m b = Sent r \<and> bs_transaction r = tx)))"

lemma wrapped_Inr: "(case r of Inl e \<Rightarrow> Inl (f e) | Inr a \<Rightarrow> Inr a) = Inr y \<longleftrightarrow> r = Inr y"
  by (cases r) simp_all

lemma guarded_Inr: "(if c then Inl e else r) = Inr y \<longleftrightarrow> \<not> c \<and> r = Inr y"
  by simp

lemma caught_Sent: "caught r = Sent y \<longleftrightarrow> r = Inr y" "uncaught r = Sent y \<longleftrightarrow> r = Inr y"
  by (simp_all add: caught_def uncaught_def split: sum.splits)

lemma new_PublicKey_Inr: "new_PublicKey sk s = Inr k \<longleftrightarrow> sk_PublicKey sk s = Some k"
  by (simp add: new_PublicKey_def split: option.splits)

lemma presigned_Inr:
  "presigned ex nd ixs others = Inr tx \<longleftrightarrow>
     (\<exists>bh. xn_blockhash nd = Inr bh \<and> tx = \<lparr>et_feePayer = ex_relayer ex, et_blockhash = bh, et_instructions = ixs, et_signedBy = ex_relayer ex # others\<rparr>)"
  by (auto simp: presigned_def bind_res_Inr from_node_def split: sum.splits)

lemma ata_of_Inr: "ata_of sk b mint owner = Inr k \<longleftrightarrow> (b \<or> sk_onCurve sk owner) \<and> k = sk_ata sk mint owner"
  by (auto simp: ata_of_def)

text \<open>Every instruction of the program in such a transaction is for that wallet, and an initialisation names it as the exit.\<close>

definition own_ix :: "pubkey \<Rightarrow> executor_ix \<Rightarrow> bool" where
  "own_ix S ix \<longleftrightarrow> xi_stealth ix = S \<and> (case xi_args ix of InitPosition l w e \<Rightarrow> e = S | _ \<Rightarrow> True)"

lemma built_init:
  "buildInitPositionTx ex nd S lb exit l w = Inr r \<Longrightarrow> ir_transaction r = Some tx \<Longrightarrow>
   \<exists>bh position. tx = \<lparr>et_feePayer = ex_relayer ex, et_blockhash = bh, et_instructions =
     [SetComputeUnitLimit 600000, SystemTransfer (ex_relayer ex) S STEALTH_INIT_FUNDING_LAMPORTS,
      ExecutorIx \<lparr>xi_args = InitPosition l w exit, xi_stealth = S, xi_poolAuthority = derivePoolAuthorityPda ex S lb, xi_lbPair = lb,
        xi_dlmmProgram = DLMM_PROGRAM_ID (ex_sdk ex),
        xi_remaining = [signer (ex_relayer ex), signer position, ro lb, ro (derivePoolAuthorityPda ex S lb),
                  ro (SYSTEM_PROGRAM_ID (ex_sdk ex)), ro (SYSVAR_RENT_ID (ex_sdk ex)), ro (DLMM_EVENT_AUTHORITY (ex_sdk ex)),
                  ro (DLMM_PROGRAM_ID (ex_sdk ex))]\<rparr>],
     et_signedBy = [ex_relayer ex, position]\<rparr> \<and> position = xn_newKey nd"
  by (auto simp: buildInitPositionTx_def Let_def bind_res_Inr presigned_Inr split: option.splits)

lemma built_add:
  assumes "buildAddLiquidityTx ex nd S config sol shape = Inr tx"
  obtains bh keys plan params pos where
    "config_keys (ex_sdk ex) config = Inr keys"
    "planSingleSidedSol \<lparr>si_totalLamports = sol, si_activeBinId = tc_activeBin config, si_lowerBinId = tc_lowerBinId config,
       si_upperBinId = tc_upperBinId config, si_shape = shape, si_solIsTokenX = (pk_tokenX keys = NATIVE_MINT (ex_sdk ex))\<rparr> = Inr plan"
    "encodeLiquidityParamsByStrategy \<lparr>lp_amountX = sp_amountX plan, lp_amountY = sp_amountY plan,
          lp_activeId = tc_activeBin config, lp_maxActiveBinSlippage = 5, lp_minBinId = sp_minBinId plan,
          lp_maxBinId = sp_maxBinId plan, lp_strategyType = sp_strategyType plan\<rparr> = Inr params"
    "fetchPositionFromAuthority nd (derivePoolAuthorityPda ex S (pk_lbPair keys)) = Inr pos"
    "pk_tokenX keys = NATIVE_MINT (ex_sdk ex) \<or> pk_tokenY keys = NATIVE_MINT (ex_sdk ex)"
    "tx = \<lparr>et_feePayer = ex_relayer ex, et_blockhash = bh, et_instructions =
           liquidity_instructions ex S keys (derivePoolAuthorityPda ex S (pk_lbPair keys)) pos
             (sk_ata (ex_sdk ex) (pk_tokenX keys) (derivePoolAuthorityPda ex S (pk_lbPair keys)))
             (sk_ata (ex_sdk ex) (pk_tokenY keys) (derivePoolAuthorityPda ex S (pk_lbPair keys)))
             (sk_ata (ex_sdk ex) (NATIVE_MINT (ex_sdk ex)) S) sol params,
        et_signedBy = [ex_relayer ex]\<rparr>"
  using assms
  unfolding buildAddLiquidityTx_def Let_def bind_res_Inr presigned_Inr ata_of_Inr wrapped_Inr guarded_Inr
  apply (elim exE conjE)
  apply (rule that, assumption, assumption, assumption, assumption)
   apply blast
  apply simp
  done

lemma built_exit:
  assumes "exit_accounts ex nd S config k = Inr y"
  obtains keys acct pos where "config_keys (ex_sdk ex) config = Inr keys"
    "fetch_authority nd (derivePoolAuthorityPda ex S (pk_lbPair keys)) = Inr acct"
    "fetchPositionFromAuthority nd (derivePoolAuthorityPda ex S (pk_lbPair keys)) = Inr pos"
    "k keys (derivePoolAuthorityPda ex S (pk_lbPair keys)) (pa_exit_recipient acct) pos
       (sk_ata (ex_sdk ex) (pk_tokenX keys) (pa_exit_recipient acct)) (sk_ata (ex_sdk ex) (pk_tokenY keys) (pa_exit_recipient acct)) = Inr y"
  using assms by (auto simp: exit_accounts_def Let_def bind_res_Inr ata_of_Inr)

lemma close_accounts_Inr: "close_accounts ex nd S config k = Inr y \<longleftrightarrow> exit_accounts ex nd S config k = Inr y"
  by (auto simp: close_accounts_def exit_accounts_def Let_def bind_res_Inr)

lemma exit_transaction_Inr:
  "exit_transaction ex nd units keys e x y ix = Inr (tx, t) \<Longrightarrow>
   \<exists>bh. tx = \<lparr>et_feePayer = ex_relayer ex, et_blockhash = bh, et_instructions =
      [SetComputeUnitLimit units, CreateAtaIdempotent (ex_relayer ex) x e (pk_tokenX keys),
       CreateAtaIdempotent (ex_relayer ex) y e (pk_tokenY keys), ExecutorIx ix], et_signedBy = [ex_relayer ex]\<rparr>"
  by (auto simp: exit_transaction_def bind_res_Inr presigned_Inr)

lemma built_swap:
  "buildSwapTx ex nd S lb a m b = Inr r \<Longrightarrow>
   \<exists>bh ix. bs_transaction r = \<lparr>et_feePayer = ex_relayer ex, et_blockhash = bh, et_instructions = [SetComputeUnitLimit 1400000, ExecutorIx ix],
      et_signedBy = [ex_relayer ex]\<rparr> \<and> xi_stealth ix = S \<and> xi_args ix = SwapArgs a m"
  by (auto simp: buildSwapTx_def Let_def bind_res_Inr presigned_Inr)

lemma api_tx_cases:
  assumes "api_tx ex S tx"
  obtains (init) lb l w bh position rest where "tx = \<lparr>et_feePayer = ex_relayer ex, et_blockhash = bh, et_instructions =
        [SetComputeUnitLimit 600000, SystemTransfer (ex_relayer ex) S STEALTH_INIT_FUNDING_LAMPORTS,
         ExecutorIx \<lparr>xi_args = InitPosition l w S, xi_stealth = S, xi_poolAuthority = derivePoolAuthorityPda ex S lb, xi_lbPair = lb,
           xi_dlmmProgram = DLMM_PROGRAM_ID (ex_sdk ex), xi_remaining = rest\<rparr>], et_signedBy = [ex_relayer ex, position]\<rparr>"
  | (add) bh keys pos x y w sol params auth where "tx = \<lparr>et_feePayer = ex_relayer ex, et_blockhash = bh,
        et_instructions = liquidity_instructions ex S keys auth pos x y w sol params, et_signedBy = [ex_relayer ex]\<rparr>"
  | (exit) bh units mx my x y e ix where "tx = \<lparr>et_feePayer = ex_relayer ex, et_blockhash = bh, et_instructions =
        [SetComputeUnitLimit units, CreateAtaIdempotent (ex_relayer ex) x e mx,
         CreateAtaIdempotent (ex_relayer ex) y e my, ExecutorIx ix], et_signedBy = [ex_relayer ex]\<rparr>"
      "xi_stealth ix = S" "xi_args ix = ClaimDlmmFees \<or> (\<exists>lo hi. xi_args ix = RemoveAndClose lo hi 10000)"
  | (swap) bh ix a m where "tx = \<lparr>et_feePayer = ex_relayer ex, et_blockhash = bh, et_instructions = [SetComputeUnitLimit 1400000, ExecutorIx ix],
        et_signedBy = [ex_relayer ex]\<rparr>" "xi_stealth ix = S" "xi_args ix = SwapArgs a m"
proof -
  from assms obtain nd s where s: "sk_PublicKey (ex_sdk ex) s = Some S" and c:
    "(\<exists>body r. ib_stealth body = s \<and> initPositionTx ex nd body = Sent r \<and> ir_transaction r = Some tx) \<or>
     (\<exists>config sol shape. addLiquidityTx ex nd s config sol shape = Sent tx) \<or>
     (\<exists>config e. claimFeesTx ex nd s config = Sent (tx, e)) \<or>
     (\<exists>config e. withdrawCloseTx ex nd s config = Sent (tx, e)) \<or>
     (\<exists>lb a m b r. dlmmSwapTx ex nd s lb a m b = Sent r \<and> bs_transaction r = tx)"
    unfolding api_tx_def by (elim exE conjE) blast
  have key: "new_PublicKey (ex_sdk ex) s = Inr k \<longleftrightarrow> k = S" for k using s by (auto simp: new_PublicKey_Inr)
  from c show thesis
  proof (elim disjE exE conjE)
    fix body r assume "ib_stealth body = s" "initPositionTx ex nd body = Sent r" "ir_transaction r = Some tx"
    then obtain lb where "buildInitPositionTx ex nd S lb S (ib_lowerBinId body) (ib_width body) = Inr r"
      by (auto simp: initPositionTx_def caught_Sent bind_res_Inr key)
    from built_init [OF this \<open>ir_transaction r = Some tx\<close>] show thesis by (elim exE conjE) (rule init)
  next
    fix config sol shape assume "addLiquidityTx ex nd s config sol shape = Sent tx"
    then obtain n where "buildAddLiquidityTx ex nd S config n shape = Inr tx"
      by (auto simp: addLiquidityTx_def caught_Sent bind_res_Inr key)
    then show thesis by (rule built_add) (rule add)
  next
    fix config e assume "claimFeesTx ex nd s config = Sent (tx, e)"
    then have "buildClaimFeesTx ex nd S config = Inr (tx, e)"
      by (auto simp: claimFeesTx_def caught_Sent bind_res_Inr key)
    then show thesis unfolding buildClaimFeesTx_def
      by (rule built_exit, elim exit_transaction_Inr [elim_format] exE) (rule exit, assumption, simp_all)
  next
    fix config e assume "withdrawCloseTx ex nd s config = Sent (tx, e)"
    then have "buildWithdrawCloseTx ex nd S config = Inr (tx, e)"
      by (auto simp: withdrawCloseTx_def caught_Sent bind_res_Inr key)
    then show thesis unfolding buildWithdrawCloseTx_def close_accounts_Inr
      by (rule built_exit, elim exit_transaction_Inr [elim_format] exE) (rule exit, assumption, simp_all)
  next
    fix lb a m b r assume "dlmmSwapTx ex nd s lb a m b = Sent r" "bs_transaction r = tx"
    then obtain p n k where "buildSwapTx ex nd S p n k b = Inr r"
      by (auto simp: dlmmSwapTx_def caught_Sent bind_res_Inr key)
    from built_swap [OF this, unfolded \<open>bs_transaction r = tx\<close>] show thesis by (elim exE conjE) (rule swap)
  qed
qed

lemma api_ix_own: "api_tx ex S tx \<Longrightarrow> ExecutorIx ix \<in> set (et_instructions tx) \<Longrightarrow> own_ix S ix"
  by (erule api_tx_cases) (auto simp: own_ix_def liquidity_instructions_def Let_def)


text \<open>
  Who a call into the DLMM program pays: the owners of the token accounts of a claim, of a removal
  and of a swap, and the account that receives the rent of a closed position.
\<close>

definition payees :: "ledger \<Rightarrow> dlmm_call \<Rightarrow> pubkey list" where
  "payees lg c =
     (let key = (\<lambda>i. am_pubkey (dc_metas c ! i)); owner = (\<lambda>i. token_owner (lg_data lg (key i))) in
      if dc_name c = ''claim_fee'' then [owner 7, owner 8]
      else if dc_name c = ''remove_liquidity_by_range'' then [owner 3, owner 4]
      else if dc_name c = ''close_position'' then [key 5]
      else if dc_name c = ''swap'' then [owner 4, owner 5]
      else [])"

text \<open>
  The history of the cluster as far as the program is concerned: any program may write data and
  pause, anybody may run instructions that S does not sign, and S signs what the API hands out.
\<close>

inductive chain_step :: "executor \<Rightarrow> pubkey \<Rightarrow> ledger \<Rightarrow> ledger \<Rightarrow> bool" for ex S where
  others: "lg_authority lg' = lg_authority lg \<Longrightarrow> chain_step ex S lg lg'"
| foreign: "execute (ex_sdk ex) (ex_programId ex) lg signers ix = Inr (lg', calls) \<Longrightarrow> S \<notin> signers \<Longrightarrow> chain_step ex S lg lg'"
| handed: "api_tx ex S tx \<Longrightarrow> ExecutorIx ix \<in> set (et_instructions tx) \<Longrightarrow>
    execute (ex_sdk ex) (ex_programId ex) lg signers ix = Inr (lg', calls) \<Longrightarrow> chain_step ex S lg lg'"

text \<open>The authorities of a wallet are program addresses no other wallet derives.\<close>

definition pdas_of_one :: "executor \<Rightarrow> pubkey \<Rightarrow> bool" where
  "pdas_of_one ex S \<longleftrightarrow> (\<forall>s l l'. derivePoolAuthorityPda ex s l = derivePoolAuthorityPda ex S l' \<longrightarrow> s = S)"

definition exits_home :: "executor \<Rightarrow> pubkey \<Rightarrow> ledger \<Rightarrow> bool" where
  "exits_home ex S lg \<longleftrightarrow> (\<forall>l pa. lg_authority lg (derivePoolAuthorityPda ex S l) = Some pa \<longrightarrow> pa_exit_recipient pa = S)"

lemma execute_authority:
  assumes "execute (ex_sdk ex) (ex_programId ex) lg signers ix = Inr (lg', calls)"
  shows "xi_stealth ix \<in> signers \<and>
    (lg_authority lg' = lg_authority lg \<or> lg_authority lg' = (lg_authority lg)(xi_poolAuthority ix := None) \<or>
     (\<exists>l w e. xi_args ix = InitPosition l w e \<and>
        xi_poolAuthority ix = derivePoolAuthorityPda ex (xi_stealth ix) (xi_lbPair ix) \<and>
        lg_authority lg' = (lg_authority lg)(xi_poolAuthority ix \<mapsto>
          \<lparr>pa_stealth_pubkey = xi_stealth ix, pa_exit_recipient = e, pa_pool_ref = Dlmm (key_at ix 2) (key_at ix 1)\<rparr>)))"
proof (cases "xi_args ix")
  case (InitPosition l w e)
  with assms show ?thesis
    by (auto simp: execute_def dlmm_init_position_def Let_def accepted derivePoolAuthorityPda_def)
next
  case (AddDlmmLiquidity ps)
  from assms [unfolded execute_def AddDlmmLiquidity executor_args.case dlmm_add_liquidity_def Let_def accepted]
  show ?thesis by (elim exE conjE) simp
next
  case ClaimDlmmFees
  from assms [unfolded execute_def ClaimDlmmFees executor_args.case dlmm_claim_fees_def Let_def accepted]
  show ?thesis by (elim exE conjE) simp
next
  case (RemoveAndClose lo hi bps)
  with assms show ?thesis
    by (auto simp: execute_def dlmm_withdraw_close_def Let_def accepted)
next
  case (SwapArgs a m)
  from assms [unfolded execute_def SwapArgs executor_args.case dlmm_swap_def Let_def accepted]
  show ?thesis by (elim exE conjE) simp
qed

lemma authority_origin:
  assumes "execute (ex_sdk ex) (ex_programId ex) lg signers ix = Inr (lg', calls)" and "lg_authority lg' k = Some pa"
  shows "lg_authority lg k = Some pa \<or>
    (\<exists>l w. xi_args ix = InitPosition l w (pa_exit_recipient pa) \<and> k = derivePoolAuthorityPda ex (xi_stealth ix) (xi_lbPair ix))"
  using execute_authority [OF assms(1)] assms(2) by (elim conjE disjE exE) (simp_all split: if_splits, auto)

lemma exits_home_step:
  assumes "pdas_of_one ex S" and "chain_step ex S lg lg'" and "exits_home ex S lg"
  shows "exits_home ex S lg'"
  using assms(2)
proof cases
  case others
  with assms(3) show ?thesis by (simp add: exits_home_def)
next
  case (foreign signers ix calls)
  from execute_authority [OF foreign(1)] foreign(2) have other: "xi_stealth ix \<noteq> S" by blast
  show ?thesis unfolding exits_home_def
  proof (intro allI impI)
    fix l pa assume "lg_authority lg' (derivePoolAuthorityPda ex S l) = Some pa"
    from authority_origin [OF foreign(1) this] other assms(1,3) show "pa_exit_recipient pa = S"
      unfolding pdas_of_one_def exits_home_def by metis
  qed
next
  case (handed tx ix signers calls)
  have own: "own_ix S ix" by (rule api_ix_own [OF handed(1,2)])
  show ?thesis unfolding exits_home_def
  proof (intro allI impI)
    fix l pa assume "lg_authority lg' (derivePoolAuthorityPda ex S l) = Some pa"
    from authority_origin [OF handed(3) this] show "pa_exit_recipient pa = S"
    proof
      assume "\<exists>lo w. xi_args ix = InitPosition lo w (pa_exit_recipient pa) \<and> derivePoolAuthorityPda ex S l = derivePoolAuthorityPda ex (xi_stealth ix) (xi_lbPair ix)"
      with own show ?thesis by (auto simp: own_ix_def)
    qed (use assms(3) in \<open>auto simp: exits_home_def\<close>)
  qed
qed

lemma exits_home_reach:
  assumes "pdas_of_one ex S" "(chain_step ex S)\<^sup>*\<^sup>* lg0 lg" "exits_home ex S lg0"
  shows "exits_home ex S lg"
  using assms(2,3) by (induction rule: rtranclp_induct) (auto intro: exits_home_step [OF assms(1)])

lemma signed_metas_key: "i < length ms \<Longrightarrow> i \<noteq> n \<Longrightarrow> signed_metas n k ms ! i = ms ! i"
  by (simp add: signed_metas_def)

lemma swap_meta_key:
  "i < length ms \<Longrightarrow> am_pubkey (map (\<lambda>(i, m). m\<lparr>am_isSigner := fst (swap_flags i), am_isWritable := snd (swap_flags i)\<rparr>)
     (zip [0..<length ms] ms) ! i) = am_pubkey (ms ! i)"
  by simp

lemma payees_home:
  assumes "execute (ex_sdk ex) (ex_programId ex) lg signers ix = Inr (lg', calls)" and "exits_home ex S lg"
    and "xi_stealth ix = S" and "c \<in> set calls"
  shows "list_all (\<lambda>p. p = S) (payees lg c)"
proof (cases "xi_args ix")
  case (InitPosition l w e)
  with assms show ?thesis
    by (auto simp: execute_def dlmm_init_position_def Let_def accepted payees_def)
next
  case (AddDlmmLiquidity ps)
  from assms(1) [unfolded execute_def AddDlmmLiquidity executor_args.case dlmm_add_liquidity_def Let_def accepted] assms(4)
  show ?thesis by (elim exE conjE) (auto simp: payees_def)
next
  case ClaimDlmmFees
  let ?ms = "xi_remaining ix"
  have e: "dlmm_claim_fees (ex_sdk ex) (ex_programId ex) lg signers ix = Inr (lg', calls)"
    using assms(1) ClaimDlmmFees by (simp add: execute_def)
  have "\<exists>pa. lg_authority lg (xi_poolAuthority ix) = Some pa \<and> xi_poolAuthority ix = derivePoolAuthorityPda ex S (xi_lbPair ix) \<and>
      length ?ms = 14 \<and> token_owner (lg_data lg (am_pubkey (?ms ! 7))) = pa_exit_recipient pa \<and>
      token_owner (lg_data lg (am_pubkey (?ms ! 8))) = pa_exit_recipient pa \<and>
      calls = [\<lparr>dc_name = ''claim_fee'', dc_metas = signed_metas 4 (xi_poolAuthority ix) ?ms, dc_args = []\<rparr>]"
    using e [unfolded dlmm_claim_fees_def Let_def accepted] assms(3)
    by (elim exE conjE) (simp add: accepted derivePoolAuthorityPda_def)
  then obtain pa where pa: "lg_authority lg (xi_poolAuthority ix) = Some pa"
      "xi_poolAuthority ix = derivePoolAuthorityPda ex S (xi_lbPair ix)" "length ?ms = 14"
      "token_owner (lg_data lg (am_pubkey (?ms ! 7))) = pa_exit_recipient pa"
      "token_owner (lg_data lg (am_pubkey (?ms ! 8))) = pa_exit_recipient pa"
    and c: "calls = [\<lparr>dc_name = ''claim_fee'', dc_metas = signed_metas 4 (xi_poolAuthority ix) ?ms, dc_args = []\<rparr>]" by blast
  have "pa_exit_recipient pa = S" using pa(1,2) assms(2) by (auto simp: exits_home_def)
  with pa c assms(4) show ?thesis by (simp add: payees_def Let_def signed_metas_key)
next
  case (RemoveAndClose lo hi bps)
  let ?ms = "xi_remaining ix"
  have e: "dlmm_withdraw_close (ex_sdk ex) (ex_programId ex) lg signers ix lo hi bps = Inr (lg', calls)"
    using assms(1) RemoveAndClose by (simp add: execute_def)
  have "\<exists>pa. lg_authority lg (xi_poolAuthority ix) = Some pa \<and>
      xi_poolAuthority ix = derivePoolAuthorityPda ex S (xi_lbPair ix) \<and> length ?ms = 17 \<and>
      token_owner (lg_data lg (am_pubkey (?ms ! 3))) = pa_exit_recipient pa \<and>
      token_owner (lg_data lg (am_pubkey (?ms ! 4))) = pa_exit_recipient pa \<and> key_at ix 16 = pa_exit_recipient pa \<and>
      calls = (let metas = signed_metas 11 (xi_poolAuthority ix) ?ms in
                 [\<lparr>dc_name = ''remove_liquidity_by_range'', dc_metas = take 16 metas,
                   dc_args = le_i32 lo @ le_i32 hi @ le_u16 bps\<rparr>,
                  \<lparr>dc_name = ''close_position'', dc_metas = map (\<lambda>i. metas ! i) [0, 1, 9, 10, 11, 16, 14, 15], dc_args = []\<rparr>])"
    using e [unfolded dlmm_withdraw_close_def Let_def accepted] assms(3)
    by (elim exE conjE) (simp add: accepted derivePoolAuthorityPda_def Let_def)
  then obtain pa where pa: "lg_authority lg (xi_poolAuthority ix) = Some pa"
      "xi_poolAuthority ix = derivePoolAuthorityPda ex S (xi_lbPair ix)" "length ?ms = 17"
      "token_owner (lg_data lg (am_pubkey (?ms ! 3))) = pa_exit_recipient pa"
      "token_owner (lg_data lg (am_pubkey (?ms ! 4))) = pa_exit_recipient pa" "key_at ix 16 = pa_exit_recipient pa"
    and c: "calls = (let metas = signed_metas 11 (xi_poolAuthority ix) ?ms in
                 [\<lparr>dc_name = ''remove_liquidity_by_range'', dc_metas = take 16 metas,
                   dc_args = le_i32 lo @ le_i32 hi @ le_u16 bps\<rparr>,
                  \<lparr>dc_name = ''close_position'', dc_metas = map (\<lambda>i. metas ! i) [0, 1, 9, 10, 11, 16, 14, 15], dc_args = []\<rparr>])"
    by blast
  have "pa_exit_recipient pa = S" using pa(1,2) assms(2) by (auto simp: exits_home_def)
  with pa c assms(4) show ?thesis
    by (auto simp: Let_def payees_def signed_metas_key key_at_def)
next
  case (SwapArgs a m)
  let ?ms = "xi_remaining ix"
  have e: "dlmm_swap (ex_sdk ex) lg signers ix a m = Inr (lg', calls)" using assms(1) SwapArgs by (simp add: execute_def)
  have "16 \<le> length ?ms \<and> token_owner (lg_data lg (am_pubkey (?ms ! 4))) = S \<and> token_owner (lg_data lg (am_pubkey (?ms ! 5))) = S \<and>
      calls = [\<lparr>dc_name = ''swap'',
           dc_metas = map (\<lambda>(i, m). m\<lparr>am_isSigner := fst (swap_flags i), am_isWritable := snd (swap_flags i)\<rparr>) (zip [0..<length ?ms] ?ms),
           dc_args = le_u64 a @ le_u64 m\<rparr>]"
    using e [unfolded dlmm_swap_def Let_def accepted] assms(3) by (elim conjE) (simp add: accepted)
  with assms(4) show ?thesis by (simp add: payees_def Let_def)
qed

text \<open>
  C4. Safety: a stealth wallet that signs only what the API hands out keeps its proceeds.  Whatever
  anybody else does on chain and whatever exit recipient a client asks for, every claim, removal,
  close and swap the program performs for it pays token accounts it owns and returns the rent to it.
\<close>

theorem proceeds_stay_with_stealth:
  assumes "pdas_of_one ex S" and "\<And>l. lg_authority lg0 (derivePoolAuthorityPda ex S l) = None"
    and "(chain_step ex S)\<^sup>*\<^sup>* lg0 lg"
    and "execute (ex_sdk ex) (ex_programId ex) lg signers ix = Inr (lg', calls)" and "xi_stealth ix = S"
  shows "list_all (\<lambda>c. list_all (\<lambda>p. p = S) (payees lg c)) calls"
proof -
  have "exits_home ex S lg0" using assms(2) by (simp add: exits_home_def)
  from exits_home_reach [OF assms(1,3) this] payees_home [OF assms(4) _ assms(5)] show ?thesis
    by (simp add: list_all_iff)
qed

end
