(* ===== verification/ExecutorDeposits.thy ===== *)
theory ExecutorDeposits imports ExecutorProperties SwapProperties begin

text \<open>
  What a deposit transaction of the executor moves, read off its instructions.
\<close>

section \<open>Deposits\<close>

definition sol_moves :: "executor_tx \<Rightarrow> (pubkey \<times> pubkey \<times> int) list" where
  "sol_moves tx = List.map_filter (\<lambda>i. case i of SystemTransfer f t n \<Rightarrow> Some (f, t, n) | _ \<Rightarrow> None) (et_instructions tx)"

definition token_moves :: "executor_tx \<Rightarrow> (pubkey \<times> pubkey \<times> pubkey \<times> int) list" where
  "token_moves tx = List.map_filter (\<lambda>i. case i of TokenTransfer f t a n \<Rightarrow> Some (f, t, a, n) | _ \<Rightarrow> None) (et_instructions tx)"

definition account_closes :: "executor_tx \<Rightarrow> (pubkey \<times> pubkey \<times> pubkey) list" where
  "account_closes tx = List.map_filter (\<lambda>i. case i of CloseTokenAccount a d w \<Rightarrow> Some (a, d, w) | _ \<Rightarrow> None) (et_instructions tx)"

definition executor_ixs :: "executor_tx \<Rightarrow> executor_ix list" where
  "executor_ixs tx = List.map_filter (\<lambda>i. case i of ExecutorIx ix \<Rightarrow> Some ix | _ \<Rightarrow> None) (et_instructions tx)"

lemma map_filter_Cons: "List.map_filter f (x # xs) = (case f x of None \<Rightarrow> List.map_filter f xs | Some y \<Rightarrow> y # List.map_filter f xs)"
  by (simp add: List.map_filter_def split: option.splits)

lemma map_filter_Nil: "List.map_filter f [] = []"
  by (simp add: List.map_filter_def)

lemmas tx_reading = sol_moves_def token_moves_def account_closes_def executor_ixs_def map_filter_Cons map_filter_Nil

lemma plan_accepted:
  "planSingleSidedSol \<lparr>si_totalLamports = n, si_activeBinId = active, si_lowerBinId = lower, si_upperBinId = upper,
       si_shape = shape, si_solIsTokenX = X\<rparr> = Inr pl \<longleftrightarrow>
     0 < n \<and> lower \<le> upper \<and> (if X then active \<le> upper else lower \<le> active) \<and>
     pl = \<lparr>sp_amountX = (if X then n else 0), sp_amountY = (if X then 0 else n),
        sp_strategyType = STRATEGY_BY_SHAPE shape, sp_minBinId = lower, sp_maxBinId = upper\<rparr>"
  by (auto simp: planSingleSidedSol_def split: if_splits)

lemma encoded_decodes: "encodeLiquidityParamsByStrategy p = Inr bs \<Longrightarrow> decodeLiquidityParams bs = Some p \<and> encodable p"
  using liquidity_encoded [of p] by simp

text \<open>What a deposit transaction of the API moves and adds.\<close>

definition deposit_adds :: "executor \<Rightarrow> pubkey \<Rightarrow> int \<Rightarrow> executor_tx \<Rightarrow> bool" where
  "deposit_adds ex S sol tx \<longleftrightarrow>
     (\<exists>wsol target ix params p solIsX. sol_moves tx = [(S, wsol, sol)] \<and> token_moves tx = [(wsol, target, S, sol)] \<and>
        account_closes tx = [(wsol, S, S)] \<and> executor_ixs tx = [ix] \<and> xi_stealth ix = S \<and>
        xi_args ix = AddDlmmLiquidity params \<and> decodeLiquidityParams params = Some p \<and>
        key_at ix (if solIsX then 7 else 8) = NATIVE_MINT (ex_sdk ex) \<and> target = key_at ix (if solIsX then 3 else 4) \<and>
        (lp_amountX p, lp_amountY p) = (if solIsX then (sol, 0) else (0, sol)) \<and> 0 < sol \<and> sol < 2 ^ 64 \<and>
        lp_strategyType p \<in> {Some 6, Some 7, Some 8} \<and>
        (\<exists>bin. lp_minBinId p \<le> bin \<and> bin \<le> lp_maxBinId p \<and> (if solIsX then lp_activeId p \<le> bin else bin \<le> lp_activeId p)) \<and>
        et_feePayer tx = ex_relayer ex \<and> et_signedBy tx = [ex_relayer ex])"

text \<open>
  C9. Functional: the deposit transaction moves exactly the stated lamports out of the stealth wallet,
  through a wrapped-SOL account that it closes again to the wallet, into the account of the
  authority on the SOL side of the pool; the instruction adds that amount on that side and nothing
  on the other, over an ordered range with a bin that takes SOL; the relayer alone has signed.
\<close>

theorem deposit_moves_what_it_adds:
  "case buildAddLiquidityTx ex nd S config sol shape of
     Inr tx \<Rightarrow> deposit_adds ex S sol tx
   | Inl (RangeRefused e) \<Rightarrow> sol \<le> 0 \<or> tc_upperBinId config < tc_lowerBinId config \<or>
       tc_upperBinId config < tc_activeBin config \<or> tc_activeBin config < tc_lowerBinId config
   | Inl e \<Rightarrow> True"
proof (cases "buildAddLiquidityTx ex nd S config sol shape")
  case (Inl e)
  show ?thesis
  proof (cases e)
    case (RangeRefused r)
    with Inl have "\<exists>b. planSingleSidedSol \<lparr>si_totalLamports = sol, si_activeBinId = tc_activeBin config,
        si_lowerBinId = tc_lowerBinId config, si_upperBinId = tc_upperBinId config, si_shape = shape, si_solIsTokenX = b\<rparr> = Inl r"
      by (auto simp: buildAddLiquidityTx_def Let_def bind_res_def config_keys_def new_PublicKey_def fetchPositionFromAuthority_def
          fetch_authority_def from_node_def ata_of_def presigned_def split: sum.splits option.splits if_splits PoolRef.splits)
    then show ?thesis using Inl RangeRefused by (auto simp: planSingleSidedSol_def split: if_splits)
  qed (use Inl in simp_all)
next
  case (Inr tx)
  then show ?thesis
  proof (rule built_add)
    fix bh and keys :: pair_keys and plan :: SingleSidedSolPlan and params pos
    let ?sk = "ex_sdk ex" and ?auth = "derivePoolAuthorityPda ex S (pk_lbPair keys)"
    let ?X = "pk_tokenX keys = NATIVE_MINT ?sk"
    let ?p = "\<lparr>lp_amountX = sp_amountX plan, lp_amountY = sp_amountY plan, lp_activeId = tc_activeBin config, lp_maxActiveBinSlippage = 5,
       lp_minBinId = sp_minBinId plan, lp_maxBinId = sp_maxBinId plan, lp_strategyType = sp_strategyType plan\<rparr>"
    assume plan: "planSingleSidedSol \<lparr>si_totalLamports = sol, si_activeBinId = tc_activeBin config, si_lowerBinId = tc_lowerBinId config,
       si_upperBinId = tc_upperBinId config, si_shape = shape, si_solIsTokenX = ?X\<rparr> = Inr plan"
      and enc: "encodeLiquidityParamsByStrategy ?p = Inr params"
      and side: "?X \<or> pk_tokenY keys = NATIVE_MINT ?sk"
      and tx: "tx = \<lparr>et_feePayer = ex_relayer ex, et_blockhash = bh, et_instructions =
           liquidity_instructions ex S keys ?auth pos (sk_ata ?sk (pk_tokenX keys) ?auth) (sk_ata ?sk (pk_tokenY keys) ?auth)
             (sk_ata ?sk (NATIVE_MINT ?sk) S) sol params, et_signedBy = [ex_relayer ex]\<rparr>"
    let ?ix = "\<lparr>xi_args = AddDlmmLiquidity params, xi_stealth = S, xi_poolAuthority = ?auth, xi_lbPair = pk_lbPair keys,
         xi_dlmmProgram = DLMM_PROGRAM_ID ?sk, xi_remaining = liquidity_accounts ?sk keys pos (sk_ata ?sk (pk_tokenX keys) ?auth)
           (sk_ata ?sk (pk_tokenY keys) ?auth) ?auth\<rparr>"
    have pl: "0 < sol" "tc_lowerBinId config \<le> tc_upperBinId config"
      "if ?X then tc_activeBin config \<le> tc_upperBinId config else tc_lowerBinId config \<le> tc_activeBin config"
      "plan = \<lparr>sp_amountX = (if ?X then sol else 0), sp_amountY = (if ?X then 0 else sol),
        sp_strategyType = STRATEGY_BY_SHAPE shape, sp_minBinId = tc_lowerBinId config, sp_maxBinId = tc_upperBinId config\<rparr>"
      using plan by (simp_all add: plan_accepted)
    have dec: "decodeLiquidityParams params = Some ?p" "encodable ?p" using encoded_decodes [OF enc] by simp_all
    have fit: "sol < 2 ^ 64" using dec(2) pl(4) by (auto simp: encodable_def fits_u64_def split: if_splits)
    have strat: "STRATEGY_BY_SHAPE shape \<in> {Some 6, Some 7, Some 8}"
      using dec(2) pl(4) by (auto simp: encodable_def STRATEGY_BY_SHAPE_def split: if_splits)
    have moves: "sol_moves tx = [(S, sk_ata ?sk (NATIVE_MINT ?sk) S, sol)]"
      "token_moves tx = [(sk_ata ?sk (NATIVE_MINT ?sk) S, if ?X then sk_ata ?sk (pk_tokenX keys) ?auth else sk_ata ?sk (pk_tokenY keys) ?auth, S, sol)]"
      "account_closes tx = [(sk_ata ?sk (NATIVE_MINT ?sk) S, S, S)]" "executor_ixs tx = [?ix]"
      by (simp_all add: tx tx_reading liquidity_instructions_def Let_def)
    have keys: "key_at ?ix (if ?X then 7 else 8) = NATIVE_MINT ?sk"
      "(if ?X then sk_ata ?sk (pk_tokenX keys) ?auth else sk_ata ?sk (pk_tokenY keys) ?auth) = key_at ?ix (if ?X then 3 else 4)"
      using side by (auto simp: key_at_def liquidity_accounts_def rw_def ro_def)
    have range: "\<exists>bin. lp_minBinId ?p \<le> bin \<and> bin \<le> lp_maxBinId ?p \<and> (if ?X then lp_activeId ?p \<le> bin else bin \<le> lp_activeId ?p)"
      using pl(2,3) by (cases ?X) (auto simp: pl(4) intro: exI [of _ "tc_upperBinId config"] exI [of _ "tc_lowerBinId config"])
    have amounts: "(lp_amountX ?p, lp_amountY ?p) = (if ?X then (sol, 0) else (0, sol))" by (simp add: pl(4))
    have st: "lp_strategyType ?p \<in> {Some 6, Some 7, Some 8}" using strat by (simp add: pl(4))
    have "deposit_adds ex S sol tx"
      unfolding deposit_adds_def
      by (rule exI [of _ "sk_ata ?sk (NATIVE_MINT ?sk) S"],
          rule exI [of _ "if ?X then sk_ata ?sk (pk_tokenX keys) ?auth else sk_ata ?sk (pk_tokenY keys) ?auth"],
          rule exI [of _ ?ix], rule exI [of _ params], rule exI [of _ ?p], rule exI [of _ ?X])
         (intro conjI moves keys amounts range pl(1) fit dec(1) st; simp add: tx)
    then show ?thesis using Inr by simp
  qed
qed

end
