(* ===== verification/ExecutorLifecycle.thy ===== *)
theory ExecutorLifecycle imports ExecutorDeposits begin

text \<open>
  The transactions of executor.service.ts run by the program: a retried initialisation, and the
  deposits, claims and exits the API builds for an authority that is on chain.
\<close>

section \<open>A small cluster\<close>

text \<open>Keys are their own texts, and a derived address spells its seeds and its program.\<close>

fun framed :: "bytes \<Rightarrow> bytes" where
  "framed [] = [0]"
| "framed (b # bs) = 1 # b # framed bs"

lemma framed_unique: "framed a @ c = framed b @ d \<longleftrightarrow> a = b \<and> c = d"
proof (induction a arbitrary: b)
  case Nil
  show ?case by (cases b) auto
next
  case (Cons x a)
  then show ?case by (cases b) auto
qed

definition alice :: string where "alice = ''alice...........................''"
definition mint_x :: string where "mint_x = ''mint x..........................''"
definition mint_y :: string where "mint_y = ''mint y..........................''"

definition plain_sdk :: sdk where
  "plain_sdk = \<lparr>sk_PublicKey = (\<lambda>s. Some (ascii s)), sk_base58 = (\<lambda>k. map (\<lambda>b. char_of (unat b)) k),
     sk_programAddress = (\<lambda>seeds p. if seeds = [ascii ''__event_authority''] then ascii ''D1ZN9Wj1fRSUQfCjhvnu1hqDMT7hzjzBBpi12nVniYD6'' else concat (map framed seeds) @ p),
     sk_onCurve = (\<lambda>k. True), sk_ata = (\<lambda>m k. ascii ''ata'' @ m @ k), sk_binArrayIndex = (\<lambda>b. b div 70),
     sk_binArray = (\<lambda>p i. ascii ''array'' @ p), sk_reserve = (\<lambda>m p. ascii ''reserve'' @ m @ p), sk_oracle = (\<lambda>p. ascii ''oracle'' @ p),
     sk_lbPair = (\<lambda>a b s f. ascii ''pair'')\<rparr>"

definition plain_executor :: executor where
  "plain_executor = \<lparr>ex_sdk = plain_sdk, ex_relayer = ascii ''relayer'', ex_programId = ascii ''program''\<rparr>"

definition blank_ledger :: ledger where
  "blank_ledger = \<lparr>lg_authority = (\<lambda>k. None), lg_data = (\<lambda>k. []), lg_executable = (\<lambda>k. False), lg_paused = False\<rparr>"

text \<open>A node on a ledger: every account is there but the authorities it does not hold.\<close>

definition node_of :: "ledger \<Rightarrow> exec_node" where
  "node_of lg = \<lparr>xn_account = (\<lambda>k. Inr (if k \<in> {ascii ''pos''} \<or> lg_authority lg k \<noteq> None then Some [] else None)),
     xn_authority = (\<lambda>k. Inr (lg_authority lg k)),
     xn_pair = (\<lambda>k. Inr \<lparr>lp_tokenXMint = ascii mint_x, lp_tokenYMint = ascii mint_y, lp_active = 0, lp_binStep = 10\<rparr>),
     xn_positionBins = (\<lambda>k. Inr (0, 19)), xn_blockhash = Inr ''hash'', xn_newKey = ascii ''pos''\<rparr>"

definition plain_pda :: pubkey where
  "plain_pda = derivePoolAuthorityPda plain_executor (ascii alice) (ascii ''pool'')"

definition plain_init :: executor_tx where
  "plain_init = \<lparr>et_feePayer = ascii ''relayer'', et_blockhash = ''hash'', et_instructions =
     [SetComputeUnitLimit 600000, SystemTransfer (ascii ''relayer'') (ascii alice) STEALTH_INIT_FUNDING_LAMPORTS,
      ExecutorIx \<lparr>xi_args = InitPosition 0 20 (ascii alice), xi_stealth = ascii alice, xi_poolAuthority = plain_pda,
        xi_lbPair = ascii ''pool'', xi_dlmmProgram = DLMM_PROGRAM_ID plain_sdk,
        xi_remaining = [signer (ascii ''relayer''), signer (ascii ''pos''), ro (ascii ''pool''), ro plain_pda,
          ro (SYSTEM_PROGRAM_ID plain_sdk), ro (SYSVAR_RENT_ID plain_sdk), ro (DLMM_EVENT_AUTHORITY plain_sdk), ro (DLMM_PROGRAM_ID plain_sdk)]\<rparr>],
     et_signedBy = [ascii ''relayer'', ascii ''pos'']\<rparr>"

definition opened_ledger :: ledger where
  "opened_ledger = blank_ledger\<lparr>lg_authority := [plain_pda \<mapsto>
     \<lparr>pa_stealth_pubkey = ascii alice, pa_exit_recipient = ascii alice, pa_pool_ref = Dlmm (ascii ''pool'') (ascii ''pos'')\<rparr>]\<rparr>"

lemmas plain = plain_sdk_def plain_executor_def blank_ledger_def node_of_def opened_ledger_def

lemma plain_init_built:
  "buildInitPositionTx plain_executor (node_of blank_ledger) (ascii alice) (ascii ''pool'') (ascii alice) 0 20 =
     Inr \<lparr>ir_transaction = Some plain_init, ir_positionPubkey = ''pos'', ir_positionAuthority = sk_base58 plain_sdk plain_pda, ir_alreadyInitialized = False\<rparr>"
  by (simp add: buildInitPositionTx_def Let_def bind_res_def from_node_def presigned_def plain plain_init_def plain_pda_def
      ascii_def derivePoolAuthorityPda_def char_of_def bit_Suc bit_0)

lemma plain_init_runs:
  "ExecutorIx ix \<in> set (et_instructions plain_init) \<Longrightarrow>
   \<exists>calls. execute plain_sdk (ascii ''program'') blank_ledger {ascii alice} ix = Inr (opened_ledger, calls)"
  by (auto simp: plain_init_def execute_def dlmm_init_position_def Let_def accepted key_at_def ro_def signer_def check_def
      plain plain_pda_def derivePoolAuthorityPda_def key_of_def event_authority_def DLMM_EVENT_AUTHORITY_def
      SYSVAR_RENT_ID_def SYSTEM_PROGRAM_ID_def DLMM_PROGRAM_ID_def)

section \<open>Retries\<close>

text \<open>A node that shows a ledger: it answers every authority, and the account of each.\<close>

definition shows_ledger :: "ledger \<Rightarrow> exec_node \<Rightarrow> bool" where
  "shows_ledger lg nd \<longleftrightarrow>
     (\<forall>k. xn_authority nd k = Inr (lg_authority lg k)) \<and>
     (\<forall>k. lg_authority lg k \<noteq> None \<longrightarrow> (\<exists>d. xn_account nd k = Inr (Some d)))"

lemma built_init_result:
  assumes "buildInitPositionTx ex nd S lb exit l w = Inr r" "ir_transaction r = Some tx"
  shows "ir_positionPubkey r = sk_base58 (ex_sdk ex) (xn_newKey nd)"
    "ir_positionAuthority r = sk_base58 (ex_sdk ex) (derivePoolAuthorityPda ex S lb)"
  using assms by (auto simp: buildInitPositionTx_def Let_def bind_res_Inr split: option.splits)

lemma existing_authority:
  assumes "shows_ledger lg nd" and "lg_authority lg (derivePoolAuthorityPda ex S lb) = Some pa" "pa_pool_ref pa = Dlmm p position"
  shows "buildInitPositionTx ex nd S lb exit l w =
     (case xn_account nd position of
        Inl e \<Rightarrow> Inl (NodeFailed e)
      | Inr None \<Rightarrow> Inl (StalePosition (derivePoolAuthorityPda ex S lb) position)
      | Inr (Some d) \<Rightarrow> Inr \<lparr>ir_transaction = None, ir_positionPubkey = sk_base58 (ex_sdk ex) position,
          ir_positionAuthority = sk_base58 (ex_sdk ex) (derivePoolAuthorityPda ex S lb), ir_alreadyInitialized = True\<rparr>)"
proof -
  from assms obtain d where "xn_account nd (derivePoolAuthorityPda ex S lb) = Inr (Some d)" unfolding shows_ledger_def by blast
  with assms show ?thesis
    by (simp add: buildInitPositionTx_def Let_def bind_res_def from_node_def fetchPositionFromAuthority_def fetch_authority_def
        shows_ledger_def split: sum.splits option.splits)
qed

text \<open>
  Safety: once the program has run the transaction of an initialisation, a retry with any range or
  exit recipient builds nothing and answers the same position (or says that its account is gone),
  and the transaction itself can never run again on that ledger.
\<close>

theorem init_retries_are_idempotent:
  assumes "buildInitPositionTx ex nd S lb exit l w = Inr r" and "ir_transaction r = Some tx"
    and "ExecutorIx ix \<in> set (et_instructions tx)"
    and "execute (ex_sdk ex) (ex_programId ex) lg signers ix = Inr (lg', calls)" and "shows_ledger lg' nd'"
  shows "(\<forall>exit' l' w'. buildInitPositionTx ex nd' S lb exit' l' w' =
     (case xn_account nd' (xn_newKey nd) of
        Inl e \<Rightarrow> Inl (NodeFailed e)
      | Inr None \<Rightarrow> Inl (StalePosition (derivePoolAuthorityPda ex S lb) (xn_newKey nd))
      | Inr (Some d) \<Rightarrow> Inr (r\<lparr>ir_transaction := None, ir_alreadyInitialized := True\<rparr>))) \<and>
     (\<forall>signers'. \<exists>e. execute (ex_sdk ex) (ex_programId ex) lg' signers' ix = Inl e)"
proof -
  let ?pda = "derivePoolAuthorityPda ex S lb"
  obtain bh where tx: "ix = \<lparr>xi_args = InitPosition l w exit, xi_stealth = S, xi_poolAuthority = ?pda, xi_lbPair = lb,
      xi_dlmmProgram = DLMM_PROGRAM_ID (ex_sdk ex),
      xi_remaining = [signer (ex_relayer ex), signer (xn_newKey nd), ro lb, ro ?pda, ro (SYSTEM_PROGRAM_ID (ex_sdk ex)),
        ro (SYSVAR_RENT_ID (ex_sdk ex)), ro (DLMM_EVENT_AUTHORITY (ex_sdk ex)), ro (DLMM_PROGRAM_ID (ex_sdk ex))]\<rparr>"
    using built_init [OF assms(1,2)] assms(3) by auto
  have stored: "lg_authority lg' ?pda = Some \<lparr>pa_stealth_pubkey = S, pa_exit_recipient = exit, pa_pool_ref = Dlmm lb (xn_newKey nd)\<rparr>"
    using assms(4) by (auto simp: tx execute_def dlmm_init_position_def Let_def accepted key_at_def ro_def signer_def)
  have "execute (ex_sdk ex) (ex_programId ex) lg' signers' ix \<noteq> Inr y" for signers' y
    using stored by (auto simp: tx execute_def dlmm_init_position_def Let_def accepted)
  then have "\<forall>signers'. \<exists>e. execute (ex_sdk ex) (ex_programId ex) lg' signers' ix = Inl e" by (metis sum.exhaust)
  moreover have "r\<lparr>ir_transaction := None, ir_alreadyInitialized := True\<rparr> =
      \<lparr>ir_transaction = None, ir_positionPubkey = sk_base58 (ex_sdk ex) (xn_newKey nd),
       ir_positionAuthority = sk_base58 (ex_sdk ex) ?pda, ir_alreadyInitialized = True\<rparr>"
    using built_init_result [OF assms(1,2)] by (cases r) simp
  ultimately show ?thesis by (simp add: existing_authority [OF assms(5) stored] split: sum.split option.split)
qed

theorem init_retries_are_idempotent_witness:
  "buildInitPositionTx plain_executor (node_of opened_ledger) (ascii alice) (ascii ''pool'') (ascii ''bob'') 5 7 =
     Inr \<lparr>ir_transaction = None, ir_positionPubkey = ''pos'', ir_positionAuthority = sk_base58 plain_sdk plain_pda, ir_alreadyInitialized = True\<rparr>"
proof -
  obtain ix where ix: "ExecutorIx ix \<in> set (et_instructions plain_init)" by (auto simp: plain_init_def)
  obtain calls where run: "execute (ex_sdk plain_executor) (ex_programId plain_executor) blank_ledger {ascii alice} ix = Inr (opened_ledger, calls)"
    using plain_init_runs [OF ix] by (auto simp: plain_executor_def)
  have "shows_ledger opened_ledger (node_of opened_ledger)" by (simp add: shows_ledger_def node_of_def)
  from init_retries_are_idempotent [OF plain_init_built _ ix run this] show ?thesis
    by (simp add: node_of_def)
qed

section \<open>What the API builds, the program accepts\<close>

definition token_account :: "ledger \<Rightarrow> pubkey \<Rightarrow> pubkey \<Rightarrow> pubkey \<Rightarrow> bool" where
  "token_account lg k owner mint \<longleftrightarrow>
     165 \<le> length (lg_data lg k) \<and> token_owner (lg_data lg k) = owner \<and> token_mint (lg_data lg k) = mint"

text \<open>The token accounts a transaction creates first are in place.\<close>

definition accounts_in_place :: "ledger \<Rightarrow> executor_tx \<Rightarrow> bool" where
  "accounts_in_place lg tx \<longleftrightarrow>
     (\<forall>payer k owner mint. CreateAtaIdempotent payer k owner mint \<in> set (et_instructions tx) \<longrightarrow> token_account lg k owner mint)"

lemma in_place: "accounts_in_place lg tx \<Longrightarrow> CreateAtaIdempotent payer k owner mint \<in> set (et_instructions tx) \<Longrightarrow> token_account lg k owner mint"
  by (simp add: accounts_in_place_def)

text \<open>An authority is stored under the address of its wallet and pair, for a DLMM position.\<close>

definition sound_authorities :: "executor \<Rightarrow> ledger \<Rightarrow> bool" where
  "sound_authorities ex lg \<longleftrightarrow>
     (\<forall>s l pa. lg_authority lg (derivePoolAuthorityPda ex s l) = Some pa \<longrightarrow>
        pa_stealth_pubkey pa = s \<and> (\<exists>pos. pa_pool_ref pa = Dlmm l pos \<and> pa_exit_recipient pa \<notin> {l, pos}))"

definition builds :: "executor \<Rightarrow> exec_node \<Rightarrow> pubkey \<Rightarrow> TestPairConfig \<Rightarrow> executor_tx \<Rightarrow> string list \<Rightarrow> bool" where
  "builds ex nd S config tx names \<longleftrightarrow>
     (\<exists>sol shape. buildAddLiquidityTx ex nd S config sol shape = Inr tx \<and> names = [''add_liquidity_by_strategy'']) \<or>
     (\<exists>e. buildClaimFeesTx ex nd S config = Inr (tx, e) \<and> names = [''claim_fee'']) \<or>
     (\<exists>e. buildWithdrawCloseTx ex nd S config = Inr (tx, e) \<and> names = [''remove_liquidity_by_range'', ''close_position''])"

lemma fetched_authority: "shows_ledger lg nd \<Longrightarrow> fetch_authority nd k = Inr pa \<longleftrightarrow> lg_authority lg k = Some pa"
  by (auto simp: shows_ledger_def fetch_authority_def from_node_def bind_res_def split: option.splits)

lemma fetched_position:
  "shows_ledger lg nd \<Longrightarrow> fetchPositionFromAuthority nd k = Inr pos \<longleftrightarrow> (\<exists>pa l. lg_authority lg k = Some pa \<and> pa_pool_ref pa = Dlmm l pos)"
proof
  assume "shows_ledger lg nd" "fetchPositionFromAuthority nd k = Inr pos"
  then obtain pa where "lg_authority lg k = Some pa" "(case pa_pool_ref pa of Dlmm l p \<Rightarrow> Inr p | Damm a b c \<Rightarrow> Inl NotDlmmPosition) = Inr pos"
    by (auto simp: fetchPositionFromAuthority_def bind_res_Inr fetched_authority)
  then show "\<exists>pa l. lg_authority lg k = Some pa \<and> pa_pool_ref pa = Dlmm l pos" by (cases "pa_pool_ref pa") auto
next
  assume "shows_ledger lg nd" "\<exists>pa l. lg_authority lg k = Some pa \<and> pa_pool_ref pa = Dlmm l pos"
  then show "fetchPositionFromAuthority nd k = Inr pos"
    by (auto simp: fetchPositionFromAuthority_def bind_res_Inr fetched_authority)
qed

lemma sound_exit:
  assumes "exit_accounts ex nd S config k = Inr y" and "shows_ledger lg nd" and "sound_authorities ex lg"
  obtains keys pa pos where "lg_authority lg (derivePoolAuthorityPda ex S (pk_lbPair keys)) = Some pa" "pa_stealth_pubkey pa = S"
    "pa_pool_ref pa = Dlmm (pk_lbPair keys) pos" "pa_exit_recipient pa \<noteq> pk_lbPair keys" "pa_exit_recipient pa \<noteq> pos"
    "k keys (derivePoolAuthorityPda ex S (pk_lbPair keys)) (pa_exit_recipient pa) pos
       (sk_ata (ex_sdk ex) (pk_tokenX keys) (pa_exit_recipient pa)) (sk_ata (ex_sdk ex) (pk_tokenY keys) (pa_exit_recipient pa)) = Inr y"
proof (rule built_exit [OF assms(1)])
  fix keys :: pair_keys and acct pos
  let ?pda = "derivePoolAuthorityPda ex S (pk_lbPair keys)"
  assume "fetch_authority nd ?pda = Inr acct" "fetchPositionFromAuthority nd ?pda = Inr pos"
    and k: "k keys ?pda (pa_exit_recipient acct) pos (sk_ata (ex_sdk ex) (pk_tokenX keys) (pa_exit_recipient acct))
      (sk_ata (ex_sdk ex) (pk_tokenY keys) (pa_exit_recipient acct)) = Inr y"
  then have stored: "lg_authority lg ?pda = Some acct" "\<exists>l. pa_pool_ref acct = Dlmm l pos"
    by (auto simp: fetched_authority [OF assms(2)] fetched_position [OF assms(2)])
  from assms(3) stored have "pa_stealth_pubkey acct = S" "pa_pool_ref acct = Dlmm (pk_lbPair keys) pos"
    "pa_exit_recipient acct \<noteq> pk_lbPair keys" "pa_exit_recipient acct \<noteq> pos"
    unfolding sound_authorities_def by force+
  then show thesis by (rule that [OF stored(1) _ _ _ _ k])
qed

text \<open>
  C15. Safety: a deposit, a claim or an exit that the API builds from what the chain shows passes all
  checks of the program and makes the calls it is for, provided that the program is not paused, the
  stealth wallet signs, the bins of the position are in order, the event authority is the one of the
  pool program, the token accounts exist with their owners, and every authority of the ledger is
  one of its own wallet and pool, in a position, whose exit recipient is neither the pool nor that
  position.  Only an exit changes an authority, which it removes.
\<close>

theorem built_calls_are_accepted:
  assumes "builds ex nd S config tx names" and "shows_ledger lg nd" and "sound_authorities ex lg"
    and "\<not> lg_paused lg" and "S \<in> signers" and "tc_lowerBinId config \<le> tc_upperBinId config"
    and "DLMM_EVENT_AUTHORITY (ex_sdk ex) = event_authority (ex_sdk ex)"
    and "accounts_in_place lg tx"
  shows "\<exists>ix lg' calls. executor_ixs tx = [ix] \<and> execute (ex_sdk ex) (ex_programId ex) lg signers ix = Inr (lg', calls) \<and>
     map dc_name calls = names \<and>
     lg_authority lg' = (if ''close_position'' \<in> set names then (lg_authority lg)(xi_poolAuthority ix := None) else lg_authority lg)"
  using assms(1) unfolding builds_def
proof (elim disjE exE conjE)
  fix sol shape assume "buildAddLiquidityTx ex nd S config sol shape = Inr tx" and n: "names = [''add_liquidity_by_strategy'']"
  then show ?thesis
  proof (elim built_add)
    fix bh and keys :: pair_keys and plan :: SingleSidedSolPlan and params pos
    assume pos: "fetchPositionFromAuthority nd (derivePoolAuthorityPda ex S (pk_lbPair keys)) = Inr pos"
      and tx: "tx = \<lparr>et_feePayer = ex_relayer ex, et_blockhash = bh, et_instructions =
           liquidity_instructions ex S keys (derivePoolAuthorityPda ex S (pk_lbPair keys)) pos
             (sk_ata (ex_sdk ex) (pk_tokenX keys) (derivePoolAuthorityPda ex S (pk_lbPair keys)))
             (sk_ata (ex_sdk ex) (pk_tokenY keys) (derivePoolAuthorityPda ex S (pk_lbPair keys)))
             (sk_ata (ex_sdk ex) (NATIVE_MINT (ex_sdk ex)) S) sol params,
        et_signedBy = [ex_relayer ex]\<rparr>"
    from pos obtain pa where pa: "lg_authority lg (derivePoolAuthorityPda ex S (pk_lbPair keys)) = Some pa"
      "pa_stealth_pubkey pa = S" "pa_pool_ref pa = Dlmm (pk_lbPair keys) pos"
      using assms(3) by (fastforce simp: fetched_position [OF assms(2)] sound_authorities_def)
    have "token_account lg (sk_ata (ex_sdk ex) (pk_tokenX keys) (derivePoolAuthorityPda ex S (pk_lbPair keys))) (derivePoolAuthorityPda ex S (pk_lbPair keys)) (pk_tokenX keys)"
      "token_account lg (sk_ata (ex_sdk ex) (pk_tokenY keys) (derivePoolAuthorityPda ex S (pk_lbPair keys))) (derivePoolAuthorityPda ex S (pk_lbPair keys)) (pk_tokenY keys)"
      by (rule in_place [OF assms(8), of "ex_relayer ex"], simp add: tx liquidity_instructions_def Let_def)+
    with pa assms(4,5,7) n show ?thesis
      by (simp add: tx liquidity_instructions_def Let_def executor_ixs_def map_filter_Cons map_filter_Nil execute_def dlmm_add_liquidity_def
          accepted key_at_def liquidity_accounts_def ro_def rw_def token_account_def derivePoolAuthorityPda_def)
  qed
next
  fix e assume "buildClaimFeesTx ex nd S config = Inr (tx, e)" and n: "names = [''claim_fee'']"
  then show ?thesis unfolding buildClaimFeesTx_def
  proof (elim sound_exit [OF _ assms(2,3)])
    fix keys :: pair_keys and pa :: PoolAuthority and pos
    let ?pda = "derivePoolAuthorityPda ex S (pk_lbPair keys)" and ?x = "sk_ata (ex_sdk ex) (pk_tokenX keys) (pa_exit_recipient pa)"
      and ?y = "sk_ata (ex_sdk ex) (pk_tokenY keys) (pa_exit_recipient pa)"
    assume pa: "lg_authority lg ?pda = Some pa" "pa_stealth_pubkey pa = S" "pa_pool_ref pa = Dlmm (pk_lbPair keys) pos"
      and "exit_transaction ex nd 600000 keys (pa_exit_recipient pa) ?x ?y
        \<lparr>xi_args = ClaimDlmmFees, xi_stealth = S, xi_poolAuthority = ?pda, xi_lbPair = pk_lbPair keys, xi_dlmmProgram = DLMM_PROGRAM_ID (ex_sdk ex),
         xi_remaining = claim_accounts (ex_sdk ex) keys pos ?x ?y ?pda\<rparr> = Inr (tx, e)"
    from exit_transaction_Inr [OF this(4)] obtain bh where tx: "tx = \<lparr>et_feePayer = ex_relayer ex, et_blockhash = bh, et_instructions =
      [SetComputeUnitLimit 600000, CreateAtaIdempotent (ex_relayer ex) ?x (pa_exit_recipient pa) (pk_tokenX keys),
       CreateAtaIdempotent (ex_relayer ex) ?y (pa_exit_recipient pa) (pk_tokenY keys), ExecutorIx
        \<lparr>xi_args = ClaimDlmmFees, xi_stealth = S, xi_poolAuthority = ?pda, xi_lbPair = pk_lbPair keys, xi_dlmmProgram = DLMM_PROGRAM_ID (ex_sdk ex),
         xi_remaining = claim_accounts (ex_sdk ex) keys pos ?x ?y ?pda\<rparr>], et_signedBy = [ex_relayer ex]\<rparr>" by blast
    have "token_account lg ?x (pa_exit_recipient pa) (pk_tokenX keys)" "token_account lg ?y (pa_exit_recipient pa) (pk_tokenY keys)"
      by (rule in_place [OF assms(8), of "ex_relayer ex"], simp add: tx)+
    with pa assms(4,5,7) n show ?thesis
      by (simp add: tx executor_ixs_def map_filter_Cons map_filter_Nil execute_def dlmm_claim_fees_def Let_def
          accepted key_at_def claim_accounts_def ro_def rw_def token_account_def derivePoolAuthorityPda_def)
  qed
next
  fix e assume "buildWithdrawCloseTx ex nd S config = Inr (tx, e)" and n: "names = [''remove_liquidity_by_range'', ''close_position'']"
  then show ?thesis unfolding buildWithdrawCloseTx_def close_accounts_Inr
  proof (elim sound_exit [OF _ assms(2,3)])
    fix keys :: pair_keys and pa :: PoolAuthority and pos
    let ?pda = "derivePoolAuthorityPda ex S (pk_lbPair keys)" and ?x = "sk_ata (ex_sdk ex) (pk_tokenX keys) (pa_exit_recipient pa)"
      and ?y = "sk_ata (ex_sdk ex) (pk_tokenY keys) (pa_exit_recipient pa)"
    let ?ix = "\<lparr>xi_args = RemoveAndClose (tc_lowerBinId config) (tc_upperBinId config) 10000, xi_stealth = S,
        xi_poolAuthority = ?pda, xi_lbPair = pk_lbPair keys, xi_dlmmProgram = DLMM_PROGRAM_ID (ex_sdk ex),
        xi_remaining = liquidity_accounts (ex_sdk ex) keys pos ?x ?y ?pda @ [rw (pa_exit_recipient pa)]\<rparr>"
    assume pa: "lg_authority lg ?pda = Some pa" "pa_stealth_pubkey pa = S" "pa_pool_ref pa = Dlmm (pk_lbPair keys) pos"
      "pa_exit_recipient pa \<noteq> pk_lbPair keys" "pa_exit_recipient pa \<noteq> pos"
      and "exit_transaction ex nd 1400000 keys (pa_exit_recipient pa) ?x ?y ?ix = Inr (tx, e)"
    from exit_transaction_Inr [OF this(6)] obtain bh where tx: "tx = \<lparr>et_feePayer = ex_relayer ex, et_blockhash = bh, et_instructions =
      [SetComputeUnitLimit 1400000, CreateAtaIdempotent (ex_relayer ex) ?x (pa_exit_recipient pa) (pk_tokenX keys),
       CreateAtaIdempotent (ex_relayer ex) ?y (pa_exit_recipient pa) (pk_tokenY keys), ExecutorIx ?ix],
      et_signedBy = [ex_relayer ex]\<rparr>" by blast
    have "token_account lg ?x (pa_exit_recipient pa) (pk_tokenX keys)" "token_account lg ?y (pa_exit_recipient pa) (pk_tokenY keys)"
      by (rule in_place [OF assms(8), of "ex_relayer ex"], simp add: tx)+
    with pa assms(4,5,6,7) n show ?thesis
      by (simp add: tx executor_ixs_def map_filter_Cons map_filter_Nil execute_def dlmm_withdraw_close_def Let_def
          accepted key_at_def liquidity_accounts_def ro_def rw_def token_account_def derivePoolAuthorityPda_def)
  qed
qed

section \<open>On the small cluster\<close>

definition paid_ledger :: ledger where
  "paid_ledger = opened_ledger\<lparr>lg_data := (\<lambda>k. take 32 (drop 3 k) @ ascii alice @ replicate 101 0)\<rparr>"

definition plain_config :: TestPairConfig where
  "plain_config = \<lparr>tc_tokenX = mint_x, tc_tokenY = mint_y, tc_lbPair = ''pool'', tc_binArrayLower = ''low'', tc_binArrayUpper = ''up'',
     tc_lowerBinId = 0, tc_upperBinId = 19, tc_width = 20, tc_activeBin = 0, tc_binStep = 10, tc_baseFactor = 0\<rparr>"

lemma plain_pdas: "derivePoolAuthorityPda plain_executor s l = derivePoolAuthorityPda plain_executor s' l' \<longleftrightarrow> s = s' \<and> l = l'"
  by (simp add: derivePoolAuthorityPda_def plain authority_seeds_def framed_unique framed_unique [of _ "[]" _ "[]", simplified])

lemma plain_sound: "sound_authorities plain_executor paid_ledger"
  by (auto simp: sound_authorities_def paid_ledger_def opened_ledger_def blank_ledger_def plain_pda_def plain_pdas ascii_def alice_def
      split: if_splits)

lemma plain_claim_built:
  "\<exists>tx e. buildClaimFeesTx plain_executor (node_of paid_ledger) (ascii alice) plain_config = Inr (tx, e) \<and> accounts_in_place paid_ledger tx"
  by (auto simp: buildClaimFeesTx_def exit_accounts_def exit_transaction_def config_keys_def new_PublicKey_def plain_config_def Let_def
      bind_res_def fetch_authority_def fetchPositionFromAuthority_def from_node_def ata_of_def presigned_def plain paid_ledger_def
      plain_pda_def derivePoolAuthorityPda_def accounts_in_place_def token_account_def token_owner_def token_mint_def ascii_def alice_def mint_x_def mint_y_def)

theorem built_calls_are_accepted_witness:
  "\<exists>tx e ix lg' calls. buildClaimFeesTx plain_executor (node_of paid_ledger) (ascii alice) plain_config = Inr (tx, e) \<and>
     executor_ixs tx = [ix] \<and> execute plain_sdk (ascii ''program'') paid_ledger {ascii alice} ix = Inr (lg', calls) \<and>
     map dc_name calls = [''claim_fee'']"
proof -
  obtain tx e where b: "buildClaimFeesTx plain_executor (node_of paid_ledger) (ascii alice) plain_config = Inr (tx, e)"
    and a: "accounts_in_place paid_ledger tx"
    using plain_claim_built by blast
  have built: "builds plain_executor (node_of paid_ledger) (ascii alice) plain_config tx [''claim_fee'']" using b by (simp add: builds_def)
  have shown: "shows_ledger paid_ledger (node_of paid_ledger)" by (simp add: shows_ledger_def node_of_def)
  have events: "DLMM_EVENT_AUTHORITY (ex_sdk plain_executor) = event_authority (ex_sdk plain_executor)"
    by (simp add: plain DLMM_EVENT_AUTHORITY_def event_authority_def key_of_def)
  have range: "tc_lowerBinId plain_config \<le> tc_upperBinId plain_config" by (simp add: plain_config_def)
  have on: "\<not> lg_paused paid_ledger" by (simp add: paid_ledger_def plain)
  from built_calls_are_accepted [OF built shown plain_sound on _ range events a, of "{ascii alice}"] b show ?thesis
    by (auto simp: plain_executor_def)
qed

text \<open>Alice opens a position through the API, is paid, and claims.\<close>

lemma plain_init_handed: "api_tx plain_executor (ascii alice) plain_init"
  unfolding api_tx_def
proof (intro exI conjI disjI1)
  show "sk_PublicKey (ex_sdk plain_executor) alice = Some (ascii alice)" by (simp add: plain)
  show "ib_stealth \<lparr>ib_stealth = alice, ib_lbPair = ''pool'', ib_lowerBinId = 0, ib_width = 20, ib_exitRecipient = Some ''mallory''\<rparr> = alice"
    by simp
  show "initPositionTx plain_executor (node_of blank_ledger)
      \<lparr>ib_stealth = alice, ib_lbPair = ''pool'', ib_lowerBinId = 0, ib_width = 20, ib_exitRecipient = Some ''mallory''\<rparr> =
    Sent \<lparr>ir_transaction = Some plain_init, ir_positionPubkey = ''pos'', ir_positionAuthority = sk_base58 plain_sdk plain_pda, ir_alreadyInitialized = False\<rparr>"
    using plain_init_built by (simp add: initPositionTx_def bind_res_def new_PublicKey_def uncaught_def plain_executor_def plain_sdk_def)
qed simp

lemma plain_history: "(chain_step plain_executor (ascii alice))\<^sup>*\<^sup>* blank_ledger paid_ledger"
proof -
  obtain ix where ix: "ExecutorIx ix \<in> set (et_instructions plain_init)" by (auto simp: plain_init_def)
  obtain calls where "execute (ex_sdk plain_executor) (ex_programId plain_executor) blank_ledger {ascii alice} ix = Inr (opened_ledger, calls)"
    using plain_init_runs [OF ix] by (auto simp: plain_executor_def)
  from chain_step.handed [OF plain_init_handed ix this] chain_step.others [of paid_ledger opened_ledger plain_executor "ascii alice"]
  show ?thesis by (auto simp: paid_ledger_def intro: converse_rtranclp_into_rtranclp)
qed

definition plain_claim :: executor_ix where
  "plain_claim =
     (let keys = \<lparr>pk_tokenX = ascii mint_x, pk_tokenY = ascii mint_y, pk_lbPair = ascii ''pool'', pk_binArrayLower = ascii ''low'', pk_binArrayUpper = ascii ''up''\<rparr> in
      \<lparr>xi_args = ClaimDlmmFees, xi_stealth = ascii alice, xi_poolAuthority = plain_pda, xi_lbPair = ascii ''pool'', xi_dlmmProgram = DLMM_PROGRAM_ID plain_sdk,
       xi_remaining = claim_accounts plain_sdk keys (ascii ''pos'') (sk_ata plain_sdk (ascii mint_x) (ascii alice))
         (sk_ata plain_sdk (ascii mint_y) (ascii alice)) plain_pda\<rparr>)"

lemma plain_claim_runs:
  "\<exists>lg' call. execute (ex_sdk plain_executor) (ex_programId plain_executor) paid_ledger {ascii alice} plain_claim = Inr (lg', [call]) \<and>
     dc_name call = ''claim_fee''"
  by (simp add: plain_claim_def execute_def dlmm_claim_fees_def Let_def accepted key_at_def claim_accounts_def ro_def rw_def
      plain paid_ledger_def plain_pda_def derivePoolAuthorityPda_def event_authority_def DLMM_EVENT_AUTHORITY_def key_of_def
      token_owner_def token_mint_def ascii_def alice_def mint_x_def mint_y_def)

theorem proceeds_stay_with_stealth_witness:
  "\<exists>lg' call. execute plain_sdk (ascii ''program'') paid_ledger {ascii alice} plain_claim = Inr (lg', [call]) \<and>
     dc_name call = ''claim_fee'' \<and> payees paid_ledger call = [ascii alice, ascii alice]"
proof -
  obtain lg' call where run: "execute (ex_sdk plain_executor) (ex_programId plain_executor) paid_ledger {ascii alice} plain_claim = Inr (lg', [call])"
    and name: "dc_name call = ''claim_fee''" using plain_claim_runs by blast
  have "pdas_of_one plain_executor (ascii alice)" by (simp add: pdas_of_one_def plain_pdas)
  moreover have "lg_authority blank_ledger (derivePoolAuthorityPda plain_executor (ascii alice) l) = None" for l by (simp add: blank_ledger_def)
  moreover have "xi_stealth plain_claim = ascii alice" by (simp add: plain_claim_def Let_def)
  ultimately have "list_all (\<lambda>c. list_all (\<lambda>p. p = ascii alice) (payees paid_ledger c)) [call]"
    by (rule proceeds_stay_with_stealth [OF _ _ plain_history run])
  with run name show ?thesis by (auto simp: payees_def Let_def plain_executor_def)
qed

end
