(* ===== verification/ExecutorRange.thy ===== *)
theory ExecutorRange imports ExecutorPools begin

text \<open>
  The range the API gives a position of an existing pool, against what the deposit planner then
  accepts.
\<close>

definition bin_array_index :: "int \<Rightarrow> int" where "bin_array_index b = b div 70"

definition takes_sol :: "bool \<Rightarrow> int \<Rightarrow> int \<Rightarrow> int \<Rightarrow> bool" where
  "takes_sol solIsTokenX active lower upper \<longleftrightarrow>
     (\<forall>n shape. 0 < n \<longrightarrow> (\<exists>plan :: SingleSidedSolPlan.
        planSingleSidedSol \<lparr>si_totalLamports = n, si_activeBinId = active, si_lowerBinId = lower, si_upperBinId = upper,
          si_shape = shape, si_solIsTokenX = solIsTokenX\<rparr> = Inr plan))"

lemma takes_sol_iff:
  "takes_sol X active lower upper \<longleftrightarrow> lower \<le> upper \<and> (if X then active \<le> upper else lower \<le> active)"
proof
  assume "takes_sol X active lower upper"
  from this [unfolded takes_sol_def, rule_format, of 1 "[]"] show "lower \<le> upper \<and> (if X then active \<le> upper else lower \<le> active)"
    by (auto simp: planSingleSidedSol_def split: if_splits)
qed (auto simp: takes_sol_def planSingleSidedSol_def)

lemma array_of: "70 * q \<le> b \<Longrightarrow> b < 70 * (q + 1) \<Longrightarrow> b div 70 = (q :: int)"
  by (rule int_div_pos_eq [of _ _ _ "b - 70 * q"]) simp_all

lemma array_below: "(70 * q - 1) div 70 = q - (1 :: int)"
  by (rule array_of) simp_all

lemma in_array: "70 * (b div 70) \<le> b" "b < 70 * (b div 70 + 1)" for b :: int
  using div_mult_mod_eq [of b 70] pos_mod_bound [of 70 b] pos_mod_sign [of 70 b] by (simp_all add: algebra_simps)

lemma adjusted_range:
  fixes active lower width :: int assumes "1 \<le> width" "width \<le> 70"
  defines "q \<equiv> lower div 70" and "upper \<equiv> lower + width - 1"
  shows "adjust_range bin_array_index active lower width =
    (if upper div 70 \<noteq> q then \<lparr>br_lower = lower, br_upper = upper, br_lowerArray = q, br_upperArray = q + 1\<rparr>
     else if upper < active then \<lparr>br_lower = 70 * q - 1, br_upper = min upper (70 * q + 68), br_lowerArray = q - 1, br_upperArray = q\<rparr>
     else \<lparr>br_lower = max lower (70 * q + 1), br_upper = 70 * (q + 1), br_lowerArray = q, br_upperArray = q + 1\<rparr>)"
proof -
  have lo: "70 * q \<le> lower" "lower < 70 * (q + 1)" unfolding q_def by (rule in_array)+
  consider (two) "upper div 70 \<noteq> q" | (below) "upper div 70 = q" "upper < active" | (above) "upper div 70 = q" "\<not> upper < active"
    by blast
  then show ?thesis
  proof cases
    case two
    have "upper < 70 * (q + 2)" "lower \<le> upper" using lo assms(1,2) by (simp_all add: upper_def)
    with two lo array_of [of q upper] have "70 * (q + 1) \<le> upper" by fastforce
    then have "upper div 70 = q + 1" using array_of [of "q + 1" upper] \<open>upper < 70 * (q + 2)\<close> by simp
    with two show ?thesis by (simp add: adjust_range_def range_of_def bin_array_index_def Let_def q_def upper_def)
  next
    case below
    have up: "lower \<le> upper" "upper < 70 * (q + 1)" using below(1) assms(1) in_array(2) [of upper] by (simp_all add: upper_def)
    have "min upper (70 * q + 68) div 70 = q" by (rule array_of) (use up lo in auto)
    then show ?thesis using below up lo
      by (auto simp: adjust_range_def range_of_def bin_array_index_def Let_def MAX_WIDTH_def array_below
          min_def mult.commute simp flip: q_def upper_def)
  next
    case above
    have up: "lower \<le> upper" "upper < 70 * (q + 1)" using above(1) assms(1) in_array(2) [of upper] by (simp_all add: upper_def)
    have "max lower (70 * q + 1) div 70 = q" by (rule array_of) (use up lo in auto)
    then show ?thesis using above up lo
      by (auto simp: adjust_range_def range_of_def bin_array_index_def Let_def MAX_WIDTH_def
          max_def mult.commute simp flip: q_def upper_def)
  qed
qed

text \<open>
  Bounds: whatever range of at most 70 bins is asked for, the range the API gives the position
  spans two neighbouring bin arrays and has 1 to 70 bins; and it takes a single-sided deposit of SOL
  exactly when the range asked for does, but for one corner: SOL on the Y side of a range that
  starts at the active bin on an array boundary, which the trimming of the lower end cuts off the
  active bin, so that the deposit is refused.
\<close>

theorem adjusted_range_fits:
  assumes "1 \<le> width" and "width \<le> 70"
  shows "let r = adjust_range bin_array_index active lower width; w = br_upper r - br_lower r + 1 in
    br_lowerArray r = bin_array_index (br_lower r) \<and> br_upperArray r = bin_array_index (br_upper r) \<and>
    br_upperArray r = br_lowerArray r + 1 \<and> 1 \<le> w \<and> w \<le> 70 \<and>
    (takes_sol X active (br_lower r) (br_upper r) \<longleftrightarrow>
       takes_sol X active lower (lower + width - 1) \<and> \<not> (\<not> X \<and> lower = active \<and> 70 dvd active))"
proof -
  define q where "q = lower div 70"
  define upper where "upper = lower + width - 1"
  have lo: "70 * q \<le> lower" "lower < 70 * (q + 1)" unfolding q_def by (rule in_array)+
  have up: "lower \<le> upper" "upper - lower \<le> 69" using assms by (simp_all add: upper_def)
  have edge: "70 dvd lower \<longleftrightarrow> lower = 70 * q" unfolding q_def by (metis dvd_mult_div_cancel dvd_triv_left)
  note r = adjusted_range [OF assms, where lower = lower, folded q_def upper_def]
  consider (two) "upper div 70 \<noteq> q" | (below) "upper div 70 = q" "upper < active" | (above) "upper div 70 = q" "\<not> upper < active"
    by blast
  then show ?thesis
  proof cases
    case two
    have "70 * (q + 1) \<le> upper" using two array_of [of q upper] up lo by fastforce
    then have "upper div 70 = q + 1" "\<not> 70 dvd lower" using array_of [of "q + 1" upper] up lo edge by simp_all
    with two up show ?thesis by (auto simp: r Let_def takes_sol_iff bin_array_index_def simp flip: q_def upper_def)
  next
    case below
    have "min upper (70 * q + 68) div 70 = q" by (rule array_of) (use up lo below in auto)
    with below up lo show ?thesis
      by (auto simp: r Let_def takes_sol_iff bin_array_index_def array_below simp flip: upper_def)
  next
    case above
    have fit: "upper < 70 * (q + 1)" using above(1) in_array(2) [of upper] by simp
    have "max lower (70 * q + 1) div 70 = q" by (rule array_of) (use up lo fit in auto)
    moreover have "max lower (70 * q + 1) \<le> active \<longleftrightarrow> lower \<le> active \<and> \<not> (lower = active \<and> 70 dvd active)"
      using lo edge by (cases "lower = active") (auto simp: max_def)
    ultimately show ?thesis using above up lo fit
      by (simp add: r Let_def takes_sol_iff bin_array_index_def flip: upper_def)
  qed
qed

theorem adjusted_range_fits_witness:
  "let r = adjust_range bin_array_index 0 0 20 in takes_sol False 0 0 19 \<and> \<not> takes_sol False 0 (br_lower r) (br_upper r)"
  using adjusted_range_fits [of 20 0 0 False] by (simp add: Let_def takes_sol_iff)

end
