(* ===== verification/VaultTree.thy ===== *)
theory VaultTree imports StealthWallet begin

text \<open>
  Commitments, the Merkle tree of deposits and the inputs of a withdrawal proof, on both sides:
  modules/vault and relayer/deposit.service.ts of the API, and commitment.ts, merkle-tree.ts,
  proof.ts and bytes.ts of the browser's lib/mixer.  Poseidon is a function on lists of integers;
  the class \<open>MerkleTree\<close> of fixed-merkle-tree is the record \<open>merkle_lib\<close> of its constructor and
  methods; random bytes are arguments.
\<close>

section \<open>Libraries\<close>

type_synonym poseidon = "int list \<Rightarrow> int"

record 't merkle_lib =
  ml_create :: "nat \<Rightarrow> string list \<Rightarrow> (string \<Rightarrow> string \<Rightarrow> string option) \<Rightarrow> string \<Rightarrow> string + 't"
  ml_insert :: "'t \<Rightarrow> string \<Rightarrow> string + 't"
  ml_elements :: "'t \<Rightarrow> string list"
  ml_root :: "'t \<Rightarrow> string"
  ml_path :: "'t \<Rightarrow> int \<Rightarrow> string + string list \<times> int list"
  ml_indexOf :: "'t \<Rightarrow> string \<Rightarrow> int"

section \<open>Poseidon\<close>

text \<open>\<open>BigInt(poseidon.F.toString(out))\<close> reads its decimal text back.\<close>

definition poseidonHash :: "poseidon \<Rightarrow> int list \<Rightarrow> int" where
  "poseidonHash ps inputs = the (bigint_of_string (string_of_bigint (ps inputs)))"

definition poseidonHash2 :: "poseidon \<Rightarrow> int \<Rightarrow> int \<Rightarrow> int" where
  "poseidonHash2 ps a b = poseidonHash ps [a, b]"

text \<open>The hash function given to the tree; \<open>None\<close> where \<open>BigInt\<close> throws.\<close>

definition createPoseidonHasher :: "poseidon \<Rightarrow> string \<Rightarrow> string \<Rightarrow> string option" where
  "createPoseidonHasher ps left right =
     (case (bigint_of_string left, bigint_of_string right) of
        (Some l, Some r) \<Rightarrow> Some (string_of_bigint (ps [l, r]))
      | _ \<Rightarrow> None)"

section \<open>The tree of the API\<close>

definition TREE_LEVELS :: nat where "TREE_LEVELS = 20"
definition ZERO_VALUE :: string where "ZERO_VALUE = ''0''"

record MerkleProof =
  mpr_pathElements :: "string list"
  mpr_pathIndices :: "int list"

definition createVaultMerkleTree :: "'t merkle_lib \<Rightarrow> poseidon \<Rightarrow> nat \<Rightarrow> int list \<Rightarrow> string + 't" where
  "createVaultMerkleTree ml ps levels existingLeaves =
     ml_create ml levels (map string_of_bigint existingLeaves) (createPoseidonHasher ps) ZERO_VALUE"

definition tree_insert :: "'t merkle_lib \<Rightarrow> 't \<Rightarrow> int \<Rightarrow> string + int \<times> 't" where
  "tree_insert ml t commitment =
     bind_res (ml_insert ml t (string_of_bigint commitment)) (\<lambda>t'.
     Inr (int (length (ml_elements ml t')) - 1, t'))"

definition tree_getProof :: "'t merkle_lib \<Rightarrow> 't \<Rightarrow> int \<Rightarrow> string + MerkleProof" where
  "tree_getProof ml t leafIndex =
     bind_res (ml_path ml t leafIndex) (\<lambda>(pathElements, pathIndices).
     Inr \<lparr>mpr_pathElements = pathElements, mpr_pathIndices = pathIndices\<rparr>)"

definition not_bigint :: "string \<Rightarrow> string" where
  "not_bigint t = ''Cannot convert '' @ t @ '' to a BigInt''"

definition BigInt_text :: "string \<Rightarrow> string + int" where
  "BigInt_text t = (case bigint_of_string t of None \<Rightarrow> Inl (not_bigint t) | Some v \<Rightarrow> Inr v)"

definition tree_root :: "'t merkle_lib \<Rightarrow> 't \<Rightarrow> string + int" where
  "tree_root ml t = BigInt_text (ml_root ml t)"

definition tree_indexOf :: "'t merkle_lib \<Rightarrow> 't \<Rightarrow> int \<Rightarrow> int" where
  "tree_indexOf ml t commitment = ml_indexOf ml t (string_of_bigint commitment)"

definition tree_elements :: "'t merkle_lib \<Rightarrow> 't \<Rightarrow> string list" where
  "tree_elements ml t = ml_elements ml t"

section \<open>Commitments of the API\<close>

record Commitment =
  cm_secret :: int
  cm_nullifier :: int
  cm_commitment :: int
  cm_nullifierHash :: int

text \<open>\<open>BigInt("0x" + bytes.toString("hex"))\<close> of 31 random bytes.\<close>

definition randomFieldElement :: "bytes \<Rightarrow> int" where
  "randomFieldElement random31 = big_of_hex random31"

definition generateCommitment :: "poseidon \<Rightarrow> bytes \<Rightarrow> bytes \<Rightarrow> Commitment" where
  "generateCommitment ps random1 random2 =
     (let secret = randomFieldElement random1;
          nullifier = randomFieldElement random2
      in \<lparr>cm_secret = secret, cm_nullifier = nullifier,
          cm_commitment = poseidonHash ps [secret, nullifier],
          cm_nullifierHash = poseidonHash ps [nullifier]\<rparr>)"

record WithdrawProofInputs =
  wi_root :: string
  wi_nullifierHash :: string
  wi_recipient :: string
  wi_relayer :: string
  wi_fee :: string
  wi_secret :: string
  wi_nullifier :: string
  wi_pathElements :: "string list"
  wi_pathIndices :: "int list"

definition generateProofInputs ::
  "'t merkle_lib \<Rightarrow> 't \<Rightarrow> int \<Rightarrow> int \<Rightarrow> int \<Rightarrow> int \<Rightarrow> int \<Rightarrow> int \<Rightarrow> int \<Rightarrow> string + WithdrawProofInputs" where
  "generateProofInputs ml t leafIndex secret nullifier nullifierHash recipient rel fee =
     bind_res (tree_getProof ml t leafIndex) (\<lambda>pr.
     bind_res (tree_root ml t) (\<lambda>rt.
     Inr \<lparr>wi_root = string_of_bigint rt, wi_nullifierHash = string_of_bigint nullifierHash,
          wi_recipient = string_of_bigint recipient, wi_relayer = string_of_bigint rel,
          wi_fee = string_of_bigint fee, wi_secret = string_of_bigint secret,
          wi_nullifier = string_of_bigint nullifier,
          wi_pathElements = mpr_pathElements pr, wi_pathIndices = mpr_pathIndices pr\<rparr>))"

section \<open>The deposit service\<close>

record DepositRecord =
  dr_commitment :: string
  dr_leafIndex :: int
  dr_blockTime :: int
  dr_txSignature :: string

datatype deposit_error =
    NotInitialized
  | CommitmentNotPositive
  | SignatureNotReal
  | TreeFailure string

record 't deposit_service =
  dsv_tree :: "'t option"
  dsv_deposits :: "DepositRecord list"

definition new_deposit_service :: "'t deposit_service" where
  "new_deposit_service = \<lparr>dsv_tree = None, dsv_deposits = []\<rparr>"

definition tree_failure :: "string + 'a \<Rightarrow> deposit_error + 'a" where
  "tree_failure r = (case r of Inl e \<Rightarrow> Inl (TreeFailure e) | Inr a \<Rightarrow> Inr a)"

definition deposits_initialize ::
  "'t merkle_lib \<Rightarrow> poseidon \<Rightarrow> int list \<Rightarrow> 't deposit_service \<Rightarrow> deposit_error + 't deposit_service" where
  "deposits_initialize ml ps existingCommitments s =
     bind_res (tree_failure (createVaultMerkleTree ml ps 20 existingCommitments)) (\<lambda>t.
     Inr \<lparr>dsv_tree = Some t,
          dsv_deposits = map (\<lambda>(i, c). \<lparr>dr_commitment = string_of_bigint c, dr_leafIndex = int i,
                              dr_blockTime = 0, dr_txSignature = ''historical''\<rparr>)
                            (enumerate 0 existingCommitments)\<rparr>)"

definition ensureInitialized :: "'t deposit_service \<Rightarrow> deposit_error + 't" where
  "ensureInitialized s = (case dsv_tree s of None \<Rightarrow> Inl NotInitialized | Some t \<Rightarrow> Inr t)"

definition deposits_recordDeposit ::
  "'t merkle_lib \<Rightarrow> int \<Rightarrow> string \<Rightarrow> int \<Rightarrow> 't deposit_service \<Rightarrow> deposit_error + int \<times> 't deposit_service" where
  "deposits_recordDeposit ml commitment txSignature blockTime s =
     bind_res (ensureInitialized s) (\<lambda>t.
     if commitment \<le> 0 then Inl CommitmentNotPositive
     else if length txSignature < 32 then Inl SignatureNotReal
     else
       bind_res (tree_failure (tree_insert ml t commitment)) (\<lambda>(leafIndex, t').
       Inr (leafIndex, \<lparr>dsv_tree = Some t',
         dsv_deposits = dsv_deposits s @ [\<lparr>dr_commitment = string_of_bigint commitment, dr_leafIndex = leafIndex,
           dr_blockTime = blockTime, dr_txSignature = txSignature\<rparr>]\<rparr>)))"

definition currentRoot :: "'t merkle_lib \<Rightarrow> 't deposit_service \<Rightarrow> deposit_error + string" where
  "currentRoot ml s =
     bind_res (ensureInitialized s) (\<lambda>t.
     bind_res (tree_failure (tree_root ml t)) (\<lambda>rt. Inr (string_of_bigint rt)))"

definition findCommitment :: "'t merkle_lib \<Rightarrow> int \<Rightarrow> 't deposit_service \<Rightarrow> deposit_error + int" where
  "findCommitment ml commitment s = bind_res (ensureInitialized s) (\<lambda>t. Inr (tree_indexOf ml t commitment))"

definition deposits_nextLeafIndex :: "'t deposit_service \<Rightarrow> deposit_error + int" where
  "deposits_nextLeafIndex s = bind_res (ensureInitialized s) (\<lambda>t. Inr (int (length (dsv_deposits s))))"

definition depositCount :: "'t deposit_service \<Rightarrow> int" where
  "depositCount s = int (length (dsv_deposits s))"

section \<open>The browser\<close>

text \<open>\<open>for (const b of bytes) hex += b.toString(16).padStart(2, "0")\<close>.\<close>

definition byte_hex :: "byte \<Rightarrow> string" where
  "byte_hex b = padStart 2 (digits 16 (uint b))"

definition web_big_of_hex :: "bytes \<Rightarrow> int" where
  "web_big_of_hex bs =
     (case bigint_of_string (''0x'' @ concat (map byte_hex bs)) of Some v \<Rightarrow> v | None \<Rightarrow> 0)"

definition web_generateCommitment :: "poseidon \<Rightarrow> bytes \<Rightarrow> bytes \<Rightarrow> Commitment" where
  "web_generateCommitment ps random1 random2 =
     (let secret = web_big_of_hex random1;
          nullifier = web_big_of_hex random2
      in \<lparr>cm_secret = secret, cm_nullifier = nullifier,
          cm_commitment = poseidonHash ps [secret, nullifier],
          cm_nullifierHash = poseidonHash ps [nullifier]\<rparr>)"

definition web_getPoseidonHasher :: "poseidon \<Rightarrow> string \<Rightarrow> string \<Rightarrow> string option" where
  "web_getPoseidonHasher ps left right =
     (case (bigint_of_string left, bigint_of_string right) of
        (Some l, Some r) \<Rightarrow> Some (string_of_bigint (ps [l, r]))
      | _ \<Rightarrow> None)"

definition createMixerMerkleTree :: "'t merkle_lib \<Rightarrow> poseidon \<Rightarrow> nat option \<Rightarrow> int list \<Rightarrow> string + 't" where
  "createMixerMerkleTree ml ps levels existingLeaves =
     ml_create ml (case levels of None \<Rightarrow> TREE_LEVELS | Some n \<Rightarrow> n) (map string_of_bigint existingLeaves)
       (web_getPoseidonHasher ps) ZERO_VALUE"

definition buildWithdrawCircuitInput ::
  "'t merkle_lib \<Rightarrow> 't \<Rightarrow> int \<Rightarrow> Commitment \<Rightarrow> int \<Rightarrow> int \<Rightarrow> int \<Rightarrow> string + WithdrawProofInputs" where
  "buildWithdrawCircuitInput ml t leafIndex c recipientField relayerField fee =
     bind_res (tree_getProof ml t leafIndex) (\<lambda>pr.
     bind_res (tree_root ml t) (\<lambda>rt.
     Inr \<lparr>wi_root = string_of_bigint rt, wi_nullifierHash = string_of_bigint (cm_nullifierHash c),
          wi_recipient = string_of_bigint recipientField, wi_relayer = string_of_bigint relayerField,
          wi_fee = string_of_bigint fee, wi_secret = string_of_bigint (cm_secret c),
          wi_nullifier = string_of_bigint (cm_nullifier c),
          wi_pathElements = mpr_pathElements pr, wi_pathIndices = mpr_pathIndices pr\<rparr>))"

text \<open>The packers of bytes.ts; \<open>value.toString(16)\<close> of a negative number starts with a sign.\<close>

definition hex_text :: "int \<Rightarrow> string" where
  "hex_text v = (if v < 0 then CHR ''-'' # digits 16 (- v) else digits 16 v)"

definition web_bigintToBeBytes :: "int \<Rightarrow> bytes" where
  "web_bigintToBeBytes value =
     (let hex = padStart 64 (hex_text value)
      in map (\<lambda>i. parse_hex_byte (take 2 (drop (i * 2) hex))) [0..<32])"

definition web_element_bytes :: "string list \<Rightarrow> nat \<Rightarrow> pack_error + bytes" where
  "web_element_bytes xs i = bind_res (element_int xs i) (\<lambda>v. Inr (web_bigintToBeBytes v))"

definition web_convertProofToBytes :: "Groth16Proof \<Rightarrow> pack_error + bytes" where
  "web_convertProofToBytes proof =
     bind_res (web_element_bytes (pi_a proof) 0) (\<lambda>piAx.
     bind_res (element_int (pi_a proof) 1) (\<lambda>piAyRaw.
     let piAyNeg = web_bigintToBeBytes (BN254_P - piAyRaw) in
     bind_res (element (pi_b proof) 0) (\<lambda>xx.
     bind_res (web_element_bytes xx 1) (\<lambda>piBx1.
     bind_res (web_element_bytes xx 0) (\<lambda>piBx0.
     bind_res (element (pi_b proof) 1) (\<lambda>yy.
     bind_res (web_element_bytes yy 1) (\<lambda>piBy1.
     bind_res (web_element_bytes yy 0) (\<lambda>piBy0.
     bind_res (web_element_bytes (pi_c proof) 0) (\<lambda>piCx.
     bind_res (web_element_bytes (pi_c proof) 1) (\<lambda>piCy.
     Inr (copy_at 224 piCy (copy_at 192 piCx (copy_at 160 piBy0 (copy_at 128 piBy1
       (copy_at 96 piBx0 (copy_at 64 piBx1 (copy_at 32 piAyNeg (copy_at 0 piAx
          (replicate 256 0)))))))))))))))))))"

fun web_pack_signals :: "nat \<Rightarrow> string list \<Rightarrow> bytes \<Rightarrow> pack_error + bytes" where
  "web_pack_signals i [] buf = Inr buf"
| "web_pack_signals i (t # ts) buf =
     (case bigint_of_string t of
        None \<Rightarrow> Inl (NotBigInt t)
      | Some v \<Rightarrow> web_pack_signals (Suc i) ts (copy_at (i * 32) (web_bigintToBeBytes v) buf))"

definition web_convertPublicInputsToBytes :: "string list \<Rightarrow> pack_error + bytes" where
  "web_convertPublicInputsToBytes signals =
     (if length signals \<noteq> 5 then Inl (SignalCount (length signals))
      else web_pack_signals 0 signals (replicate 160 0))"

definition web_pubkeyToFieldElement :: "bytes \<Rightarrow> int" where
  "web_pubkeyToFieldElement key = web_big_of_hex key"

definition web_pubkeyToFieldHash :: "poseidon \<Rightarrow> bytes \<Rightarrow> int" where
  "web_pubkeyToFieldHash ps key =
     (let hi = web_big_of_hex (take 16 key); lo = web_big_of_hex (take 16 (drop 16 key))
      in poseidonHash ps [hi, lo])"

section \<open>Both sides agree\<close>

lemma byte_hex_digits: "byte_hex b = [digit_char (uint b div 16), digit_char (uint b mod 16)]"
proof (cases "uint b < 16")
  case True
  then show ?thesis using nibbles [of b] by (subst byte_hex_def, subst digits.simps) (simp add: padStart_def zero_digit)
next
  case False
  then show ?thesis using nibbles [of b]
    by (simp add: byte_hex_def padStart_def digits.simps [of 16 "uint b"] digits.simps [of 16 "uint b div 16"])
qed

lemma web_big_of_hex_eq [simp]: "web_big_of_hex bs = big_of_hex bs"
  by (simp add: web_big_of_hex_def big_of_hex_def hex_encode_def byte_hex_digits [abs_def])

lemma hashers_agree: "web_getPoseidonHasher ps = createPoseidonHasher ps"
  by (simp add: fun_eq_iff web_getPoseidonHasher_def createPoseidonHasher_def)

lemma poseidonHash_eq [simp]: "poseidonHash ps xs = ps xs"
  by (simp add: poseidonHash_def)

lemma hex_decode_pairs:
  assumes "length s = 2 * n" and "\<And>c. c \<in> set s \<Longrightarrow> \<exists>d. 0 \<le> d \<and> d < 16 \<and> c = digit_char d"
  shows "map (\<lambda>i. parse_hex_byte (take 2 (drop (i * 2) s))) [0..<n] = hex_decode s"
  using assms
proof (induction n arbitrary: s)
  case (Suc n)
  then obtain c d rest where s: "s = c # d # rest" and len: "length rest = 2 * n"
    by (cases s; cases "tl s") auto
  obtain x where x: "0 \<le> x" "x < 16" "c = digit_char x" using Suc.prems(2) [of c] s by auto
  obtain y where y: "0 \<le> y" "y < 16" "d = digit_char y" using Suc.prems(2) [of d] s by auto
  have "map (\<lambda>i. parse_hex_byte (take 2 (drop (i * 2) rest))) [0..<n] = hex_decode rest"
    using Suc.IH [OF len] Suc.prems(2) s by auto
  then have "map (\<lambda>i. parse_hex_byte (take 2 (drop (i * 2) s))) [1..<Suc n] = hex_decode rest"
    by (simp add: s map_Suc_upt [symmetric] o_def del: upt_Suc)
  then show ?case
    using x y by (simp add: upt_conv_Cons s parse_hex_byte_def digit_value_char del: upt_Suc)
qed simp

lemma web_bytes_ok:
  assumes "bigintToBeBytes v = Inr bs"
  shows "web_bigintToBeBytes v = bs"
proof -
  have v: "0 \<le> v" "v < 2 ^ 256" and bs: "bs = hex_decode (padStart 64 (digits 16 v))"
    using assms by (auto simp: bigintToBeBytes_def TWO_POW_256_def push_bit_eq_mult split: if_splits)
  have "length (digits 16 v) \<le> 64" by (rule length_digits_bound) (use v in auto)
  then have len: "length (padStart 64 (digits 16 v)) = 2 * 32" by (simp add: padStart_def)
  have chars: "\<exists>d. 0 \<le> d \<and> d < 16 \<and> c = digit_char d" if "c \<in> set (padStart 64 (digits 16 v))" for c
  proof (cases "c \<in> set (digits 16 v)")
    case True
    then show ?thesis using digits_chars [of 16 v c] v(1) by auto
  next
    case False
    then have "c = digit_char 0" using that by (auto simp: padStart_def zero_digit)
    then show ?thesis by (intro exI [of _ 0]) simp
  qed
  from hex_decode_pairs [OF len chars] v(1) bs show ?thesis
    by (simp add: web_bigintToBeBytes_def hex_text_def Let_def)
qed

lemma web_element_bytes_ok: "element_bytes xs i = Inr bs \<Longrightarrow> web_element_bytes xs i = Inr bs"
  by (auto simp: element_bytes_def web_element_bytes_def bind_res_def web_bytes_ok split: sum.splits)

lemma web_proof_ok: "convertProofToBytes p = Inr buf \<Longrightarrow> web_convertProofToBytes p = Inr buf"
  unfolding convertProofToBytes_def web_convertProofToBytes_def
  by (fastforce simp: bind_res_Inr web_element_bytes_ok web_bytes_ok Let_def)

lemma web_signals_ok: "pack_signals i ts buf = Inr r \<Longrightarrow> web_pack_signals i ts buf = Inr r"
  by (induction i ts buf rule: pack_signals.induct)
    (auto simp: pack_text_def web_bytes_ok split: sum.splits option.splits)

lemma web_inputs_ok: "convertPublicInputsToBytes sigs = Inr buf \<Longrightarrow> web_convertPublicInputsToBytes sigs = Inr buf"
  by (auto simp: convertPublicInputsToBytes_def web_convertPublicInputsToBytes_def web_signals_ok split: if_splits)

lemma same_commitment: "web_generateCommitment ps r1 r2 = generateCommitment ps r1 r2"
  by (simp add: web_generateCommitment_def generateCommitment_def randomFieldElement_def Let_def)

lemma random_element:
  assumes "length r = 31"
  shows "0 \<le> big_of_hex r \<and> big_of_hex r < 2 ^ 248 \<and> be_bytes 31 (big_of_hex r) = r"
proof -
  have v: "big_of_hex r = be_value r" using assms by (intro big_of_hex_value) auto
  have "be_value r < 256 ^ 31" "0 \<le> be_value r" using be_value_bounds [of r] assms by auto
  moreover have "be_bytes 31 (be_value r) = r" using assms by simp
  ultimately show ?thesis by (simp add: v)
qed

lemma same_tree: "createMixerMerkleTree ml ps None leaves = createVaultMerkleTree ml ps TREE_LEVELS leaves"
  by (simp add: createMixerMerkleTree_def createVaultMerkleTree_def hashers_agree)

lemma same_circuit_input:
  "buildWithdrawCircuitInput ml t i c recip rel fee =
     generateProofInputs ml t i (cm_secret c) (cm_nullifier c) (cm_nullifierHash c) recip rel fee"
  by (simp add: buildWithdrawCircuitInput_def generateProofInputs_def)

lemma api_refuses_wide: "bigintToBeBytes (16 ^ 64) = Inl (TooWide (16 ^ 64))"
  by (simp add: bigintToBeBytes_cases fits_def)

lemma browser_packs_wide: "web_bigintToBeBytes (16 ^ 64) = 16 # replicate 31 0"
  by code_simp

section \<open>The deposit service mirrors its tree\<close>

text \<open>What the service relies on: the documented behaviour of the tree class.\<close>

definition merkle_laws :: "'t merkle_lib \<Rightarrow> bool" where
  "merkle_laws ml \<longleftrightarrow>
     (\<forall>n ls f z t. ml_create ml n ls f z = Inr t \<longrightarrow> ml_elements ml t = ls) \<and>
     (\<forall>t x t'. ml_insert ml t x = Inr t' \<longrightarrow> ml_elements ml t' = ml_elements ml t @ [x]) \<and>
     (\<forall>t x. ml_indexOf ml t x = (case find (\<lambda>i. ml_elements ml t ! i = x) [0..<length (ml_elements ml t)] of
        None \<Rightarrow> - 1 | Some i \<Rightarrow> int i))"

datatype deposit_op = Initialize "int list" | Record int string int

definition deposit_step :: "'t merkle_lib \<Rightarrow> poseidon \<Rightarrow> deposit_op \<Rightarrow> 't deposit_service \<Rightarrow> 't deposit_service" where
  "deposit_step ml ps op s =
     (case op of
        Initialize cs \<Rightarrow> (case deposits_initialize ml ps cs s of Inl e \<Rightarrow> s | Inr s' \<Rightarrow> s')
      | Record c sig t \<Rightarrow> (case deposits_recordDeposit ml c sig t s of Inl e \<Rightarrow> s | Inr (i, s') \<Rightarrow> s'))"

definition deposit_history :: "'t merkle_lib \<Rightarrow> poseidon \<Rightarrow> deposit_op list \<Rightarrow> 't deposit_service" where
  "deposit_history ml ps steps = fold (deposit_step ml ps) steps new_deposit_service"

definition in_step :: "'t merkle_lib \<Rightarrow> 't deposit_service \<Rightarrow> bool" where
  "in_step ml s \<longleftrightarrow>
     (case dsv_tree s of
        None \<Rightarrow> dsv_deposits s = []
      | Some t \<Rightarrow> map dr_commitment (dsv_deposits s) = ml_elements ml t) \<and>
     map dr_leafIndex (dsv_deposits s) = map int [0..<length (dsv_deposits s)] \<and>
     (\<forall>d \<in> set (dsv_deposits s). dr_txSignature d = ''historical'' \<or> 32 \<le> length (dr_txSignature d))"

lemma in_step_initialize:
  assumes "merkle_laws ml" and "deposits_initialize ml ps cs s = Inr s'"
  shows "in_step ml s'"
  using assms
  by (auto simp: deposits_initialize_def tree_failure_def bind_res_def createVaultMerkleTree_def in_step_def merkle_laws_def
      enumerate_eq_zip map_eq_conv comp_def case_prod_unfold map_snd_zip map_fst_zip in_set_zip
      intro!: nth_equalityI split: sum.splits)

lemma in_step_record:
  assumes "merkle_laws ml" and "in_step ml s" and "deposits_recordDeposit ml c sig t s = Inr (i, s')"
  shows "in_step ml s' \<and> i = int (length (dsv_deposits s)) \<and> 0 < c"
proof -
  from assms(3) obtain tr tr' where tr: "dsv_tree s = Some tr" "ml_insert ml tr (string_of_bigint c) = Inr tr'"
    and c: "0 < c" and sig: "32 \<le> length sig" and i: "i = int (length (ml_elements ml tr')) - 1"
    and s': "s' = \<lparr>dsv_tree = Some tr', dsv_deposits = dsv_deposits s @ [\<lparr>dr_commitment = string_of_bigint c,
        dr_leafIndex = i, dr_blockTime = t, dr_txSignature = sig\<rparr>]\<rparr>"
    by (auto simp: deposits_recordDeposit_def ensureInitialized_def tree_failure_def tree_insert_def bind_res_def
        split: option.splits sum.splits if_splits)
  have el: "ml_elements ml tr' = map dr_commitment (dsv_deposits s) @ [string_of_bigint c]"
    using assms(1,2) tr by (simp add: merkle_laws_def in_step_def)
  then have "length (ml_elements ml tr') = Suc (length (dsv_deposits s))" by simp
  with i have "i = int (length (dsv_deposits s))" by simp
  with el s' assms(2) sig c show ?thesis by (auto simp: in_step_def)
qed

lemma in_step_history: "merkle_laws ml \<Longrightarrow> in_step ml (deposit_history ml ps steps)"
proof (induction steps rule: rev_induct)
  case Nil
  then show ?case by (simp add: in_step_def new_deposit_service_def deposit_history_def)
next
  case (snoc op steps)
  then show ?case
    by (cases op) (auto simp: deposit_history_def deposit_step_def split: sum.splits dest: in_step_initialize in_step_record)
qed

text \<open>
  C13.  What the browser computes is what the API computes: the same commitments from the same
  random bytes, the same tree from the same deposits, the same inputs of the proof, and the same
  bytes for every proof and every public inputs that the API accepts.  Secrets are numbers of 248
  bits that determine the random bytes.  Where the API refuses a number of 257 bits the browser
  packs other bytes in silence.
\<close>

theorem browser_mirrors_api:
  fixes ml :: "'t merkle_lib"
  assumes "length r1 = 31" and "length r2 = 31"
  shows "web_generateCommitment ps r1 r2 = generateCommitment ps r1 r2 \<and>
      cm_secret (generateCommitment ps r1 r2) \<in> {0..<2 ^ 248} \<and> be_bytes 31 (cm_secret (generateCommitment ps r1 r2)) = r1 \<and>
      cm_nullifier (generateCommitment ps r1 r2) \<in> {0..<2 ^ 248} \<and> be_bytes 31 (cm_nullifier (generateCommitment ps r1 r2)) = r2 \<and>
      createMixerMerkleTree ml ps None leaves = createVaultMerkleTree ml ps TREE_LEVELS leaves \<and>
      buildWithdrawCircuitInput ml t i c recip rel fee =
        generateProofInputs ml t i (cm_secret c) (cm_nullifier c) (cm_nullifierHash c) recip rel fee \<and>
      (convertProofToBytes p = Inr buf \<longrightarrow> web_convertProofToBytes p = Inr buf) \<and>
      (convertPublicInputsToBytes sigs = Inr buf \<longrightarrow> web_convertPublicInputsToBytes sigs = Inr buf) \<and>
      web_pubkeyToFieldHash ps key = pubkeyToFieldHash ps key \<and>
      bigintToBeBytes (16 ^ 64) = Inl (TooWide (16 ^ 64)) \<and> web_bigintToBeBytes (16 ^ 64) = 16 # replicate 31 0"
  using random_element [OF assms(1)] random_element [OF assms(2)] api_refuses_wide browser_packs_wide
  by (simp add: same_commitment same_tree same_circuit_input web_proof_ok web_inputs_ok
      web_pubkeyToFieldHash_def pubkeyToFieldHash_def Let_def)
    (simp add: generateCommitment_def randomFieldElement_def Let_def)

theorem browser_mirrors_api_witness:
  "web_generateCommitment sum_list (replicate 31 1) (replicate 31 2) =
     generateCommitment sum_list (replicate 31 1) (replicate 31 2)"
  by (rule browser_mirrors_api [of "replicate 31 1" "replicate 31 2" sum_list, THEN conjunct1]) simp_all

text \<open>
  C24.  After every history of initialisations and recorded deposits, failed ones included, the
  records of the deposit service and its tree hold the same commitments in the same order, leaf
  indices count from zero, a new deposit gets the next index, and a commitment is found at its
  first record, no earlier record having it, and only if there is one; a service that was never initialised refuses every question.
\<close>

theorem deposits_mirror_tree:
  fixes ml :: "'t merkle_lib" and ps :: poseidon and steps :: "deposit_op list"
  assumes "merkle_laws ml"
  defines "s \<equiv> deposit_history ml ps steps"
  shows "case dsv_tree s of
      None \<Rightarrow> dsv_deposits s = [] \<and> currentRoot ml s = Inl NotInitialized \<and>
        findCommitment ml c s = Inl NotInitialized \<and> deposits_nextLeafIndex s = Inl NotInitialized \<and>
        deposits_recordDeposit ml c sig tm s = Inl NotInitialized
    | Some t \<Rightarrow> map dr_commitment (dsv_deposits s) = tree_elements ml t \<and>
        map dr_leafIndex (dsv_deposits s) = map int [0..<length (dsv_deposits s)] \<and>
        deposits_nextLeafIndex s = Inr (depositCount s) \<and>
        (\<forall>i s'. deposits_recordDeposit ml c sig tm s = Inr (i, s') \<longrightarrow>
           Inr i = deposits_nextLeafIndex s \<and> 0 < c \<and> depositCount s' = depositCount s + 1) \<and>
        (\<exists>i. findCommitment ml c s = Inr i \<and>
           (if i = - 1 then string_of_bigint c \<notin> dr_commitment ` set (dsv_deposits s)
            else 0 \<le> i \<and> nat i < length (dsv_deposits s) \<and>
              dr_commitment (dsv_deposits s ! nat i) = string_of_bigint c \<and>
              (\<forall>j < nat i. dr_commitment (dsv_deposits s ! j) \<noteq> string_of_bigint c)))"
proof -
  have inv: "in_step ml s" unfolding s_def by (rule in_step_history [OF assms(1)])
  show ?thesis
  proof (cases "dsv_tree s")
    case None
    then show ?thesis using inv
      by (simp add: in_step_def currentRoot_def findCommitment_def deposits_nextLeafIndex_def
          deposits_recordDeposit_def ensureInitialized_def bind_res_def)
  next
    case (Some t)
    have el: "map dr_commitment (dsv_deposits s) = ml_elements ml t" using inv Some by (simp add: in_step_def)
    have step: "int (length (dsv_deposits s)) = i \<and> 0 < c \<and> depositCount s' = depositCount s + 1"
      if "deposits_recordDeposit ml c sig tm s = Inr (i, s')" for i s'
      using in_step_record [OF assms(1) inv that] that
      by (auto simp: deposits_recordDeposit_def ensureInitialized_def tree_failure_def tree_insert_def bind_res_def depositCount_def
          split: option.splits sum.splits if_splits)
    have found: "if i = - 1 then string_of_bigint c \<notin> dr_commitment ` set (dsv_deposits s)
        else 0 \<le> i \<and> nat i < length (dsv_deposits s) \<and> dr_commitment (dsv_deposits s ! nat i) = string_of_bigint c \<and>
          (\<forall>j < nat i. dr_commitment (dsv_deposits s ! j) \<noteq> string_of_bigint c)"
      if "i = tree_indexOf ml t c" for i
    proof -
      have len: "length (ml_elements ml t) = length (dsv_deposits s)" by (simp flip: el)
      have at: "ml_elements ml t ! j = dr_commitment (dsv_deposits s ! j)" if "j < length (dsv_deposits s)" for j
        using that by (simp flip: el)
      show ?thesis
        using that assms(1) len at
        by (auto simp: tree_indexOf_def merkle_laws_def in_set_conv_nth find_None_iff find_Some_iff split: option.splits)
    qed
    show ?thesis
      using Some inv el step found
      by (simp add: in_step_def findCommitment_def deposits_nextLeafIndex_def tree_elements_def
          ensureInitialized_def bind_res_def depositCount_def)
  qed
qed

text \<open>A tree that keeps its leaves in a list.\<close>

definition list_tree :: "string list merkle_lib" where
  "list_tree = \<lparr>ml_create = (\<lambda>n ls f z. Inr ls), ml_insert = (\<lambda>t x. Inr (t @ [x])), ml_elements = (\<lambda>t. t),
     ml_root = (\<lambda>t. ''0''), ml_path = (\<lambda>t i. Inl ''no path''),
     ml_indexOf = (\<lambda>t x. case find (\<lambda>i. t ! i = x) [0..<length t] of None \<Rightarrow> - 1 | Some i \<Rightarrow> int i)\<rparr>"

lemma list_tree_laws: "merkle_laws list_tree"
  by (simp add: merkle_laws_def list_tree_def)

theorem deposits_mirror_tree_witness:
  "merkle_laws list_tree \<and> deposits_nextLeafIndex (deposit_history list_tree sum_list
     [Initialize [5], Record 7 (replicate 64 (CHR ''x'')) 0]) = Inr 2"
proof -
  let ?steps = "[Initialize [5], Record 7 (replicate 64 (CHR ''x'')) 0]"
  let ?s = "deposit_history list_tree sum_list ?steps"
  have "dsv_tree ?s = Some [''5'', ''7'']" by code_simp
  moreover have "depositCount ?s = 2" by code_simp
  ultimately show ?thesis
    using deposits_mirror_tree [OF list_tree_laws, of sum_list ?steps 0 "[]" 0] list_tree_laws by simp
qed

end
