(* ===== verification/BrowserFlow.thy ===== *)
theory BrowserFlow imports VaultTree RelayerHttp DlmmQueries ExecutorPools begin

text \<open>
  What the position flows of the browser share (octora-web/src/lib: privateExit.ts, privateClaim.ts,
  privateDeposit.ts, privateRebalance.ts, privateLifecycle.ts and stealthVault.ts): their calls to
  the API, the node, the wallet extension and the prover, the derivation of the stealth wallet, the
  signing and sending of a transaction, and the way through the mixer.  A flow is a program over
  these calls; an error is the text of its message.  The texts and data of the step events, which
  are shown to the user only, are left out.
\<close>

section \<open>What the browser exchanges\<close>

datatype step_key =
    DeriveStep | RelayerInfoStep | PrepareStep | PositionStateStep | CloseStep | ClaimStep | SwapStep
  | ThresholdStep | PickStep | DustSweepStep | MixerDepositStep | ConfirmDepositStep | BuildTreeStep
  | ProveStep | RelayerWithdrawStep | UsePoolStep | InitPositionStep | AddLiquidityStep | DoneStep

datatype step_status = Begun | Passed | Broken

text \<open>A transaction of web3.js: what it does, the blockhash it carries, the seeds that signed it.\<close>

datatype tx_message = BuiltByServer string | TransferSol string string js_num

record web_tx =
  wt_message :: tx_message
  wt_recentBlockhash :: "string option"
  wt_signedBy :: "bytes list"

record RelayerInfoView =
  rv_relayerPubkey :: string
  rv_feeLamports :: string
  rv_denominationLamports :: string
  rv_pools :: "string list option"

record RelayerWithdrawResp =
  wy_success :: bool
  wy_txSignature :: "string option"
  wy_amountLamports :: string
  wy_error :: "string option"

record InitPositionResponse =
  ip_transaction :: "string option"
  ip_positionPubkey :: string
  ip_alreadyInitialized :: bool

datatype shape = Spot | Curve | BidAsk

datatype http_request =
    GetRelayerInfo
  | GetPoolAuthority string string
  | GetPositionState string string
  | GetSwapQuote string int bool js_num
  | GetMixerStatus string
  | GetMixerDeposits string
  | PostUsePool string int int
  | PostWithdrawCloseTx string TestPairConfig
  | PostClaimFeesTx string TestPairConfig
  | PostSwapTx string string string string bool
  | PostMixerDeposit string string string
  | PostConfirmDeposit string int string string
  | PostRelayerWithdraw Groth16Proof "string list" string string string string string
  | PostPreparePrivate string string shape int int string string
  | PostInitPositionTx string string string int int
  | PostAddLiquidityTx string TestPairConfig string shape

datatype json =
    JRelayerInfo RelayerInfoView
  | JAuthority AuthorityView
  | JPosition PositionStateView
  | JConfig TestPairConfig
  | JQuote SwapQuoteResult
  | JStatus int
  | JDeposits "(string \<times> int) list"
  | JTransaction string string
  | JWithdraw RelayerWithdrawResp
  | JPrepared string
  | JInit InitPositionResponse
  | JOther

datatype wallet = PhantomWallet | SolanaWallet | BackpackWallet | SolflareWallet

datatype bcall =
    Emit step_key step_status
  | Fetch http_request
  | SessionGet string
  | SessionSet string bytes
  | SignMessage wallet string
  | SignTransaction wallet web_tx
  | SendRaw web_tx string
  | LatestBlockhash
  | ConfirmTx string "string option" int
  | BalanceOf string
  | RandomBytes nat
  | RandomUuid
  | FullProve WithdrawProofInputs

text \<open>
  \<open>Response status text body\<close>: the body is \<open>None\<close> where \<open>res.json()\<close> rejects.  The answer to
  \<open>ConfirmTx\<close> carries the error of a transaction that was included and failed.
\<close>

datatype banswer =
    Response int string "json option"
  | Cached "bytes option"
  | Bytes bytes
  | Word string
  | Maybe "string option"
  | Hash string int
  | Amount int
  | Included "string option"
  | Signed web_tx
  | Proven Groth16Proof "string list"
  | Nothing

type_synonym 'a flow = "(bcall, banswer, string, 'a) async"

text \<open>What the browser computes with: web3.js, WebCrypto, Poseidon, and the wallets it was given.\<close>

record injected_provider =
  inj_signMessage :: bool
  inj_signTransaction :: bool

record web =
  web_window :: "wallet \<Rightarrow> injected_provider option"
  web_sha256 :: "bytes \<Rightarrow> bytes"
  web_fromSeed :: "bytes \<Rightarrow> string option"
  web_PublicKey :: "string \<Rightarrow> bytes option"
  web_base58 :: "bytes \<Rightarrow> string"
  web_decodeTx :: "string \<Rightarrow> string + web_tx"
  web_partialSign :: "web_tx \<Rightarrow> bytes \<Rightarrow> string + web_tx"
  web_serialize :: "web_tx \<Rightarrow> string + string"
  web_poseidon :: poseidon

section \<open>Calls\<close>

text \<open>A value of another shape than the code expects fails where the code reads it.\<close>

definition bcallE :: "bcall \<Rightarrow> (banswer \<Rightarrow> 'a option) \<Rightarrow> 'a flow" where
  "bcallE c get =
     Call c (\<lambda>r. case r of
        Inl e \<Rightarrow> throwE e
      | Inr a \<Rightarrow> (case get a of Some x \<Rightarrow> returnE x | None \<Rightarrow> throwE ''unexpected value''))"

definition emit :: "step_key \<Rightarrow> step_status \<Rightarrow> unit flow" where
  "emit k s = Call (Emit k s) (\<lambda>_. returnE ())"

definition pureE :: "string + 'a \<Rightarrow> 'a flow" where
  "pureE r = (case r of Inl e \<Rightarrow> throwE e | Inr a \<Rightarrow> returnE a)"

definition api_error :: "int \<Rightarrow> string \<Rightarrow> string" where
  "api_error status body = ''API '' @ string_of_bigint status @ '': '' @ body"

text \<open>\<open>apiGet\<close> and \<open>apiPost\<close>; \<open>res.ok\<close> is a status from 200 to 299.\<close>

definition apiCall :: "http_request \<Rightarrow> (json \<Rightarrow> 'a option) \<Rightarrow> 'a flow" where
  "apiCall req get =
     bindE (bcallE (Fetch req) (\<lambda>a. case a of Response st t b \<Rightarrow> Some (st, t, b) | _ \<Rightarrow> None)) (\<lambda>(status, body, parsed).
     if \<not> (200 \<le> status \<and> status \<le> 299) then throwE (api_error status body)
     else case parsed of
         None \<Rightarrow> throwE ''Unexpected token in JSON''
       | Some j \<Rightarrow> (case get j of Some x \<Rightarrow> returnE x | None \<Rightarrow> throwE ''unexpected value''))"

fun as_relayerInfo :: "json \<Rightarrow> RelayerInfoView option" where
  "as_relayerInfo (JRelayerInfo i) = Some i" | "as_relayerInfo _ = None"
fun as_authority :: "json \<Rightarrow> AuthorityView option" where
  "as_authority (JAuthority a) = Some a" | "as_authority _ = None"
fun as_position :: "json \<Rightarrow> PositionStateView option" where
  "as_position (JPosition p) = Some p" | "as_position _ = None"
fun as_config :: "json \<Rightarrow> TestPairConfig option" where
  "as_config (JConfig c) = Some c" | "as_config _ = None"
fun as_quote :: "json \<Rightarrow> SwapQuoteResult option" where
  "as_quote (JQuote q) = Some q" | "as_quote _ = None"
fun as_status :: "json \<Rightarrow> int option" where
  "as_status (JStatus i) = Some i" | "as_status _ = None"
fun as_deposits :: "json \<Rightarrow> (string \<times> int) list option" where
  "as_deposits (JDeposits ds) = Some ds" | "as_deposits _ = None"
fun as_transaction :: "json \<Rightarrow> (string \<times> string) option" where
  "as_transaction (JTransaction t r) = Some (t, r)" | "as_transaction _ = None"
fun as_withdraw :: "json \<Rightarrow> RelayerWithdrawResp option" where
  "as_withdraw (JWithdraw w) = Some w" | "as_withdraw _ = None"
fun as_prepared :: "json \<Rightarrow> string option" where
  "as_prepared (JPrepared p) = Some p" | "as_prepared _ = None"
fun as_init :: "json \<Rightarrow> InitPositionResponse option" where
  "as_init (JInit i) = Some i" | "as_init _ = None"
fun as_anything :: "json \<Rightarrow> unit option" where
  "as_anything j = Some ()"

text \<open>\<open>try { ... } catch (err) { onStep(error); throw err }\<close>.\<close>

definition guarded :: "step_key \<Rightarrow> 'a flow \<Rightarrow> 'a flow" where
  "guarded k p = catchE p (\<lambda>e. bindE (emit k Broken) (\<lambda>_. throwE e))"

text \<open>A whole step: announced, tried, reported.\<close>

definition stepE :: "step_key \<Rightarrow> 'a flow \<Rightarrow> 'a flow" where
  "stepE k p =
     bindE (emit k Begun) (\<lambda>_.
     bindE (guarded k p) (\<lambda>x.
     bindE (emit k Passed) (\<lambda>_. returnE x)))"

definition parse_bigint :: "string \<Rightarrow> int flow" where
  "parse_bigint t = pureE (BigInt_text t)"

fun parse_bigints :: "string list \<Rightarrow> int list flow" where
  "parse_bigints [] = returnE []"
| "parse_bigints (t # ts) =
     bindE (parse_bigint t) (\<lambda>v. bindE (parse_bigints ts) (\<lambda>vs. returnE (v # vs)))"

definition require :: "bool \<Rightarrow> string \<Rightarrow> unit flow" where
  "require b e = guardE b e"

section \<open>Wallet extensions\<close>

definition wallet_candidates :: "wallet list" where
  "wallet_candidates = [PhantomWallet, SolanaWallet, BackpackWallet, SolflareWallet]"

definition getSigningProvider :: "web \<Rightarrow> string + wallet" where
  "getSigningProvider wb =
     (case find (\<lambda>w. case web_window wb w of None \<Rightarrow> False | Some p \<Rightarrow> inj_signMessage p) wallet_candidates of
        None \<Rightarrow> Inl ''Connected wallet does not support signMessage.''
      | Some w \<Rightarrow> Inr w)"

text \<open>The first wallet present, whether or not another one could sign.\<close>

definition getInjectedSigner :: "web \<Rightarrow> string + wallet" where
  "getInjectedSigner wb =
     (case find (\<lambda>w. web_window wb w \<noteq> None) wallet_candidates of
        None \<Rightarrow> Inl ''Connected wallet does not support signTransaction.''
      | Some w \<Rightarrow>
          if inj_signTransaction (the (web_window wb w)) then Inr w
          else Inl ''Connected wallet does not support signTransaction.'')"

section \<open>The stealth vault\<close>

record DerivedStealth =
  ds_keypair :: bytes
  ds_publicKey :: string

definition newline :: char where "newline = char_of (10 :: nat)"

text \<open>The middle dot of the first line is written as its UTF-8 bytes.\<close>

definition session_title :: string where
  "session_title = ''Octora '' @ [char_of (194 :: nat), char_of (183 :: nat)] @ '' Authorize private session''"

definition buildDerivationMessageV1 :: "string \<Rightarrow> string" where
  "buildDerivationMessageV1 poolAddress =
     session_title @ [newline, newline] @ ''Version: 1'' @ [newline] @ ''Pool: '' @ poolAddress @ [newline, newline] @
     ''This signature derives the private address for your position.'' @ [newline] @
     ''It does not authorize any on-chain transaction or token transfer.''"

definition buildDerivationMessageV2 :: "string \<Rightarrow> string \<Rightarrow> string" where
  "buildDerivationMessageV2 poolAddress positionId =
     session_title @ [newline, newline] @ ''Version: 2'' @ [newline] @ ''Pool: '' @ poolAddress @ [newline] @
     ''Position: '' @ positionId @ [newline, newline] @
     ''This signature derives the private address for THIS SPECIFIC position.'' @ [newline] @
     ''Different positions get different addresses so they can't be linked.'' @ [newline] @
     ''It does not authorize any on-chain transaction or token transfer.''"

definition cache_key_v1 :: "string \<Rightarrow> string \<Rightarrow> string" where
  "cache_key_v1 main pool = ''v1:'' @ main @ '':'' @ pool"

definition cache_key_v2 :: "string \<Rightarrow> string \<Rightarrow> string \<Rightarrow> string" where
  "cache_key_v2 main pool pos = ''v2:'' @ main @ '':'' @ pool @ '':'' @ pos"

definition keypair_of :: "web \<Rightarrow> bytes \<Rightarrow> string + DerivedStealth" where
  "keypair_of wb seed =
     (case web_fromSeed wb seed of
        None \<Rightarrow> Inl ''bad seed size''
      | Some pk \<Rightarrow> Inr \<lparr>ds_keypair = seed, ds_publicKey = pk\<rparr>)"

definition derive_cached :: "web \<Rightarrow> string \<Rightarrow> string \<Rightarrow> DerivedStealth flow" where
  "derive_cached wb cacheKey message =
     bindE (bcallE (SessionGet cacheKey) (\<lambda>a. case a of Cached s \<Rightarrow> Some s | _ \<Rightarrow> None)) (\<lambda>cached.
     case cached of
       Some seed \<Rightarrow> pureE (keypair_of wb seed)
     | None \<Rightarrow>
         bindE (pureE (getSigningProvider wb)) (\<lambda>provider.
         bindE (bcallE (SignMessage provider message) (\<lambda>a. case a of Bytes b \<Rightarrow> Some b | _ \<Rightarrow> None)) (\<lambda>sig.
         let seed = web_sha256 wb sig in
         bindE (pureE (keypair_of wb seed)) (\<lambda>kp.
         bindE (bcallE (SessionSet cacheKey seed) (\<lambda>_. Some ())) (\<lambda>_. returnE kp)))))"

definition deriveStealthForPool :: "web \<Rightarrow> string \<Rightarrow> string \<Rightarrow> DerivedStealth flow" where
  "deriveStealthForPool wb main pool =
     derive_cached wb (cache_key_v1 main pool) (buildDerivationMessageV1 pool)"

definition deriveStealthForPosition :: "web \<Rightarrow> string \<Rightarrow> string \<Rightarrow> string \<Rightarrow> DerivedStealth flow" where
  "deriveStealthForPosition wb main pool positionId =
     derive_cached wb (cache_key_v2 main pool positionId) (buildDerivationMessageV2 pool positionId)"

text \<open>An empty identifier is falsy.\<close>

definition deriveForLifecycle :: "web \<Rightarrow> string \<Rightarrow> string \<Rightarrow> string option \<Rightarrow> DerivedStealth flow" where
  "deriveForLifecycle wb main pool positionId =
     (if missing positionId then deriveStealthForPool wb main pool
      else deriveStealthForPosition wb main pool (the positionId))"

section \<open>Sending\<close>

definition waitForConfirmation :: "string \<Rightarrow> string option \<Rightarrow> unit flow" where
  "waitForConfirmation signature blockhash =
     bindE (bcallE LatestBlockhash (\<lambda>a. case a of Hash b h \<Rightarrow> Some h | _ \<Rightarrow> None)) (\<lambda>lastValidBlockHeight.
     bindE (bcallE (ConfirmTx signature blockhash lastValidBlockHeight) (\<lambda>a. case a of Included e \<Rightarrow> Some e | _ \<Rightarrow> None)) (\<lambda>_.
     returnE ()))"

definition sendRaw :: "web \<Rightarrow> web_tx \<Rightarrow> string flow" where
  "sendRaw wb tx =
     bindE (pureE (web_serialize wb tx)) (\<lambda>wire.
     bcallE (SendRaw tx wire) (\<lambda>a. case a of Word s \<Rightarrow> Some s | _ \<Rightarrow> None))"

text \<open>Decode what the API built, sign it with the stealth key pair, send it, wait.\<close>

definition signAndSend :: "web \<Rightarrow> DerivedStealth \<Rightarrow> string \<Rightarrow> string flow" where
  "signAndSend wb stealth base64 =
     bindE (pureE (web_decodeTx wb base64)) (\<lambda>tx.
     bindE (pureE (web_partialSign wb tx (ds_keypair stealth))) (\<lambda>signed.
     bindE (sendRaw wb signed) (\<lambda>signature.
     bindE (waitForConfirmation signature (wt_recentBlockhash signed)) (\<lambda>_.
     returnE signature))))"

definition mainSignAndSend :: "web \<Rightarrow> string \<Rightarrow> string flow" where
  "mainSignAndSend wb base64 =
     bindE (pureE (web_decodeTx wb base64)) (\<lambda>tx.
     bindE (pureE (getInjectedSigner wb)) (\<lambda>signer.
     bindE (bcallE (SignTransaction signer tx) (\<lambda>a. case a of Signed t \<Rightarrow> Some t | _ \<Rightarrow> None)) (\<lambda>signed.
     bindE (sendRaw wb signed) (\<lambda>signature.
     bindE (waitForConfirmation signature (wt_recentBlockhash signed)) (\<lambda>_.
     returnE signature)))))"

definition balance_of :: "web \<Rightarrow> string \<Rightarrow> int flow" where
  "balance_of wb key =
     bindE (require (web_PublicKey wb key \<noteq> None) ''Invalid public key input'') (\<lambda>_.
     bcallE (BalanceOf key) (\<lambda>a. case a of Amount n \<Rightarrow> Some n | _ \<Rightarrow> None))"

definition NATIVE_MINT_TEXT :: string where
  "NATIVE_MINT_TEXT = ''So11111111111111111111111111111111111111112''"

definition STEALTH_RESERVE_LAMPORTS :: int where "STEALTH_RESERVE_LAMPORTS = 5000000"
definition DEFAULT_SLIPPAGE_BPS :: js_num where "DEFAULT_SLIPPAGE_BPS = Fin 500"

section \<open>Through the mixer\<close>

text \<open>The pools of a relayer, largest denomination first.\<close>

definition denominations_desc :: "RelayerInfoView \<Rightarrow> int list flow" where
  "denominations_desc info =
     bindE (parse_bigints (case rv_pools info of None \<Rightarrow> [rv_denominationLamports info] | Some ps \<Rightarrow> ps)) (\<lambda>ds.
     returnE (rev (sort ds)))"

definition freshCommitment :: "web \<Rightarrow> Commitment flow" where
  "freshCommitment wb =
     bindE (bcallE (RandomBytes 31) (\<lambda>a. case a of Bytes b \<Rightarrow> Some b | _ \<Rightarrow> None)) (\<lambda>r1.
     bindE (bcallE (RandomBytes 31) (\<lambda>a. case a of Bytes b \<Rightarrow> Some b | _ \<Rightarrow> None)) (\<lambda>r2.
     returnE (web_generateCommitment (web_poseidon wb) r1 r2)))"

definition depositIntoMixer ::
  "web \<Rightarrow> string \<Rightarrow> (string \<Rightarrow> string flow) \<Rightarrow> int \<Rightarrow> (Commitment \<times> string \<times> int) flow" where
  "depositIntoMixer wb depositor send denomination =
     bindE (freshCommitment wb) (\<lambda>commitmentBundle.
     let denomParam = string_of_bigint denomination in
     bindE (apiCall (GetMixerStatus denomParam) as_status) (\<lambda>leafIndex.
     bindE (apiCall (PostMixerDeposit depositor (string_of_bigint (cm_commitment commitmentBundle)) denomParam) as_transaction) (\<lambda>(depositB64, _).
     bindE (send depositB64) (\<lambda>signature.
     returnE (commitmentBundle, signature, leafIndex)))))"

text \<open>The confirmation warms a cache of the API: its failure is reported and forgotten.\<close>

definition confirmDepositStep :: "Commitment \<Rightarrow> int \<Rightarrow> string \<Rightarrow> int \<Rightarrow> unit flow" where
  "confirmDepositStep c leafIndex txSignature denomination =
     bindE (emit ConfirmDepositStep Begun) (\<lambda>_.
     bindE (catchE
       (apiCall (PostConfirmDeposit (string_of_bigint (cm_commitment c)) leafIndex txSignature (string_of_bigint denomination)) as_anything)
       (\<lambda>_. emit ConfirmDepositStep Broken)) (\<lambda>_.
     emit ConfirmDepositStep Passed))"

definition buildTree :: "web \<Rightarrow> 't merkle_lib \<Rightarrow> Commitment \<Rightarrow> int \<Rightarrow> 't flow" where
  "buildTree wb ml c denomination =
     bindE (apiCall (GetMixerDeposits (string_of_bigint denomination)) as_deposits) (\<lambda>list.
     bindE (parse_bigints (map fst (sort_key snd list))) (\<lambda>leaves.
     bindE (pureE (createMixerMerkleTree ml (web_poseidon wb) None leaves)) (\<lambda>t.
     bindE (require (tree_indexOf ml t (cm_commitment c) \<noteq> - 1) ''Commitment not found in tree - server cache may be stale.'') (\<lambda>_.
     returnE t))))"

definition publicKeyE :: "web \<Rightarrow> string \<Rightarrow> bytes flow" where
  "publicKeyE wb t = pureE (case web_PublicKey wb t of None \<Rightarrow> Inl ''Invalid public key input'' | Some k \<Rightarrow> Inr k)"

definition proveWithdrawal ::
  "web \<Rightarrow> 't merkle_lib \<Rightarrow> 't \<Rightarrow> Commitment \<Rightarrow> string \<Rightarrow> string \<Rightarrow> int \<Rightarrow> (Groth16Proof \<times> string list) flow" where
  "proveWithdrawal wb ml t c recipient rel fee =
     bindE (publicKeyE wb recipient) (\<lambda>recipientPubkey.
     bindE (publicKeyE wb rel) (\<lambda>relayerPubkey.
     let recipientField = web_pubkeyToFieldHash (web_poseidon wb) recipientPubkey;
         relayerField = web_pubkeyToFieldHash (web_poseidon wb) relayerPubkey;
         localLeafIndex = tree_indexOf ml t (cm_commitment c)
     in bindE (pureE (buildWithdrawCircuitInput ml t localLeafIndex c recipientField relayerField fee)) (\<lambda>circuitInput.
        bcallE (FullProve circuitInput) (\<lambda>a. case a of Proven p s \<Rightarrow> Some (p, s) | _ \<Rightarrow> None))))"

definition withdrawThroughRelayer ::
  "'t merkle_lib \<Rightarrow> 't \<Rightarrow> Commitment \<Rightarrow> Groth16Proof \<times> string list \<Rightarrow> string \<Rightarrow> int \<Rightarrow> int \<Rightarrow> (string \<times> string) flow" where
  "withdrawThroughRelayer ml t c ps recipient fee denomination =
     bindE (pureE (tree_root ml t)) (\<lambda>rt.
     bindE (apiCall (PostRelayerWithdraw (fst ps) (snd ps) (string_of_bigint rt) (string_of_bigint (cm_nullifierHash c))
        recipient (string_of_bigint fee) (string_of_bigint denomination)) as_withdraw) (\<lambda>result.
     if \<not> wy_success result \<or> missing (wy_txSignature result)
     then throwE (case wy_error result of None \<Rightarrow> ''relayer.withdraw failed'' | Some e \<Rightarrow> e)
     else returnE (the (wy_txSignature result), wy_amountLamports result)))"

record mixer_trip =
  mt_depositSignature :: string
  mt_withdrawSignature :: string
  mt_fundedLamports :: string

text \<open>Deposit, confirm, rebuild the tree, prove, withdraw.\<close>

definition mixerTrip ::
  "web \<Rightarrow> 't merkle_lib \<Rightarrow> string \<Rightarrow> (string \<Rightarrow> string flow) \<Rightarrow> string \<Rightarrow> RelayerInfoView \<Rightarrow> int \<Rightarrow> int \<Rightarrow> mixer_trip flow" where
  "mixerTrip wb ml depositor send recipient info fee denomination =
     bindE (stepE MixerDepositStep (depositIntoMixer wb depositor send denomination)) (\<lambda>(c, depositSig, leafIndex).
     bindE (confirmDepositStep c leafIndex depositSig denomination) (\<lambda>_.
     bindE (stepE BuildTreeStep (buildTree wb ml c denomination)) (\<lambda>t.
     bindE (stepE ProveStep (proveWithdrawal wb ml t c recipient (rv_relayerPubkey info) fee)) (\<lambda>ps.
     bindE (stepE RelayerWithdrawStep (withdrawThroughRelayer ml t c ps recipient fee denomination)) (\<lambda>(relayerSig, funded).
     returnE \<lparr>mt_depositSignature = depositSig, mt_withdrawSignature = relayerSig, mt_fundedLamports = funded\<rparr>)))))"

section \<open>Consolidating to SOL\<close>

text \<open>Swap what is not SOL on the pool of the position, at the minimum of a fresh quote.\<close>

definition swapToSol :: "web \<Rightarrow> DerivedStealth \<Rightarrow> string \<Rightarrow> js_num \<Rightarrow> bool \<Rightarrow> int \<Rightarrow> string option flow" where
  "swapToSol wb stealth pool slippageBps swapForY amountIn =
     (if amountIn > 0 then
        bindE (apiCall (GetSwapQuote pool amountIn swapForY slippageBps) as_quote) (\<lambda>quote.
        bindE (parse_bigint (sq_minOut quote)) (\<lambda>minOut.
        bindE (apiCall (PostSwapTx (ds_publicKey stealth) pool (string_of_bigint amountIn) (string_of_bigint minOut) swapForY) as_transaction) (\<lambda>(b64, _).
        bindE (signAndSend wb stealth b64) (\<lambda>sig. returnE (Some sig)))))
      else returnE None)"

definition isPoolAuthorityMissingError :: "string \<Rightarrow> bool" where
  "isPoolAuthorityMissingError err \<longleftrightarrow> has_substring ''API 404'' err \<or> has_substring ''PoolAuthority not initialised'' err"

end
