(* ===== verification/BrowserExit.thy ===== *)
theory BrowserExit imports BrowserFlow begin

text \<open>
  privateLifecycle.ts and privateExit.ts: claim and close with the stealth key alone, the sweep of a
  stealth wallet to the main wallet, the private exit through the mixer, and its estimate.
\<close>

section \<open>privateLifecycle.ts\<close>

record ClaimFeesInput =
  cf_mainWalletAddress :: string
  cf_poolAddress :: string
  cf_lowerBinId :: "int option"
  cf_upperBinId :: "int option"
  cf_positionId :: "string option"

definition loadConfig :: "ClaimFeesInput \<Rightarrow> string \<Rightarrow> TestPairConfig flow" where
  "loadConfig inp stealthPubkey =
     (case (cf_lowerBinId inp, cf_upperBinId inp) of
        (Some lower, Some upper) \<Rightarrow>
          apiCall (PostUsePool (cf_poolAddress inp) (upper - lower + 1) lower) as_config
      | _ \<Rightarrow>
          bindE (apiCall (GetPoolAuthority stealthPubkey (cf_poolAddress inp)) as_authority) (\<lambda>auth.
          case av_range auth of
            None \<Rightarrow> throwE ''PoolAuthority found but its bin range could not be decoded.''
          | Some r \<Rightarrow>
              apiCall (PostUsePool (cf_poolAddress inp) (tc_upperBinId r - tc_lowerBinId r + 1) (tc_lowerBinId r)) as_config))"

definition deriveAndConfirm ::
  "web \<Rightarrow> ClaimFeesInput \<Rightarrow> (string \<Rightarrow> TestPairConfig \<Rightarrow> http_request) \<Rightarrow> (string \<times> string) flow" where
  "deriveAndConfirm wb inp buildPath =
     bindE (deriveForLifecycle wb (cf_mainWalletAddress inp) (cf_poolAddress inp) (cf_positionId inp)) (\<lambda>stealth.
     bindE (loadConfig inp (ds_publicKey stealth)) (\<lambda>config.
     bindE (apiCall (buildPath (ds_publicKey stealth) config) as_transaction) (\<lambda>(b64, exitRecipient).
     bindE (signAndSend wb stealth b64) (\<lambda>signature.
     returnE (signature, exitRecipient)))))"

definition runClaimFees :: "web \<Rightarrow> ClaimFeesInput \<Rightarrow> (string \<times> string) flow" where
  "runClaimFees wb inp = deriveAndConfirm wb inp PostClaimFeesTx"

definition runWithdrawClose :: "web \<Rightarrow> ClaimFeesInput \<Rightarrow> (string \<times> string) flow" where
  "runWithdrawClose wb inp = deriveAndConfirm wb inp PostWithdrawCloseTx"

record SweepStealthResult =
  sr_signature :: "string option"
  sr_recipient :: string
  sr_sweptLamports :: string
  sr_remainingLamports :: string
  sr_stealthPubkey :: string

definition STEALTH_SWEEP_FEE_LAMPORTS :: int where "STEALTH_SWEEP_FEE_LAMPORTS = 5000"

definition executeStealthSweep :: "web \<Rightarrow> DerivedStealth \<Rightarrow> string \<Rightarrow> SweepStealthResult flow" where
  "executeStealthSweep wb stealth mainWalletAddress =
     bindE (publicKeyE wb (ds_publicKey stealth)) (\<lambda>stealthPubkey.
     bindE (publicKeyE wb mainWalletAddress) (\<lambda>recipient.
     bindE (bcallE (BalanceOf (ds_publicKey stealth)) (\<lambda>a. case a of Amount n \<Rightarrow> Some n | _ \<Rightarrow> None)) (\<lambda>balance.
     if balance \<le> STEALTH_SWEEP_FEE_LAMPORTS then
       returnE \<lparr>sr_signature = None, sr_recipient = web_base58 wb recipient, sr_sweptLamports = ''0'',
         sr_remainingLamports = string_of_bigint balance, sr_stealthPubkey = ds_publicKey stealth\<rparr>
     else
       let transferLamports = balance - STEALTH_SWEEP_FEE_LAMPORTS in
       bindE (bcallE LatestBlockhash (\<lambda>a. case a of Hash b h \<Rightarrow> Some (b, h) | _ \<Rightarrow> None)) (\<lambda>(blockhash, lastValidBlockHeight).
       let tx = \<lparr>wt_message = TransferSol (ds_publicKey stealth) mainWalletAddress (fl64 (of_int transferLamports)),
                 wt_recentBlockhash = Some blockhash, wt_signedBy = []\<rparr> in
       bindE (pureE (web_partialSign wb tx (ds_keypair stealth))) (\<lambda>signed.
       bindE (sendRaw wb signed) (\<lambda>signature.
       bindE (bcallE (ConfirmTx signature (Some blockhash) lastValidBlockHeight) (\<lambda>a. case a of Included e \<Rightarrow> Some e | _ \<Rightarrow> None)) (\<lambda>_.
       returnE \<lparr>sr_signature = Some signature, sr_recipient = web_base58 wb recipient,
         sr_sweptLamports = string_of_bigint transferLamports,
         sr_remainingLamports = string_of_bigint STEALTH_SWEEP_FEE_LAMPORTS, sr_stealthPubkey = ds_publicKey stealth\<rparr>)))))))"

definition runSweepStealthToMain :: "web \<Rightarrow> string \<Rightarrow> string \<Rightarrow> string option \<Rightarrow> SweepStealthResult flow" where
  "runSweepStealthToMain wb main pool positionId =
     bindE (deriveForLifecycle wb main pool positionId) (\<lambda>stealth. executeStealthSweep wb stealth main)"

section \<open>privateExit.ts\<close>

datatype exit_mode = Mixed | Swept

record PrivateExitInput =
  xi_mainWalletAddress :: string
  xi_poolAddress :: string
  xi_positionId :: "string option"
  xi_slippageBps :: "js_num option"
  xi_allowDustSweep :: bool

record PrivateExitResult =
  xr_mode :: exit_mode
  xr_closeSignature :: "string option"
  xr_swapSignature :: "string option"
  xr_mixerDepositSignature :: "string option"
  xr_relayerWithdrawSignature :: "string option"
  xr_sweepSignature :: "string option"
  xr_fundedLamports :: string
  xr_residueLamports :: string
  xr_selectedDenominationLamports :: "string option"

definition slippage_or_default :: "js_num option \<Rightarrow> js_num" where
  "slippage_or_default s = (case s of None \<Rightarrow> DEFAULT_SLIPPAGE_BPS | Some b \<Rightarrow> b)"

definition exit_derive :: "web \<Rightarrow> PrivateExitInput \<Rightarrow> DerivedStealth flow" where
  "exit_derive wb inp =
     stepE DeriveStep
       (if missing (xi_positionId inp) then deriveStealthForPool wb (xi_mainWalletAddress inp) (xi_poolAddress inp)
        else deriveStealthForPosition wb (xi_mainWalletAddress inp) (xi_poolAddress inp) (the (xi_positionId inp)))"

text \<open>What the relayer advertises is parsed between the request and the report, outside any handler.\<close>

definition exit_relayerInfo :: "(RelayerInfoView \<times> int \<times> int list) flow" where
  "exit_relayerInfo =
     bindE (emit RelayerInfoStep Begun) (\<lambda>_.
     bindE (guarded RelayerInfoStep (apiCall GetRelayerInfo as_relayerInfo)) (\<lambda>relayerInfo.
     bindE (parse_bigint (rv_feeLamports relayerInfo)) (\<lambda>fee.
     bindE (denominations_desc relayerInfo) (\<lambda>availableDenoms.
     bindE (guarded RelayerInfoStep (require (availableDenoms \<noteq> []) ''No mixer pools advertised by /relayer/info'')) (\<lambda>_.
     bindE (emit RelayerInfoStep Passed) (\<lambda>_.
     returnE (relayerInfo, fee, availableDenoms)))))))"

text \<open>The live position with its configuration, or \<open>None\<close> when a prior run has closed it.\<close>

definition poolAuthorityIfAny :: "string \<Rightarrow> string \<Rightarrow> AuthorityView option flow" where
  "poolAuthorityIfAny stealth pool =
     catchE (bindE (apiCall (GetPoolAuthority stealth pool) as_authority) (\<lambda>a. returnE (Some a)))
       (\<lambda>err. if isPoolAuthorityMissingError err then returnE None else throwE err)"

definition exit_positionState :: "DerivedStealth \<Rightarrow> string \<Rightarrow> (PositionStateView \<times> TestPairConfig) option flow" where
  "exit_positionState stealth pool =
     stepE PositionStateStep
       (bindE (poolAuthorityIfAny (ds_publicKey stealth) pool) (\<lambda>auth.
        case auth of
          None \<Rightarrow> returnE None
        | Some authority \<Rightarrow>
            bindE (apiCall (GetPositionState pool (av_position authority)) as_position) (\<lambda>position.
            bindE (require (av_exitRecipient authority = ds_publicKey stealth)
                 (''exit_recipient is '' @ av_exitRecipient authority)) (\<lambda>_.
            bindE (apiCall (PostUsePool pool (sv_upperBinId position - sv_lowerBinId position + 1) (sv_lowerBinId position)) as_config) (\<lambda>config.
            returnE (Some (position, config)))))))"

definition exit_close :: "web \<Rightarrow> DerivedStealth \<Rightarrow> (PositionStateView \<times> TestPairConfig) option \<Rightarrow> string option flow" where
  "exit_close wb stealth live =
     (case live of
        None \<Rightarrow> bindE (emit CloseStep Passed) (\<lambda>_. bindE (emit SwapStep Passed) (\<lambda>_. returnE None))
      | Some (position, config) \<Rightarrow>
          stepE CloseStep
            (bindE (apiCall (PostWithdrawCloseTx (ds_publicKey stealth) config) as_transaction) (\<lambda>(b64, _).
             bindE (signAndSend wb stealth b64) (\<lambda>sig. returnE (Some sig)))))"

definition exit_swap ::
  "web \<Rightarrow> DerivedStealth \<Rightarrow> string \<Rightarrow> js_num \<Rightarrow> (PositionStateView \<times> TestPairConfig) option \<Rightarrow> string option flow" where
  "exit_swap wb stealth pool slippageBps live =
     (case live of
        None \<Rightarrow> returnE None
      | Some (position, config) \<Rightarrow>
          stepE SwapStep
            (let xIsSol = sv_tokenXMint position = NATIVE_MINT_TEXT;
                 yIsSol = sv_tokenYMint position = NATIVE_MINT_TEXT
             in bindE (require (xIsSol \<or> yIsSol) ''Position is not SOL-paired.'') (\<lambda>_.
                bindE (parse_bigint (if xIsSol then sv_totalYLamports position else sv_totalXLamports position)) (\<lambda>nonSolBalance.
                bindE (parse_bigint (if xIsSol then sv_feeYLamports position else sv_feeXLamports position)) (\<lambda>nonSolFee.
                swapToSol wb stealth pool slippageBps (\<not> xIsSol) (nonSolBalance + nonSolFee))))))"

text \<open>
  The largest pool that fits and what stays behind, or \<open>None\<close> for the dust sweep.  A pool of zero
  lamports is falsy.
\<close>

definition exit_pick :: "web \<Rightarrow> DerivedStealth \<Rightarrow> int list \<Rightarrow> bool \<Rightarrow> (int \<times> int) option flow" where
  "exit_pick wb stealth availableDenoms allowDustSweep =
     stepE PickStep
       (bindE (balance_of wb (ds_publicKey stealth)) (\<lambda>stealthBalance.
        let available = stealthBalance - STEALTH_RESERVE_LAMPORTS in
        bindE (require (0 < available) ''Stealth balance below reserve. Close + swap may have failed.'') (\<lambda>_.
        case find (\<lambda>d. d \<le> available) availableDenoms of
          None \<Rightarrow> bindE (require allowDustSweep ''below smallest mixer denomination'') (\<lambda>_. returnE None)
        | Some d \<Rightarrow>
            if d = 0 then bindE (require allowDustSweep ''below smallest mixer denomination'') (\<lambda>_. returnE None)
            else returnE (Some (d, stealthBalance - d)))))"

definition exit_dustSweep ::
  "web \<Rightarrow> DerivedStealth \<Rightarrow> PrivateExitInput \<Rightarrow> string option \<Rightarrow> string option \<Rightarrow> PrivateExitResult flow" where
  "exit_dustSweep wb stealth inp closeSig swapSig =
     bindE (stepE DustSweepStep (executeStealthSweep wb stealth (xi_mainWalletAddress inp))) (\<lambda>sweepResult.
     bindE (emit DoneStep Passed) (\<lambda>_.
     returnE \<lparr>xr_mode = Swept, xr_closeSignature = closeSig, xr_swapSignature = swapSig, xr_mixerDepositSignature = None,
       xr_relayerWithdrawSignature = None, xr_sweepSignature = sr_signature sweepResult,
       xr_fundedLamports = sr_sweptLamports sweepResult, xr_residueLamports = sr_remainingLamports sweepResult,
       xr_selectedDenominationLamports = None\<rparr>))"

definition exit_mix ::
  "web \<Rightarrow> 't merkle_lib \<Rightarrow> DerivedStealth \<Rightarrow> PrivateExitInput \<Rightarrow> RelayerInfoView \<Rightarrow> int \<Rightarrow> string option \<Rightarrow> string option
     \<Rightarrow> int \<Rightarrow> int \<Rightarrow> PrivateExitResult flow" where
  "exit_mix wb ml stealth inp relayerInfo fee closeSig swapSig denomination residue =
     bindE (mixerTrip wb ml (ds_publicKey stealth) (signAndSend wb stealth) (xi_mainWalletAddress inp) relayerInfo fee denomination) (\<lambda>trip.
     bindE (emit DoneStep Passed) (\<lambda>_.
     returnE \<lparr>xr_mode = Mixed, xr_closeSignature = closeSig, xr_swapSignature = swapSig,
       xr_mixerDepositSignature = Some (mt_depositSignature trip), xr_relayerWithdrawSignature = Some (mt_withdrawSignature trip),
       xr_sweepSignature = None, xr_fundedLamports = mt_fundedLamports trip, xr_residueLamports = string_of_bigint residue,
       xr_selectedDenominationLamports = Some (string_of_bigint denomination)\<rparr>))"

text \<open>What follows once the position is read: close, consolidate, choose, and pay out.\<close>

definition exit_finish ::
  "web \<Rightarrow> 't merkle_lib \<Rightarrow> PrivateExitInput \<Rightarrow> DerivedStealth \<Rightarrow> RelayerInfoView \<Rightarrow> int \<Rightarrow> int list
     \<Rightarrow> (PositionStateView \<times> TestPairConfig) option \<Rightarrow> PrivateExitResult flow" where
  "exit_finish wb ml inp stealth relayerInfo fee availableDenoms live =
     bindE (exit_close wb stealth live) (\<lambda>closeSig.
     bindE (exit_swap wb stealth (xi_poolAddress inp) (slippage_or_default (xi_slippageBps inp)) live) (\<lambda>swapSig.
     bindE (exit_pick wb stealth availableDenoms (xi_allowDustSweep inp)) (\<lambda>picked.
     case picked of
       None \<Rightarrow> exit_dustSweep wb stealth inp closeSig swapSig
     | Some (denomination, residue) \<Rightarrow>
         exit_mix wb ml stealth inp relayerInfo fee closeSig swapSig denomination residue)))"

definition runPrivateExit :: "web \<Rightarrow> 't merkle_lib \<Rightarrow> PrivateExitInput \<Rightarrow> PrivateExitResult flow" where
  "runPrivateExit wb ml inp =
     bindE (exit_derive wb inp) (\<lambda>stealth.
     bindE exit_relayerInfo (\<lambda>(relayerInfo, fee, availableDenoms).
     bindE (exit_positionState stealth (xi_poolAddress inp)) (\<lambda>live.
     exit_finish wb ml inp stealth relayerInfo fee availableDenoms live)))"

section \<open>The estimate\<close>

record ExitPreflightEstimate =
  xe_estimatedRecoverableLamports :: string
  xe_smallestDenominationLamports :: string
  xe_willBeDust :: bool
  xe_stealthPubkey :: string
  xe_positionAlreadyClosed :: bool

text \<open>\<open>smallestDenom.toString()\<close> of an empty list throws.\<close>

definition estimate_of :: "int list \<Rightarrow> string \<Rightarrow> int \<Rightarrow> bool \<Rightarrow> bool \<Rightarrow> ExitPreflightEstimate flow" where
  "estimate_of availableDenoms stealth estimated dust alreadyClosed =
     bindE (require (availableDenoms \<noteq> []) ''Cannot read properties of undefined'') (\<lambda>_.
     returnE \<lparr>xe_estimatedRecoverableLamports = string_of_bigint estimated,
       xe_smallestDenominationLamports = string_of_bigint (last availableDenoms),
       xe_willBeDust = dust, xe_stealthPubkey = stealth, xe_positionAlreadyClosed = alreadyClosed\<rparr>)"

definition less_reserve :: "int \<Rightarrow> int" where
  "less_reserve n = (if STEALTH_RESERVE_LAMPORTS < n then n - STEALTH_RESERVE_LAMPORTS else 0)"

text \<open>The minimum of a quote, or zero when there is none.\<close>

definition quotedOut :: "string \<Rightarrow> js_num \<Rightarrow> bool \<Rightarrow> int \<Rightarrow> int flow" where
  "quotedOut pool slippageBps swapForY amountIn =
     (if 0 < amountIn then
        catchE (bindE (apiCall (GetSwapQuote pool amountIn swapForY slippageBps) as_quote) (\<lambda>quote. parse_bigint (sq_minOut quote)))
          (\<lambda>_. returnE 0)
      else returnE 0)"

definition sum_bigints :: "string \<Rightarrow> string \<Rightarrow> int flow" where
  "sum_bigints a b = bindE (parse_bigint a) (\<lambda>m. bindE (parse_bigint b) (\<lambda>n. returnE (m + n)))"

definition sol_on_hand :: "PositionStateView \<Rightarrow> int flow" where
  "sol_on_hand position =
     (let xIsSol = sv_tokenXMint position = NATIVE_MINT_TEXT in
      sum_bigints (if xIsSol then sv_totalXLamports position else sv_totalYLamports position)
        (if xIsSol then sv_feeXLamports position else sv_feeYLamports position))"

definition non_sol_on_hand :: "PositionStateView \<Rightarrow> int flow" where
  "non_sol_on_hand position =
     (let xIsSol = sv_tokenXMint position = NATIVE_MINT_TEXT in
      sum_bigints (if xIsSol then sv_totalYLamports position else sv_totalXLamports position)
        (if xIsSol then sv_feeYLamports position else sv_feeXLamports position))"

definition preflightEstimateExit :: "web \<Rightarrow> string \<Rightarrow> string \<Rightarrow> js_num option \<Rightarrow> ExitPreflightEstimate flow" where
  "preflightEstimateExit wb stealthPubkey pool slippageBps =
     bindE (apiCall GetRelayerInfo as_relayerInfo) (\<lambda>relayerInfo.
     bindE (denominations_desc relayerInfo) (\<lambda>availableDenoms.
     let smallestDenom = last availableDenoms in
     bindE (poolAuthorityIfAny stealthPubkey pool) (\<lambda>auth.
     case auth of
       None \<Rightarrow>
         bindE (balance_of wb stealthPubkey) (\<lambda>balance.
         estimate_of availableDenoms stealthPubkey (less_reserve balance) (less_reserve balance < smallestDenom) True)
     | Some authority \<Rightarrow>
         bindE (apiCall (GetPositionState pool (av_position authority)) as_position) (\<lambda>position.
         let xIsSol = sv_tokenXMint position = NATIVE_MINT_TEXT;
             yIsSol = sv_tokenYMint position = NATIVE_MINT_TEXT
         in if \<not> xIsSol \<and> \<not> yIsSol then estimate_of availableDenoms stealthPubkey 0 False False
            else
              bindE (sol_on_hand position) (\<lambda>solOnHand.
              bindE (non_sol_on_hand position) (\<lambda>nonSolOnHand.
              bindE (quotedOut pool (slippage_or_default slippageBps) (\<not> xIsSol) nonSolOnHand) (\<lambda>swapOut.
              let estimated = less_reserve (solOnHand + swapOut) in
              estimate_of availableDenoms stealthPubkey estimated (estimated < smallestDenom) False)))))))"

end
