(* ===== verification/BrowserClaim.thy ===== *)
theory BrowserClaim imports BrowserExit begin

text \<open>
  privateClaim.ts, privateDeposit.ts and privateRebalance.ts: the fees of an open position through
  the mixer, a new position paid through the mixer, and the move of a position to another range.
\<close>

section \<open>privateClaim.ts\<close>

record PrivateClaimInput =
  ci_mainWalletAddress :: string
  ci_poolAddress :: string
  ci_positionId :: "string option"
  ci_slippageBps :: "js_num option"

record PrivateClaimResult =
  cr_claimSignature :: string
  cr_swapSignature :: "string option"
  cr_mixerDepositSignature :: string
  cr_relayerWithdrawSignature :: string
  cr_fundedLamports :: string
  cr_residueLamports :: string
  cr_selectedDenominationLamports :: string

definition claim_derive :: "web \<Rightarrow> PrivateClaimInput \<Rightarrow> DerivedStealth flow" where
  "claim_derive wb inp =
     stepE DeriveStep
       (if missing (ci_positionId inp) then deriveStealthForPool wb (ci_mainWalletAddress inp) (ci_poolAddress inp)
        else deriveStealthForPosition wb (ci_mainWalletAddress inp) (ci_poolAddress inp) (the (ci_positionId inp)))"

definition claim_relayerInfo :: "(RelayerInfoView \<times> int \<times> int list) flow" where
  "claim_relayerInfo =
     bindE (emit RelayerInfoStep Begun) (\<lambda>_.
     bindE (guarded RelayerInfoStep (apiCall GetRelayerInfo as_relayerInfo)) (\<lambda>relayerInfo.
     bindE (parse_bigint (rv_feeLamports relayerInfo)) (\<lambda>fee.
     bindE (denominations_desc relayerInfo) (\<lambda>availableDenoms.
     bindE (guarded RelayerInfoStep (require (availableDenoms \<noteq> []) ''No mixer pools advertised by /relayer/info'')) (\<lambda>_.
     bindE (emit RelayerInfoStep Passed) (\<lambda>_.
     returnE (relayerInfo, fee, availableDenoms)))))))"

definition claim_positionState :: "DerivedStealth \<Rightarrow> string \<Rightarrow> (PositionStateView \<times> TestPairConfig) flow" where
  "claim_positionState stealth pool =
     stepE PositionStateStep
       (bindE (apiCall (GetPoolAuthority (ds_publicKey stealth) pool) as_authority) (\<lambda>authority.
        bindE (apiCall (GetPositionState pool (av_position authority)) as_position) (\<lambda>position.
        bindE (require (av_exitRecipient authority = ds_publicKey stealth)
             (''exit_recipient is '' @ av_exitRecipient authority)) (\<lambda>_.
        bindE (apiCall (PostUsePool pool (sv_upperBinId position - sv_lowerBinId position + 1) (sv_lowerBinId position)) as_config) (\<lambda>config.
        returnE (position, config))))))"

definition claim_claim :: "web \<Rightarrow> DerivedStealth \<Rightarrow> TestPairConfig \<Rightarrow> string flow" where
  "claim_claim wb stealth config =
     stepE ClaimStep
       (bindE (apiCall (PostClaimFeesTx (ds_publicKey stealth) config) as_transaction) (\<lambda>(b64, _).
        signAndSend wb stealth b64))"

definition claim_swap :: "web \<Rightarrow> DerivedStealth \<Rightarrow> string \<Rightarrow> js_num \<Rightarrow> PositionStateView \<Rightarrow> string option flow" where
  "claim_swap wb stealth pool slippageBps position =
     stepE SwapStep
       (let xIsSol = sv_tokenXMint position = NATIVE_MINT_TEXT;
            yIsSol = sv_tokenYMint position = NATIVE_MINT_TEXT
        in bindE (require (xIsSol \<or> yIsSol) ''Position is not SOL-paired. MVP only supports SOL-paired pools.'') (\<lambda>_.
           bindE (parse_bigint (if xIsSol then sv_feeYLamports position else sv_feeXLamports position)) (\<lambda>nonSolFee.
           swapToSol wb stealth pool slippageBps (\<not> xIsSol) nonSolFee)))"

definition claim_threshold :: "web \<Rightarrow> DerivedStealth \<Rightarrow> int \<Rightarrow> int flow" where
  "claim_threshold wb stealth smallestDenom =
     stepE ThresholdStep
       (bindE (balance_of wb (ds_publicKey stealth)) (\<lambda>stealthBalance.
        bindE (require (smallestDenom \<le> stealthBalance - STEALTH_RESERVE_LAMPORTS) ''Claim too small'') (\<lambda>_.
        returnE stealthBalance)))"

text \<open>No pool that fits would leave \<open>undefined\<close>, and subtracting it throws.\<close>

definition claim_pick :: "int list \<Rightarrow> int \<Rightarrow> (int \<times> int) flow" where
  "claim_pick availableDenoms stealthBalance =
     stepE PickStep
       (case find (\<lambda>d. d \<le> stealthBalance - STEALTH_RESERVE_LAMPORTS) availableDenoms of
          None \<Rightarrow> throwE ''Cannot mix BigInt and other types''
        | Some d \<Rightarrow> returnE (d, stealthBalance - d))"

definition claim_mix ::
  "web \<Rightarrow> 't merkle_lib \<Rightarrow> DerivedStealth \<Rightarrow> PrivateClaimInput \<Rightarrow> RelayerInfoView \<Rightarrow> int \<Rightarrow> int \<Rightarrow> mixer_trip flow" where
  "claim_mix wb ml stealth inp relayerInfo fee denomination =
     mixerTrip wb ml (ds_publicKey stealth) (signAndSend wb stealth) (ci_mainWalletAddress inp) relayerInfo fee denomination"

definition runPrivateClaim :: "web \<Rightarrow> 't merkle_lib \<Rightarrow> PrivateClaimInput \<Rightarrow> PrivateClaimResult flow" where
  "runPrivateClaim wb ml inp =
     bindE (claim_derive wb inp) (\<lambda>stealth.
     bindE claim_relayerInfo (\<lambda>(relayerInfo, fee, availableDenoms).
     bindE (claim_positionState stealth (ci_poolAddress inp)) (\<lambda>(position, config).
     bindE (claim_claim wb stealth config) (\<lambda>claimSig.
     bindE (claim_swap wb stealth (ci_poolAddress inp) (slippage_or_default (ci_slippageBps inp)) position) (\<lambda>swapSig.
     bindE (claim_threshold wb stealth (last availableDenoms)) (\<lambda>stealthBalance.
     bindE (claim_pick availableDenoms stealthBalance) (\<lambda>(denomination, residue).
     bindE (claim_mix wb ml stealth inp relayerInfo fee denomination) (\<lambda>trip.
     bindE (emit DoneStep Passed) (\<lambda>_.
     returnE \<lparr>cr_claimSignature = claimSig, cr_swapSignature = swapSig, cr_mixerDepositSignature = mt_depositSignature trip,
       cr_relayerWithdrawSignature = mt_withdrawSignature trip, cr_fundedLamports = mt_fundedLamports trip,
       cr_residueLamports = string_of_bigint residue,
       cr_selectedDenominationLamports = string_of_bigint denomination\<rparr>)))))))))"

section \<open>Opening and filling a position\<close>

text \<open>The initialisation, unless the position exists; the signature is \<open>null\<close> then.\<close>

definition initPosition :: "web \<Rightarrow> DerivedStealth \<Rightarrow> TestPairConfig \<Rightarrow> (InitPositionResponse \<times> string option) flow" where
  "initPosition wb stealth config =
     stepE InitPositionStep
       (bindE (apiCall (PostInitPositionTx (ds_publicKey stealth) (tc_lbPair config) (ds_publicKey stealth)
            (tc_lowerBinId config) (tc_width config)) as_init) (\<lambda>initResp.
        if ip_alreadyInitialized initResp \<or> ip_transaction initResp = None then returnE (initResp, None)
        else bindE (signAndSend wb stealth (the (ip_transaction initResp))) (\<lambda>sig. returnE (initResp, Some sig))))"

definition addLiquidity :: "web \<Rightarrow> DerivedStealth \<Rightarrow> TestPairConfig \<Rightarrow> int \<Rightarrow> shape \<Rightarrow> string flow" where
  "addLiquidity wb stealth config totalSolLamports shp =
     bindE (apiCall (PostAddLiquidityTx (ds_publicKey stealth) config (string_of_bigint totalSolLamports) shp) as_transaction) (\<lambda>(b64, _).
     signAndSend wb stealth b64)"

section \<open>privateDeposit.ts\<close>

record PrivateDepositInput =
  pi_mainWalletAddress :: string
  pi_poolAddress :: string
  pi_lowerBinId :: int
  pi_upperBinId :: int
  pi_shape :: shape
  pi_denominationLamports :: "string option"

record PrivateDepositResult =
  pr_positionId :: string
  pr_stealthPubkey :: string
  pr_positionPubkey :: string
  pr_mixerDepositSignature :: string
  pr_relayerWithdrawSignature :: string
  pr_initSignature :: "string option"
  pr_fundSignature :: string
  pr_fundedLamports :: string

text \<open>\<open>crypto.randomUUID\<close>, or a version 4 identifier from 16 random bytes.\<close>

definition uuid_of_bytes :: "bytes \<Rightarrow> string" where
  "uuid_of_bytes b0 =
     (let b1 = b0[6 := (b0 ! 6 AND 15) OR 64];
          b = b1[8 := (b1 ! 8 AND 63) OR 128];
          h = concat (map byte_hex b)
      in take 8 h @ ''-'' @ take 4 (drop 8 h) @ ''-'' @ take 4 (drop 12 h) @ ''-'' @ take 4 (drop 16 h) @ ''-'' @ drop 20 h)"

definition cryptoRandomUuid :: "string flow" where
  "cryptoRandomUuid =
     bindE (bcallE RandomUuid (\<lambda>a. case a of Maybe t \<Rightarrow> Some t | _ \<Rightarrow> None)) (\<lambda>r.
     case r of
       Some t \<Rightarrow> returnE t
     | None \<Rightarrow>
         bindE (bcallE (RandomBytes 16) (\<lambda>a. case a of Bytes b \<Rightarrow> Some b | _ \<Rightarrow> None)) (\<lambda>b.
         returnE (uuid_of_bytes b)))"

definition deposit_derive :: "web \<Rightarrow> PrivateDepositInput \<Rightarrow> string \<Rightarrow> DerivedStealth flow" where
  "deposit_derive wb inp positionId =
     stepE DeriveStep (deriveStealthForPosition wb (pi_mainWalletAddress inp) (pi_poolAddress inp) positionId)"

text \<open>
  \<open>relayerInfo.pools?.find\<close> parses the denominations up to the first match.
\<close>

fun find_denomination :: "int \<Rightarrow> string list \<Rightarrow> bool flow" where
  "find_denomination requested [] = returnE False"
| "find_denomination requested (t # ts) =
     bindE (parse_bigint t) (\<lambda>d. if d = requested then returnE True else find_denomination requested ts)"

definition deposit_relayerInfo :: "PrivateDepositInput \<Rightarrow> (RelayerInfoView \<times> int \<times> int) flow" where
  "deposit_relayerInfo inp =
     bindE (emit RelayerInfoStep Begun) (\<lambda>_.
     bindE (guarded RelayerInfoStep (apiCall GetRelayerInfo as_relayerInfo)) (\<lambda>relayerInfo.
     bindE (case pi_denominationLamports inp of
              None \<Rightarrow> parse_bigint (rv_denominationLamports relayerInfo)
            | Some t \<Rightarrow>
                bindE (parse_bigint t) (\<lambda>requested.
                bindE (case rv_pools relayerInfo of None \<Rightarrow> returnE False | Some ps \<Rightarrow> find_denomination requested ps) (\<lambda>matched.
                bindE (guarded RelayerInfoStep (require matched ''Requested denomination not advertised by /relayer/info.'')) (\<lambda>_.
                returnE requested)))) (\<lambda>denomination.
     bindE (parse_bigint (rv_feeLamports relayerInfo)) (\<lambda>fee.
     bindE (emit RelayerInfoStep Passed) (\<lambda>_.
     returnE (relayerInfo, denomination, fee))))))"

definition deposit_prepare :: "PrivateDepositInput \<Rightarrow> DerivedStealth \<Rightarrow> int \<Rightarrow> string \<Rightarrow> string flow" where
  "deposit_prepare inp stealth denomination positionId =
     stepE PrepareStep
       (apiCall (PostPreparePrivate (pi_poolAddress inp) (ds_publicKey stealth) (pi_shape inp) (pi_lowerBinId inp) (pi_upperBinId inp)
          (string_of_bigint denomination) positionId) as_prepared)"

definition deposit_mix ::
  "web \<Rightarrow> 't merkle_lib \<Rightarrow> PrivateDepositInput \<Rightarrow> DerivedStealth \<Rightarrow> RelayerInfoView \<Rightarrow> int \<Rightarrow> int \<Rightarrow> mixer_trip flow" where
  "deposit_mix wb ml inp stealth relayerInfo fee denomination =
     mixerTrip wb ml (pi_mainWalletAddress inp) (mainSignAndSend wb) (ds_publicKey stealth) relayerInfo fee denomination"

definition deposit_usePool :: "PrivateDepositInput \<Rightarrow> TestPairConfig flow" where
  "deposit_usePool inp =
     stepE UsePoolStep
       (apiCall (PostUsePool (pi_poolAddress inp) (pi_upperBinId inp - pi_lowerBinId inp + 1) (pi_lowerBinId inp)) as_config)"

definition deposit_fund :: "web \<Rightarrow> PrivateDepositInput \<Rightarrow> DerivedStealth \<Rightarrow> TestPairConfig \<Rightarrow> string \<Rightarrow> string flow" where
  "deposit_fund wb inp stealth config fundedLamports =
     stepE AddLiquidityStep
       (bindE (parse_bigint fundedLamports) (\<lambda>funded.
        let totalSolLamports = funded - 5000000 in
        bindE (require (0 < totalSolLamports) ''Funded amount too small after rent reserve.'') (\<lambda>_.
        addLiquidity wb stealth config totalSolLamports (pi_shape inp))))"

definition runPrivateDeposit :: "web \<Rightarrow> 't merkle_lib \<Rightarrow> PrivateDepositInput \<Rightarrow> PrivateDepositResult flow" where
  "runPrivateDeposit wb ml inp =
     bindE (require (0 < pi_upperBinId inp - pi_lowerBinId inp + 1) ''upperBinId must be >= lowerBinId.'') (\<lambda>_.
     bindE cryptoRandomUuid (\<lambda>uuid.
     let positionId = ''pos_'' @ uuid in
     bindE (deposit_derive wb inp positionId) (\<lambda>stealth.
     bindE (deposit_relayerInfo inp) (\<lambda>(relayerInfo, denomination, fee).
     bindE (deposit_prepare inp stealth denomination positionId) (\<lambda>preparedId.
     bindE (deposit_mix wb ml inp stealth relayerInfo fee denomination) (\<lambda>trip.
     bindE (deposit_usePool inp) (\<lambda>config.
     bindE (initPosition wb stealth config) (\<lambda>(initResp, initSig).
     bindE (deposit_fund wb inp stealth config (mt_fundedLamports trip)) (\<lambda>fundSig.
     bindE (emit DoneStep Passed) (\<lambda>_.
     returnE \<lparr>pr_positionId = preparedId, pr_stealthPubkey = ds_publicKey stealth, pr_positionPubkey = ip_positionPubkey initResp,
       pr_mixerDepositSignature = mt_depositSignature trip, pr_relayerWithdrawSignature = mt_withdrawSignature trip,
       pr_initSignature = initSig, pr_fundSignature = fundSig, pr_fundedLamports = mt_fundedLamports trip\<rparr>))))))))))"

section \<open>privateRebalance.ts\<close>

record PrivateRebalanceInput =
  bi_mainWalletAddress :: string
  bi_poolAddress :: string
  bi_positionId :: "string option"
  bi_newLowerBinId :: int
  bi_newUpperBinId :: int
  bi_newShape :: shape
  bi_slippageBps :: "js_num option"

record PrivateRebalanceResult =
  br_closeSignature :: string
  br_swapSignature :: "string option"
  br_initSignature :: "string option"
  br_addLiquiditySignature :: string
  br_newPositionPubkey :: string
  br_fundedLamports :: string

definition rebalance_derive :: "web \<Rightarrow> PrivateRebalanceInput \<Rightarrow> DerivedStealth flow" where
  "rebalance_derive wb inp =
     stepE DeriveStep
       (if missing (bi_positionId inp) then deriveStealthForPool wb (bi_mainWalletAddress inp) (bi_poolAddress inp)
        else deriveStealthForPosition wb (bi_mainWalletAddress inp) (bi_poolAddress inp) (the (bi_positionId inp)))"

definition rebalance_positionState :: "DerivedStealth \<Rightarrow> string \<Rightarrow> (PositionStateView \<times> TestPairConfig) flow" where
  "rebalance_positionState stealth pool =
     stepE PositionStateStep
       (bindE (catchE (apiCall (GetPoolAuthority (ds_publicKey stealth) pool) as_authority)
            (\<lambda>err. if isPoolAuthorityMissingError err then throwE ''This position is no longer open on-chain.'' else throwE err)) (\<lambda>authority.
        bindE (require (av_exitRecipient authority = ds_publicKey stealth)
             (''exit_recipient is '' @ av_exitRecipient authority)) (\<lambda>_.
        bindE (apiCall (GetPositionState pool (av_position authority)) as_position) (\<lambda>position.
        bindE (apiCall (PostUsePool pool (sv_upperBinId position - sv_lowerBinId position + 1) (sv_lowerBinId position)) as_config) (\<lambda>config.
        returnE (position, config))))))"

definition rebalance_close :: "web \<Rightarrow> DerivedStealth \<Rightarrow> TestPairConfig \<Rightarrow> string flow" where
  "rebalance_close wb stealth config =
     stepE CloseStep
       (bindE (apiCall (PostWithdrawCloseTx (ds_publicKey stealth) config) as_transaction) (\<lambda>(b64, _).
        signAndSend wb stealth b64))"

definition rebalance_swap :: "web \<Rightarrow> DerivedStealth \<Rightarrow> string \<Rightarrow> js_num \<Rightarrow> PositionStateView \<Rightarrow> string option flow" where
  "rebalance_swap wb stealth pool slippageBps position =
     stepE SwapStep
       (let xIsSol = sv_tokenXMint position = NATIVE_MINT_TEXT;
            yIsSol = sv_tokenYMint position = NATIVE_MINT_TEXT
        in bindE (require (xIsSol \<or> yIsSol) ''Position is not SOL-paired.'') (\<lambda>_.
           bindE (parse_bigint (if xIsSol then sv_totalYLamports position else sv_totalXLamports position)) (\<lambda>nonSolBalance.
           bindE (parse_bigint (if xIsSol then sv_feeYLamports position else sv_feeXLamports position)) (\<lambda>nonSolFee.
           swapToSol wb stealth pool slippageBps (\<not> xIsSol) (nonSolBalance + nonSolFee)))))"

definition rebalance_usePool :: "PrivateRebalanceInput \<Rightarrow> TestPairConfig flow" where
  "rebalance_usePool inp =
     stepE UsePoolStep
       (apiCall (PostUsePool (bi_poolAddress inp) (bi_newUpperBinId inp - bi_newLowerBinId inp + 1) (bi_newLowerBinId inp)) as_config)"

definition rebalance_fund :: "web \<Rightarrow> PrivateRebalanceInput \<Rightarrow> DerivedStealth \<Rightarrow> TestPairConfig \<Rightarrow> (string \<times> int) flow" where
  "rebalance_fund wb inp stealth config =
     stepE AddLiquidityStep
       (bindE (balance_of wb (ds_publicKey stealth)) (\<lambda>stealthBalance.
        let totalSolLamports = stealthBalance - STEALTH_RESERVE_LAMPORTS in
        bindE (require (0 < totalSolLamports) ''Stealth balance below rent reserve.'') (\<lambda>_.
        bindE (addLiquidity wb stealth config totalSolLamports (bi_newShape inp)) (\<lambda>sig.
        returnE (sig, totalSolLamports)))))"

definition runPrivateRebalance :: "web \<Rightarrow> PrivateRebalanceInput \<Rightarrow> PrivateRebalanceResult flow" where
  "runPrivateRebalance wb inp =
     bindE (require (0 < bi_newUpperBinId inp - bi_newLowerBinId inp + 1) ''newUpperBinId must be >= newLowerBinId.'') (\<lambda>_.
     bindE (rebalance_derive wb inp) (\<lambda>stealth.
     bindE (rebalance_positionState stealth (bi_poolAddress inp)) (\<lambda>(position, oldPoolConfig).
     bindE (rebalance_close wb stealth oldPoolConfig) (\<lambda>closeSig.
     bindE (rebalance_swap wb stealth (bi_poolAddress inp) (slippage_or_default (bi_slippageBps inp)) position) (\<lambda>swapSig.
     bindE (rebalance_usePool inp) (\<lambda>newPoolConfig.
     bindE (initPosition wb stealth newPoolConfig) (\<lambda>(initResp, initSig).
     bindE (rebalance_fund wb inp stealth newPoolConfig) (\<lambda>(fundSig, totalSolLamports).
     bindE (emit DoneStep Passed) (\<lambda>_.
     returnE \<lparr>br_closeSignature = closeSig, br_swapSignature = swapSig, br_initSignature = initSig,
       br_addLiquiditySignature = fundSig, br_newPositionPubkey = ip_positionPubkey initResp,
       br_fundedLamports = string_of_bigint totalSolLamports\<rparr>)))))))))"

record RebalancePreflightEstimate =
  be_estimatedRedeployableLamports :: string
  be_positionAlreadyClosed :: bool
  be_stealthPubkey :: string

definition preflightEstimateRebalance :: "web \<Rightarrow> string \<Rightarrow> string \<Rightarrow> js_num option \<Rightarrow> RebalancePreflightEstimate flow" where
  "preflightEstimateRebalance wb stealthPubkey pool slippageBps =
     bindE (poolAuthorityIfAny stealthPubkey pool) (\<lambda>auth.
     case auth of
       None \<Rightarrow>
         bindE (balance_of wb stealthPubkey) (\<lambda>lamports.
         returnE \<lparr>be_estimatedRedeployableLamports = string_of_bigint (less_reserve lamports),
           be_positionAlreadyClosed = True, be_stealthPubkey = stealthPubkey\<rparr>)
     | Some authority \<Rightarrow>
         bindE (apiCall (GetPositionState pool (av_position authority)) as_position) (\<lambda>position.
         let xIsSol = sv_tokenXMint position = NATIVE_MINT_TEXT;
             yIsSol = sv_tokenYMint position = NATIVE_MINT_TEXT
         in bindE (sol_on_hand position) (\<lambda>solOnHand.
            bindE (non_sol_on_hand position) (\<lambda>totalNonSol.
            bindE (if xIsSol \<or> yIsSol then quotedOut pool (slippage_or_default slippageBps) (\<not> xIsSol) totalNonSol
                   else returnE 0) (\<lambda>swappedSol.
            returnE \<lparr>be_estimatedRedeployableLamports = string_of_bigint (less_reserve (solOnHand + swappedSol)),
              be_positionAlreadyClosed = False, be_stealthPubkey = stealthPubkey\<rparr>)))))"

end
