(* ===== verification/BrowserSafety.thy ===== *)
theory BrowserSafety imports BrowserClaim begin

text \<open>
  What the flows of the browser may do, whatever the API, the node and the wallets answer: a policy
  over the calls of a flow, with what the flow has learned so far as the state of its automaton.
\<close>

section \<open>The policy\<close>

text \<open>What a flow knows of its wallet, its position, the pools and the balance it picks by; the
  transaction the API has last built for it, with the request it was built for and the signature the
  node has answered since; the range it has last asked a configuration for, with the answer; and what
  the relayer has paid out of which pool.\<close>

record watch =
  w_stealth :: "string option"
  w_popups :: nat
  w_live :: bool
  w_cleared :: bool
  w_info :: "RelayerInfoView option"
  w_balance :: "int option"
  w_signed :: "web_tx option"
  w_built :: "(http_request \<times> string \<times> string option) option"
  w_range :: "((string \<times> int \<times> int) \<times> TestPairConfig) option"
  w_paid :: "(string \<times> RelayerWithdrawResp) option"

definition fresh_watch :: watch where
  "fresh_watch = \<lparr>w_stealth = None, w_popups = 0, w_live = False, w_cleared = False, w_info = None, w_balance = None,
     w_signed = None, w_built = None, w_range = None, w_paid = None\<rparr>"

definition ok_status :: "int \<Rightarrow> bool" where
  "ok_status st \<longleftrightarrow> 200 \<le> st \<and> st \<le> 299"

text \<open>
  The authority of the position, as answered: it clears the flow when it pays the stealth wallet, and
  so does the answer that there is none.
\<close>

definition learn_authority :: "string \<Rightarrow> string + banswer \<Rightarrow> watch \<Rightarrow> watch" where
  "learn_authority stealth r st =
     (case r of
        Inr (Response status body (Some (JAuthority a))) \<Rightarrow>
          if ok_status status then st\<lparr>w_live := True, w_cleared := (av_exitRecipient a = stealth)\<rparr>
          else if isPoolAuthorityMissingError (api_error status body) then st\<lparr>w_cleared := True\<rparr> else st
      | Inr (Response status body _) \<Rightarrow>
          if \<not> ok_status status \<and> isPoolAuthorityMissingError (api_error status body) then st\<lparr>w_cleared := True\<rparr> else st
      | Inl e \<Rightarrow> if isPoolAuthorityMissingError e then st\<lparr>w_cleared := True\<rparr> else st
      | _ \<Rightarrow> st)"

fun builds :: "http_request \<Rightarrow> bool" where
  "builds (PostWithdrawCloseTx s c) = True"
| "builds (PostClaimFeesTx s c) = True"
| "builds (PostSwapTx s p i m d) = True"
| "builds (PostMixerDeposit s c d) = True"
| "builds (PostInitPositionTx s p e l w) = True"
| "builds (PostAddLiquidityTx s c t sh) = True"
| "builds _ = False"

definition learn_built :: "http_request \<Rightarrow> string + banswer \<Rightarrow> watch \<Rightarrow> watch" where
  "learn_built req r st =
     (case r of
        Inr (Response status body (Some (JTransaction b64 x))) \<Rightarrow>
          if ok_status status then st\<lparr>w_built := Some (req, b64, None)\<rparr> else st
      | Inr (Response status body (Some (JInit i))) \<Rightarrow>
          if ok_status status then st\<lparr>w_built := map_option (\<lambda>b64. (req, b64, None)) (ip_transaction i)\<rparr> else st
      | _ \<Rightarrow> st)"

definition learn_reply :: "http_request \<Rightarrow> string + banswer \<Rightarrow> watch \<Rightarrow> watch" where
  "learn_reply req r st =
     (case req of
        GetPoolAuthority s p \<Rightarrow> learn_authority s r st
      | GetRelayerInfo \<Rightarrow>
          (case r of Inr (Response status body (Some (JRelayerInfo i))) \<Rightarrow> st\<lparr>w_info := Some i\<rparr> | _ \<Rightarrow> st)
      | PostUsePool p w l \<Rightarrow>
          (case r of Inr (Response status body (Some (JConfig c))) \<Rightarrow> st\<lparr>w_range := Some ((p, w, l), c)\<rparr> | _ \<Rightarrow> st)
      | PostRelayerWithdraw p sig rt n recipient f d \<Rightarrow>
          (case r of Inr (Response status body (Some (JWithdraw y))) \<Rightarrow> st\<lparr>w_paid := Some (d, y)\<rparr> | _ \<Rightarrow> st)
      | _ \<Rightarrow> if builds req then learn_built req r st else st)"

definition learn :: "web \<Rightarrow> watch \<Rightarrow> bcall \<Rightarrow> string + banswer \<Rightarrow> watch" where
  "learn wb st c r =
     (case c of
        SessionGet k \<Rightarrow> (case r of Inr (Cached (Some seed)) \<Rightarrow> st\<lparr>w_stealth := web_fromSeed wb seed\<rparr> | _ \<Rightarrow> st)
      | SignMessage w m \<Rightarrow>
          (let st' = st\<lparr>w_popups := Suc (w_popups st)\<rparr> in
           case r of Inr (Bytes b) \<Rightarrow> st'\<lparr>w_stealth := web_fromSeed wb (web_sha256 wb b)\<rparr> | _ \<Rightarrow> st')
      | SignTransaction w t \<Rightarrow>
          st\<lparr>w_popups := Suc (w_popups st), w_signed := (case r of Inr (Signed t') \<Rightarrow> Some t' | _ \<Rightarrow> w_signed st)\<rparr>
      | Fetch req \<Rightarrow> learn_reply req r st
      | SendRaw t wire \<Rightarrow>
          (case r of Inr (Word s) \<Rightarrow> st\<lparr>w_built := map_option (\<lambda>(req, b64, _). (req, b64, Some s)) (w_built st)\<rparr> | _ \<Rightarrow> st)
      | BalanceOf k \<Rightarrow>
          (case r of Inr (Amount n) \<Rightarrow> if w_balance st = None then st\<lparr>w_balance := Some n\<rparr> else st | _ \<Rightarrow> st)
      | _ \<Rightarrow> st)"

lemmas learn_simps = learn_def learn_reply_def learn_authority_def learn_built_def

text \<open>The wallets a request names.\<close>

fun identities :: "http_request \<Rightarrow> string set" where
  "identities (GetPoolAuthority s p) = {s}"
| "identities (PostWithdrawCloseTx s c) = {s}"
| "identities (PostClaimFeesTx s c) = {s}"
| "identities (PostSwapTx s p i m d) = {s}"
| "identities (PostMixerDeposit s c d) = {s}"
| "identities (PostRelayerWithdraw p sig rt n recipient f d) = {recipient}"
| "identities (PostPreparePrivate p s sh l u d i) = {s}"
| "identities (PostInitPositionTx s p e l w) = {s, e}"
| "identities (PostAddLiquidityTx s c t sh) = {s}"
| "identities _ = {}"

text \<open>
  What a kind of flow is granted: whether the main wallet pays or is paid, which pool of the mixer it
  goes through, and the range and shape of the position it may open and fund.
\<close>

datatype pool_rule = NoPool | OfferedPool "string option" | LargestPool

record grant =
  gr_main :: string
  gr_payIn :: bool
  gr_payOut :: bool
  gr_sweep :: bool
  gr_open :: bool
  gr_pools :: pool_rule
  gr_target :: "((string \<times> int \<times> int) \<times> shape) option"

fun moves_position :: "http_request \<Rightarrow> bool" where
  "moves_position (PostWithdrawCloseTx s c) = True"
| "moves_position (PostClaimFeesTx s c) = True"
| "moves_position (PostSwapTx s p i m d) = True"
| "moves_position _ = False"

text \<open>The pools the relayer advertises, and the largest that fits a balance less the reserve.\<close>

definition advertised :: "RelayerInfoView \<Rightarrow> string list" where
  "advertised info = (case rv_pools info of None \<Rightarrow> [rv_denominationLamports info] | Some ps \<Rightarrow> ps)"

definition largest_fit :: "RelayerInfoView \<Rightarrow> int \<Rightarrow> int \<Rightarrow> bool" where
  "largest_fit info balance d \<longleftrightarrow>
     (\<exists>vs. map bigint_of_string (advertised info) = map Some vs \<and> d \<in> set vs \<and> d + STEALTH_RESERVE_LAMPORTS \<le> balance \<and>
        (\<forall>v \<in> set vs. v + STEALTH_RESERVE_LAMPORTS \<le> balance \<longrightarrow> v \<le> d))"

text \<open>The pool a deposit may use: the one it was asked for, if it is advertised, or else the default.\<close>

definition offered :: "RelayerInfoView \<Rightarrow> string option \<Rightarrow> int \<Rightarrow> bool" where
  "offered info asked d \<longleftrightarrow>
     (case asked of
        None \<Rightarrow> bigint_of_string (rv_denominationLamports info) = Some d
      | Some t \<Rightarrow> bigint_of_string t = Some d \<and> (\<exists>ps. rv_pools info = Some ps \<and> Some d \<in> bigint_of_string ` set ps))"

text \<open>The pool a request is about, and whether the flow may use it.\<close>

fun pool_named :: "http_request \<Rightarrow> string option" where
  "pool_named (GetMixerStatus d) = Some d"
| "pool_named (GetMixerDeposits d) = Some d"
| "pool_named (PostMixerDeposit s c d) = Some d"
| "pool_named (PostConfirmDeposit c i t d) = Some d"
| "pool_named (PostRelayerWithdraw p sig rt n recipient f d) = Some d"
| "pool_named (PostPreparePrivate p s sh l u d i) = Some d"
| "pool_named _ = None"

definition right_pool :: "grant \<Rightarrow> watch \<Rightarrow> string \<Rightarrow> bool" where
  "right_pool g st t \<longleftrightarrow>
     (\<exists>d info. t = string_of_bigint d \<and> w_info st = Some info \<and>
        (case gr_pools g of
           NoPool \<Rightarrow> False
         | OfferedPool asked \<Rightarrow> offered info asked d
         | LargestPool \<Rightarrow> (\<exists>balance. w_balance st = Some balance \<and> largest_fit info balance d)))"

text \<open>What there is to put into a position: what the relayer has paid out, or the balance read.\<close>

definition to_fund :: "watch \<Rightarrow> int option" where
  "to_fund st = (case w_paid st of Some (d, y) \<Rightarrow> bigint_of_string (wy_amountLamports y) | None \<Rightarrow> w_balance st)"

text \<open>
  What a request carries on from the answers before it: a position is closed and claimed by the
  configuration of the range last asked for, one is opened and funded in the range that was granted
  and with all that is held but the reserve; the deposit confirmed is the one that was sent, and the
  relayer is asked to pay out of the pool of that deposit.
\<close>

definition follows :: "grant \<Rightarrow> watch \<Rightarrow> http_request \<Rightarrow> bool" where
  "follows g st req \<longleftrightarrow>
     (case req of
        PostWithdrawCloseTx s c \<Rightarrow> map_option snd (w_range st) = Some c
      | PostClaimFeesTx s c \<Rightarrow> map_option snd (w_range st) = Some c
      | PostInitPositionTx s p e l w \<Rightarrow>
          (\<exists>t sh c. gr_target g = Some (t, sh) \<and> w_range st = Some (t, c) \<and> p = tc_lbPair c \<and> l = tc_lowerBinId c \<and> w = tc_width c)
      | PostAddLiquidityTx s c n sh \<Rightarrow>
          (\<exists>t m. gr_target g = Some (t, sh) \<and> w_range st = Some (t, c) \<and> to_fund st = Some m \<and> STEALTH_RESERVE_LAMPORTS < m \<and>
             n = string_of_bigint (m - STEALTH_RESERVE_LAMPORTS))
      | PostConfirmDeposit c i sig d \<Rightarrow> (\<exists>s b64. w_built st = Some (PostMixerDeposit s c d, b64, Some sig))
      | PostRelayerWithdraw p sg rt n recipient f d \<Rightarrow>
          (\<exists>s c b64 sig. w_built st = Some (PostMixerDeposit s c d, b64, Some sig))
      | _ \<Rightarrow> True)"

definition request_allowed :: "grant \<Rightarrow> watch \<Rightarrow> http_request \<Rightarrow> bool" where
  "request_allowed g st req \<longleftrightarrow>
     (identities req \<subseteq> set_option (w_stealth st) \<or>
      (case req of
         PostRelayerWithdraw p sig rt n recipient f d \<Rightarrow> gr_payOut g \<and> recipient = gr_main g
       | PostMixerDeposit s c d \<Rightarrow> gr_payIn g \<and> s = gr_main g
       | _ \<Rightarrow> False)) \<and>
     (moves_position req \<longrightarrow> w_live st \<and> w_cleared st) \<and>
     (\<forall>d. pool_named req = Some d \<longrightarrow> right_pool g st d) \<and>
     follows g st req"

text \<open>
  A transaction goes out when the API built it, the stealth wallet of the flow signed it and it has not
  been sent before, when the main wallet signed it on its extension and it has not been sent before, or
  when it is the sweep of the stealth wallet to the main wallet that the user has asked for.
\<close>

definition built_by_api :: "web \<Rightarrow> watch \<Rightarrow> web_tx \<Rightarrow> bool" where
  "built_by_api wb st t \<longleftrightarrow>
     (\<exists>req b64 t0 seed. w_built st = Some (req, b64, None) \<and> web_decodeTx wb b64 = Inr t0 \<and> web_fromSeed wb seed = w_stealth st \<and> w_stealth st \<noteq> None \<and>
        web_partialSign wb t0 seed = Inr t)"

definition own_sweep :: "web \<Rightarrow> grant \<Rightarrow> watch \<Rightarrow> web_tx \<Rightarrow> bool" where
  "own_sweep wb g st t \<longleftrightarrow>
     (\<exists>pk n h seed. w_stealth st = Some pk \<and> web_fromSeed wb seed = Some pk \<and>
        web_partialSign wb \<lparr>wt_message = TransferSol pk (gr_main g) n, wt_recentBlockhash = h, wt_signedBy = []\<rparr> seed = Inr t)"

definition send_allowed :: "web \<Rightarrow> grant \<Rightarrow> watch \<Rightarrow> web_tx \<Rightarrow> string \<Rightarrow> bool" where
  "send_allowed wb g st t wire \<longleftrightarrow>
     web_serialize wb t = Inr wire \<and>
     ((built_by_api wb st t \<and> (w_cleared st \<or> gr_open g)) \<or> (gr_payIn g \<and> w_signed st = Some t \<and> (\<exists>req b64. w_built st = Some (req, b64, None))) \<or> (gr_sweep g \<and> own_sweep wb g st t))"

text \<open>The statement to prove names the stealth wallet, or the main wallet where it is paid out.\<close>

definition proof_allowed :: "web \<Rightarrow> grant \<Rightarrow> watch \<Rightarrow> WithdrawProofInputs \<Rightarrow> bool" where
  "proof_allowed wb g st i \<longleftrightarrow>
     (\<exists>who key. (if gr_payOut g then who = gr_main g else w_stealth st = Some who) \<and> web_PublicKey wb who = Some key \<and>
        wi_recipient i = string_of_bigint (web_pubkeyToFieldHash (web_poseidon wb) key))"

definition allowed :: "web \<Rightarrow> grant \<Rightarrow> watch \<Rightarrow> bcall \<Rightarrow> bool" where
  "allowed wb g st c =
     (case c of
        Fetch req \<Rightarrow> request_allowed g st req
      | SessionGet k \<Rightarrow> w_stealth st = None
      | SessionSet k seed \<Rightarrow> web_fromSeed wb seed = w_stealth st
      | SignMessage w m \<Rightarrow> w_popups st = 0 \<and> w_stealth st = None
      | SignTransaction w t \<Rightarrow> gr_payIn g \<and> w_popups st \<le> 1 \<and> (\<exists>req b64. w_built st = Some (req, b64, None) \<and> web_decodeTx wb b64 = Inr t)
      | SendRaw t wire \<Rightarrow> send_allowed wb g st t wire
      | BalanceOf k \<Rightarrow> w_stealth st = Some k
      | RandomUuid \<Rightarrow> gr_open g
      | FullProve i \<Rightarrow> proof_allowed wb g st i
      | _ \<Rightarrow> True)"

definition bstep :: "web \<Rightarrow> grant \<Rightarrow> watch \<Rightarrow> bcall \<Rightarrow> string + banswer \<Rightarrow> watch option" where
  "bstep wb g st c r = (if allowed wb g st c then Some (learn wb st c r) else None)"

section \<open>Rules\<close>

lemma learn_emit [simp]: "learn wb st (Emit k s) r = st"
  by (simp add: learn_def)

definition safe :: "web \<Rightarrow> grant \<Rightarrow> watch \<Rightarrow> 'a flow \<Rightarrow> (watch \<Rightarrow> 'a \<Rightarrow> bool) \<Rightarrow> bool" where
  "safe wb g st p Q = conforms (bstep wb g) (\<lambda>st' r. case r of Inl e \<Rightarrow> True | Inr a \<Rightarrow> Q st' a) st p"

named_theorems safe_rules "rules that move the policy over one step"

lemma safe_mono: "safe wb g st p Q \<Longrightarrow> (\<And>st' a. Q st' a \<Longrightarrow> Q' st' a) \<Longrightarrow> safe wb g st p Q'"
  unfolding safe_def by (erule conforms_mono) (auto split: sum.splits)

lemma safe_returnE [simp]: "safe wb g st (returnE a) Q = Q st a"
  by (simp add: safe_def)

lemma safe_throwE [simp]: "safe wb g st (throwE e) Q"
  by (simp add: safe_def)

lemma safe_bindE [safe_rules]: "safe wb g st p (\<lambda>st' a. safe wb g st' (f a) Q) \<Longrightarrow> safe wb g st (bindE p f) Q"
  unfolding safe_def by (rule conforms_bindE) (auto elim!: conforms_mono split: sum.splits)

lemma safe_catch_throw: "safe wb g st p Q \<Longrightarrow> safe wb g st (catchE p (\<lambda>e. if b e then throwE (f e) else throwE e)) Q"
  unfolding safe_def by (rule conforms_catchE, erule conforms_mono) (auto split: sum.splits)

text \<open>A step that teaches nothing new.\<close>

lemma safe_then:
  "safe wb g st p (\<lambda>st' a. st' = st \<and> P a) \<Longrightarrow> (\<And>a. P a \<Longrightarrow> safe wb g st (f a) Q) \<Longrightarrow> safe wb g st (bindE p f) Q"
  by (rule safe_bindE, erule safe_mono) auto

lemma safe_pureE [safe_rules]: "(\<And>a. r = Inr a \<Longrightarrow> Q st a) \<Longrightarrow> safe wb g st (pureE r) Q"
  by (cases r) (auto simp: pureE_def)

lemma safe_require [safe_rules]: "(b \<Longrightarrow> Q st ()) \<Longrightarrow> safe wb g st (require b e) Q"
  by (simp add: safe_def require_def)

lemma safe_emit [safe_rules]: "Q st () \<Longrightarrow> safe wb g st (emit k s) Q"
  by (simp add: safe_def emit_def bstep_def allowed_def learn_def)

lemma safe_bcallE:
  assumes "allowed wb g st c" and "\<And>a x. get a = Some x \<Longrightarrow> Q (learn wb st c (Inr a)) x"
  shows "safe wb g st (bcallE c get) Q"
  using assms by (auto simp: safe_def bcallE_def bstep_def split: sum.splits option.splits)

lemma safe_apiCall:
  assumes "request_allowed g st req"
    and "\<And>status body j x. ok_status status \<Longrightarrow> get j = Some x \<Longrightarrow>
      Q (learn wb st (Fetch req) (Inr (Response status body (Some j)))) x"
  shows "safe wb g st (apiCall req get) Q"
  unfolding apiCall_def
  using assms
  by (auto intro!: safe_bindE safe_bcallE split: banswer.splits prod.splits option.splits
      simp: ok_status_def allowed_def)

text \<open>Requests whose answers teach nothing, and those whose answer is a transaction.\<close>

lemma safe_ask:
  assumes "request_allowed g st req" and "\<And>status body j. learn wb st (Fetch req) (Inr (Response status body (Some j))) = st"
    and "\<And>x. Q st x"
  shows "safe wb g st (apiCall req get) Q"
  by (rule safe_apiCall [OF assms(1)]) (simp add: assms(2,3))

lemma safe_ask_tx:
  assumes "request_allowed g st req" and "builds req" and "\<And>t x. Q (st\<lparr>w_built := Some (req, t, None)\<rparr>) (t, x)"
  shows "safe wb g st (apiCall req as_transaction) Q"
  by (rule safe_apiCall [OF assms(1)])
    (use assms(2,3) in \<open>auto simp: learn_simps elim!: as_transaction.elims split: http_request.splits\<close>)

lemma safe_ask_init:
  assumes "request_allowed g st req" and "builds req" and "\<And>i. Q (st\<lparr>w_built := map_option (\<lambda>t. (req, t, None)) (ip_transaction i)\<rparr>) i"
  shows "safe wb g st (apiCall req as_init) Q"
  by (rule safe_apiCall [OF assms(1)])
    (use assms(2,3) in \<open>auto simp: learn_simps elim!: as_init.elims split: http_request.splits\<close>)

lemma safe_ask_config:
  assumes "\<And>c. Q (st\<lparr>w_range := Some ((p, w, l), c)\<rparr>) c"
  shows "safe wb g st (apiCall (PostUsePool p w l) as_config) Q"
  by (rule safe_apiCall) (use assms in \<open>auto simp: request_allowed_def follows_def learn_simps elim!: as_config.elims\<close>)

lemma safe_ask_withdraw:
  assumes "request_allowed g st (PostRelayerWithdraw p sig rt n recipient f d)" and "\<And>y. Q (st\<lparr>w_paid := Some (d, y)\<rparr>) y"
  shows "safe wb g st (apiCall (PostRelayerWithdraw p sig rt n recipient f d) as_withdraw) Q"
  by (rule safe_apiCall [OF assms(1)]) (use assms(2) in \<open>auto simp: learn_simps elim!: as_withdraw.elims\<close>)

lemmas safe_asks = safe_ask [where get = as_position] safe_ask [where get = as_quote]
  safe_ask [where get = as_status] safe_ask [where get = as_deposits]
  safe_ask [where get = as_prepared] safe_ask_config safe_ask_tx safe_ask_init

lemma safe_guarded [safe_rules]: "safe wb g st p Q \<Longrightarrow> safe wb g st (guarded k p) Q"
  unfolding safe_def guarded_def
  by (rule conforms_catchE, erule conforms_mono)
    (auto split: sum.splits intro!: conforms_bindE simp: emit_def bstep_def allowed_def)

lemma safe_stepE [safe_rules]: "safe wb g st p Q \<Longrightarrow> safe wb g st (stepE k p) Q"
  unfolding stepE_def
  by (intro safe_bindE safe_emit safe_guarded, erule safe_mono) (auto intro!: safe_bindE safe_emit)

lemma safe_parse_bigint: "safe wb g st (parse_bigint t) (\<lambda>st' v. st' = st \<and> bigint_of_string t = Some v)"
  unfolding parse_bigint_def by (rule safe_pureE) (auto simp: BigInt_text_def split: option.splits)

lemma safe_parse_bigints: "safe wb g st (parse_bigints ts) (\<lambda>st' vs. st' = st \<and> map bigint_of_string ts = map Some vs)"
proof (induction ts)
  case (Cons t ts)
  show ?case
    by (simp, rule safe_then [OF safe_parse_bigint], rule safe_then [OF Cons.IH]) (auto intro: safe_rules)
qed (auto intro: safe_rules)

section \<open>The shared parts\<close>

text \<open>The stealth wallet of the flow, once derived.\<close>

definition known :: "web \<Rightarrow> watch \<Rightarrow> DerivedStealth \<Rightarrow> bool" where
  "known wb st ds \<longleftrightarrow> w_stealth st = Some (ds_publicKey ds) \<and> web_fromSeed wb (ds_keypair ds) = Some (ds_publicKey ds)"

lemma keypair_of_Inr: "keypair_of wb seed = Inr ds \<longleftrightarrow> ds_keypair ds = seed \<and> web_fromSeed wb seed = Some (ds_publicKey ds)"
  by (cases ds) (auto simp: keypair_of_def split: option.splits)

lemma known_frame [simp]:
  "known wb (st\<lparr>w_popups := n\<rparr>) ds = known wb st ds" "known wb (st\<lparr>w_live := b\<rparr>) ds = known wb st ds"
  "known wb (st\<lparr>w_cleared := b\<rparr>) ds = known wb st ds" "known wb (st\<lparr>w_info := i\<rparr>) ds = known wb st ds"
  "known wb (st\<lparr>w_balance := a\<rparr>) ds = known wb st ds" "known wb (st\<lparr>w_signed := t\<rparr>) ds = known wb st ds"
  "known wb (st\<lparr>w_built := b'\<rparr>) ds = known wb st ds" "known wb (st\<lparr>w_range := r\<rparr>) ds = known wb st ds"
  "known wb (st\<lparr>w_paid := y\<rparr>) ds = known wb st ds"
  by (simp_all add: known_def)

definition derived_from :: "web \<Rightarrow> watch \<Rightarrow> watch \<Rightarrow> DerivedStealth \<Rightarrow> bool" where
  "derived_from wb st st' ds \<longleftrightarrow> known wb st' ds \<and> w_popups st' \<le> 1 \<and>
     st' = st\<lparr>w_stealth := w_stealth st', w_popups := w_popups st'\<rparr>"

lemma safe_derive_cached:
  assumes "w_stealth st = None" and "w_popups st = 0"
  shows "safe wb g st (derive_cached wb key msg) (\<lambda>st' ds. derived_from wb st st' ds)"
  unfolding derive_cached_def
  using assms
  by (auto intro!: safe_bindE safe_bcallE safe_pureE split: banswer.splits option.splits
      simp: allowed_def learn_def keypair_of_Inr derived_from_def known_def Let_def)

lemma safe_deriveForPool [safe_rules]:
  assumes "w_stealth st = None" "w_popups st = 0" "\<And>st' ds. derived_from wb st st' ds \<Longrightarrow> Q st' ds"
  shows "safe wb g st (deriveStealthForPool wb main pool) Q"
  unfolding deriveStealthForPool_def by (rule safe_mono [OF safe_derive_cached [OF assms(1,2)]]) (rule assms(3))

lemma safe_deriveForPosition [safe_rules]:
  assumes "w_stealth st = None" "w_popups st = 0" "\<And>st' ds. derived_from wb st st' ds \<Longrightarrow> Q st' ds"
  shows "safe wb g st (deriveStealthForPosition wb main pool pos) Q"
  unfolding deriveStealthForPosition_def by (rule safe_mono [OF safe_derive_cached [OF assms(1,2)]]) (rule assms(3))

lemma safe_waitForConfirmation [safe_rules]: "Q st () \<Longrightarrow> safe wb g st (waitForConfirmation sig h) Q"
  unfolding waitForConfirmation_def
  by (auto intro!: safe_bindE safe_bcallE simp: allowed_def learn_def split: banswer.splits)

lemma right_pool_frame [simp]:
  "right_pool g (st\<lparr>w_popups := n\<rparr>) d = right_pool g st d" "right_pool g (st\<lparr>w_signed := t\<rparr>) d = right_pool g st d"
  "right_pool g (st\<lparr>w_built := b\<rparr>) d = right_pool g st d" "right_pool g (st\<lparr>w_range := r\<rparr>) d = right_pool g st d"
  "right_pool g (st\<lparr>w_paid := y\<rparr>) d = right_pool g st d"
  by (auto simp: right_pool_def split: pool_rule.splits)

text \<open>The watch once the transaction it knows has been sent.\<close>

definition sent :: "string \<Rightarrow> watch \<Rightarrow> watch" where
  "sent s st = st\<lparr>w_built := map_option (\<lambda>(req, b64, _). (req, b64, Some s)) (w_built st)\<rparr>"

lemma safe_sendRaw:
  assumes "\<And>wire. web_serialize wb t = Inr wire \<Longrightarrow> send_allowed wb g st t wire" and "\<And>s. Q (sent s st) s"
  shows "safe wb g st (sendRaw wb t) Q"
  unfolding sendRaw_def
  using assms by (auto intro!: safe_bindE safe_bcallE safe_pureE simp: allowed_def learn_def sent_def split: banswer.splits)

lemma safe_signAndSend [safe_rules]:
  assumes "known wb st ds" and "w_cleared st \<or> gr_open g" and "w_built st = Some (req, b64, None)"
    and "\<And>s. Q (st\<lparr>w_built := Some (req, b64, Some s)\<rparr>) s"
  shows "safe wb g st (signAndSend wb ds b64) Q"
  unfolding signAndSend_def
  using assms
  by (auto intro!: safe_bindE safe_pureE safe_sendRaw safe_waitForConfirmation
      simp: send_allowed_def built_by_api_def known_def sent_def)

lemma safe_mainSignAndSend:
  assumes "gr_payIn g" and "w_popups st \<le> 1" and "w_built st = Some (req, b64, None)"
    and "\<And>s t. Q (st\<lparr>w_popups := Suc (w_popups st), w_signed := t, w_built := Some (req, b64, Some s)\<rparr>) s"
  shows "safe wb g st (mainSignAndSend wb b64) Q"
  unfolding mainSignAndSend_def
  using assms
  by (auto intro!: safe_bindE safe_pureE safe_sendRaw safe_waitForConfirmation safe_bcallE
      simp: send_allowed_def allowed_def learn_def sent_def split: banswer.splits)

lemma safe_balance_of [safe_rules]:
  assumes "known wb st ds" and "\<And>n. Q (if w_balance st = None then st\<lparr>w_balance := Some n\<rparr> else st) n"
  shows "safe wb g st (balance_of wb (ds_publicKey ds)) Q"
  unfolding balance_of_def
  using assms
  by (auto intro!: safe_bindE safe_require safe_bcallE simp: allowed_def learn_def known_def split: banswer.splits)

text \<open>Requests about nobody, or about the stealth wallet.\<close>

lemma nobody_allowed [simp]:
  "request_allowed g st GetRelayerInfo" "request_allowed g st (GetPositionState p q)" "request_allowed g st (GetSwapQuote p n b s)"
  "request_allowed g st (PostUsePool p w l)"
  "request_allowed g st (GetMixerStatus d) = right_pool g st d" "request_allowed g st (GetMixerDeposits d) = right_pool g st d"
  "request_allowed g st (PostConfirmDeposit c i t d) \<longleftrightarrow>
     right_pool g st d \<and> (\<exists>s b64. w_built st = Some (PostMixerDeposit s c d, b64, Some t))"
  by (simp_all add: request_allowed_def follows_def)

lemma stealth_allowed [simp]:
  assumes "known wb st ds"
  shows "request_allowed g st (GetPoolAuthority (ds_publicKey ds) p)"
    and "right_pool g st d \<Longrightarrow> request_allowed g st (PostMixerDeposit (ds_publicKey ds) c d)"
    and "right_pool g st d \<Longrightarrow> request_allowed g st (PostPreparePrivate p (ds_publicKey ds) sh l u d i)"
    and "gr_target g = Some (t, sh) \<Longrightarrow> w_range st = Some (t, cfg) \<Longrightarrow>
      request_allowed g st (PostInitPositionTx (ds_publicKey ds) (tc_lbPair cfg) (ds_publicKey ds) (tc_lowerBinId cfg) (tc_width cfg))"
    and "gr_target g = Some (t, sh) \<Longrightarrow> w_range st = Some (t, cfg) \<Longrightarrow> to_fund st = Some m \<Longrightarrow> STEALTH_RESERVE_LAMPORTS < m \<Longrightarrow>
      request_allowed g st (PostAddLiquidityTx (ds_publicKey ds) cfg (string_of_bigint (m - STEALTH_RESERVE_LAMPORTS)) sh)"
    and "w_live st \<Longrightarrow> w_cleared st \<Longrightarrow> w_range st = Some (r, cfg) \<Longrightarrow>
      request_allowed g st (PostWithdrawCloseTx (ds_publicKey ds) cfg)"
    and "w_live st \<Longrightarrow> w_cleared st \<Longrightarrow> w_range st = Some (r, cfg) \<Longrightarrow>
      request_allowed g st (PostClaimFeesTx (ds_publicKey ds) cfg)"
    and "w_live st \<Longrightarrow> w_cleared st \<Longrightarrow> request_allowed g st (PostSwapTx (ds_publicKey ds) p i m' dir)"
  using assms by (cases t; simp add: request_allowed_def known_def follows_def)+

fun teaches :: "http_request \<Rightarrow> bool" where
  "teaches (GetPoolAuthority s p) = True"
| "teaches GetRelayerInfo = True"
| "teaches (PostUsePool p w l) = True"
| "teaches (PostRelayerWithdraw p sig rt n recipient f d) = True"
| "teaches req = builds req"

lemma learn_nothing [simp]: "\<not> teaches req \<Longrightarrow> learn wb st (Fetch req) r = st"
  by (cases req) (auto simp: learn_def learn_reply_def)

text \<open>The denominations the relayer advertises, largest first.\<close>

definition offers :: "RelayerInfoView \<Rightarrow> int list \<Rightarrow> bool" where
  "offers info ds \<longleftrightarrow> (\<exists>vs. map bigint_of_string (advertised info) = map Some vs \<and> ds = rev (sort vs))"

lemma safe_denominations:
  "safe wb g st (denominations_desc info) (\<lambda>st' ds. st' = st \<and> offers info ds)"
  unfolding denominations_desc_def
  by (rule safe_then [OF safe_parse_bigints]) (auto simp: offers_def advertised_def)

lemma safe_relayerInfo:
  assumes "\<And>info fee ds. offers info ds \<Longrightarrow> ds \<noteq> [] \<Longrightarrow> Q (st\<lparr>w_info := Some info\<rparr>) (info, fee, ds)"
  shows "safe wb g st exit_relayerInfo Q"
  unfolding exit_relayerInfo_def
  by (intro safe_bindE safe_emit safe_guarded safe_apiCall safe_require safe_mono [OF safe_parse_bigint] safe_mono [OF safe_denominations])
    (auto simp: learn_simps elim!: as_relayerInfo.elims intro!: assms safe_bindE safe_mono [OF safe_denominations] safe_guarded safe_require safe_emit)

lemma safe_freshCommitment [safe_rules]: "(\<And>c. Q st c) \<Longrightarrow> safe wb g st (freshCommitment wb) Q"
  unfolding freshCommitment_def
  by (auto intro!: safe_bindE safe_bcallE simp: allowed_def learn_def split: banswer.splits)

end
