(* ===== verification/BrowserPrivacy.thy ===== *)
theory BrowserPrivacy imports BrowserSafety begin

text \<open>The four flows keep their policy, and what a finished exit or claim has chosen.\<close>

section \<open>The way through the mixer\<close>

lemma safe_swapToSol [safe_rules]:
  assumes "known wb st ds" and "w_live st" and "w_cleared st" and "\<And>s B. Q (st\<lparr>w_built := B\<rparr>) s"
  shows "safe wb g st (swapToSol wb ds pool sl dir amount) Q"
  unfolding swapToSol_def
  using assms assms(4) [where B = "w_built st"]
  by (auto intro!: safe_bindE safe_asks safe_signAndSend safe_mono [OF safe_parse_bigint] split: prod.splits)

text \<open>A sender may ask the main wallet once more, and sends what it is given.\<close>

definition sender_ok :: "web \<Rightarrow> grant \<Rightarrow> watch \<Rightarrow> nat \<Rightarrow> (string \<Rightarrow> string flow) \<Rightarrow> bool" where
  "sender_ok wb g st n send \<longleftrightarrow>
     (\<forall>req b64. safe wb g (st\<lparr>w_built := Some (req, b64, None)\<rparr>) (send b64)
        (\<lambda>st' s. \<exists>t. st' = st\<lparr>w_popups := w_popups st + n, w_signed := t, w_built := Some (req, b64, Some s)\<rparr>))"

text \<open>A deposit in the mixer that has been sent.\<close>

definition deposited :: "string \<Rightarrow> string \<Rightarrow> int \<Rightarrow> string \<Rightarrow> (http_request \<times> string \<times> string option) option \<Rightarrow> bool" where
  "deposited depositor c d sig B \<longleftrightarrow> (\<exists>b64. B = Some (PostMixerDeposit depositor c (string_of_bigint d), b64, Some sig))"

lemma safe_depositIntoMixer:
  assumes "\<And>c. request_allowed g st (PostMixerDeposit depositor c (string_of_bigint d))" and "sender_ok wb g st n send"
    and "\<And>c sig i t B. deposited depositor (string_of_bigint (cm_commitment c)) d sig B \<Longrightarrow>
      Q (st\<lparr>w_popups := w_popups st + n, w_signed := t, w_built := B\<rparr>) (c, sig, i)"
  shows "safe wb g st (depositIntoMixer wb depositor send d) Q"
proof -
  have pool: "right_pool g st (string_of_bigint d)" using assms(1) by (simp add: request_allowed_def)
  have "safe wb g (st\<lparr>w_built := Some (PostMixerDeposit depositor (string_of_bigint (cm_commitment c)) (string_of_bigint d), b64, None)\<rparr>)
      (send b64) (\<lambda>st' s. Q st' (c, s, i))" for c b64 i
    by (rule safe_mono [OF assms(2) [unfolded sender_ok_def, rule_format]]) (auto intro!: assms(3) simp: deposited_def)
  with pool assms(1) show ?thesis
    unfolding depositIntoMixer_def
    by (auto intro!: safe_bindE safe_freshCommitment safe_asks simp: Let_def split: prod.splits)
qed

lemma safe_confirmDeposit:
  assumes "request_allowed g st (PostConfirmDeposit (string_of_bigint (cm_commitment c)) i sg (string_of_bigint d))" and "Q st ()"
  shows "safe wb g st (confirmDepositStep c i sg d) Q"
  unfolding confirmDepositStep_def
  using assms
  by (intro safe_bindE safe_emit)
    (auto simp: safe_def apiCall_def bcallE_def emit_def bstep_def allowed_def
      intro!: conforms_catchE conforms_bindE split: sum.splits banswer.splits option.splits)

lemma safe_buildTree: "right_pool g st (string_of_bigint d) \<Longrightarrow> (\<And>t. Q st t) \<Longrightarrow> safe wb g st (buildTree wb ml c d) Q"
  unfolding buildTree_def
  by (auto intro!: safe_bindE safe_asks safe_pureE safe_require safe_mono [OF safe_parse_bigints])

definition recipient_ok :: "grant \<Rightarrow> watch \<Rightarrow> string \<Rightarrow> bool" where
  "recipient_ok g st who \<longleftrightarrow> (if gr_payOut g then who = gr_main g else w_stealth st = Some who)"

lemma safe_prove [safe_rules]:
  assumes "recipient_ok g st who" and "\<And>x. Q st x"
  shows "safe wb g st (proveWithdrawal wb ml t c who rel fee) Q"
  unfolding proveWithdrawal_def publicKeyE_def
  using assms
  by (auto intro!: safe_bindE safe_pureE safe_bcallE simp: Let_def allowed_def learn_def proof_allowed_def recipient_ok_def
      buildWithdrawCircuitInput_def bind_res_Inr split: banswer.splits option.splits if_splits)

lemma safe_withdraw:
  assumes "recipient_ok g st who" and "right_pool g st (string_of_bigint d)" and "deposited dep cm d sig (w_built st)"
    and "\<And>y. wy_success y \<Longrightarrow> \<not> missing (wy_txSignature y) \<Longrightarrow>
      Q (st\<lparr>w_paid := Some (string_of_bigint d, y)\<rparr>) (the (wy_txSignature y), wy_amountLamports y)"
  shows "safe wb g st (withdrawThroughRelayer ml t c ps who fee d) Q"
proof -
  have "request_allowed g st (PostRelayerWithdraw p sg rt n who f (string_of_bigint d))" for p sg rt n f
    using assms(1-3) by (auto simp: request_allowed_def recipient_ok_def follows_def deposited_def split: if_splits)
  then show ?thesis
    unfolding withdrawThroughRelayer_def
    using assms(4) by (auto intro!: safe_bindE safe_pureE safe_ask_withdraw)
qed

text \<open>
  A trip through the mixer: a deposit in the pool was sent, and the relayer has answered a withdrawal
  from that pool with its signature and the amount paid.
\<close>

definition tripped :: "string \<Rightarrow> int \<Rightarrow> watch \<Rightarrow> mixer_trip \<Rightarrow> bool" where
  "tripped depositor d st trip \<longleftrightarrow>
     (\<exists>c. deposited depositor c d (mt_depositSignature trip) (w_built st)) \<and>
     (\<exists>y. w_paid st = Some (string_of_bigint d, y) \<and> wy_success y \<and> wy_txSignature y = Some (mt_withdrawSignature trip) \<and>
        wy_amountLamports y = mt_fundedLamports trip)"

lemma safe_mixerTrip:
  assumes "\<And>c. request_allowed g st (PostMixerDeposit depositor c (string_of_bigint d))" and "sender_ok wb g st n send"
    and "recipient_ok g st who"
    and "\<And>t B y trip. tripped depositor d (st\<lparr>w_built := B, w_paid := y\<rparr>) trip \<Longrightarrow>
      Q (st\<lparr>w_popups := w_popups st + n, w_signed := t, w_built := B, w_paid := y\<rparr>) trip"
  shows "safe wb g st (mixerTrip wb ml depositor send who info fee d) Q"
proof -
  have pool: "right_pool g st (string_of_bigint d)" using assms(1) by (simp add: request_allowed_def)
  have frame: "recipient_ok g (st\<lparr>w_popups := w_popups st + n, w_signed := t, w_built := B\<rparr>) who" for t B
    using assms(3) by (simp add: recipient_ok_def)
  show ?thesis
    unfolding mixerTrip_def
    apply (rule safe_bindE, rule safe_stepE, rule safe_depositIntoMixer [OF assms(1,2)])
    apply (simp only: prod.case)
    apply (rule safe_bindE, rule safe_confirmDeposit)
     apply (auto simp: deposited_def pool)[1]
    apply (rule safe_bindE, rule safe_stepE, rule safe_buildTree, simp add: pool)
    apply (rule safe_bindE, rule safe_stepE, rule safe_prove, rule frame)
    apply (rule safe_bindE, rule safe_stepE, rule safe_withdraw, rule frame, simp add: pool, simp)
    apply (auto simp: tripped_def deposited_def missing_def intro!: assms(4) split: option.splits)
    done
qed

lemma stealth_sender:
  assumes "known wb st ds" and "w_cleared st \<or> gr_open g"
  shows "sender_ok wb g st 0 (signAndSend wb ds)"
  unfolding sender_ok_def
proof (intro allI)
  fix req b64
  show "safe wb g (st\<lparr>w_built := Some (req, b64, None)\<rparr>) (signAndSend wb ds b64)
      (\<lambda>st' s. \<exists>t. st' = st\<lparr>w_popups := w_popups st + 0, w_signed := t, w_built := Some (req, b64, Some s)\<rparr>)"
    by (rule safe_signAndSend [where req = req]) (use assms in \<open>auto intro: exI [of _ "w_signed st"]\<close>)
qed

lemma main_sender:
  assumes "gr_payIn g" and "w_popups st \<le> 1"
  shows "sender_ok wb g st 1 (mainSignAndSend wb)"
  unfolding sender_ok_def
proof (intro allI)
  fix req b64
  show "safe wb g (st\<lparr>w_built := Some (req, b64, None)\<rparr>) (mainSignAndSend wb b64)
      (\<lambda>st' s. \<exists>t. st' = st\<lparr>w_popups := w_popups st + 1, w_signed := t, w_built := Some (req, b64, Some s)\<rparr>)"
    by (rule safe_mainSignAndSend [where req = req]) (use assms in auto)
qed

section \<open>The private exit\<close>









lemma find_largest:
  fixes xs :: "int list"
  shows "sorted xs \<Longrightarrow> find P (rev xs) = Some x \<Longrightarrow> x \<in> set xs \<and> P x \<and> (\<forall>y \<in> set xs. P y \<longrightarrow> y \<le> x)"
  by (induction xs rule: rev_induct) (auto simp: sorted_append split: if_splits)






lemma derived_fresh:
  "derived_from wb fresh_watch st ds \<Longrightarrow>
     known wb st ds \<and> w_popups st \<le> 1 \<and> w_balance st = None \<and> \<not> w_live st \<and> \<not> w_cleared st \<and> w_paid st = None"
  by (cases st) (auto simp: derived_from_def fresh_watch_def)





section \<open>The private claim\<close>

definition claim_grant :: "PrivateClaimInput \<Rightarrow> grant" where
  "claim_grant inp = \<lparr>gr_main = ci_mainWalletAddress inp, gr_payIn = False, gr_payOut = True, gr_sweep = False, gr_open = False,
     gr_pools = LargestPool, gr_target = None\<rparr>"

definition claim_outcome :: "watch \<Rightarrow> PrivateClaimResult \<Rightarrow> bool" where
  "claim_outcome st res \<longleftrightarrow>
     w_live st \<and> w_cleared st \<and> w_popups st \<le> 1 \<and>
     (\<exists>info balance d depositor trip. w_info st = Some info \<and> w_balance st = Some balance \<and>
        largest_fit info balance d \<and> w_stealth st = Some depositor \<and> tripped depositor d st trip \<and>
        cr_selectedDenominationLamports res = string_of_bigint d \<and> cr_residueLamports res = string_of_bigint (balance - d) \<and>
        cr_mixerDepositSignature res = mt_depositSignature trip \<and> cr_relayerWithdrawSignature res = mt_withdrawSignature trip \<and>
        cr_fundedLamports res = mt_fundedLamports trip)"

lemma same_relayerInfo: "claim_relayerInfo = exit_relayerInfo"
  by (simp add: claim_relayerInfo_def exit_relayerInfo_def)

lemma safe_authority:
  assumes "request_allowed g st (GetPoolAuthority s p)"
    and "\<And>a. Q (st\<lparr>w_live := True, w_cleared := (av_exitRecipient a = s)\<rparr>) a"
  shows "safe wb g st (apiCall (GetPoolAuthority s p) as_authority) Q"
  using assms by (auto intro!: safe_apiCall simp: learn_simps elim!: as_authority.elims)

lemma safe_claim_positionState:
  assumes "known wb st ds" and "\<And>p r c. Q (st\<lparr>w_live := True, w_cleared := True, w_range := Some (r, c)\<rparr>) (p, c)"
  shows "safe wb g st (claim_positionState ds pool) Q"
  unfolding claim_positionState_def
  by (rule safe_stepE, rule safe_bindE, rule safe_authority) (use assms in \<open>auto intro!: safe_bindE safe_asks safe_require\<close>)

lemma safe_claim_pick:
  assumes "offers info denoms" and "\<And>d. largest_fit info balance d \<Longrightarrow> Q st (d, balance - d)"
  shows "safe wb g st (claim_pick denoms balance) Q"
proof -
  obtain vs where vs: "map bigint_of_string (advertised info) = map Some vs" "denoms = rev (sort vs)"
    using assms(1) by (auto simp: offers_def)
  have "largest_fit info balance d" if "find (\<lambda>d. d \<le> balance - STEALTH_RESERVE_LAMPORTS) denoms = Some d" for d
    using that vs find_largest [of "sort vs" "\<lambda>d. d \<le> balance - STEALTH_RESERVE_LAMPORTS" d]
    by (auto simp: largest_fit_def intro!: exI [of _ vs])
  then show ?thesis
    unfolding claim_pick_def by (auto intro!: safe_stepE assms(2) split: option.splits)
qed

lemma safe_claim_derive:
  assumes "\<And>st' ds. derived_from wb fresh_watch st' ds \<Longrightarrow> Q st' ds"
  shows "safe wb g fresh_watch (claim_derive wb inp) Q"
  unfolding claim_derive_def
  using assms by (auto intro!: safe_rules simp: fresh_watch_def)

lemma safe_claim_claim:
  assumes "known wb st ds" "w_live st" "w_cleared st" "w_range st = Some (r, config)" and "\<And>x B. Q (st\<lparr>w_built := B\<rparr>) x"
  shows "safe wb g st (claim_claim wb ds config) Q"
  unfolding claim_claim_def
  using assms by (auto intro!: safe_stepE safe_bindE safe_asks safe_signAndSend)

lemma safe_claim_swap:
  assumes "known wb st ds" "w_live st" "w_cleared st" and "\<And>x B. Q (st\<lparr>w_built := B\<rparr>) x"
  shows "safe wb g st (claim_swap wb ds pool sl position) Q"
  unfolding claim_swap_def
  using assms assms(4) [where B = "w_built st"] by (auto intro!: safe_stepE safe_bindE safe_require safe_swapToSol safe_mono [OF safe_parse_bigint] simp: Let_def)

lemma safe_claim_threshold:
  assumes "known wb st ds" "w_balance st = None" and "\<And>n. Q (st\<lparr>w_balance := Some n\<rparr>) n"
  shows "safe wb g st (claim_threshold wb ds smallest) Q"
  unfolding claim_threshold_def
  using assms by (auto intro!: safe_stepE safe_bindE safe_require safe_balance_of)

lemma safe_claim_mix:
  assumes "known wb st ds" "w_cleared st" "w_info st = Some info'" "w_balance st = Some balance" "largest_fit info' balance d"
    and "\<And>t B y trip. tripped (ds_publicKey ds) d (st\<lparr>w_built := B, w_paid := y\<rparr>) trip \<Longrightarrow>
      Q (st\<lparr>w_signed := t, w_built := B, w_paid := y\<rparr>) trip"
  shows "safe wb (claim_grant inp) st (claim_mix wb ml ds inp info fee d) Q"
proof -
  have "right_pool (claim_grant inp) st (string_of_bigint d)" using assms(3-5) by (auto simp: right_pool_def claim_grant_def)
  then show ?thesis
    unfolding claim_mix_def
    by (intro safe_mixerTrip [OF _ stealth_sender]) (use assms(1,2,6) in \<open>auto simp: recipient_ok_def claim_grant_def\<close>)
qed

text \<open>
  C7.  Whatever the answers, a private claim asks the wallet at most once, names the main wallet to
  nobody but the relayer it is paid by, claims and swaps only for a live position whose authority
  pays the stealth wallet, and signs only what the API built and sends it once.  Every request it
  makes of the mixer names the largest advertised pool that fits the balance less the reserve; a
  finished claim has been paid by the relayer from that pool, after its deposit in that pool was sent,
  and reports that pool, those two signatures and that amount.
\<close>

theorem claim_keeps_to_policy:
  "conforms (bstep wb (claim_grant inp)) (\<lambda>st r. case r of Inl e \<Rightarrow> True | Inr res \<Rightarrow> claim_outcome st res)
     fresh_watch (runPrivateClaim wb ml inp)"
  unfolding safe_def [symmetric] runPrivateClaim_def same_relayerInfo
  apply (rule safe_bindE, rule safe_claim_derive, drule derived_fresh)
  apply (rule safe_bindE, rule safe_relayerInfo, unfold prod.case)
  apply (rule safe_bindE, rule safe_claim_positionState, simp, unfold prod.case)
  apply (rule safe_bindE, rule safe_claim_claim, simp, simp, simp, simp)
  apply (rule safe_bindE, rule safe_claim_swap, simp, simp, simp)
  apply (rule safe_bindE, rule safe_claim_threshold, simp, simp)
  apply (rule safe_bindE, erule safe_claim_pick, unfold prod.case)
  apply (rule safe_bindE, rule safe_claim_mix, simp, simp, simp, simp, assumption)
  apply (rule safe_bindE, rule safe_emit)
  apply (auto simp: claim_outcome_def known_def tripped_def)
  done

section \<open>The private deposit\<close>

definition deposit_grant :: "PrivateDepositInput \<Rightarrow> grant" where
  "deposit_grant inp = \<lparr>gr_main = pi_mainWalletAddress inp, gr_payIn = True, gr_payOut = False, gr_sweep = False, gr_open = True,
     gr_pools = OfferedPool (pi_denominationLamports inp),
     gr_target = Some ((pi_poolAddress inp, pi_upperBinId inp - pi_lowerBinId inp + 1, pi_lowerBinId inp), pi_shape inp)\<rparr>"

text \<open>The amount was put in the granted range, by the transaction last built and sent.\<close>

definition put_in :: "grant \<Rightarrow> string \<Rightarrow> int \<Rightarrow> string \<Rightarrow> watch \<Rightarrow> bool" where
  "put_in g stealth n sig st \<longleftrightarrow>
     (\<exists>t sh c b64. gr_target g = Some (t, sh) \<and> w_range st = Some (t, c) \<and>
        w_built st = Some (PostAddLiquidityTx stealth c (string_of_bigint n) sh, b64, Some sig))"

definition deposit_outcome :: "PrivateDepositInput \<Rightarrow> watch \<Rightarrow> PrivateDepositResult \<Rightarrow> bool" where
  "deposit_outcome inp st res \<longleftrightarrow>
     w_stealth st = Some (pr_stealthPubkey res) \<and> w_popups st \<le> 2 \<and>
     (\<exists>d y funded. w_paid st = Some (string_of_bigint d, y) \<and> wy_success y \<and>
        wy_txSignature y = Some (pr_relayerWithdrawSignature res) \<and> wy_amountLamports y = pr_fundedLamports res \<and>
        bigint_of_string (pr_fundedLamports res) = Some funded \<and> STEALTH_RESERVE_LAMPORTS < funded \<and>
        put_in (deposit_grant inp) (pr_stealthPubkey res) (funded - STEALTH_RESERVE_LAMPORTS) (pr_fundSignature res) st)"

lemma safe_uuid: "gr_open g \<Longrightarrow> (\<And>u. Q st u) \<Longrightarrow> safe wb g st cryptoRandomUuid Q"
  unfolding cryptoRandomUuid_def
  by (auto intro!: safe_bindE safe_bcallE simp: allowed_def learn_def split: banswer.splits option.splits)

lemma safe_deposit_derive:
  assumes "\<And>st' ds. derived_from wb fresh_watch st' ds \<Longrightarrow> Q st' ds"
  shows "safe wb g fresh_watch (deposit_derive wb inp pos) Q"
  unfolding deposit_derive_def
  using assms by (auto intro!: safe_rules simp: fresh_watch_def)

lemma safe_find_denomination: "safe wb g st (find_denomination n ts) (\<lambda>st' b. st' = st \<and> (b \<longrightarrow> Some n \<in> bigint_of_string ` set ts))"
proof (induction ts)
  case (Cons t ts)
  show ?case
    by (simp, rule safe_then [OF safe_parse_bigint]) (auto intro!: safe_mono [OF Cons.IH] image_eqI [of _ _ t])
qed simp

lemma safe_deposit_relayerInfo:
  assumes "\<And>info d fee. offered info (pi_denominationLamports inp) d \<Longrightarrow> Q (st\<lparr>w_info := Some info\<rparr>) (info, d, fee)"
  shows "safe wb g st (deposit_relayerInfo inp) Q"
proof -
  have info: "safe wb g st (apiCall GetRelayerInfo as_relayerInfo) (\<lambda>st' i. st' = st\<lparr>w_info := Some i\<rparr>)"
    by (rule safe_apiCall) (auto simp: learn_simps elim!: as_relayerInfo.elims)
  show ?thesis
    unfolding deposit_relayerInfo_def
    by (rule safe_bindE, rule safe_emit, rule safe_bindE, rule safe_guarded, rule safe_mono [OF info])
      (auto intro!: safe_bindE safe_emit safe_guarded safe_require assms safe_mono [OF safe_parse_bigint]
        safe_mono [OF safe_find_denomination] simp: offered_def split: option.splits)
qed

lemma safe_deposit_prepare:
  assumes "known wb st ds" and "right_pool g st (string_of_bigint d)" and "\<And>x. Q st x"
  shows "safe wb g st (deposit_prepare inp ds d pos) Q"
  unfolding deposit_prepare_def
  using assms by (auto intro!: safe_stepE safe_asks)

lemma safe_deposit_mix:
  assumes "known wb st ds" "w_popups st \<le> 1" "right_pool (deposit_grant inp) st (string_of_bigint d)"
    and "\<And>t B y trip. tripped (pi_mainWalletAddress inp) d (st\<lparr>w_built := B, w_paid := y\<rparr>) trip \<Longrightarrow>
      Q (st\<lparr>w_popups := Suc (w_popups st), w_signed := t, w_built := B, w_paid := y\<rparr>) trip"
  shows "safe wb (deposit_grant inp) st (deposit_mix wb ml inp ds info fee d) Q"
  unfolding deposit_mix_def
  by (rule safe_mixerTrip [OF _ main_sender])
    (use assms in \<open>auto simp: recipient_ok_def deposit_grant_def request_allowed_def follows_def known_def\<close>)

lemma safe_initPosition:
  assumes "known wb st ds" "w_cleared st \<or> gr_open g" "gr_target g = Some (t, sh)" "w_range st = Some (t, config)"
    and "\<And>i s B. Q (st\<lparr>w_built := B\<rparr>) (i, s)"
  shows "safe wb g st (initPosition wb ds config) Q"
  unfolding initPosition_def
  using assms by (auto intro!: safe_stepE safe_bindE safe_asks safe_signAndSend)

lemma safe_addLiquidity:
  assumes "known wb st ds" "w_cleared st \<or> gr_open g" "gr_target g = Some (t, sh)" "w_range st = Some (t, config)"
    and "to_fund st = Some m" "STEALTH_RESERVE_LAMPORTS < m"
    and "\<And>s B. put_in g (ds_publicKey ds) (m - STEALTH_RESERVE_LAMPORTS) s (st\<lparr>w_built := B\<rparr>) \<Longrightarrow> Q (st\<lparr>w_built := B\<rparr>) s"
  shows "safe wb g st (addLiquidity wb ds config (m - STEALTH_RESERVE_LAMPORTS) sh) Q"
  unfolding addLiquidity_def
  by (rule safe_bindE, rule safe_ask_tx)
    (use assms in \<open>auto intro!: safe_signAndSend simp: put_in_def simp del: split_paired_Ex\<close>)

lemma safe_deposit_fund:
  assumes "known wb st ds" "gr_open g" "gr_target g = Some (t, pi_shape inp)" "w_range st = Some (t, config)"
    and "to_fund st = bigint_of_string funded"
    and "\<And>n s B. bigint_of_string funded = Some n \<Longrightarrow> STEALTH_RESERVE_LAMPORTS < n \<Longrightarrow>
      put_in g (ds_publicKey ds) (n - STEALTH_RESERVE_LAMPORTS) s (st\<lparr>w_built := B\<rparr>) \<Longrightarrow> Q (st\<lparr>w_built := B\<rparr>) s"
  shows "safe wb g st (deposit_fund wb inp ds config funded) Q"
proof -
  have "safe wb g st (addLiquidity wb ds config (n - 5000000) (pi_shape inp)) Q"
    if "bigint_of_string funded = Some n" "5000000 < n" for n
    using safe_addLiquidity [OF assms(1) _ assms(3,4), of n Q] assms(2,5,6) that by (simp add: STEALTH_RESERVE_LAMPORTS_def)
  then show ?thesis
    unfolding deposit_fund_def
    by (intro safe_stepE safe_bindE safe_mono [OF safe_parse_bigint]) (auto intro!: safe_bindE safe_require)
qed

text \<open>
  C5.  Whatever the answers, a private deposit asks the wallet at most twice, once for the stealth
  key and once for the mixer deposit; the main wallet is named in that deposit only, every other
  request names the stealth wallet, to which the proof pays.  Every request of the mixer names the
  pool that was asked for, advertised by the relayer, or its default; the position is opened and funded
  in the range and shape of the deposit, with the configuration the API answered for that range; and a
  finished deposit has put there what the relayer paid out less the reserve, which is more than
  nothing.
\<close>

theorem deposit_keeps_to_policy:
  "conforms (bstep wb (deposit_grant inp)) (\<lambda>st r. case r of Inl e \<Rightarrow> True | Inr res \<Rightarrow> deposit_outcome inp st res)
     fresh_watch (runPrivateDeposit wb ml inp)"
  unfolding safe_def [symmetric] runPrivateDeposit_def Let_def
  apply (rule safe_bindE, rule safe_require)
  apply (rule safe_bindE, rule safe_uuid, simp add: deposit_grant_def)
  apply (rule safe_bindE, rule safe_deposit_derive, drule derived_fresh)
  apply (rule safe_bindE, rule safe_deposit_relayerInfo, unfold prod.case)
  apply (rule safe_bindE, rule safe_deposit_prepare, simp, force simp: right_pool_def deposit_grant_def)
  apply (rule safe_bindE, rule safe_deposit_mix, simp, simp, force simp: right_pool_def deposit_grant_def)
  apply (rule safe_bindE, unfold deposit_usePool_def, rule safe_stepE, rule safe_ask_config)
  apply (rule safe_bindE, rule safe_initPosition, simp, simp add: deposit_grant_def, simp add: deposit_grant_def, simp, unfold prod.case)
  apply (rule safe_bindE, rule safe_deposit_fund, simp, simp add: deposit_grant_def, simp add: deposit_grant_def, simp)
   apply (auto simp: tripped_def to_fund_def)[1]
  apply (rule safe_bindE, rule safe_emit)
  apply (auto simp: deposit_outcome_def known_def tripped_def put_in_def)
  done

section \<open>The rebalance\<close>

definition rebalance_grant :: "PrivateRebalanceInput \<Rightarrow> grant" where
  "rebalance_grant inp = \<lparr>gr_main = bi_mainWalletAddress inp, gr_payIn = False, gr_payOut = False, gr_sweep = False, gr_open = False,
     gr_pools = NoPool,
     gr_target = Some ((bi_poolAddress inp, bi_newUpperBinId inp - bi_newLowerBinId inp + 1, bi_newLowerBinId inp), bi_newShape inp)\<rparr>"

definition rebalance_outcome :: "PrivateRebalanceInput \<Rightarrow> watch \<Rightarrow> PrivateRebalanceResult \<Rightarrow> bool" where
  "rebalance_outcome inp st res \<longleftrightarrow>
     w_live st \<and> w_cleared st \<and> w_popups st \<le> 1 \<and>
     (\<exists>balance stealth. w_balance st = Some balance \<and> STEALTH_RESERVE_LAMPORTS < balance \<and> w_stealth st = Some stealth \<and>
        put_in (rebalance_grant inp) stealth (balance - STEALTH_RESERVE_LAMPORTS) (br_addLiquiditySignature res) st \<and>
        br_fundedLamports res = string_of_bigint (balance - STEALTH_RESERVE_LAMPORTS))"

lemma safe_rebalance_derive:
  assumes "\<And>st' ds. derived_from wb fresh_watch st' ds \<Longrightarrow> Q st' ds"
  shows "safe wb g fresh_watch (rebalance_derive wb inp) Q"
  unfolding rebalance_derive_def
  using assms by (auto intro!: safe_rules simp: fresh_watch_def)

lemma safe_rebalance_positionState:
  assumes "known wb st ds" and "\<And>p r c. Q (st\<lparr>w_live := True, w_cleared := True, w_range := Some (r, c)\<rparr>) (p, c)"
  shows "safe wb g st (rebalance_positionState ds pool) Q"
  unfolding rebalance_positionState_def
  by (rule safe_stepE, rule safe_bindE, rule safe_catch_throw, rule safe_authority)
    (use assms in \<open>auto intro!: safe_bindE safe_asks safe_require\<close>)

lemma safe_rebalance_close:
  assumes "known wb st ds" "w_live st" "w_cleared st" "w_range st = Some (r, config)" and "\<And>x B. Q (st\<lparr>w_built := B\<rparr>) x"
  shows "safe wb g st (rebalance_close wb ds config) Q"
  unfolding rebalance_close_def
  using assms by (auto intro!: safe_stepE safe_bindE safe_asks safe_signAndSend)

lemma safe_rebalance_swap:
  assumes "known wb st ds" "w_live st" "w_cleared st" and "\<And>x B. Q (st\<lparr>w_built := B\<rparr>) x"
  shows "safe wb g st (rebalance_swap wb ds pool sl position) Q"
  unfolding rebalance_swap_def
  using assms assms(4) [where B = "w_built st"] by (auto intro!: safe_stepE safe_bindE safe_require safe_swapToSol safe_mono [OF safe_parse_bigint] simp: Let_def)

lemma safe_rebalance_fund:
  assumes "known wb st ds" "w_cleared st" "w_balance st = None" "w_paid st = None"
    and "gr_target g = Some (t, bi_newShape inp)" "w_range st = Some (t, config)"
    and "\<And>n s B. STEALTH_RESERVE_LAMPORTS < n \<Longrightarrow>
      put_in g (ds_publicKey ds) (n - STEALTH_RESERVE_LAMPORTS) s (st\<lparr>w_balance := Some n, w_built := B\<rparr>) \<Longrightarrow>
      Q (st\<lparr>w_balance := Some n, w_built := B\<rparr>) (s, n - STEALTH_RESERVE_LAMPORTS)"
  shows "safe wb g st (rebalance_fund wb inp ds config) Q"
  unfolding rebalance_fund_def
  using assms
  by (auto intro!: safe_stepE safe_bindE safe_require safe_balance_of safe_addLiquidity simp: Let_def to_fund_def)

text \<open>
  C23.  Whatever the answers, a rebalance asks the wallet at most once and names the main wallet to
  nobody; it closes and swaps only a live position whose authority pays the stealth wallet, and signs
  only what the API built and sends it once.  A position is opened and funded only in the new range and
  shape, with the configuration the API answered for that range, and with the balance then read less
  the reserve; a finished rebalance has sent that funding and reports its amount and signature.
\<close>

theorem rebalance_keeps_to_policy:
  "conforms (bstep wb (rebalance_grant inp)) (\<lambda>st r. case r of Inl e \<Rightarrow> True | Inr res \<Rightarrow> rebalance_outcome inp st res)
     fresh_watch (runPrivateRebalance wb inp)"
  unfolding safe_def [symmetric] runPrivateRebalance_def
  apply (rule safe_bindE, rule safe_require)
  apply (rule safe_bindE, rule safe_rebalance_derive, drule derived_fresh)
  apply (rule safe_bindE, rule safe_rebalance_positionState, simp, unfold prod.case)
  apply (rule safe_bindE, rule safe_rebalance_close, simp, simp, simp, simp)
  apply (rule safe_bindE, rule safe_rebalance_swap, simp, simp, simp)
  apply (rule safe_bindE, unfold rebalance_usePool_def, rule safe_stepE, rule safe_ask_config)
  apply (rule safe_bindE, rule safe_initPosition, simp, simp, simp add: rebalance_grant_def, simp, unfold prod.case)
  apply (rule safe_bindE, rule safe_rebalance_fund, simp, simp, simp, simp, simp add: rebalance_grant_def, simp, unfold prod.case)
  apply (rule safe_bindE, rule safe_emit)
  apply (auto simp: rebalance_outcome_def known_def put_in_def)
  done

end
