(* ===== verification/BrowserSteps.thy ===== *)
theory BrowserSteps imports BrowserClaim begin

text \<open>
  What the flows tell the user interface: the events of every flow walk its steps in order, and a
  flow that fails has reported the failing step last.
\<close>

section \<open>A protocol of step events\<close>

primrec rank :: "step_key \<Rightarrow> nat" where
  "rank DeriveStep = 0" | "rank RelayerInfoStep = 1" | "rank PrepareStep = 2" | "rank PositionStateStep = 3"
| "rank CloseStep = 4" | "rank ClaimStep = 5" | "rank SwapStep = 6" | "rank ThresholdStep = 7" | "rank PickStep = 8"
| "rank DustSweepStep = 9" | "rank MixerDepositStep = 10" | "rank ConfirmDepositStep = 11" | "rank BuildTreeStep = 12"
| "rank ProveStep = 13" | "rank RelayerWithdrawStep = 14" | "rank UsePoolStep = 15" | "rank InitPositionStep = 16"
| "rank AddLiquidityStep = 17" | "rank DoneStep = 18"

text \<open>
  Between steps, with the least rank still to come; in a step; in the confirmation after it was
  reported broken; stopped at a step.
\<close>

datatype progress = Between nat | During step_key | Warned | Stopped step_key

definition quiet :: "bcall \<Rightarrow> bool" where
  "quiet c \<longleftrightarrow> (\<forall>k s. c \<noteq> Emit k s)"

fun told :: "progress \<Rightarrow> bcall \<Rightarrow> string + banswer \<Rightarrow> progress option" where
  "told (Between n) (Emit k Begun) r = (if n \<le> rank k then Some (During k) else None)"
| "told (Between n) (Emit k Passed) r =
     (if n \<le> rank k \<and> k \<in> {CloseStep, SwapStep, DoneStep} then Some (Between (Suc (rank k))) else None)"
| "told (Between n) c r = (if quiet c \<and> n = 0 \<and> (c = RandomUuid \<or> c = RandomBytes 16) then Some (Between 0) else None)"
| "told (During k) (Emit k' s) r =
     (if k' \<noteq> k then None
      else case s of Begun \<Rightarrow> None | Passed \<Rightarrow> Some (Between (Suc (rank k)))
        | Broken \<Rightarrow> Some (if k = ConfirmDepositStep then Warned else Stopped k))"
| "told (During k) c r = Some (During k)"
| "told Warned c r = (if c = Emit ConfirmDepositStep Passed then Some (Between (Suc (rank ConfirmDepositStep))) else None)"
| "told (Stopped k) c r = None"

text \<open>
  A flow ends well after its last step.  It ends badly where it has reported a broken step, before
  the first step, or in the middle of the relayer information, whose numbers are parsed outside the
  handler that reports errors.
\<close>

definition failed_at :: "progress \<Rightarrow> bool" where
  "failed_at ph \<longleftrightarrow> (\<exists>k. ph = Stopped k) \<or> ph = Between 0 \<or> ph = During RelayerInfoStep"

definition tells :: "progress \<Rightarrow> 'a flow \<Rightarrow> (progress \<Rightarrow> 'a \<Rightarrow> bool) \<Rightarrow> bool" where
  "tells ph p Q = conforms told (\<lambda>ph' r. case r of Inl e \<Rightarrow> failed_at ph' | Inr a \<Rightarrow> Q ph' a) ph p"

lemma told_quiet: "quiet c \<Longrightarrow> told (During k) c r = Some (During k)"
  by (cases c) (auto simp: quiet_def)

lemma quiet_stays: "makes_only quiet p \<Longrightarrow> conforms told (\<lambda>ph r. ph = During k) (During k) p"
  by (induction p) (auto simp: told_quiet)

lemma tells_bindE: "tells ph p (\<lambda>ph' a. tells ph' (f a) Q) \<Longrightarrow> tells ph (bindE p f) Q"
  unfolding tells_def by (rule conforms_bindE) (auto elim!: conforms_mono split: sum.splits)

lemma tells_returnE [simp]: "tells ph (returnE a) Q = Q ph a"
  by (simp add: tells_def)

lemma tells_mono: "tells ph p Q \<Longrightarrow> (\<And>ph' a. Q ph' a \<Longrightarrow> Q' ph' a) \<Longrightarrow> tells ph p Q'"
  unfolding tells_def by (erule conforms_mono) (auto split: sum.splits)

lemma tells_begin: "n \<le> rank k \<Longrightarrow> Q (During k) () \<Longrightarrow> tells (Between n) (emit k Begun) Q"
  by (simp add: tells_def emit_def)

lemma tells_end: "Q (Between (Suc (rank k))) () \<Longrightarrow> tells (During k) (emit k Passed) Q"
  by (simp add: tells_def emit_def)

lemma tells_skip: "n \<le> rank k \<Longrightarrow> k \<in> {CloseStep, SwapStep, DoneStep} \<Longrightarrow> Q (Between (Suc (rank k))) () \<Longrightarrow> tells (Between n) (emit k Passed) Q"
  by (simp add: tells_def emit_def)

lemma tells_guarded:
  assumes "makes_only quiet p" and "k \<noteq> ConfirmDepositStep" and "\<And>a. Q (During k) a"
  shows "tells (During k) (guarded k p) Q"
  unfolding tells_def guarded_def
  by (rule conforms_catchE, rule conforms_mono [OF quiet_stays [OF assms(1)]])
    (use assms(2,3) in \<open>auto simp: emit_def bindE_def returnE_def throwE_def failed_at_def split: sum.splits\<close>)

lemma tells_stepE:
  assumes "makes_only quiet p" and "k \<noteq> ConfirmDepositStep" and "n \<le> rank k" and "\<And>a. Q (Between (Suc (rank k))) a"
  shows "tells (Between n) (stepE k p) Q"
  unfolding stepE_def
  using assms by (auto intro!: tells_bindE tells_begin tells_end tells_guarded)

lemma tells_parsing: "makes_only quiet p \<Longrightarrow> (\<And>a. Q (During RelayerInfoStep) a) \<Longrightarrow> tells (During RelayerInfoStep) p Q"
  unfolding tells_def by (rule conforms_mono [OF quiet_stays]) (auto simp: failed_at_def split: sum.splits)

section \<open>The bodies of the steps are silent\<close>

named_theorems quiet_rules "programs that report nothing"

lemma quiet_bcallE [quiet_rules]: "quiet c \<Longrightarrow> makes_only quiet (bcallE c get)"
  by (auto simp: bcallE_def split: sum.splits option.splits)

lemma quiet_calls [simp]:
  "quiet (Fetch q)" "quiet (SessionGet t)" "quiet (SessionSet t s)" "quiet (SignMessage w t)" "quiet (SignTransaction w x)"
  "quiet (SendRaw x t)" "quiet LatestBlockhash" "quiet (ConfirmTx t h n)" "quiet (BalanceOf t)" "quiet (RandomBytes m)"
  "quiet RandomUuid" "quiet (FullProve i)"
  by (simp_all add: quiet_def)

lemma quiet_pureE [quiet_rules]: "makes_only quiet (pureE r)"
  by (cases r) (simp_all add: pureE_def)

lemma quiet_require [quiet_rules]: "makes_only quiet (require b e)"
  by (simp add: require_def)

lemma quiet_apiCall [quiet_rules]: "makes_only quiet (apiCall q get)"
  unfolding apiCall_def
  by (auto intro!: makes_only_bindE quiet_bcallE split: prod.splits option.splits)

lemma quiet_parse [quiet_rules]: "makes_only quiet (parse_bigint t)" "makes_only quiet (parse_bigints ts)"
  by (simp add: parse_bigint_def quiet_pureE, induction ts) (auto intro!: makes_only_bindE quiet_pureE simp: parse_bigint_def)

lemma quiet_denominations [quiet_rules]: "makes_only quiet (denominations_desc info)"
  by (auto simp: denominations_desc_def intro!: makes_only_bindE quiet_parse)

lemma quiet_derive_cached: "makes_only quiet (derive_cached wb key msg)"
  by (auto simp: derive_cached_def Let_def intro!: makes_only_bindE quiet_bcallE quiet_pureE split: option.splits)

lemma quiet_derive [quiet_rules]:
  "makes_only quiet (deriveStealthForPool wb main pool)" "makes_only quiet (deriveStealthForPosition wb main pool pos)"
  by (simp_all add: deriveStealthForPool_def deriveStealthForPosition_def quiet_derive_cached)

lemma quiet_wait [quiet_rules]: "makes_only quiet (waitForConfirmation sg h)"
  by (auto simp: waitForConfirmation_def intro!: makes_only_bindE quiet_bcallE)

lemma quiet_sendRaw [quiet_rules]: "makes_only quiet (sendRaw wb t)"
  by (auto simp: sendRaw_def intro!: makes_only_bindE quiet_bcallE quiet_pureE)

lemma quiet_signAndSend [quiet_rules]: "makes_only quiet (signAndSend wb ds b64)"
  by (auto simp: signAndSend_def intro!: makes_only_bindE quiet_rules)

lemma quiet_mainSignAndSend [quiet_rules]: "makes_only quiet (mainSignAndSend wb b64)"
  by (auto simp: mainSignAndSend_def intro!: makes_only_bindE quiet_rules)

lemma quiet_balance [quiet_rules]: "makes_only quiet (balance_of wb k)"
  by (auto simp: balance_of_def intro!: makes_only_bindE quiet_rules)

lemma quiet_publicKeyE [quiet_rules]: "makes_only quiet (publicKeyE wb t)"
  by (simp add: publicKeyE_def quiet_pureE)

lemma quiet_fresh [quiet_rules]: "makes_only quiet (freshCommitment wb)"
  by (auto simp: freshCommitment_def intro!: makes_only_bindE quiet_rules)

lemma quiet_deposit [quiet_rules]:
  "(\<And>b64. makes_only quiet (send b64)) \<Longrightarrow> makes_only quiet (depositIntoMixer wb who send d)"
  by (auto simp: depositIntoMixer_def Let_def intro!: makes_only_bindE quiet_rules split: prod.splits)

lemma quiet_buildTree [quiet_rules]: "makes_only quiet (buildTree wb ml c d)"
  by (auto simp: buildTree_def intro!: makes_only_bindE quiet_rules)

lemma quiet_prove [quiet_rules]: "makes_only quiet (proveWithdrawal wb ml t c who rel fee)"
  by (auto simp: proveWithdrawal_def Let_def intro!: makes_only_bindE quiet_rules)

lemma quiet_withdraw [quiet_rules]: "makes_only quiet (withdrawThroughRelayer ml t c ps who fee d)"
  by (auto simp: withdrawThroughRelayer_def intro!: makes_only_bindE quiet_rules)

lemma quiet_swap [quiet_rules]: "makes_only quiet (swapToSol wb ds pool sl dir n)"
  by (auto simp: swapToSol_def intro!: makes_only_bindE quiet_rules split: prod.splits)

lemma quiet_sweep [quiet_rules]: "makes_only quiet (executeStealthSweep wb ds main)"
  by (auto simp: executeStealthSweep_def Let_def intro!: makes_only_bindE quiet_rules split: prod.splits)

lemma quiet_authorityIfAny [quiet_rules]: "makes_only quiet (poolAuthorityIfAny s p)"
  by (auto simp: poolAuthorityIfAny_def intro!: makes_only_bindE makes_only_catchE quiet_rules)

section \<open>The shared steps\<close>

lemma tells_confirm:
  assumes "n \<le> 11" and "Q (Between 12) ()"
  shows "tells (Between n) (confirmDepositStep c i sg d) Q"
proof -
  have tried: "tells (During ConfirmDepositStep) (catchE (apiCall req as_anything) (\<lambda>_. emit ConfirmDepositStep Broken))
      (\<lambda>ph u. ph \<in> {During ConfirmDepositStep, Warned})" for req
    unfolding tells_def
    by (rule conforms_catchE, rule conforms_mono [OF quiet_stays [OF quiet_apiCall]])
      (auto simp: emit_def returnE_def split: sum.splits)
  have passed: "tells ph (emit ConfirmDepositStep Passed) Q" if "ph \<in> {During ConfirmDepositStep, Warned}" for ph
    using that assms(2) by (auto simp: tells_def emit_def)
  have both: "tells (During ConfirmDepositStep)
      (bindE (catchE (apiCall req as_anything) (\<lambda>_. emit ConfirmDepositStep Broken)) (\<lambda>_. emit ConfirmDepositStep Passed)) Q" for req
    by (rule tells_bindE, rule tells_mono [OF tried], rule passed)
  show ?thesis
    unfolding confirmDepositStep_def
    by (rule tells_bindE, rule tells_begin, use assms(1) in simp, rule both)
qed

lemma tells_mixerTrip:
  assumes "\<And>b64. makes_only quiet (send b64)" and "n \<le> 10" and "\<And>x. Q (Between 15) x"
  shows "tells (Between n) (mixerTrip wb ml who send recipient info fee d) Q"
  unfolding mixerTrip_def
  using assms
  by (auto intro!: tells_bindE tells_stepE tells_confirm quiet_rules split: prod.splits)

lemma tells_relayerInfo: "n \<le> 1 \<Longrightarrow> (\<And>x. Q (Between (Suc (Suc 0))) x) \<Longrightarrow> tells (Between n) exit_relayerInfo Q"
  unfolding exit_relayerInfo_def
  apply (rule tells_bindE, rule tells_begin, simp)
  apply (rule tells_bindE, rule tells_guarded, rule quiet_apiCall, simp)
  apply (rule tells_bindE, rule tells_parsing, rule quiet_parse)
  apply (rule tells_bindE, rule tells_parsing, rule quiet_denominations)
  apply (rule tells_bindE, rule tells_guarded, rule quiet_require, simp)
  apply (rule tells_bindE, rule tells_end)
  apply simp
  done

section \<open>The four flows\<close>

definition ended_well :: "progress \<Rightarrow> 'a \<Rightarrow> bool" where
  "ended_well ph a \<longleftrightarrow> ph = Between 19"

lemma tells_exit_close:
  "(live \<noteq> None \<Longrightarrow> Q (Between 5) sig') \<Longrightarrow> (\<And>sig. live \<noteq> None \<Longrightarrow> Q (Between 5) sig) \<Longrightarrow> (live = None \<Longrightarrow> Q (Between 7) None) \<Longrightarrow>
     tells (Between 4) (exit_close wb ds live) Q"
  unfolding exit_close_def
  by (auto intro!: tells_bindE tells_skip tells_stepE makes_only_bindE quiet_rules split: option.splits prod.splits)

lemma tells_exit_swap:
  "(\<And>sig. live \<noteq> None \<Longrightarrow> Q (Between 7) sig) \<Longrightarrow> (live = None \<Longrightarrow> Q (Between n) None) \<Longrightarrow> (live \<noteq> None \<Longrightarrow> n \<le> 6) \<Longrightarrow>
     tells (Between n) (exit_swap wb ds pool sl live) Q"
  unfolding exit_swap_def
  by (auto intro!: tells_stepE makes_only_bindE quiet_rules simp: Let_def split: option.splits prod.splits)

lemma tells_exit_finish: "tells (Between 4) (exit_finish wb ml inp ds info fee denoms live) ended_well"
proof -
  have sweep: "tells (Between 9) (exit_dustSweep wb ds inp closeSig swapSig) ended_well" for closeSig swapSig
    by (auto simp: exit_dustSweep_def ended_well_def intro!: tells_bindE tells_stepE tells_skip quiet_rules)
  have mix: "tells (Between 9) (exit_mix wb ml ds inp info fee closeSig swapSig d residue) ended_well" for closeSig swapSig d residue
    by (auto simp: exit_mix_def ended_well_def intro!: tells_bindE tells_mixerTrip tells_skip quiet_rules)
  have rest: "tells (Between 7) (bindE (exit_pick wb ds denoms allowDust) (\<lambda>picked. case picked of
      None \<Rightarrow> exit_dustSweep wb ds inp closeSig swapSig
    | Some (d, residue) \<Rightarrow> exit_mix wb ml ds inp info fee closeSig swapSig d residue)) ended_well" for allowDust closeSig swapSig
    unfolding exit_pick_def
    by (rule tells_bindE, rule tells_stepE)
      (auto intro!: makes_only_bindE quiet_rules sweep mix simp: Let_def split: option.splits)
  show ?thesis
    unfolding exit_finish_def
    by (rule tells_bindE, rule tells_exit_close; rule tells_bindE, rule tells_exit_swap) (auto intro: rest)
qed

lemma tells_exit: "tells (Between 0) (runPrivateExit wb ml inp) ended_well"
  unfolding runPrivateExit_def exit_derive_def exit_positionState_def
  apply (rule tells_bindE, rule tells_stepE)
  apply (auto intro!: quiet_rules) [3]
  apply (rule tells_bindE, rule tells_relayerInfo, simp, clarsimp)
  apply (rule tells_bindE, rule tells_stepE)
  apply (auto intro!: makes_only_bindE quiet_rules tells_exit_finish split: option.splits)
  done

lemma same_info: "claim_relayerInfo = exit_relayerInfo"
  by (simp add: claim_relayerInfo_def exit_relayerInfo_def)

lemma tells_claim: "tells (Between 0) (runPrivateClaim wb ml inp) ended_well"
  unfolding runPrivateClaim_def claim_derive_def claim_positionState_def claim_claim_def claim_swap_def claim_threshold_def
    claim_pick_def claim_mix_def
  apply (rule tells_bindE, rule tells_stepE)
  apply (auto intro!: quiet_rules) [3]
  apply (rule tells_bindE, unfold same_info, rule tells_relayerInfo, simp, clarsimp)
  apply (rule tells_bindE, rule tells_stepE, auto intro!: makes_only_bindE quiet_rules) [1]
  apply (auto intro!: tells_bindE tells_stepE tells_mixerTrip tells_skip makes_only_bindE quiet_rules simp: Let_def ended_well_def
      split: option.splits prod.splits)
  done

lemma tells_initPosition: "n \<le> 16 \<Longrightarrow> (\<And>x. Q (Between 17) x) \<Longrightarrow> tells (Between n) (initPosition wb ds config) Q"
  unfolding initPosition_def
  by (rule tells_stepE) (auto intro!: makes_only_bindE quiet_rules)

lemma quiet_addLiquidity [quiet_rules]: "makes_only quiet (addLiquidity wb ds config n sh)"
  by (auto simp: addLiquidity_def intro!: makes_only_bindE quiet_rules split: prod.splits)

lemma quiet_find [quiet_rules]: "makes_only quiet (find_denomination n ts)"
  by (induction ts) (auto intro!: makes_only_bindE quiet_rules)

lemma tells_require: "(b \<Longrightarrow> Q (Between 0) ()) \<Longrightarrow> tells (Between 0) (require b e) Q"
  by (auto simp: require_def tells_def failed_at_def)

lemma tells_uuid: "(\<And>u. Q (Between 0) u) \<Longrightarrow> tells (Between 0) cryptoRandomUuid Q"
  by (auto simp: cryptoRandomUuid_def tells_def bcallE_def failed_at_def bindE_def returnE_def throwE_def split: sum.splits option.splits)

lemma tells_deposit_info:
  assumes "n \<le> 1" and "\<And>x. Q (Between (Suc (Suc 0))) x"
  shows "tells (Between n) (deposit_relayerInfo inp) Q"
proof -
  have choose: "tells (During RelayerInfoStep) (case pi_denominationLamports inp of
      None \<Rightarrow> parse_bigint (rv_denominationLamports info)
    | Some t \<Rightarrow>
        bindE (parse_bigint t) (\<lambda>requested.
        bindE (case rv_pools info of None \<Rightarrow> returnE False | Some ps \<Rightarrow> find_denomination requested ps) (\<lambda>matched.
        bindE (guarded RelayerInfoStep (require matched msg)) (\<lambda>_. returnE requested))))
      (\<lambda>ph d. ph = During RelayerInfoStep)" for info msg
  proof (cases "pi_denominationLamports inp")
    case None
    then show ?thesis by (auto intro!: tells_parsing quiet_rules)
  next
    case (Some t)
    show ?thesis
      unfolding Some option.case
      by (rule tells_bindE, rule tells_parsing, rule quiet_parse, rule tells_bindE, rule tells_parsing)
        (auto intro!: quiet_find tells_bindE tells_guarded quiet_require split: option.splits)
  qed
  show ?thesis
    unfolding deposit_relayerInfo_def
    apply (rule tells_bindE, rule tells_begin, use assms(1) in simp)
    apply (rule tells_bindE, rule tells_guarded, rule quiet_apiCall, simp)
    apply (rule tells_bindE, rule tells_mono [OF choose], simp)
    apply (rule tells_bindE, rule tells_parsing, rule quiet_parse)
    apply (rule tells_bindE, rule tells_end)
    apply (use assms(2) in simp)
    done
qed

lemma tells_deposit: "tells (Between 0) (runPrivateDeposit wb ml inp) ended_well"
  unfolding runPrivateDeposit_def deposit_derive_def deposit_prepare_def deposit_mix_def deposit_usePool_def deposit_fund_def Let_def
  apply (rule tells_bindE, rule tells_require)
  apply (rule tells_bindE, rule tells_uuid)
  apply (rule tells_bindE, rule tells_stepE, auto intro!: quiet_rules) [1]
  apply (rule tells_bindE, rule tells_deposit_info, simp, clarsimp)
  apply (auto intro!: tells_bindE tells_stepE tells_mixerTrip tells_initPosition tells_skip makes_only_bindE quiet_rules simp: ended_well_def
      split: option.splits prod.splits)
  done

lemma tells_rebalance: "tells (Between 0) (runPrivateRebalance wb inp) ended_well"
  unfolding runPrivateRebalance_def rebalance_derive_def rebalance_positionState_def rebalance_close_def rebalance_swap_def
    rebalance_usePool_def rebalance_fund_def Let_def
  apply (rule tells_bindE, rule tells_require)
  apply (auto intro!: tells_bindE tells_stepE tells_initPosition tells_skip makes_only_bindE makes_only_catchE quiet_rules simp: ended_well_def
      split: option.splits prod.splits)
  done

text \<open>
  C33.  Whatever is answered, each flow announces its steps one at a time and in their order, makes
  every call inside the step it has announced, and reports each step it has finished.  A flow that
  returns has reported all of them, the last being done; the identifier of a new position is drawn before the first step.  A flow that throws has made no call
  after the step it reports as broken; the exceptions are a throw before the first step and a
  relayer answer whose numbers do not parse, which leaves the step of the relayer active.  Only the
  confirmation of a deposit is first reported broken and then passed.
\<close>

theorem flows_report_their_steps:
  fixes ml :: "'t merkle_lib"
  shows "conforms told (\<lambda>ph r. case r of Inl e \<Rightarrow> failed_at ph | Inr a \<Rightarrow> ended_well ph a) (Between 0) (runPrivateExit wb ml xinp) \<and>
    conforms told (\<lambda>ph r. case r of Inl e \<Rightarrow> failed_at ph | Inr a \<Rightarrow> ended_well ph a) (Between 0) (runPrivateClaim wb ml cinp) \<and>
    conforms told (\<lambda>ph r. case r of Inl e \<Rightarrow> failed_at ph | Inr a \<Rightarrow> ended_well ph a) (Between 0) (runPrivateDeposit wb ml dinp) \<and>
    conforms told (\<lambda>ph r. case r of Inl e \<Rightarrow> failed_at ph | Inr a \<Rightarrow> ended_well ph a) (Between 0) (runPrivateRebalance wb rinp)"
  by (intro conjI tells_exit [unfolded tells_def] tells_claim [unfolded tells_def] tells_deposit [unfolded tells_def]
      tells_rebalance [unfolded tells_def])

end
