(* ===== verification/BrowserOutcomes.thy ===== *)
theory BrowserOutcomes imports BrowserSafety begin

text \<open>
  What the estimate of an exit says about the exit, and what becomes of an exit that fails between
  closing the position and swapping its proceeds.
\<close>

section \<open>The estimate against the choice of a pool\<close>

text \<open>An API and a node that answer every question the same way.\<close>

definition steady ::
  "RelayerInfoView \<Rightarrow> AuthorityView option \<Rightarrow> PositionStateView \<Rightarrow> SwapQuoteResult option \<Rightarrow> int \<Rightarrow>
     bcall \<Rightarrow> unit \<Rightarrow> (string + banswer) \<times> unit" where
  "steady info auth pos quote balance c u =
     (case c of
        Fetch GetRelayerInfo \<Rightarrow> Inr (Response 200 [] (Some (JRelayerInfo info)))
      | Fetch (GetPoolAuthority s p) \<Rightarrow>
          (case auth of None \<Rightarrow> Inr (Response 404 [] None) | Some a \<Rightarrow> Inr (Response 200 [] (Some (JAuthority a))))
      | Fetch (GetPositionState p q) \<Rightarrow> Inr (Response 200 [] (Some (JPosition pos)))
      | Fetch (GetSwapQuote p n d s) \<Rightarrow>
          (case quote of None \<Rightarrow> Inr (Response 503 [] None) | Some q \<Rightarrow> Inr (Response 200 [] (Some (JQuote q))))
      | BalanceOf k \<Rightarrow> Inr (Amount balance)
      | _ \<Rightarrow> Inr Nothing, u)"

lemma run_apiCall:
  "run h (apiCall req get) w =
     (case h (Fetch req) w of
        (Inl e, w') \<Rightarrow> (Inl e, w')
      | (Inr (Response st t b), w') \<Rightarrow>
          (if \<not> (200 \<le> st \<and> st \<le> 299) then (Inl (api_error st t), w')
           else case b of
               None \<Rightarrow> (Inl ''Unexpected token in JSON'', w')
             | Some j \<Rightarrow> (case get j of Some x \<Rightarrow> (Inr x, w') | None \<Rightarrow> (Inl ''unexpected value'', w')))
      | (Inr _, w') \<Rightarrow> (Inl ''unexpected value'', w'))"
  by (auto simp: apiCall_def bcallE_def run_simps split: prod.splits sum.splits banswer.splits option.splits)

lemma run_pureE: "run h (pureE r) w = (r, w)"
  by (cases r) (simp_all add: pureE_def)

lemma run_parse: "bigint_of_string t = Some n \<Longrightarrow> run h (parse_bigint t) w = (Inr n, w)"
  by (simp add: parse_bigint_def BigInt_text_def run_pureE)

lemma run_parses: "map bigint_of_string ts = map Some ns \<Longrightarrow> run h (parse_bigints ts) w = (Inr ns, w)"
  by (induction ts arbitrary: ns) (auto simp: run_simps run_parse Cons_eq_map_conv)

lemma run_denominations:
  "map bigint_of_string (advertised info) = map Some ds \<Longrightarrow> run h (denominations_desc info) w = (Inr (rev (sort ds)), w)"
  by (simp add: denominations_desc_def advertised_def run_simps run_parses)

lemma run_require: "run h (require b e) w = (if b then (Inr (), w) else (Inl e, w))"
  by (simp add: require_def run_guardE)

lemma run_emit: "run h (emit k s) w = (Inr (), snd (h (Emit k s) w))"
  by (simp add: emit_def)

lemma run_balance_of: "web_PublicKey wb k \<noteq> None \<Longrightarrow> run (steady i a p q n) (balance_of wb k) u = (Inr n, u)"
  by (simp add: balance_of_def bcallE_def steady_def run_require run_simps)

lemma last_descending:
  fixes ds :: "int list"
  assumes "ds \<noteq> []"
  shows "last (rev (sort ds)) = Min (set ds)"
proof (rule Min_eqI [symmetric])
  have "sort ds \<noteq> []" using assms by (metis set_empty set_sort)
  then obtain x xs where x: "sort ds = x # xs" by (cases "sort ds") auto
  then have sorted: "sorted (x # xs)" and members: "set ds = set (x # xs)"
    by (metis sorted_sort, metis set_sort)
  show "last (rev (sort ds)) \<in> set ds" using x members by (simp add: last_rev)
  show "last (rev (sort ds)) \<le> y" if "y \<in> set ds" for y using that x sorted members by (auto simp: last_rev)
qed simp

text \<open>The pool an exit picks at a balance.\<close>

lemma find_fits:
  fixes ds :: "int list"
  assumes "ds \<noteq> []"
  shows "find (\<lambda>d. d \<le> n) (rev (sort ds)) = None \<longleftrightarrow> n < Min (set ds)"
  using assms by (auto simp: find_None_iff not_le)

lemma run_exit_pick:
  assumes "web_PublicKey wb (ds_publicKey stealth) \<noteq> None" and "ds \<noteq> []" and "\<forall>d \<in> set ds. 0 < d"
  shows "fst (run (steady i a p q n) (exit_pick wb stealth (rev (sort ds)) True) u) =
     (if n \<le> STEALTH_RESERVE_LAMPORTS then Inl ''Stealth balance below reserve. Close + swap may have failed.''
      else if n - STEALTH_RESERVE_LAMPORTS < Min (set ds) then Inr None
      else Inr (map_option (\<lambda>d. (d, n - d)) (find (\<lambda>d. d \<le> n - STEALTH_RESERVE_LAMPORTS) (rev (sort ds)))))"
proof -
  have "0 \<notin> set (rev (sort ds))" using assms(3) by auto
  then have "find P (rev (sort ds)) \<noteq> Some 0" for P
    by (metis find_Some_iff nth_mem)
  then show ?thesis
    using find_fits [OF assms(2), of "n - STEALTH_RESERVE_LAMPORTS"] assms(1)
    by (auto simp: exit_pick_def stepE_def guarded_def run_simps run_emit run_require run_balance_of Let_def steady_def
        split: option.splits)
qed

section \<open>An exit that stops between the close and the swap\<close>

text \<open>
  A chain and an API in small: the close empties the position into the stealth wallet and reaps the
  authority, the swap turns the other token into SOL, and both are recognised by their text.
\<close>

record venue =
  ve_open :: bool
  ve_quoting :: bool
  ve_held :: int
  ve_sol :: int
  ve_tokens :: int

definition small_web :: web where
  "small_web = \<lparr>web_window = (\<lambda>_. None), web_sha256 = id, web_fromSeed = (\<lambda>_. Some ''s''), web_PublicKey = (\<lambda>_. Some []),
     web_base58 = (\<lambda>_. ''m''), web_decodeTx = (\<lambda>t. Inr \<lparr>wt_message = BuiltByServer t, wt_recentBlockhash = Some ''h'', wt_signedBy = []\<rparr>),
     web_partialSign = (\<lambda>t k. Inr (t\<lparr>wt_signedBy := [k]\<rparr>)),
     web_serialize = (\<lambda>t. Inr (case wt_message t of BuiltByServer x \<Rightarrow> x | TransferSol a b n \<Rightarrow> ''sweep'')), web_poseidon = sum_list\<rparr>"

definition small_position :: "int \<Rightarrow> PositionStateView" where
  "small_position held = \<lparr>sv_lbPair = ''p'', sv_lowerBinId = 0, sv_upperBinId = 0, sv_activeBinId = 0,
     sv_tokenXMint = ''t'', sv_tokenYMint = NATIVE_MINT_TEXT, sv_decimalsX = 6, sv_decimalsY = 9,
     sv_feeXLamports = ''0'', sv_feeYLamports = ''0'', sv_totalXLamports = string_of_bigint held, sv_totalYLamports = ''9000000'',
     sv_feeUsd = Fin 0, sv_valueUsd = Fin 0, sv_priceXUsd = Fin 0, sv_priceYUsd = Fin 0\<rparr>"

definition ok_json :: "json \<Rightarrow> string + banswer" where
  "ok_json j = Inr (Response 200 [] (Some j))"

fun venue_reply :: "http_request \<Rightarrow> venue \<Rightarrow> string + banswer" where
  "venue_reply GetRelayerInfo v =
     ok_json (JRelayerInfo \<lparr>rv_relayerPubkey = ''r'', rv_feeLamports = ''1'', rv_denominationLamports = ''1000000000'', rv_pools = None\<rparr>)"
| "venue_reply (GetPoolAuthority s p) v =
     (if ve_open v then
        ok_json (JAuthority \<lparr>av_pda = ''a'', av_stealthPubkey = s, av_lbPair = p, av_position = ''q'', av_exitRecipient = s, av_range = None\<rparr>)
      else Inr (Response 404 [] None))"
| "venue_reply (GetPositionState p q) v = ok_json (JPosition (small_position (ve_held v)))"
| "venue_reply (PostUsePool p w l) v =
     ok_json (JConfig \<lparr>tc_tokenX = ''t'', tc_tokenY = NATIVE_MINT_TEXT, tc_lbPair = p, tc_binArrayLower = ''l'', tc_binArrayUpper = ''u'',
       tc_lowerBinId = l, tc_upperBinId = l + w - 1, tc_width = w, tc_activeBin = 0, tc_binStep = 10, tc_baseFactor = 10000\<rparr>)"
| "venue_reply (PostWithdrawCloseTx s c) v = ok_json (JTransaction ''close'' s)"
| "venue_reply (PostSwapTx s p i m d) v = ok_json (JTransaction ''swap'' s)"
| "venue_reply (GetSwapQuote p n d sl) v =
     (if ve_quoting v then
        ok_json (JQuote \<lparr>sq_amountIn = ''70'', sq_expectedOut = ''1100'', sq_minOut = ''1000'', sq_allowedSlippageBps = sl, sq_consumedIn = ''70'',
          sq_feeLamports = ''0'', sq_priceImpact = ''0'', sq_endPrice = ''0'', sq_swapForY = d\<rparr>)
      else Inr (Response 503 [] None))"
| "venue_reply _ v = Inr (Response 500 [] None)"

fun venue_step :: "bcall \<Rightarrow> venue \<Rightarrow> (string + banswer) \<times> venue" where
  "venue_step (Fetch req) v = (venue_reply req v, v)"
| "venue_step (SessionGet k) v = (Inr (Cached (Some [])), v)"
| "venue_step (BalanceOf k) v = (Inr (Amount (ve_sol v)), v)"
| "venue_step LatestBlockhash v = (Inr (Hash ''h'' 1), v)"
| "venue_step (ConfirmTx s h n) v = (Inr (Included None), v)"
| "venue_step (SendRaw t wire) v =
     (Inr (Word wire),
      if wire = ''close'' then v\<lparr>ve_open := False, ve_sol := ve_sol v + 9000000, ve_tokens := ve_tokens v + ve_held v\<rparr>
      else if wire = ''swap'' then v\<lparr>ve_tokens := 0, ve_sol := ve_sol v + 1000\<rparr>
      else v\<lparr>ve_sol := 0\<rparr>)"
| "venue_step c v = (Inr Nothing, v)"

definition small_exit :: PrivateExitInput where
  "small_exit = \<lparr>xi_mainWalletAddress = ''m'', xi_poolAddress = ''p'', xi_positionId = None, xi_slippageBps = None, xi_allowDustSweep = True\<rparr>"

definition exit_run :: "venue \<Rightarrow> (string + PrivateExitResult) \<times> venue" where
  "exit_run v = run venue_step (runPrivateExit small_web list_tree small_exit) v"

definition full_position :: "bool \<Rightarrow> int \<Rightarrow> venue" where
  "full_position quoting held = \<lparr>ve_open = True, ve_quoting = quoting, ve_held = held, ve_sol = 0, ve_tokens = 0\<rparr>"

definition closed_unswapped :: "bool \<Rightarrow> int \<Rightarrow> venue" where
  "closed_unswapped quoting held = \<lparr>ve_open = False, ve_quoting = quoting, ve_held = held, ve_sol = 9000000, ve_tokens = held\<rparr>"

lemma run_bcallE: "run h (bcallE c get) w =
   (case h c w of (Inl e, w') \<Rightarrow> (Inl e, w') | (Inr a, w') \<Rightarrow> (case get a of Some x \<Rightarrow> (Inr x, w') | None \<Rightarrow> (Inl ''unexpected value'', w')))"
  by (auto simp: bcallE_def split: prod.splits sum.splits option.splits)

lemma run_guarded: "run h (guarded k p) w =
   (case run h p w of (Inl e, w') \<Rightarrow> (Inl e, snd (h (Emit k Broken) w')) | (Inr a, w') \<Rightarrow> (Inr a, w'))"
  by (auto simp: guarded_def run_simps run_emit split: prod.splits sum.splits)

lemma run_stepE: "run h (stepE k p) w =
   (case run h p (snd (h (Emit k Begun) w)) of (Inl e, w') \<Rightarrow> (Inl e, snd (h (Emit k Broken) w')) | (Inr a, w') \<Rightarrow> (Inr a, snd (h (Emit k Passed) w')))"
  by (auto simp: stepE_def run_simps run_emit run_guarded split: prod.splits sum.splits)

lemmas small_defs = small_web_def small_exit_def small_position_def full_position_def closed_unswapped_def ok_json_def

lemma numerals: "bigint_of_string ''1'' = Some 1" "bigint_of_string ''1000000000'' = Some 1000000000" "bigint_of_string ''9000000'' = Some 9000000"
  "bigint_of_string ''0'' = Some 0" "bigint_of_string ''1000'' = Some 1000" 
  by code_simp+

lemma missing_none: "isPoolAuthorityMissingError (api_error 404 [])" by code_simp
lemma e503: "api_error 503 [] = ''API 503: ''" by code_simp

lemma money: "string_of_bigint 8995000 = ''8995000''" "string_of_bigint 5000 = ''5000''" by code_simp+

lemmas small_runs = exit_run_def runPrivateExit_def exit_derive_def exit_relayerInfo_def exit_positionState_def exit_finish_def exit_close_def
    exit_swap_def small_defs run_bindE run_catchE run_bcallE run_guarded run_stepE run_apiCall run_pureE run_require run_emit run_parse numerals e503
    missing_def deriveStealthForPool_def derive_cached_def keypair_of_def denominations_desc_def poolAuthorityIfAny_def signAndSend_def sendRaw_def waitForConfirmation_def
    swapToSol_def NATIVE_MINT_TEXT_def exit_pick_def balance_of_def exit_dustSweep_def executeStealthSweep_def publicKeyE_def STEALTH_RESERVE_LAMPORTS_def
    STEALTH_SWEEP_FEE_LAMPORTS_def missing_none money

text \<open>A run of it: with the quote unavailable the close lands and the exit throws, and the next exit leaves the tokens.\<close>

lemma small_interrupted_exit:
  assumes "0 < held"
  shows "exit_run (full_position False held) = (Inl ''API 503: '', closed_unswapped False held) \<and>
    (\<exists>res. exit_run (closed_unswapped True held) = (Inr res, (closed_unswapped True held)\<lparr>ve_sol := 0\<rparr>) \<and>
       xr_mode res = Swept \<and> xr_swapSignature res = None \<and> xr_fundedLamports res = ''8995000'') \<and>
    ve_tokens (snd (exit_run (full_position True held))) = 0"
  using assms by (simp add: small_runs Let_def)

text \<open>
  Any exit, against any answers: whether the authority was answered as missing, whether the close was
  asked for and sent, whether a quote was not answered, whether the swap was reported as passed.
\<close>

record exit_trace =
  et_gone :: bool
  et_closing :: bool
  et_closed :: bool
  et_unquoted :: bool
  et_reported :: bool


definition answers_missing :: "string + banswer \<Rightarrow> bool" where
  "answers_missing r =
     (case r of
        Inl e \<Rightarrow> isPoolAuthorityMissingError e
      | Inr (Response status body j) \<Rightarrow> \<not> ok_status status \<and> isPoolAuthorityMissingError (api_error status body)
      | _ \<Rightarrow> False)"

definition answers_quote :: "string + banswer \<Rightarrow> bool" where
  "answers_quote r = (case r of Inr (Response status body (Some (JQuote q))) \<Rightarrow> ok_status status | _ \<Rightarrow> False)"

definition trace_step :: "exit_trace \<Rightarrow> bcall \<Rightarrow> string + banswer \<Rightarrow> exit_trace option" where
  "trace_step st c r =
     (if et_unquoted st then (if c = Emit SwapStep Broken then Some st else None)
      else case c of
        Fetch (GetPoolAuthority s p) \<Rightarrow> Some (st\<lparr>et_gone := answers_missing r\<rparr>)
      | Fetch (PostWithdrawCloseTx s cfg) \<Rightarrow> if et_gone st then None else Some (st\<lparr>et_closing := True\<rparr>)
      | Fetch (GetSwapQuote p n d sl) \<Rightarrow> if et_closed st \<and> \<not> et_gone st then Some (st\<lparr>et_unquoted := \<not> answers_quote r\<rparr>) else None
      | Fetch (PostSwapTx s p i m d) \<Rightarrow> if et_closed st \<and> \<not> et_gone st then Some st else None
      | SendRaw t wire \<Rightarrow> Some (st\<lparr>et_closed := et_closed st \<or> et_closing st \<and> (\<exists>s. r = Inr (Word s))\<rparr>)
      | Emit SwapStep Passed \<Rightarrow> Some (st\<lparr>et_reported := True\<rparr>)
      | _ \<Rightarrow> Some st)"


text \<open>Calls the trace takes no notice of.\<close>

fun unnoticed :: "bcall \<Rightarrow> bool" where
  "unnoticed (Fetch (GetPoolAuthority s p)) = False"
| "unnoticed (Fetch (PostWithdrawCloseTx s c)) = False"
| "unnoticed (Fetch (GetSwapQuote p n d sl)) = False"
| "unnoticed (Fetch (PostSwapTx s p i m d)) = False"
| "unnoticed (Emit SwapStep Passed) = False"
| "unnoticed (SendRaw t wire) = False"
| "unnoticed c = True"





definition traced :: "(exit_trace \<Rightarrow> bool) \<Rightarrow> exit_trace \<Rightarrow> 'a flow \<Rightarrow> (exit_trace \<Rightarrow> 'a \<Rightarrow> bool) \<Rightarrow> bool" where
  "traced E st p Q = conforms trace_step (\<lambda>st' r. case r of Inl e \<Rightarrow> E st' | Inr a \<Rightarrow> Q st' a) st p"



lemma traced_returnE [simp]: "traced E st (returnE a) Q = Q st a"
  by (simp add: traced_def)

lemma traced_throwE [simp]: "traced E st (throwE e) Q = E st"
  by (simp add: traced_def)




text \<open>What the parts of an exit call.\<close>

lemma only_bcallE [simp]: "makes_only ok (bcallE c get) \<longleftrightarrow> ok c"
  by (auto simp: bcallE_def split: sum.splits option.splits)

lemma only_emit [simp]: "makes_only ok (emit k s) \<longleftrightarrow> ok (Emit k s)"
  by (simp add: emit_def)

lemma only_pureE [simp]: "makes_only ok (pureE r)"
  by (cases r) (simp_all add: pureE_def)

lemma only_require [simp]: "makes_only ok (require b e)"
  by (simp add: require_def)

lemma only_apiCall [simp]: "ok (Fetch req) \<Longrightarrow> makes_only ok (apiCall req get)"
  unfolding apiCall_def by (rule makes_only_bindE) (auto split: option.splits)

lemma only_guarded: "makes_only ok p \<Longrightarrow> ok (Emit k Broken) \<Longrightarrow> makes_only ok (guarded k p)"
  unfolding guarded_def by (rule makes_only_catchE) (auto intro: makes_only_bindE)

lemma only_stepE: "makes_only ok p \<Longrightarrow> (\<And>s. ok (Emit k s)) \<Longrightarrow> makes_only ok (stepE k p)"
  unfolding stepE_def by (auto intro!: makes_only_bindE only_guarded)

lemma only_parse [simp]: "makes_only ok (parse_bigint t)" "makes_only ok (parse_bigints ts)"
  by (simp add: parse_bigint_def, induction ts) (auto intro!: makes_only_bindE simp: parse_bigint_def)

lemmas only_rules = makes_only_bindE only_stepE only_guarded makes_only_catchE















lemma unnoticed_wait [simp]: "makes_only unnoticed (waitForConfirmation sg h)"
  by (auto intro!: only_rules simp: waitForConfirmation_def)






section \<open>What the estimate is worth\<close>

text \<open>
  What the estimate of an exit is worth.  For a live position it is the SOL of the position and
  the minimum of the quote, less the reserve, and predicts dust when that is below the smallest
  pool.  It leaves out what the stealth wallet already holds and what a swap yields beyond its
  minimum, so only the prediction of no dust is binding: the exit then finds a pool at every
  balance that holds what was estimated.  A prediction of dust binds nothing: at the smallest
  pool and the reserve the exit goes through the mixer, whatever was predicted.
\<close>

theorem only_no_dust_is_binding:
  assumes "web_PublicKey wb (ds_publicKey stealth) \<noteq> None"
    and "map bigint_of_string (advertised info) = map Some ds" and "ds \<noteq> []" and "\<forall>d \<in> set ds. 0 < d"
    and "map bigint_of_string [sv_totalXLamports pos, sv_feeXLamports pos, sv_totalYLamports pos, sv_feeYLamports pos] =
      map Some [x, fx, y, fy]"
    and "sv_tokenXMint pos = NATIVE_MINT_TEXT \<or> sv_tokenYMint pos = NATIVE_MINT_TEXT"
    and "bigint_of_string (sq_minOut quote) = Some m"
    and "(sol, other) = (if sv_tokenXMint pos = NATIVE_MINT_TEXT then (x + fx, y + fy) else (y + fy, x + fx))"
    and "out = (if 0 < other then m else 0)"
  shows "\<exists>est. fst (run (steady info (Some auth) pos (Some quote) b) (preflightEstimateExit wb (ds_publicKey stealth) pool sl) ()) = Inr est \<and>
      xe_estimatedRecoverableLamports est = string_of_bigint (less_reserve (sol + out)) \<and>
      (xe_willBeDust est \<longleftrightarrow> less_reserve (sol + out) < Min (set ds)) \<and>
      (\<not> xe_willBeDust est \<longrightarrow> (\<forall>n \<ge> sol + out. \<exists>d.
         fst (run (steady info a p q n) (exit_pick wb stealth (rev (sort ds)) True) ()) = Inr (Some (d, n - d)))) \<and>
      (let n = Min (set ds) + STEALTH_RESERVE_LAMPORTS in \<exists>d.
         fst (run (steady info a p q n) (exit_pick wb stealth (rev (sort ds)) True) ()) = Inr (Some (d, n - d)))"
proof -
  let ?h = "steady info (Some auth) pos (Some quote) b"
  have positive: "0 < Min (set ds)" using assms(3,4) by simp
  have pick: "\<exists>d. fst (run (steady info a p q n) (exit_pick wb stealth (rev (sort ds)) True) ()) = Inr (Some (d, n - d))"
    if "Min (set ds) + STEALTH_RESERVE_LAMPORTS \<le> n" for n
  proof -
    have "find (\<lambda>d. d \<le> n - STEALTH_RESERVE_LAMPORTS) (rev (sort ds)) \<noteq> None"
      using that find_fits [OF assms(3), of "n - STEALTH_RESERVE_LAMPORTS"] by simp
    with that positive show ?thesis by (auto simp: run_exit_pick [OF assms(1,3,4)])
  qed
  have authority: "run ?h (poolAuthorityIfAny s p') () = (Inr (Some auth), ())" for s p'
    by (simp add: poolAuthorityIfAny_def run_simps run_apiCall steady_def)
  have quoted: "run ?h (quotedOut pool sl' dir other) () = (Inr out, ())" for sl' dir
    using assms(7,9) by (simp add: quotedOut_def run_simps run_apiCall steady_def run_parse)
  have amounts: "run ?h (sol_on_hand pos) () = (Inr sol, ())" "run ?h (non_sol_on_hand pos) () = (Inr other, ())"
    using assms(5,8) by (auto simp: sol_on_hand_def non_sol_on_hand_def sum_bigints_def run_simps run_parse split: if_splits)
  have listed: "rev (sort ds) \<noteq> []" using assms(3) by (metis rev_is_Nil_conv set_empty set_sort)
  have reads: "run ?h (apiCall GetRelayerInfo as_relayerInfo) () = (Inr info, ())"
    "run ?h (apiCall (GetPositionState p' q') as_position) () = (Inr pos, ())" for p' q'
    by (simp_all add: run_apiCall steady_def)
  have est: "fst (run ?h (preflightEstimateExit wb (ds_publicKey stealth) pool sl) ()) =
      Inr \<lparr>xe_estimatedRecoverableLamports = string_of_bigint (less_reserve (sol + out)),
        xe_smallestDenominationLamports = string_of_bigint (Min (set ds)), xe_willBeDust = less_reserve (sol + out) < Min (set ds),
        xe_stealthPubkey = ds_publicKey stealth, xe_positionAlreadyClosed = False\<rparr>"
    unfolding preflightEstimateExit_def
    using assms(6) listed
    by (auto simp: run_bindE reads run_denominations [OF assms(2)] authority amounts quoted estimate_of_def run_require
        last_descending [OF assms(3)] Let_def)
  show ?thesis
    unfolding est Let_def using pick positive by (auto simp: less_reserve_def split: if_splits)
qed

definition small_info :: RelayerInfoView where
  "small_info = \<lparr>rv_relayerPubkey = ''r'', rv_feeLamports = ''1'', rv_denominationLamports = ''1000000000'', rv_pools = None\<rparr>"

definition small_quote :: SwapQuoteResult where
  "small_quote = \<lparr>sq_amountIn = ''70'', sq_expectedOut = ''1100'', sq_minOut = ''1000'', sq_allowedSlippageBps = Fin 500, sq_consumedIn = ''70'',
     sq_feeLamports = ''0'', sq_priceImpact = ''0'', sq_endPrice = ''0'', sq_swapForY = True\<rparr>"

theorem only_no_dust_is_binding_witness:
  "\<exists>est. fst (run (steady small_info (Some \<lparr>av_pda = ''a'', av_stealthPubkey = ''s'', av_lbPair = ''p'', av_position = ''q'',
        av_exitRecipient = ''s'', av_range = None\<rparr>) (small_position 70) (Some small_quote) 0)
      (preflightEstimateExit small_web ''s'' ''p'' None) ()) = Inr est \<and> xe_willBeDust est"
  by (rule exE [OF only_no_dust_is_binding [of small_web "\<lparr>ds_keypair = [], ds_publicKey = ''s''\<rparr>" small_info "[1000000000]" "small_position 70"
      70 0 9000000 0 small_quote 1000 9000000 70 1000
      "\<lparr>av_pda = ''a'', av_stealthPubkey = ''s'', av_lbPair = ''p'', av_position = ''q'', av_exitRecipient = ''s'', av_range = None\<rparr>" 0 "''p''" None]])
    (auto simp: small_web_def small_info_def small_quote_def small_position_def advertised_def numerals NATIVE_MINT_TEXT_def less_reserve_def
      STEALTH_RESERVE_LAMPORTS_def Let_def)

end
