(* ===== verification/SolanaTx.thy ===== *)
theory SolanaTx imports RelayerService JsArithmetic begin

text \<open>
  common/solana-tx.ts: one confirmed transaction out of several attempts, with a compute budget from
  a simulation and a priority fee from recent samples.  Compiling and signing a message is the
  parameter \<open>tx_lib\<close>; log lines are left out.
\<close>

section \<open>Options and calls\<close>

definition DEFAULT_MAX_ATTEMPTS :: int where "DEFAULT_MAX_ATTEMPTS = 3"
definition SOLANA_MAX_CU :: int where "SOLANA_MAX_CU = 1400000"
definition CU_SAFETY_MULTIPLIER :: js_num where "CU_SAFETY_MULTIPLIER = fl64 (12 / 10)"
definition DEFAULT_MAX_PRIORITY_FEE_MICROLAMPORTS :: int where "DEFAULT_MAX_PRIORITY_FEE_MICROLAMPORTS = 10000000"
definition DEFAULT_MIN_PRIORITY_FEE_MICROLAMPORTS :: int where "DEFAULT_MIN_PRIORITY_FEE_MICROLAMPORTS = 1000"
definition DEFAULT_CU :: int where "DEFAULT_CU = 400000"

text \<open>The instructions are opaque; a signer is the base58 text of its key.\<close>

record SubmitConfirmedOptions =
  so_instructions :: "string list"
  so_signers :: "string list"
  so_payer :: string
  so_priorityFeeAccounts :: "string list"
  so_computeUnitLimit :: "int option"
  so_skipSimulation :: bool
  so_maxPriorityFee :: int
  so_maxAttempts :: int

text \<open>The options a caller leaves out.\<close>

definition default_options :: "string list \<Rightarrow> string list \<Rightarrow> string \<Rightarrow> SubmitConfirmedOptions" where
  "default_options instructions signers payer =
     \<lparr>so_instructions = instructions, so_signers = signers, so_payer = payer, so_priorityFeeAccounts = [], so_computeUnitLimit = None,
      so_skipSimulation = False, so_maxPriorityFee = DEFAULT_MAX_PRIORITY_FEE_MICROLAMPORTS, so_maxAttempts = DEFAULT_MAX_ATTEMPTS\<rparr>"

text \<open>A versioned transaction: the compute budget, no price in a simulation, and what it is signed by.\<close>

record sol_tx =
  st_units :: int
  st_microLamports :: "js_num option"
  st_instructions :: "string list"
  st_payer :: string
  st_blockhash :: string
  st_signers :: "string list"

record tx_lib =
  tl_compile :: "sol_tx \<Rightarrow> string + sol_tx"
  tl_signature :: "sol_tx \<Rightarrow> string"

datatype tx_call =
    GetLatestBlockhash
  | SimulateTransaction sol_tx
  | RecentPrioritizationFees "string list"
  | SendTransaction sol_tx
  | ConfirmTransaction string string int
  | Backoff int

datatype tx_answer =
    BlockhashIs string int
  | UnitsConsumed "int option"
  | Fees "int list"
  | SignatureIs string
  | ConfirmedWith "string option"
  | Waited

type_synonym 'a tx_async = "(tx_call, tx_answer, string, 'a) async"

definition tcall :: "tx_call \<Rightarrow> (tx_answer \<Rightarrow> 'a option) \<Rightarrow> 'a tx_async" where
  "tcall c get =
     Call c (\<lambda>r. case r of
        Inl e \<Rightarrow> throwE e
      | Inr a \<Rightarrow> (case get a of Some x \<Rightarrow> returnE x | None \<Rightarrow> throwE ''unexpected value''))"

definition latestBlockhash :: "(string \<times> int) tx_async" where
  "latestBlockhash = tcall GetLatestBlockhash (\<lambda>a. case a of BlockhashIs b h \<Rightarrow> Some (b, h) | _ \<Rightarrow> None)"

text \<open>A timer does not fail.\<close>

definition pause :: "int \<Rightarrow> unit tx_async" where
  "pause ms = Call (Backoff ms) (\<lambda>_. returnE ())"

definition compileE :: "tx_lib \<Rightarrow> sol_tx \<Rightarrow> sol_tx tx_async" where
  "compileE lib t = (case tl_compile lib t of Inl e \<Rightarrow> throwE e | Inr t' \<Rightarrow> returnE t')"

section \<open>Compute units and priority fee\<close>

definition padded_units :: "int \<Rightarrow> int" where
  "padded_units used =
     (case js_mul (js_int used) CU_SAFETY_MULTIPLIER of Fin r \<Rightarrow> min SOLANA_MAX_CU \<lceil>r\<rceil> | _ \<Rightarrow> SOLANA_MAX_CU)"

definition estimateComputeUnits :: "tx_lib \<Rightarrow> SubmitConfirmedOptions \<Rightarrow> int tx_async" where
  "estimateComputeUnits lib opts =
     catchE
       (bindE latestBlockhash (\<lambda>(blockhash, _).
        bindE (compileE lib \<lparr>st_units = SOLANA_MAX_CU, st_microLamports = None, st_instructions = so_instructions opts,
            st_payer = so_payer opts, st_blockhash = blockhash, st_signers = so_signers opts\<rparr>) (\<lambda>tx.
        bindE (tcall (SimulateTransaction tx) (\<lambda>a. case a of UnitsConsumed u \<Rightarrow> Some u | _ \<Rightarrow> None)) (\<lambda>units.
        let used = (case units of None \<Rightarrow> 0 | Some u \<Rightarrow> u) in
        if used \<le> 0 then returnE DEFAULT_CU else returnE (padded_units used)))))
       (\<lambda>_. returnE DEFAULT_CU)"

text \<open>
  The 75th percentile of the samples.  Fees are integers, as the node documents; three quarters of
  a list length is exact.
\<close>

definition percentile_index :: "nat \<Rightarrow> nat" where
  "percentile_index n = min (n - 1) ((3 * n + 3) div 4 - 1)"

definition capped_fee :: "int \<Rightarrow> int list \<Rightarrow> int" where
  "capped_fee cap samples =
     (if samples = [] then DEFAULT_MIN_PRIORITY_FEE_MICROLAMPORTS
      else let p75 = max 0 (sort samples ! percentile_index (length samples)) in
        if cap < p75 then cap
        else if p75 < DEFAULT_MIN_PRIORITY_FEE_MICROLAMPORTS then DEFAULT_MIN_PRIORITY_FEE_MICROLAMPORTS else p75)"

definition pickPriorityFeeMicroLamports :: "string list \<Rightarrow> int \<Rightarrow> int tx_async" where
  "pickPriorityFeeMicroLamports accounts cap =
     catchE
       (bindE (tcall (RecentPrioritizationFees accounts) (\<lambda>a. case a of Fees fs \<Rightarrow> Some fs | _ \<Rightarrow> None)) (\<lambda>samples.
        returnE (capped_fee cap samples)))
       (\<lambda>_. returnE DEFAULT_MIN_PRIORITY_FEE_MICROLAMPORTS)"

section \<open>Submission\<close>

definition RETRYABLE_PATTERNS :: "string list" where
  "RETRYABLE_PATTERNS =
     [''BlockhashNotFound'', ''Blockhash not found'', ''NodeUnhealthy'', ''node is behind'', ''unable to send transaction'',
      ''failed to fetch'', ''econnreset'', ''etimedout'', ''service unavailable'']"

definition retryable :: "string \<Rightarrow> bool" where
  "retryable message \<longleftrightarrow> (\<exists>p \<in> set RETRYABLE_PATTERNS. has_substring (js_lower p) (js_lower message))"

text \<open>Each signer once, in the order of the first occurrence.\<close>

fun unique_signers :: "string list \<Rightarrow> string list \<Rightarrow> string list" where
  "unique_signers seen [] = []"
| "unique_signers seen (k # ks) =
     (if k \<in> set seen then unique_signers seen ks else k # unique_signers (k # seen) ks)"

definition attempt_once :: "tx_lib \<Rightarrow> SubmitConfirmedOptions \<Rightarrow> int \<Rightarrow> int \<Rightarrow> string tx_async" where
  "attempt_once lib opts cuLimit microLamportsPerCu =
     bindE latestBlockhash (\<lambda>(blockhash, lastValidBlockHeight).
     bindE (compileE lib \<lparr>st_units = cuLimit, st_microLamports = Some (fl64 (of_int microLamportsPerCu)),
         st_instructions = so_instructions opts, st_payer = so_payer opts, st_blockhash = blockhash,
         st_signers = unique_signers [] (so_signers opts)\<rparr>) (\<lambda>tx.
     bindE (tcall (SendTransaction tx) (\<lambda>a. case a of SignatureIs s \<Rightarrow> Some s | _ \<Rightarrow> None)) (\<lambda>signature.
     bindE (tcall (ConfirmTransaction signature blockhash lastValidBlockHeight) (\<lambda>a. case a of ConfirmedWith e \<Rightarrow> Some e | _ \<Rightarrow> None)) (\<lambda>err.
     case err of
       Some e \<Rightarrow> throwE (''Tx '' @ signature @ '' failed on-chain: '' @ e)
     | None \<Rightarrow> returnE signature))))"

function submit_loop :: "tx_lib \<Rightarrow> SubmitConfirmedOptions \<Rightarrow> int \<Rightarrow> int \<Rightarrow> int \<Rightarrow> string option \<Rightarrow> string tx_async" where
  "submit_loop lib opts cuLimit price attempt lastErr =
     (if so_maxAttempts opts < attempt
      then throwE (case lastErr of None \<Rightarrow> ''submitConfirmed: exhausted retries with no recorded error'' | Some e \<Rightarrow> e)
      else
        catchE (attempt_once lib opts cuLimit price) (\<lambda>message.
          if \<not> retryable message \<or> attempt = so_maxAttempts opts then throwE message
          else
            bindE (pause (250 * 3 ^ nat (attempt - 1))) (\<lambda>_.
            submit_loop lib opts cuLimit price (attempt + 1) (Some message))))"
  by pat_completeness auto
termination by (relation "measure (\<lambda>(lib, opts, cu, price, attempt, e). nat (so_maxAttempts opts + 1 - attempt))") auto

declare submit_loop.simps [simp del]

definition submitConfirmed :: "tx_lib \<Rightarrow> SubmitConfirmedOptions \<Rightarrow> string tx_async" where
  "submitConfirmed lib opts =
     bindE (if \<not> so_skipSimulation opts \<and> so_computeUnitLimit opts = None then estimateComputeUnits lib opts
            else returnE (case so_computeUnitLimit opts of None \<Rightarrow> DEFAULT_CU | Some u \<Rightarrow> u)) (\<lambda>cuLimit.
     bindE (pickPriorityFeeMicroLamports (so_priorityFeeAccounts opts) (so_maxPriorityFee opts)) (\<lambda>microLamportsPerCu.
     submit_loop lib opts cuLimit microLamportsPerCu 1 None))"

section \<open>A chain that pays a nullifier once\<close>

text \<open>
  What the relayer submits spends a nullifier, and the program refuses a second one: of all
  transactions sent, the first to land lands alone, at whatever moment the network chooses.  The
  environment loses calls before or after their effect, answers as it likes, and decides when
  which of the sent transactions lands.
\<close>

record tx_env =
  te_fault :: "nat \<Rightarrow> fault option"
  te_lands :: "nat \<Rightarrow> nat option"
  te_blockhash :: "nat \<Rightarrow> string \<times> int"
  te_units :: "nat \<Rightarrow> int option"
  te_fees :: "nat \<Rightarrow> int list"
  te_refuses :: "nat \<Rightarrow> string option"

record tx_world =
  tw_calls :: nat
  tw_sent :: "sol_tx list"
  tw_landed :: "sol_tx option"
  tw_waits :: "int list"

definition fresh_tx_world :: tx_world where
  "fresh_tx_world = \<lparr>tw_calls = 0, tw_sent = [], tw_landed = None, tw_waits = []\<rparr>"

fun tx_exec :: "tx_lib \<Rightarrow> tx_env \<Rightarrow> nat \<Rightarrow> tx_call \<Rightarrow> tx_world \<Rightarrow> (string + tx_answer) \<times> tx_world" where
  "tx_exec lib env n GetLatestBlockhash w = (Inr (BlockhashIs (fst (te_blockhash env n)) (snd (te_blockhash env n))), w)"
| "tx_exec lib env n (SimulateTransaction t) w = (Inr (UnitsConsumed (te_units env n)), w)"
| "tx_exec lib env n (RecentPrioritizationFees ks) w = (Inr (Fees (te_fees env n)), w)"
| "tx_exec lib env n (SendTransaction t) w =
     (case te_refuses env n of
        Some e \<Rightarrow> (Inl e, w)
      | None \<Rightarrow> (Inr (SignatureIs (tl_signature lib t)), w\<lparr>tw_sent := t # tw_sent w\<rparr>))"
| "tx_exec lib env n (ConfirmTransaction sg b h) w =
     (case tw_landed w of
        Some t \<Rightarrow> (Inr (ConfirmedWith (if tl_signature lib t = sg then None else Some ''account already in use'')), w)
      | None \<Rightarrow> (Inl ''block height exceeded'', w))"
| "tx_exec lib env n (Backoff ms) w = (Inr Waited, w\<lparr>tw_waits := tw_waits w @ [ms]\<rparr>)"

definition network :: "tx_env \<Rightarrow> tx_world \<Rightarrow> tx_world" where
  "network env w =
     (case te_lands env (tw_calls w) of
        Some i \<Rightarrow> if i < length (tw_sent w) \<and> tw_landed w = None then w\<lparr>tw_landed := Some (tw_sent w ! i)\<rparr> else w
      | None \<Rightarrow> w)"

definition local_call :: "tx_call \<Rightarrow> bool" where
  "local_call c \<longleftrightarrow> (case c of Backoff ms \<Rightarrow> True | _ \<Rightarrow> False)"

definition tx_handle :: "tx_lib \<Rightarrow> tx_env \<Rightarrow> tx_call \<Rightarrow> tx_world \<Rightarrow> (string + tx_answer) \<times> tx_world" where
  "tx_handle lib env c w =
     (let n = tw_calls w; w0 = (network env w)\<lparr>tw_calls := Suc n\<rparr> in
      if local_call c then tx_exec lib env n c w0
      else (case te_fault env n of
          Some (LostBefore e) \<Rightarrow> (Inl e, w0)
        | Some (LostAfter e) \<Rightarrow> (Inl e, snd (tx_exec lib env n c w0))
        | None \<Rightarrow> tx_exec lib env n c w0))"

text \<open>What every call keeps: only what was sent lands, and it lands once.\<close>

definition tx_grows :: "tx_world \<Rightarrow> tx_world \<Rightarrow> bool" where
  "tx_grows w w' \<longleftrightarrow>
     set (tw_sent w) \<subseteq> set (tw_sent w') \<and> length (tw_sent w) \<le> length (tw_sent w') \<and>
     (tw_landed w \<noteq> None \<longrightarrow> tw_landed w' = tw_landed w) \<and>
     (set_option (tw_landed w) \<subseteq> set (tw_sent w) \<longrightarrow> set_option (tw_landed w') \<subseteq> set (tw_sent w'))"

lemma tx_grows_refl [simp]: "tx_grows w w"
  by (simp add: tx_grows_def)

lemma tx_grows_trans: "tx_grows a b \<Longrightarrow> tx_grows b c \<Longrightarrow> tx_grows a c"
  unfolding tx_grows_def by (auto simp: subset_iff)

lemma network_tx_grows: "tx_grows w ((network env w)\<lparr>tw_calls := n\<rparr>)"
  by (auto simp: tx_grows_def network_def split: option.splits)

lemma network_frame [simp]: "tw_sent (network env w) = tw_sent w" "tw_waits (network env w) = tw_waits w"
  by (auto simp: network_def split: option.splits)

lemma exec_tx_grows: "tx_grows w (snd (tx_exec lib env n c w))"
  by (cases c) (auto simp: tx_grows_def split: option.splits)

lemma handle_tx_grows: "tx_grows w (snd (tx_handle lib env c w))"
  unfolding tx_handle_def Let_def
  by (auto split: option.splits fault.splits intro: tx_grows_trans [OF network_tx_grows exec_tx_grows] network_tx_grows)

lemma run_tx_grows: "tx_grows w (snd (run (tx_handle lib env) p w))"
proof (induction p arbitrary: w)
  case (Call c k)
  show ?case using tx_grows_trans [OF handle_tx_grows Call.IH [OF rangeI]] by simp
qed simp

lemma confirmed_landed:
  "tx_handle lib env (ConfirmTransaction sg b h) w = (Inr (ConfirmedWith None), w') \<Longrightarrow>
     \<exists>t. tw_landed w' = Some t \<and> tl_signature lib t = sg"
  by (auto simp: tx_handle_def Let_def local_call_def split: option.splits fault.splits if_splits)

lemma wp_tcall:
  assumes "\<And>r w'. tx_handle lib env c w = (r, w') \<Longrightarrow>
    (case r of Inl e \<Rightarrow> Q (Inl e) w'
     | Inr a \<Rightarrow> (case get a of Some x \<Rightarrow> Q (Inr x) w' | None \<Rightarrow> Q (Inl ''unexpected value'') w'))"
  shows "wp (tx_handle lib env) (tcall c get) Q w"
  using assms by (cases "tx_handle lib env c w") (auto simp: tcall_def wp_def split: sum.splits option.splits)

text \<open>An attempt lands what it reports.\<close>

definition landed_as :: "tx_lib \<Rightarrow> string + string \<Rightarrow> tx_world \<Rightarrow> bool" where
  "landed_as lib r w \<longleftrightarrow> (case r of Inl e \<Rightarrow> True | Inr sg \<Rightarrow> \<exists>t. tw_landed w = Some t \<and> tl_signature lib t = sg)"

lemma attempt_lands: "wp (tx_handle lib env) (attempt_once lib opts cu price) (landed_as lib) w"
  unfolding attempt_once_def
  by (rule wp_past, clarify, rule wp_past, rule wp_past, rule wp_bindE, rule wp_tcall)
    (auto simp: landed_as_def wp_def dest: confirmed_landed split: sum.splits tx_answer.splits option.splits)

lemma loop_lands: "wp (tx_handle lib env) (submit_loop lib opts cu price attempt e) (landed_as lib) w"
proof (induction lib opts cu price attempt e arbitrary: w rule: submit_loop.induct)
  case (1 lib opts cu price attempt e)
  show ?case
  proof (cases "so_maxAttempts opts < attempt")
    case True
    then show ?thesis by (subst submit_loop.simps) (simp add: wp_throwE landed_as_def)
  next
    case False
    have again: "wp (tx_handle lib env) (if \<not> retryable m \<or> attempt = so_maxAttempts opts then throwE m
        else bindE (pause (250 * 3 ^ nat (attempt - 1))) (\<lambda>_. submit_loop lib opts cu price (attempt + 1) (Some m)))
        (landed_as lib) w'" for m w'
      by (intro wp_if wp_throwE wp_past 1 [OF False]) (auto simp: landed_as_def)
    show ?thesis
      apply (subst submit_loop.simps)
      apply (use False in simp, rule wp_catchE, rule wp_mono [OF attempt_lands])
      subgoal for r w' using again by (cases r) simp_all
      done
  qed
qed

lemma submit_lands: "wp (tx_handle lib env) (submitConfirmed lib opts) (landed_as lib) w"
  unfolding submitConfirmed_def
  by (intro wp_past loop_lands) (simp_all add: landed_as_def)

text \<open>The landing that the relayer sees.\<close>

definition landing_of :: "string + string \<Rightarrow> tx_world \<Rightarrow> landing" where
  "landing_of r w =
     (case r of
        Inr sg \<Rightarrow> Landed sg
      | Inl e \<Rightarrow> if tw_landed w = None then Refused e else LandedUnconfirmed e)"

text \<open>
  C27.  What the relayer takes for one submission is what submitConfirmed does in several attempts.
  On a chain that pays a nullifier once, however calls are lost, retried and delayed, the run ends
  as one landing: its signature is that of the transaction that landed, or an error with the
  nullifier spent or not; what has landed was sent, and the relayer world then changes as the
  landing says.
\<close>

theorem submission_refines_landing:
  assumes "run (tx_handle lib env) (submitConfirmed lib opts) fresh_tx_world = (r, w)"
    and "nullifier \<notin> set (rw_spent rw)"
  shows "fst (land_tx (landing_of r w) req nullifier rw) = (case r of Inl e \<Rightarrow> Inl (RpcFailure e) | Inr sg \<Rightarrow> Inr (AnsText sg)) \<and>
    (nullifier \<in> set (rw_spent (snd (land_tx (landing_of r w) req nullifier rw))) \<longleftrightarrow> tw_landed w \<noteq> None) \<and>
    (\<forall>t. tw_landed w = Some t \<longrightarrow> t \<in> set (tw_sent w)) \<and>
    (\<forall>sg. r = Inr sg \<longrightarrow> (\<exists>t. tw_landed w = Some t \<and> tl_signature lib t = sg))"
proof -
  have "landed_as lib r w"
    using submit_lands [of lib env opts fresh_tx_world] assms(1) by (simp add: wp_def)
  moreover have "set_option (tw_landed w) \<subseteq> set (tw_sent w)"
    using run_tx_grows [of fresh_tx_world lib env "submitConfirmed lib opts"] assms(1) by (simp add: tx_grows_def fresh_tx_world_def)
  ultimately show ?thesis
    using assms(2) by (auto simp: land_tx_def landing_of_def landed_as_def Let_def split: sum.splits)
qed

section \<open>How often it sends\<close>

text \<open>Transactions sent and pauses taken, whatever is answered.\<close>

fun counted :: "nat \<times> int list \<Rightarrow> tx_call \<Rightarrow> string + tx_answer \<Rightarrow> (nat \<times> int list) option" where
  "counted (n, ws) (SendTransaction t) r = Some (Suc n, ws)"
| "counted (n, ws) (Backoff ms) r = Some (n, ws @ [ms])"
| "counted (n, ws) c r = Some (n, ws)"

definition backoffs :: "nat \<Rightarrow> int list" where
  "backoffs j = map (\<lambda>i. 250 * 3 ^ i) [0..<j]"

definition stopped :: "int \<Rightarrow> nat \<times> int list \<Rightarrow> string + string \<Rightarrow> bool" where
  "stopped limit ph r \<longleftrightarrow>
     (\<exists>j. snd ph = backoffs j \<and> j \<le> nat (limit - 1) \<and> fst ph \<le> Suc j \<and> int (fst ph) \<le> max 0 limit \<and>
       (\<forall>e. r = Inl e \<and> int j < limit - 1 \<longrightarrow> \<not> retryable e) \<and> (\<forall>sg. r = Inr sg \<longrightarrow> 0 < fst ph))"

lemma attempt_counted:
  "conforms counted (\<lambda>ph r. snd ph = ws \<and> fst ph \<le> Suc n \<and> (\<forall>sg. r = Inr sg \<longrightarrow> fst ph = Suc n)) (n, ws) (attempt_once lib opts cu price)"
  unfolding attempt_once_def latestBlockhash_def compileE_def tcall_def
  by (auto simp: bindE_def returnE_def throwE_def split: sum.splits tx_answer.splits option.splits)

lemma backoffs_Suc: "backoffs (Suc j) = backoffs j @ [250 * 3 ^ j]"
  by (simp add: backoffs_def)

lemma loop_counted:
  assumes "n \<le> j" and "attempt = int j + 1" and "so_maxAttempts opts \<ge> attempt"
  shows "conforms counted (stopped (so_maxAttempts opts)) (n, backoffs j) (submit_loop lib opts cu price attempt e)"
  using assms
proof (induction "nat (so_maxAttempts opts - attempt)" arbitrary: n j attempt e rule: less_induct)
  case less
  have again: "conforms counted (stopped (so_maxAttempts opts)) (k, backoffs j) (if \<not> retryable m \<or> attempt = so_maxAttempts opts then throwE m
      else bindE (pause (250 * 3 ^ nat (attempt - 1))) (\<lambda>_. submit_loop lib opts cu price (attempt + 1) (Some m)))"
    if "k \<le> Suc n" for k m
  proof (cases "\<not> retryable m \<or> attempt = so_maxAttempts opts")
    case True
    then show ?thesis using that less.prems by (auto simp: stopped_def)
  next
    case False
    then have "conforms counted (stopped (so_maxAttempts opts)) (k, backoffs (Suc j)) (submit_loop lib opts cu price (attempt + 1) (Some m))"
      using that less.prems by (intro less.hyps) auto
    then show ?thesis
      using False less.prems
      by (simp add: pause_def bindE_def returnE_def backoffs_Suc)
  qed
  show ?case
    apply (subst submit_loop.simps)
    apply (use less.prems in simp, rule conforms_catchE, rule conforms_mono [OF attempt_counted])
    subgoal for ph r using less.prems again [of "fst ph"] by (cases ph; cases r) (auto simp: stopped_def)
    done
qed


lemma estimate_counted: "conforms counted (\<lambda>ph r. ph = (n, ws) \<and> (\<exists>u. r = Inr u)) (n, ws) (estimateComputeUnits lib opts)"
  by (auto simp: estimateComputeUnits_def latestBlockhash_def compileE_def tcall_def catchE_def bindE_def returnE_def throwE_def Let_def
      split: sum.splits tx_answer.splits option.splits)

lemma fee_counted: "conforms counted (\<lambda>ph r. ph = (n, ws) \<and> (\<exists>u. r = Inr u)) (n, ws) (pickPriorityFeeMicroLamports ks cap)"
  by (auto simp: pickPriorityFeeMicroLamports_def tcall_def catchE_def bindE_def returnE_def throwE_def
      split: sum.splits tx_answer.splits option.splits)

text \<open>
  C29.  Whatever the node answers, submitConfirmed comes to an end: it sends at most the attempts it
  is allowed, pauses 250, 750, 2250 and so on between them, never after the last, and stops before
  the last attempt only with a signature or with an error that is not one to retry.
\<close>

theorem submission_stops:
  "conforms counted (stopped (so_maxAttempts opts)) (0, []) (submitConfirmed lib opts)"
proof -
  have loop: "conforms counted (stopped (so_maxAttempts opts)) (0, []) (submit_loop lib opts cu price 1 None)" for cu price
  proof (cases "1 \<le> so_maxAttempts opts")
    case True
    then show ?thesis using loop_counted [of 0 0 1 opts lib cu price None] by (simp add: backoffs_def)
  next
    case False
    then show ?thesis by (subst submit_loop.simps) (auto simp: stopped_def backoffs_def)
  qed
  show ?thesis
    unfolding submitConfirmed_def
    by (rule conforms_bindE, rule conforms_mono [where fin = "\<lambda>ph r. ph = (0, []) \<and> (\<exists>u. r = Inr u)"])
      (auto intro!: estimate_counted conforms_bindE conforms_mono [OF fee_counted] loop)
qed

section \<open>The budget\<close>

lemma digits_length_le: "2 \<le> b \<Longrightarrow> 0 < n \<Longrightarrow> b ^ (length (digits b n) - 1) \<le> n" for b n :: int
proof (induction b n rule: digits.induct)
  case (1 b n)
  show ?case
  proof (cases "n < b")
    case True
    then show ?thesis using 1 by (subst digits.simps) simp
  next
    case False
    then have "0 < n div b" using 1 by (simp add: pos_imp_zdiv_pos_iff)
    then have "b ^ (length (digits b (n div b)) - 1) \<le> n div b" using 1 False by simp
    then have "b * b ^ (length (digits b (n div b)) - 1) \<le> b * (n div b)" using 1 by simp
    also have "b * (n div b) \<le> n" using 1(2) by (smt (verit) mult.commute div_mult_mod_eq pos_mod_sign)
    finally have "b ^ length (digits b (n div b)) \<le> n"
      using digits_nonempty [of b "n div b"] by (cases "digits b (n div b)") auto
    then show ?thesis using False 1 by (subst digits.simps) simp
  qed
qed

lemma digits_length_less: "2 \<le> b \<Longrightarrow> 0 \<le> n \<Longrightarrow> n < b ^ length (digits b n)" for b n :: int
proof (induction b n rule: digits.induct)
  case (1 b n)
  show ?case
  proof (cases "n < b")
    case True
    then show ?thesis using 1 by (subst digits.simps) simp
  next
    case False
    then have "n div b < b ^ length (digits b (n div b))" using 1 by (simp add: pos_imp_zdiv_nonneg_iff)
    then have step: "b * (n div b + 1) \<le> b * b ^ length (digits b (n div b))" using 1(2) by (intro mult_left_mono) simp_all
    have "n < b * (n div b + 1)"
    proof -
      have "0 < b" using 1(2) by simp
      then have "n mod b < b" by (rule pos_mod_bound)
      then show ?thesis using mult_div_mod_eq [of b n] unfolding distrib_left by linarith
    qed
    then have "n < b * b ^ length (digits b (n div b))" using step by (rule less_le_trans)
    then show ?thesis using False 1 by (subst digits.simps) simp
  qed
qed

lemma exponent_le:
  assumes "0 < x" "x < 2 ^ 53"
  shows "binary_exponent x \<le> 52"
proof -
  obtain p q where pq: "quotient_of x = (p, q)" by (cases "quotient_of x")
  have q: "0 < q" using quotient_of_denom_pos [OF pq] .
  have x: "x = of_int p / of_int q" using quotient_of_div [OF pq] .
  have p: "0 < p" using assms(1) q x by (simp add: zero_less_divide_iff)
  let ?lp = "length (digits 2 p)" and ?lq = "length (digits 2 q)"
  have lp: "2 ^ (?lp - 1) \<le> p" using digits_length_le [of 2 p] p by simp
  have lq: "q < 2 ^ ?lq" using digits_length_less [of 2 q] q by simp
  have "?lp < 54 + ?lq"
  proof (rule ccontr)
    assume "\<not> ?lp < 54 + ?lq"
    then have "(2::int) ^ (53 + ?lq) \<le> 2 ^ (?lp - 1)" by (intro power_increasing) auto
    then have "2 ^ 53 * 2 ^ ?lq \<le> p" using lp by (simp add: power_add)
    moreover have "(2::int) ^ 53 * q < 2 ^ 53 * 2 ^ ?lq" using lq by simp
    ultimately have "2 ^ 53 * q < p" by linarith
    then have "of_int (2 ^ 53 * q) < (of_int p :: rat)" by (simp only: of_int_less_iff)
    then have "2 ^ 53 * of_int q < (of_int p :: rat)" by simp
    then have "2 ^ 53 < x" using q unfolding x by (simp only: pos_less_divide_eq of_int_0_less_iff)
    then show False using assms(2) by simp
  qed
  then have k: "int ?lp - int ?lq \<le> 53" by simp
  show ?thesis
  proof (cases "int ?lp - int ?lq = 53")
    case True
    then show ?thesis using assms(2) by (simp add: binary_exponent_def pq Let_def pow2_def)
  next
    case False
    then show ?thesis using k by (simp add: binary_exponent_def pq Let_def)
  qed
qed

text \<open>Rounding does not cross an integer of 53 bits.\<close>

lemma fl64_ge:
  assumes "0 < n" and "of_int n \<le> x" and "x < 2 ^ 53"
  obtains v where "fl64 x = Fin v" and "of_int n \<le> v"
proof -
  have x: "0 < x" using assms(1,2) by (meson less_le_trans of_int_0_less_iff)
  define e where "e = max (binary_exponent x - 52) (- 1074)"
  have e0: "e \<le> 0" using exponent_le [OF x assms(3)] by (simp add: e_def)
  have p: "pow2 e = 1 / 2 ^ nat (- e)" using e0 by (auto simp: pow2_def)
  have "of_int (n * 2 ^ nat (- e)) \<le> x / pow2 e" using assms(2) by (simp add: p)
  then have "n * 2 ^ nat (- e) \<le> \<lfloor>x / pow2 e\<rfloor>" by (simp only: le_floor_iff)
  then have m: "n * 2 ^ nat (- e) \<le> round_half_even (x / pow2 e)" by (simp add: round_half_even_def Let_def)
  have "of_int (n * 2 ^ nat (- e)) * pow2 e \<le> of_int (round_half_even (x / pow2 e)) * pow2 e"
    using m by (intro mult_right_mono) (simp_all only: of_int_le_iff, simp add: p)
  moreover have "of_int (n * 2 ^ nat (- e)) * pow2 e = of_int n" by (simp add: p)
  moreover have "fl64 x = Fin (1 * (of_int (round_half_even (x / pow2 e)) * pow2 e))"
    using x e0 unfolding fl64_def Let_def abs_of_pos [OF x] e_def [symmetric] by auto
  ultimately show thesis using that by (metis mult_1)
qed

lemma multiplier: "CU_SAFETY_MULTIPLIER = Fin (5404319552844595 / 4503599627370496)"
  by code_simp

lemma padded_covers:
  assumes "0 < used" and "used \<le> SOLANA_MAX_CU"
  shows "used \<le> padded_units used" and "padded_units used \<le> SOLANA_MAX_CU"
proof -
  let ?x = "of_int used * (5404319552844595 / 4503599627370496) :: rat"
  have used: "(of_int used :: rat) \<le> 1400000" "(1 :: rat) \<le> of_int used" using assms by (simp_all add: SOLANA_MAX_CU_def)
  have x: "of_int used \<le> ?x" "?x < 2 ^ 53" using used by simp_all
  obtain v where v: "fl64 ?x = Fin v" "of_int used \<le> v" using fl64_ge [OF assms(1) x] .
  have units: "padded_units used = min SOLANA_MAX_CU \<lceil>v\<rceil>"
    by (simp only: padded_units_def multiplier js_int_def js_mul.simps v js_num.case)
  show "used \<le> padded_units used" unfolding units using assms(2) v(2) by (simp add: le_ceiling_iff order_less_le_trans [of _ "of_int used"])
  show "padded_units used \<le> SOLANA_MAX_CU" unfolding units by simp
qed

lemma index_less: "0 < n \<Longrightarrow> percentile_index n < n"
  by (simp add: percentile_index_def)

lemma percentile_covers:
  fixes samples :: "int list"
  assumes "samples \<noteq> []" and "sort samples ! percentile_index (length samples) \<le> f"
  shows "3 * length samples \<le> 4 * length (filter (\<lambda>s. s \<le> f) samples)"
proof -
  let ?n = "length samples" and ?k = "percentile_index (length samples)"
  have k: "?k < ?n" using assms(1) by (simp add: index_less)
  have below: "s \<le> f" if "s \<in> set (take (Suc ?k) (sort samples))" for s
  proof -
    from that obtain i where "i < length (take (Suc ?k) (sort samples))" "s = take (Suc ?k) (sort samples) ! i"
      by (auto simp: in_set_conv_nth)
    then have "i \<le> ?k" "s = sort samples ! i" by auto
    then have "s \<le> sort samples ! ?k" using k by (simp add: sorted_nth_mono)
    then show ?thesis using assms(2) by simp
  qed
  have "Suc ?k = length (filter (\<lambda>s. s \<le> f) (take (Suc ?k) (sort samples)))"
    using below k by (simp add: filter_id_conv [THEN iffD2])
  also have "\<dots> \<le> length (filter (\<lambda>s. s \<le> f) (sort samples))"
    by (metis append_take_drop_id filter_append le_add1 length_append)
  also have "\<dots> = length (filter (\<lambda>s. s \<le> f) samples)"
    by (metis mset_filter mset_sort size_mset)
  finally show ?thesis using assms(1) by (simp add: percentile_index_def min_def split: if_splits)
qed

text \<open>
  The budget of a submission.  The compute limit covers what the simulation measured and never
  exceeds the maximum of the network.  The priority fee is at most the cap or the floor, whichever
  is greater, and at least the smaller of the two; unless the cap cuts it, three quarters of the
  samples are at most the fee.  The cap is exceeded exactly when it lies below the floor and is
  not below the percentile.
\<close>

theorem budget_within_bounds:
  assumes "0 < used" and "used \<le> SOLANA_MAX_CU" and "samples \<noteq> []"
    and "p75 = max 0 (sort samples ! percentile_index (length samples))" and "fee = capped_fee cap samples"
  shows "used \<le> padded_units used \<and> padded_units used \<le> SOLANA_MAX_CU \<and>
    fee \<le> max cap DEFAULT_MIN_PRIORITY_FEE_MICROLAMPORTS \<and> min cap DEFAULT_MIN_PRIORITY_FEE_MICROLAMPORTS \<le> fee \<and>
    (p75 \<le> cap \<longrightarrow> 3 * length samples \<le> 4 * length (filter (\<lambda>s. s \<le> fee) samples)) \<and>
    (cap < fee \<longleftrightarrow> p75 \<le> cap \<and> cap < DEFAULT_MIN_PRIORITY_FEE_MICROLAMPORTS)"
proof -
  have "p75 \<le> fee" if "p75 \<le> cap" using that assms(3-5) by (auto simp: capped_fee_def Let_def)
  then have "3 * length samples \<le> 4 * length (filter (\<lambda>s. s \<le> fee) samples)" if "p75 \<le> cap"
    using that assms(4) by (intro percentile_covers [OF assms(3)]) simp
  then show ?thesis
    using padded_covers [OF assms(1,2)] assms(3-5) by (auto simp: capped_fee_def Let_def)
qed

theorem budget_within_bounds_witness:
  "padded_units 200000 \<ge> 200000 \<and> capped_fee 500 [0, 0, 0, 0] = 1000"
  using budget_within_bounds [of 200000 "[0, 0, 0, 0]" 0 "capped_fee 500 [0, 0, 0, 0]" 500]
  by (simp add: SOLANA_MAX_CU_def percentile_index_def capped_fee_def DEFAULT_MIN_PRIORITY_FEE_MICROLAMPORTS_def)

definition quick_lib :: tx_lib where
  "quick_lib = \<lparr>tl_compile = Inr, tl_signature = st_blockhash\<rparr>"

text \<open>The first attempt is sent and its answer is lost; it lands while the second is confirmed.\<close>

definition lossy_env :: tx_env where
  "lossy_env = \<lparr>te_fault = (\<lambda>n. if n = 2 then Some (LostAfter ''econnreset'') else None), te_lands = (\<lambda>n. if n = 6 then Some 1 else None),
     te_blockhash = (\<lambda>n. (if n < 2 then ''b'' else ''c'', 9)), te_units = (\<lambda>_. None), te_fees = (\<lambda>_. []), te_refuses = (\<lambda>_. None)\<rparr>"

definition quick_opts :: SubmitConfirmedOptions where
  "quick_opts = \<lparr>so_instructions = [''withdraw''], so_signers = [''k'', ''k''], so_payer = ''k'', so_priorityFeeAccounts = [],
     so_computeUnitLimit = Some 5, so_skipSimulation = True, so_maxPriorityFee = 10, so_maxAttempts = 2\<rparr>"

definition lossy_run :: "(string + string) \<times> tx_world" where
  "lossy_run = run (tx_handle quick_lib lossy_env) (submitConfirmed quick_lib quick_opts) fresh_tx_world"

lemma run_tcall:
  "run h (tcall c get) w =
     (case h c w of
        (Inl e, w') \<Rightarrow> (Inl e, w')
      | (Inr a, w') \<Rightarrow> (case get a of Some x \<Rightarrow> (Inr x, w') | None \<Rightarrow> (Inl ''unexpected value'', w')))"
  by (auto simp: tcall_def split: prod.splits sum.splits option.splits)

lemma starts_with_self: "starts_with p p"
  by (simp add: starts_with_def)

lemma has_substring_self: "has_substring p p"
  by (cases p) (simp_all add: starts_with_self)

lemma reset_is_retried: "retryable ''econnreset''"
  by (auto simp: retryable_def RETRYABLE_PATTERNS_def intro: has_substring_self)

lemma lossy: "fst lossy_run = Inl ''Tx c failed on-chain: account already in use'' \<and> length (tw_sent (snd lossy_run)) = 2 \<and>
    map_option st_blockhash (tw_landed (snd lossy_run)) = Some ''b''"
  by (simp add: lossy_run_def submitConfirmed_def submit_loop.simps attempt_once_def latestBlockhash_def compileE_def pause_def
      pickPriorityFeeMicroLamports_def run_bindE run_catchE run_tcall tx_handle_def network_def local_call_def quick_lib_def lossy_env_def
      quick_opts_def fresh_tx_world_def reset_is_retried Let_def)

text \<open>The retry is told that the nullifier is spent: the relayer sees a failure that has landed.\<close>

theorem submission_refines_landing_witness:
  "landing_of (fst lossy_run) (snd lossy_run) = LandedUnconfirmed ''Tx c failed on-chain: account already in use'' \<and>
     tw_landed (snd lossy_run) \<in> Some ` set (tw_sent (snd lossy_run))"
  using submission_refines_landing [of quick_lib lossy_env quick_opts "fst lossy_run" "snd lossy_run" "[]" "undefined\<lparr>rw_spent := []\<rparr>"] lossy
  by (auto simp: landing_of_def lossy_run_def split: sum.splits)

end
