(* ===== verification/PrivateDeposits.thy ===== *)
theory PrivateDeposits imports BrowserClaim begin

text \<open>
  The endpoint a private deposit begins at, and what the position service talks to:
  deposits.controller.ts with the privacy adapters of execution/adapters, the pods of
  infra/runtime, and the mock and on-chain executors of execution/clients.  Whether a text is an
  address, the clock and a fresh wallet are arguments.
\<close>

section \<open>infra/runtime/pod-runtime.ts\<close>

datatype PodStatus = PodOpen | PodClosed

record PodRecord =
  po_id :: string
  po_positionId :: string
  po_mode :: ExecutionMode
  po_status :: PodStatus
  po_createdAtIso :: string
  po_closedAtIso :: "string option"

type_synonym pods = "string \<Rightarrow> PodRecord option"

definition MOCK_POD_TIMESTAMP_ISO :: string where "MOCK_POD_TIMESTAMP_ISO = ''2026-04-29T09:00:00.000Z''"

definition formatPodId :: "string \<Rightarrow> string" where
  "formatPodId positionId = ''pod-'' @ positionId"

definition createPod :: "string \<Rightarrow> ExecutionMode \<Rightarrow> pods \<Rightarrow> PodRecord \<times> pods" where
  "createPod positionId mode ps =
     (let podId = formatPodId positionId in
      case ps podId of
        Some existing \<Rightarrow> (existing, ps)
      | None \<Rightarrow>
          let pod = \<lparr>po_id = podId, po_positionId = positionId, po_mode = mode, po_status = PodOpen,
                po_createdAtIso = MOCK_POD_TIMESTAMP_ISO, po_closedAtIso = None\<rparr>
          in (pod, ps(podId \<mapsto> pod)))"

definition closePod :: "string \<Rightarrow> pods \<Rightarrow> (string + PodRecord) \<times> pods" where
  "closePod podId ps =
     (case ps podId of
        None \<Rightarrow> (Inl (''Pod '' @ podId @ '' not found''), ps)
      | Some pod \<Rightarrow>
          if po_status pod = PodClosed then (Inr pod, ps)
          else let closed = pod\<lparr>po_status := PodClosed, po_closedAtIso := Some MOCK_POD_TIMESTAMP_ISO\<rparr>
               in (Inr closed, ps(podId \<mapsto> closed)))"

section \<open>execution/adapters\<close>

datatype adapter_name = MockName | MagicblockName | RelayerName
datatype receipt_action = PrepareFundingAction | PrepareExitAction

record PrivacyCapabilities =
  ca_adapter :: adapter_name
  ca_live :: bool
  ca_mvpReady :: bool
  ca_deterministicReceipts :: bool

record PrepareFundingInput =
  fi_positionId :: string
  fi_intentId :: string
  fi_poolSlug :: string
  fi_amount :: string
  fi_mode :: ExecutionMode
  fi_stealthPubkey :: "string option"

record PrepareExitInput =
  ei_positionId :: string
  ei_intentId :: string
  ei_mode :: ExecutionMode

text \<open>All adapters answer with the status prepared.\<close>

record PrivacyReceipt =
  pt_receiptId :: string
  pt_adapter :: adapter_name
  pt_action :: receipt_action
  pt_positionId :: string
  pt_podId :: "string option"
  pt_summary :: string
  pt_createdAtIso :: string

definition MOCK_RECEIPT_TIMESTAMP_ISO :: string where "MOCK_RECEIPT_TIMESTAMP_ISO = ''2026-04-29T09:00:00.000Z''"

definition buildMockFundingReceipt :: "string \<Rightarrow> PrepareFundingInput \<Rightarrow> PrivacyReceipt" where
  "buildMockFundingReceipt podId inp =
     \<lparr>pt_receiptId = ''mock-funding-'' @ fi_positionId inp, pt_adapter = MockName, pt_action = PrepareFundingAction,
      pt_positionId = fi_positionId inp, pt_podId = Some podId,
      pt_summary = ''Prepared mock funding path for position '' @ fi_positionId inp @ ''.'', pt_createdAtIso = MOCK_RECEIPT_TIMESTAMP_ISO\<rparr>"

definition buildMockExitReceipt :: "string \<Rightarrow> PrepareExitInput \<Rightarrow> PrivacyReceipt" where
  "buildMockExitReceipt podId inp =
     \<lparr>pt_receiptId = ''mock-exit-'' @ ei_positionId inp, pt_adapter = MockName, pt_action = PrepareExitAction,
      pt_positionId = ei_positionId inp, pt_podId = Some podId,
      pt_summary = ''Prepared mock exit path for position '' @ ei_positionId inp @ ''.'', pt_createdAtIso = MOCK_RECEIPT_TIMESTAMP_ISO\<rparr>"

datatype privacy_adapter = MockPrivacyAdapter | MagicBlockAdapter "string option" | RelayerAdapter

fun capabilities :: "privacy_adapter \<Rightarrow> PrivacyCapabilities" where
  "capabilities MockPrivacyAdapter = \<lparr>ca_adapter = MockName, ca_live = True, ca_mvpReady = True, ca_deterministicReceipts = True\<rparr>"
| "capabilities (MagicBlockAdapter reason) = \<lparr>ca_adapter = MagicblockName, ca_live = False, ca_mvpReady = False, ca_deterministicReceipts = False\<rparr>"
| "capabilities RelayerAdapter = \<lparr>ca_adapter = RelayerName, ca_live = True, ca_mvpReady = True, ca_deterministicReceipts = False\<rparr>"

definition assertLiveMvpAdapter :: "PrivacyCapabilities \<Rightarrow> string + unit" where
  "assertLiveMvpAdapter c = (if ca_live c then Inr () else Inl ''This privacy adapter is not live.'')"

text \<open>The clock in both forms, and the public key of a wallet generated by the server.\<close>

record adapter_env =
  ae_now :: int
  ae_nowIso :: string
  ae_generated :: string

definition magicblock_refusal :: "string option \<Rightarrow> string" where
  "magicblock_refusal reason =
     (case reason of None \<Rightarrow> ''MagicBlock integration is not live in the MVP.'' | Some r \<Rightarrow> r) @ '' Use MockPrivacyAdapter for the product path.''"

definition mock_prepareFunding :: "PrepareFundingInput \<Rightarrow> pods \<Rightarrow> PrivacyReceipt \<times> pods" where
  "mock_prepareFunding inp ps =
     (let (pod, ps') = createPod (fi_positionId inp) (fi_mode inp) ps in (buildMockFundingReceipt (po_id pod) inp, ps'))"

definition mock_prepareExit :: "PrepareExitInput \<Rightarrow> pods \<Rightarrow> (string + PrivacyReceipt) \<times> pods" where
  "mock_prepareExit inp ps =
     (let (pod, ps1) = createPod (ei_positionId inp) (ei_mode inp) ps in
      case closePod (po_id pod) ps1 of
        (Inl e, ps2) \<Rightarrow> (Inl e, ps2)
      | (Inr closedPod, ps2) \<Rightarrow> (Inr (buildMockExitReceipt (po_id closedPod) inp), ps2))"

definition relayer_prepareFunding :: "adapter_env \<Rightarrow> PrepareFundingInput \<Rightarrow> PrivacyReceipt" where
  "relayer_prepareFunding env inp =
     (let stealthPubkey = (case fi_stealthPubkey inp of Some k \<Rightarrow> k | None \<Rightarrow> ae_generated env) in
      \<lparr>pt_receiptId = ''relayer-funding-'' @ fi_positionId inp @ ''-'' @ string_of_bigint (ae_now env), pt_adapter = RelayerName,
       pt_action = PrepareFundingAction, pt_positionId = fi_positionId inp, pt_podId = Some stealthPubkey,
       pt_summary = ''Stealth wallet '' @ take 8 stealthPubkey @ ''... prepared for position '' @ fi_positionId inp @ ''.'',
       pt_createdAtIso = ae_nowIso env\<rparr>)"

definition relayer_prepareExit :: "adapter_env \<Rightarrow> PrepareExitInput \<Rightarrow> PrivacyReceipt" where
  "relayer_prepareExit env inp =
     \<lparr>pt_receiptId = ''relayer-exit-'' @ ei_positionId inp @ ''-'' @ string_of_bigint (ae_now env), pt_adapter = RelayerName,
      pt_action = PrepareExitAction, pt_positionId = ei_positionId inp, pt_podId = None,
      pt_summary = ''Exit path prepared for position '' @ ei_positionId inp @ ''. Funds will route through mixer back to user.'',
      pt_createdAtIso = ae_nowIso env\<rparr>"

fun prepareFunding :: "adapter_env \<Rightarrow> privacy_adapter \<Rightarrow> PrepareFundingInput \<Rightarrow> pods \<Rightarrow> (string + PrivacyReceipt) \<times> pods" where
  "prepareFunding env MockPrivacyAdapter inp ps = map_prod Inr id (mock_prepareFunding inp ps)"
| "prepareFunding env (MagicBlockAdapter reason) inp ps = (Inl (magicblock_refusal reason), ps)"
| "prepareFunding env RelayerAdapter inp ps = (Inr (relayer_prepareFunding env inp), ps)"

fun prepareExit :: "adapter_env \<Rightarrow> privacy_adapter \<Rightarrow> PrepareExitInput \<Rightarrow> pods \<Rightarrow> (string + PrivacyReceipt) \<times> pods" where
  "prepareExit env MockPrivacyAdapter inp ps = mock_prepareExit inp ps"
| "prepareExit env (MagicBlockAdapter reason) inp ps = (Inl (magicblock_refusal reason), ps)"
| "prepareExit env RelayerAdapter inp ps = (Inr (relayer_prepareExit env inp), ps)"

section \<open>deposits.controller.ts\<close>

text \<open>A parsed body: a field that is absent, or of a type the checks refuse or ignore, is None.\<close>

record PreparePrivateDepositBody =
  db_poolAddress :: "string option"
  db_stealthPubkey :: "string option"
  db_shape :: "string option"
  db_range :: "(js_num option \<times> js_num option) option"
  db_denominationLamports :: "string option"
  db_positionId :: "string option"

definition validateBody :: "(string \<Rightarrow> bool) \<Rightarrow> PreparePrivateDepositBody option \<Rightarrow> string option" where
  "validateBody address body =
     (case body of
        None \<Rightarrow> Some ''Body must be an object.''
      | Some b \<Rightarrow>
          if missing (db_poolAddress b) then Some ''poolAddress is required.''
          else if missing (db_stealthPubkey b) then Some ''stealthPubkey is required.''
          else if \<not> address (the (db_poolAddress b)) then Some ''poolAddress is not a valid Solana address.''
          else if \<not> address (the (db_stealthPubkey b)) then Some ''stealthPubkey is not a valid Solana address.''
          else if db_shape b \<notin> {Some ''spot'', Some ''curve'', Some ''bid-ask''} then Some ''shape must be one of spot|curve|bid-ask.''
          else
            (case db_range b of
               Some (Some lower, Some upper) \<Rightarrow>
                 if js_gt lower upper then Some ''range must be { lower, upper } with lower <= upper.'' else None
             | _ \<Rightarrow> Some ''range must be { lower, upper } with lower <= upper.''))"

datatype prepare_reply =
    BadRequest string
  | BadDenomination string "string list"
  | Prepared PrivacyReceipt string
  | AdapterThrew string

text \<open>Without configured pools the default is undefined.\<close>

definition choose_denomination :: "int list \<Rightarrow> string option \<Rightarrow> prepare_reply + int option" where
  "choose_denomination allowed requested =
     (case requested of
        None \<Rightarrow> Inr (case allowed of [] \<Rightarrow> None | d # _ \<Rightarrow> Some d)
      | Some t \<Rightarrow>
          (case bigint_of_string t of
             None \<Rightarrow> Inl (BadRequest ''denominationLamports must be a base-10 lamports string.'')
           | Some parsed \<Rightarrow>
               if parsed \<notin> set allowed then Inl (BadDenomination (string_of_bigint parsed) (map string_of_bigint allowed))
               else Inr (Some parsed)))"

text \<open>
  The sign for at most in the message is written as its three bytes of UTF-8.  A length is counted in
  characters of the model, which are those of JavaScript for ASCII texts.
\<close>

definition too_long_id :: string where
  "too_long_id = ''positionId must be '' @ [char_of (226 :: nat), char_of (137 :: nat), char_of (164 :: nat)] @ '' 128 chars.''"

definition choose_positionId :: "string \<Rightarrow> string option \<Rightarrow> prepare_reply + string" where
  "choose_positionId uuid requested =
     (if missing requested then Inr (''pos_'' @ uuid)
      else if 128 < length (the requested) then Inl (BadRequest too_long_id)
      else Inr (the requested))"

definition preparePrivate ::
  "(string \<Rightarrow> bool) \<Rightarrow> int list \<Rightarrow> adapter_env \<Rightarrow> privacy_adapter \<Rightarrow> string \<Rightarrow> PreparePrivateDepositBody option \<Rightarrow> pods \<Rightarrow> prepare_reply \<times> pods" where
  "preparePrivate address allowed env privacy uuid body ps =
     (case validateBody address body of
        Some e \<Rightarrow> (BadRequest e, ps)
      | None \<Rightarrow>
          (case choose_denomination allowed (db_denominationLamports (the body)) of
             Inl r \<Rightarrow> (r, ps)
           | Inr chosen \<Rightarrow>
               (case choose_positionId uuid (db_positionId (the body)) of
                  Inl r \<Rightarrow> (r, ps)
                | Inr positionId \<Rightarrow>
                    (case chosen of
                       None \<Rightarrow> (AdapterThrew ''TypeError'', ps)
                     | Some d \<Rightarrow>
                         (case prepareFunding env privacy
                             \<lparr>fi_positionId = positionId, fi_intentId = positionId, fi_poolSlug = the (db_poolAddress (the body)),
                              fi_amount = string_of_bigint d, fi_mode = FastPrivate, fi_stealthPubkey = db_stealthPubkey (the body)\<rparr> ps of
                            (Inl e, ps') \<Rightarrow> (AdapterThrew e, ps')
                          | (Inr receipt, ps') \<Rightarrow> (Prepared receipt positionId, ps'))))))"

section \<open>execution/clients\<close>

text \<open>The mock executor signs by what it was asked; the on-chain one needs a context.\<close>

definition buildSignature :: "string \<Rightarrow> string \<Rightarrow> string \<Rightarrow> string" where
  "buildSignature action first second = ''mock-meteora-'' @ action @ ''-'' @ first @ ''-'' @ second"

datatype executor_op =
    AddLiquidityOp string string
  | ClaimOp string string
  | WithdrawCloseOp string string

fun mock_execute :: "executor_op \<Rightarrow> string" where
  "mock_execute (AddLiquidityOp podId amountSol) = buildSignature ''add-liquidity'' podId amountSol"
| "mock_execute (ClaimOp podId positionId) = buildSignature ''claim'' podId positionId"
| "mock_execute (WithdrawCloseOp podId positionId) = buildSignature ''withdraw-close'' podId positionId"

text \<open>What an operation submits: the bins and share of a withdrawal, and the compute units.\<close>

record OnchainPositionContext =
  oc_stealth :: string
  oc_lbPair :: string
  oc_lowerBinId :: int
  oc_upperBinId :: int

datatype onchain_ix = AddLiquidityIx string string | ClaimFeesIx string string | WithdrawCloseIx string string int int int

definition onchain_execute :: "executor_op \<Rightarrow> OnchainPositionContext option \<Rightarrow> string + onchain_ix \<times> int" where
  "onchain_execute op ctx =
     (case ctx of
        None \<Rightarrow> Inl ''requires OnchainPositionContext''
      | Some c \<Rightarrow> Inr (case op of
          AddLiquidityOp podId amountSol \<Rightarrow> (AddLiquidityIx (oc_stealth c) (oc_lbPair c), 1400000)
        | ClaimOp podId positionId \<Rightarrow> (ClaimFeesIx (oc_stealth c) (oc_lbPair c), 600000)
        | WithdrawCloseOp podId positionId \<Rightarrow>
            (WithdrawCloseIx (oc_stealth c) (oc_lbPair c) (oc_lowerBinId c) (oc_upperBinId c) 10000, 1400000)))"

section \<open>The browser behind this endpoint\<close>

fun shape_text :: "shape \<Rightarrow> string" where
  "shape_text Spot = ''spot''" | "shape_text Curve = ''curve''" | "shape_text BidAsk = ''bid-ask''"

definition request_body :: "string \<Rightarrow> string \<Rightarrow> shape \<Rightarrow> int \<Rightarrow> int \<Rightarrow> string \<Rightarrow> string \<Rightarrow> PreparePrivateDepositBody" where
  "request_body pool stealth sh lower upper denomination positionId =
     \<lparr>db_poolAddress = Some pool, db_stealthPubkey = Some stealth, db_shape = Some (shape_text sh),
      db_range = Some (Some (js_int lower), Some (js_int upper)), db_denominationLamports = Some denomination, db_positionId = Some positionId\<rparr>"

text \<open>
  Any environment of the browser, its request to this endpoint answered by the controller; the
  environment may still lose the request or the answer.
\<close>

record api_side =
  as_address :: "string \<Rightarrow> bool"
  as_denominations :: "int list"
  as_env :: adapter_env
  as_uuid :: string
  as_pods :: pods

definition prepare_answer :: "prepare_reply \<Rightarrow> banswer" where
  "prepare_answer r =
     (case r of
        BadRequest e \<Rightarrow> Response 400 e (Some JOther)
      | BadDenomination d ds \<Rightarrow> Response 400 ''denominationLamports does not match a configured pool.'' (Some JOther)
      | Prepared receipt i \<Rightarrow> Response 200 [] (Some (JPrepared i))
      | AdapterThrew e \<Rightarrow> Response 500 e (Some JOther))"

fun via_api :: "api_side \<Rightarrow> (bcall \<Rightarrow> 'w \<Rightarrow> (string + banswer) \<times> 'w) \<Rightarrow> bcall \<Rightarrow> 'w \<Rightarrow> (string + banswer) \<times> 'w" where
  "via_api sd h (Fetch (PostPreparePrivate pool stealth sh lower upper denomination i)) w =
     (case h (Fetch (PostPreparePrivate pool stealth sh lower upper denomination i)) w of
        (Inl e, w') \<Rightarrow> (Inl e, w')
      | (Inr _, w') \<Rightarrow>
          (Inr (prepare_answer (fst (preparePrivate (as_address sd) (as_denominations sd) (as_env sd) RelayerAdapter (as_uuid sd)
             (Some (request_body pool stealth sh lower upper denomination i)) (as_pods sd)))), w'))"
| "via_api sd h c w = h c w"

lemma shape_text_valid: "Some (shape_text sh) \<in> {Some ''spot'', Some ''curve'', Some ''bid-ask''}"
  by (cases sh) simp_all

lemma no_refusal:
  "validateBody address (Some (request_body pool stealth sh lower upper d i)) = None \<longleftrightarrow>
     pool \<noteq> [] \<and> stealth \<noteq> [] \<and> address pool \<and> address stealth \<and> lower \<le> upper"
  using shape_text_valid [of sh] by (auto simp: validateBody_def request_body_def missing_def js_int_def)

lemma prepared_iff:
  "(\<exists>receipt. fst (preparePrivate address allowed env RelayerAdapter uuid (Some (request_body pool stealth sh lower upper (string_of_bigint d) i)) ps) =
        Prepared receipt j) \<longleftrightarrow>
     pool \<noteq> [] \<and> stealth \<noteq> [] \<and> address pool \<and> address stealth \<and> lower \<le> upper \<and> d \<in> set allowed \<and>
     length i \<le> 128 \<and> j = (if i = [] then ''pos_'' @ uuid else i)"
  unfolding preparePrivate_def using no_refusal [of address pool stealth sh lower upper "string_of_bigint d" i]
  by (auto simp: request_body_def choose_denomination_def choose_positionId_def missing_def split: option.splits if_splits)

text \<open>A step returns what its program does, from some later world.\<close>

lemma step_value: "run h (stepE k p) w = (Inr x, w') \<Longrightarrow> \<exists>w1 w2. run h p w1 = (Inr x, w2)"
  by (auto simp: stepE_def guarded_def run_bindE run_catchE split: prod.splits sum.splits)

lemma prepared_echo:
  assumes "run (via_api sd h) (deposit_prepare inp stealth d i) w = (Inr j, w')" and "i \<noteq> []"
  shows "j = i \<and> length i \<le> 128"
proof -
  obtain w1 w2 where "run (via_api sd h) (apiCall (PostPreparePrivate (pi_poolAddress inp) (ds_publicKey stealth) (pi_shape inp)
      (pi_lowerBinId inp) (pi_upperBinId inp) (string_of_bigint d) i) as_prepared) w1 = (Inr j, w2)"
    using step_value [OF assms(1) [unfolded deposit_prepare_def]] by blast
  then have "\<exists>receipt. fst (preparePrivate (as_address sd) (as_denominations sd) (as_env sd) RelayerAdapter (as_uuid sd)
      (Some (request_body (pi_poolAddress inp) (ds_publicKey stealth) (pi_shape inp) (pi_lowerBinId inp) (pi_upperBinId inp)
        (string_of_bigint d) i)) (as_pods sd)) = Prepared receipt j"
    by (auto simp: apiCall_def bcallE_def run_bindE prepare_answer_def split: prod.splits sum.splits option.splits if_splits
        prepare_reply.splits banswer.splits)
  then show ?thesis using assms(2) unfolding prepared_iff by auto
qed

text \<open>
  C25.  The recorded identifier is the one the wallet was derived from.  Whatever the wallet, the
  node and the rest of the API answer, whichever requests are lost, a private deposit that returns
  reports an identifier of at most 128 characters whose derivation gave the stealth wallet it reports:
  the endpoint sends back the identifier of the browser, never one of its own.
\<close>

theorem recorded_id_is_the_derived_one:
  fixes ml :: "'t merkle_lib"
  shows "case fst (run (via_api sd h) (runPrivateDeposit wb ml inp) w) of
      Inl e \<Rightarrow> True
    | Inr res \<Rightarrow> pr_positionId res \<noteq> [] \<and> length (pr_positionId res) \<le> 128 \<and>
        (\<exists>w1 w2 ds. run (via_api sd h) (deposit_derive wb inp (pr_positionId res)) w1 = (Inr ds, w2) \<and> pr_stealthPubkey res = ds_publicKey ds)"
proof -
  let ?Q = "\<lambda>r (w' :: 'a). case r of
      Inl e \<Rightarrow> True
    | Inr res \<Rightarrow> pr_positionId res \<noteq> [] \<and> length (pr_positionId res) \<le> 128 \<and>
        (\<exists>w1 w2 ds. run (via_api sd h) (deposit_derive wb inp (pr_positionId res)) w1 = (Inr ds, w2) \<and> pr_stealthPubkey res = ds_publicKey ds)"
  have "wp (via_api sd h) (runPrivateDeposit wb ml inp) ?Q w"
    unfolding runPrivateDeposit_def Let_def
    apply (rule wp_past, rule wp_past, rule wp_after, rule wp_past, clarify, rule wp_after)
          apply (drule prepared_echo, simp)
          apply (rule wp_past, rule wp_past, rule wp_past, clarify, rule wp_past, rule wp_past)
               apply (rule wp_returnE)
               apply (auto intro!: exI)
    done
  then show ?thesis by (simp add: wp_def)
qed

section \<open>Pods and executors\<close>

text \<open>An exit closes the pod of its position and nothing opens it again; both are idempotent.\<close>

lemma createPod_keeps: "ps k = Some pod \<Longrightarrow> snd (createPod i m ps) k = Some pod"
  by (auto simp: createPod_def Let_def split: option.splits)

lemma exit_closes:
  "prepareExit env MockPrivacyAdapter inp ps = (r, ps') \<Longrightarrow>
     r = Inr (buildMockExitReceipt (formatPodId (ei_positionId inp)) inp) \<and> (\<exists>pod. ps' (formatPodId (ei_positionId inp)) = Some pod \<and> po_status pod = PodClosed)"
  if "\<And>k pod. ps k = Some pod \<Longrightarrow> po_id pod = k"
  using that
  by (auto simp: mock_prepareExit_def createPod_def closePod_def Let_def split: option.splits if_splits)

lemma funding_never_reopens:
  "ps k = Some pod \<Longrightarrow> snd (prepareFunding env ad inp ps) k = Some pod"
  using createPod_keeps [of ps k pod "fi_positionId inp" "fi_mode inp"]
  by (cases ad) (auto simp: mock_prepareFunding_def Let_def case_prod_beta)

lemma onchain_needs_context: "(\<exists>e. onchain_execute op ctx = Inl e) \<longleftrightarrow> ctx = None"
  by (auto simp: onchain_execute_def split: option.splits)

end
