(* ===== verification/BrowserHelpers.thy ===== *)
theory BrowserHelpers imports BrowserClaim DlmmQueries begin

text \<open>
  Helpers of the pages: the synthetic distribution and the projected shape of lib/bins.ts, and the
  toasts of hooks/use-toast.ts.  \<open>Math.exp\<close>, \<open>Math.pow\<close> and \<open>Math.sqrt\<close>, which an engine may
  approximate, are the parameter \<open>js_math\<close>.
\<close>

section \<open>lib/bins.ts\<close>

unbundle bit_operations_syntax

record js_math =
  ma_exp :: "js_num \<Rightarrow> js_num"
  ma_pow :: "js_num \<Rightarrow> js_num \<Rightarrow> js_num"
  ma_sqrt :: "js_num \<Rightarrow> js_num"

definition char_step :: "32 word \<Rightarrow> char \<Rightarrow> 32 word" where
  "char_step h c = (h XOR of_char c) * 16777619"

definition hashSeed :: "string \<Rightarrow> 32 word" where
  "hashSeed s = (let h = foldl char_step 2166136261 s in if h = 0 then 1 else h)"

text \<open>One draw: the number and the next state of the generator.\<close>

definition mulberry32 :: "32 word \<Rightarrow> js_num \<times> 32 word" where
  "mulberry32 a0 =
     (let a = a0 + 0x6d2b79f5;
          t1 = (a XOR drop_bit 15 a) * (a OR 1);
          t2 = t1 XOR (t1 + (t1 XOR drop_bit 7 t1) * (t1 OR 61));
          r = t2 XOR drop_bit 14 t2
      in (Fin (of_nat (unat r) / 4294967296), a))"

definition binPrice :: "js_math \<Rightarrow> js_num \<Rightarrow> int \<Rightarrow> int \<Rightarrow> int \<Rightarrow> js_num" where
  "binPrice ma activePrice activeBinId binId binStep =
     (let k = js_add (Fin 1) (js_div (js_int binStep) (Fin 10000))
      in js_mul activePrice (ma_pow ma k (js_int (binId - activeBinId))))"

text \<open>The longest prefix that is a number; a sign and \<open>Infinity\<close> as in \<open>parseFloat\<close>.\<close>

definition unsigned_prefix :: "string \<Rightarrow> js_num" where
  "unsigned_prefix s =
     (if take 8 s = ''Infinity'' then PosInf
      else
        (case find (\<lambda>k. decimal_value (take k s) \<noteq> None) (rev [1..<Suc (length s)]) of
           None \<Rightarrow> NaN
         | Some k \<Rightarrow> fl64 (the (decimal_value (take k s)))))"

definition parseFloat :: "string \<Rightarrow> js_num" where
  "parseFloat s =
     (case dropWhile is_space s of
        [] \<Rightarrow> NaN
      | c # r \<Rightarrow>
          if c = CHR ''-'' then js_neg (unsigned_prefix r)
          else if c = CHR ''+'' then unsigned_prefix r
          else unsigned_prefix (c # r))"

definition bins_parseUsd :: "string \<Rightarrow> js_num" where
  "bins_parseUsd v =
     (if v = [] then Fin 0
      else
        let n = parseFloat (filter (\<lambda>c. c \<noteq> CHR ''$'' \<and> c \<noteq> CHR '','') v) in
        if CHR ''M'' \<in> set v then js_mul n (Fin 1000000)
        else if CHR ''K'' \<in> set v then js_mul n (Fin 1000)
        else if js_isFinite n then n else Fin 0)"

record BinsPool =
  bo_id :: string
  bo_address :: string
  bo_tokenA :: string
  bo_tokenB :: string
  bo_tvl :: string
  bo_binStep :: int
  bo_activeBinId :: int
  bo_activePrice :: js_num

definition impliedPriceFromPool :: "BinsPool \<Rightarrow> js_num" where
  "impliedPriceFromPool pool =
     (if bo_tokenB pool = ''USDC'' \<or> bo_tokenB pool = ''USDT'' then
        (if bo_tokenA pool = ''SOL'' then Fin 195
         else if bo_tokenA pool = ''JUP'' then fl64 (85 / 100)
         else if bo_tokenA pool = ''PYTH'' then fl64 (31 / 100)
         else if bo_tokenA pool = ''WIF'' then fl64 (195 / 100)
         else if bo_tokenA pool = ''BONK'' then fl64 (245 / 10000000)
         else Fin 1)
      else Fin 1)"

record SyntheticBin =
  sy_binId :: int
  sy_price :: js_num
  sy_liquidity :: js_num

definition js_or :: "js_num \<Rightarrow> js_num \<Rightarrow> js_num" where
  "js_or x d = (if x = NaN \<or> x = Fin 0 then d else x)"

definition Math_PI :: js_num where "Math_PI = Fin (884279719003555 / 281474976710656)"

text \<open>The bins in their order, the generator passed along.\<close>

fun synthetic_bins ::
  "js_math \<Rightarrow> BinsPool \<Rightarrow> js_num \<Rightarrow> int \<Rightarrow> int \<Rightarrow> js_num \<Rightarrow> js_num \<Rightarrow> js_num \<Rightarrow> int \<Rightarrow> 32 word \<Rightarrow> nat \<Rightarrow> SyntheticBin list" where
  "synthetic_bins ma pool activePrice activeBinId binStep sigma tvl peak offset rng 0 = []"
| "synthetic_bins ma pool activePrice activeBinId binStep sigma tvl peak offset rng (Suc n) =
     (let (draw, rng') = mulberry32 rng;
          binId = activeBinId + offset;
          noise = js_add (fl64 (75 / 100)) (js_mul draw (fl64 (5 / 10)));
          spread = js_mul (js_mul (Fin 2) sigma) sigma;
          liquidity = js_mul (js_mul peak (ma_exp ma (js_div (js_neg (js_int (offset * offset))) spread))) noise
      in \<lparr>sy_binId = binId, sy_price = binPrice ma activePrice activeBinId binId binStep,
          sy_liquidity = js_max liquidity (js_mul tvl (fl64 (5 / 10000)))\<rparr>
        # synthetic_bins ma pool activePrice activeBinId binStep sigma tvl peak (offset + 1) rng' n)"

definition synthesizeBins :: "js_math \<Rightarrow> BinsPool \<Rightarrow> nat option \<Rightarrow> SyntheticBin list" where
  "synthesizeBins ma pool count_opt =
     (let count = (case count_opt of None \<Rightarrow> 61 | Some n \<Rightarrow> n);
          half = int (count div 2);
          binStep = (if bo_binStep pool = 0 then 25 else bo_binStep pool);
          activeBinId = bo_activeBinId pool;
          activePrice = (if js_gt (bo_activePrice pool) (Fin 0) then bo_activePrice pool else impliedPriceFromPool pool);
          rng = hashSeed (if bo_id pool = [] then bo_address pool else bo_id pool);
          sigma = js_max (Fin 4) (js_min (js_mul (js_int half) (fl64 (55 / 100)))
            (js_mul (js_int half) (if 100 < binStep then fl64 (6 / 10) else fl64 (35 / 100))));
          tvl = js_or (bins_parseUsd (bo_tvl pool)) (Fin 1000000);
          peak = js_div tvl (js_mul sigma (ma_sqrt ma (js_mul (Fin 2) Math_PI)))
      in synthetic_bins ma pool activePrice activeBinId binStep sigma tvl peak (- half) rng count)"

definition bin_weight :: "js_math \<Rightarrow> int \<Rightarrow> int \<Rightarrow> shape \<Rightarrow> int \<Rightarrow> js_num" where
  "bin_weight ma lo hi sh b =
     (let span = max 1 (hi - lo); center = js_div (js_int (lo + hi)) (Fin 2) in
      if b < lo \<or> hi < b then Fin 0
      else (case sh of
          Spot \<Rightarrow> Fin 1
        | Curve \<Rightarrow>
            let sigma = js_div (js_int span) (Fin 4); d = js_sub (js_int b) center in
            ma_exp ma (js_div (js_neg (js_mul d d)) (js_mul (js_mul (Fin 2) sigma) sigma))
        | BidAsk \<Rightarrow>
            let t = js_div (js_sub (js_int b) center) (js_div (js_int span) (Fin 2)) in
            js_add (fl64 (2 / 10)) (js_mul (js_mul (fl64 (8 / 10)) t) t)))"

definition projectUserShape :: "js_math \<Rightarrow> int list \<Rightarrow> int \<Rightarrow> int \<Rightarrow> shape \<Rightarrow> js_num \<Rightarrow> js_num list" where
  "projectUserShape ma binIds lower upper sh depositUsd =
     (let weights = map (bin_weight ma (min lower upper) (max lower upper) sh) binIds;
          total = js_or (foldl js_add (Fin 0) weights) (Fin 1)
      in map (\<lambda>w. js_mul (js_div w total) depositUsd) weights)"

section \<open>hooks/use-toast.ts\<close>

definition TOAST_LIMIT :: nat where "TOAST_LIMIT = 1"
definition MAX_SAFE_INTEGER :: int where "MAX_SAFE_INTEGER = 9007199254740991"

record ToasterToast =
  tt_id :: string
  tt_title :: "string option"
  tt_description :: "string option"
  tt_open :: bool

text \<open>A partial toast: what an update leaves out stays.\<close>

record ToastPatch =
  tp_id :: string
  tp_title :: "string option option"
  tp_description :: "string option option"
  tp_open :: "bool option"

datatype ToastAction =
    AddToast ToasterToast
  | UpdateToast ToastPatch
  | DismissToast "string option"
  | RemoveToast "string option"

text \<open>The module: the counter, the toasts shown and the toasts with a timer for their removal.\<close>

record toaster =
  ta_count :: int
  ta_toasts :: "ToasterToast list"
  ta_timeouts :: "string list"

definition new_toaster :: toaster where
  "new_toaster = \<lparr>ta_count = 0, ta_toasts = [], ta_timeouts = []\<rparr>"

definition genId :: "toaster \<Rightarrow> string \<times> toaster" where
  "genId st = (let c = (ta_count st + 1) mod MAX_SAFE_INTEGER in (string_of_bigint c, st\<lparr>ta_count := c\<rparr>))"

definition addToRemoveQueue :: "toaster \<Rightarrow> string \<Rightarrow> toaster" where
  "addToRemoveQueue st i = (if i \<in> set (ta_timeouts st) then st else st\<lparr>ta_timeouts := i # ta_timeouts st\<rparr>)"

definition patched :: "ToastPatch \<Rightarrow> ToasterToast \<Rightarrow> ToasterToast" where
  "patched u t =
     \<lparr>tt_id = tp_id u, tt_title = (case tp_title u of None \<Rightarrow> tt_title t | Some x \<Rightarrow> x),
      tt_description = (case tp_description u of None \<Rightarrow> tt_description t | Some x \<Rightarrow> x),
      tt_open = (case tp_open u of None \<Rightarrow> tt_open t | Some x \<Rightarrow> x)\<rparr>"

fun toast_reducer :: "toaster \<Rightarrow> ToastAction \<Rightarrow> toaster" where
  "toast_reducer st (AddToast t) = st\<lparr>ta_toasts := take TOAST_LIMIT (t # ta_toasts st)\<rparr>"
| "toast_reducer st (UpdateToast u) = st\<lparr>ta_toasts := map (\<lambda>t. if tt_id t = tp_id u then patched u t else t) (ta_toasts st)\<rparr>"
| "toast_reducer st (DismissToast toastId) =
     (let st' = (if missing toastId then foldl addToRemoveQueue st (map tt_id (ta_toasts st)) else addToRemoveQueue st (the toastId))
      in st'\<lparr>ta_toasts := map (\<lambda>t. if Some (tt_id t) = toastId \<or> toastId = None then t\<lparr>tt_open := False\<rparr> else t) (ta_toasts st)\<rparr>)"
| "toast_reducer st (RemoveToast toastId) =
     st\<lparr>ta_toasts := (case toastId of None \<Rightarrow> [] | Some i \<Rightarrow> filter (\<lambda>t. tt_id t \<noteq> i) (ta_toasts st))\<rparr>"

definition show_toast :: "toaster \<Rightarrow> string option \<Rightarrow> string option \<Rightarrow> string \<times> toaster" where
  "show_toast st title description =
     (let (i, st1) = genId st
      in (i, toast_reducer st1 (AddToast \<lparr>tt_id = i, tt_title = title, tt_description = description, tt_open = True\<rparr>)))"

definition timer_fires :: "toaster \<Rightarrow> string \<Rightarrow> toaster" where
  "timer_fires st i =
     (if i \<in> set (ta_timeouts st) then toast_reducer (st\<lparr>ta_timeouts := removeAll i (ta_timeouts st)\<rparr>) (RemoveToast (Some i)) else st)"

section \<open>Shapes stay in their range\<close>

lemma hashSeed_nonzero: "hashSeed s \<noteq> 0"
  by (simp add: hashSeed_def Let_def)

lemma unit_fraction: "\<exists>r. Fin (of_nat (unat x) / 4294967296) = Fin r \<and> 0 \<le> r \<and> r < 1" for x :: "32 word"
proof -
  have "unat x < 2 ^ 32" using unsigned_less [of x, where ?'a = nat] by simp
  then have "(of_nat (unat x) :: rat) < of_nat (2 ^ 32)" by (simp only: of_nat_less_iff)
  then have "of_nat (unat x) / 4294967296 < (1 :: rat)" by simp
  then show ?thesis by (intro exI [of _ "of_nat (unat x) / 4294967296"]) (simp del: of_nat_unat)
qed

lemma mulberry_range: "\<exists>r. fst (mulberry32 a) = Fin r \<and> 0 \<le> r \<and> r < 1"
  unfolding mulberry32_def Let_def fst_conv by (rule unit_fraction)

lemma synthetic_ids:
  "map sy_binId (synthetic_bins ma pool ap ab st sg tv pk off rng n) = map (\<lambda>i. ab + off + int i) [0..<n]"
proof (induction n arbitrary: off rng)
  case (Suc n)
  have "[0..<Suc n] = 0 # map Suc [0..<n]" by (simp add: upt_conv_Cons map_Suc_upt del: upt_Suc)
  then show ?case using Suc by (simp add: Let_def comp_def algebra_simps split: prod.splits)
qed simp

lemma shape_symmetric: "projectUserShape ma bs lower upper sh usd = projectUserShape ma bs upper lower sh usd"
  by (simp add: projectUserShape_def min.commute max.commute)

lemma js_or_nonzero: "js_or x (Fin 1) \<noteq> NaN" "js_or x (Fin 1) \<noteq> Fin 0"
  by (auto simp: js_or_def)

lemma zero_div: "t \<noteq> NaN \<Longrightarrow> t \<noteq> Fin 0 \<Longrightarrow> js_div (Fin 0) t = Fin 0"
  using fl64_int [of 0] by (cases t) auto

lemma zero_mul: "js_mul (Fin 0) (Fin u) = Fin 0"
  using fl64_int [of 0] by simp

lemma spot_total:
  "foldl js_add (Fin (of_nat k)) (map (bin_weight ma lo hi Spot) bs) =
     Fin (of_nat (k + length (filter (\<lambda>b. lo \<le> b \<and> b \<le> hi) bs)))"
  if "k + length bs < 2 ^ 53"
  using that
proof (induction bs arbitrary: k)
  case (Cons b bs)
  have "js_add (Fin (of_nat k)) (Fin 1) = Fin (of_nat (Suc k))" "js_add (Fin (of_nat k)) (Fin 0) = Fin (of_nat k)"
    using Cons.prems fl64_int [of "int k + 1"] fl64_int [of "int k"] by (simp_all add: add.commute)
  then show ?case using Cons.IH [of "Suc k"] Cons.IH [of k] Cons.prems
    by (auto simp: bin_weight_def Let_def)
qed simp

text \<open>
  What the charts draw.  The synthetic bins are as many as asked for, one after the other
  around the active bin.  A projected deposit has one share for every bin, the same whichever end of
  the range is named first, and nothing outside the range; a spot deposit gives every bin of
  the range the same share, the deposit over their number.
\<close>

theorem projected_shapes_stay_in_range:
  assumes "i < length bs" and "length bs < 2 ^ 53" and "shares = projectUserShape ma bs lower upper sh (Fin usd)"
    and "inside = filter (\<lambda>b. min lower upper \<le> b \<and> b \<le> max lower upper) bs"
  shows "map sy_binId (synthesizeBins ma pool (Some n)) = map (\<lambda>k. bo_activeBinId pool - int (n div 2) + int k) [0..<n] \<and>
    length shares = length bs \<and> shares = projectUserShape ma bs upper lower sh (Fin usd) \<and>
    (bs ! i \<notin> set inside \<longrightarrow> shares ! i = Fin 0) \<and>
    (sh = Spot \<and> bs ! i \<in> set inside \<longrightarrow> shares ! i = js_mul (js_div (Fin 1) (Fin (of_nat (length inside)))) (Fin usd))"
proof -
  let ?w = "bin_weight ma (min lower upper) (max lower upper) sh"
  let ?total = "js_or (foldl js_add (Fin 0) (map ?w bs)) (Fin 1)"
  have share: "shares ! i = js_mul (js_div (?w (bs ! i)) ?total) (Fin usd)"
    using assms(1) by (simp add: assms(3) projectUserShape_def Let_def)
  have "shares ! i = Fin 0" if "bs ! i \<notin> set inside"
  proof -
    have "?w (bs ! i) = Fin 0" using that assms(1) by (auto simp: assms(4) bin_weight_def Let_def)
    then show ?thesis using share by (simp only: zero_div js_or_nonzero not_False_eq_True zero_mul)
  qed
  moreover have "shares ! i = js_mul (js_div (Fin 1) (Fin (of_nat (length inside)))) (Fin usd)" if "sh = Spot" "bs ! i \<in> set inside"
  proof -
    have "?w (bs ! i) = Fin 1" using that by (auto simp: assms(4) bin_weight_def Let_def)
    moreover have "?total = Fin (of_nat (length inside))"
      using that assms(2) spot_total [of 0 bs ma "min lower upper" "max lower upper"]
      by (auto simp: assms(4) js_or_def filter_empty_conv simp flip: length_greater_0_conv)
    ultimately show ?thesis using share by simp
  qed
  ultimately show ?thesis
    by (auto simp: synthesizeBins_def Let_def synthetic_ids shape_symmetric assms(3) projectUserShape_def min.commute max.commute)
qed

section \<open>Toasts\<close>

datatype toast_event =
    Shown "string option" "string option"
  | Updated ToastPatch
  | Dismissed "string option"
  | TimerFired string

fun toast_step :: "toaster \<Rightarrow> toast_event \<Rightarrow> toaster" where
  "toast_step st (Shown title description) = snd (show_toast st title description)"
| "toast_step st (Updated u) = toast_reducer st (UpdateToast u)"
| "toast_step st (Dismissed i) = toast_reducer st (DismissToast i)"
| "toast_step st (TimerFired i) = timer_fires st i"

lemma queue_frame [simp]:
  "ta_toasts (addToRemoveQueue st i) = ta_toasts st" "set (ta_timeouts (addToRemoveQueue st i)) = insert i (set (ta_timeouts st))"
  "distinct (ta_timeouts (addToRemoveQueue st i)) = distinct (ta_timeouts st)"
  by (auto simp: addToRemoveQueue_def)

lemma queue_all [simp]:
  "ta_toasts (foldl addToRemoveQueue st is) = ta_toasts st"
  "set (ta_timeouts (foldl addToRemoveQueue st is)) = set is \<union> set (ta_timeouts st)"
  "distinct (ta_timeouts (foldl addToRemoveQueue st is)) = distinct (ta_timeouts st)"
  by (induction "is" arbitrary: st) auto

definition tidy :: "toaster \<Rightarrow> bool" where
  "tidy st \<longleftrightarrow> length (ta_toasts st) \<le> TOAST_LIMIT \<and> distinct (ta_timeouts st) \<and>
     (\<forall>t \<in> set (ta_toasts st). tt_open t \<or> tt_id t \<in> set (ta_timeouts st))"

definition closes_by_hand :: "toast_event \<Rightarrow> bool" where
  "closes_by_hand e \<longleftrightarrow> (\<exists>u. e = Updated u \<and> tp_open u = Some False)"

lemma tidy_step: "tidy st \<Longrightarrow> \<not> closes_by_hand e \<Longrightarrow> tidy (toast_step st e)"
proof (cases e)
  case (Updated u)
  assume "tidy st" "\<not> closes_by_hand e"
  then show ?thesis using Updated by (fastforce simp: tidy_def closes_by_hand_def patched_def split: option.splits)
next
  case (Dismissed i)
  assume "tidy st" "\<not> closes_by_hand e"
  then show ?thesis using Dismissed by (cases i) (auto simp: tidy_def Let_def missing_def intro: rev_image_eqI)
next
  case (TimerFired i)
  assume "tidy st" "\<not> closes_by_hand e"
  then show ?thesis using TimerFired
    by (auto simp: tidy_def timer_fires_def distinct_removeAll intro: order_trans [OF length_filter_le])
qed (auto simp: tidy_def show_toast_def genId_def TOAST_LIMIT_def Let_def)

text \<open>At most one toast is shown, and one that is closed waits for its removal, unless an update closes it.\<close>

lemma toasts_are_tidy: "\<forall>e \<in> set es. \<not> closes_by_hand e \<Longrightarrow> tidy (foldl toast_step new_toaster es)"
proof (induction es rule: rev_induct)
  case Nil
  then show ?case by (simp add: tidy_def new_toaster_def)
qed (simp add: tidy_step)

section \<open>A concrete projection\<close>

definition plain_math :: js_math where
  "plain_math = \<lparr>ma_exp = (\<lambda>x. x), ma_pow = (\<lambda>x y. x), ma_sqrt = (\<lambda>x. x)\<rparr>"

definition plain_pool :: BinsPool where
  "plain_pool = \<lparr>bo_id = ''p'', bo_address = ''p'', bo_tokenA = ''SOL'', bo_tokenB = ''USDC'', bo_tvl = ''$1K'', bo_binStep = 25, bo_activeBinId = 7,
     bo_activePrice = Fin 0\<rparr>"

lemma one_half: "js_mul (js_div (Fin 1) (Fin 2)) (Fin 10) = Fin 5" by code_simp

theorem projected_shapes_stay_in_range_witness:
  "projectUserShape plain_math [0, 1, 2, 3] 2 1 Spot (Fin 10) ! 1 = Fin 5 \<and>
     map sy_binId (synthesizeBins plain_math plain_pool (Some 3)) = [6, 7, 8]"
  using projected_shapes_stay_in_range [of 1 "[0, 1, 2, 3]" "projectUserShape plain_math [0, 1, 2, 3] 2 1 Spot (Fin 10)" plain_math 2 1 Spot 10
      "[1, 2]" plain_pool 3] one_half
  by (simp add: plain_pool_def upt_rec) metis

end
