(* ===== verification/BrowserStores.thy ===== *)
theory BrowserStores imports BrowserClaim begin

text \<open>
  What the browser keeps between visits: lib/localPositions.ts, lib/tosAck.ts and lib/stealthAck.ts
  over one local storage, and the handlers of the modals and pages that write it after a flow.
  The storage maps keys to cells; a cell is the JSON text a store wrote, kept as the value it parses to.
\<close>

section \<open>Positions\<close>

datatype derivation_version = V1 | V2

record tx_signatures =
  sg_mixerDeposit :: "string option"
  sg_relayerWithdraw :: "string option"
  sg_init :: "string option"
  sg_fund :: "string option"

text \<open>A number that is not finite is stored as null, read back as no number.\<close>

record StoredPosition =
  lp_positionId :: string
  lp_poolAddress :: string
  lp_positionPubkey :: string
  lp_stealthPubkey :: string
  lp_fundedLamports :: string
  lp_depositedUsd :: "js_num option"
  lp_lowerBinId :: int
  lp_upperBinId :: int
  lp_shape :: shape
  lp_ts :: int
  lp_network :: Network
  lp_closed :: bool
  lp_closedAt :: "int option"
  lp_withdrawSignature :: "string option"
  lp_withdrawRecipient :: "string option"
  lp_signatures :: "tx_signatures option"
  lp_derivationVersion :: "derivation_version option"

text \<open>
  What a cell parses to: an array, whose elements are positions or something else, the record of
  an acknowledgement, the number of the text "1", or text that is no JSON.
\<close>

datatype row = Position StoredPosition | Foreign

datatype cell =
    Rows "row list"
  | Ack string string string
  | One
  | Unreadable

type_synonym local_storage = "string \<Rightarrow> cell option"

text \<open>The page: its storage and the number of change events it has dispatched.\<close>

record page =
  pg_storage :: local_storage
  pg_changed :: nat

text \<open>
  What a call meets: whether there is a window, whether its storage may be read, what the quota
  admits, and the clock.
\<close>

record visit =
  vi_window :: bool
  vi_readable :: bool
  vi_admits :: "local_storage \<Rightarrow> bool"
  vi_now :: int
  vi_nowIso :: string

definition getItem :: "visit \<Rightarrow> string \<Rightarrow> page \<Rightarrow> string + cell option" where
  "getItem v k pg = (if vi_readable v then Inr (pg_storage pg k) else Inl ''SecurityError'')"

definition setItem :: "visit \<Rightarrow> string \<Rightarrow> cell \<Rightarrow> page \<Rightarrow> (string + unit) \<times> page" where
  "setItem v k c pg =
     (if \<not> vi_readable v then (Inl ''SecurityError'', pg)
      else if vi_admits v ((pg_storage pg)(k \<mapsto> c)) then (Inr (), pg\<lparr>pg_storage := (pg_storage pg)(k \<mapsto> c)\<rparr>)
      else (Inl ''QuotaExceededError'', pg))"

definition removeItem :: "visit \<Rightarrow> string \<Rightarrow> page \<Rightarrow> (string + unit) \<times> page" where
  "removeItem v k pg =
     (if vi_readable v then (Inr (), pg\<lparr>pg_storage := (pg_storage pg)(k := None)\<rparr>) else (Inl ''SecurityError'', pg))"

section \<open>localPositions.ts\<close>

definition KEY_PREFIX :: string where "KEY_PREFIX = ''octora.positions.v1.''"

definition positions_key :: "string \<Rightarrow> string" where
  "positions_key walletAddress = KEY_PREFIX @ walletAddress"

definition notifyChanged :: "page \<Rightarrow> page" where
  "notifyChanged pg = pg\<lparr>pg_changed := Suc (pg_changed pg)\<rparr>"

fun row_position :: "row \<Rightarrow> StoredPosition option" where
  "row_position (Position p) = Some p"
| "row_position Foreign = None"

definition safeParse :: "cell option \<Rightarrow> StoredPosition list" where
  "safeParse raw = (case raw of Some (Rows rs) \<Rightarrow> List.map_filter row_position rs | _ \<Rightarrow> [])"

definition listLocalPositions :: "visit \<Rightarrow> string option \<Rightarrow> page \<Rightarrow> string + StoredPosition list" where
  "listLocalPositions v walletAddress pg =
     (if missing walletAddress \<or> \<not> vi_window v then Inr []
      else map_sum id safeParse (getItem v (positions_key (the walletAddress)) pg))"

definition json_position :: "StoredPosition \<Rightarrow> StoredPosition" where
  "json_position p =
     p\<lparr>lp_depositedUsd := (case lp_depositedUsd p of Some (Fin r) \<Rightarrow> Some (Fin r) | _ \<Rightarrow> None)\<rparr>"

definition save_positions :: "visit \<Rightarrow> string \<Rightarrow> StoredPosition list \<Rightarrow> page \<Rightarrow> (string + unit) \<times> page" where
  "save_positions v walletAddress ps pg =
     (case setItem v (positions_key walletAddress) (Rows (map (\<lambda>p. Position (json_position p)) ps)) pg of
        (Inl e, pg') \<Rightarrow> (Inl e, pg')
      | (Inr _, pg') \<Rightarrow> (Inr (), notifyChanged pg'))"

text \<open>
  The shape the four writers share: nothing without a wallet or a window, the positions as they
  are, what is to be written, if anything.
\<close>

definition edit_positions ::
  "visit \<Rightarrow> string \<Rightarrow> (StoredPosition list \<Rightarrow> StoredPosition list option) \<Rightarrow> page \<Rightarrow> (string + unit) \<times> page" where
  "edit_positions v walletAddress edit pg =
     (if walletAddress = [] \<or> \<not> vi_window v then (Inr (), pg)
      else
        (case listLocalPositions v (Some walletAddress) pg of
           Inl e \<Rightarrow> (Inl e, pg)
         | Inr current \<Rightarrow>
             (case edit current of None \<Rightarrow> (Inr (), pg) | Some next \<Rightarrow> save_positions v walletAddress next pg)))"

definition addLocalPosition :: "visit \<Rightarrow> string \<Rightarrow> StoredPosition \<Rightarrow> page \<Rightarrow> (string + unit) \<times> page" where
  "addLocalPosition v walletAddress position =
     edit_positions v walletAddress
       (\<lambda>current. Some (position # filter (\<lambda>p. lp_positionId p \<noteq> lp_positionId position) current))"

record CloseMetadata =
  cm_signature :: "string option"
  cm_recipient :: "string option"
  cm_ts :: "int option"

definition close_position :: "visit \<Rightarrow> CloseMetadata \<Rightarrow> StoredPosition \<Rightarrow> StoredPosition" where
  "close_position v meta p =
     p\<lparr>lp_closed := True, lp_closedAt := Some (case cm_ts meta of Some t \<Rightarrow> t | None \<Rightarrow> vi_now v),
       lp_withdrawSignature := cm_signature meta, lp_withdrawRecipient := cm_recipient meta\<rparr>"

definition markLocalPositionClosed :: "visit \<Rightarrow> string \<Rightarrow> string \<Rightarrow> CloseMetadata \<Rightarrow> page \<Rightarrow> (string + unit) \<times> page" where
  "markLocalPositionClosed v walletAddress positionId meta =
     edit_positions v walletAddress
       (\<lambda>current.
          let hit = (\<lambda>p. lp_positionId p = positionId \<and> \<not> lp_closed p) in
          if \<exists>p \<in> set current. hit p then Some (map (\<lambda>p. if hit p then close_position v meta p else p) current) else None)"

record RebalanceMetadata =
  rm_lowerBinId :: int
  rm_upperBinId :: int
  rm_shape :: shape
  rm_positionPubkey :: string
  rm_fundSignature :: "string option"

definition rebalance_position :: "RebalanceMetadata \<Rightarrow> StoredPosition \<Rightarrow> StoredPosition" where
  "rebalance_position patch p =
     (let sg = (case lp_signatures p of
                  None \<Rightarrow> \<lparr>sg_mixerDeposit = None, sg_relayerWithdraw = None, sg_init = None, sg_fund = None\<rparr>
                | Some sg \<Rightarrow> sg)
      in p\<lparr>lp_lowerBinId := rm_lowerBinId patch, lp_upperBinId := rm_upperBinId patch, lp_shape := rm_shape patch,
           lp_positionPubkey := rm_positionPubkey patch,
           lp_signatures := Some (if missing (rm_fundSignature patch) then sg else sg\<lparr>sg_fund := rm_fundSignature patch\<rparr>)\<rparr>)"

definition markLocalPositionRebalanced ::
  "visit \<Rightarrow> string \<Rightarrow> string \<Rightarrow> RebalanceMetadata \<Rightarrow> page \<Rightarrow> (string + unit) \<times> page" where
  "markLocalPositionRebalanced v walletAddress positionId patch =
     edit_positions v walletAddress
       (\<lambda>current.
          if \<exists>p \<in> set current. lp_positionId p = positionId
          then Some (map (\<lambda>p. if lp_positionId p = positionId then rebalance_position patch p else p) current) else None)"

definition removeLocalPosition :: "visit \<Rightarrow> string \<Rightarrow> string \<Rightarrow> page \<Rightarrow> (string + unit) \<times> page" where
  "removeLocalPosition v walletAddress positionId =
     edit_positions v walletAddress (\<lambda>current. Some (filter (\<lambda>p. lp_positionId p \<noteq> positionId) current))"

section \<open>tosAck.ts and stealthAck.ts\<close>

definition CURRENT_TOS_VERSION :: string where "CURRENT_TOS_VERSION = ''v2-2026-05-10''"

text \<open>The text a wallet signs, as the UTF-8 bytes it is encoded to; a bullet is three bytes, a long dash three.\<close>

definition bullet :: string where "bullet = ''  '' @ [CHR 0xE2, CHR 0x80, CHR 0xA2] @ '' ''"
definition long_dash :: string where "long_dash = [CHR 0xE2, CHR 0x80, CHR 0x94]"

definition join_lines :: "string list \<Rightarrow> string" where
  "join_lines ls = (case ls of [] \<Rightarrow> [] | l # rest \<Rightarrow> l @ concat (map (\<lambda>x. newline # x) rest))"

definition TOS_ACK_MESSAGE :: string where
  "TOS_ACK_MESSAGE = join_lines
     [''Octora '' @ long_dash @ '' beta acknowledgement'',
      [],
      ''Version: '' @ CURRENT_TOS_VERSION,
      [],
      ''I understand and accept that:'',
      [],
      bullet @ ''Octora is in BETA and the smart contracts are UNAUDITED.'',
      bullet @ ''A bug in the on-chain programs, the ZK circuit, or the trusted-'',
      ''    setup ceremony could result in total loss of any deposited funds.'',
      bullet @ ''The mixer'' @ [CHR 0x27] @ ''s privacy guarantees depend on a healthy anonymity set;'',
      ''    very-early withdrawals may be statistically linkable to deposits.'',
      bullet @ ''Stealth wallets are derived from a wallet signature '' @ long_dash @ '' losing access'',
      ''    to the original main wallet means losing access to any unwithdrawn'',
      ''    stealth balances.'',
      bullet @ ''For non-SOL-paired pools, my stealth wallet may execute an on-chain'',
      ''    Meteora DLMM swap as part of LP funding. Swap pricing, slippage,'',
      ''    pool liquidity, and execution risk on that leg are my responsibility.'',
      bullet @ ''The Octora team can pause the protocol but cannot recover lost funds.'',
      [],
      ''I will not deposit more than I can afford to lose, and I will not hold'',
      ''Octora liable for losses arising from any of the risks above.'']"

definition TOS_PREFIX :: string where "TOS_PREFIX = ''octora.tos-ack:''"

definition tos_key :: "string \<Rightarrow> string" where
  "tos_key walletAddress = TOS_PREFIX @ walletAddress"

definition hasAckedTos :: "visit \<Rightarrow> string option \<Rightarrow> page \<Rightarrow> bool" where
  "hasAckedTos v walletAddress pg =
     (if missing walletAddress then False
      else
        (case getItem v (tos_key (the walletAddress)) pg of
           Inr (Some (Ack version signedAt signature)) \<Rightarrow> version = CURRENT_TOS_VERSION
         | _ \<Rightarrow> False))"

definition recordTosAck :: "visit \<Rightarrow> string \<Rightarrow> string \<Rightarrow> page \<Rightarrow> (string + unit) \<times> page" where
  "recordTosAck v walletAddress signature =
     setItem v (tos_key walletAddress) (Ack CURRENT_TOS_VERSION (vi_nowIso v) signature)"

definition clearTosAck :: "visit \<Rightarrow> string \<Rightarrow> page \<Rightarrow> (string + unit) \<times> page" where
  "clearTosAck v walletAddress = removeItem v (tos_key walletAddress)"

definition STEALTH_ACK_PREFIX :: string where "STEALTH_ACK_PREFIX = ''octora.stealth-ack:''"

definition stealth_ack_key :: "string \<Rightarrow> string" where
  "stealth_ack_key walletAddress = STEALTH_ACK_PREFIX @ walletAddress"

definition hasSeenStealthExplainer :: "visit \<Rightarrow> string option \<Rightarrow> page \<Rightarrow> bool" where
  "hasSeenStealthExplainer v walletAddress pg =
     (if missing walletAddress then False else getItem v (stealth_ack_key (the walletAddress)) pg = Inr (Some One))"

definition markStealthExplainerSeen :: "visit \<Rightarrow> string \<Rightarrow> page \<Rightarrow> page" where
  "markStealthExplainerSeen v walletAddress pg = snd (setItem v (stealth_ack_key walletAddress) One pg)"

definition clearStealthExplainerAck :: "visit \<Rightarrow> string \<Rightarrow> page \<Rightarrow> page" where
  "clearStealthExplainerAck v walletAddress pg = snd (removeItem v (stealth_ack_key walletAddress) pg)"

section \<open>What the pages write after a flow\<close>

text \<open>PrivateDepositModal: a deposit that returns is recorded, a failed one is not; a failing write is swallowed.\<close>

definition recorded_deposit :: "visit \<Rightarrow> PrivateDepositInput \<Rightarrow> js_num \<Rightarrow> Network \<Rightarrow> PrivateDepositResult \<Rightarrow> StoredPosition" where
  "recorded_deposit v inp depositUsd network res =
     \<lparr>lp_positionId = pr_positionId res, lp_poolAddress = pi_poolAddress inp, lp_positionPubkey = pr_positionPubkey res,
      lp_stealthPubkey = pr_stealthPubkey res, lp_fundedLamports = pr_fundedLamports res, lp_depositedUsd = Some depositUsd,
      lp_lowerBinId = pi_lowerBinId inp, lp_upperBinId = pi_upperBinId inp, lp_shape = pi_shape inp, lp_ts = vi_now v,
      lp_network = network, lp_closed = False, lp_closedAt = None, lp_withdrawSignature = None, lp_withdrawRecipient = None,
      lp_signatures = Some \<lparr>sg_mixerDeposit = Some (pr_mixerDepositSignature res),
        sg_relayerWithdraw = Some (pr_relayerWithdrawSignature res), sg_init = pr_initSignature res, sg_fund = Some (pr_fundSignature res)\<rparr>,
      lp_derivationVersion = Some V2\<rparr>"

definition deposit_ended ::
  "visit \<Rightarrow> PrivateDepositInput \<Rightarrow> js_num \<Rightarrow> Network \<Rightarrow> string + PrivateDepositResult \<Rightarrow> page \<Rightarrow> page" where
  "deposit_ended v inp depositUsd network r pg =
     (case r of
        Inl e \<Rightarrow> pg
      | Inr res \<Rightarrow> snd (addLocalPosition v (pi_mainWalletAddress inp) (recorded_deposit v inp depositUsd network res) pg))"

text \<open>PrivateExitModal: the withdrawal of the relayer, else the sweep, is the signature of the close.\<close>

definition exit_ended :: "visit \<Rightarrow> string \<Rightarrow> string \<Rightarrow> string + PrivateExitResult \<Rightarrow> page \<Rightarrow> page" where
  "exit_ended v wallet positionId r pg =
     (case r of
        Inl e \<Rightarrow> pg
      | Inr res \<Rightarrow>
          snd (markLocalPositionClosed v wallet positionId
            \<lparr>cm_signature = (case xr_relayerWithdrawSignature res of Some s \<Rightarrow> Some s | None \<Rightarrow> xr_sweepSignature res),
             cm_recipient = Some wallet, cm_ts = None\<rparr> pg))"

definition rebalance_ended :: "visit \<Rightarrow> PrivateRebalanceInput \<Rightarrow> string \<Rightarrow> string + PrivateRebalanceResult \<Rightarrow> page \<Rightarrow> page" where
  "rebalance_ended v inp positionId r pg =
     (case r of
        Inl e \<Rightarrow> pg
      | Inr res \<Rightarrow>
          snd (markLocalPositionRebalanced v (bi_mainWalletAddress inp) positionId
            \<lparr>rm_lowerBinId = bi_newLowerBinId inp, rm_upperBinId = bi_newUpperBinId inp, rm_shape = bi_newShape inp,
             rm_positionPubkey = br_newPositionPubkey res, rm_fundSignature = Some (br_addLiquiditySignature res)\<rparr> pg))"

text \<open>PositionDetailPage: a sweep that returns, of whatever amount, drops the record.\<close>

definition sweep_ended :: "visit \<Rightarrow> string \<Rightarrow> string \<Rightarrow> string + SweepStealthResult \<Rightarrow> page \<Rightarrow> page" where
  "sweep_ended v wallet positionId r pg =
     (case r of Inl e \<Rightarrow> pg | Inr res \<Rightarrow> snd (removeLocalPosition v wallet positionId pg))"

text \<open>TosAckModal records once the wallet has signed; the explainer is marked when the user goes on.\<close>

definition tos_signed :: "visit \<Rightarrow> string \<Rightarrow> string + string \<Rightarrow> page \<Rightarrow> page" where
  "tos_signed v wallet r pg =
     (case r of Inl e \<Rightarrow> pg | Inr signature \<Rightarrow> if wallet = [] then pg else snd (recordTosAck v wallet signature pg))"

datatype page_event =
    DepositEnded PrivateDepositInput js_num Network "string + PrivateDepositResult"
  | ExitEnded string string "string + PrivateExitResult"
  | RebalanceEnded PrivateRebalanceInput string "string + PrivateRebalanceResult"
  | SweepEnded string string "string + SweepStealthResult"
  | TosSigned string "string + string"
  | ExplainerSeen string

fun page_step :: "page \<Rightarrow> visit \<times> page_event \<Rightarrow> page" where
  "page_step pg (v, DepositEnded inp usd network r) = deposit_ended v inp usd network r pg"
| "page_step pg (v, ExitEnded wallet i r) = exit_ended v wallet i r pg"
| "page_step pg (v, RebalanceEnded inp i r) = rebalance_ended v inp i r pg"
| "page_step pg (v, SweepEnded wallet i r) = sweep_ended v wallet i r pg"
| "page_step pg (v, TosSigned wallet r) = tos_signed v wallet r pg"
| "page_step pg (v, ExplainerSeen wallet) = markStealthExplainerSeen v wallet pg"

section \<open>Which stealth wallet a record opens\<close>

text \<open>PrivateExitModal, PrivateClaimModal and PrivateRebalanceModal; and the sweep of PositionDetailPage.\<close>

definition modal_positionId :: "StoredPosition \<Rightarrow> string option" where
  "modal_positionId p = (if lp_derivationVersion p = Some V1 then None else Some (lp_positionId p))"

definition sweep_positionId :: "StoredPosition \<Rightarrow> string option" where
  "sweep_positionId p = (if lp_derivationVersion p = Some V2 then Some (lp_positionId p) else None)"

definition exit_input :: "string \<Rightarrow> StoredPosition \<Rightarrow> bool \<Rightarrow> PrivateExitInput" where
  "exit_input wallet p dustAck =
     \<lparr>xi_mainWalletAddress = wallet, xi_poolAddress = lp_poolAddress p, xi_positionId = modal_positionId p,
      xi_slippageBps = None, xi_allowDustSweep = dustAck\<rparr>"

definition claim_input :: "string \<Rightarrow> StoredPosition \<Rightarrow> PrivateClaimInput" where
  "claim_input wallet p =
     \<lparr>ci_mainWalletAddress = wallet, ci_poolAddress = lp_poolAddress p, ci_positionId = modal_positionId p, ci_slippageBps = None\<rparr>"

definition rebalance_input :: "string \<Rightarrow> StoredPosition \<Rightarrow> int \<Rightarrow> int \<Rightarrow> shape \<Rightarrow> PrivateRebalanceInput" where
  "rebalance_input wallet p lower upper sh =
     \<lparr>bi_mainWalletAddress = wallet, bi_poolAddress = lp_poolAddress p, bi_positionId = modal_positionId p,
      bi_newLowerBinId = lower, bi_newUpperBinId = upper, bi_newShape = sh, bi_slippageBps = None\<rparr>"

section \<open>What the stores promise\<close>

definition stored_positions :: "page \<Rightarrow> string \<Rightarrow> StoredPosition list" where
  "stored_positions pg wallet = safeParse (pg_storage pg (positions_key wallet))"

lemma map_filter_positions [simp]: "List.map_filter row_position (map (\<lambda>p. Position (f p)) ps) = map f ps"
  by (induction ps) (simp_all add: List.map_filter_def)

lemma keys_apart [simp]:
  "positions_key w \<noteq> tos_key w'" "positions_key w \<noteq> stealth_ack_key w'" "tos_key w \<noteq> stealth_ack_key w'"
  "tos_key w' \<noteq> positions_key w" "stealth_ack_key w' \<noteq> positions_key w" "stealth_ack_key w' \<noteq> tos_key w"
  "positions_key a = positions_key b \<longleftrightarrow> a = b" "tos_key a = tos_key b \<longleftrightarrow> a = b" "stealth_ack_key a = stealth_ack_key b \<longleftrightarrow> a = b"
  by (simp_all add: positions_key_def tos_key_def stealth_ack_key_def KEY_PREFIX_def TOS_PREFIX_def STEALTH_ACK_PREFIX_def)

lemma json_keeps [simp]:
  "lp_positionId (json_position p) = lp_positionId p" "lp_poolAddress (json_position p) = lp_poolAddress p"
  "lp_stealthPubkey (json_position p) = lp_stealthPubkey p" "lp_derivationVersion (json_position p) = lp_derivationVersion p"
  "lp_closed (json_position p) = lp_closed p" "lp_closedAt (json_position p) = lp_closedAt p"
  "lp_withdrawSignature (json_position p) = lp_withdrawSignature p"
  by (simp_all add: json_position_def)

text \<open>An edit writes what it says under the key of its wallet, or nothing anywhere.\<close>

lemma edit_result:
  "(\<exists>next. edit (stored_positions pg w) = Some next \<and>
      stored_positions (snd (edit_positions v w edit pg)) = (stored_positions pg)(w := map json_position next) \<and>
      (\<forall>k. k \<noteq> positions_key w \<longrightarrow> pg_storage (snd (edit_positions v w edit pg)) k = pg_storage pg k)) \<or>
    pg_storage (snd (edit_positions v w edit pg)) = pg_storage pg"
  by (auto simp: edit_positions_def listLocalPositions_def getItem_def save_positions_def setItem_def notifyChanged_def stored_positions_def safeParse_def
      missing_def split: option.splits sum.splits)

lemma stored_cong: "pg_storage a = pg_storage b \<Longrightarrow> stored_positions a = stored_positions b"
  by (auto simp: stored_positions_def)

lemma edit_keeps:
  assumes "\<And>u. R u (stored_positions pg u)" and "\<And>next. edit (stored_positions pg w) = Some next \<Longrightarrow> R w (map json_position next)"
  shows "R u (stored_positions (snd (edit_positions v w edit pg)) u)"
  using edit_result [of edit pg w v] assms stored_cong [of "snd (edit_positions v w edit pg)" pg] by auto

lemma acks_untouched:
  "pg_storage (snd (edit_positions v w edit pg)) (tos_key u) = pg_storage pg (tos_key u)"
  "pg_storage (snd (edit_positions v w edit pg)) (stealth_ack_key u) = pg_storage pg (stealth_ack_key u)"
  using edit_result [of edit pg w v] by auto

lemma stored_other_cell:
  "stored_positions (snd (setItem v (tos_key w) c pg)) = stored_positions pg" "stored_positions (snd (setItem v (stealth_ack_key w) c pg)) = stored_positions pg"
  by (auto simp: setItem_def stored_positions_def)

lemma ack_events_keep: "stored_positions (tos_signed v w r pg) = stored_positions pg" "stored_positions (markStealthExplainerSeen v w pg) = stored_positions pg"
  by (auto simp: tos_signed_def recordTosAck_def markStealthExplainerSeen_def stored_other_cell split: sum.splits)

lemma close_keeps [simp]:
  "lp_positionId (close_position v m p) = lp_positionId p" "lp_poolAddress (close_position v m p) = lp_poolAddress p"
  "lp_stealthPubkey (close_position v m p) = lp_stealthPubkey p" "lp_derivationVersion (close_position v m p) = lp_derivationVersion p"
  by (simp_all add: close_position_def)

lemma rebalance_keeps [simp]:
  "lp_positionId (rebalance_position m p) = lp_positionId p" "lp_poolAddress (rebalance_position m p) = lp_poolAddress p"
  "lp_stealthPubkey (rebalance_position m p) = lp_stealthPubkey p" "lp_derivationVersion (rebalance_position m p) = lp_derivationVersion p"
  "lp_closed (rebalance_position m p) = lp_closed p" "lp_closedAt (rebalance_position m p) = lp_closedAt p"
  "lp_withdrawSignature (rebalance_position m p) = lp_withdrawSignature p"
  by (simp_all add: rebalance_position_def Let_def)

lemmas store_edits = addLocalPosition_def markLocalPositionClosed_def markLocalPositionRebalanced_def removeLocalPosition_def

text \<open>What an event may do to the list of a wallet.\<close>

lemma step_keeps:
  assumes "\<And>u. R u (stored_positions pg u)"
    and "\<And>v inp usd network res. e = (v, DepositEnded inp usd network (Inr res)) \<Longrightarrow>
      let w = pi_mainWalletAddress inp; d = recorded_deposit v inp usd network res
      in R w (map json_position (d # filter (\<lambda>p. lp_positionId p \<noteq> lp_positionId d) (stored_positions pg w)))"
    and "\<And>v w i res m. e = (v, ExitEnded w i (Inr res)) \<Longrightarrow>
      R w (map json_position (map (\<lambda>p. if lp_positionId p = i \<and> \<not> lp_closed p then close_position v m p else p) (stored_positions pg w)))"
    and "\<And>v inp i res m. e = (v, RebalanceEnded inp i (Inr res)) \<Longrightarrow>
      let w = bi_mainWalletAddress inp
      in R w (map json_position (map (\<lambda>p. if lp_positionId p = i then rebalance_position m p else p) (stored_positions pg w)))"
    and "\<And>v w i res. e = (v, SweepEnded w i (Inr res)) \<Longrightarrow> R w (map json_position (filter (\<lambda>p. lp_positionId p \<noteq> i) (stored_positions pg w)))"
  shows "R u (stored_positions (page_step pg e) u)"
proof (cases e)
  case (Pair v ev)
  show ?thesis
  proof (cases ev)
    case (DepositEnded inp usd network r)
    then show ?thesis using Pair assms(1) assms(2) 
      by (cases r) (auto simp: deposit_ended_def store_edits Let_def split: if_splits intro!: edit_keeps [where R = R])
  next
    case (ExitEnded w i r)
    then show ?thesis using Pair assms(1) assms(3) 
      by (cases r) (auto simp: exit_ended_def store_edits Let_def split: if_splits intro!: edit_keeps [where R = R])
  next
    case (RebalanceEnded inp i r)
    then show ?thesis using Pair assms(1) assms(4) 
      by (cases r) (auto simp: rebalance_ended_def store_edits Let_def split: if_splits intro!: edit_keeps [where R = R])
  next
    case (SweepEnded w i r)
    then show ?thesis using Pair assms(1) assms(5) 
      by (cases r) (auto simp: sweep_ended_def store_edits Let_def split: if_splits intro!: edit_keeps [where R = R])
  qed (use Pair assms(1) in \<open>simp_all add: ack_events_keep\<close>)
qed

section \<open>Records and their deposits\<close>

definition traces_to :: "(visit \<times> page_event) list \<Rightarrow> string \<Rightarrow> StoredPosition \<Rightarrow> bool" where
  "traces_to es w p \<longleftrightarrow> lp_derivationVersion p = Some V2 \<and>
     (\<exists>v inp usd network res. (v, DepositEnded inp usd network (Inr res)) \<in> set es \<and> pi_mainWalletAddress inp = w \<and>
        pi_poolAddress inp = lp_poolAddress p \<and> pr_positionId res = lp_positionId p \<and> pr_stealthPubkey res = lp_stealthPubkey p)"

definition traced_list :: "(visit \<times> page_event) list \<Rightarrow> string \<Rightarrow> StoredPosition list \<Rightarrow> bool" where
  "traced_list es w ps \<longleftrightarrow> distinct (map lp_positionId ps) \<and> (\<forall>p \<in> set ps. traces_to es w p)"

lemma traces_more: "traces_to es w p \<Longrightarrow> traces_to (es @ [e]) w p"
  unfolding traces_to_def set_append by blast

lemma traces_json [simp]: "traces_to es w (json_position p) = traces_to es w p"
  by (simp add: traces_to_def)

lemma traces_edited [simp]:
  "traces_to es w (close_position v m p) = traces_to es w p" "traces_to es w (rebalance_position rb p) = traces_to es w p"
  by (simp_all add: traces_to_def)

lemma traces_recorded:
  "(v, DepositEnded inp usd network (Inr res)) \<in> set es \<Longrightarrow> traces_to es (pi_mainWalletAddress inp) (recorded_deposit v inp usd network res)"
  unfolding traces_to_def by (intro conjI exI [of _ v] exI [of _ inp] exI [of _ usd] exI [of _ network] exI [of _ res])
    (simp_all add: recorded_deposit_def)

lemma ids_of_edit: "(\<And>p. lp_positionId (f p) = lp_positionId p) \<Longrightarrow> map lp_positionId (map json_position (map f ps)) = map lp_positionId ps"
  by simp

lemma traced_edit:
  "(\<And>p. lp_positionId (f p) = lp_positionId p) \<Longrightarrow> (\<And>p. traces_to es w (f p) = traces_to es w p) \<Longrightarrow>
     traced_list es w (map json_position (map f ps)) = traced_list es w ps"
  by (auto simp: traced_list_def comp_def)

lemma traced_filter: "traced_list es w ps \<Longrightarrow> traced_list es w (map json_position (filter P ps))"
  by (auto simp: traced_list_def comp_def distinct_map_filter)

lemma traced_new:
  "traces_to es w d \<Longrightarrow> traced_list es w ps \<Longrightarrow>
     traced_list es w (map json_position (d # filter (\<lambda>p. lp_positionId p \<noteq> lp_positionId d) ps))"
  by (auto simp: traced_list_def comp_def distinct_map_filter)

lemma traced_step:
  assumes "\<And>w. traced_list es w (stored_positions pg w)"
  shows "traced_list (es @ [e]) w (stored_positions (page_step pg e) w)"
proof -
  have old: "traced_list (es @ [e]) w (stored_positions pg w)" for w
    using assms [of w] by (auto simp: traced_list_def traces_more)
  show ?thesis
    by (rule step_keeps [where R = "traced_list (es @ [e])"])
      (use old in \<open>auto simp: Let_def traced_edit traced_filter simp del: list.map map_map
        intro!: traced_new traces_recorded\<close>)
qed

lemma traced_history:
  "(\<And>w. stored_positions pg w = []) \<Longrightarrow> traced_list es w (stored_positions (foldl page_step pg es) w)"
  by (induction es arbitrary: w rule: rev_induct) (auto simp: traced_list_def [of "[]"] intro: traced_step)

text \<open>
  C30.  Every record is that of a deposit.  From empty stores, after any history of flows, signatures,
  clocks, quotas and unreadable storages, a wallet has at most one record of an identifier, and the
  identifier, pool and stealth wallet of a record are those of a deposit of this wallet that
  returned; records of deposits that failed do not exist.
\<close>

theorem stored_positions_trace_deposits:
  assumes "\<forall>w. stored_positions pg w = []" and "later = foldl page_step pg es"
  shows "distinct (map lp_positionId (stored_positions later w)) \<and>
    (\<forall>p \<in> set (stored_positions later w). lp_derivationVersion p = Some V2 \<and>
      (\<exists>v inp usd network res. (v, DepositEnded inp usd network (Inr res)) \<in> set es \<and> pi_mainWalletAddress inp = w \<and>
        pi_poolAddress inp = lp_poolAddress p \<and> pr_positionId res = lp_positionId p \<and> pr_stealthPubkey res = lp_stealthPubkey p))"
proof -
  have "traced_list es w (stored_positions later w)" using assms by (simp add: traced_history)
  then show ?thesis by (simp add: traced_list_def traces_to_def)
qed

section \<open>Records vanish by sweeps\<close>

fun touches :: "string \<Rightarrow> string \<Rightarrow> page_event \<Rightarrow> bool" where
  "touches w i (SweepEnded w' i' (Inr _)) = (w' = w \<and> i' = i)"
| "touches w i (DepositEnded inp _ _ (Inr res)) = (pi_mainWalletAddress inp = w \<and> pr_positionId res = i)"
| "touches w i _ = False"

text \<open>What lasts of a record: its identity, and how it was closed the first time.\<close>

definition lasts :: "StoredPosition \<Rightarrow> StoredPosition \<Rightarrow> bool" where
  "lasts p p' \<longleftrightarrow> lp_positionId p' = lp_positionId p \<and> lp_poolAddress p' = lp_poolAddress p \<and> lp_stealthPubkey p' = lp_stealthPubkey p \<and>
     lp_derivationVersion p' = lp_derivationVersion p \<and>
     (lp_closed p \<longrightarrow> lp_closed p' \<and> lp_closedAt p' = lp_closedAt p \<and> lp_withdrawSignature p' = lp_withdrawSignature p)"

lemma lasts_trans: "lasts a b \<Longrightarrow> lasts b c \<Longrightarrow> lasts a c"
  by (auto simp: lasts_def)

lemma lasts_edited [simp]:
  "lasts p (json_position p)" "lasts p (json_position (rebalance_position rb p))"
  "\<not> lp_closed p \<Longrightarrow> lasts p (json_position (close_position v m p))"
  by (simp_all add: lasts_def)

lemma lasts_map:
  "p \<in> set ps \<Longrightarrow> (\<And>q. lasts q (json_position (f q))) \<Longrightarrow> \<exists>p' \<in> set (map json_position (map f ps)). lasts p p'"
  by auto

lemma lasts_filter:
  "p \<in> set ps \<Longrightarrow> lp_positionId p \<noteq> i \<Longrightarrow> \<exists>p' \<in> set (map json_position (filter (\<lambda>q. lp_positionId q \<noteq> i) ps)). lasts p p'"
  by (auto intro: bexI [of _ p])

lemma lasts_step:
  assumes "p \<in> set (stored_positions pg w)" and "\<not> touches w (lp_positionId p) (snd e)"
  shows "\<exists>p' \<in> set (stored_positions (page_step pg e) w). lasts p p'"
proof -
  let ?R = "\<lambda>u ps. u = w \<longrightarrow> (\<exists>p' \<in> set ps. lasts p p')"
  have "?R w (stored_positions (page_step pg e) w)"
  proof (rule step_keeps [where R = ?R])
    show "?R u (stored_positions pg u)" for u using assms(1) by (auto simp: lasts_def)
  next
    fix v inp usd network res
    assume "e = (v, DepositEnded inp usd network (Inr res))"
    then show "let w = pi_mainWalletAddress inp; d = recorded_deposit v inp usd network res
      in ?R w (map json_position (d # filter (\<lambda>p. lp_positionId p \<noteq> lp_positionId d) (stored_positions pg w)))"
      using assms lasts_filter [of p "stored_positions pg w"] by (auto simp: Let_def recorded_deposit_def)
  next
    fix v w' i res m
    assume "e = (v, ExitEnded w' i (Inr res))"
    then show "?R w' (map json_position (map (\<lambda>p. if lp_positionId p = i \<and> \<not> lp_closed p then close_position v m p else p) (stored_positions pg w')))"
      using assms by (intro impI lasts_map) auto
  next
    fix v inp i res m
    assume "e = (v, RebalanceEnded inp i (Inr res))"
    then show "let w = bi_mainWalletAddress inp
      in ?R w (map json_position (map (\<lambda>p. if lp_positionId p = i then rebalance_position m p else p) (stored_positions pg w)))"
      using assms unfolding Let_def by (intro impI lasts_map) auto
  next
    fix v w' i res
    assume "e = (v, SweepEnded w' i (Inr res))"
    then show "?R w' (map json_position (filter (\<lambda>p. lp_positionId p \<noteq> i) (stored_positions pg w')))"
      using assms by (intro impI lasts_filter) auto
  qed
  then show ?thesis by simp
qed

text \<open>
  C26.  A record lasts until its sweep.  Whatever other flows end, on this wallet or another, whatever
  the storage refuses, the record of a position stays with the same identifier, pool, stealth
  wallet and derivation, and how it was closed the first time is never overwritten.
\<close>

theorem records_last_until_swept:
  assumes "p \<in> set (stored_positions pg w)" and "\<forall>(v, e) \<in> set es. \<not> touches w (lp_positionId p) e"
  shows "\<exists>p' \<in> set (stored_positions (foldl page_step pg es) w). lasts p p'"
  using assms
proof (induction es arbitrary: p pg)
  case Nil
  then show ?case by (auto simp: lasts_def)
next
  case (Cons e es)
  from Cons.prems obtain p1 where p1: "p1 \<in> set (stored_positions (page_step pg e) w)" "lasts p p1"
    using lasts_step [of p pg w e] by (auto split: prod.splits)
  then have "\<exists>p' \<in> set (stored_positions (foldl page_step (page_step pg e) es) w). lasts p1 p'"
    using Cons.prems(2) by (intro Cons.IH) (auto simp: lasts_def)
  then show ?case using p1(2) lasts_trans by auto
qed

section \<open>Acknowledgements\<close>

lemma ack_cells:
  "pg_storage (tos_signed v w r pg) (stealth_ack_key u) = pg_storage pg (stealth_ack_key u)"
  "pg_storage (markStealthExplainerSeen v w pg) (tos_key u) = pg_storage pg (tos_key u)"
  by (auto simp: tos_signed_def recordTosAck_def markStealthExplainerSeen_def setItem_def split: sum.splits)

lemma tos_cell_step:
  "pg_storage (page_step pg (v, e)) (tos_key w) = pg_storage pg (tos_key w) \<or>
     (\<exists>sig. e = TosSigned w (Inr sig) \<and> w \<noteq> [] \<and>
        pg_storage (page_step pg (v, e)) (tos_key w) = Some (Ack CURRENT_TOS_VERSION (vi_nowIso v) sig))"
  by (cases e) (auto simp: deposit_ended_def exit_ended_def rebalance_ended_def sweep_ended_def store_edits acks_untouched ack_cells
      tos_signed_def recordTosAck_def setItem_def split: sum.splits if_splits)

lemma acked_iff:
  "hasAckedTos v (Some w) pg \<longleftrightarrow>
     w \<noteq> [] \<and> vi_readable v \<and> (\<exists>t s. pg_storage pg (tos_key w) = Some (Ack CURRENT_TOS_VERSION t s))"
  by (auto simp: hasAckedTos_def getItem_def missing_def split: option.splits cell.splits)

lemma ack_step_lasts: "hasAckedTos v (Some w) pg \<Longrightarrow> hasAckedTos v (Some w) (page_step pg e)"
  using tos_cell_step [of pg "fst e" "snd e" w] by (auto simp: acked_iff)

lemma ack_step_source:
  "hasAckedTos v (Some w) (page_step pg e) \<Longrightarrow> \<not> hasAckedTos v (Some w) pg \<Longrightarrow> \<exists>sig. snd e = TosSigned w (Inr sig)"
  using tos_cell_step [of pg "fst e" "snd e" w] by (auto simp: acked_iff)

text \<open>
  A wallet passes the risk disclosure only by its signature.  Over any history of flows and
  writes an acknowledgement lasts, and a wallet that had none has one later only if it has signed
  the disclosure in between; no other store, wallet or failing storage makes it appear.
\<close>

theorem acks_are_signed:
  assumes "later = foldl page_step pg es"
  shows "(hasAckedTos v (Some w) pg \<longrightarrow> hasAckedTos v (Some w) later) \<and>
    (hasAckedTos v (Some w) later \<longrightarrow> hasAckedTos v (Some w) pg \<or> (\<exists>v' sig. (v', TosSigned w (Inr sig)) \<in> set es))"
  unfolding assms
proof (induction es rule: rev_induct)
  case (snoc e es)
  show ?case
    using snoc ack_step_lasts [of v w "foldl page_step pg es" e] ack_step_source [of v w "foldl page_step pg es" e]
    by (cases e) auto
qed simp

section \<open>One wallet for every flow of a record\<close>

text \<open>
  C31.  The flows of a record of wallet and pool, side by side.  A deposit derives its stealth wallet
  by the identifier of the position.  Exit, claim, move and sweep of a record of version v2 run
  that very derivation.  Those of a record of version v1 all run the derivation by the pool, the one
  of the deposits before identifiers.  A record without a version, which the store documents as v1,
  is swept by the pool but exited, claimed and moved by its identifier: the two sign different
  messages and keep their keys in different cells of the cache.
\<close>

theorem flows_of_a_record_agree:
  assumes "pi_mainWalletAddress inp = wallet" and "pi_poolAddress inp = lp_poolAddress p" and "lp_positionId p \<noteq> []"
    and "byPool = stepE DeriveStep (deriveStealthForPool wb wallet (lp_poolAddress p))"
    and "modals = [exit_derive wb (exit_input wallet p ack), claim_derive wb (claim_input wallet p),
      rebalance_derive wb (rebalance_input wallet p lower upper sh)]"
    and "sweep = stepE DeriveStep (deriveForLifecycle wb wallet (lp_poolAddress p) (sweep_positionId p))"
  shows "(lp_derivationVersion p = Some V2 \<longrightarrow> set (sweep # modals) = {deposit_derive wb inp (lp_positionId p)}) \<and>
    (lp_derivationVersion p = Some V1 \<longrightarrow> set (sweep # modals) = {byPool}) \<and>
    (lp_derivationVersion p = None \<longrightarrow> sweep = byPool \<and> set modals = {deposit_derive wb inp (lp_positionId p)}) \<and>
    deposit_derive wb inp (lp_positionId p) =
      stepE DeriveStep (deriveStealthForPosition wb wallet (lp_poolAddress p) (lp_positionId p)) \<and>
    buildDerivationMessageV1 (lp_poolAddress p) \<noteq> buildDerivationMessageV2 (lp_poolAddress p) (lp_positionId p) \<and>
    cache_key_v1 wallet (lp_poolAddress p) \<noteq> cache_key_v2 wallet (lp_poolAddress p) (lp_positionId p)"
  using assms
  by (auto simp: exit_derive_def claim_derive_def rebalance_derive_def deposit_derive_def deriveForLifecycle_def exit_input_def claim_input_def
      rebalance_input_def modal_positionId_def sweep_positionId_def missing_def buildDerivationMessageV1_def buildDerivationMessageV2_def
      cache_key_v1_def cache_key_v2_def)

text \<open>A deposit and an old record of the same pool, on a page that admits everything.\<close>

definition calm_visit :: visit where
  "calm_visit = \<lparr>vi_window = True, vi_readable = True, vi_admits = (\<lambda>_. True), vi_now = 7, vi_nowIso = ''t''\<rparr>"

definition blank_page :: page where "blank_page = \<lparr>pg_storage = (\<lambda>_. None), pg_changed = 0\<rparr>"

definition small_deposit :: PrivateDepositInput where
  "small_deposit = \<lparr>pi_mainWalletAddress = ''W'', pi_poolAddress = ''P'', pi_lowerBinId = 0, pi_upperBinId = 9, pi_shape = Spot,
     pi_denominationLamports = None\<rparr>"

definition small_result :: PrivateDepositResult where
  "small_result = \<lparr>pr_positionId = ''pos_1'', pr_stealthPubkey = ''S'', pr_positionPubkey = ''K'', pr_mixerDepositSignature = ''a'',
     pr_relayerWithdrawSignature = ''b'', pr_initSignature = None, pr_fundSignature = ''c'', pr_fundedLamports = ''9''\<rparr>"

definition small_record :: StoredPosition where
  "small_record = recorded_deposit calm_visit small_deposit (Fin 3) Devnet small_result"

definition small_history :: "(visit \<times> page_event) list" where
  "small_history =
     [(calm_visit, DepositEnded small_deposit (Fin 3) Devnet (Inr small_result)), (calm_visit, TosSigned ''W'' (Inr ''sig'')),
      (calm_visit, ExitEnded ''W'' ''other'' (Inl ''API 503: '')), (calm_visit, DepositEnded small_deposit NaN Devnet (Inl ''API 503: ''))]"

lemmas small_store = small_history_def small_record_def small_result_def small_deposit_def blank_page_def calm_visit_def deposit_ended_def exit_ended_def
  tos_signed_def store_edits edit_positions_def listLocalPositions_def getItem_def setItem_def save_positions_def recordTosAck_def
  notifyChanged_def stored_positions_def safeParse_def missing_def recorded_deposit_def json_position_def List.map_filter_def

lemma small_stored: "stored_positions (foldl page_step blank_page small_history) ''W'' = [small_record]"
  by (simp add: small_store)

lemma blank_stored: "stored_positions blank_page w = []"
  by (simp add: blank_page_def stored_positions_def safeParse_def)

lemma small_record_stealth: "lp_stealthPubkey small_record = ''S''" "lp_positionId small_record = ''pos_1''"
  by (simp_all add: small_record_def recorded_deposit_def small_result_def)

theorem stored_positions_trace_deposits_witness:
  "stored_positions (foldl page_step blank_page small_history) ''W'' = [small_record] \<and>
     (\<exists>v inp usd network res. (v, DepositEnded inp usd network (Inr res)) \<in> set small_history \<and> pr_stealthPubkey res = ''S'')"
  using stored_positions_trace_deposits [of blank_page "foldl page_step blank_page small_history" small_history "''W''"] small_stored
  by (simp add: blank_stored small_record_stealth) blast

text \<open>A private exit of the recorded position.\<close>

definition small_closing :: PrivateExitResult where
  "small_closing = \<lparr>xr_mode = Mixed, xr_closeSignature = Some ''d'', xr_swapSignature = None, xr_mixerDepositSignature = Some ''e'',
     xr_relayerWithdrawSignature = Some ''f'', xr_sweepSignature = None, xr_fundedLamports = ''9'', xr_residueLamports = ''0'',
     xr_selectedDenominationLamports = Some ''9''\<rparr>"

theorem records_last_until_swept_witness:
  "\<exists>p' \<in> set (stored_positions (foldl page_step (foldl page_step blank_page small_history)
      [(calm_visit, ExitEnded ''W'' ''pos_1'' (Inr small_closing))]) ''W''). lp_positionId p' = ''pos_1'' \<and> lp_stealthPubkey p' = ''S''"
proof -
  let ?es = "[(calm_visit, ExitEnded ''W'' ''pos_1'' (Inr small_closing))]"
  have "\<exists>p' \<in> set (stored_positions (foldl page_step (foldl page_step blank_page small_history) ?es) ''W''). lasts small_record p'"
    using small_stored by (intro records_last_until_swept) simp_all
  then show ?thesis unfolding lasts_def small_record_stealth by blast
qed

theorem acks_are_signed_witness:
  "hasAckedTos calm_visit (Some ''W'') (foldl page_step blank_page small_history) \<and> (\<exists>v sig. (v, TosSigned ''W'' (Inr sig)) \<in> set small_history)"
  using acks_are_signed [of "foldl page_step blank_page small_history" blank_page small_history calm_visit "''W''"]
  by (simp add: hasAckedTos_def small_store)

theorem flows_of_a_record_agree_witness:
  "\<forall>wb ack. exit_derive wb (exit_input ''W'' (small_record\<lparr>lp_derivationVersion := None\<rparr>) ack) = deposit_derive wb small_deposit ''pos_1''"
proof (intro allI)
  fix wb ack
  show "exit_derive wb (exit_input ''W'' (small_record\<lparr>lp_derivationVersion := None\<rparr>) ack) = deposit_derive wb small_deposit ''pos_1''"
    using flows_of_a_record_agree [of small_deposit "''W''" "small_record\<lparr>lp_derivationVersion := None\<rparr>" _ wb _ ack]
    by (simp add: small_record_def recorded_deposit_def small_deposit_def small_result_def)
qed

end
