(* ===== verification/BrowserViews.thy ===== *)
theory BrowserViews imports BrowserStores DlmmQueries MixerController SwapPlanning begin

text \<open>
  What the pages show and when they let a user act: lib/pnl.ts, hooks/usePortfolioPositions.ts,
  hooks/use-toast.ts, lib/networkStatus.ts, lib/solana/config.ts, lib/bins.ts, and the choice of a
  mixer pool (AnonymityBadge, DenominationSelector and the gates of PrivateDepositModal).  A character beyond ASCII stands for its
  UTF-8 bytes.
\<close>

section \<open>lib/solana/config.ts and lib/networkStatus.ts\<close>

definition loadCluster :: "string option \<Rightarrow> bool \<Rightarrow> string + Network" where
  "loadCluster VITE_NETWORK production =
     (let raw = map_option js_trim VITE_NETWORK in
      if raw = Some ''mainnet'' then Inr Mainnet
      else if raw = Some ''devnet'' then Inr Devnet
      else if raw = Some ''localnet'' then Inr Localnet
      else if production then Inl ''VITE_NETWORK is required in production builds''
      else Inr Devnet)"

definition KNOWN_GENESIS_HASHES :: "Network \<Rightarrow> string option" where
  "KNOWN_GENESIS_HASHES n =
     (case n of Mainnet \<Rightarrow> Some ''5eykt4UsFv8P8NJdTREpY1vzqKqZKvdpKuc147dw2N9d''
      | Devnet \<Rightarrow> Some ''EtWTRABZaYq6iMfeYKouRu166VU2xqa1wcaWoxPkrZBG''
      | Localnet \<Rightarrow> None)"

record ClusterConfig =
  cc_rpc :: string
  cc_ws :: string

text \<open>The variables of the build, by name; an empty one counts as missing.\<close>

definition env_or :: "(string \<Rightarrow> string option) \<Rightarrow> string \<Rightarrow> string \<Rightarrow> string" where
  "env_or env name d = (if missing (env name) then d else the (env name))"

definition SOLANA_CONFIG :: "(string \<Rightarrow> string option) \<Rightarrow> Network \<Rightarrow> ClusterConfig" where
  "SOLANA_CONFIG env n =
     (case n of
        Devnet \<Rightarrow> \<lparr>cc_rpc = env_or env ''VITE_SOLANA_RPC_URL_DEVNET'' ''https://api.devnet.solana.com'',
                   cc_ws = env_or env ''VITE_SOLANA_WS_URL_DEVNET'' ''wss://api.devnet.solana.com''\<rparr>
      | Mainnet \<Rightarrow> \<lparr>cc_rpc = env_or env ''VITE_SOLANA_RPC_URL'' ''https://api.mainnet-beta.solana.com'',
                   cc_ws = env_or env ''VITE_SOLANA_WS_URL'' ''wss://api.mainnet-beta.solana.com''\<rparr>
      | Localnet \<Rightarrow> \<lparr>cc_rpc = env_or env ''VITE_SOLANA_RPC_URL_LOCALNET'' ''http://127.0.0.1:8899'',
                   cc_ws = env_or env ''VITE_SOLANA_WS_URL_LOCALNET'' ''ws://127.0.0.1:8900''\<rparr>)"

definition getClusterConfig :: "(string \<Rightarrow> string option) \<Rightarrow> Network \<Rightarrow> Network option \<Rightarrow> ClusterConfig" where
  "getClusterConfig env ACTIVE_CLUSTER cluster = SOLANA_CONFIG env (case cluster of None \<Rightarrow> ACTIVE_CLUSTER | Some c \<Rightarrow> c)"

datatype NetworkStatus =
    Checking
  | NetOk Network string
  | Mismatch Network string string
  | RpcError Network string

text \<open>One check: the hash the node answers, or the message it fails with.\<close>

definition network_check :: "Network \<Rightarrow> string + string \<Rightarrow> NetworkStatus" where
  "network_check ACTIVE_CLUSTER answer =
     (if ACTIVE_CLUSTER = Localnet then NetOk Localnet ''(localnet)''
      else
        (case KNOWN_GENESIS_HASHES ACTIVE_CLUSTER of
           None \<Rightarrow> NetOk ACTIVE_CLUSTER ''(unknown)''
         | Some expected \<Rightarrow>
             (case answer of
                Inl message \<Rightarrow> RpcError ACTIVE_CLUSTER message
              | Inr observed \<Rightarrow>
                  if observed = expected then NetOk ACTIVE_CLUSTER observed else Mismatch ACTIVE_CLUSTER expected observed)))"

text \<open>The hook: checking until the first answer, then the last one that arrived before it was torn down.\<close>

definition useNetworkStatus :: "Network \<Rightarrow> (string + string) list \<Rightarrow> NetworkStatus" where
  "useNetworkStatus ACTIVE_CLUSTER answers = foldl (\<lambda>_. network_check ACTIVE_CLUSTER) Checking answers"

definition isNetworkUnsafe :: "NetworkStatus \<Rightarrow> bool" where
  "isNetworkUnsafe status \<longleftrightarrow> (case status of Mismatch c e obs \<Rightarrow> True | RpcError c m \<Rightarrow> True | _ \<Rightarrow> False)"

section \<open>The choice of a mixer pool\<close>

datatype AnonymityTier = Strong | Weak | Thin

definition tierForAnonymity :: "int \<Rightarrow> AnonymityTier" where
  "tierForAnonymity n = (if 20 \<le> n then Strong else if 5 \<le> n then Weak else Thin)"

text \<open>An entry of the answer of \<open>GET /mixer/pools\<close>; the fields that are left out are undefined.\<close>

definition entry_denomination :: "PoolEntry \<Rightarrow> string" where
  "entry_denomination p = (case p of Uninitialized d \<Rightarrow> d | Initialized d \<Rightarrow> pd_denomination d)"

definition entry_anonymity :: "PoolEntry \<Rightarrow> int" where
  "entry_anonymity p = (case p of Uninitialized d \<Rightarrow> 0 | Initialized d \<Rightarrow> pd_anonymitySet d)"

text \<open>Whether the button of a pool can be pressed.\<close>

definition usable :: "PoolEntry \<Rightarrow> bool" where
  "usable p \<longleftrightarrow> (case p of Uninitialized d \<Rightarrow> False | Initialized d \<Rightarrow> \<not> pd_isPaused d)"

text \<open>What is chosen when the pools arrive and nothing was chosen before: the pool and its anonymity set.\<close>

definition default_pool :: "string option \<Rightarrow> PoolEntry list \<Rightarrow> int option \<Rightarrow> (string \<times> int) option" where
  "default_pool value pools anonymitySetMin =
     (if missing value \<and> pools \<noteq> [] then
        let lowest = (case anonymitySetMin of None \<Rightarrow> 20 | Some n \<Rightarrow> n);
            strong = sort_desc (\<lambda>p. number_of_string (entry_denomination p)) (filter (\<lambda>p. lowest \<le> entry_anonymity p) pools);
            chosen = (case strong of [] \<Rightarrow> hd pools | p # _ \<Rightarrow> p)
        in Some (entry_denomination chosen, entry_anonymity chosen)
      else None)"

text \<open>PrivateDepositModal: the step out of the picker, and the start of the deposit.\<close>

datatype deposit_phase = DenominationSelect | Preview | Running | Success | Failed

record deposit_modal =
  dm_phase :: deposit_phase
  dm_selectedDenom :: "string option"
  dm_selectedAnonymity :: "int option"
  dm_thinPoolAck :: bool

definition open_modal :: "string option \<Rightarrow> deposit_modal" where
  "open_modal preselected =
     \<lparr>dm_phase = (if missing preselected then DenominationSelect else Preview), dm_selectedDenom = preselected,
      dm_selectedAnonymity = None, dm_thinPoolAck = False\<rparr>"

definition continueFromDenomSelect :: "deposit_modal \<Rightarrow> bool" where
  "continueFromDenomSelect m \<longleftrightarrow>
     dm_selectedDenom m \<noteq> None \<and> (map_option tierForAnonymity (dm_selectedAnonymity m) = Some Strong \<or> dm_thinPoolAck m)"

definition deposit_ready :: "bool \<Rightarrow> NetworkStatus \<Rightarrow> deposit_modal \<Rightarrow> bool" where
  "deposit_ready walletConnected status m \<longleftrightarrow> walletConnected \<and> dm_phase m = Preview \<and> \<not> isNetworkUnsafe status \<and> dm_selectedDenom m \<noteq> None"

text \<open>\<open>formatSol\<close>: bigint division cuts towards zero.\<close>

definition formatSol :: "string \<Rightarrow> string" where
  "formatSol lamportsStr =
     (case bigint_of_string lamportsStr of
        None \<Rightarrow> lamportsStr @ '' lamports''
      | Some lamports \<Rightarrow>
          let whole = bigint_div lamports 1000000000; frac = lamports - 1000000000 * whole in
          if frac = 0 then string_of_bigint whole @ '' SOL''
          else string_of_bigint whole @ ''.'' @
            rev (dropWhile (\<lambda>c. c = CHR ''0'') (rev (padStart 9 (string_of_bigint frac)))) @ '' SOL'')"


section \<open>hooks/usePortfolioPositions.ts\<close>

text \<open>The display of a finite number with two decimals is that of the locale of the user.\<close>

type_synonym locale_text = "rat \<Rightarrow> string"

definition ellipsis :: string where "ellipsis = [CHR 0xE2, CHR 0x80, CHR 0xA6]"
definition middle_dot :: string where "middle_dot = [CHR 0xC2, CHR 0xB7]"

definition safeBigInt :: "string \<Rightarrow> int" where
  "safeBigInt s = (case bigint_of_string s of None \<Rightarrow> 0 | Some n \<Rightarrow> n)"

definition formatUsd :: "locale_text \<Rightarrow> js_num option \<Rightarrow> string" where
  "formatUsd loc n = (case n of Some (Fin r) \<Rightarrow> ''$'' @ loc r | _ \<Rightarrow> ''$0'')"

definition formatUsdSigned :: "locale_text \<Rightarrow> js_num \<Rightarrow> string" where
  "formatUsdSigned loc n =
     (case n of
        Fin r \<Rightarrow> (if r < 0 then ''-'' else if 0 < r then ''+'' else []) @ formatUsd loc (Some (Fin \<bar>r\<bar>))
      | _ \<Rightarrow> ''$0.00'')"

definition floor_text :: "js_num \<Rightarrow> string" where
  "floor_text n = (case n of Fin r \<Rightarrow> string_of_bigint \<lfloor>r\<rfloor> | PosInf \<Rightarrow> ''Infinity'' | NegInf \<Rightarrow> ''-Infinity'' | NaN \<Rightarrow> ''NaN'')"

definition formatRelativeTime :: "int \<Rightarrow> int \<Rightarrow> string" where
  "formatRelativeTime now ts =
     (let seconds = js_max (Fin 0) (js_div (js_int (now - ts)) (Fin 1000)) in
      if seconds < Fin 60 then ''just now''
      else let minutes = js_div seconds (Fin 60) in
        if minutes < Fin 60 then floor_text minutes @ ''m ago''
        else let hours = js_div minutes (Fin 60) in
          if hours < Fin 24 then floor_text hours @ ''h ago''
          else let days = js_div hours (Fin 24) in
            if days < Fin 30 then floor_text days @ ''d ago''
            else let months = js_div days (Fin 30) in
              if months < Fin 12 then floor_text months @ ''mo ago''
              else floor_text (js_div months (Fin 12)) @ ''y ago'')"

text \<open>The fields of a pool of the list the hook reads.\<close>

record PoolCard =
  pc_address :: string
  pc_name :: string
  pc_protocol :: string
  pc_apr :: string
  pc_binStep :: int

datatype pnl_direction = Up | Down | Flat

record PortfolioPosition =
  pf_id :: string
  pf_poolAddress :: string
  pf_stealthPubkey :: string
  pf_derivationVersion :: "derivation_version option"
  pf_closed :: bool
  pf_poolName :: string
  pf_protocol :: string
  pf_deposited :: string
  pf_value :: string
  pf_feesEarned :: string
  pf_depositedUsd :: "js_num option"
  pf_valueUsd :: "js_num option"
  pf_feesUsd :: "js_num option"
  pf_apr :: string
  pf_status :: string
  pf_rangeLowerBin :: int
  pf_rangeUpperBin :: int
  pf_activeBinId :: "int option"
  pf_binStep :: "int option"
  pf_activePrice :: "js_num option"
  pf_shape :: shape
  pf_inRange :: "bool option"
  pf_claimable :: string
  pf_hasClaimableFees :: bool
  pf_pnl :: string
  pf_pnlDirection :: pnl_direction
  pf_openedAt :: string

text \<open>\<open>s.slice(0, 6)\<close> and \<open>s.slice(-4)\<close>.\<close>

definition shortened :: "string \<Rightarrow> string" where
  "shortened s = take 6 s @ ellipsis @ drop (length s - 4) s"

definition half_cent :: js_num where "half_cent = fl64 (5 / 1000)"

definition mapStoredToPortfolio ::
  "locale_text \<Rightarrow> int \<Rightarrow> StoredPosition \<Rightarrow> PoolCard option \<Rightarrow> int option \<Rightarrow> js_num option \<Rightarrow> PositionStateView option \<Rightarrow> PortfolioPosition" where
  "mapStoredToPortfolio loc now s pool binsActiveBinId activePrice state =
     (let depositedFmt = formatUsd loc (lp_depositedUsd s);
          lowerBinId = (case state of None \<Rightarrow> lp_lowerBinId s | Some st \<Rightarrow> sv_lowerBinId st);
          upperBinId = (case state of None \<Rightarrow> lp_upperBinId s | Some st \<Rightarrow> sv_upperBinId st);
          activeBinId = (case state of None \<Rightarrow> binsActiveBinId | Some st \<Rightarrow> Some (sv_activeBinId st));
          inRange = map_option (\<lambda>b. lowerBinId \<le> b \<and> b \<le> upperBinId) activeBinId;
          closed = lp_closed s;
          valueFmt = (if closed then ''$0.00'' else case state of None \<Rightarrow> depositedFmt | Some st \<Rightarrow> formatUsd loc (Some (sv_valueUsd st)));
          feesFmt = (if closed then ''$0.00'' else case state of None \<Rightarrow> ''$0.00'' | Some st \<Rightarrow> formatUsd loc (Some (sv_feeUsd st)));
          pnlAmount = (case state of None \<Rightarrow> Fin 0
            | Some st \<Rightarrow> js_sub (js_add (sv_valueUsd st) (sv_feeUsd st)) (default_zero (lp_depositedUsd s)))
      in \<lparr>pf_id = lp_positionId s, pf_poolAddress = lp_poolAddress s, pf_stealthPubkey = lp_stealthPubkey s,
          pf_derivationVersion = lp_derivationVersion s, pf_closed = closed,
          pf_poolName = (case pool of None \<Rightarrow> shortened (lp_poolAddress s) | Some p \<Rightarrow> pc_name p),
          pf_protocol = (case pool of None \<Rightarrow> ''Meteora DLMM'' | Some p \<Rightarrow> pc_protocol p),
          pf_deposited = depositedFmt, pf_value = valueFmt, pf_feesEarned = feesFmt, pf_depositedUsd = lp_depositedUsd s,
          pf_valueUsd = (if closed then Some (Fin 0) else case state of None \<Rightarrow> lp_depositedUsd s | Some st \<Rightarrow> Some (sv_valueUsd st)),
          pf_feesUsd = Some (if closed then Fin 0 else case state of None \<Rightarrow> Fin 0 | Some st \<Rightarrow> sv_feeUsd st),
          pf_apr = (case pool of None \<Rightarrow> long_dash | Some p \<Rightarrow> pc_apr p),
          pf_status = (if closed then ''Closed '' @ middle_dot @ '' awaiting sweep''
            else if inRange = Some False then ''Out of range'' else ''Active''),
          pf_rangeLowerBin = lowerBinId, pf_rangeUpperBin = upperBinId, pf_activeBinId = activeBinId,
          pf_binStep = map_option pc_binStep pool, pf_activePrice = activePrice, pf_shape = lp_shape s,
          pf_inRange = (if closed then None else inRange), pf_claimable = feesFmt,
          pf_hasClaimableFees = (\<not> closed \<and> (case state of None \<Rightarrow> False
            | Some st \<Rightarrow> 0 < safeBigInt (sv_feeXLamports st) \<or> 0 < safeBigInt (sv_feeYLamports st))),
          pf_pnl = (if closed then ''$0.00'' else case state of None \<Rightarrow> ''$0.00'' | Some st \<Rightarrow> formatUsdSigned loc pnlAmount),
          pf_pnlDirection = (if js_gt pnlAmount half_cent then Up else if js_gt (js_neg half_cent) pnlAmount then Down else Flat),
          pf_openedAt = formatRelativeTime now (lp_ts s)\<rparr>)"

text \<open>
  The hook: the records of the wallet, each joined with its pool (of the list, the last of an
  address, or else the fetched detail), with the bins of its pool and with its state on chain.
\<close>

definition pool_by_address :: "PoolCard list \<Rightarrow> (string \<Rightarrow> PoolCard option) \<Rightarrow> string \<Rightarrow> PoolCard option" where
  "pool_by_address pools detail addr =
     (case find (\<lambda>p. pc_address p = addr) (rev pools) of Some p \<Rightarrow> Some p | None \<Rightarrow> detail addr)"

definition active_price :: "PoolBins \<Rightarrow> js_num option" where
  "active_price data =
     (case find (\<lambda>b. lb_binId b = pb_activeBinId data) (pb_bins data) of
        None \<Rightarrow> None
      | Some b \<Rightarrow> if js_gt (lb_price b) (Fin 0) then Some (lb_price b) else None)"

definition usePortfolioPositions ::
  "locale_text \<Rightarrow> int \<Rightarrow> StoredPosition list \<Rightarrow> PoolCard list \<Rightarrow> (string \<Rightarrow> PoolCard option) \<Rightarrow> (string \<Rightarrow> PoolBins option) \<Rightarrow>
     (string \<Rightarrow> string \<Rightarrow> PositionStateView option) \<Rightarrow> PortfolioPosition list" where
  "usePortfolioPositions loc now ps pools detail bins state =
     map (\<lambda>s. mapStoredToPortfolio loc now s (pool_by_address pools detail (lp_poolAddress s))
          (map_option pb_activeBinId (bins (lp_poolAddress s)))
          (Option.bind (bins (lp_poolAddress s)) active_price)
          (state (lp_poolAddress s) (lp_positionPubkey s))) ps"

section \<open>lib/pnl.ts\<close>

record OverviewMetrics =
  ov_totalDeposited :: js_num
  ov_totalPositionValue :: js_num
  ov_pendingFeesUsd :: js_num
  ov_totalPnL :: js_num
  ov_totalPnLPct :: js_num
  ov_positionsWithClaimableFees :: nat
  ov_livePositionCount :: nat
  ov_closedPositionCount :: nat
  ov_poolCount :: nat

definition js_sum :: "js_num option list \<Rightarrow> js_num" where
  "js_sum xs = foldl (\<lambda>acc x. js_add acc (default_zero x)) (Fin 0) xs"

definition computeOverviewMetrics :: "PortfolioPosition list \<Rightarrow> OverviewMetrics" where
  "computeOverviewMetrics positions =
     (let live = filter (\<lambda>p. \<not> pf_closed p) positions;
          closed = filter pf_closed positions;
          totalDeposited = js_sum (map pf_depositedUsd live);
          totalPositionValue = js_sum (map pf_valueUsd live);
          pendingFeesUsd = js_sum (map pf_feesUsd live);
          totalPnL = js_sub (js_add totalPositionValue pendingFeesUsd) totalDeposited
      in \<lparr>ov_totalDeposited = totalDeposited, ov_totalPositionValue = totalPositionValue, ov_pendingFeesUsd = pendingFeesUsd,
          ov_totalPnL = totalPnL,
          ov_totalPnLPct = (if js_gt totalDeposited (Fin 0) then js_mul (js_div totalPnL totalDeposited) (Fin 100) else Fin 0),
          ov_positionsWithClaimableFees = length (filter pf_hasClaimableFees live),
          ov_livePositionCount = length live, ov_closedPositionCount = length closed,
          ov_poolCount = length (remdups (map pf_poolAddress live))\<rparr>)"

section \<open>The network gate\<close>

lemma status_last:
  "answers \<noteq> [] \<Longrightarrow> useNetworkStatus c answers = network_check c (last answers)"
  unfolding useNetworkStatus_def by (cases answers rule: rev_cases) simp_all

text \<open>
  C34.  A deposit starts only on the network of the build.  A production build without a valid
  network does not load.  Once the node has answered, the modal is ready only on localnet or when the
  last answer was the genesis hash of the cluster; before the first answer it is ready without one.
\<close>

theorem deposits_wait_for_the_network:
  assumes "loadCluster var production = Inr c"
  shows "(production \<longrightarrow> (\<exists>v. var = Some v \<and> js_trim v \<in> {''mainnet'', ''devnet'', ''localnet''})) \<and>
    (deposit_ready walletConnected (useNetworkStatus c answers) m \<and> answers \<noteq> [] \<longrightarrow>
       c = Localnet \<or> (\<exists>h. KNOWN_GENESIS_HASHES c = Some h \<and> last answers = Inr h)) \<and>
    (deposit_ready walletConnected (useNetworkStatus c []) m \<longleftrightarrow>
       walletConnected \<and> dm_phase m = Preview \<and> dm_selectedDenom m \<noteq> None)"
proof (intro conjI)
  show "production \<longrightarrow> (\<exists>v. var = Some v \<and> js_trim v \<in> {''mainnet'', ''devnet'', ''localnet''})"
    using assms by (auto simp: loadCluster_def Let_def split: if_splits)
  show "deposit_ready walletConnected (useNetworkStatus c answers) m \<and> answers \<noteq> [] \<longrightarrow>
       c = Localnet \<or> (\<exists>h. KNOWN_GENESIS_HASHES c = Some h \<and> last answers = Inr h)"
    by (cases c) (auto simp: deposit_ready_def status_last network_check_def isNetworkUnsafe_def KNOWN_GENESIS_HASHES_def split: sum.splits if_splits)
qed (simp add: deposit_ready_def useNetworkStatus_def isNetworkUnsafe_def)

section \<open>The choice of a pool and the gate of the API\<close>

definition paused_details :: PoolDetails where
  "paused_details = \<lparr>pd_denomination = ''100'', pd_poolAddress = ''P'', pd_anonymitySet = 40, pd_anonymitySetMin = 20, pd_depositCount = 40,
     pd_withdrawalCount = 0, pd_isPaused = True, pd_balanceLamports = ''0'', pd_nextLeafIndex = 40\<rparr>"

lemma paused_default: "default_pool None [Initialized paused_details] (Some 20) = Some (''100'', 40)"
  by (simp add: default_pool_def missing_def paused_details_def entry_anonymity_def entry_denomination_def sort_desc_def)

lemma paused_unusable: "\<not> usable (Initialized paused_details)"
  by (simp add: usable_def paused_details_def)

lemma default_some:
  "sort_desc (\<lambda>p. number_of_string (entry_denomination p)) (filter (\<lambda>p. lowest \<le> entry_anonymity p) pools) = q # qs \<Longrightarrow>
     pools \<noteq> [] \<Longrightarrow> default_pool None pools (Some lowest) = Some (entry_denomination q, entry_anonymity q)"
  by (simp add: default_pool_def missing_def)

lemma default_strong:
  assumes "p \<in> set pools" and "lowest \<le> entry_anonymity p" and "default_pool None pools (Some lowest) = Some (d, n)"
  shows "\<exists>q \<in> set pools. d = entry_denomination q \<and> n = entry_anonymity q \<and> lowest \<le> n \<and>
    js_neg (number_of_string d) \<le> js_neg (number_of_string (entry_denomination p))"
proof -
  let ?s = "sort_desc (\<lambda>p. number_of_string (entry_denomination p)) (filter (\<lambda>p. lowest \<le> entry_anonymity p) pools)"
  have p: "p \<in> set ?s" using assms(1,2) by simp
  then obtain q qs where s: "?s = q # qs" by (cases ?s) auto
  have "q \<in> set ?s" by (simp add: s)
  moreover have "d = entry_denomination q \<and> n = entry_anonymity q"
    using default_some [OF s] assms(1,3) by (cases pools) auto
  moreover have "sorted (map (\<lambda>p. js_neg (number_of_string (entry_denomination p))) ?s)"
    unfolding sort_desc_def by simp
  then have "js_neg (number_of_string (entry_denomination q)) \<le> js_neg (number_of_string (entry_denomination p))"
    using p unfolding s by auto
  ultimately show ?thesis by auto
qed

text \<open>
  C32.  The picker of a mixer pool against the gate of the API, whose floor is configured.  The API
  builds a withdrawal exactly from pools whose anonymity set reaches its floor, and sends that floor
  with the pools; the badge of the picker is strong exactly from 20 on.  So the two agree about every
  pool when the floor is 20, and otherwise disagree exactly about the sets between 20 and the floor:
  under a higher floor a pool shown as strong is refused, under a lower one a pool that is not shown
  as strong is served.  The pool chosen by default follows the floor: it is the largest of those
  that reach it, if there is one, even one that is paused, whose own button is disabled.  The
  picker goes on exactly with a set of 20 or the acknowledgement of a thin pool, but a modal opened
  with a pool already picked is ready at once, however thin that pool is.
\<close>

theorem picker_against_the_gate:
  fixes mw :: mixer_world and d :: PoolDetails
  assumes "registry_get reg denomination = Inr svc" and "pool_entry mw reg denomination = Inr (Initialized d)"
    and "p \<in> set pools" and "pd_anonymitySetMin d \<le> entry_anonymity p"
    and "default_pool None pools (Some (pd_anonymitySetMin d)) = Some (chosen, n)"
    and "\<not> isNetworkUnsafe status" and "picked \<noteq> []"
  defines "minSet \<equiv> mw_minSet mw" and "k \<equiv> entry_anonymity (Initialized d)"
    and "gate \<equiv> assertAnonymitySetSatisfied (mw_minSet mw) (pool_status mw svc) svc"
    and "strong \<equiv> (tierForAnonymity (entry_anonymity (Initialized d)) = Strong)"
  shows "pd_anonymitySetMin d = minSet \<and>
    gate = (if minSet \<le> 0 \<or> minSet \<le> k then Inr () else Inl (AnonymitySetTooThinError k minSet (mx_denomination svc))) \<and>
    (minSet = 20 \<longrightarrow> (strong \<longleftrightarrow> gate = Inr ())) \<and>
    (strong \<and> gate \<noteq> Inr () \<longleftrightarrow> 20 \<le> k \<and> k < minSet) \<and>
    (\<not> strong \<and> gate = Inr () \<longleftrightarrow> k < 20 \<and> (minSet \<le> 0 \<or> minSet \<le> k)) \<and>
    (\<exists>q \<in> set pools. chosen = entry_denomination q \<and> n = entry_anonymity q \<and> minSet \<le> n \<and>
      js_neg (number_of_string chosen) \<le> js_neg (number_of_string (entry_denomination p))) \<and>
    default_pool None [Initialized paused_details] (Some 20) = Some (''100'', 40) \<and> \<not> usable (Initialized paused_details) \<and>
    (continueFromDenomSelect m \<longleftrightarrow> dm_selectedDenom m \<noteq> None \<and> ((\<exists>k. dm_selectedAnonymity m = Some k \<and> 20 \<le> k) \<or> dm_thinPoolAck m)) \<and>
    deposit_ready True status (open_modal (Some picked)) \<and> \<not> dm_thinPoolAck (open_modal (Some picked))"
proof -
  have lowest: "pd_anonymitySetMin d = minSet"
    and gate: "gate = (if minSet \<le> 0 \<or> minSet \<le> k then Inr () else Inl (AnonymitySetTooThinError k minSet (mx_denomination svc)))"
    using assms(1,2) unfolding minSet_def k_def gate_def
    by (auto simp: pool_entry_def bind_res_def entry_anonymity_def assertAnonymitySetSatisfied_def Let_def
        split: sum.splits option.splits)
  have strong: "strong \<longleftrightarrow> 20 \<le> k" by (simp add: strong_def k_def tierForAnonymity_def)
  have go_on: "continueFromDenomSelect m \<longleftrightarrow>
      dm_selectedDenom m \<noteq> None \<and> ((\<exists>k. dm_selectedAnonymity m = Some k \<and> 20 \<le> k) \<or> dm_thinPoolAck m)"
    by (cases "dm_selectedAnonymity m") (simp_all add: continueFromDenomSelect_def tierForAnonymity_def)
  have ready: "deposit_ready True status (open_modal (Some picked)) \<and> \<not> dm_thinPoolAck (open_modal (Some picked))"
    using assms(6,7) by (simp add: deposit_ready_def open_modal_def missing_def)
  have agree: "(minSet = 20 \<longrightarrow> (strong \<longleftrightarrow> gate = Inr ())) \<and>
      (strong \<and> gate \<noteq> Inr () \<longleftrightarrow> 20 \<le> k \<and> k < minSet) \<and>
      (\<not> strong \<and> gate = Inr () \<longleftrightarrow> k < 20 \<and> (minSet \<le> 0 \<or> minSet \<le> k))"
    unfolding gate strong by auto
  have largest: "\<exists>q \<in> set pools. chosen = entry_denomination q \<and> n = entry_anonymity q \<and> minSet \<le> n \<and>
      js_neg (number_of_string chosen) \<le> js_neg (number_of_string (entry_denomination p))"
    using default_strong [OF assms(3,4,5)] unfolding lowest .
  show ?thesis
    by (intro conjI lowest gate agree [THEN conjunct1] agree [THEN conjunct2, THEN conjunct1] agree [THEN conjunct2, THEN conjunct2]
        largest paused_default paused_unusable go_on ready [THEN conjunct1] ready [THEN conjunct2])
qed

section \<open>Totals and cards\<close>

lemma live_of_live: "filter (\<lambda>p. \<not> pf_closed p) (filter (\<lambda>p. \<not> pf_closed p) ps) = filter (\<lambda>p. \<not> pf_closed p) ps"
  by (induction ps) auto

text \<open>
  A closed position counts for nothing but itself.  The totals of a portfolio are those of its
  open positions, of which there are as many as are not closed.  The card of a closed position shows
  zero value, fees and profit and offers no claim, whatever state is still cached; only the
  direction of its profit is still that of the cached state.
\<close>

theorem closed_positions_count_for_nothing:
  assumes "s \<in> set ps" and "lp_closed s"
    and "cards = usePortfolioPositions loc now ps pools detail bins state"
    and "live = filter (\<lambda>p. \<not> pf_closed p) cards"
    and "shown = mapStoredToPortfolio loc now s pool active price (Some st)"
  shows "computeOverviewMetrics cards = (computeOverviewMetrics live)\<lparr>ov_closedPositionCount := length (filter lp_closed ps)\<rparr> \<and>
    ov_livePositionCount (computeOverviewMetrics cards) + ov_closedPositionCount (computeOverviewMetrics cards) = length ps \<and>
    pf_value shown = ''$0.00'' \<and> pf_feesEarned shown = ''$0.00'' \<and> pf_pnl shown = ''$0.00'' \<and> pf_valueUsd shown = Some (Fin 0) \<and>
    pf_feesUsd shown = Some (Fin 0) \<and> \<not> pf_hasClaimableFees shown \<and> pf_inRange shown = None \<and>
    (pf_pnlDirection shown = Up \<longleftrightarrow>
       js_gt (js_sub (js_add (sv_valueUsd st) (sv_feeUsd st)) (default_zero (lp_depositedUsd s))) half_cent)"
proof -
  have "length (filter pf_closed cards) = length (filter lp_closed ps)"
    by (simp add: assms(3) usePortfolioPositions_def mapStoredToPortfolio_def Let_def filter_map comp_def)
  moreover have "length live + length (filter pf_closed cards) = length ps"
    using sum_length_filter_compl [of pf_closed cards] by (simp add: assms(4)) (simp add: assms(3) usePortfolioPositions_def)
  ultimately show ?thesis
    using assms(2) by (simp add: computeOverviewMetrics_def Let_def assms(4) live_of_live assms(5) mapStoredToPortfolio_def)
qed

section \<open>Concrete pages\<close>

definition any_modal :: deposit_modal where
  "any_modal = \<lparr>dm_phase = Preview, dm_selectedDenom = Some ''100'', dm_selectedAnonymity = None, dm_thinPoolAck = False\<rparr>"

theorem deposits_wait_for_the_network_witness:
  "deposit_ready True (useNetworkStatus Devnet []) any_modal \<and> \<not> deposit_ready True (useNetworkStatus Devnet [Inr ''other'']) any_modal"
  using deposits_wait_for_the_network [of "Some ''devnet''" True Devnet True "[Inr ''other'']" any_modal]
  by (simp add: loadCluster_def js_trim_def is_space_def any_modal_def KNOWN_GENESIS_HASHES_def)

text \<open>A pool of denomination 100 with 22 deposits, under a floor of 25.\<close>

definition full_account :: bytes where
  "full_account = replicate MIXER_POOL_NEXT_LEAF_INDEX_OFFSET 0 @ [22, 0, 0, 0] @ replicate 100 0"

definition some_pools_world :: "chain_lib \<Rightarrow> mixer_world" where
  "some_pools_world lib = \<lparr>mw_lib = lib, mw_minSet = 25, mw_pool = (\<lambda>_. []), mw_account = (\<lambda>_. Inr (Some full_account)), mw_balance = (\<lambda>_. Inr 0),
     mw_blockhash = Inr ''b''\<rparr>"

definition some_registry :: mixer_registry where
  "some_registry = \<lparr>mr_denominations = [100], mr_services = [string_of_bigint 100 \<mapsto> new_mixer 100]\<rparr>"

lemma some_leaves: "readUInt32LE full_account MIXER_POOL_NEXT_LEAF_INDEX_OFFSET = Some 22"
  by code_simp

lemma some_entry: "\<exists>d. pool_entry (some_pools_world lib) some_registry 100 = Inr (Initialized d) \<and> pd_anonymitySet d = 22 \<and> pd_anonymitySetMin d = 25"
  by (simp add: pool_entry_def readPoolStatus_def some_pools_world_def some_leaves some_registry_def registry_get_def getAnonymitySetSnapshot_def
      pool_status_def getPoolStatus_def new_mixer_def Let_def bind_res_def)

theorem picker_against_the_gate_witness:
  "\<forall>lib. assertAnonymitySetSatisfied 25 (pool_status (some_pools_world lib) (new_mixer 100)) (new_mixer 100) =
       Inl (AnonymitySetTooThinError 22 25 100) \<and> tierForAnonymity 22 = Strong \<and>
     deposit_ready True Checking (open_modal (Some ''100''))"
proof
  fix lib
  obtain d where d: "pool_entry (some_pools_world lib) some_registry 100 = Inr (Initialized d)" "pd_anonymitySet d = 22" "pd_anonymitySetMin d = 25"
    using some_entry by blast
  have picks: "default_pool None [Initialized paused_details] (Some 25) = Some (''100'', 40)"
    by (simp add: default_pool_def missing_def paused_details_def entry_anonymity_def entry_denomination_def sort_desc_def)
  have "mx_denomination (new_mixer 100) = 100" "mw_minSet (some_pools_world lib) = 25"
    by (simp_all add: new_mixer_def some_pools_world_def)
  then show "assertAnonymitySetSatisfied 25 (pool_status (some_pools_world lib) (new_mixer 100)) (new_mixer 100) =
       Inl (AnonymitySetTooThinError 22 25 100) \<and> tierForAnonymity 22 = Strong \<and>
     deposit_ready True Checking (open_modal (Some ''100''))"
    using picker_against_the_gate [of some_registry 100 "new_mixer 100" "some_pools_world lib" d "Initialized paused_details"
        "[Initialized paused_details]" "''100''" 40 Checking "''100''"] d picks
    by (simp add: some_registry_def registry_get_def isNetworkUnsafe_def entry_anonymity_def tierForAnonymity_def paused_details_def)
qed

definition live_view :: PositionStateView where
  "live_view = \<lparr>sv_lbPair = ''P'', sv_lowerBinId = 0, sv_upperBinId = 9, sv_activeBinId = 3, sv_tokenXMint = ''x'', sv_tokenYMint = ''y'',
     sv_decimalsX = 6, sv_decimalsY = 9, sv_feeXLamports = ''1'', sv_feeYLamports = ''0'', sv_totalXLamports = ''5'', sv_totalYLamports = ''5'',
     sv_feeUsd = Fin 1, sv_valueUsd = Fin 4, sv_priceXUsd = Fin 1, sv_priceYUsd = Fin 1\<rparr>"

lemma still_up: "js_gt (js_sub (js_add (Fin 4) (Fin 1)) (Fin 3)) half_cent" by code_simp

definition closed_card :: PortfolioPosition where
  "closed_card = mapStoredToPortfolio (\<lambda>_. ''x'') 9 (small_record\<lparr>lp_closed := True\<rparr>) None None None (Some live_view)"

lemma shown_values: "sv_valueUsd live_view = Fin 4" "sv_feeUsd live_view = Fin 1" "lp_depositedUsd (small_record\<lparr>lp_closed := True\<rparr>) = Some (Fin 3)"
  by (simp_all add: live_view_def small_record_def recorded_deposit_def)

theorem closed_positions_count_for_nothing_witness:
  "pf_pnl closed_card = ''$0.00'' \<and> pf_pnlDirection closed_card = Up"
proof -
  let ?s = "small_record\<lparr>lp_closed := True\<rparr>"
  have "?s \<in> set [?s]" "lp_closed ?s" by simp_all
  note facts = closed_positions_count_for_nothing [OF this refl refl closed_card_def, of "[]" "\<lambda>_. None" "\<lambda>_. None" "\<lambda>_ _. None"]
  have "pf_pnlDirection closed_card = Up \<longleftrightarrow> js_gt (js_sub (js_add (Fin 4) (Fin 1)) (default_zero (Some (Fin 3)))) half_cent"
    using facts unfolding shown_values by blast
  then show ?thesis using facts still_up by (simp only: default_zero_def option.case)
qed

end
