(* ===== verification/Spec2Isabelle.thy ===== *)
theory Spec2Isabelle
  imports PositionHistory PositionFunding PositionOutcomes PositionReconcile PositionController
    FieldBytes RateLimit WalletAuth RelayerProperties RelayerHttp MixerProperties MixerController
    StealthWallet DlmmQueries SwapProperties ExecutorLifecycle ExecutorRange BrowserPrivacy
    BrowserSteps BrowserOutcomes SolanaTx
    PrivateDeposits BrowserHelpers BrowserViews
begin

text \<open>
  Octora: a verification development of the API (octora-api/src), of the position flows of the
  browser (octora-web/src/lib) and of the instructions of the executor program they end in.

  The program.  Octora lets a wallet hold a liquidity position privately.  A browser deposits a
  fixed amount into a mixer pool, proves in zero knowledge that it owns one of the deposits, and
  has a relayer withdraw it to a stealth address.  The API has three cores, modelled here: the
  position service, which drives a position through its life cycle and records every step; the
  mixer service, which mirrors the public history of the pools and guards the anonymity set; and
  the relayer, which checks a proof, pays for the transaction, and must neither pay twice nor for
  nothing.  Around them stand the HTTP handlers, the wallet authentication and the rate limiter.
  The browser drives the whole: it derives a stealth wallet from a signature, and opens, claims,
  moves and closes positions with it, going through the mixer wherever money passes between the
  stealth wallet and the main wallet.

  How the code is modelled.  Pure functions are HOL functions.  An async operation is a program
  (type prog of Async): a tree of calls to what the code awaits (tables, chain, venue, clock,
  verifier), each answered by a handler that updates a world record.  Running a program alone is
  run; the interleavings of any number of concurrent requests are the step relation istep of
  Async with reachability ireach, a switch being possible at every call.  The handlers take an
  environment that may lose a call before or after its effect, so that every theorem over an
  arbitrary environment holds whatever fails.  Errors are the left of a sum, with one constructor
  per thrown error.  Numbers follow JavaScript (JsNumbers): bigint is int with its parser and
  printer, number is a rational with infinities and NaN.

  The theories.
  Prelude: shared lemmas and fact collections.  Async: programs, weakest preconditions,
  protocols (conforms), and the locales guarded_world and protocol_pool, the contract of a store
  and of a population of programs.  JsNumbers: bigint and number texts.
  Domain: domain/*.ts, the states, transitions and recovery guidance.
  PositionStore: position.repository.ts, activity.repository.ts and indexer.repository.ts as the
  world pworld and its calls.  PositionService and PositionOperations: position.service.ts,
  recovery.service.ts, activity.service.ts, indexer.service.ts; the five operations whole.
  RecoveryWorker: recovery-worker.ts, one tick as a program and its timer as a step relation.
  PositionFrame, Lifecycle, PositionRefinement, PositionHistory: every operation refines an
  abstract life cycle of the positions, so every history of requests and ticks settles and
  terminal positions stay terminal.  PositionSafety and PositionFunding: what holds under every
  interleaving, and the double funding that any draft allows.  PositionOutcomes: the stage and guidance
  of failures, and the caps.  PositionReconcile: the unawaited reconciliation writes.
  PositionController: position.schema.ts, position.controller.ts, position.routes.ts; only the
  owner acts on a position.
  FieldBytes: proof-converter.ts, the seeds of solana-client.ts and bigintToBytes32, with round
  trips.  RateLimit: rate-limit.ts over traces.  WalletAuth: common/auth.ts and auth.routes.ts.
  RelayerService: relayer.service.ts, nullifier-registry.ts and root-seen.repository.ts as
  programs over the world rworld.  RelayerSafety: the protocol each request follows and its link
  to the world, an interpretation of protocol_pool.  RelayerProperties: payments are checked and
  accounted for, single flight, the privacy delay, the dry run.
  MixerService: mixer.service.ts and mixer.registry.ts.  MixerProperties: the deposit cache,
  hydration against a chain kept apart from the code (serves, happened), the anonymity gate.  MixerController:
  mixer.controller.ts, with the cache of pools.  RelayerHttp: relayer.registry.ts,
  relayer.controller.ts and the withdrawal route of relayer.routes.ts, which joins the relayer to
  the mixer registry.
  StealthWallet: relayer/stealth-wallet.ts of the API and lib/mixer/stealth-wallet.ts of the
  browser (octora-web/src), the sealed seed of a stealth wallet on both sides.

  JsArithmetic: more of JavaScript numbers.  DlmmPools and DlmmQueries: modules/dlmm, the pools of
  the two Meteora indexers in one shape, search, order and pages of the devnet list, groups,
  candles, bins and swap quotes, with both caches and the handlers.  SwapPlanning:
  executor/single-sided.ts, swap.service.ts and swap-pool-resolver.ts; SwapProperties: the wire
  format of a deposit, the choice of a swap source, swap intents and the minimum output.
  ExecutorProgram: programs/octora-executor (Rust), the five DLMM instructions, their checks and the
  calls they make into the DLMM program.  ExecutorService and ExecutorPools: executor.service.ts,
  clients/dlmm-swap.client.ts and executor.controller.ts, the transactions a position is opened,
  filled, claimed, swapped and closed with, and the range of a pool.  ExecutorProperties,
  ExecutorDeposits and ExecutorLifecycle run what the API builds on the model of the program:
  proceeds stay with the stealth wallet, a deposit adds what it moves, retries are idempotent, the
  program accepts the built calls.  ExecutorRange: the range of a position against the planner.

  VaultTree: modules/vault and relayer/deposit.service.ts of the API and lib/mixer of the browser:
  commitments, the Merkle tree of deposits, the inputs of a proof and the packing of its bytes, on
  both sides, and the deposit service against its tree.  BrowserFlow: what the flows of the
  browser share, as programs over their calls (type flow): the API, the node, the wallet extension,
  the prover and the session cache; stealthVault.ts, the signing and sending, the way through the
  mixer.  BrowserExit: privateLifecycle.ts and privateExit.ts.  BrowserClaim: privateClaim.ts,
  privateDeposit.ts and privateRebalance.ts.  BrowserSafety: the privacy policy, an automaton over
  the calls of a flow and their answers (bstep) that compares every request with what was answered
  before: who is named, what is signed and sent, which pool the mixer is asked for and what a position
  is funded with; with rules for the shared parts.  BrowserPrivacy: the four flows keep it whatever is
  answered, and a finished flow reports what was sent.  BrowserSteps: the steps a flow reports.
  BrowserOutcomes: what becomes of an exit that stops between close and swap, for every answer, with
  an example in a small environment, and the worth of its estimate.  BrowserStores: localPositions.ts, tosAck.ts and stealthAck.ts over one local
  storage, what the modals and pages write to it after a flow, and which stealth wallet a record
  opens; its theorems are over histories of page events (page_step).  BrowserViews: the portfolio of
  usePortfolioPositions.ts and pnl.ts, the network gate of networkStatus.ts and solana/config.ts, and the
  choice of a mixer pool against the configured gate of the API.  BrowserHelpers: bins.ts and use-toast.ts.

  PrivateDeposits: deposits.controller.ts, the privacy adapters, pods and executors the position
  service and this endpoint talk to; the deposit flow of the browser run against the endpoint
  (via_api).  SolanaTx: common/solana-tx.ts, the attempts, compute limit and priority fee of a
  submission, on a chain that pays a nullifier once; it refines the landing the relayer model takes
  for one submission.

  Parameters.  PublicKey, base58, base64, Ed25519, Poseidon, the Groth16 verifier and the
  derivation of program addresses are arguments (records crypto, verifier, chain_lib); theorems
  name what they need of them (an injective hash, fresh random texts).  What a node answers is an
  argument of the mixer and executor operations (exec_node) and part of the environment of the others.  The
  Merkle tree class is the record merkle_lib, what the browser computes with is the record web.  The
  SDKs of Solana and of the DLMM are the record sdk: keys, derived addresses, the curve; theorems on
  proceeds ask that the authorities of a wallet are derived for no other wallet.  The mixer program
  is the behaviour of SubmitWithdraw: it refuses a nullifier whose account exists.

  Bounds.  Hydration reads at most 50 pages of signatures, as the code does; the recovery scans
  take at most SCAN_BATCH_LIMIT rows.  No other fuel is used: programs are finite trees and all
  recursion is structural or has a measure; the attempts of a submission are measured by the
  attempts left.

  Strings are lists of 8-bit characters; text outside that range and lone surrogates are outside
  the model, but for the fixed texts of the pages, written as their UTF-8 bytes.  JSON bodies are modelled by the fields the handlers read, with missing and mistyped
  fields where the handlers test for them.

  One step where the source has several: updateExecutionSession (a findFirst and an update of the one
  session of a position); the two cap queries of a Promise.all are asked in turn; a hydration is one
  step of the mixer service, but its invariant is proved event by event.  Leaf indices of confirmed
  deposits and bins of liquidity parameters are integers, though the handlers do not check it.

  Not modelled: log lines, metrics and observability; the group listings of the mainnet indexer and
  the proxy of the devnet list, which forward untyped bodies; price, token and waitlist endpoints;
  configuration parsing; the rendering of the pages and components of the web application, the search and
  sorting of its pool table, and the texts and data of its step events; the mixer program, the
  admin instructions of the executor program and the effect of its calls on token balances; the
  circuits; the wallet stamper of the test harness.
\<close>

end
